(* ===== verification/Prelude.thy ===== *)
theory Prelude
  imports Main "HOL-Library.Word"
begin

text \<open>
  Shared vocabulary of the development: Rust string slices as lists of UTF-8 bytes, the
  operations of the Rust standard library on them that the tool uses (\<open>trim\<close>, \<open>split\<close>,
  \<open>find\<close>, \<open>lines\<close>, \<open>split_whitespace\<close>, decimal formatting and parsing), and the general
  lemmas on them that the component theories share.

  A \<open>&str\<close> is valid UTF-8, and every pattern the tool searches for is ASCII (or a fixed
  UTF-8 literal), so byte offsets, slices and comparisons on the byte list are those of the
  Rust code. White space is the Unicode \<open>White_Space\<close> set, matched by its UTF-8 encodings.
\<close>

section \<open>Collections of facts\<close>

named_theorems str_simps \<open>evaluation of the string operations\<close>
named_theorems wf_intros \<open>well-formedness of reports and checks\<close>

section \<open>Literals outside printable ASCII\<close>

definition nl :: string where
  "nl = [CHR 0x0A]"

definition quote1 :: "string \<Rightarrow> string" where
  "quote1 s = [CHR 0x27] @ s @ [CHR 0x27]"

definition em_dash :: string where
  "em_dash = [CHR 0xE2, CHR 0x80, CHR 0x94]"

definition arrow :: string where
  "arrow = [CHR 0xE2, CHR 0x86, CHR 0x92]"

section \<open>Prefixes, suffixes, search\<close>

fun strip_prefix :: "string \<Rightarrow> string \<Rightarrow> string option" where
  "strip_prefix s [] = Some s"
| "strip_prefix [] (p # ps) = None"
| "strip_prefix (c # cs) (p # ps) = (if c = p then strip_prefix cs ps else None)"

definition starts_with :: "string \<Rightarrow> string \<Rightarrow> bool" where
  "starts_with s p = (strip_prefix s p \<noteq> None)"

definition strip_suffix :: "string \<Rightarrow> string \<Rightarrow> string option" where
  "strip_suffix s p = map_option rev (strip_prefix (rev s) (rev p))"

definition ends_with :: "string \<Rightarrow> string \<Rightarrow> bool" where
  "ends_with s p = (strip_suffix s p \<noteq> None)"

text \<open>\<open>s.find(pat)\<close>: the byte offset of the first match.\<close>

fun find_sub :: "string \<Rightarrow> string \<Rightarrow> nat option" where
  "find_sub [] p = (if p = [] then Some 0 else None)"
| "find_sub (c # cs) p =
     (if starts_with (c # cs) p then Some 0 else map_option Suc (find_sub cs p))"

definition contains :: "string \<Rightarrow> string \<Rightarrow> bool" where
  "contains s p = (find_sub s p \<noteq> None)"

text \<open>\<open>s.rfind(c)\<close> for one ASCII character.\<close>

definition rfind_char :: "string \<Rightarrow> char \<Rightarrow> nat option" where
  "rfind_char s c = map_option (\<lambda>k. length s - 1 - k) (find_sub (rev s) [c])"

text \<open>\<open>s.matches(c).count()\<close> for one ASCII character.\<close>

definition count_char :: "string \<Rightarrow> char \<Rightarrow> nat" where
  "count_char s c = length (filter (\<lambda>x. x = c) s)"

section \<open>Splitting\<close>

lemma map_filter_mem: "y \<in> set (List.map_filter f xs) \<longleftrightarrow> (\<exists>x\<in>set xs. f x = Some y)"
  by (induction xs) (auto simp: List.map_filter_simps split: option.splits)

lemma find_sub_length: "find_sub s p = Some i \<Longrightarrow> i + length p \<le> length s"
proof (induction s arbitrary: i)
  case Nil
  then show ?case by (auto split: if_splits)
next
  case (Cons c cs)
  have len: "strip_prefix s p = Some r \<Longrightarrow> length r + length p = length s" for s r
    by (induction s p rule: strip_prefix.induct) (auto split: if_splits)
  show ?case
  proof (cases "starts_with (c # cs) p")
    case True
    then obtain r where "strip_prefix (c # cs) p = Some r"
      by (auto simp: starts_with_def)
    from len [OF this] True Cons.prems show ?thesis by simp
  next
    case False
    with Cons show ?thesis by auto
  qed
qed

text \<open>
  \<open>s.split(pat)\<close> for a non-empty pattern; the tool never splits on the empty string.
\<close>

function split_on :: "string \<Rightarrow> string \<Rightarrow> string list" where
  "split_on s p =
     (if p = [] then [s]
      else (case find_sub s p of
              None \<Rightarrow> [s]
            | Some i \<Rightarrow> take i s # split_on (drop (i + length p) s) p))"
  by pat_completeness auto
termination
proof (relation "measure (\<lambda>(s, p). length s)", goal_cases)
  case 1
  show ?case by simp
next
  case (2 s p i)
  from find_sub_length [OF 2(2)] 2(1) show ?case by (cases p) auto
qed

declare split_on.simps [simp del]

text \<open>The first piece, \<open>s.split(pat).next()\<close>, and the last, \<open>s.rsplit(pat).next()\<close>.\<close>

definition split_first :: "string \<Rightarrow> string \<Rightarrow> string" where
  "split_first s p = (case find_sub s p of None \<Rightarrow> s | Some i \<Rightarrow> take i s)"

definition split_last :: "string \<Rightarrow> string \<Rightarrow> string" where
  "split_last s p = last (split_on s p)"

fun join :: "string \<Rightarrow> string list \<Rightarrow> string" where
  "join sep [] = []"
| "join sep [x] = x"
| "join sep (x # y # ys) = x @ sep @ join sep (y # ys)"

section \<open>White space\<close>

definition ascii_ws :: "char \<Rightarrow> bool" where
  "ascii_ws c = (c = CHR 0x20 \<or> c = CHR 0x09 \<or> c = CHR 0x0A \<or> c = CHR 0x0B
                 \<or> c = CHR 0x0C \<or> c = CHR 0x0D)"

text \<open>
  The other code points with \<open>White_Space\<close>: U+0085, U+00A0, U+1680, U+2000 to U+200A,
  U+2028, U+2029, U+202F, U+205F and U+3000.
\<close>

definition multi_ws :: "string list" where
  "multi_ws =
     [[CHR 0xC2, CHR 0x85], [CHR 0xC2, CHR 0xA0], [CHR 0xE1, CHR 0x9A, CHR 0x80],
      [CHR 0xE2, CHR 0x80, CHR 0x80], [CHR 0xE2, CHR 0x80, CHR 0x81],
      [CHR 0xE2, CHR 0x80, CHR 0x82], [CHR 0xE2, CHR 0x80, CHR 0x83],
      [CHR 0xE2, CHR 0x80, CHR 0x84], [CHR 0xE2, CHR 0x80, CHR 0x85],
      [CHR 0xE2, CHR 0x80, CHR 0x86], [CHR 0xE2, CHR 0x80, CHR 0x87],
      [CHR 0xE2, CHR 0x80, CHR 0x88], [CHR 0xE2, CHR 0x80, CHR 0x89],
      [CHR 0xE2, CHR 0x80, CHR 0x8A], [CHR 0xE2, CHR 0x80, CHR 0xA8],
      [CHR 0xE2, CHR 0x80, CHR 0xA9], [CHR 0xE2, CHR 0x80, CHR 0xAF],
      [CHR 0xE2, CHR 0x81, CHR 0x9F], [CHR 0xE3, CHR 0x80, CHR 0x80]]"

text \<open>The bytes a multi-byte white-space character can start or end with.\<close>

definition multi_ws_heads :: string where
  "multi_ws_heads = [CHR 0xC2, CHR 0xE1, CHR 0xE2, CHR 0xE3]"

definition plain_char :: "char \<Rightarrow> bool" where
  "plain_char c = (\<not> ascii_ws c \<and> (of_char c :: nat) < 128)"

fun strip_any :: "string list \<Rightarrow> string \<Rightarrow> string option" where
  "strip_any [] s = None"
| "strip_any (t # ts) s =
     (case strip_prefix s t of Some r \<Rightarrow> Some r | None \<Rightarrow> strip_any ts s)"

text \<open>\<open>strip_ws s\<close> removes one leading white-space character, if there is one.\<close>

fun strip_ws :: "string \<Rightarrow> string option" where
  "strip_ws [] = None"
| "strip_ws (c # cs) =
     (if ascii_ws c then Some cs
      else if (of_char c :: nat) < 128 then None
      else strip_any multi_ws (c # cs))"

text \<open>The same from the end: the argument is the reversed string.\<close>

fun strip_ws_rev :: "string \<Rightarrow> string option" where
  "strip_ws_rev [] = None"
| "strip_ws_rev (c # cs) =
     (if ascii_ws c then Some cs
      else if (of_char c :: nat) < 128 then None
      else strip_any (map rev multi_ws) (c # cs))"

lemma strip_prefix_length:
  "strip_prefix s p = Some r \<Longrightarrow> length r + length p = length s"
  by (induction s p rule: strip_prefix.induct) (auto split: if_splits)

lemma strip_any_length:
  "strip_any ts s = Some r \<Longrightarrow> \<forall>t\<in>set ts. t \<noteq> [] \<Longrightarrow> length r < length s"
proof (induction ts)
  case (Cons t ts)
  show ?case
  proof (cases "strip_prefix s t")
    case None
    with Cons show ?thesis by simp
  next
    case (Some r')
    with Cons.prems strip_prefix_length [OF Some] show ?thesis by (cases t) auto
  qed
qed simp

lemma multi_ws_nonempty: "\<forall>t\<in>set multi_ws. t \<noteq> []" "\<forall>t\<in>set (map rev multi_ws). t \<noteq> []"
  by (simp_all add: multi_ws_def)

lemma strip_ws_length: "strip_ws s = Some r \<Longrightarrow> length r < length s"
  using strip_any_length [OF _ multi_ws_nonempty(1)]
  by (cases s) (force split: if_splits)+

lemma strip_ws_rev_length: "strip_ws_rev s = Some r \<Longrightarrow> length r < length s"
  using strip_any_length [OF _ multi_ws_nonempty(2)]
  by (cases s) (force split: if_splits)+

function trim_start :: "string \<Rightarrow> string" where
  "trim_start s = (case strip_ws s of None \<Rightarrow> s | Some r \<Rightarrow> trim_start r)"
  by pat_completeness auto
termination by (relation "measure length") (auto dest: strip_ws_length)

function trim_rev :: "string \<Rightarrow> string" where
  "trim_rev s = (case strip_ws_rev s of None \<Rightarrow> s | Some r \<Rightarrow> trim_rev r)"
  by pat_completeness auto
termination by (relation "measure length") (auto dest: strip_ws_rev_length)

declare trim_start.simps [simp del] trim_rev.simps [simp del]

definition trim_end :: "string \<Rightarrow> string" where
  "trim_end s = rev (trim_rev (rev s))"

definition trim :: "string \<Rightarrow> string" where
  "trim s = trim_end (trim_start s)"

text \<open>\<open>trim_start_matches(c)\<close> and \<open>trim_end_matches(c)\<close> for one ASCII character.\<close>

definition trim_start_char :: "string \<Rightarrow> char \<Rightarrow> string" where
  "trim_start_char s c = dropWhile (\<lambda>x. x = c) s"

definition trim_end_char :: "string \<Rightarrow> char \<Rightarrow> string" where
  "trim_end_char s c = rev (dropWhile (\<lambda>x. x = c) (rev s))"

definition trim_char :: "string \<Rightarrow> char \<Rightarrow> string" where
  "trim_char s c = trim_end_char (trim_start_char s c) c"

text \<open>
  The same for a non-empty string, removed as often as it occurs; for the empty one Rust
  removes nothing either.
\<close>

function trim_start_str :: "string \<Rightarrow> string \<Rightarrow> string" where
  "trim_start_str s p =
     (case strip_prefix s p of
        None \<Rightarrow> s
      | Some r \<Rightarrow> if p = [] then s else trim_start_str r p)"
  by pat_completeness auto
termination
  by (relation "measure (\<lambda>(s, p). length s)")
    (auto dest!: strip_prefix_length simp flip: length_greater_0_conv)

declare trim_start_str.simps [simp del]

definition trim_end_str :: "string \<Rightarrow> string \<Rightarrow> string" where
  "trim_end_str s p = rev (trim_start_str (rev s) (rev p))"

text \<open>
  \<open>split_ws\<close> is \<open>split_whitespace\<close>: maximal runs without white space, empty runs dropped.
  \<open>split_ws_once\<close> is \<open>splitn(2, char::is_whitespace)\<close>: \<open>None\<close> for the second piece when
  there is no white space at all.
\<close>

definition flush :: "string \<Rightarrow> string list" where
  "flush acc = (if acc = [] then [] else [rev acc])"

function split_ws_acc :: "string \<Rightarrow> string \<Rightarrow> string list" where
  "split_ws_acc acc [] = flush acc"
| "split_ws_acc acc (c # cs) =
     (case strip_ws (c # cs) of
        Some r \<Rightarrow> flush acc @ split_ws_acc [] r
      | None \<Rightarrow> split_ws_acc (c # acc) cs)"
  by pat_completeness auto
termination
  by (relation "measure (\<lambda>(acc, s). length s)")
     (auto simp del: strip_ws.simps dest: strip_ws_length)

definition split_ws :: "string \<Rightarrow> string list" where
  "split_ws s = split_ws_acc [] s"

fun split_ws_once :: "string \<Rightarrow> string \<times> string option" where
  "split_ws_once [] = ([], None)"
| "split_ws_once (c # cs) =
     (case strip_ws (c # cs) of
        Some r \<Rightarrow> ([], Some r)
      | None \<Rightarrow> (let (a, b) = split_ws_once cs in (c # a, b)))"

section \<open>Lines\<close>

text \<open>
  \<open>s.lines()\<close>: pieces ended by a line feed, a carriage return before it dropped, and no
  empty piece after the last line feed.
\<close>

definition chomp_cr :: "string \<Rightarrow> string" where
  "chomp_cr s = (case rev s of [] \<Rightarrow> [] | c # cs \<Rightarrow> if c = CHR 0x0D then rev cs else s)"

fun lines_acc :: "string \<Rightarrow> string \<Rightarrow> string list" where
  "lines_acc acc [] = flush acc"
| "lines_acc acc (c # cs) =
     (if c = CHR 0x0A then chomp_cr (rev acc) # lines_acc [] cs
      else lines_acc (c # acc) cs)"

definition str_lines :: "string \<Rightarrow> string list" where
  "str_lines s = lines_acc [] s"

section \<open>Decimal numbers\<close>

definition digit_char :: "nat \<Rightarrow> char" where
  "digit_char d = char_of (48 + d)"

fun show_nat :: "nat \<Rightarrow> string" where
  "show_nat n = (if n < 10 then [digit_char n] else show_nat (n div 10) @ [digit_char (n mod 10)])"

declare show_nat.simps [simp del]

definition digit_val :: "char \<Rightarrow> nat option" where
  "digit_val c =
     (let k = (of_char c :: nat) in if 48 \<le> k \<and> k \<le> 57 then Some (k - 48) else None)"

fun parse_digits :: "nat \<Rightarrow> string \<Rightarrow> nat option" where
  "parse_digits n [] = Some n"
| "parse_digits n (c # cs) =
     (case digit_val c of
        None \<Rightarrow> None
      | Some d \<Rightarrow> if 10 * n + d < 2 ^ 64 then parse_digits (10 * n + d) cs else None)"

text \<open>
  \<open>s.parse::<usize>()\<close>: an optional plus sign, at least one digit, and a value that fits
  64 bits.
\<close>

definition parse_usize :: "string \<Rightarrow> nat option" where
  "parse_usize s =
     (case s of
        [] \<Rightarrow> None
      | c # cs \<Rightarrow>
          (if c = CHR ''+'' then (if cs = [] then None else parse_digits 0 cs)
           else parse_digits 0 (c # cs)))"

section \<open>Debug output\<close>

text \<open>
  \<open>{:?}\<close> of strings, lists and options. Characters beyond ASCII are printed as they are; of the
  control characters the ones with no escape of their own are printed as \<open>\u{..}\<close>.
\<close>

definition hex_char :: "nat \<Rightarrow> char" where
  "hex_char d = (if d < 10 then char_of (48 + d) else char_of (87 + d))"

fun show_hex :: "nat \<Rightarrow> string" where
  "show_hex n = (if n < 16 then [hex_char n] else show_hex (n div 16) @ [hex_char (n mod 16)])"

declare show_hex.simps [simp del]

definition debug_char :: "char \<Rightarrow> string" where
  "debug_char c =
     (let n = (of_char c :: nat) in
      if c = CHR 0x22 \<or> c = CHR 0x5C then [CHR 0x5C, c]
      else if n = 0 then [CHR 0x5C, CHR ''0'']
      else if n = 9 then [CHR 0x5C, CHR ''t'']
      else if n = 10 then [CHR 0x5C, CHR ''n'']
      else if n = 13 then [CHR 0x5C, CHR ''r'']
      else if n < 32 \<or> n = 127 then [CHR 0x5C, CHR ''u''] @ ''{'' @ show_hex n @ ''}''
      else [c])"

definition debug_string :: "string \<Rightarrow> string" where
  "debug_string s = [CHR 0x22] @ concat (map debug_char s) @ [CHR 0x22]"

definition debug_strings :: "string list \<Rightarrow> string" where
  "debug_strings xs = ''['' @ join '', '' (map debug_string xs) @ '']''"

section \<open>Lemmas on prefixes and search\<close>

lemma strip_prefix_Some: "strip_prefix s p = Some r \<longleftrightarrow> s = p @ r"
  by (induction s p rule: strip_prefix.induct) auto

lemma strip_prefix_append [simp]: "strip_prefix (p @ s) p = Some s"
  by (simp add: strip_prefix_Some)

lemma starts_with_iff: "starts_with s p \<longleftrightarrow> (\<exists>r. s = p @ r)"
  by (simp add: starts_with_def strip_prefix_Some)

lemma starts_with_append [simp]: "starts_with (p @ s) p"
  by (simp add: starts_with_def)

lemma starts_with_Nil [simp]: "starts_with s []"
  by (simp add: starts_with_def)

lemma starts_with_Cons:
  "starts_with (c # cs) (p # ps) \<longleftrightarrow> c = p \<and> starts_with cs ps"
  by (simp add: starts_with_def)

lemma starts_with_Nil_Cons [simp]: "\<not> starts_with [] (p # ps)"
  by (simp add: starts_with_def)

lemma starts_with_single: "starts_with (c # cs) [d] \<longleftrightarrow> c = d"
  by (simp add: starts_with_Cons)

lemma contains_iff: "contains s p \<longleftrightarrow> (\<exists>a b. s = a @ p @ b)"
proof (induction s)
  case Nil
  show ?case by (auto simp: contains_def)
next
  case (Cons c cs)
  have step: "contains (c # cs) p \<longleftrightarrow> starts_with (c # cs) p \<or> contains cs p"
    by (simp add: contains_def)
  have split: "(\<exists>a b. c # cs = a @ p @ b) \<longleftrightarrow> (\<exists>b. c # cs = p @ b) \<or> (\<exists>a b. cs = a @ p @ b)"
    (is "?l \<longleftrightarrow> ?r1 \<or> ?r2")
  proof
    assume ?l
    then obtain a b where ab: "c # cs = a @ p @ b" by blast
    show "?r1 \<or> ?r2"
    proof (cases a)
      case Nil
      with ab show ?thesis by auto
    next
      case (Cons x xs)
      with ab show ?thesis by auto
    qed
  next
    assume "?r1 \<or> ?r2"
    then show ?l
    proof
      assume ?r1
      then show ?l by (metis append_Nil)
    next
      assume ?r2
      then show ?l by (metis append_Cons)
    qed
  qed
  show ?case unfolding step split Cons.IH starts_with_iff by simp
qed

lemma find_sub_Some_split:
  "find_sub s p = Some i \<Longrightarrow> s = take i s @ p @ drop (i + length p) s"
proof (induction s arbitrary: i)
  case Nil
  then show ?case by (auto split: if_splits)
next
  case (Cons c cs)
  show ?case
  proof (cases "starts_with (c # cs) p")
    case True
    with Cons.prems have "i = 0" by simp
    moreover from True obtain r where "c # cs = p @ r" by (auto simp: starts_with_iff)
    ultimately show ?thesis by simp
  next
    case False
    with Cons.prems obtain j where j: "find_sub cs p = Some j" "i = Suc j" by auto
    from Cons.IH [OF j(1)] j(2) show ?thesis by simp
  qed
qed

lemma find_sub_single:
  "find_sub s [c] = (if c \<in> set s then Some (length (takeWhile (\<lambda>x. x \<noteq> c) s)) else None)"
  by (induction s) (auto simp: starts_with_Cons)

lemma find_sub_single_append:
  "c \<notin> set a \<Longrightarrow> find_sub (a @ c # b) [c] = Some (length a)"
  by (induction a) (auto simp: starts_with_Cons)

lemma find_sub_None_single: "c \<notin> set s \<Longrightarrow> find_sub s [c] = None"
  by (simp add: find_sub_single)

lemma contains_single: "contains s [c] \<longleftrightarrow> c \<in> set s"
  by (simp add: contains_def find_sub_single)

lemma find_sub_None_head:
  "p \<notin> set s \<Longrightarrow> find_sub s (p # ps) = None"
  by (induction s) (auto simp: starts_with_Cons)

lemma split_first_no_head: "p \<notin> set s \<Longrightarrow> split_first s (p # ps) = s"
  by (simp add: split_first_def find_sub_None_head)

lemma count_char_simps [simp]:
  "count_char [] c = 0" "count_char (x # s) c = (if x = c then Suc (count_char s c) else count_char s c)"
  by (simp_all add: count_char_def)

lemma count_char_zero: "c \<notin> set s \<Longrightarrow> count_char s c = 0"
  by (induction s) (auto simp: count_char_def)

lemma count_char_append: "count_char (a @ b) c = count_char a c + count_char b c"
  by (simp add: count_char_def)

section \<open>Lemmas on splitting\<close>

lemma split_on_nonempty [simp]: "split_on s p \<noteq> []"
  by (subst split_on.simps) (auto split: option.splits)

lemma join_Cons: "ys \<noteq> [] \<Longrightarrow> join sep (x # ys) = x @ sep @ join sep ys"
  by (cases ys) auto

text \<open>Splitting loses nothing: joining the pieces gives the string back.\<close>

lemma join_split_on: "p \<noteq> [] \<Longrightarrow> join p (split_on s p) = s"
proof (induction s p rule: split_on.induct)
  case (1 s p)
  show ?case
  proof (cases "find_sub s p")
    case None
    with 1 show ?thesis by (simp add: split_on.simps [of s])
  next
    case (Some i)
    with 1 have "join p (split_on (drop (i + length p) s) p) = drop (i + length p) s"
      by simp
    with Some 1 find_sub_Some_split [OF Some] show ?thesis
      by (simp add: split_on.simps [of s] join_Cons)
  qed
qed

lemma split_on_hd: "hd (split_on s p) = (if p = [] then s else split_first s p)"
  by (subst split_on.simps) (auto simp: split_first_def split: option.splits)

lemma split_first_Nil [simp]: "split_first [] (p # ps) = []"
  by (simp add: split_first_def)

lemma split_on_single_char:
  "split_on (a @ c # b) [c] = a # split_on b [c]" if "c \<notin> set a"
  using that by (subst split_on.simps) (simp add: find_sub_single_append)

lemma split_on_no_char: "c \<notin> set a \<Longrightarrow> split_on a [c] = [a]"
  by (subst split_on.simps) (simp add: find_sub_None_single)

lemma split_first_char: "split_first s [c] = takeWhile (\<lambda>x. x \<noteq> c) s"
proof (cases "c \<in> set s")
  case True
  then have "take (length (takeWhile (\<lambda>x. x \<noteq> c) s)) s = takeWhile (\<lambda>x. x \<noteq> c) s"
    by (metis append_eq_conv_conj takeWhile_dropWhile_id)
  with True show ?thesis by (simp add: split_first_def find_sub_single)
next
  case False
  then have "takeWhile (\<lambda>x. x \<noteq> c) s = s"
    by (induction s) auto
  with False show ?thesis
    by (simp add: split_first_def find_sub_single del: takeWhile_eq_all_conv)
qed

section \<open>Lemmas on white space\<close>

lemma plain_char_strip_ws: "plain_char c \<Longrightarrow> strip_ws (c # cs) = None"
  by (simp add: plain_char_def)

lemma plain_char_strip_ws_rev: "plain_char c \<Longrightarrow> strip_ws_rev (c # cs) = None"
  by (simp add: plain_char_def)

lemma ascii_ws_strip_ws: "ascii_ws c \<Longrightarrow> strip_ws (c # cs) = Some cs"
  by simp

lemma trim_start_plain: "plain_char c \<Longrightarrow> trim_start (c # cs) = c # cs"
  by (subst trim_start.simps) (simp add: plain_char_strip_ws del: strip_ws.simps)

lemma trim_start_Nil [simp]: "trim_start [] = []"
  by (subst trim_start.simps) simp

lemma trim_rev_Nil [simp]: "trim_rev [] = []"
  by (subst trim_rev.simps) simp

lemma trim_end_Nil [simp]: "trim_end [] = []"
  by (simp add: trim_end_def)

lemma trim_Nil [simp]: "trim [] = []"
  by (simp add: trim_def)

lemma trim_start_ascii_ws: "ascii_ws c \<Longrightarrow> trim_start (c # cs) = trim_start cs"
  by (subst trim_start.simps) (simp add: ascii_ws_strip_ws)

lemma trim_start_ascii_ws_append:
  "\<forall>c\<in>set ws. ascii_ws c \<Longrightarrow> trim_start (ws @ s) = trim_start s"
  by (induction ws) (auto simp: trim_start_ascii_ws)

lemma trim_end_plain: "plain_char c \<Longrightarrow> trim_end (cs @ [c]) = cs @ [c]"
  unfolding trim_end_def
  by (subst trim_rev.simps) (simp add: plain_char_strip_ws_rev del: strip_ws_rev.simps)

lemma trim_rev_ascii_ws: "ascii_ws c \<Longrightarrow> trim_rev (c # cs) = trim_rev cs"
  by (subst trim_rev.simps) simp

lemma trim_end_ascii_ws: "ascii_ws c \<Longrightarrow> trim_end (cs @ [c]) = trim_end cs"
  by (simp add: trim_end_def trim_rev_ascii_ws)

lemma trim_end_ascii_ws_append:
  "\<forall>c\<in>set ws. ascii_ws c \<Longrightarrow> trim_end (s @ ws) = trim_end s"
proof (induction ws arbitrary: s rule: rev_induct)
  case Nil
  show ?case by simp
next
  case (snoc c ws)
  then have "trim_end ((s @ ws) @ [c]) = trim_end (s @ ws)"
    by (intro trim_end_ascii_ws) simp
  with snoc show ?case by simp
qed

definition plain_ends :: "string \<Rightarrow> bool" where
  "plain_ends s = (s \<noteq> [] \<and> plain_char (hd s) \<and> plain_char (last s))"

lemma trim_plain_ends: "plain_ends s \<Longrightarrow> trim s = s"
  unfolding plain_ends_def
  by (metis append_butlast_last_id list.collapse trim_def trim_end_plain trim_start_plain)

lemma trim_pad:
  assumes "plain_ends s" "\<forall>c\<in>set a. ascii_ws c" "\<forall>c\<in>set b. ascii_ws c"
  shows "trim (a @ s @ b) = s"
proof -
  from assms(1) obtain c cs where s: "s = c # cs" "plain_char c"
    by (cases s) (auto simp: plain_ends_def)
  have "trim_start (a @ s @ b) = s @ b"
    using assms(2) s by (simp add: trim_start_ascii_ws_append trim_start_plain)
  moreover have "trim_end (s @ b) = trim_end s"
    using assms(3) by (rule trim_end_ascii_ws_append)
  moreover have "trim_end s = s"
    using assms(1) by (metis append_butlast_last_id plain_ends_def trim_end_plain)
  ultimately show ?thesis by (simp add: trim_def)
qed

lemma trim_all_ws: "\<forall>c\<in>set s. ascii_ws c \<Longrightarrow> trim s = []"
  using trim_start_ascii_ws_append [of s "[]"] by (simp add: trim_def)

lemma strip_any_Some: "strip_any ts s = Some r \<Longrightarrow> \<exists>t\<in>set ts. s = t @ r"
  by (induction ts) (auto split: option.splits simp: strip_prefix_Some)

lemma strip_ws_rev_Some:
  assumes "strip_ws_rev s = Some r"
  shows "\<exists>t. s = t @ r \<and> (\<forall>c\<in>set t. \<not> plain_char c)"
proof (cases s)
  case (Cons c cs)
  show ?thesis
  proof (cases "ascii_ws c")
    case True
    with assms Cons show ?thesis by (auto simp: plain_char_def intro!: exI [of _ "[c]"])
  next
    case False
    with assms Cons have "strip_any (map rev multi_ws) s = Some r" by (simp split: if_splits)
    from strip_any_Some [OF this] obtain t where "t \<in> set (map rev multi_ws)" "s = t @ r" by blast
    moreover have "\<forall>t\<in>set (map rev multi_ws). \<forall>c\<in>set t. \<not> plain_char c"
      by (simp add: multi_ws_def plain_char_def)
    ultimately show ?thesis by blast
  qed
qed (use assms in simp)

lemma trim_rev_last: "plain_char c \<Longrightarrow> trim_rev (s @ [c]) \<noteq> []"
proof (induction "s @ [c]" arbitrary: s rule: trim_rev.induct)
  case 1
  show ?case
  proof (cases "strip_ws_rev (s @ [c])")
    case None
    then show ?thesis by (simp add: trim_rev.simps [of "s @ [c]"])
  next
    case (Some r)
    from strip_ws_rev_Some [OF this] obtain t where t: "s @ [c] = t @ r"
      "\<forall>c\<in>set t. \<not> plain_char c" by blast
    with 1(2) have "r \<noteq> []" by (metis append_Nil2 in_set_conv_decomp)
    with t(1) obtain s' where "r = s' @ [c]" by (metis last_append append_butlast_last_id last_snoc)
    with 1 Some show ?thesis by (simp add: trim_rev.simps [of "s @ [c]"])
  qed
qed

lemma trim_plain_head: "plain_char c \<Longrightarrow> trim (c # cs) \<noteq> []"
  using trim_rev_last [of c "rev cs"] by (simp add: trim_def trim_end_def trim_start_plain)

text \<open>Words: non-empty strings of plain characters.\<close>

definition plain_word :: "string \<Rightarrow> bool" where
  "plain_word w = (w \<noteq> [] \<and> (\<forall>c\<in>set w. plain_char c))"

lemma plain_word_ends [simp, intro]: "plain_word w \<Longrightarrow> plain_ends w"
  by (auto simp: plain_word_def plain_ends_def)

lemma plain_word_append:
  "plain_word a \<Longrightarrow> plain_word b \<Longrightarrow> plain_word (a @ b)"
  by (auto simp: plain_word_def)

lemma split_ws_acc_plain:
  "\<forall>c\<in>set w. plain_char c \<Longrightarrow> split_ws_acc acc (w @ s) = split_ws_acc (rev w @ acc) s"
  by (induction w arbitrary: acc) (auto simp: plain_char_strip_ws simp del: strip_ws.simps)

lemma split_ws_acc_space:
  "ascii_ws c \<Longrightarrow> split_ws_acc acc (c # s) = flush acc @ split_ws_acc [] s"
  by (simp add: ascii_ws_strip_ws)

lemma split_ws_word: "plain_word w \<Longrightarrow> split_ws w = [w]"
  using split_ws_acc_plain [of w "[]" "[]"] by (simp add: split_ws_def flush_def plain_word_def)

lemma split_ws_word_space:
  assumes "plain_word w" "ascii_ws c"
  shows "split_ws (w @ c # s) = w # split_ws s"
  using split_ws_acc_plain [of w "[]" "c # s"] assms
  by (simp add: split_ws_def split_ws_acc_space plain_word_def flush_def)

lemma split_ws_join:
  assumes "\<forall>w\<in>set ws. plain_word w"
  shows "split_ws (join '' '' ws) = ws"
  using assms
proof (induction "'' ''" ws rule: join.induct)
  case 1
  show ?case by (simp add: split_ws_def flush_def)
next
  case (2 x)
  then show ?case by (simp add: split_ws_word)
next
  case (3 x y ys)
  then have "split_ws (x @ CHR '' '' # join '' '' (y # ys)) = x # split_ws (join '' '' (y # ys))"
    by (intro split_ws_word_space) (auto simp: ascii_ws_def)
  with 3 show ?case by simp
qed

lemma join_plain_ends:
  assumes "ws \<noteq> []" "\<forall>w\<in>set ws. plain_word w"
  shows "plain_ends (join sep ws)"
  using assms
proof (induction sep ws rule: join.induct)
  case (3 sep x y ys)
  then have "plain_ends (join sep (y # ys))" "plain_ends x" by auto
  then show ?case by (auto simp: plain_ends_def)
qed auto

lemma split_ws_once_word:
  "plain_word w \<Longrightarrow> ascii_ws c \<Longrightarrow> split_ws_once (w @ c # s) = (w, Some s)"
proof (induction w)
  case Nil
  then show ?case by (simp add: plain_word_def)
next
  case (Cons x xs)
  then show ?case
    by (cases xs)
       (auto simp: plain_word_def plain_char_strip_ws ascii_ws_strip_ws simp del: strip_ws.simps)
qed

lemma split_ws_once_plain: "\<forall>c\<in>set w. plain_char c \<Longrightarrow> split_ws_once w = (w, None)"
  by (induction w) (auto simp: plain_char_strip_ws simp del: strip_ws.simps)

section \<open>Lemmas on lines\<close>

lemma lines_acc_no_nl:
  "CHR 0x0A \<notin> set a \<Longrightarrow> lines_acc acc (a @ s) = lines_acc (rev a @ acc) s"
  by (induction a arbitrary: acc) auto

definition line_ok :: "string \<Rightarrow> bool" where
  "line_ok l = (CHR 0x0A \<notin> set l \<and> (l = [] \<or> last l \<noteq> CHR 0x0D))"

lemma chomp_cr_ok: "line_ok l \<Longrightarrow> chomp_cr l = l"
  by (cases l rule: rev_cases) (auto simp: chomp_cr_def line_ok_def)

lemma str_lines_Cons: "line_ok l \<Longrightarrow> str_lines (l @ nl @ s) = l # str_lines s"
  using lines_acc_no_nl [of l "[]" "nl @ s"]
  by (simp add: str_lines_def nl_def chomp_cr_ok) (simp add: line_ok_def)

lemma str_lines_Nil [simp]: "str_lines [] = []"
  by (simp add: str_lines_def flush_def)

lemma str_lines_concat:
  "\<forall>l\<in>set ls. line_ok l \<Longrightarrow> str_lines (concat (map (\<lambda>l. l @ nl) ls)) = ls"
  by (induction ls) (auto simp: str_lines_Cons)

section \<open>Lemmas on decimal numbers\<close>

lemma digit_val_char: "d < 10 \<Longrightarrow> digit_val (digit_char d) = Some d"
  by (simp add: digit_val_def digit_char_def Let_def)

lemma parse_digits_append:
  "parse_digits n (a @ b) = (case parse_digits n a of None \<Rightarrow> None | Some k \<Rightarrow> parse_digits k b)"
  by (induction n a rule: parse_digits.induct) (auto split: option.splits)

lemma show_nat_nonempty [simp]: "show_nat n \<noteq> []"
  by (subst show_nat.simps) simp

lemma parse_digits_show_nat: "n < 2 ^ 64 \<Longrightarrow> parse_digits 0 (show_nat n) = Some n"
proof (induction n rule: show_nat.induct)
  case (1 n)
  show ?case
  proof (cases "n < 10")
    case True
    then show ?thesis by (subst show_nat.simps) (simp add: digit_val_char)
  next
    case False
    with 1 have "parse_digits 0 (show_nat (n div 10)) = Some (n div 10)" by simp
    moreover have "10 * (n div 10) + n mod 10 = n" by simp
    ultimately show ?thesis
      using False "1.prems" by (subst show_nat.simps) (simp add: parse_digits_append digit_val_char)
  qed
qed

lemma show_nat_digits: "c \<in> set (show_nat n) \<Longrightarrow> \<exists>d<10. c = digit_char d"
proof (induction n rule: show_nat.induct)
  case (1 n)
  then show ?case
  proof (cases "n < 10")
    case True
    with 1 show ?thesis by (subst (asm) show_nat.simps) auto
  next
    case False
    with "1.prems" have "c \<in> set (show_nat (n div 10)) \<or> c = digit_char (n mod 10)"
      by (subst (asm) show_nat.simps) auto
    with "1.IH" False show ?thesis by (metis mod_less_divisor zero_less_numeral)
  qed
qed

lemma digit_char_of: "d < 10 \<Longrightarrow> (of_char (digit_char d) :: nat) = 48 + d"
  by (simp add: digit_char_def)

lemma digit_char_plain: "d < 10 \<Longrightarrow> plain_char (digit_char d)"
  using digit_char_of [of d] by (auto simp: plain_char_def ascii_ws_def)

lemma show_nat_plain_word: "plain_word (show_nat n)"
  using show_nat_digits digit_char_plain by (fastforce simp: plain_word_def)

lemma show_nat_no_plus: "CHR ''+'' \<notin> set (show_nat n)"
proof
  assume "CHR ''+'' \<in> set (show_nat n)"
  then obtain d where "d < 10" "CHR ''+'' = digit_char d" using show_nat_digits by blast
  then have "(of_char CHR ''+'' :: nat) = 48 + d" by (metis digit_char_of)
  then show False by simp
qed

text \<open>Formatting a number and parsing it back gives the number.\<close>

lemma parse_usize_show_nat: "n < 2 ^ 64 \<Longrightarrow> parse_usize (show_nat n) = Some n"
proof -
  assume n: "n < 2 ^ 64"
  obtain c cs where s: "show_nat n = c # cs" by (cases "show_nat n") auto
  then have "c \<noteq> CHR ''+''" using show_nat_no_plus [of n] by auto
  with s parse_digits_show_nat [OF n] show ?thesis by (simp add: parse_usize_def)
qed

end
