(* ===== verification/GoTypes.thy ===== *)
theory GoTypes
  imports Prelude
begin

text \<open>
  The structural facts extracted from Go sources (\<open>codeintel/types.rs\<close>).

  \<open>Visibility::from_name\<close> looks at the first character of a name. The model decides
  upper case for the ASCII letters; a name that starts with a letter outside ASCII counts as
  unexported here, where Rust consults the Unicode tables.
\<close>

record location =
  loc_file :: string
  loc_line :: nat

datatype visibility = Exported | Unexported

definition is_ascii_upper :: "char \<Rightarrow> bool" where
  "is_ascii_upper c = (65 \<le> (of_char c :: nat) \<and> (of_char c :: nat) \<le> 90)"

definition visibility_from_name :: "string \<Rightarrow> visibility" where
  "visibility_from_name name =
     (case name of
        [] \<Rightarrow> Unexported
      | c # _ \<Rightarrow> if is_ascii_upper c then Exported else Unexported)"

datatype import_kind = Stdlib | Internal | External

record go_import =
  im_path :: string
  im_alias :: "string option"
  im_kind :: import_kind
  im_location :: location

record struct_field =
  sf_name :: string
  sf_type_expr :: string
  sf_tag :: "string option"
  sf_embedded :: bool
  sf_visibility :: visibility
  sf_location :: location

record interface_method =
  mt_name :: string
  mt_signature :: string
  mt_location :: location

record interface_embed =
  em_type_name :: string
  em_location :: location

datatype type_kind =
    StructKind "struct_field list"
  | InterfaceKind "interface_method list" "interface_embed list"
  | AliasKind string

record go_type =
  ty_name :: string
  ty_kind :: type_kind
  ty_visibility :: visibility
  ty_location :: location

record param =
  pa_name :: string
  pa_type_expr :: string

record receiver =
  rc_name :: string
  rc_type_name :: string
  rc_pointer :: bool

record go_func =
  fn_name :: string
  fn_receiver :: "receiver option"
  fn_params :: "param list"
  fn_returns :: "param list"
  fn_visibility :: visibility
  fn_location :: location

record go_const =
  co_name :: string
  co_type_hint :: "string option"
  co_value :: "string option"
  co_visibility :: visibility
  co_location :: location

record go_var =
  va_name :: string
  va_type_hint :: "string option"
  va_value :: "string option"
  va_visibility :: visibility
  va_location :: location

record go_file =
  gf_path :: string
  gf_package :: string
  gf_imports :: "go_import list"
  gf_types :: "go_type list"
  gf_functions :: "go_func list"
  gf_constants :: "go_const list"
  gf_variables :: "go_var list"
  gf_is_test :: bool
  gf_line_count :: nat

record go_package =
  pk_name :: string
  pk_dir :: string
  pk_files :: "string list"
  pk_imports :: "go_import list"
  pk_types :: "go_type list"
  pk_functions :: "go_func list"
  pk_constants :: "go_const list"

record index_stats =
  is_total_files :: nat
  is_total_packages :: nat
  is_total_types :: nat
  is_total_functions :: nat
  is_total_constants :: nat
  is_total_imports :: nat
  is_total_lines :: nat
  is_structs :: nat
  is_interfaces :: nat
  is_type_aliases :: nat
  is_exported_types :: nat
  is_exported_functions :: nat
  is_test_files :: nat

record project_index =
  px_files :: "go_file list"
  px_packages :: "go_package list"
  px_stats :: index_stats

end
