(* ===== verification/GoParser.thy ===== *)
theory GoParser
  imports GoTypes
begin

text \<open>
  The line-based Go parser (\<open>codeintel/parser.rs\<close>). The vector of lines with the index
  \<open>i\<close> becomes the list of the lines from \<open>i\<close> on, with \<open>i\<close> kept beside it for the
  locations; a function that advances \<open>i\<close> returns the remaining lines and the new index.

  The brace depth in \<open>parse_struct_body\<close> and \<open>parse_interface_body\<close> is a \<open>usize\<close> from which
  the number of closing braces is subtracted, so it wraps below zero in a release build
  (and panics with overflow checks on): it is a 64-bit word here. The depths of
  \<open>split_params\<close> and \<open>find_matching_paren\<close> are signed and bounded by the length of the line.
\<close>

section \<open>Helpers\<close>

definition mk_loc :: "string \<Rightarrow> nat \<Rightarrow> location" where
  "mk_loc file line = \<lparr>loc_file = file, loc_line = line\<rparr>"

definition opt_list :: "'a option \<Rightarrow> 'a list" where
  "opt_list x = (case x of None \<Rightarrow> [] | Some y \<Rightarrow> [y])"

definition slash_slash :: string where
  "slash_slash = ''//''"

text \<open>The content of a line before a comment, trimmed.\<close>

definition before_comment :: "string \<Rightarrow> string" where
  "before_comment s = trim (split_first s slash_slash)"

definition is_comment :: "string \<Rightarrow> bool" where
  "is_comment s = starts_with s slash_slash"

definition extract_quoted :: "string \<Rightarrow> string option" where
  "extract_quoted s =
     (case find_sub s [CHR 0x22] of
        None \<Rightarrow> None
      | Some start \<Rightarrow>
          (case find_sub (drop (start + 1) s) [CHR 0x22] of
             None \<Rightarrow> None
           | Some e \<Rightarrow> Some (take e (drop (start + 1) s))))"

section \<open>Package\<close>

fun extract_package :: "string list \<Rightarrow> string" where
  "extract_package [] = []"
| "extract_package (l # ls) =
     (let trimmed = trim l in
      case strip_prefix trimmed ''package '' of
        Some rest \<Rightarrow> before_comment (trim rest)
      | None \<Rightarrow> extract_package ls)"

section \<open>Imports\<close>

definition default_module_prefix :: string where
  "default_module_prefix = ''quality-service/internal/''"

definition classify_import :: "string \<Rightarrow> import_kind" where
  "classify_import path =
     (if contains path default_module_prefix \<or> contains path ''/internal/'' then Internal
      else if \<not> contains (split_first path ''/'') ''.'' then Stdlib
      else External)"

definition parse_import_line :: "string \<Rightarrow> string option \<times> string option" where
  "parse_import_line line =
     (let content = before_comment (trim line) in
      case find_sub content [CHR 0x22] of
        None \<Rightarrow> (None, None)
      | Some start \<Rightarrow>
          (case find_sub (drop (start + 1) content) [CHR 0x22] of
             None \<Rightarrow> (None, None)
           | Some e \<Rightarrow>
               (let path = take e (drop (start + 1) content);
                    before = trim (take start content);
                    alias = (if before = [] \<or> before = ''.'' \<or> before = ''_''
                             then (if before = ''.'' \<or> before = ''_'' then Some before else None)
                             else Some before)
                in (alias, Some path))))"

definition mk_import :: "string \<Rightarrow> nat \<Rightarrow> string option \<Rightarrow> string \<Rightarrow> go_import" where
  "mk_import file line alias path =
     \<lparr>im_path = path, im_alias = alias, im_kind = classify_import path,
      im_location = mk_loc file line\<rparr>"

fun imports_loop :: "string \<Rightarrow> nat \<Rightarrow> bool \<Rightarrow> string list \<Rightarrow> go_import list" where
  "imports_loop file i in_block [] = []"
| "imports_loop file i in_block (l # ls) =
     (let trimmed = trim l in
      if starts_with trimmed (''import '' @ [CHR 0x22])
         \<or> starts_with trimmed (''import'' @ [CHR 0x09, CHR 0x22])
      then opt_list (map_option (mk_import file (i + 1) None) (extract_quoted trimmed))
           @ imports_loop file (i + 1) in_block ls
      else if trimmed = ''import ('' \<or> starts_with trimmed ''import (''
      then imports_loop file (i + 1) True ls
      else if in_block then
        (if trimmed = '')'' then imports_loop file (i + 1) False ls
         else if trimmed = [] \<or> is_comment trimmed then imports_loop file (i + 1) True ls
         else (let (alias, path) = parse_import_line trimmed in
               opt_list (map_option (mk_import file (i + 1) alias) path)
               @ imports_loop file (i + 1) True ls))
      else imports_loop file (i + 1) False ls)"

definition extract_imports :: "string list \<Rightarrow> string \<Rightarrow> go_import list" where
  "extract_imports lns file = imports_loop file 0 False lns"

section \<open>Struct and interface bodies\<close>

text \<open>The content before a backtick-delimited tag, and the tag with its backticks.\<close>

definition split_struct_tag :: "string \<Rightarrow> string \<times> string option" where
  "split_struct_tag line =
     (case find_sub line [CHR 0x60] of
        None \<Rightarrow> (line, None)
      | Some start \<Rightarrow>
          (case find_sub (drop (start + 1) line) [CHR 0x60] of
             None \<Rightarrow> (line, None)
           | Some e \<Rightarrow> (trim (take start line), Some (take (e + 2) (drop start line)))))"

definition try_parse_struct_field :: "string \<Rightarrow> string \<Rightarrow> nat \<Rightarrow> struct_field option" where
  "try_parse_struct_field line file line_num =
     (let trimmed = trim line in
      if trimmed = [] \<or> is_comment trimmed \<or> trimmed = ''}'' then None
      else
        (let (content0, tag) = split_struct_tag trimmed;
             content = before_comment content0
         in if content = [] then None
            else (case split_ws content of
                    [] \<Rightarrow> None
                  | [type_expr] \<Rightarrow>
                      (let base_name = split_last (trim_start_char type_expr (CHR ''*'')) ''.''
                       in Some \<lparr>sf_name = base_name, sf_type_expr = type_expr, sf_tag = tag,
                                sf_embedded = True,
                                sf_visibility = visibility_from_name base_name,
                                sf_location = mk_loc file line_num\<rparr>)
                  | name # tys \<Rightarrow>
                      Some \<lparr>sf_name = name, sf_type_expr = join '' '' tys, sf_tag = tag,
                            sf_embedded = False, sf_visibility = visibility_from_name name,
                            sf_location = mk_loc file line_num\<rparr>)))"

type_synonym usize = "64 word"

definition count_open :: "string \<Rightarrow> usize" where
  "count_open s = of_nat (count_char s (CHR 0x7B))"

definition count_close :: "string \<Rightarrow> usize" where
  "count_close s = of_nat (count_char s (CHR 0x7D))"

fun struct_loop :: "string \<Rightarrow> nat \<Rightarrow> usize \<Rightarrow> string list
                    \<Rightarrow> struct_field list \<times> string list \<times> nat" where
  "struct_loop file i depth [] = ([], [], i)"
| "struct_loop file i depth (l # ls) =
     (if depth = 0 then ([], l # ls, i)
      else
        (let trimmed = trim l;
             d = depth + count_open trimmed - count_close trimmed
         in if d = 0 then ([], ls, i + 1)
            else
              (let here = (if d = 1 then opt_list (try_parse_struct_field trimmed file (i + 1)) else []);
                   (fields, rest, j) = struct_loop file (i + 1) d ls
               in (here @ fields, rest, j))))"

definition parse_struct_body :: "string \<Rightarrow> nat \<Rightarrow> string \<Rightarrow> string list
                                 \<Rightarrow> struct_field list \<times> string list \<times> nat" where
  "parse_struct_body file i first_line ls =
     struct_loop file (i + 1) (count_open first_line - count_close first_line) ls"

definition parse_interface_line :: "string \<Rightarrow> string \<Rightarrow> nat
                                    \<Rightarrow> interface_method list \<times> interface_embed list" where
  "parse_interface_line trimmed file line_num =
     (if trimmed = [] \<or> is_comment trimmed then ([], [])
      else if contains trimmed ''('' then
        (let name = trim (split_first trimmed ''('') in
         (if name = [] then []
          else [\<lparr>mt_name = name, mt_signature = trimmed, mt_location = mk_loc file line_num\<rparr>], []))
      else
        (let type_name = before_comment trimmed in
         ([], if type_name = [] then []
              else [\<lparr>em_type_name = type_name, em_location = mk_loc file line_num\<rparr>])))"

fun interface_loop :: "string \<Rightarrow> nat \<Rightarrow> usize \<Rightarrow> string list
     \<Rightarrow> (interface_method list \<times> interface_embed list) \<times> string list \<times> nat" where
  "interface_loop file i depth [] = (([], []), [], i)"
| "interface_loop file i depth (l # ls) =
     (if depth = 0 then (([], []), l # ls, i)
      else
        (let trimmed = trim l;
             d = depth + count_open trimmed - count_close trimmed
         in if d = 0 then (([], []), ls, i + 1)
            else
              (let (ms, es) = (if d = 1 then parse_interface_line trimmed file (i + 1) else ([], []));
                   ((ms', es'), rest, j) = interface_loop file (i + 1) d ls
               in ((ms @ ms', es @ es'), rest, j))))"

definition parse_interface_body :: "string \<Rightarrow> nat \<Rightarrow> string \<Rightarrow> string list
     \<Rightarrow> (interface_method list \<times> interface_embed list) \<times> string list \<times> nat" where
  "parse_interface_body file i first_line ls =
     interface_loop file (i + 1) (count_open first_line - count_close first_line) ls"

section \<open>Types\<close>

definition mk_type :: "string \<Rightarrow> nat \<Rightarrow> string \<Rightarrow> type_kind \<Rightarrow> go_type" where
  "mk_type file line_num name kind =
     \<lparr>ty_name = name, ty_kind = kind, ty_visibility = visibility_from_name name,
      ty_location = mk_loc file line_num\<rparr>"

text \<open>A type declaration at the first line; the declaration, the lines behind it, their index.\<close>

definition try_parse_type_decl :: "string \<Rightarrow> nat \<Rightarrow> bool \<Rightarrow> string \<Rightarrow> string list
                                   \<Rightarrow> (go_type \<times> string list \<times> nat) option" where
  "try_parse_type_decl file i in_block l ls =
     (let trimmed = trim l; line_num = i + 1 in
      case (if in_block then Some trimmed else strip_prefix trimmed ''type '') of
        None \<Rightarrow> None
      | Some decl \<Rightarrow>
          (if decl = [] \<or> is_comment decl then None
           else
             (case split_ws_once decl of
                (name, None) \<Rightarrow> None
              | (name, Some rest0) \<Rightarrow>
                  (let rest = trim rest0 in
                   if rest = ''struct {'' \<or> starts_with rest ''struct {'' then
                     (let (fields, ls', j) = parse_struct_body file i l ls
                      in Some (mk_type file line_num name (StructKind fields), ls', j))
                   else if rest = ''struct{}'' \<or> rest = ''struct{ }'' then
                     Some (mk_type file line_num name (StructKind []), ls, i + 1)
                   else if rest = ''interface {'' \<or> starts_with rest ''interface {'' then
                     (let ((ms, es), ls', j) = parse_interface_body file i l ls
                      in Some (mk_type file line_num name (InterfaceKind ms es), ls', j))
                   else if rest = ''interface{}'' \<or> rest = ''interface{ }'' then
                     Some (mk_type file line_num name (InterfaceKind [] []), ls, i + 1)
                   else
                     (let underlying = (case strip_prefix rest ''= '' of
                                          Some alias_type \<Rightarrow> trim alias_type
                                        | None \<Rightarrow> rest)
                      in Some (mk_type file line_num name (AliasKind underlying), ls, i + 1))))))"

lemma struct_loop_rest: "struct_loop file i d ls = (fs, rest, j) \<Longrightarrow> length rest \<le> length ls"
  by (induction "file" i d ls arbitrary: fs rest j rule: struct_loop.induct)
     (fastforce simp: Let_def split: if_splits prod.splits)+

lemma interface_loop_rest: "interface_loop file i d ls = (r, rest, j) \<Longrightarrow> length rest \<le> length ls"
  by (induction "file" i d ls arbitrary: r rest j rule: interface_loop.induct)
     (fastforce simp: Let_def split: if_splits prod.splits)+

lemma try_parse_type_decl_rest:
  "try_parse_type_decl file i b l ls = Some (t, rest, j) \<Longrightarrow> length rest \<le> length ls"
  by (auto simp: try_parse_type_decl_def Let_def parse_struct_body_def parse_interface_body_def
      split: if_splits option.splits prod.splits dest: struct_loop_rest interface_loop_rest)

function types_loop :: "string \<Rightarrow> nat \<Rightarrow> bool \<Rightarrow> string list \<Rightarrow> go_type list" where
  "types_loop file i in_type_block [] = []"
| "types_loop file i in_type_block (l # ls) =
     (let trimmed = trim l in
      if trimmed = ''type ('' then types_loop file (i + 1) True ls
      else if in_type_block then
        (if trimmed = '')'' then types_loop file (i + 1) False ls
         else (case try_parse_type_decl file i True l ls of
                 Some (t, rest, j) \<Rightarrow> t # types_loop file j True rest
               | None \<Rightarrow> types_loop file (i + 1) True ls))
      else if starts_with trimmed ''type '' then
        (case try_parse_type_decl file i False l ls of
           Some (t, rest, j) \<Rightarrow> t # types_loop file j False rest
         | None \<Rightarrow> types_loop file (i + 1) False ls)
      else types_loop file (i + 1) False ls)"
  by pat_completeness auto
termination
  by (relation "measure (\<lambda>(file, i, b, ls). length ls)")
     (auto dest!: try_parse_type_decl_rest [OF sym] try_parse_type_decl_rest)

definition extract_types :: "string list \<Rightarrow> string \<Rightarrow> go_type list" where
  "extract_types lns file = types_loop file 0 False lns"

section \<open>Functions\<close>

text \<open>The scan of \<open>find_matching_paren\<close>: the position of the parenthesis closing the first.\<close>

fun match_paren :: "nat \<Rightarrow> int \<Rightarrow> string \<Rightarrow> nat option" where
  "match_paren j depth [] = None"
| "match_paren j depth (b # bs) =
     (if b = CHR ''('' then match_paren (j + 1) (depth + 1) bs
      else if b = CHR '')'' then
        (if depth - 1 = 0 then Some j else match_paren (j + 1) (depth - 1) bs)
      else match_paren (j + 1) depth bs)"

definition find_matching_paren :: "string \<Rightarrow> nat \<Rightarrow> nat option" where
  "find_matching_paren s start =
     (if length s \<le> start \<or> s ! start \<noteq> CHR ''('' then None
      else match_paren start 0 (drop start s))"

fun split_params_acc :: "string \<Rightarrow> int \<Rightarrow> string \<Rightarrow> string list" where
  "split_params_acc current depth [] = (if trim (rev current) = [] then [] else [rev current])"
| "split_params_acc current depth (ch # cs) =
     (if ch = CHR ''('' \<or> ch = CHR ''['' \<or> ch = CHR 0x7B
      then split_params_acc (ch # current) (depth + 1) cs
      else if ch = CHR '')'' \<or> ch = CHR '']'' \<or> ch = CHR 0x7D
      then split_params_acc (ch # current) (depth - 1) cs
      else if ch = CHR '','' \<and> depth = 0
      then rev current # split_params_acc [] depth cs
      else split_params_acc (ch # current) depth cs)"

definition split_params :: "string \<Rightarrow> string list" where
  "split_params s = split_params_acc [] 0 s"

definition parse_param :: "string \<Rightarrow> param" where
  "parse_param part =
     (case split_ws_once (trim part) of
        (only, None) \<Rightarrow> \<lparr>pa_name = [], pa_type_expr = only\<rparr>
      | (a, Some b) \<Rightarrow>
          (let first = trim a; second = trim b in
           if starts_with first ''func('' \<or> starts_with first ''func (''
           then \<lparr>pa_name = [], pa_type_expr = trim part\<rparr>
           else \<lparr>pa_name = first, pa_type_expr = second\<rparr>))"

definition parse_param_list :: "string \<Rightarrow> param list" where
  "parse_param_list s =
     (let trimmed = trim s in
      if trimmed = [] then [] else map parse_param (split_params trimmed))"

definition parse_receiver :: "string \<Rightarrow> receiver option" where
  "parse_receiver s =
     (case split_ws (trim s) of
        [t] \<Rightarrow> Some \<lparr>rc_name = [], rc_type_name = trim_start_char t (CHR ''*''),
                     rc_pointer = starts_with t ''*''\<rparr>
      | [n, t] \<Rightarrow> Some \<lparr>rc_name = n, rc_type_name = trim_start_char t (CHR ''*''),
                        rc_pointer = starts_with t ''*''\<rparr>
      | _ \<Rightarrow> None)"

definition parse_returns :: "string \<Rightarrow> param list" where
  "parse_returns rest =
     (if rest = [] then []
      else if starts_with rest ''('' then
        (case find_matching_paren rest 0 of
           Some ret_end \<Rightarrow> parse_param_list (take (ret_end - 1) (drop 1 rest))
         | None \<Rightarrow> [])
      else [\<lparr>pa_name = [], pa_type_expr = rest\<rparr>])"

definition parse_func_signature :: "string \<Rightarrow> param list \<times> param list" where
  "parse_func_signature sig =
     (let trimmed = trim sig in
      case find_matching_paren trimmed 0 of
        None \<Rightarrow> ([], [])
      | Some param_end \<Rightarrow>
          (let params = parse_param_list (take (param_end - 1) (drop 1 trimmed));
               rest0 = trim (drop (param_end + 1) trimmed);
               rest = trim (trim_end_char rest0 (CHR 0x7B))
           in (params, parse_returns rest)))"

definition mk_func :: "string \<Rightarrow> nat \<Rightarrow> receiver option \<Rightarrow> string \<Rightarrow> string \<Rightarrow> go_func option" where
  "mk_func file line_num receiver name sig_rest =
     (if name = [] then None
      else (let (params, returns) = parse_func_signature sig_rest in
            Some \<lparr>fn_name = name, fn_receiver = receiver, fn_params = params,
                  fn_returns = returns, fn_visibility = visibility_from_name name,
                  fn_location = mk_loc file line_num\<rparr>))"

definition try_parse_func :: "string \<Rightarrow> string \<Rightarrow> nat \<Rightarrow> go_func option" where
  "try_parse_func line file line_num =
     (case strip_prefix line ''func'' of
        None \<Rightarrow> None
      | Some rest0 \<Rightarrow>
          (let rest = trim_start rest0 in
           if starts_with rest ''('' then
             (case find_matching_paren rest 0 of
                None \<Rightarrow> None
              | Some recv_end \<Rightarrow>
                  (let receiver = parse_receiver (take (recv_end - 1) (drop 1 rest));
                       after_recv = trim (drop (recv_end + 1) rest)
                   in case find_sub after_recv ''('' of
                        None \<Rightarrow> None
                      | Some name_end \<Rightarrow>
                          mk_func file line_num receiver (trim (take name_end after_recv))
                            (drop name_end after_recv)))
           else
             (case find_sub rest ''('' of
                None \<Rightarrow> None
              | Some name_end \<Rightarrow>
                  mk_func file line_num None (trim (take name_end rest)) (drop name_end rest))))"

fun functions_loop :: "string \<Rightarrow> nat \<Rightarrow> string list \<Rightarrow> go_func list" where
  "functions_loop file i [] = []"
| "functions_loop file i (l # ls) =
     (let trimmed = trim l in
      (if starts_with trimmed ''func '' \<or> starts_with trimmed ''func(''
       then opt_list (try_parse_func trimmed file (i + 1)) else [])
      @ functions_loop file (i + 1) ls)"

definition extract_functions :: "string list \<Rightarrow> string \<Rightarrow> go_func list" where
  "extract_functions lns file = functions_loop file 0 lns"

section \<open>Constants\<close>

definition type_hint_or :: "string list \<Rightarrow> string option \<Rightarrow> string option" where
  "type_hint_or tokens_tl fallback = (if tokens_tl \<noteq> [] then Some (join '' '' tokens_tl) else fallback)"

definition try_parse_const :: "string \<Rightarrow> string \<Rightarrow> nat \<Rightarrow> string option \<Rightarrow> go_const option" where
  "try_parse_const line file line_num inherited_type =
     (let trimmed = trim line in
      if trimmed = [] \<or> is_comment trimmed then None
      else
        (let content = before_comment trimmed in
         case find_sub content ''='' of
           Some eq_pos \<Rightarrow>
             (let lhs = trim (take eq_pos content); rhs = trim (drop (eq_pos + 1) content) in
              case split_ws lhs of
                [] \<Rightarrow> None
              | name # tys \<Rightarrow>
                  Some \<lparr>co_name = name, co_type_hint = type_hint_or tys inherited_type,
                        co_value = Some rhs, co_visibility = visibility_from_name name,
                        co_location = mk_loc file line_num\<rparr>)
         | None \<Rightarrow>
             (case split_ws content of
                [] \<Rightarrow> None
              | name # tys \<Rightarrow>
                  Some \<lparr>co_name = name, co_type_hint = inherited_type, co_value = None,
                        co_visibility = visibility_from_name name,
                        co_location = mk_loc file line_num\<rparr>)))"

fun constants_loop :: "string \<Rightarrow> nat \<Rightarrow> bool \<Rightarrow> string option \<Rightarrow> string list \<Rightarrow> go_const list" where
  "constants_loop file i in_block block_type [] = []"
| "constants_loop file i in_block block_type (l # ls) =
     (let trimmed = trim l in
      if trimmed = ''const ('' \<or> starts_with trimmed ''const (''
      then constants_loop file (i + 1) True None ls
      else if in_block then
        (if trimmed = '')'' then constants_loop file (i + 1) False None ls
         else
           (let c = (if trimmed \<noteq> [] \<and> \<not> is_comment trimmed
                     then try_parse_const trimmed file (i + 1) block_type else None);
                bt = (case c of
                        Some k \<Rightarrow> if co_type_hint k \<noteq> None then co_type_hint k else block_type
                      | None \<Rightarrow> block_type)
            in opt_list c @ constants_loop file (i + 1) True bt ls))
      else
        (case strip_prefix trimmed ''const '' of
           Some rest \<Rightarrow> opt_list (try_parse_const (trim rest) file (i + 1) None)
         | None \<Rightarrow> [])
        @ constants_loop file (i + 1) False block_type ls)"

definition extract_constants :: "string list \<Rightarrow> string \<Rightarrow> go_const list" where
  "extract_constants lns file = constants_loop file 0 False None lns"

section \<open>Variables\<close>

definition mk_var :: "string \<Rightarrow> nat \<Rightarrow> string list \<Rightarrow> string option \<Rightarrow> go_var option" where
  "mk_var file line_num tokens val =
     (case tokens of
        [] \<Rightarrow> None
      | name # tys \<Rightarrow>
          Some \<lparr>va_name = name, va_type_hint = type_hint_or tys None, va_value = val,
                va_visibility = visibility_from_name name, va_location = mk_loc file line_num\<rparr>)"

definition try_parse_var :: "string \<Rightarrow> string \<Rightarrow> nat \<Rightarrow> go_var option" where
  "try_parse_var line file line_num =
     (let trimmed = trim line in
      if trimmed = [] \<or> is_comment trimmed then None
      else
        (let content = before_comment trimmed in
         case find_sub content ''='' of
           Some eq_pos \<Rightarrow>
             mk_var file line_num (split_ws (trim (take eq_pos content)))
               (Some (trim (drop (eq_pos + 1) content)))
         | None \<Rightarrow> mk_var file line_num (split_ws content) None))"

fun variables_loop :: "string \<Rightarrow> nat \<Rightarrow> bool \<Rightarrow> string list \<Rightarrow> go_var list" where
  "variables_loop file i in_block [] = []"
| "variables_loop file i in_block (l # ls) =
     (let trimmed = trim l in
      if trimmed = ''var ('' \<or> starts_with trimmed ''var (''
      then variables_loop file (i + 1) True ls
      else if in_block then
        (if trimmed = '')'' then variables_loop file (i + 1) False ls
         else
           (if trimmed \<noteq> [] \<and> \<not> is_comment trimmed
            then opt_list (try_parse_var trimmed file (i + 1)) else [])
           @ variables_loop file (i + 1) True ls)
      else
        (case strip_prefix trimmed ''var '' of
           Some rest \<Rightarrow> opt_list (try_parse_var (trim rest) file (i + 1))
         | None \<Rightarrow> [])
        @ variables_loop file (i + 1) False ls)"

definition extract_variables :: "string list \<Rightarrow> string \<Rightarrow> go_var list" where
  "extract_variables lns file = variables_loop file 0 False lns"

section \<open>Files\<close>

definition parse_file :: "string \<Rightarrow> string \<Rightarrow> go_file" where
  "parse_file p source =
     (let lns = str_lines source in
      \<lparr>gf_path = p, gf_package = extract_package lns,
       gf_imports = extract_imports lns p, gf_types = extract_types lns p,
       gf_functions = extract_functions lns p, gf_constants = extract_constants lns p,
       gf_variables = extract_variables lns p,
       gf_is_test = ends_with p ''_test.go'', gf_line_count = length lns\<rparr>)"

end
