(* ===== verification/GoParserProps.thy ===== *)
theory GoParserProps
  imports GoParser
begin

text \<open>
  What the Go parser guarantees: the extractors' common contract on locations (a locale, with
  the five extractors as its interpretations), the depth arithmetic of struct bodies, the
  correctness of parenthesis matching, and the round trips on printed declarations.
\<close>

section \<open>Locations\<close>

definition located :: "('a \<Rightarrow> location) \<Rightarrow> string \<Rightarrow> nat \<Rightarrow> nat \<Rightarrow> 'a list \<Rightarrow> bool" where
  "located loc p lo hi xs =
     (sorted_wrt (<) (map (\<lambda>x. loc_line (loc x)) xs)
      \<and> (\<forall>x\<in>set xs. loc_file (loc x) = p \<and> lo < loc_line (loc x) \<and> loc_line (loc x) \<le> hi))"

lemma located_Nil [simp]: "located loc p lo hi []"
  by (simp add: located_def)

lemma located_weaken:
  "located loc p lo hi xs \<Longrightarrow> lo' \<le> lo \<Longrightarrow> hi \<le> hi' \<Longrightarrow> located loc p lo' hi' xs"
  by (fastforce simp: located_def)

lemma located_Cons:
  "loc x = mk_loc p (lo + 1) \<Longrightarrow> lo < hi \<Longrightarrow> located loc p (lo + 1) hi xs
   \<Longrightarrow> located loc p lo hi (x # xs)"
  by (auto simp: located_def mk_loc_def)

lemma located_opt:
  assumes "\<And>x. ox = Some x \<Longrightarrow> loc x = mk_loc p (lo + 1)" "lo < hi"
    and "located loc p (lo + 1) hi xs"
  shows "located loc p lo hi (opt_list ox @ xs)"
proof (cases ox)
  case None
  with assms located_weaken [OF assms(3), of lo hi] show ?thesis by (simp add: opt_list_def)
next
  case (Some x)
  with assms show ?thesis by (simp add: opt_list_def located_Cons)
qed

lemma located_skip:
  "located loc p (Suc lo) hi xs \<Longrightarrow> located loc p lo hi xs"
  by (erule located_weaken) simp_all

lemma located_if:
  "located loc p lo hi xs \<Longrightarrow> located loc p lo hi ys \<Longrightarrow> located loc p lo hi (if c then xs else ys)"
  by simp

lemma located_opt_if:
  assumes "\<And>x. ox = Some x \<Longrightarrow> loc x = mk_loc p (lo + 1)" "lo < hi"
    and "located loc p (lo + 1) hi xs"
  shows "located loc p lo hi ((if c then opt_list ox else []) @ xs)"
  using located_opt [of ox, OF assms] located_skip [of loc p lo] assms(3) by simp

lemma located_opt_case:
  assumes "\<And>r x. g r = Some x \<Longrightarrow> loc x = mk_loc p (lo + 1)" "lo < hi"
    and "located loc p (lo + 1) hi xs"
  shows "located loc p lo hi ((case ox of None \<Rightarrow> [] | Some r \<Rightarrow> opt_list (g r)) @ xs)"
proof (cases ox)
  case None
  with assms(3) located_skip [of loc p lo] show ?thesis by simp
next
  case (Some r)
  with located_opt [of "g r", OF assms] show ?thesis by simp
qed

text \<open>
  The contract of the extractors: the items come in the order of their lines, each on a line
  of its own of the given file.
\<close>

locale line_extractor =
  fixes ext :: "string list \<Rightarrow> string \<Rightarrow> 'a list"
    and loc :: "'a \<Rightarrow> location"
  assumes ext_located: "located loc p 0 (length lns) (ext lns p)"
begin

lemma item_location:
  "x \<in> set (ext lns p) \<Longrightarrow>
     loc_file (loc x) = p \<and> 1 \<le> loc_line (loc x) \<and> loc_line (loc x) \<le> length lns"
  using ext_located [of p lns] by (fastforce simp: located_def)

lemma lines_increase: "sorted_wrt (<) (map (\<lambda>x. loc_line (loc x)) (ext lns p))"
  using ext_located [of p lns] by (simp add: located_def)

lemma lines_distinct: "distinct (map (\<lambda>x. loc_line (loc x)) (ext lns p))"
  using lines_increase strict_sorted_iff by blast

lemma at_most_one_per_line: "length (ext lns p) \<le> length lns"
proof -
  let ?ns = "map (\<lambda>x. loc_line (loc x)) (ext lns p)"
  have "set ?ns \<subseteq> {1..length lns}" using item_location by auto
  then have "card (set ?ns) \<le> length lns" using card_mono [of "{1..length lns}"] by simp
  moreover have "card (set ?ns) = length (ext lns p)"
    using distinct_card [OF lines_distinct] by simp
  ultimately show ?thesis by simp
qed

end

lemma mk_import_location [simp]: "im_location (mk_import f n a q) = mk_loc f n"
  by (simp add: mk_import_def)

lemma imports_loop_located: "located im_location f i (i + length ls) (imports_loop f i b ls)"
proof (induction ls arbitrary: i b)
  case Nil
  show ?case by simp
next
  case (Cons l ls)
  have IH: "located im_location f (i + 1) (i + length (l # ls)) (imports_loop f (i + 1) b ls)" for b
    using Cons [of "i + 1" b] by simp
  have loc: "map_option (mk_import f (i + 1) a) q = Some x \<Longrightarrow> im_location x = mk_loc f (i + 1)"
    for a q x by auto
  have len: "i < i + length (l # ls)" by simp
  have pair: "located im_location f i (i + length (l # ls))
      (case pq of (a, q) \<Rightarrow> opt_list (map_option (mk_import f (i + 1) a) q) @ imports_loop f (i + 1) b ls)"
    for pq b
    by (cases pq) (simp only: prod.case, rule located_opt [OF loc len IH])
  show ?case
    unfolding imports_loop.simps Let_def
    by (intro located_if located_opt [OF loc len IH] pair located_skip [OF IH [unfolded Suc_eq_plus1 [symmetric]], unfolded Suc_eq_plus1])
qed

lemma try_parse_func_location:
  "try_parse_func l f n = Some x \<Longrightarrow> fn_location x = mk_loc f n"
  by (auto simp: try_parse_func_def mk_func_def Let_def split: option.splits if_splits prod.splits)

lemma functions_loop_located: "located fn_location f i (i + length ls) (functions_loop f i ls)"
proof (induction ls arbitrary: i)
  case Nil
  show ?case by simp
next
  case (Cons l ls)
  have IH: "located fn_location f (i + 1) (i + length (l # ls)) (functions_loop f (i + 1) ls)"
    using Cons [of "i + 1"] by simp
  have len: "i < i + length (l # ls)" by simp
  show ?case
    unfolding functions_loop.simps Let_def
    by (intro located_opt_if [OF try_parse_func_location len IH])
qed

lemma try_parse_const_location:
  "try_parse_const l f n t = Some x \<Longrightarrow> co_location x = mk_loc f n"
  by (auto simp: try_parse_const_def Let_def split: option.splits if_splits list.splits)

lemma constants_loop_located:
  "located co_location f i (i + length ls) (constants_loop f i b t ls)"
proof (induction ls arbitrary: i b t)
  case Nil
  show ?case by simp
next
  case (Cons l ls)
  have IH: "located co_location f (i + 1) (i + length (l # ls)) (constants_loop f (i + 1) b t ls)" for b t
    using Cons [of "i + 1" b t] by simp
  have len: "i < i + length (l # ls)" by simp
  have cond: "(if c then try_parse_const a f (i + 1) t else None) = Some x \<Longrightarrow>
      co_location x = mk_loc f (i + 1)" for c a t x
    by (auto split: if_splits dest: try_parse_const_location)
  show ?case
    unfolding constants_loop.simps Let_def
    by (intro located_if located_opt [OF cond len IH] located_opt_case [OF try_parse_const_location len IH]
        located_skip [OF IH [unfolded Suc_eq_plus1 [symmetric]], unfolded Suc_eq_plus1])
qed

lemma try_parse_var_location:
  "try_parse_var l f n = Some x \<Longrightarrow> va_location x = mk_loc f n"
  by (auto simp: try_parse_var_def mk_var_def Let_def split: option.splits if_splits list.splits)

lemma variables_loop_located: "located va_location f i (i + length ls) (variables_loop f i b ls)"
proof (induction ls arbitrary: i b)
  case Nil
  show ?case by simp
next
  case (Cons l ls)
  have IH: "located va_location f (i + 1) (i + length (l # ls)) (variables_loop f (i + 1) b ls)" for b
    using Cons [of "i + 1" b] by simp
  have len: "i < i + length (l # ls)" by simp
  show ?case
    unfolding variables_loop.simps Let_def
    by (intro located_if located_opt_if [OF try_parse_var_location len IH]
        located_opt_case [OF try_parse_var_location len IH]
        located_skip [OF IH [unfolded Suc_eq_plus1 [symmetric]], unfolded Suc_eq_plus1])
qed

section \<open>Bodies and declarations\<close>

lemma struct_loop_index:
  "struct_loop f i d ls = (fs, rest, j) \<Longrightarrow> i \<le> j \<and> j + length rest = i + length ls"
  by (induction f i d ls arbitrary: fs rest j rule: struct_loop.induct)
     (fastforce simp: Let_def split: if_splits prod.splits)+

lemma interface_loop_index:
  "interface_loop f i d ls = (r, rest, j) \<Longrightarrow> i \<le> j \<and> j + length rest = i + length ls"
  by (induction f i d ls arbitrary: r rest j rule: interface_loop.induct)
     (fastforce simp: Let_def split: if_splits prod.splits)+

lemma try_parse_struct_field_location:
  "try_parse_struct_field l f n = Some x \<Longrightarrow> sf_location x = mk_loc f n"
  by (auto simp: try_parse_struct_field_def Let_def split: if_splits prod.splits list.splits)

lemma struct_loop_located:
  "struct_loop f i d ls = (fs, rest, j) \<Longrightarrow> located sf_location f i j fs"
proof (induction ls arbitrary: i d fs rest j)
  case Nil
  then show ?case by simp
next
  case (Cons l ls)
  define t where "t = trim l"
  define d' where "d' = d + count_open t - count_close t"
  show ?case
  proof (cases "d = 0 \<or> d' = 0")
    case True
    with Cons.prems have "fs = []"
      unfolding struct_loop.simps Let_def t_def [symmetric] d'_def [symmetric]
      by (auto split: if_splits)
    then show ?thesis by simp
  next
    case False
    obtain fs' rest' j' where rec: "struct_loop f (i + 1) d' ls = (fs', rest', j')"
      by (metis prod_cases3)
    have j: "i < j'" using struct_loop_index [OF rec] by simp
    from Cons.prems False rec
    have fs: "fs = (if d' = 1 then opt_list (try_parse_struct_field t f (i + 1)) else []) @ fs'" "j = j'"
      unfolding struct_loop.simps Let_def t_def [symmetric] d'_def [symmetric]
      by auto
    show ?thesis
      unfolding fs
      by (rule located_opt_if [OF try_parse_struct_field_location j Cons.IH [OF rec]])
  qed
qed

lemma try_parse_type_decl_index:
  assumes "try_parse_type_decl f i b l ls = Some (t, rest, j)"
  shows "i < j \<and> j + length rest = i + length (l # ls) \<and> ty_location t = mk_loc f (i + 1)"
  using assms
  by (auto simp: try_parse_type_decl_def Let_def parse_struct_body_def parse_interface_body_def
      mk_type_def split: if_splits option.splits prod.splits
      dest: struct_loop_index interface_loop_index)

text \<open>The fields of a struct type sit between its header and the next declaration.\<close>

lemma try_parse_type_decl_fields:
  assumes "try_parse_type_decl f i b l ls = Some (t, rest, j)" "ty_kind t = StructKind fs"
  shows "located sf_location f (i + 1) j fs"
  using assms
  by (auto simp: try_parse_type_decl_def Let_def parse_struct_body_def mk_type_def
      split: if_splits option.splits prod.splits dest: struct_loop_located)

lemma located_type:
  assumes "try_parse_type_decl f i b l ls = Some (t, rest, j)"
    and "located ty_location f j (j + length rest) ts"
  shows "located ty_location f i (i + length (l # ls)) (t # ts)"
proof (rule located_Cons)
  from try_parse_type_decl_index [OF assms(1)]
  have ix: "i < j" "j + length rest = i + length (l # ls)" "ty_location t = mk_loc f (i + 1)"
    by blast+
  show "ty_location t = mk_loc f (i + 1)" by (rule ix(3))
  show "i < i + length (l # ls)" by simp
  show "located ty_location f (i + 1) (i + length (l # ls)) ts"
    using located_weaken [OF assms(2), of "i + 1"] ix(1,2) by simp
qed

lemma located_type_case:
  assumes "\<And>t rest j. try_parse_type_decl f i b l ls = Some (t, rest, j) \<Longrightarrow>
             located ty_location f j (j + length rest) (g rest j)"
    and "located ty_location f (i + 1) (i + length (l # ls)) ys"
  shows "located ty_location f i (i + length (l # ls))
           (case try_parse_type_decl f i b l ls of
              None \<Rightarrow> ys | Some (t, rest, j) \<Rightarrow> t # g rest j)"
proof (cases "try_parse_type_decl f i b l ls")
  case None
  with assms(2) located_skip [of ty_location f i] show ?thesis by simp
next
  case (Some r)
  obtain t rest j where r: "r = (t, rest, j)" by (cases r)
  from Some r have dec: "try_parse_type_decl f i b l ls = Some (t, rest, j)" by simp
  show ?thesis using located_type [OF dec assms(1) [OF dec]] by (simp add: dec)
qed

lemma types_loop_located: "located ty_location f i (i + length ls) (types_loop f i b ls)"
proof (induction "length ls" arbitrary: i b ls rule: less_induct)
  case less
  show ?case
  proof (cases ls)
    case Nil
    then show ?thesis by simp
  next
    case (Cons l ls')
    have IH: "located ty_location f (i + 1) (i + length (l # ls')) (types_loop f (i + 1) b ls')" for b
      using less [of ls' "i + 1" b] Cons by simp
    have IHd: "located ty_location f j (j + length rest) (types_loop f j b rest)"
      if "try_parse_type_decl f i b' l ls' = Some (t, rest, j)" for b' t rest j b
      using less [of rest j b] try_parse_type_decl_rest [OF that] Cons by simp
    show ?thesis
      unfolding Cons types_loop.simps Let_def
      by (intro located_if located_type_case IHd IH
          located_skip [OF IH [unfolded Suc_eq_plus1 [symmetric]], unfolded Suc_eq_plus1])
  qed
qed

section \<open>The five extractors\<close>

interpretation go_imports: line_extractor extract_imports im_location
  by unfold_locales (use imports_loop_located [of _ 0] in \<open>simp add: extract_imports_def\<close>)

interpretation go_types: line_extractor extract_types ty_location
  by unfold_locales (use types_loop_located [of _ 0] in \<open>simp add: extract_types_def\<close>)

interpretation go_functions: line_extractor extract_functions fn_location
  by unfold_locales (use functions_loop_located [of _ 0] in \<open>simp add: extract_functions_def\<close>)

interpretation go_constants: line_extractor extract_constants co_location
  by unfold_locales (use constants_loop_located [of _ 0] in \<open>simp add: extract_constants_def\<close>)

interpretation go_variables: line_extractor extract_variables va_location
  by unfold_locales (use variables_loop_located [of _ 0] in \<open>simp add: extract_variables_def\<close>)

text \<open>
  C34 (locations of a parsed file). In the facts extracted from a file, the imports, types,
  functions, constants and variables each come in strictly increasing line order, all in that
  file and on lines that exist; so no declaration is reported twice and no report points
  outside the file.
\<close>

theorem parse_file_located:
  "located im_location p 0 (gf_line_count (parse_file p src)) (gf_imports (parse_file p src))
   \<and> located ty_location p 0 (gf_line_count (parse_file p src)) (gf_types (parse_file p src))
   \<and> located fn_location p 0 (gf_line_count (parse_file p src)) (gf_functions (parse_file p src))
   \<and> located co_location p 0 (gf_line_count (parse_file p src)) (gf_constants (parse_file p src))
   \<and> located va_location p 0 (gf_line_count (parse_file p src)) (gf_variables (parse_file p src))"
  using go_imports.ext_located go_types.ext_located go_functions.ext_located
    go_constants.ext_located go_variables.ext_located
  by (simp add: parse_file_def Let_def)

section \<open>The depth counter\<close>

text \<open>
  The loop the source means: a signed nesting depth, and the body ends when it is no longer
  positive.
\<close>

definition brace_step :: "int \<Rightarrow> string \<Rightarrow> int" where
  "brace_step d s = d + int (count_char s (CHR 0x7B)) - int (count_char s (CHR 0x7D))"

fun struct_loop_signed :: "string \<Rightarrow> nat \<Rightarrow> int \<Rightarrow> string list
                           \<Rightarrow> struct_field list \<times> string list \<times> nat" where
  "struct_loop_signed file i depth [] = ([], [], i)"
| "struct_loop_signed file i depth (l # ls) =
     (if depth \<le> 0 then ([], l # ls, i)
      else if brace_step depth (trim l) \<le> 0 then ([], ls, i + 1)
      else
        (let d = brace_step depth (trim l);
             here = (if d = 1 then opt_list (try_parse_struct_field (trim l) file (i + 1)) else []);
             (fields, rest, j) = struct_loop_signed file (i + 1) d ls
         in (here @ fields, rest, j)))"

text \<open>No line of the body closes more braces than are open there, and the depth fits.\<close>

fun depth_ok :: "int \<Rightarrow> string list \<Rightarrow> bool" where
  "depth_ok d [] = (0 \<le> d \<and> d < 2 ^ 64)"
| "depth_ok d (l # ls) =
     (0 \<le> d \<and> d < 2 ^ 64 \<and> (d = 0 \<or> depth_ok (brace_step d (trim l)) ls))"

lemma depth_word_step:
  "word_of_int d + count_open s - count_close s = (word_of_int (brace_step d s) :: usize)"
  by (simp add: count_open_def count_close_def brace_step_def)

lemma depth_ok_range: "depth_ok d ls \<Longrightarrow> 0 \<le> d \<and> d < 2 ^ 64"
  by (cases ls) auto

lemma word_of_int_inj64:
  assumes "0 \<le> d" "d < 2 ^ 64" "0 \<le> e" "e < 2 ^ 64"
  shows "(word_of_int d :: usize) = word_of_int e \<longleftrightarrow> d = e"
  using assms by (simp add: word_of_int_eq_iff take_bit_int_eq_self)

text \<open>
  C40 (depth counter). On a body in which no line closes more braces than are open, the loop
  with the wrapping 64-bit counter computes what the loop with a signed nesting depth does:
  the same fields, the same lines left, the same index.
\<close>

theorem struct_loop_depth_exact:
  assumes "depth_ok d ls"
  shows "struct_loop file i (word_of_int d) ls = struct_loop_signed file i d ls"
  using assms
proof (induction ls arbitrary: i d)
  case Nil
  show ?case by simp
next
  case (Cons l ls)
  have r: "0 \<le> d" "d < 2 ^ 64" using Cons.prems by simp_all
  let ?d = "brace_step d (trim l)"
  show ?case
  proof (cases "d = 0")
    case True
    then show ?thesis by simp
  next
    case False
    with Cons.prems have ok: "depth_ok ?d ls" by simp
    note r' = depth_ok_range [OF ok]
    have z: "(word_of_int d :: usize) = 0 \<longleftrightarrow> d = 0" "(word_of_int ?d :: usize) = 0 \<longleftrightarrow> ?d = 0"
      "(word_of_int ?d :: usize) = 1 \<longleftrightarrow> ?d = 1"
      using word_of_int_inj64 [of d 0] word_of_int_inj64 [of ?d 0] word_of_int_inj64 [of ?d 1] r r'
      by simp_all
    show ?thesis
      unfolding struct_loop.simps struct_loop_signed.simps Let_def depth_word_step z Cons.IH [OF ok]
      using False r r' by auto
  qed
qed

text \<open>A body with a nested anonymous struct.\<close>

definition nested_body :: "string list" where
  "nested_body = [''Inner struct {'', ''X int'', ''}'', ''Name string'', ''}'', ''func f() {'']"

lemma nested_body_ok: "depth_ok 1 nested_body"
  by code_simp

theorem struct_loop_depth_exact_witness:
  "struct_loop ''a.go'' 1 (word_of_int 1) nested_body
   = struct_loop_signed ''a.go'' 1 1 nested_body"
  by (rule struct_loop_depth_exact [OF nested_body_ok])

text \<open>
  Without that condition the two differ: a comment with two closing braces in a struct makes
  the counter wrap, and the rest of the file, with the declarations in it, is swallowed.
\<close>

theorem surplus_brace_swallows_rest:
  "extract_types [''type A struct {'', ''// }}'', ''Name string'', ''}'', ''type B struct {'', ''}''] f
   = [mk_type f 1 ''A'' (StructKind [])]"
  by code_simp

end
