(* ===== verification/GoRoundTrip.thy ===== *)
theory GoRoundTrip
  imports GoParserProps
begin

text \<open>
  Printing a declaration the way \<open>gofmt\<close> lays it out and parsing it back with the Go parser:
  struct types with tags, import blocks, functions and methods. The printers are
  specifications (the program has none); names and types are words, strings of non-blank
  ASCII characters without brackets, braces, commas, quotes, slashes and equal signs.
\<close>

section \<open>Words\<close>

definition word_char :: "char \<Rightarrow> bool" where
  "word_char c = (plain_char c \<and> c \<notin> set ''(){}[],/='' \<and> c \<noteq> CHR 0x22 \<and> c \<noteq> CHR 0x60)"

definition word :: "string \<Rightarrow> bool" where
  "word w = (w \<noteq> [] \<and> list_all word_char w)"

lemma word_plain: "word w \<Longrightarrow> plain_word w"
  by (auto simp: word_def word_char_def plain_word_def list_all_iff)

lemma word_nonempty [simp]: "word w \<Longrightarrow> w \<noteq> []"
  by (simp add: word_def)

lemma word_no_char:
  assumes "word w"
  shows "CHR ''('' \<notin> set w" "CHR '')'' \<notin> set w" "CHR 0x7B \<notin> set w" "CHR 0x7D \<notin> set w"
    "CHR ''['' \<notin> set w" "CHR '']'' \<notin> set w" "CHR '','' \<notin> set w" "CHR ''/'' \<notin> set w"
    "CHR ''='' \<notin> set w" "CHR 0x22 \<notin> set w" "CHR 0x60 \<notin> set w" "CHR '' '' \<notin> set w"
  using assms by (auto simp: word_def word_char_def list_all_iff plain_char_def ascii_ws_def)

lemma ascii_space [simp]: "ascii_ws (CHR '' '')" "ascii_ws (CHR 0x09)"
  by (simp_all add: ascii_ws_def)

lemma plain_lits [simp]:
  "plain_char (CHR ''t'')" "plain_char (CHR 0x7B)" "plain_char (CHR 0x7D)" "plain_char (CHR 0x60)"
  "plain_char (CHR ''f'')" "plain_char (CHR ''('')" "plain_char (CHR '')'')" "plain_char (CHR ''s'')"
  "plain_char (CHR 0x22)" "plain_char (CHR ''i'')" "plain_char (CHR ''*'')"
  by (simp_all add: plain_char_def ascii_ws_def)

lemma words_join_plain_ends:
  assumes "ws \<noteq> []" "list_all word ws"
  shows "plain_ends (join sep ws)"
  by (rule join_plain_ends) (use assms word_plain in \<open>auto simp: list_all_iff\<close>)

lemma join_words_no_char:
  assumes "list_all word ws" "c \<in> set ''(){}[],/='' \<or> c = CHR 0x22 \<or> c = CHR 0x60"
  shows "c \<notin> set (join '' '' ws)"
  using assms(1)
proof (induction "'' ''" ws rule: join.induct)
  case (2 x)
  then show ?case using assms(2) word_no_char [of x] by auto
next
  case (3 x y ys)
  then show ?case using assms(2) word_no_char [of x] by auto
qed simp

lemma is_comment_head: "\<not> is_comment (c # cs)" if "c \<noteq> CHR ''/''"
  using that by (simp add: is_comment_def slash_slash_def starts_with_Cons)

lemma before_comment_id: "CHR ''/'' \<notin> set s \<Longrightarrow> before_comment s = trim s"
  by (simp add: before_comment_def slash_slash_def split_first_no_head)

section \<open>Struct types\<close>

text \<open>A field to print: its name, the words of its type, and the text of its tag.\<close>

type_synonym field_spec = "string \<times> string list \<times> string option"

definition tag_ok :: "string \<Rightarrow> bool" where
  "tag_ok t = list_all (\<lambda>c. c \<noteq> CHR 0x60 \<and> c \<noteq> CHR 0x7B \<and> c \<noteq> CHR 0x7D) t"

fun field_ok :: "field_spec \<Rightarrow> bool" where
  "field_ok (name, tys, tag) =
     (word name \<and> tys \<noteq> [] \<and> list_all word tys \<and> (case tag of None \<Rightarrow> True | Some t \<Rightarrow> tag_ok t))"

fun print_field :: "field_spec \<Rightarrow> string" where
  "print_field (name, tys, tag) =
     [CHR 0x09] @ join '' '' (name # tys)
     @ (case tag of None \<Rightarrow> [] | Some t \<Rightarrow> '' '' @ [CHR 0x60] @ t @ [CHR 0x60])"

fun expected_field :: "string \<Rightarrow> nat \<Rightarrow> field_spec \<Rightarrow> struct_field" where
  "expected_field fl n (name, tys, tag) =
     \<lparr>sf_name = name, sf_type_expr = join '' '' tys,
      sf_tag = map_option (\<lambda>t. [CHR 0x60] @ t @ [CHR 0x60]) tag, sf_embedded = False,
      sf_visibility = visibility_from_name name, sf_location = mk_loc fl n\<rparr>"

fun expected_fields :: "string \<Rightarrow> nat \<Rightarrow> field_spec list \<Rightarrow> struct_field list" where
  "expected_fields fl n [] = []"
| "expected_fields fl n (f # fs) = expected_field fl n f # expected_fields fl (n + 1) fs"

definition print_struct :: "string \<Rightarrow> field_spec list \<Rightarrow> string list" where
  "print_struct name fs = (''type '' @ name @ '' struct {'') # map print_field fs @ [''}'']"

definition field_text :: "field_spec \<Rightarrow> string" where
  "field_text f = drop 1 (print_field f)"

lemma trim_field:
  assumes "field_ok f"
  shows "trim (print_field f) = field_text f" "plain_ends (field_text f)"
proof -
  obtain name tys tag where f: "f = (name, tys, tag)" by (cases f)
  from assms f have w: "list_all word (name # tys)" by simp
  have pe: "plain_ends (join '' '' (name # tys))"
    by (rule words_join_plain_ends) (use w in simp_all)
  show ends: "plain_ends (field_text f)"
  proof (cases tag)
    case None
    then show ?thesis using pe by (simp add: f field_text_def)
  next
    case (Some t)
    then show ?thesis using pe by (simp add: f field_text_def plain_ends_def)
  qed
  have "print_field f = [CHR 0x09] @ field_text f @ []" by (simp add: f field_text_def)
  then show "trim (print_field f) = field_text f"
    using trim_pad [OF ends, of "[CHR 0x09]" "[]"] by simp
qed

lemma field_text_counts:
  assumes "field_ok f"
  shows "count_open (field_text f) = 0" "count_close (field_text f) = 0"
proof -
  obtain name tys tag where f: "f = (name, tys, tag)" by (cases f)
  with assms have w: "list_all word (name # tys)" and t: "\<And>t. tag = Some t \<Longrightarrow> tag_ok t"
    by auto
  have "CHR 0x7B \<notin> set (field_text f)" "CHR 0x7D \<notin> set (field_text f)"
    using join_words_no_char [OF w, of "CHR 0x7B"] join_words_no_char [OF w, of "CHR 0x7D"] t
    by (auto simp: f field_text_def tag_ok_def list_all_iff split: option.splits)
  then show "count_open (field_text f) = 0" "count_close (field_text f) = 0"
    by (simp_all add: count_open_def count_close_def count_char_zero)
qed

lemma split_tag_field:
  assumes "field_ok (name, tys, tag)"
  shows "split_struct_tag (field_text (name, tys, tag)) =
           (join '' '' (name # tys), map_option (\<lambda>t. [CHR 0x60] @ t @ [CHR 0x60]) tag)"
proof -
  let ?s = "join '' '' (name # tys)"
  from assms have w: "list_all word (name # tys)" by simp
  have nt: "CHR 0x60 \<notin> set ?s" by (rule join_words_no_char [OF w]) simp
  have pe: "plain_ends ?s" by (rule words_join_plain_ends) (use w in simp_all)
  show ?thesis
  proof (cases tag)
    case None
    then show ?thesis using nt
      by (simp add: field_text_def split_struct_tag_def find_sub_None_single)
  next
    case (Some t)
    with assms have "CHR 0x60 \<notin> set t" by (auto simp: tag_ok_def list_all_iff)
    moreover have "field_text (name, tys, tag) = (?s @ '' '') @ CHR 0x60 # t @ [CHR 0x60]"
      by (simp add: field_text_def Some)
    moreover have "find_sub ((?s @ '' '') @ CHR 0x60 # t @ [CHR 0x60]) [CHR 0x60] = Some (length ?s + 1)"
      using find_sub_single_append [of "CHR 0x60" "?s @ '' ''" "t @ [CHR 0x60]"] nt by simp
    moreover have "trim (?s @ '' '') = ?s" using trim_pad [OF pe, of "[]" "'' ''"] by simp
    ultimately show ?thesis
      using find_sub_single_append [of "CHR 0x60" t "[]"] Some
      by (simp add: split_struct_tag_def)
  qed
qed

lemma parse_printed_field:
  assumes "field_ok f"
  shows "try_parse_struct_field (field_text f) fl n = Some (expected_field fl n f)"
proof -
  obtain name tys tag where f: "f = (name, tys, tag)" by (cases f)
  let ?s = "join '' '' (name # tys)"
  from assms f have w: "list_all word (name # tys)" and ne: "tys \<noteq> []" "word name" by auto
  have pe: "plain_ends ?s" by (rule words_join_plain_ends) (use w in simp_all)
  have ns: "CHR ''/'' \<notin> set ?s" by (rule join_words_no_char [OF w]) simp
  obtain c cs where c: "field_text f = c # cs" "c \<in> set name"
    using ne by (cases name; cases tys) (auto simp: f field_text_def)
  have hd: "c \<noteq> CHR ''/''" "c \<noteq> CHR 0x7D" using c(2) word_no_char [OF ne(2)] by auto
  have tr: "trim (field_text f) = field_text f"
    by (rule trim_plain_ends [OF trim_field(2) [OF assms]])
  have bc: "before_comment ?s = ?s" using before_comment_id [OF ns] trim_plain_ends [OF pe] by simp
  have sw: "split_ws ?s = name # tys"
    using split_ws_join [of "name # tys"] w word_plain by (auto simp: list_all_iff)
  obtain y ys where ys: "tys = y # ys" using ne by (cases tys) auto
  have "?s \<noteq> []" using pe by (simp add: plain_ends_def)
  then show ?thesis
    unfolding try_parse_struct_field_def Let_def tr
    using c(1) hd is_comment_head [OF hd(1), of cs] split_tag_field [of name tys tag] assms bc sw ys
    by (simp add: f)
qed

lemma struct_loop_printed:
  assumes "list_all field_ok fs"
  shows "struct_loop fl i 1 (map print_field fs @ [''}''])
         = (expected_fields fl (i + 1) fs, [], i + length fs + 1)"
  using assms
proof (induction fs arbitrary: i)
  case Nil
  have "trim ''}'' = ''}''" by (rule trim_plain_ends) (simp add: plain_ends_def)
  then show ?case by (simp add: count_open_def count_close_def count_char_def)
next
  case (Cons f fs)
  then have ok: "field_ok f" by simp
  from Cons have rec: "struct_loop fl (i + 1) 1 (map print_field fs @ [''}''])
      = (expected_fields fl (i + 1 + 1) fs, [], i + 1 + length fs + 1)" by simp
  show ?case
    using rec parse_printed_field [OF ok, of fl "i + 1"]
    by (simp add: trim_field(1) [OF ok] field_text_counts [OF ok] opt_list_def)
qed

lemma struct_header:
  assumes "word name"
  shows "trim (''type '' @ name @ '' struct {'') = ''type '' @ name @ '' struct {''"
    and "count_open (''type '' @ name @ '' struct {'') - count_close (''type '' @ name @ '' struct {'') = 1"
    and "split_ws_once (name @ '' struct {'') = (name, Some ''struct {'')"
    and "\<not> is_comment (name @ s)" "name @ s \<noteq> ''(''" "trim ''struct {'' = ''struct {''"
proof -
  show "trim (''type '' @ name @ '' struct {'') = ''type '' @ name @ '' struct {''"
    by (rule trim_plain_ends) (simp add: plain_ends_def)
  show "count_open (''type '' @ name @ '' struct {'') - count_close (''type '' @ name @ '' struct {'') = 1"
    using word_no_char [OF assms]
    by (simp add: count_open_def count_close_def count_char_append count_char_zero)
  show "split_ws_once (name @ '' struct {'') = (name, Some ''struct {'')"
    using split_ws_once_word [OF word_plain [OF assms], of "CHR '' ''" "''struct {''"] by simp
  show "trim ''struct {'' = ''struct {''"
    by (rule trim_plain_ends) (simp add: plain_ends_def)
  obtain c cs where c: "name = c # cs" using assms by (cases name) (auto simp: word_def)
  then have "c \<noteq> CHR ''/''" "c \<noteq> CHR ''(''" using word_no_char [OF assms] by auto
  then show "\<not> is_comment (name @ s)" "name @ s \<noteq> ''(''" by (simp_all add: c is_comment_head)
qed

text \<open>
  C7 (struct round trip). A struct type printed in the standard layout, with any number of
  fields, multi-word types and tags, is parsed back to exactly its name, fields, tags and
  lines; the declaration is consumed entirely and nothing else is reported.
\<close>

theorem struct_roundtrip:
  assumes "word name" and "list_all field_ok fs"
  shows "extract_types (print_struct name fs) fl
         = [mk_type fl 1 name (StructKind (expected_fields fl 2 fs))]"
proof -
  let ?h = "''type '' @ name @ '' struct {''"
  have decl: "try_parse_type_decl fl 0 False ?h (map print_field fs @ [''}''])
      = Some (mk_type fl 1 name (StructKind (expected_fields fl 2 fs)), [], length fs + 2)"
    using struct_header [OF assms(1)] struct_loop_printed [OF assms(2), of fl 1] assms(1)
    by (simp add: try_parse_type_decl_def parse_struct_body_def numeral_2_eq_2)
  have "?h \<noteq> ''type (''" using struct_header(5) [OF assms(1), of "'' struct {''"] by simp
  then show ?thesis
    using decl struct_header(1) [OF assms(1)]
    by (simp add: extract_types_def print_struct_def starts_with_def)
qed

definition sample_fields :: "field_spec list" where
  "sample_fields = [(''Name'', [''string''], Some ''json''), (''done'', [''chan'', ''bool''], None)]"

lemma sample_fields_ok: "word ''Rule''" "list_all field_ok sample_fields"
  by code_simp+

theorem struct_roundtrip_witness:
  "extract_types (print_struct ''Rule'' sample_fields) ''r.go''
   = [mk_type ''r.go'' 1 ''Rule'' (StructKind (expected_fields ''r.go'' 2 sample_fields))]"
  by (rule struct_roundtrip [OF sample_fields_ok])

section \<open>Parentheses\<close>

text \<open>Opening minus closing parentheses of a string.\<close>

definition paren_bal :: "string \<Rightarrow> int" where
  "paren_bal s = int (count_char s (CHR ''('')) - int (count_char s (CHR '')''))"

lemma paren_bal_simps [simp]:
  "paren_bal [] = 0"
  "paren_bal (c # s) = (if c = CHR ''('' then 1 else if c = CHR '')'' then -1 else 0) + paren_bal s"
  by (auto simp: paren_bal_def)

lemma match_paren_spec:
  assumes "0 < d"
  shows "match_paren i d s = Some k \<longleftrightarrow>
     (\<exists>m<length s. k = i + m \<and> d + paren_bal (take (Suc m) s) = 0
        \<and> (\<forall>j\<le>m. 0 < d + paren_bal (take j s)))"
  using assms
proof (induction s arbitrary: i d)
  case Nil
  then show ?case by simp
next
  case (Cons c s)
  define d' where "d' = d + (if c = CHR ''('' then 1 else if c = CHR '')'' then -1 else 0)"
  have shift: "d + paren_bal (take (Suc j) (c # s)) = d' + paren_bal (take j s)" for j
    by (simp add: d'_def)
  show ?case
  proof (cases "d' = 0")
    case True
    have R: "match_paren i d (c # s) = Some i"
      using True Cons.prems by (auto simp: d'_def split: if_splits)
    have only: "m = 0" if "\<forall>j\<le>m. 0 < d + paren_bal (take j (c # s))" for m
    proof (rule ccontr)
      assume "m \<noteq> 0"
      then have "0 < d + paren_bal (take (Suc 0) (c # s))" using that by (metis Suc_leI neq0_conv)
      then show False using shift [of 0] True by simp
    qed
    have zero: "d + paren_bal (take (Suc 0) (c # s)) = 0" using shift [of 0] True by simp
    show ?thesis
      unfolding R using only zero Cons.prems by (auto intro!: exI [of _ 0])
  next
    case False
    then have pos: "0 < d'" using Cons.prems by (auto simp: d'_def split: if_splits)
    have R: "match_paren i d (c # s) = match_paren (i + 1) d' s"
      using False by (auto simp: d'_def)
    have "(\<exists>m<length (c # s). k = i + m \<and> d + paren_bal (take (Suc m) (c # s)) = 0
             \<and> (\<forall>j\<le>m. 0 < d + paren_bal (take j (c # s))))
          \<longleftrightarrow> (\<exists>m<length s. k = i + 1 + m \<and> d' + paren_bal (take (Suc m) s) = 0
             \<and> (\<forall>j\<le>m. 0 < d' + paren_bal (take j s)))" (is "?A \<longleftrightarrow> ?B")
    proof
      assume ?A
      then obtain m where m: "m < length (c # s)" "k = i + m"
        "d + paren_bal (take (Suc m) (c # s)) = 0" "\<forall>j\<le>m. 0 < d + paren_bal (take j (c # s))" by blast
      from m(3) pos obtain m' where m': "m = Suc m'" unfolding shift by (cases m) auto
      have "\<forall>j\<le>m'. 0 < d' + paren_bal (take j s)" using m(4) m' shift by (metis Suc_le_mono)
      with m(1-3) m' show ?B unfolding shift by (intro exI [of _ m']) auto
    next
      assume ?B
      then obtain m where m: "m < length s" "k = i + 1 + m" "d' + paren_bal (take (Suc m) s) = 0"
        "\<forall>j\<le>m. 0 < d' + paren_bal (take j s)" by blast
      have "0 < d + paren_bal (take j (c # s))" if "j \<le> Suc m" for j
        using that m(4) shift Cons.prems by (cases j) auto
      moreover have "d + paren_bal (take (Suc (Suc m)) (c # s)) = 0" unfolding shift by (rule m(3))
      ultimately show ?A using m(1,2) by (intro exI [of _ "Suc m"]) auto
    qed
    with Cons.IH [OF pos, of "i + 1"] R show ?thesis by simp
  qed
qed

text \<open>
  Property (parenthesis matching). \<open>find_matching_paren\<close> at the start of a string returns
  \<open>k\<close> exactly when the string opens with a parenthesis, the first \<open>k + 1\<close> bytes are
  balanced, and no shorter non-empty prefix is: the byte at \<open>k\<close> closes the first one.
\<close>

theorem find_matching_paren_spec:
  "find_matching_paren s 0 = Some k \<longleftrightarrow>
     (\<exists>r. s = CHR ''('' # r) \<and> k < length s \<and> paren_bal (take (Suc k) s) = 0
     \<and> (\<forall>j\<in>{1..k}. 0 < paren_bal (take j s))"
proof (cases s)
  case Nil
  then show ?thesis by (simp add: find_matching_paren_def)
next
  case (Cons c r)
  show ?thesis
  proof (cases "c = CHR ''(''")
    case False
    with Cons show ?thesis by (simp add: find_matching_paren_def)
  next
    case True
    have eq: "find_matching_paren s 0 = match_paren 1 1 r"
      using Cons True by (simp add: find_matching_paren_def)
    have sh: "paren_bal (take (Suc j) s) = 1 + paren_bal (take j r)" for j
      using Cons True by simp
    have spec: "match_paren 1 1 r = Some k \<longleftrightarrow>
        (\<exists>m<length r. k = 1 + m \<and> 1 + paren_bal (take (Suc m) r) = 0
           \<and> (\<forall>j\<le>m. 0 < 1 + paren_bal (take j r)))"
      by (rule match_paren_spec) simp
    show ?thesis
      unfolding eq spec
    proof
      assume "\<exists>m<length r. k = 1 + m \<and> 1 + paren_bal (take (Suc m) r) = 0
                \<and> (\<forall>j\<le>m. 0 < 1 + paren_bal (take j r))"
      then obtain m where m: "m < length r" "k = 1 + m" "1 + paren_bal (take (Suc m) r) = 0"
        "\<forall>j\<le>m. 0 < 1 + paren_bal (take j r)" by blast
      have "0 < paren_bal (take j s)" if "j \<in> {1..k}" for j
        using that m(2,4) sh by (cases j) auto
      with m Cons True show "(\<exists>r. s = CHR ''('' # r) \<and> k < length s
          \<and> paren_bal (take (Suc k) s) = 0 \<and> (\<forall>j\<in>{1..k}. 0 < paren_bal (take j s))"
        using sh by auto
    next
      assume a: "(\<exists>r. s = CHR ''('' # r) \<and> k < length s
          \<and> paren_bal (take (Suc k) s) = 0 \<and> (\<forall>j\<in>{1..k}. 0 < paren_bal (take j s))"
      have "k \<noteq> 0"
      proof
        assume "k = 0"
        with a sh [of 0] show False by simp
      qed
      then obtain m where m: "k = Suc m" by (cases k) auto
      have "0 < 1 + paren_bal (take j r)" if "j \<le> m" for j
        using a m that sh by (metis Suc_le_mono atLeastAtMost_iff le_add1 plus_1_eq_Suc)
      with a m sh Cons show "\<exists>m<length r. k = 1 + m \<and> 1 + paren_bal (take (Suc m) r) = 0
                \<and> (\<forall>j\<le>m. 0 < 1 + paren_bal (take j r))"
        by (intro exI [of _ m]) auto
    qed
  qed
qed

theorem find_matching_paren_spec_witness:
  "\<exists>r. ''(a(b)) {'' = CHR ''('' # r
       \<and> paren_bal (take 6 ''(a(b)) {'') = 0 \<and> 0 < paren_bal (take 5 ''(a(b)) {'')"
proof -
  have "find_matching_paren ''(a(b)) {'' 0 = Some 5" by code_simp
  then show ?thesis unfolding find_matching_paren_spec by auto
qed

section \<open>Functions and methods\<close>

fun param_ok :: "param \<Rightarrow> bool" where
  "param_ok p = (word (pa_name p) \<and> word (pa_type_expr p))"

definition return_ok :: "param \<Rightarrow> bool" where
  "return_ok p = (pa_name p = [] \<and> word (pa_type_expr p))"

definition receiver_ok :: "receiver \<Rightarrow> bool" where
  "receiver_ok r = (word (rc_name r) \<and> word (rc_type_name r) \<and> hd (rc_type_name r) \<noteq> CHR ''*'')"

definition func_ok :: "go_func \<Rightarrow> bool" where
  "func_ok f =
     (word (fn_name f) \<and> list_all param_ok (fn_params f) \<and> list_all return_ok (fn_returns f)
      \<and> (case fn_receiver f of None \<Rightarrow> True | Some r \<Rightarrow> receiver_ok r)
      \<and> fn_visibility f = visibility_from_name (fn_name f))"

definition print_param :: "param \<Rightarrow> string" where
  "print_param p = pa_name p @ '' '' @ pa_type_expr p"

definition print_receiver :: "receiver \<Rightarrow> string" where
  "print_receiver r = rc_name r @ '' '' @ (if rc_pointer r then ''*'' else []) @ rc_type_name r"

definition print_returns :: "param list \<Rightarrow> string" where
  "print_returns rs =
     (case rs of
        [] \<Rightarrow> []
      | [r] \<Rightarrow> '' '' @ pa_type_expr r
      | _ \<Rightarrow> '' ('' @ join '', '' (map pa_type_expr rs) @ '')'')"

definition print_func :: "go_func \<Rightarrow> string" where
  "print_func f =
     ''func '' @ (case fn_receiver f of None \<Rightarrow> [] | Some r \<Rightarrow> ''('' @ print_receiver r @ '') '')
     @ fn_name f @ ''('' @ join '', '' (map print_param (fn_params f)) @ '')''
     @ print_returns (fn_returns f) @ '' {''"

text \<open>Pieces without commas or brackets, joined by a comma and a space.\<close>

definition flat :: "string \<Rightarrow> bool" where
  "flat s = (plain_ends s \<and> list_all (\<lambda>c. c \<notin> set ''(){}[],'') s)"

lemma flat_no_char: "flat s \<Longrightarrow> c \<in> set ''(){}[],'' \<Longrightarrow> c \<notin> set s"
  by (auto simp: flat_def list_all_iff)

lemma flat_word: "word w \<Longrightarrow> flat w"
  by (auto simp: flat_def word_plain word_def word_char_def list_all_iff)

lemma flat_two: "word a \<Longrightarrow> word b \<Longrightarrow> flat (a @ '' '' @ b)"
  using word_plain [of a] word_plain [of b] flat_word [of a] flat_word [of b]
  by (auto simp: flat_def plain_ends_def plain_word_def)

lemma join_no_char:
  assumes "c \<notin> set sep" "\<forall>w\<in>set ws. c \<notin> set w"
  shows "c \<notin> set (join sep ws)"
  using assms by (induction sep ws rule: join.induct) auto

lemma flat_join_no_paren:
  "list_all flat ws \<Longrightarrow> c = CHR ''('' \<or> c = CHR '')'' \<Longrightarrow> c \<notin> set (join '', '' ws)"
  by (rule join_no_char) (auto simp: list_all_iff flat_def)

lemma split_params_acc_flat:
  "list_all (\<lambda>c. c \<notin> set ''(){}[],'') s \<Longrightarrow>
     split_params_acc acc 0 (s @ t) = split_params_acc (rev s @ acc) 0 t"
  by (induction s arbitrary: acc) auto

text \<open>The pieces: all but the first keep the space that follows the comma.\<close>

fun comma_pieces :: "string list \<Rightarrow> string list" where
  "comma_pieces [] = []"
| "comma_pieces (x # xs) = x # map (\<lambda>y. '' '' @ y) xs"

lemma split_params_join:
  assumes "list_all flat (x # xs)" "p = [] \<or> p = '' ''"
  shows "split_params_acc (rev p) 0 (join '', '' (x # xs)) = (p @ x) # map (\<lambda>y. '' '' @ y) xs"
  using assms
proof (induction xs arbitrary: x p)
  case Nil
  then have f: "flat x" by simp
  have "trim (p @ x) \<noteq> []"
    using trim_pad [of x p "[]"] f Nil(2) by (auto simp: flat_def plain_ends_def)
  with split_params_acc_flat [of x "rev p" "[]"] f show ?case by (simp add: flat_def)
next
  case (Cons y ys)
  then have f: "flat x" and fs: "list_all flat (y # ys)" by simp_all
  have "split_params_acc (rev p) 0 (join '', '' (x # y # ys))
        = split_params_acc (rev x @ rev p) 0 ('', '' @ join '', '' (y # ys))"
    using split_params_acc_flat [of x "rev p"] f by (simp add: flat_def)
  also have "\<dots> = (p @ x) # split_params_acc (rev '' '') 0 (join '', '' (y # ys))"
    by simp
  also have "split_params_acc (rev '' '') 0 (join '', '' (y # ys)) = ('' '' @ y) # map (\<lambda>y. '' '' @ y) ys"
    by (rule Cons.IH [OF fs]) simp
  finally show ?case by simp
qed

lemma flat_join_ends:
  assumes "ws \<noteq> []" "list_all flat ws"
  shows "plain_ends (join '', '' ws)"
  using assms
proof (induction "'', ''" ws rule: join.induct)
  case (2 x)
  then show ?case by (simp add: flat_def)
next
  case (3 x y ys)
  then have "plain_ends (join '', '' (y # ys))" "plain_ends x" by (auto simp: flat_def)
  then show ?case by (auto simp: plain_ends_def)
qed simp

lemma parse_param_list_join:
  assumes "list_all flat ws" "\<And>w. w \<in> set ws \<Longrightarrow> parse_param w = g w"
    "\<And>w. w \<in> set ws \<Longrightarrow> parse_param ('' '' @ w) = g w"
  shows "parse_param_list (join '', '' ws) = map g ws"
proof (cases ws)
  case Nil
  then show ?thesis by (simp add: parse_param_list_def)
next
  case (Cons x xs)
  have pe: "plain_ends (join '', '' ws)" using flat_join_ends assms(1) Cons by blast
  have sp: "split_params (join '', '' ws) = x # map (\<lambda>y. '' '' @ y) xs"
    using split_params_join [of x xs "[]"] assms(1) Cons by (simp add: split_params_def)
  have "join '', '' ws \<noteq> []" using pe by (simp add: plain_ends_def)
  then show ?thesis
    unfolding parse_param_list_def trim_plain_ends [OF pe] Let_def sp
    using assms(2,3) Cons by simp
qed

lemma trim_flat: "flat w \<Longrightarrow> trim w = w" "flat w \<Longrightarrow> trim ('' '' @ w) = w"
  using trim_pad [of w "'' ''" "[]"] by (simp_all add: flat_def trim_plain_ends)

lemma parse_param_two:
  assumes "param_ok p" "s = [] \<or> s = '' ''"
  shows "parse_param (s @ print_param p) = p"
proof -
  from assms have w: "word (pa_name p)" "word (pa_type_expr p)" by simp_all
  have t: "trim (s @ print_param p) = pa_name p @ CHR '' '' # pa_type_expr p"
    using trim_flat [OF flat_two [OF w]] assms(2) by (auto simp: print_param_def)
  have o: "split_ws_once (pa_name p @ CHR '' '' # pa_type_expr p) = (pa_name p, Some (pa_type_expr p))"
    by (rule split_ws_once_word) (simp_all add: word_plain w)
  have nf: "\<not> starts_with (pa_name p) ''func(''" "\<not> starts_with (pa_name p) ''func (''"
    using word_no_char(1) [OF w(1)] by (auto simp: starts_with_iff)
  show ?thesis
    using nf by (simp add: parse_param_def t o trim_flat(1) flat_word w)
qed

lemma parse_param_one:
  assumes "return_ok p" "s = [] \<or> s = '' ''"
  shows "parse_param (s @ pa_type_expr p) = p"
proof -
  from assms have w: "word (pa_type_expr p)" "pa_name p = []" by (simp_all add: return_ok_def)
  have t: "trim (s @ pa_type_expr p) = pa_type_expr p"
    using trim_flat [OF flat_word [OF w(1)]] assms(2) by auto
  have "split_ws_once (pa_type_expr p) = (pa_type_expr p, None)"
    using split_ws_once_plain word_plain [OF w(1)] by (simp add: plain_word_def)
  with t w(2) show ?thesis by (simp add: parse_param_def)
qed

lemma parse_printed_params:
  assumes "list_all param_ok ps"
  shows "parse_param_list (join '', '' (map print_param ps)) = ps"
proof -
  have "\<exists>g. parse_param_list (join '', '' (map print_param ps)) = map g (map print_param ps)
            \<and> (\<forall>p\<in>set ps. g (print_param p) = p)"
  proof (intro exI conjI ballI)
    show "parse_param_list (join '', '' (map print_param ps)) = map parse_param (map print_param ps)"
      using assms parse_param_two [of _ "'' ''"] parse_param_two [of _ "[]"] flat_two
      by (intro parse_param_list_join) (auto simp: list_all_iff print_param_def)
    show "parse_param (print_param p) = p" if "p \<in> set ps" for p
      using assms that parse_param_two [of p "[]"] by (auto simp: list_all_iff)
  qed
  then show ?thesis by (auto simp: map_idI)
qed

lemma parse_printed_types:
  assumes "list_all return_ok ps"
  shows "parse_param_list (join '', '' (map pa_type_expr ps)) = ps"
proof -
  have "parse_param_list (join '', '' (map pa_type_expr ps)) = map parse_param (map pa_type_expr ps)"
    using assms parse_param_one [of _ "'' ''"] parse_param_one [of _ "[]"] flat_word
    by (intro parse_param_list_join) (auto simp: list_all_iff return_ok_def)
  also have "\<dots> = ps"
    using assms parse_param_one [of _ "[]"] by (auto simp: list_all_iff o_def map_idI)
  finally show ?thesis .
qed

text \<open>The receiver, the name and the signature of a printed function.\<close>

lemma no_paren_match:
  assumes "CHR ''('' \<notin> set b" "CHR '')'' \<notin> set b"
  shows "find_matching_paren (''('' @ b @ '')'' @ t) 0 = Some (length b + 1)"
proof -
  have skip: "match_paren i d (b @ u) = match_paren (i + length b) d u" for i d u
    using assms by (induction b arbitrary: i) auto
  show ?thesis using skip [of 1 1 "'')'' @ t"] by (simp add: find_matching_paren_def)
qed

lemma parse_printed_receiver:
  assumes "receiver_ok r"
  shows "parse_receiver (print_receiver r) = Some r"
proof -
  let ?t = "(if rc_pointer r then ''*'' else []) @ rc_type_name r"
  from assms have w: "word (rc_name r)" "word (rc_type_name r)" "hd (rc_type_name r) \<noteq> CHR ''*''"
    by (simp_all add: receiver_ok_def)
  have wt: "word ?t" using w(2) by (auto simp: word_def word_char_def)
  have tr: "trim (rc_name r @ '' '' @ ?t) = rc_name r @ '' '' @ ?t"
    using trim_flat(1) [OF flat_two [OF w(1) wt]] .
  have sw: "split_ws (rc_name r @ '' '' @ ?t) = [rc_name r, ?t]"
    using split_ws_join [of "[rc_name r, ?t]"] word_plain w(1) wt by simp
  obtain c cs where c: "rc_type_name r = c # cs" using w(2) by (cases "rc_type_name r") (auto simp: word_def)
  with w(3) have "c \<noteq> CHR ''*''" by simp
  with c show ?thesis
    unfolding parse_receiver_def print_receiver_def tr sw
    by (simp add: trim_start_char_def starts_with_Cons)
qed

lemma parse_printed_returns:
  assumes "list_all return_ok rs"
  shows "parse_returns (trim (trim_end_char (trim (print_returns rs @ '' {'')) (CHR 0x7B))) = rs"
proof -
  have tl: "trim (trim_end_char (trim ('' '' @ b @ '' {'')) (CHR 0x7B)) = b"
    if "plain_ends b" "last b \<noteq> CHR 0x7B" for b
  proof -
    have "plain_ends (b @ '' {'')" using that(1) by (auto simp: plain_ends_def)
    then have "trim ('' '' @ (b @ '' {'') @ []) = b @ '' {''" by (rule trim_pad) auto
    moreover have "trim_end_char (b @ '' {'') (CHR 0x7B) = b @ '' ''"
      by (simp add: trim_end_char_def)
    moreover have "trim ([] @ b @ '' '') = b" by (rule trim_pad [OF that(1)]) auto
    ultimately show ?thesis by simp
  qed
  consider "rs = []" | r where "rs = [r]" | r1 r2 rs' where "rs = r1 # r2 # rs'"
    by (metis neq_Nil_conv)
  then show ?thesis
  proof cases
    case 1
    have "trim ('' '' @ ''{'' @ []) = ''{''" by (rule trim_pad) (auto simp: plain_ends_def)
    with 1 show ?thesis
      by (simp add: print_returns_def trim_end_char_def parse_returns_def)
  next
    case (2 r)
    with assms have w: "word (pa_type_expr r)" "pa_name r = []" by (simp_all add: return_ok_def)
    have ne: "pa_type_expr r \<noteq> []" and hd: "\<not> starts_with (pa_type_expr r) ''(''"
      using w(1) word_no_char(1) [OF w(1)] by (auto simp: starts_with_iff)
    have "last (pa_type_expr r) \<noteq> CHR 0x7B"
      using word_no_char(3) [OF w(1)] ne by (metis last_in_set)
    with tl [of "pa_type_expr r"] w word_plain have "trim (trim_end_char
        (trim (print_returns rs @ '' {'')) (CHR 0x7B)) = pa_type_expr r"
      by (simp add: 2 print_returns_def)
    with ne hd w(2) 2 show ?thesis by (simp add: parse_returns_def)
  next
    case (3 r1 r2 rs')
    let ?b = "join '', '' (map pa_type_expr rs)"
    have fl: "list_all flat (map pa_type_expr rs)"
      using assms flat_word by (auto simp: list_all_iff return_ok_def)
    have np: "CHR ''('' \<notin> set ?b" "CHR '')'' \<notin> set ?b"
      using flat_join_no_paren [OF fl] by blast+
    have "trim (trim_end_char (trim (print_returns rs @ '' {'')) (CHR 0x7B)) = ''('' @ ?b @ '')''"
      using tl [of "''('' @ ?b @ '')''"] by (simp add: 3 print_returns_def plain_ends_def)
    moreover have "find_matching_paren (''('' @ ?b @ '')'') 0 = Some (length ?b + 1)"
      using no_paren_match [OF np, of "[]"] by simp
    moreover have "parse_param_list ?b = rs" by (rule parse_printed_types [OF assms])
    ultimately show ?thesis by (simp add: parse_returns_def starts_with_Cons)
  qed
qed

lemma parse_printed_signature:
  assumes "list_all param_ok ps" "list_all return_ok rs"
  shows "parse_func_signature
           (''('' @ join '', '' (map print_param ps) @ '')'' @ print_returns rs @ '' {'') = (ps, rs)"
proof -
  let ?b = "join '', '' (map print_param ps)"
  let ?t = "print_returns rs @ '' {''"
  have fl: "list_all flat (map print_param ps)"
    using assms(1) flat_two by (auto simp: list_all_iff print_param_def)
  have np: "CHR ''('' \<notin> set ?b" "CHR '')'' \<notin> set ?b"
    using flat_join_no_paren [OF fl] by blast+
  have tr: "trim (''('' @ ?b @ '')'' @ ?t) = ''('' @ ?b @ '')'' @ ?t"
    by (rule trim_plain_ends) (simp add: plain_ends_def)
  have d: "drop (length ?b + 1 + 1) (''('' @ ?b @ '')'' @ ?t) = ?t" by simp
  have tk: "take (length ?b + 1 - 1) (drop 1 (''('' @ ?b @ '')'' @ ?t)) = ?b" by simp
  show ?thesis
    unfolding parse_func_signature_def tr no_paren_match [OF np] option.case Let_def d tk
    by (simp only: parse_printed_params [OF assms(1)] parse_printed_returns [OF assms(2)])
qed

lemma mk_printed_func:
  assumes "func_ok f" "fn_location f = mk_loc fl n"
  shows "mk_func fl n (fn_receiver f) (fn_name f)
           (''('' @ join '', '' (map print_param (fn_params f)) @ '')''
            @ print_returns (fn_returns f) @ '' {'') = Some f"
proof -
  from assms(1) have ok: "list_all param_ok (fn_params f)" "list_all return_ok (fn_returns f)"
    "fn_name f \<noteq> []" "fn_visibility f = visibility_from_name (fn_name f)"
    by (auto simp: func_ok_def)
  show ?thesis
    unfolding mk_func_def parse_printed_signature [OF ok(1,2)]
    using ok(3,4) assms(2) by simp
qed

lemma parse_printed_func:
  assumes "func_ok f" "fn_location f = mk_loc fl n"
  shows "try_parse_func (print_func f) fl n = Some f"
proof -
  let ?sig = "''('' @ join '', '' (map print_param (fn_params f)) @ '')''
              @ print_returns (fn_returns f) @ '' {''"
  from assms(1) have w: "word (fn_name f)" by (simp add: func_ok_def)
  obtain c cs where c: "fn_name f = c # cs" using w by (cases "fn_name f") (auto simp: word_def)
  have pc: "plain_char c" using word_plain [OF w] c by (simp add: plain_word_def)
  have fs: "find_sub (fn_name f @ ?sig) ''('' = Some (length (fn_name f))"
    using find_sub_single_append [OF word_no_char(1) [OF w]] by simp
  have tn: "trim (fn_name f) = fn_name f" by (rule trim_plain_ends) (simp add: word_plain w)
  have dt: "drop (length (fn_name f)) (fn_name f @ ?sig) = ?sig"
    "take (length (fn_name f)) (fn_name f @ ?sig) = fn_name f" by simp_all
  show ?thesis
  proof (cases "fn_receiver f")
    case None
    have pf: "print_func f = ''func'' @ CHR '' '' # fn_name f @ ?sig"
      by (simp add: print_func_def None)
    have ts: "trim_start (CHR '' '' # fn_name f @ ?sig) = fn_name f @ ?sig"
      using pc by (simp add: trim_start_ascii_ws c trim_start_plain)
    have nsw: "\<not> starts_with (fn_name f @ ?sig) ''(''"
      using word_no_char(1) [OF w] c by (auto simp: starts_with_Cons)
    show ?thesis
      unfolding try_parse_func_def pf strip_prefix_append option.case ts Let_def fs tn dt
      using nsw mk_printed_func [OF assms] None by simp
  next
    case (Some r)
    with assms(1) have rok: "receiver_ok r" by (simp add: func_ok_def)
    let ?rest = "''('' @ print_receiver r @ '')'' @ CHR '' '' # fn_name f @ ?sig"
    have np: "CHR ''('' \<notin> set (print_receiver r)" "CHR '')'' \<notin> set (print_receiver r)"
      using rok word_no_char(1,2) by (auto simp: print_receiver_def receiver_ok_def)
    have pf: "print_func f = ''func'' @ CHR '' '' # ?rest"
      by (simp add: print_func_def Some)
    have ts: "trim_start (CHR '' '' # ?rest) = ?rest"
      by (simp add: trim_start_ascii_ws trim_start_plain)
    have ta: "trim (drop (length (print_receiver r) + 1 + 1) ?rest) = fn_name f @ ?sig"
    proof -
      have "plain_ends (fn_name f @ ?sig)" using pc by (simp add: plain_ends_def c)
      then have "trim ('' '' @ (fn_name f @ ?sig) @ []) = fn_name f @ ?sig"
        by (rule trim_pad) auto
      then show ?thesis by simp
    qed
    have sw: "starts_with ?rest ''(''" by (simp add: starts_with_Cons)
    have rv: "parse_receiver (take (length (print_receiver r) + 1 - 1) (drop 1 ?rest)) = Some r"
      using parse_printed_receiver [OF rok] by simp
    show ?thesis
      unfolding try_parse_func_def pf strip_prefix_append option.case ts Let_def
        no_paren_match [OF np] ta fs tn dt rv
      using sw mk_printed_func [OF assms] Some by simp
  qed
qed

text \<open>
  C6 (function round trip). A file of functions and methods printed one per line in the
  standard layout is parsed back to exactly those functions: names, receivers with their
  pointer mark, parameters, single and multiple results, visibility and lines.
\<close>

theorem function_roundtrip:
  assumes "list_all func_ok fs"
    and "\<forall>k<length fs. fn_location (fs ! k) = mk_loc fl (k + 1)"
  shows "extract_functions (map print_func fs) fl = fs"
proof -
  have tr: "trim (print_func f) = print_func f" for f
    by (rule trim_plain_ends) (simp add: print_func_def plain_ends_def)
  have st: "starts_with (print_func f) ''func ''" for f
    by (simp add: print_func_def starts_with_def)
  have "functions_loop fl i (map print_func gs) = gs"
    if "list_all func_ok gs" "\<forall>k<length gs. fn_location (gs ! k) = mk_loc fl (i + k + 1)" for i gs
    using that
  proof (induction gs arbitrary: i)
    case Nil
    show ?case by simp
  next
    case (Cons g gs)
    from Cons.prems have g: "func_ok g" "fn_location g = mk_loc fl (i + 1)" by auto
    have "\<forall>k<length gs. fn_location (gs ! k) = mk_loc fl ((i + 1) + k + 1)"
      using Cons.prems(2) by auto
    with Cons have "functions_loop fl (i + 1) (map print_func gs) = gs" by simp
    with parse_printed_func [OF g] show ?case by (simp add: tr st opt_list_def)
  qed
  from this [of fs 0] assms show ?thesis by (simp add: extract_functions_def)
qed

definition sample_funcs :: "go_func list" where
  "sample_funcs =
     [\<lparr>fn_name = ''Run'', fn_receiver = Some \<lparr>rc_name = ''s'', rc_type_name = ''Service'', rc_pointer = True\<rparr>,
       fn_params = [\<lparr>pa_name = ''ctx'', pa_type_expr = ''context.Context''\<rparr>,
                    \<lparr>pa_name = ''n'', pa_type_expr = ''int''\<rparr>],
       fn_returns = [\<lparr>pa_name = [], pa_type_expr = ''int''\<rparr>, \<lparr>pa_name = [], pa_type_expr = ''error''\<rparr>],
       fn_visibility = Exported, fn_location = mk_loc ''s.go'' 1\<rparr>,
      \<lparr>fn_name = ''stop'', fn_receiver = None, fn_params = [], fn_returns = [],
       fn_visibility = Unexported, fn_location = mk_loc ''s.go'' 2\<rparr>]"

lemma sample_funcs_ok:
  "list_all func_ok sample_funcs"
  "\<forall>k<length sample_funcs. fn_location (sample_funcs ! k) = mk_loc ''s.go'' (k + 1)"
proof -
  show "list_all func_ok sample_funcs" by code_simp
  show "\<forall>k<length sample_funcs. fn_location (sample_funcs ! k) = mk_loc ''s.go'' (k + 1)"
    by (auto simp: sample_funcs_def less_Suc_eq numeral_2_eq_2)
qed

theorem function_roundtrip_witness:
  "extract_functions (map print_func sample_funcs) ''s.go'' = sample_funcs"
  by (rule function_roundtrip [OF sample_funcs_ok])

section \<open>Import blocks\<close>

text \<open>An import to print: an optional alias and the path.\<close>

definition path_char :: "char \<Rightarrow> bool" where
  "path_char c = (plain_char c \<and> c \<notin> set ''()'' \<and> c \<noteq> CHR 0x22)"

fun import_ok :: "string option \<times> string \<Rightarrow> bool" where
  "import_ok (alias, path) =
     ((case alias of None \<Rightarrow> True | Some a \<Rightarrow> word a \<and> a \<noteq> ''import'')
      \<and> path \<noteq> [] \<and> list_all path_char path \<and> \<not> contains path slash_slash)"

fun import_text :: "string option \<times> string \<Rightarrow> string" where
  "import_text (alias, path) =
     (case alias of None \<Rightarrow> [] | Some a \<Rightarrow> a @ '' '') @ [CHR 0x22] @ path @ [CHR 0x22]"

definition print_imports :: "(string option \<times> string) list \<Rightarrow> string list" where
  "print_imports ims = ''import ('' # map (\<lambda>m. [CHR 0x09] @ import_text m) ims @ ['')'']"

fun expected_imports :: "string \<Rightarrow> nat \<Rightarrow> (string option \<times> string) list \<Rightarrow> go_import list" where
  "expected_imports fl n [] = []"
| "expected_imports fl n ((alias, path) # ims) = mk_import fl n alias path # expected_imports fl (n + 1) ims"

lemma contains_append_Cons:
  assumes "contains (a @ [c] @ b) [x, y]" "c \<noteq> x" "c \<noteq> y"
  shows "contains a [x, y] \<or> contains b [x, y]"
proof -
  from assms(1) obtain u v where uv: "a @ [c] @ b = u @ [x, y] @ v" by (auto simp: contains_iff)
  consider w where "a = u @ [x, y] @ w" | w where "b = w @ [x, y] @ v"
  proof -
    from uv have "a @ c # b = u @ x # y # v" by simp
    then consider us where "a = u @ us" "us @ c # b = x # y # v"
      | us where "a @ us = u" "c # b = us @ x # y # v"
      by (auto simp: append_eq_append_conv2)
    then show thesis
    proof cases
      case (1 us)
      then obtain us' where "us = x # y # us'"
        using assms(2,3) by (cases us; cases "tl us") auto
      with 1 that(1) [of us'] show thesis by simp
    next
      case (2 us)
      then obtain us' where "us = c # us'" using assms(2) by (cases us) auto
      with 2 that(2) [of us'] show thesis by simp
    qed
  qed
  then show ?thesis by cases (auto simp: contains_iff)
qed

lemma contains_no_char: "contains s (x # p) \<Longrightarrow> x \<in> set s"
  by (auto simp: contains_iff)

lemma import_text_no_comment:
  assumes "import_ok (alias, path)"
  shows "\<not> contains (import_text (alias, path)) slash_slash"
proof
  assume "contains (import_text (alias, path)) slash_slash"
  then have c: "contains ((case alias of None \<Rightarrow> [] | Some a \<Rightarrow> a @ '' '') @ [CHR 0x22] @ path @ [CHR 0x22])
      [CHR ''/'', CHR ''/'']" by (simp add: slash_slash_def)
  have "CHR ''/'' \<notin> set (case alias of None \<Rightarrow> [] | Some a \<Rightarrow> a @ '' '')"
    using assms word_no_char(8) by (auto split: option.splits)
  then have "\<not> contains (case alias of None \<Rightarrow> [] | Some a \<Rightarrow> a @ '' '') [CHR ''/'', CHR ''/'']"
    using contains_no_char by blast
  with contains_append_Cons [OF c] have "contains (path @ [CHR 0x22]) [CHR ''/'', CHR ''/'']" by auto
  with contains_append_Cons [of path "CHR 0x22" "[]" "CHR ''/''" "CHR ''/''"]
  have "contains path [CHR ''/'', CHR ''/''] \<or> contains [] [CHR ''/'', CHR ''/'']" by simp
  then show False using assms by (auto simp: slash_slash_def contains_iff)
qed

lemma before_comment_none: "\<not> contains s slash_slash \<Longrightarrow> before_comment s = trim s"
  by (simp add: before_comment_def contains_def split_first_def)

lemma parse_printed_import:
  assumes "import_ok (alias, path)"
  shows "parse_import_line (import_text (alias, path)) = (alias, Some path)"
    and "trim ([CHR 0x09] @ import_text (alias, path)) = import_text (alias, path)"
    and "import_text (alias, path) \<noteq> []" "\<not> is_comment (import_text (alias, path))"
    and "import_text (alias, path) \<noteq> '')''" "CHR ''('' \<notin> set (import_text (alias, path))"
    and "CHR 0x09 \<notin> set (import_text (alias, path))"
    and "\<not> starts_with (import_text (alias, path)) (''import '' @ [CHR 0x22])"
proof -
  let ?a = "case alias of None \<Rightarrow> [] | Some a \<Rightarrow> a @ '' ''"
  let ?s = "import_text (alias, path)"
  have na: "CHR 0x22 \<notin> set ?a" using assms word_no_char(10) by (auto split: option.splits)
  have np: "CHR 0x22 \<notin> set path" using assms by (auto simp: path_char_def list_all_iff)
  have pe: "plain_ends ?s"
  proof (cases "alias")
    case None
    then show ?thesis by (simp add: plain_ends_def)
  next
    case (Some a)
    with assms have "word a" by simp
    then obtain c cs where "a = c # cs" "plain_char c"
      by (cases a) (auto simp: word_def word_char_def)
    with Some show ?thesis by (simp add: plain_ends_def)
  qed
  have s: "?s = ?a @ CHR 0x22 # path @ [CHR 0x22]" by simp
  have bc: "before_comment (trim ?s) = ?s"
    using before_comment_none [OF import_text_no_comment [OF assms]] by (simp only: trim_plain_ends [OF pe])
  have f1: "find_sub ?s [CHR 0x22] = Some (length ?a)"
    unfolding s by (rule find_sub_single_append [OF na])
  have f2: "find_sub (drop (length ?a + 1) ?s) [CHR 0x22] = Some (length path)"
    unfolding s using find_sub_single_append [OF np, of "[]"] by simp
  have t1: "take (length path) (drop (length ?a + 1) ?s) = path" unfolding s by simp
  have t2: "take (length ?a) ?s = ?a" unfolding s by simp
  have al: "trim ?a = (case alias of None \<Rightarrow> [] | Some a \<Rightarrow> a)"
    using assms trim_pad [of _ "[]" "'' ''"] word_plain by (auto split: option.splits)
  have dots: "(if trim ?a = [] \<or> trim ?a = ''.'' \<or> trim ?a = ''_''
               then (if trim ?a = ''.'' \<or> trim ?a = ''_'' then Some (trim ?a) else None)
               else Some (trim ?a)) = alias"
    unfolding al using assms by (cases "alias") auto
  show "parse_import_line ?s = (alias, Some path)"
    unfolding parse_import_line_def Let_def bc f1 option.case f2 t1 t2 dots by simp
  show "trim ([CHR 0x09] @ ?s) = ?s" using trim_pad [OF pe, of "[CHR 0x09]" "[]"] by simp
  show ne: "?s \<noteq> []" using pe by (simp add: plain_ends_def)
  have hd: "hd ?s \<noteq> CHR ''/'' \<and> hd ?s \<noteq> CHR '')''"
  proof (cases "alias")
    case None
    then show ?thesis by simp
  next
    case (Some a)
    with assms have w: "word a" by simp
    then have "hd a \<in> set a" by (simp add: word_def)
    moreover have "hd ?s = hd a" using w by (simp add: Some hd_append word_def)
    ultimately show ?thesis using word_no_char(2,8) [OF w] by auto
  qed
  obtain c cs where c: "?s = c # cs" using ne by (cases ?s) auto
  with hd have "c \<noteq> CHR ''/''" "c \<noteq> CHR '')''" by simp_all
  then show "\<not> is_comment ?s" "?s \<noteq> '')''" unfolding c by (simp_all add: is_comment_head)
  show "CHR ''('' \<notin> set ?s"
    using assms word_no_char(1) by (auto simp: path_char_def list_all_iff split: option.splits)
  have tab: "plain_char d \<Longrightarrow> d \<noteq> CHR 0x09" for d by (auto simp: plain_char_def ascii_ws_def)
  then show "CHR 0x09 \<notin> set ?s"
    using assms word_plain
    by (auto simp: path_char_def list_all_iff plain_word_def split: option.splits)
  show "\<not> starts_with ?s (''import '' @ [CHR 0x22])"
  proof (cases "alias")
    case None
    then show ?thesis by (simp add: starts_with_Cons)
  next
    case (Some a)
    with assms have w: "word a" "a \<noteq> ''import''" by simp_all
    show ?thesis
    proof
      assume "starts_with ?s (''import '' @ [CHR 0x22])"
      then obtain r where r: "a @ CHR '' '' # ([CHR 0x22] @ path @ [CHR 0x22])
          = ''import'' @ CHR '' '' # ([CHR 0x22] @ r)"
        by (auto simp: starts_with_iff Some)
      have "takeWhile (\<lambda>x. x \<noteq> CHR '' '') (a @ CHR '' '' # t) = a" for t
        using word_no_char(12) [OF w(1)] by (induction a) auto
      moreover have "takeWhile (\<lambda>x. x \<noteq> CHR '' '') (''import'' @ CHR '' '' # t) = ''import''" for t
        by simp
      ultimately show False using w(2) r by metis
    qed
  qed
qed

text \<open>
  Property (import round trip). An import block printed in the standard layout is parsed back to
  exactly its imports, in order and with their aliases, classification and lines.
\<close>

theorem imports_roundtrip:
  assumes "list_all import_ok ims"
  shows "extract_imports (print_imports ims) fl = expected_imports fl 2 ims"
proof -
  have step: "imports_loop fl i True (map (\<lambda>m. [CHR 0x09] @ import_text m) js @ ['')''])
              = expected_imports fl (i + 1) js" if "list_all import_ok js" for i js
    using that
  proof (induction js arbitrary: i)
    case Nil
    have "trim '')'' = '')''" by (rule trim_plain_ends) (simp add: plain_ends_def)
    then show ?case by (simp add: starts_with_Cons)
  next
    case (Cons m js)
    obtain a q where m: "m = (a, q)" by (cases m)
    with Cons.prems have ok: "import_ok (a, q)" by simp
    note facts = parse_printed_import [OF ok]
    have ns: "\<not> starts_with (import_text (a, q)) ''import (''"
      "import_text (a, q) \<noteq> ''import (''"
      "\<not> starts_with (import_text (a, q)) (''import'' @ [CHR 0x09, CHR 0x22])"
      using facts(6,7) by (auto simp: starts_with_iff simp del: import_text.simps)
    have IH: "imports_loop fl (i + 1) True (map (\<lambda>m. [CHR 0x09] @ import_text m) js @ ['')''])
        = expected_imports fl (i + 1 + 1) js" using Cons by simp
    have "imports_loop fl i True (([CHR 0x09] @ import_text (a, q)) # ls)
        = mk_import fl (i + 1) a q # imports_loop fl (i + 1) True ls" for ls
      unfolding imports_loop.simps Let_def facts(2)
      using ns facts(1,3,4,5,8) by (simp add: opt_list_def del: import_text.simps)
    with IH m show ?case by (simp del: import_text.simps imports_loop.simps)
  qed
  have "trim ''import ('' = ''import (''" by (rule trim_plain_ends) (simp add: plain_ends_def)
  then have "imports_loop fl 0 False (print_imports ims)
      = imports_loop fl 1 True (map (\<lambda>m. [CHR 0x09] @ import_text m) ims @ ['')''])"
    by (simp add: print_imports_def starts_with_Cons del: import_text.simps)
  with step [OF assms, of 1] show ?thesis
    by (simp add: extract_imports_def numeral_2_eq_2)
qed

definition sample_imports :: "(string option \<times> string) list" where
  "sample_imports = [(None, ''context''), (Some ''natsio'', ''github.com/nats-io/nats.go'')]"

lemma sample_imports_ok: "list_all import_ok sample_imports"
  by code_simp

theorem imports_roundtrip_witness:
  "extract_imports (print_imports sample_imports) ''m.go''
   = expected_imports ''m.go'' 2 sample_imports"
  by (rule imports_roundtrip [OF sample_imports_ok])

end
