(* ===== verification/Models.thy ===== *)
theory Models
  imports Prelude
begin

text \<open>
  The data every analyser produces (\<open>models/mod.rs\<close>), the error type of the tool
  (\<open>error/mod.rs\<close>) and the report renderer (\<open>output/mod.rs\<close>).

  A \<open>Report\<close> is a list of \<open>CheckResult\<close>s with a flag \<open>passed\<close> that \<open>Report::add\<close>
  maintains; a \<open>CheckResult\<close> is a status and a list of \<open>Finding\<close>s. The invariant of
  this component, \<open>report_wf\<close>, ties the flag to the statuses and the statuses to the
  severities of the findings. Rust \<open>String\<close>s are byte lists, and \<open>usize\<close> counters, which
  count elements of lists in memory, are \<open>nat\<close>. The JSON serialiser is a parameter.
\<close>

section \<open>Severity\<close>

datatype severity = Info | Warning | Error

fun severity_rank :: "severity \<Rightarrow> nat" where
  "severity_rank Info = 0"
| "severity_rank Warning = 1"
| "severity_rank Error = 2"

text \<open>The derived \<open>Ord\<close> follows the order of the constructors.\<close>

instantiation severity :: linorder
begin

definition less_eq_severity :: "severity \<Rightarrow> severity \<Rightarrow> bool" where
  "less_eq_severity a b = (severity_rank a \<le> severity_rank b)"

definition less_severity :: "severity \<Rightarrow> severity \<Rightarrow> bool" where
  "less_severity a b = (severity_rank a < severity_rank b)"

instance
proof
  fix a b c :: severity
  show "(a < b) = (a \<le> b \<and> \<not> b \<le> a)"
    by (auto simp: less_eq_severity_def less_severity_def)
  show "a \<le> a" by (simp add: less_eq_severity_def)
  show "a \<le> b \<Longrightarrow> b \<le> c \<Longrightarrow> a \<le> c" by (simp add: less_eq_severity_def)
  show "a \<le> b \<Longrightarrow> b \<le> a \<Longrightarrow> a = b"
    by (cases a; cases b) (simp_all add: less_eq_severity_def)
  show "a \<le> b \<or> b \<le> a" by (auto simp: less_eq_severity_def)
qed

end

fun show_severity :: "severity \<Rightarrow> string" where
  "show_severity Info = ''info''"
| "show_severity Warning = ''warning''"
| "show_severity Error = ''error''"

section \<open>Findings\<close>

record finding =
  fd_severity :: severity
  fd_check :: string
  fd_message :: string
  fd_location :: "string option"
  fd_why :: "string option"
  fd_help :: "string option"

definition finding_info :: "string \<Rightarrow> string \<Rightarrow> finding" where
  "finding_info check msg =
     \<lparr>fd_severity = Info, fd_check = check, fd_message = msg,
      fd_location = None, fd_why = None, fd_help = None\<rparr>"

definition finding_warning :: "string \<Rightarrow> string \<Rightarrow> finding" where
  "finding_warning check msg =
     \<lparr>fd_severity = Warning, fd_check = check, fd_message = msg,
      fd_location = None, fd_why = None, fd_help = None\<rparr>"

definition finding_error :: "string \<Rightarrow> string \<Rightarrow> finding" where
  "finding_error check msg =
     \<lparr>fd_severity = Error, fd_check = check, fd_message = msg,
      fd_location = None, fd_why = None, fd_help = None\<rparr>"

definition with_location :: "finding \<Rightarrow> string \<Rightarrow> finding" where
  "with_location f l = f\<lparr>fd_location := Some l\<rparr>"

definition with_why :: "finding \<Rightarrow> string \<Rightarrow> finding" where
  "with_why f w = f\<lparr>fd_why := Some w\<rparr>"

definition with_help :: "finding \<Rightarrow> string \<Rightarrow> finding" where
  "with_help f h = f\<lparr>fd_help := Some h\<rparr>"

definition show_finding :: "finding \<Rightarrow> string" where
  "show_finding f =
     ''['' @ show_severity (fd_severity f) @ ''] '' @ fd_check f @ '': '' @ fd_message f
     @ (case fd_location f of None \<Rightarrow> [] | Some l \<Rightarrow> '' ('' @ l @ '')'')
     @ (case fd_why f of None \<Rightarrow> [] | Some w \<Rightarrow> '' -- '' @ w)
     @ (case fd_help f of None \<Rightarrow> [] | Some h \<Rightarrow> ''. Fix: '' @ h)"

section \<open>Check results\<close>

datatype check_status = CheckPass | CheckFail | CheckSkip

fun show_check_status :: "check_status \<Rightarrow> string" where
  "show_check_status CheckPass = ''PASS''"
| "show_check_status CheckFail = ''FAIL''"
| "show_check_status CheckSkip = ''SKIP''"

record check_result =
  ck_name :: string
  ck_status :: check_status
  ck_findings :: "finding list"

definition check_pass :: "string \<Rightarrow> check_result" where
  "check_pass name = \<lparr>ck_name = name, ck_status = CheckPass, ck_findings = []\<rparr>"

definition from_findings :: "string \<Rightarrow> finding list \<Rightarrow> check_result" where
  "from_findings name fs =
     \<lparr>ck_name = name,
      ck_status = (if list_ex (\<lambda>f. fd_severity f = Error) fs then CheckFail else CheckPass),
      ck_findings = fs\<rparr>"

definition check_skip :: "string \<Rightarrow> string \<Rightarrow> check_result" where
  "check_skip name reason =
     \<lparr>ck_name = name, ck_status = CheckSkip, ck_findings = [finding_info ''skip'' reason]\<rparr>"

definition show_check_result :: "check_result \<Rightarrow> string" where
  "show_check_result c =
     ''--- '' @ ck_name c @ '': '' @ show_check_status (ck_status c) @ '' ---'' @ nl
     @ concat (map (\<lambda>f. ''  '' @ show_finding f @ nl) (ck_findings c))"

section \<open>Reports\<close>

record report =
  rp_title :: string
  rp_checks :: "check_result list"
  rp_passed :: bool

definition report_new :: "string \<Rightarrow> report" where
  "report_new title = \<lparr>rp_title = title, rp_checks = [], rp_passed = True\<rparr>"

definition report_add :: "report \<Rightarrow> check_result \<Rightarrow> report" where
  "report_add r c =
     (let r1 = (if ck_status c = CheckFail then r\<lparr>rp_passed := False\<rparr> else r)
      in r1\<lparr>rp_checks := rp_checks r1 @ [c]\<rparr>)"

definition report_summary :: "report \<Rightarrow> nat \<times> nat \<times> nat" where
  "report_summary r =
     (length (filter (\<lambda>c. ck_status c = CheckPass) (rp_checks r)),
      length (filter (\<lambda>c. ck_status c = CheckFail) (rp_checks r)),
      length (filter (\<lambda>c. ck_status c = CheckSkip) (rp_checks r)))"

definition result_line :: "report \<Rightarrow> string" where
  "result_line r =
     (let (p, f, s) = report_summary r;
          verdict = (if rp_passed r then ''PASSED'' else ''FAILED'')
      in ''Result: '' @ verdict @ '' | '' @ show_nat p @ '' passed, '' @ show_nat f
         @ '' failed, '' @ show_nat s @ '' skipped'')"

definition show_report :: "report \<Rightarrow> string" where
  "show_report r =
     ''=== '' @ rp_title r @ '' ==='' @ nl @ nl
     @ concat (map (\<lambda>c. ''--- '' @ ck_name c @ '': '' @ show_check_status (ck_status c)
                         @ '' ---'' @ nl
                         @ concat (map (\<lambda>f. ''  '' @ show_finding f @ nl) (ck_findings c)))
                (rp_checks r))
     @ result_line r"

section \<open>Errors of the tool\<close>

text \<open>The two wrapped library errors are represented by their display text.\<close>

datatype cli_error = Io string | Json string | Command string

fun show_cli_error :: "cli_error \<Rightarrow> string" where
  "show_cli_error (Io e) = ''io error: '' @ e"
| "show_cli_error (Json e) = ''json error: '' @ e"
| "show_cli_error (Command m) = m"

section \<open>Rendering a report\<close>

datatype output_format = Human | HumanVerbose | JsonFormat

definition error_findings :: "report \<Rightarrow> nat" where
  "error_findings r =
     length (filter (\<lambda>f. fd_severity f = Error) (concat (map ck_findings (rp_checks r))))"

definition plural_errors :: "nat \<Rightarrow> string" where
  "plural_errors n = (if n = 1 then ''error'' else ''errors'')"

definition render_human :: "report \<Rightarrow> bool \<Rightarrow> string" where
  "render_human r verbose =
     ''=== '' @ rp_title r @ '' ==='' @ nl @ nl
     @ concat (map (\<lambda>c. ''--- '' @ ck_name c @ '': '' @ show_check_status (ck_status c)
                         @ '' ---'' @ nl
                         @ (if verbose \<or> ck_status c = CheckFail
                            then concat (map (\<lambda>f. ''  '' @ show_finding f @ nl) (ck_findings c))
                            else []))
                (rp_checks r))
     @ result_line r @ nl
     @ (if rp_passed r
        then nl @ ''> Safe to proceed '' @ em_dash @ '' all checks passed.'' @ nl
        else nl @ ''> Stop '' @ em_dash @ '' '' @ show_nat (error_findings r) @ '' ''
             @ plural_errors (error_findings r) @ '' must be fixed before proceeding.'' @ nl)"

definition render :: "(report \<Rightarrow> cli_error + string) \<Rightarrow> report \<Rightarrow> output_format
                      \<Rightarrow> cli_error + string" where
  "render to_json r fmt =
     (case fmt of
        Human \<Rightarrow> Inr (render_human r False)
      | HumanVerbose \<Rightarrow> Inr (render_human r True)
      | JsonFormat \<Rightarrow> to_json r)"

section \<open>The report invariant\<close>

definition severities :: "check_result \<Rightarrow> severity set" where
  "severities c = fd_severity ` set (ck_findings c)"

definition check_wf :: "check_result \<Rightarrow> bool" where
  "check_wf c =
     ((ck_status c = CheckFail \<longleftrightarrow> Error \<in> severities c)
      \<and> (ck_status c = CheckSkip \<longrightarrow> severities c \<subseteq> {Info}))"

definition report_wf :: "report \<Rightarrow> bool" where
  "report_wf r =
     ((rp_passed r \<longleftrightarrow> (\<forall>c\<in>set (rp_checks r). ck_status c \<noteq> CheckFail))
      \<and> (\<forall>c\<in>set (rp_checks r). check_wf c))"

lemma severities_iff: "x \<in> severities c \<longleftrightarrow> (\<exists>f\<in>set (ck_findings c). fd_severity f = x)"
  by (auto simp: severities_def)

lemma finding_severity [simp]:
  "fd_severity (finding_info a b) = Info"
  "fd_severity (finding_warning a b) = Warning"
  "fd_severity (finding_error a b) = Error"
  "fd_severity (with_location f l) = fd_severity f"
  "fd_severity (with_why f l) = fd_severity f"
  "fd_severity (with_help f l) = fd_severity f"
  by (simp_all add: finding_info_def finding_warning_def finding_error_def
        with_location_def with_why_def with_help_def)

lemma finding_check [simp]:
  "fd_check (finding_info a b) = a"
  "fd_check (finding_warning a b) = a"
  "fd_check (finding_error a b) = a"
  "fd_check (with_location f l) = fd_check f"
  "fd_check (with_why f l) = fd_check f"
  "fd_check (with_help f l) = fd_check f"
  by (simp_all add: finding_info_def finding_warning_def finding_error_def
        with_location_def with_why_def with_help_def)

lemma finding_message [simp]:
  "fd_message (finding_info a b) = b"
  "fd_message (finding_warning a b) = b"
  "fd_message (finding_error a b) = b"
  "fd_message (with_location f l) = fd_message f"
  "fd_message (with_why f l) = fd_message f"
  "fd_message (with_help f l) = fd_message f"
  by (simp_all add: finding_info_def finding_warning_def finding_error_def
        with_location_def with_why_def with_help_def)

lemma finding_location [simp]:
  "fd_location (with_location f l) = Some l"
  "fd_location (with_why f w) = fd_location f"
  "fd_location (with_help f w) = fd_location f"
  by (simp_all add: with_location_def with_why_def with_help_def)

lemma check_result_simps [simp]:
  "ck_name (check_pass n) = n" "ck_status (check_pass n) = CheckPass"
  "ck_findings (check_pass n) = []"
  "ck_name (from_findings n fs) = n" "ck_findings (from_findings n fs) = fs"
  "ck_name (check_skip n w) = n" "ck_status (check_skip n w) = CheckSkip"
  by (simp_all add: check_pass_def from_findings_def check_skip_def)

lemma from_findings_status:
  "ck_status (from_findings n fs) =
     (if \<exists>f\<in>set fs. fd_severity f = Error then CheckFail else CheckPass)"
  by (simp add: from_findings_def list_ex_iff)

lemma from_findings_all_errors:
  "(\<And>f. f \<in> set fs \<Longrightarrow> fd_severity f = Error) \<Longrightarrow>
     ck_status (from_findings n fs) = CheckFail \<longleftrightarrow> fs \<noteq> []"
  by (cases fs) (auto simp: from_findings_status)

lemma check_wf_pass [wf_intros]: "check_wf (check_pass n)"
  by (simp add: check_wf_def severities_def)

lemma check_wf_from_findings [wf_intros]: "check_wf (from_findings n fs)"
  by (auto simp: check_wf_def severities_iff from_findings_status)

lemma check_wf_skip [wf_intros]: "check_wf (check_skip n w)"
  by (simp add: check_wf_def severities_def check_skip_def)

lemma report_add_simps [simp]:
  "rp_checks (report_add r c) = rp_checks r @ [c]"
  "rp_title (report_add r c) = rp_title r"
  "rp_passed (report_add r c) = (rp_passed r \<and> ck_status c \<noteq> CheckFail)"
  by (simp_all add: report_add_def Let_def)

lemma report_new_simps [simp]:
  "rp_checks (report_new t) = []" "rp_title (report_new t) = t" "rp_passed (report_new t) = True"
  by (simp_all add: report_new_def)

lemma report_wf_new [wf_intros]: "report_wf (report_new t)"
  by (simp add: report_wf_def)

lemma report_wf_add [wf_intros]: "report_wf r \<Longrightarrow> check_wf c \<Longrightarrow> report_wf (report_add r c)"
  by (auto simp: report_wf_def)

lemma report_wf_foldl [wf_intros]:
  "report_wf r \<Longrightarrow> \<forall>c\<in>set cs. check_wf c \<Longrightarrow> report_wf (foldl report_add r cs)"
  by (induction cs arbitrary: r) (auto intro: report_wf_add)

lemma rp_checks_foldl [simp]: "rp_checks (foldl report_add r cs) = rp_checks r @ cs"
  by (induction cs arbitrary: r) auto

lemma rp_passed_foldl [simp]:
  "rp_passed (foldl report_add r cs) = (rp_passed r \<and> (\<forall>c\<in>set cs. ck_status c \<noteq> CheckFail))"
  by (induction cs arbitrary: r) auto

lemma report_wf_passed:
  assumes "report_wf r"
  shows "rp_passed r \<longleftrightarrow> (\<forall>c\<in>set (rp_checks r). Error \<notin> severities c)"
  using assms by (auto simp: report_wf_def check_wf_def)

lemma error_findings_zero:
  "error_findings r = 0 \<longleftrightarrow> (\<forall>c\<in>set (rp_checks r). Error \<notin> severities c)"
  by (auto simp: error_findings_def filter_empty_conv severities_iff)

lemma report_summary_total:
  "report_summary r = (p, f, s) \<Longrightarrow> p + f + s = length (rp_checks r)"
proof -
  have "length (filter (\<lambda>c. ck_status c = CheckPass) cs)
        + length (filter (\<lambda>c. ck_status c = CheckFail) cs)
        + length (filter (\<lambda>c. ck_status c = CheckSkip) cs) = length cs"
    for cs :: "check_result list"
  proof (induction cs)
    case (Cons c cs)
    then show ?case by (cases "ck_status c") auto
  qed simp
  then show "report_summary r = (p, f, s) \<Longrightarrow> p + f + s = length (rp_checks r)"
    by (auto simp: report_summary_def)
qed

section \<open>Collecting findings\<close>

text \<open>A finding that is pushed when a condition holds, and lists without an error finding.\<close>

definition opt_finding :: "bool \<Rightarrow> finding \<Rightarrow> finding list" where
  "opt_finding b f = (if b then [f] else [])"

definition no_error :: "finding list \<Rightarrow> bool" where
  "no_error fs = list_all (\<lambda>f. fd_severity f \<noteq> Error) fs"

lemma opt_finding_set: "set (opt_finding b f) = (if b then {f} else {})"
  by (simp add: opt_finding_def)

lemma opt_finding_Nil [simp]: "opt_finding b f = [] \<longleftrightarrow> \<not> b"
  by (simp add: opt_finding_def)

lemma no_error_simps [simp]:
  "no_error []"
  "no_error (f # fs) \<longleftrightarrow> fd_severity f \<noteq> Error \<and> no_error fs"
  "no_error (xs @ ys) \<longleftrightarrow> no_error xs \<and> no_error ys"
  "no_error (concat xss) \<longleftrightarrow> list_all no_error xss"
  "no_error (opt_finding b f) \<longleftrightarrow> (b \<longrightarrow> fd_severity f \<noteq> Error)"
  by (auto simp: no_error_def list_all_iff opt_finding_def)

lemma check_ok_iff: "ck_status (from_findings n fs) \<noteq> CheckFail \<longleftrightarrow> no_error fs"
  by (auto simp: from_findings_status no_error_def list_all_iff)

lemma severities_findings: "severities (from_findings n fs) = fd_severity ` set fs"
  by (simp add: severities_def)

end
