(* ===== verification/Gate.thy ===== *)
theory Gate
  imports Models
begin

text \<open>
  The quality gate (\<open>gate/mod.rs\<close>): a fixed sequence of analysis steps run under a profile,
  with fail-fast skipping, promotion of warnings in the \<open>ci\<close> profile, aggregation into a
  \<open>GateReport\<close> with a verdict, and the human rendering.

  The analysers the gate calls are an environment record: one function per step, each
  returning a report or an error. Durations come from the system clock and are a function
  of the step. The sequence of macro invocations of \<open>run\<close> is a fold over the plan of the
  static steps, with the vector of results and the \<open>blocker\<close> variable as explicit state.
\<close>

section \<open>Profiles and configuration\<close>

datatype profile = Fast | Ci | Deep

definition includes_static :: "profile \<Rightarrow> bool" where
  "includes_static p = True"

definition includes_runtime :: "profile \<Rightarrow> bool" where
  "includes_runtime p = (p = Deep)"

definition warnings_are_errors :: "profile \<Rightarrow> bool" where
  "warnings_are_errors p = (p = Ci)"

fun profile_label :: "profile \<Rightarrow> string" where
  "profile_label Fast = ''fast''"
| "profile_label Ci = ''ci''"
| "profile_label Deep = ''deep''"

record gate_config =
  gc_project_root :: string
  gc_profile :: profile
  gc_base_url :: string
  gc_fail_fast :: bool

section \<open>Results\<close>

datatype step_status = StepPass | StepFail | StepSkip

fun show_step_status :: "step_status \<Rightarrow> string" where
  "show_step_status StepPass = ''PASS''"
| "show_step_status StepFail = ''FAIL''"
| "show_step_status StepSkip = ''SKIP''"

record step_result =
  sr_name :: string
  sr_status :: step_status
  sr_duration_ms :: nat
  sr_check_count :: nat
  sr_error_count :: nat
  sr_warning_count :: nat
  sr_skip_reason :: "string option"
  sr_is_execution_error :: bool
  sr_report :: report

record gate_summary =
  gs_passed :: nat
  gs_failed :: nat
  gs_skipped :: nat
  gs_total_checks :: nat
  gs_total_errors :: nat
  gs_total_warnings :: nat

record verdict =
  vd_action :: string
  vd_message :: string
  vd_next_steps :: "string list"

record gate_report =
  gr_profile :: string
  gr_steps :: "step_result list"
  gr_summary :: gate_summary
  gr_verdict :: verdict
  gr_total_duration_ms :: nat
  gr_passed :: bool

definition step_counts :: "step_result list \<Rightarrow> nat \<times> nat \<times> nat" where
  "step_counts ss =
     (length (filter (\<lambda>s. sr_status s = StepPass) ss),
      length (filter (\<lambda>s. sr_status s = StepFail) ss),
      length (filter (\<lambda>s. sr_status s = StepSkip) ss))"

section \<open>Counting and promoting findings\<close>

fun count_in_findings :: "finding list \<Rightarrow> nat \<times> nat \<Rightarrow> nat \<times> nat" where
  "count_in_findings [] (e, w) = (e, w)"
| "count_in_findings (f # fs) (e, w) =
     count_in_findings fs
       (case fd_severity f of Error \<Rightarrow> (e + 1, w) | Warning \<Rightarrow> (e, w + 1) | Info \<Rightarrow> (e, w))"

fun count_in_checks :: "check_result list \<Rightarrow> nat \<times> nat \<Rightarrow> nat \<times> nat" where
  "count_in_checks [] acc = acc"
| "count_in_checks (c # cs) acc = count_in_checks cs (count_in_findings (ck_findings c) acc)"

definition count_findings :: "report \<Rightarrow> nat \<times> nat" where
  "count_findings r = count_in_checks (rp_checks r) (0, 0)"

definition promote_finding :: "finding \<Rightarrow> finding" where
  "promote_finding f =
     (if fd_severity f = Warning
      then f\<lparr>fd_severity := Error, fd_message := ''[ci] '' @ fd_message f\<rparr> else f)"

definition promotes :: "check_result \<Rightarrow> bool" where
  "promotes c = (list_ex (\<lambda>f. fd_severity f = Warning) (ck_findings c)
                 \<and> ck_status c = CheckPass)"

definition promote_check :: "check_result \<Rightarrow> check_result" where
  "promote_check c =
     (let c1 = c\<lparr>ck_findings := map promote_finding (ck_findings c)\<rparr>
      in if promotes c then c1\<lparr>ck_status := CheckFail\<rparr> else c1)"

definition promote_warnings :: "report \<Rightarrow> report" where
  "promote_warnings r =
     r\<lparr>rp_checks := map promote_check (rp_checks r),
       rp_passed := (if list_ex promotes (rp_checks r) then False else rp_passed r)\<rparr>"

section \<open>One step\<close>

definition make_skip :: "string \<Rightarrow> string \<Rightarrow> step_result" where
  "make_skip name reason =
     \<lparr>sr_name = name, sr_status = StepSkip, sr_duration_ms = 0, sr_check_count = 0,
      sr_error_count = 0, sr_warning_count = 0, sr_skip_reason = Some reason,
      sr_is_execution_error = False,
      sr_report = report_add (report_new name) (check_skip name reason)\<rparr>"

definition run_step :: "string \<Rightarrow> profile \<Rightarrow> nat \<Rightarrow> cli_error + report \<Rightarrow> step_result" where
  "run_step name prof elapsed res =
     (case res of
        Inr report0 \<Rightarrow>
          (let report = (if warnings_are_errors prof then promote_warnings report0 else report0);
               (errors, warnings) = count_findings report
           in \<lparr>sr_name = name,
               sr_status = (if rp_passed report then StepPass else StepFail),
               sr_duration_ms = elapsed,
               sr_check_count = length (rp_checks report),
               sr_error_count = errors, sr_warning_count = warnings,
               sr_skip_reason = None, sr_is_execution_error = False,
               sr_report = report\<rparr>)
      | Inl e \<Rightarrow>
          \<lparr>sr_name = name, sr_status = StepFail, sr_duration_ms = elapsed,
           sr_check_count = 0, sr_error_count = 1, sr_warning_count = 0,
           sr_skip_reason = None, sr_is_execution_error = True,
           sr_report = report_add (report_new name)
             (from_findings name
                [finding_error name (''execution error: '' @ show_cli_error e)])\<rparr>)"

section \<open>The verdict\<close>

definition step_remediation_hint :: "string \<Rightarrow> string" where
  "step_remediation_hint name =
     (if name = ''doctor'' then
        ''run `raccoon-cli doctor` '' @ em_dash
        @ '' check go.work, dirs, compose, and config files''
      else if name = ''topology-doctor'' then
        ''run `raccoon-cli topology-doctor` '' @ em_dash
        @ '' check configs, compose, and source wiring''
      else if name = ''contract-audit'' then
        ''run `raccoon-cli contract-audit` '' @ em_dash
        @ '' check messaging contracts and invariants''
      else if name = ''runtime-bindings'' then
        ''run `raccoon-cli runtime-bindings` '' @ em_dash @ '' check config '' @ arrow
        @ '' kafka '' @ arrow @ '' jetstream '' @ arrow @ '' validator routing''
      else if name = ''arch-guard'' then
        ''run `raccoon-cli arch-guard` '' @ em_dash
        @ '' check clean architecture layer boundaries''
      else if name = ''drift-detect'' then
        ''run `raccoon-cli drift-detect` '' @ em_dash
        @ '' check cross-layer declaration/config/source alignment''
      else if name = ''runtime-smoke'' then
        ''ensure `make up-dataplane` is running, then `raccoon-cli runtime-smoke`''
      else ''run `raccoon-cli '' @ name @ ''` for full details'')"

definition failed_steps :: "step_result list \<Rightarrow> step_result list" where
  "failed_steps ss = filter (\<lambda>s. sr_status s = StepFail) ss"

definition proceed_message :: string where
  "proceed_message = ''Safe to proceed '' @ em_dash @ '' all guard rail checks passed.''"

definition stop_message :: "nat \<Rightarrow> string" where
  "stop_message n = ''Stop '' @ em_dash @ '' '' @ show_nat n @ '' '' @ plural_errors n
                    @ '' must be fixed before proceeding.''"

definition fix_hint :: "step_result \<Rightarrow> string" where
  "fix_hint s = ''Fix '' @ [CHR 0x27] @ sr_name s @ [CHR 0x27] @ '': ''
                @ step_remediation_hint (sr_name s)"

definition compute_verdict :: "step_result list \<Rightarrow> verdict" where
  "compute_verdict ss =
     (let failed = failed_steps ss in
      if failed = [] then
        \<lparr>vd_action = ''proceed'', vd_message = proceed_message, vd_next_steps = []\<rparr>
      else
        \<lparr>vd_action = ''stop'',
         vd_message = stop_message (sum_list (map sr_error_count failed)),
         vd_next_steps = map fix_hint failed\<rparr>)"

section \<open>The gate\<close>

text \<open>
  The modules the gate calls, as functions of the project root (and of the base URL for the
  smoke run).
\<close>

record analysers =
  an_doctor :: "string \<Rightarrow> cli_error + report"
  an_topology :: "string \<Rightarrow> cli_error + report"
  an_contracts :: "string \<Rightarrow> cli_error + report"
  an_runtime_bindings :: "string \<Rightarrow> cli_error + report"
  an_arch_guard :: "string \<Rightarrow> cli_error + report"
  an_drift_detect :: "string \<Rightarrow> cli_error + report"
  an_smoke :: "string \<Rightarrow> string \<Rightarrow> cli_error + report"

definition static_plan :: "analysers \<Rightarrow> gate_config \<Rightarrow> (string \<times> (cli_error + report)) list" where
  "static_plan an cfg =
     [(''doctor'', an_doctor an (gc_project_root cfg)),
      (''topology-doctor'', an_topology an (gc_project_root cfg)),
      (''contract-audit'', an_contracts an (gc_project_root cfg)),
      (''runtime-bindings'', an_runtime_bindings an (gc_project_root cfg)),
      (''arch-guard'', an_arch_guard an (gc_project_root cfg)),
      (''drift-detect'', an_drift_detect an (gc_project_root cfg))]"

record gate_state =
  st_steps :: "step_result list"
  st_blocker :: "string option"

definition fail_fast_reason :: "string \<Rightarrow> string" where
  "fail_fast_reason failed_name =
     ''skipped '' @ em_dash @ '' prior step '' @ [CHR 0x27] @ failed_name @ [CHR 0x27]
     @ '' failed (fail-fast mode)''"

definition gate_step :: "gate_config \<Rightarrow> (string \<Rightarrow> nat) \<Rightarrow> string \<times> (cli_error + report)
                         \<Rightarrow> gate_state \<Rightarrow> gate_state" where
  "gate_step cfg clock p st =
     (case st_blocker st of
        Some failed_name \<Rightarrow>
          st\<lparr>st_steps := st_steps st @ [make_skip (fst p) (fail_fast_reason failed_name)]\<rparr>
      | None \<Rightarrow>
          (let step = run_step (fst p) (gc_profile cfg) (clock (fst p)) (snd p) in
           st\<lparr>st_blocker := (if gc_fail_fast cfg \<and> sr_status step = StepFail
                             then Some (sr_name step) else None),
              st_steps := st_steps st @ [step]\<rparr>))"

definition run_static :: "gate_config \<Rightarrow> (string \<Rightarrow> nat) \<Rightarrow> (string \<times> (cli_error + report)) list
                          \<Rightarrow> gate_state \<Rightarrow> gate_state" where
  "run_static cfg clock plan st =
     fold (\<lambda>p st. if includes_static (gc_profile cfg) then gate_step cfg clock p st else st)
       plan st"

definition profile_skip_reason :: "profile \<Rightarrow> string" where
  "profile_skip_reason p =
     ''skipped in '' @ [CHR 0x27] @ profile_label p @ [CHR 0x27] @ '' profile '' @ em_dash
     @ '' use --profile deep to include''"

definition smoke_step :: "analysers \<Rightarrow> gate_config \<Rightarrow> (string \<Rightarrow> nat) \<Rightarrow> gate_state \<Rightarrow> step_result" where
  "smoke_step an cfg clock st =
     (case st_blocker st of
        Some failed_name \<Rightarrow> make_skip ''runtime-smoke'' (fail_fast_reason failed_name)
      | None \<Rightarrow>
          (if includes_runtime (gc_profile cfg)
           then run_step ''runtime-smoke'' (gc_profile cfg) (clock ''runtime-smoke'')
                  (an_smoke an (gc_project_root cfg) (gc_base_url cfg))
           else make_skip ''runtime-smoke'' (profile_skip_reason (gc_profile cfg))))"

definition gate_steps :: "analysers \<Rightarrow> (string \<Rightarrow> nat) \<Rightarrow> gate_config \<Rightarrow> step_result list" where
  "gate_steps an clock cfg =
     (let st = run_static cfg clock (static_plan an cfg) \<lparr>st_steps = [], st_blocker = None\<rparr>
      in st_steps st @ [smoke_step an cfg clock st])"

definition assemble :: "gate_config \<Rightarrow> nat \<Rightarrow> step_result list \<Rightarrow> gate_report" where
  "assemble cfg total_ms steps =
     (let (sp, sf, ss) = step_counts steps in
      \<lparr>gr_profile = profile_label (gc_profile cfg),
       gr_steps = steps,
       gr_summary =
         \<lparr>gs_passed = sp, gs_failed = sf, gs_skipped = ss,
          gs_total_checks = sum_list (map sr_check_count steps),
          gs_total_errors = sum_list (map sr_error_count steps),
          gs_total_warnings = sum_list (map sr_warning_count steps)\<rparr>,
       gr_verdict = compute_verdict steps,
       gr_total_duration_ms = total_ms,
       gr_passed = list_all (\<lambda>s. sr_status s \<noteq> StepFail) steps\<rparr>)"

definition gate_run :: "analysers \<Rightarrow> (string \<Rightarrow> nat) \<Rightarrow> nat \<Rightarrow> gate_config
                        \<Rightarrow> cli_error + gate_report" where
  "gate_run an clock total_ms cfg = Inr (assemble cfg total_ms (gate_steps an clock cfg))"

section \<open>Rendering\<close>

text \<open>
  \<open>format!("{:.1}s", ms as f64 / 1000.0)\<close>, with the two roundings of IEEE double precision
  (the conversion and the division) and the rounding of the exact decimal expansion, all
  to nearest with ties to even, written out on integers. A double that is not negative is
  the pair \<open>(m, e)\<close> of value \<open>m / 2 ^ e\<close>.
\<close>

definition round_half_even :: "nat \<Rightarrow> nat \<Rightarrow> nat" where
  "round_half_even a b =
     (let q = a div b; r = a mod b in
      if 2 * r < b then q else if b < 2 * r then Suc q else if even q then q else Suc q)"

fun bit_len :: "nat \<Rightarrow> nat" where
  "bit_len n = (if n = 0 then 0 else Suc (bit_len (n div 2)))"

declare bit_len.simps [simp del]

definition f64_of_nat :: "nat \<Rightarrow> nat" where
  "f64_of_nat n =
     (let k = bit_len n - 53 in if k = 0 then n else round_half_even n (2 ^ k) * 2 ^ k)"

definition f64_div :: "nat \<Rightarrow> nat \<Rightarrow> nat \<times> nat" where
  "f64_div n d =
     (let l = bit_len (n div d) in
      if l \<le> 53 then (round_half_even (n * 2 ^ (53 - l)) d, 53 - l)
      else (round_half_even n (d * 2 ^ (l - 53)) * 2 ^ (l - 53), 0))"

definition tenths :: "nat \<Rightarrow> nat" where
  "tenths ms = (let (m, e) = f64_div (f64_of_nat ms) 1000 in round_half_even (m * 10) (2 ^ e))"

definition format_duration :: "nat \<Rightarrow> string" where
  "format_duration ms =
     (if ms < 1000 then show_nat ms @ ''ms''
      else show_nat (tenths ms div 10) @ ''.'' @ show_nat (tenths ms mod 10) @ ''s'')"

fun status_icon :: "step_status \<Rightarrow> string" where
  "status_icon StepPass = ''[+]''"
| "status_icon StepFail = ''[x]''"
| "status_icon StepSkip = ''[-]''"

definition plural_s :: "nat \<Rightarrow> string" where
  "plural_s n = (if n = 1 then [] else ''s'')"

definition step_suffix :: "step_result \<Rightarrow> string" where
  "step_suffix s =
     (case sr_status s of
        StepPass \<Rightarrow>
          (if sr_check_count s > 0
           then '' '' @ em_dash @ '' '' @ show_nat (sr_check_count s) @ '' checks'' else [])
      | StepFail \<Rightarrow>
          (let parts =
             (if sr_check_count s > 0 then [show_nat (sr_check_count s) @ '' checks''] else [])
             @ (if sr_is_execution_error s then [''execution error'']
                else if sr_error_count s > 0 then
                  [show_nat (sr_error_count s) @ '' error'' @ plural_s (sr_error_count s)]
                  @ (if sr_warning_count s > 0
                     then [show_nat (sr_warning_count s) @ '' warning''
                           @ plural_s (sr_warning_count s)] else [])
                else [])
           in if parts = [] then [] else '' '' @ em_dash @ '' '' @ join '', '' parts)
      | StepSkip \<Rightarrow>
          (case sr_skip_reason s of
             Some reason \<Rightarrow> '' '' @ em_dash @ '' '' @ reason
           | None \<Rightarrow> []))"

definition render_step :: "bool \<Rightarrow> step_result \<Rightarrow> string" where
  "render_step verbose s =
     ''  '' @ status_icon (sr_status s) @ '' '' @ sr_name s @ '' ''
     @ show_step_status (sr_status s) @ '' ('' @ format_duration (sr_duration_ms s) @ '')''
     @ step_suffix s @ nl
     @ (if sr_status s = StepFail \<or> verbose then
          concat (map (\<lambda>c. if ck_status c = CheckFail \<or> verbose
                           then concat (map (\<lambda>f. ''      ['' @ ck_name c @ ''] ''
                                               @ show_finding f @ nl) (ck_findings c))
                           else [])
                    (rp_checks (sr_report s)))
        else [])"

definition render_tail :: "gate_report \<Rightarrow> string" where
  "render_tail g =
     (if gr_passed g then
        nl @ ''> '' @ proceed_message @ nl @ nl @ ''TDD cycle:'' @ nl
        @ ''  1. Write/update your scenario or test for the change you intend to make'' @ nl
        @ ''  2. Implement the change'' @ nl
        @ ''  3. Run `make verify` to prove the change is safe'' @ nl
        @ (if gr_profile g = ''fast'' \<or> gr_profile g = ''ci''
           then ''  4. Run `make check-deep` for full operational proof (requires `make up-dataplane`)'' @ nl
           else [])
      else
        nl @ ''> '' @ stop_message (gs_total_errors (gr_summary g)) @ nl
        @ nl @ ''Actionable next steps:'' @ nl
        @ concat (map (\<lambda>s. ''  - '' @ fix_hint s @ nl) (failed_steps (gr_steps g)))
        @ nl @ ''Discipline: fix errors first, then re-run `make check` before coding.'' @ nl)"

definition render_gate_human :: "gate_report \<Rightarrow> bool \<Rightarrow> string" where
  "render_gate_human g verbose =
     (let (p, f, s) = step_counts (gr_steps g) in
      ''=== quality-gate [profile: '' @ gr_profile g @ ''] ==='' @ nl @ nl
      @ concat (map (render_step verbose) (gr_steps g)) @ nl
      @ ''Result: '' @ (if gr_passed g then ''PASSED'' else ''FAILED'') @ '' | ''
      @ show_nat p @ '' passed, '' @ show_nat f @ '' failed, '' @ show_nat s @ '' skipped | ''
      @ show_nat (gs_total_checks (gr_summary g)) @ '' checks | ''
      @ format_duration (gr_total_duration_ms g) @ nl
      @ render_tail g)"

definition render_gate :: "(gate_report \<Rightarrow> cli_error + string) \<Rightarrow> gate_report
                           \<Rightarrow> output_format \<Rightarrow> cli_error + string" where
  "render_gate to_json g fmt =
     (case fmt of
        JsonFormat \<Rightarrow> to_json g
      | Human \<Rightarrow> Inr (render_gate_human g False)
      | HumanVerbose \<Rightarrow> Inr (render_gate_human g True))"

section \<open>Counting and promotion\<close>

definition sev_count :: "severity \<Rightarrow> report \<Rightarrow> nat" where
  "sev_count v r =
     length (filter (\<lambda>f. fd_severity f = v) (concat (map ck_findings (rp_checks r))))"

lemma count_in_findings_eq:
  "count_in_findings fs (e, w) =
     (e + length (filter (\<lambda>f. fd_severity f = Error) fs),
      w + length (filter (\<lambda>f. fd_severity f = Warning) fs))"
proof (induction fs arbitrary: e w)
  case (Cons f fs)
  then show ?case by (cases "fd_severity f") simp_all
qed simp

lemma count_in_checks_eq:
  "count_in_checks cs (e, w) =
     (e + length (filter (\<lambda>f. fd_severity f = Error) (concat (map ck_findings cs))),
      w + length (filter (\<lambda>f. fd_severity f = Warning) (concat (map ck_findings cs))))"
  by (induction cs arbitrary: e w) (simp_all add: count_in_findings_eq)

lemma count_findings_eq: "count_findings r = (sev_count Error r, sev_count Warning r)"
  by (simp add: count_findings_def count_in_checks_eq sev_count_def)

lemma sev_count_zero: "sev_count v r = 0 \<longleftrightarrow> (\<forall>c\<in>set (rp_checks r). v \<notin> severities c)"
  by (auto simp: sev_count_def filter_empty_conv severities_iff)

lemma promote_finding_severity:
  "fd_severity (promote_finding f) = (if fd_severity f = Warning then Error else fd_severity f)"
  by (simp add: promote_finding_def)

lemma promote_check_simps [simp]:
  "ck_findings (promote_check c) = map promote_finding (ck_findings c)"
  "ck_name (promote_check c) = ck_name c"
  "ck_status (promote_check c) = (if promotes c then CheckFail else ck_status c)"
  by (simp_all add: promote_check_def Let_def)

lemma promotes_iff: "promotes c \<longleftrightarrow> Warning \<in> severities c \<and> ck_status c = CheckPass"
  by (auto simp: promotes_def list_ex_iff severities_iff)

lemma severities_promote:
  "severities (promote_check c) =
     (if Warning \<in> severities c then insert Error (severities c - {Warning}) else severities c)"
proof -
  have "severities (promote_check c) = (\<lambda>v. if v = Warning then Error else v) ` severities c"
    by (simp only: severities_def promote_check_simps set_map image_image
          promote_finding_severity)
  then show ?thesis by auto
qed

lemma promote_check_wf: "check_wf c \<Longrightarrow> check_wf (promote_check c)"
  by (cases "ck_status c") (auto simp: check_wf_def severities_promote promotes_iff)

lemma promote_warnings_simps [simp]:
  "rp_checks (promote_warnings r) = map promote_check (rp_checks r)"
  "rp_title (promote_warnings r) = rp_title r"
  "rp_passed (promote_warnings r) = (rp_passed r \<and> (\<forall>c\<in>set (rp_checks r). \<not> promotes c))"
  by (auto simp: promote_warnings_def list_ex_iff)

lemma promote_warnings_wf [wf_intros]: "report_wf r \<Longrightarrow> report_wf (promote_warnings r)"
  by (auto simp: report_wf_def promote_check_wf)

lemma filter_promote:
  "length (filter (\<lambda>f. fd_severity f = Error) (map promote_finding fs))
     = length (filter (\<lambda>f. fd_severity f = Error) fs)
       + length (filter (\<lambda>f. fd_severity f = Warning) fs)"
  "filter (\<lambda>f. fd_severity f = Warning) (map promote_finding fs) = []"
  by (induction fs) (auto simp: promote_finding_severity)

lemma findings_promote:
  "concat (map ck_findings (rp_checks (promote_warnings r)))
     = map promote_finding (concat (map ck_findings (rp_checks r)))"
  by (simp add: map_concat o_def)

lemma sev_count_promote:
  "sev_count Error (promote_warnings r) = sev_count Error r + sev_count Warning r"
  "sev_count Warning (promote_warnings r) = 0"
  unfolding sev_count_def findings_promote by (simp_all only: filter_promote list.size)

lemma promote_passed:
  assumes "report_wf r"
  shows "rp_passed (promote_warnings r) \<longleftrightarrow> sev_count Error r = 0 \<and> sev_count Warning r = 0"
proof -
  have "rp_passed (promote_warnings r) \<longleftrightarrow> sev_count Error (promote_warnings r) = 0"
    unfolding sev_count_zero
    by (rule report_wf_passed [OF promote_warnings_wf [OF assms]])
  then show ?thesis by (simp add: sev_count_promote)
qed

lemma passed_sev_count: "report_wf r \<Longrightarrow> rp_passed r \<longleftrightarrow> sev_count Error r = 0"
  by (simp add: report_wf_passed sev_count_zero)

lemma promote_finding_idem [simp]: "promote_finding (promote_finding f) = promote_finding f"
  by (simp add: promote_finding_def)

lemma promote_warnings_idem: "promote_warnings (promote_warnings r) = promote_warnings r"
proof -
  have np: "\<not> promotes (promote_check c)" for c
    by (auto simp: promotes_iff severities_promote)
  have "promote_check d = d" if "\<not> promotes d" "map promote_finding (ck_findings d) = ck_findings d" for d
    using that by (simp add: promote_check_def Let_def)
  from this [OF np] have "promote_check (promote_check c) = promote_check c" for c
    by simp
  with np show ?thesis by (auto simp: promote_warnings_def list_ex_iff)
qed

section \<open>One step\<close>

lemma run_step_simps [simp]:
  "sr_name (run_step n p d res) = n"
  "sr_skip_reason (run_step n p d res) = None"
  "sr_duration_ms (run_step n p d res) = d"
  by (auto simp: run_step_def Let_def split: sum.splits prod.splits)

lemma run_step_not_skip [simp]: "sr_status (run_step n p d res) \<noteq> StepSkip"
  by (auto simp: run_step_def Let_def split: sum.splits prod.splits)

lemma make_skip_simps [simp]:
  "sr_name (make_skip n w) = n" "sr_status (make_skip n w) = StepSkip"
  "sr_error_count (make_skip n w) = 0" "sr_warning_count (make_skip n w) = 0"
  "sr_check_count (make_skip n w) = 0" "sr_skip_reason (make_skip n w) = Some w"
  by (simp_all add: make_skip_def)

text \<open>
  What an analyser may leave behind, as the severity profile of its result: the number of
  errors and of warnings, or one error when it failed to run.
\<close>

definition clean :: "profile \<Rightarrow> cli_error + report \<Rightarrow> bool" where
  "clean p res =
     (case res of
        Inl _ \<Rightarrow> False
      | Inr r \<Rightarrow> sev_count Error r = 0 \<and> (p = Ci \<longrightarrow> sev_count Warning r = 0))"

definition result_wf :: "cli_error + report \<Rightarrow> bool" where
  "result_wf res = (case res of Inl _ \<Rightarrow> True | Inr r \<Rightarrow> report_wf r)"

lemma run_step_status:
  assumes "result_wf res"
  shows "sr_status (run_step n p d res) = (if clean p res then StepPass else StepFail)"
proof (cases res)
  case (Inl e)
  then show ?thesis by (simp add: run_step_def clean_def)
next
  case (Inr r)
  with assms have "report_wf r" by (simp add: result_wf_def)
  with Inr show ?thesis
    by (auto simp: run_step_def clean_def Let_def warnings_are_errors_def promote_passed
          passed_sev_count simp del: promote_warnings_simps(3) split: prod.splits)
qed

lemma run_step_error_count:
  assumes "result_wf res"
  shows "sr_error_count (run_step n p d res) = 0 \<longleftrightarrow> clean p res"
proof (cases res)
  case (Inl e)
  then show ?thesis by (simp add: run_step_def clean_def)
next
  case (Inr r)
  then show ?thesis
    by (auto simp: run_step_def clean_def Let_def warnings_are_errors_def count_findings_eq
          sev_count_promote)
qed

lemma clean_ci_mono: "clean Ci res \<Longrightarrow> clean p res"
  by (auto simp: clean_def split: sum.splits)

section \<open>The contract of an analyser\<close>

text \<open>
  What the gate relies on: an analyser that returns a report returns a well-formed one. The
  theories of the modelled analysers interpret this locale.
\<close>

locale analyser =
  fixes analyse :: "'e \<Rightarrow> cli_error + report"
  assumes analyse_wf: "analyse e = Inr r \<Longrightarrow> report_wf r"
begin

lemma analyse_result_wf: "result_wf (analyse e)"
  using analyse_wf by (auto simp: result_wf_def split: sum.splits)

lemma step_passes_iff:
  "sr_status (run_step n p d (analyse e)) = StepPass \<longleftrightarrow> clean p (analyse e)"
  by (simp add: run_step_status [OF analyse_result_wf])

lemma step_fails_iff:
  "sr_status (run_step n p d (analyse e)) = StepFail \<longleftrightarrow> \<not> clean p (analyse e)"
  by (simp add: run_step_status [OF analyse_result_wf])

lemma failing_step_has_errors:
  "sr_status (run_step n p d (analyse e)) = StepFail
     \<longleftrightarrow> sr_error_count (run_step n p d (analyse e)) > 0"
  using run_step_error_count [OF analyse_result_wf] step_fails_iff by (metis gr0I not_gr0)

end

text \<open>An analyser that never returns an error: its step never shows an execution error.\<close>

locale total_analyser = analyser +
  assumes analyse_total: "\<exists>r. analyse e = Inr r"
begin

lemma no_execution_error: "\<not> sr_is_execution_error (run_step n p d (analyse e))"
proof -
  obtain r where "analyse e = Inr r" using analyse_total by blast
  then show ?thesis by (simp add: run_step_def Let_def split: prod.splits)
qed

end

section \<open>The sequence of steps\<close>

text \<open>The steps from a given value of \<open>blocker\<close>, and its value at the end.\<close>

fun ff_steps :: "gate_config \<Rightarrow> (string \<Rightarrow> nat) \<Rightarrow> string option
                 \<Rightarrow> (string \<times> (cli_error + report)) list \<Rightarrow> step_result list" where
  "ff_steps cfg clock b [] = []"
| "ff_steps cfg clock (Some f) (p # ps) =
     make_skip (fst p) (fail_fast_reason f) # ff_steps cfg clock (Some f) ps"
| "ff_steps cfg clock None (p # ps) =
     (let s = run_step (fst p) (gc_profile cfg) (clock (fst p)) (snd p)
      in s # ff_steps cfg clock
               (if gc_fail_fast cfg \<and> sr_status s = StepFail then Some (sr_name s) else None) ps)"

fun ff_blocker :: "gate_config \<Rightarrow> (string \<Rightarrow> nat) \<Rightarrow> string option
                   \<Rightarrow> (string \<times> (cli_error + report)) list \<Rightarrow> string option" where
  "ff_blocker cfg clock b [] = b"
| "ff_blocker cfg clock (Some f) (p # ps) = ff_blocker cfg clock (Some f) ps"
| "ff_blocker cfg clock None (p # ps) =
     (let s = run_step (fst p) (gc_profile cfg) (clock (fst p)) (snd p)
      in ff_blocker cfg clock
           (if gc_fail_fast cfg \<and> sr_status s = StepFail then Some (sr_name s) else None) ps)"

lemma run_static_eq:
  "run_static cfg clock ps st =
     \<lparr>st_steps = st_steps st @ ff_steps cfg clock (st_blocker st) ps,
      st_blocker = ff_blocker cfg clock (st_blocker st) ps\<rparr>"
proof (induction ps arbitrary: st)
  case Nil
  then show ?case by (simp add: run_static_def)
next
  case (Cons p ps)
  have "run_static cfg clock (p # ps) st = run_static cfg clock ps (gate_step cfg clock p st)"
    by (simp add: run_static_def includes_static_def)
  also have "\<dots> = \<lparr>st_steps = st_steps (gate_step cfg clock p st)
                     @ ff_steps cfg clock (st_blocker (gate_step cfg clock p st)) ps,
                   st_blocker = ff_blocker cfg clock (st_blocker (gate_step cfg clock p st)) ps\<rparr>"
    by (rule Cons.IH)
  finally show ?case by (cases "st_blocker st") (simp_all add: gate_step_def Let_def)
qed

definition last_step :: "analysers \<Rightarrow> gate_config \<Rightarrow> (string \<Rightarrow> nat) \<Rightarrow> string option \<Rightarrow> step_result" where
  "last_step an cfg clock b = smoke_step an cfg clock \<lparr>st_steps = [], st_blocker = b\<rparr>"

lemma smoke_step_blocker: "smoke_step an cfg clock st = last_step an cfg clock (st_blocker st)"
  by (simp add: last_step_def smoke_step_def)

lemma gate_steps_eq:
  "gate_steps an clock cfg =
     ff_steps cfg clock None (static_plan an cfg)
     @ [last_step an cfg clock (ff_blocker cfg clock None (static_plan an cfg))]"
  by (simp add: gate_steps_def run_static_eq smoke_step_blocker Let_def)

lemma ff_steps_names: "map sr_name (ff_steps cfg clock b ps) = map fst ps"
  by (induction cfg clock b ps rule: ff_steps.induct) (simp_all add: Let_def)

lemma length_ff_steps [simp]: "length (ff_steps cfg clock b ps) = length ps"
  using arg_cong [OF ff_steps_names, of length cfg clock b ps] by simp

lemma last_step_name [simp]: "sr_name (last_step an cfg clock b) = ''runtime-smoke''"
  by (simp add: last_step_def smoke_step_def split: option.split)

text \<open>Without fail-fast every static step runs.\<close>

lemma ff_steps_run_all:
  assumes "\<not> gc_fail_fast cfg"
  shows "ff_steps cfg clock None ps
         = map (\<lambda>p. run_step (fst p) (gc_profile cfg) (clock (fst p)) (snd p)) ps"
    and "ff_blocker cfg clock None ps = None"
  using assms by (induction ps) (simp_all add: Let_def)

lemma ff_steps_blocked:
  "ff_steps cfg clock (Some f) ps = map (\<lambda>p. make_skip (fst p) (fail_fast_reason f)) ps"
  "ff_blocker cfg clock (Some f) ps = Some f"
  by (induction ps) simp_all

text \<open>With fail-fast, a failing step blocks everything behind it.\<close>

lemma ff_steps_after_failure:
  assumes "gc_fail_fast cfg" "i < length ps"
    and "sr_status (ff_steps cfg clock b ps ! i) = StepFail"
  shows "ff_blocker cfg clock b ps = Some (sr_name (ff_steps cfg clock b ps ! i)) \<and>
         (\<forall>j. i < j \<longrightarrow> j < length ps \<longrightarrow>
            ff_steps cfg clock b ps ! j
            = make_skip (fst (ps ! j)) (fail_fast_reason (sr_name (ff_steps cfg clock b ps ! i))))"
  using assms(2,3)
proof (induction ps arbitrary: b i)
  case Nil
  then show ?case by simp
next
  case (Cons p ps)
  show ?case
  proof (cases b)
    case (Some f)
    with Cons.prems have "sr_status (map (\<lambda>p. make_skip (fst p) (fail_fast_reason f)) (p # ps) ! i) = StepFail"
      by (simp only: ff_steps_blocked)
    then show ?thesis using Cons.prems(1)
      by (simp only: nth_map make_skip_simps) simp
  next
    case None
    let ?s = "run_step (fst p) (gc_profile cfg) (clock (fst p)) (snd p)"
    let ?b = "if gc_fail_fast cfg \<and> sr_status ?s = StepFail then Some (sr_name ?s) else None"
    show ?thesis
    proof (cases i)
      case 0
      with Cons.prems None have fail: "sr_status ?s = StepFail" by (simp add: Let_def)
      have "ff_steps cfg clock b (p # ps) ! j = make_skip (fst ((p # ps) ! j)) (fail_fast_reason (fst p))"
        if "0 < j" "j < length (p # ps)" for j
        using that None fail assms(1) by (cases j) (simp_all add: Let_def ff_steps_blocked)
      with 0 None fail assms(1) show ?thesis by (simp add: Let_def ff_steps_blocked)
    next
      case (Suc k)
      with Cons.prems None have k: "k < length ps" "sr_status (ff_steps cfg clock ?b ps ! k) = StepFail"
        by (simp_all add: Let_def)
      from Cons.IH [OF k] Suc None show ?thesis
        by (auto simp: Let_def nth_Cons split: nat.splits)
    qed
  qed
qed

lemma ff_failure_iff:
  "(\<exists>s\<in>set (ff_steps cfg clock None ps). sr_status s = StepFail) \<longleftrightarrow>
   (\<exists>p\<in>set ps. sr_status (run_step (fst p) (gc_profile cfg) (clock (fst p)) (snd p)) = StepFail)"
  by (induction ps) (auto simp: Let_def ff_steps_blocked)

lemma ff_blocker_None:
  "\<forall>p\<in>set ps. sr_status (run_step (fst p) (gc_profile cfg) (clock (fst p)) (snd p)) \<noteq> StepFail
   \<Longrightarrow> ff_blocker cfg clock None ps = None"
  by (induction ps) (auto simp: Let_def)

section \<open>Passing and failing gates\<close>

definition smoke_result :: "analysers \<Rightarrow> gate_config \<Rightarrow> cli_error + report" where
  "smoke_result an cfg = an_smoke an (gc_project_root cfg) (gc_base_url cfg)"

definition analysers_wf :: "analysers \<Rightarrow> gate_config \<Rightarrow> bool" where
  "analysers_wf an cfg =
     (list_all (\<lambda>p. result_wf (snd p)) (static_plan an cfg) \<and> result_wf (smoke_result an cfg))"

lemma last_step_None:
  "last_step an cfg clock None =
     (if gc_profile cfg = Deep
      then run_step ''runtime-smoke'' Deep (clock ''runtime-smoke'') (smoke_result an cfg)
      else make_skip ''runtime-smoke'' (profile_skip_reason (gc_profile cfg)))"
  by (simp add: last_step_def smoke_step_def includes_runtime_def smoke_result_def)

lemma last_step_Some:
  "last_step an cfg clock (Some f) = make_skip ''runtime-smoke'' (fail_fast_reason f)"
  by (simp add: last_step_def smoke_step_def)

definition no_failure :: "step_result list \<Rightarrow> bool" where
  "no_failure ss = list_all (\<lambda>s. sr_status s \<noteq> StepFail) ss"

lemma gate_no_failure:
  "no_failure (gate_steps an clock cfg) \<longleftrightarrow>
     (\<forall>p\<in>set (static_plan an cfg).
        sr_status (run_step (fst p) (gc_profile cfg) (clock (fst p)) (snd p)) \<noteq> StepFail)
     \<and> (gc_profile cfg = Deep \<longrightarrow>
          sr_status (run_step ''runtime-smoke'' Deep (clock ''runtime-smoke'')
                       (smoke_result an cfg)) \<noteq> StepFail)"
    (is "?l \<longleftrightarrow> ?a \<and> ?b")
proof (cases ?a)
  case True
  then have "\<not> (\<exists>s\<in>set (ff_steps cfg clock None (static_plan an cfg)). sr_status s = StepFail)"
    unfolding ff_failure_iff by blast
  with ff_blocker_None [OF True] True show ?thesis
    by (auto simp: no_failure_def gate_steps_eq list_all_iff last_step_None)
next
  case False
  then have "\<exists>s\<in>set (ff_steps cfg clock None (static_plan an cfg)). sr_status s = StepFail"
    unfolding ff_failure_iff by blast
  with False show ?thesis
    by (auto simp: no_failure_def gate_steps_eq list_all_iff)
qed

lemma gate_run_passed:
  "gate_run an clock t cfg = Inr g \<Longrightarrow> gr_passed g \<longleftrightarrow> no_failure (gate_steps an clock cfg)"
  by (auto simp: gate_run_def assemble_def no_failure_def Let_def split: prod.splits)

lemma gate_run_steps: "gate_run an clock t cfg = Inr g \<Longrightarrow> gr_steps g = gate_steps an clock cfg"
  by (auto simp: gate_run_def assemble_def Let_def split: prod.splits)

lemma gate_clean:
  assumes "analysers_wf an cfg"
  shows "no_failure (gate_steps an clock cfg) \<longleftrightarrow>
     (\<forall>p\<in>set (static_plan an cfg). clean (gc_profile cfg) (snd p))
     \<and> (gc_profile cfg = Deep \<longrightarrow> clean Deep (smoke_result an cfg))"
proof -
  have "result_wf (snd p)" if "p \<in> set (static_plan an cfg)" for p
    using assms that by (auto simp: analysers_wf_def list_all_iff)
  moreover have "result_wf (smoke_result an cfg)" using assms by (simp add: analysers_wf_def)
  ultimately show ?thesis
    unfolding gate_no_failure by (auto simp: run_step_status split: if_splits)
qed

text \<open>A step that does not fail has no error findings.\<close>

text \<open>Every step of a gate run is a skip, or a step run on one of the analysers' results.\<close>

lemma ff_steps_cases:
  "s \<in> set (ff_steps cfg clock b ps) \<Longrightarrow>
     sr_status s = StepSkip \<and> sr_error_count s = 0
     \<or> (\<exists>p\<in>set ps. s = run_step (fst p) (gc_profile cfg) (clock (fst p)) (snd p))"
  by (induction cfg clock b ps rule: ff_steps.induct) (auto simp: Let_def)

lemma gate_steps_cases:
  assumes "analysers_wf an cfg" "s \<in> set (gate_steps an clock cfg)"
  obtains "sr_status s = StepSkip" "sr_error_count s = 0"
    | n p d res where "result_wf res" "s = run_step n p d res"
proof -
  from assms(1) have wf: "\<forall>p\<in>set (static_plan an cfg). result_wf (snd p)"
    "result_wf (smoke_result an cfg)"
    by (auto simp: analysers_wf_def list_all_iff)
  from assms(2) consider "s \<in> set (ff_steps cfg clock None (static_plan an cfg))"
    | b where "s = last_step an cfg clock b"
    by (auto simp: gate_steps_eq)
  then show ?thesis
  proof cases
    case 1
    from ff_steps_cases [OF 1] wf(1) that show ?thesis by blast
  next
    case (2 b)
    show ?thesis
    proof (cases b)
      case None
      with 2 wf(2) that show ?thesis by (auto simp: last_step_None split: if_splits)
    next
      case (Some f)
      with 2 that show ?thesis by (simp add: last_step_Some)
    qed
  qed
qed

lemma gate_step_errors:
  assumes "analysers_wf an cfg" "s \<in> set (gate_steps an clock cfg)" "sr_status s \<noteq> StepFail"
  shows "sr_error_count s = 0"
  using assms(1,2)
proof (cases rule: gate_steps_cases)
  case (2 n p d res)
  with assms(3) show ?thesis
    using run_step_error_count [of res n p d] by (simp add: run_step_status split: if_splits)
qed

lemma gate_failed_errors:
  assumes "analysers_wf an cfg" "s \<in> set (gate_steps an clock cfg)" "sr_status s = StepFail"
  shows "sr_error_count s \<noteq> 0"
  using assms(1,2)
proof (cases rule: gate_steps_cases)
  case 1
  with assms(3) show ?thesis by simp
next
  case (2 n p d res)
  with assms(3) show ?thesis
    using run_step_error_count [of res n p d] by (simp add: run_step_status split: if_splits)
qed

lemma sum_failed_errors:
  "\<forall>s\<in>set ss. sr_status s \<noteq> StepFail \<longrightarrow> sr_error_count s = 0 \<Longrightarrow>
   sum_list (map sr_error_count (failed_steps ss)) = sum_list (map sr_error_count ss)"
  by (induction ss) (auto simp: failed_steps_def)

lemma step_counts_total:
  "step_counts ss = (p, f, k) \<Longrightarrow> p + f + k = length ss"
proof -
  have "length (filter (\<lambda>s. sr_status s = StepPass) ss)
        + length (filter (\<lambda>s. sr_status s = StepFail) ss)
        + length (filter (\<lambda>s. sr_status s = StepSkip) ss) = length ss" for ss
  proof (induction ss)
    case (Cons s ss)
    then show ?case by (cases "sr_status s") auto
  qed simp
  then show "step_counts ss = (p, f, k) \<Longrightarrow> p + f + k = length ss"
    by (auto simp: step_counts_def)
qed

section \<open>Durations\<close>

lemma bit_len_le: "n < 2 ^ k \<Longrightarrow> bit_len n \<le> k"
proof (induction n arbitrary: k rule: bit_len.induct)
  case (1 n)
  show ?case
  proof (cases "n = 0")
    case True
    then show ?thesis by (simp add: bit_len.simps [of 0])
  next
    case False
    with "1.prems" obtain k' where k: "k = Suc k'" by (cases k) auto
    with "1.prems" have "n div 2 < 2 ^ k'" by simp
    with 1(1) False have "bit_len (n div 2) \<le> k'" by blast
    with False k show ?thesis by (simp add: bit_len.simps [of n])
  qed
qed

lemma round_half_even_error:
  assumes "0 < b"
  shows "2 * \<bar>int (round_half_even a b) * int b - int a\<bar> \<le> int b"
proof -
  let ?q = "a div b" and ?r = "a mod b"
  have a: "int a = int ?q * int b + int ?r"
    by (metis div_mult_mod_eq of_nat_add of_nat_mult)
  have r: "?r < b" using assms by simp
  have up: "int (Suc ?q) * int b - int a = int b - int ?r"
    using a by (simp add: algebra_simps)
  have down: "int ?q * int b - int a = - int ?r"
    using a by simp
  consider "round_half_even a b = ?q" "2 * ?r \<le> b" | "round_half_even a b = Suc ?q" "b \<le> 2 * ?r"
    by (cases "2 * ?r < b"; cases "b < 2 * ?r"; cases "even ?q")
       (simp_all add: round_half_even_def Let_def)
  then show ?thesis
  proof cases
    case 1
    then show ?thesis unfolding 1(1) down by simp
  next
    case 2
    then show ?thesis unfolding 2(1) up using r by simp
  qed
qed

lemma f64_exact: "n < 2 ^ 53 \<Longrightarrow> f64_of_nat n = n"
  using bit_len_le [of n 53] by (simp add: f64_of_nat_def)

lemma tenths_error:
  assumes "ms < 2 ^ 53"
  shows "\<bar>100 * int (tenths ms) - int ms\<bar> \<le> 50"
proof -
  define l where "l = bit_len (ms div 1000)"
  define e where "e = 53 - l"
  define m where "m = round_half_even (ms * 2 ^ e) 1000"
  have "ms div 1000 < 2 ^ 44" using assms by (simp add: div_less_iff_less_mult)
  then have l: "l \<le> 44" unfolding l_def by (rule bit_len_le)
  then have e9: "9 \<le> e" by (simp add: e_def)
  have t: "tenths ms = round_half_even (m * 10) (2 ^ e)"
    using l by (simp add: tenths_def f64_exact [OF assms] f64_div_def l_def e_def m_def Let_def)
  let ?P = "(2 :: int) ^ e"
  have P: "512 \<le> ?P" using power_increasing [of 9 e "2 :: int"] e9 by simp
  have m_err: "2 * \<bar>int m * 1000 - int ms * ?P\<bar> \<le> 1000"
    using round_half_even_error [of 1000 "ms * 2 ^ e"] by (simp add: m_def)
  have t_err: "2 * \<bar>int (tenths ms) * ?P - int m * 10\<bar> \<le> ?P"
    using round_half_even_error [of "2 ^ e" "m * 10"] by (simp add: t)
  have arith: "z \<le> 50 * p + 500" if "z \<le> 100 * u + v" "2 * v \<le> 1000" "2 * u \<le> p" for z u v p :: int
    using that by linarith
  have lin: "\<bar>100 * a - c\<bar> \<le> 50 * p + 500"
    if "2 * \<bar>b * 1000 - c\<bar> \<le> 1000" "2 * \<bar>a - b * 10\<bar> \<le> p" for a b c p :: int
  proof (rule arith [OF _ that])
    have "\<bar>100 * a - c\<bar> = \<bar>100 * (a - b * 10) + (b * 1000 - c)\<bar>" by simp
    also have "\<dots> \<le> \<bar>100 * (a - b * 10)\<bar> + \<bar>b * 1000 - c\<bar>" by (rule abs_triangle_ineq)
    also have "\<bar>100 * (a - b * 10)\<bar> = 100 * \<bar>a - b * 10\<bar>" by (simp only: abs_mult abs_numeral)
    finally show "\<bar>100 * a - c\<bar> \<le> 100 * \<bar>a - b * 10\<bar> + \<bar>b * 1000 - c\<bar>" .
  qed
  have "\<bar>(100 * int (tenths ms) - int ms) * ?P\<bar> \<le> 50 * ?P + 500"
    using lin [OF m_err t_err] by (simp add: algebra_simps)
  then have bound: "\<bar>100 * int (tenths ms) - int ms\<bar> * ?P \<le> 50 * ?P + 500"
    using P by (simp add: abs_mult)
  show ?thesis
  proof (rule ccontr)
    assume "\<not> ?thesis"
    then have "51 * ?P \<le> \<bar>100 * int (tenths ms) - int ms\<bar> * ?P"
      using P by (intro mult_right_mono) auto
    with bound P show False by simp
  qed
qed

section \<open>Properties\<close>

text \<open>
  C2 (fail-fast). With \<open>fail_fast\<close> set, every step behind a failing step is a skip whose
  recorded reason names that failing step: nothing after the first failure runs.
\<close>

theorem gate_fail_fast_skips_rest:
  assumes "gc_fail_fast cfg"
    and "i < j" "j < length (gate_steps an clock cfg)"
    and "sr_status (gate_steps an clock cfg ! i) = StepFail"
  shows "gate_steps an clock cfg ! j
         = make_skip (sr_name (gate_steps an clock cfg ! j))
             (fail_fast_reason (sr_name (gate_steps an clock cfg ! i)))"
proof -
  let ?p = "static_plan an cfg"
  let ?ss = "ff_steps cfg clock None ?p"
  have i: "i < length ?p" using assms(2,3) by (simp add: gate_steps_eq)
  then have si: "gate_steps an clock cfg ! i = ?ss ! i" by (simp add: gate_steps_eq nth_append)
  from ff_steps_after_failure [OF assms(1) i] assms(4)
  have b: "ff_blocker cfg clock None ?p = Some (sr_name (?ss ! i))"
    and after: "\<And>j. i < j \<Longrightarrow> j < length ?p \<Longrightarrow>
      ?ss ! j = make_skip (fst (?p ! j)) (fail_fast_reason (sr_name (?ss ! i)))"
    unfolding si by blast+
  show ?thesis
  proof (cases "j < length ?p")
    case True
    then have "gate_steps an clock cfg ! j = ?ss ! j" by (simp add: gate_steps_eq nth_append)
    then show ?thesis unfolding si using after [OF assms(2) True] by (metis make_skip_simps(1))
  next
    case False
    with assms(3) have "gate_steps an clock cfg ! j = last_step an cfg clock (Some (sr_name (?ss ! i)))"
      by (simp add: gate_steps_eq nth_append b)
    then show ?thesis unfolding si last_step_Some by (metis make_skip_simps(1))
  qed
qed

text \<open>
  C4 (verdict). When the analysers return well-formed reports, the verdict agrees with the
  report: the action is \<open>proceed\<close> exactly when the gate passed; when it did not, at least
  one error was counted, the verdict's message states the same number of errors as the
  rendered summary although the two are computed from different sums (the failed steps, all
  steps), and there is one remediation hint per failed step, in order.
\<close>

theorem gate_verdict_matches_report:
  assumes "analysers_wf an cfg" and "gate_run an clock t cfg = Inr g"
  shows "(vd_action (gr_verdict g) = ''proceed'' \<longleftrightarrow> gr_passed g)
         \<and> vd_next_steps (gr_verdict g) = map fix_hint (failed_steps (gr_steps g))
         \<and> vd_message (gr_verdict g) =
             (if gr_passed g then proceed_message else stop_message (gs_total_errors (gr_summary g)))
         \<and> (gr_passed g \<longleftrightarrow> gs_total_errors (gr_summary g) = 0)"
proof -
  let ?ss = "gate_steps an clock cfg"
  have g: "g = assemble cfg t ?ss" using assms(2) by (simp add: gate_run_def)
  have zero: "\<forall>s\<in>set ?ss. sr_status s \<noteq> StepFail \<longrightarrow> sr_error_count s = 0"
    using gate_step_errors [OF assms(1)] by blast
  have pos: "sr_error_count s \<noteq> 0" if "s \<in> set ?ss" "sr_status s = StepFail" for s
    using gate_failed_errors [OF assms(1) that] .
  have pass: "gr_passed g \<longleftrightarrow> failed_steps ?ss = []"
    by (auto simp: g assemble_def failed_steps_def filter_empty_conv list_all_iff split: prod.splits)
  have tot: "gs_total_errors (gr_summary g) = sum_list (map sr_error_count (failed_steps ?ss))"
    by (simp add: g assemble_def sum_failed_errors [OF zero] split: prod.splits)
  have "failed_steps ?ss \<noteq> [] \<Longrightarrow> sum_list (map sr_error_count (failed_steps ?ss)) \<noteq> 0"
    using pos by (cases "failed_steps ?ss") (auto simp: failed_steps_def filter_eq_Cons_iff)
  moreover have "gr_verdict g = compute_verdict ?ss" "gr_steps g = ?ss"
    by (simp_all add: g assemble_def split: prod.splits)
  ultimately show ?thesis
    using pass tot by (auto simp: compute_verdict_def Let_def)
qed

text \<open>
  Property (what passing means). With well-formed reports, the gate passes exactly when every
  static analyser came back clean for the profile (no error findings, and under \<open>ci\<close> no
  warnings either) and, under \<open>deep\<close>, the runtime smoke run did too. Fail-fast plays no part.
\<close>

theorem gate_passed_iff_clean:
  assumes "analysers_wf an cfg" and "gate_run an clock t cfg = Inr g"
  shows "gr_passed g \<longleftrightarrow>
           (list_all (\<lambda>p. clean (gc_profile cfg) (snd p)) (static_plan an cfg)
            \<and> (if gc_profile cfg = Deep then clean Deep (smoke_result an cfg) else True))"
  using gate_run_passed [OF assms(2)] gate_clean [OF assms(1)]
  by (simp add: list_all_iff)

text \<open>
  Property (profiles are ordered). A project that passes the gate under \<open>ci\<close> passes it under
  \<open>fast\<close>: promoting warnings never turns a failing gate into a passing one.
\<close>

theorem gate_ci_implies_fast:
  assumes "analysers_wf an cfg"
    and "gate_run an clock t (cfg\<lparr>gc_profile := Ci\<rparr>) = Inr g" and "gr_passed g"
  shows "\<exists>h. gate_run an clock t (cfg\<lparr>gc_profile := Fast\<rparr>) = Inr h \<and> gr_passed h"
proof -
  have plan: "static_plan an (cfg\<lparr>gc_profile := p\<rparr>) = static_plan an cfg"
    "smoke_result an (cfg\<lparr>gc_profile := p\<rparr>) = smoke_result an cfg" for p
    by (simp_all add: static_plan_def smoke_result_def)
  have wf: "analysers_wf an (cfg\<lparr>gc_profile := p\<rparr>)" for p
    using assms(1) by (simp add: analysers_wf_def plan)
  obtain h where h: "gate_run an clock t (cfg\<lparr>gc_profile := Fast\<rparr>) = Inr h"
    by (simp add: gate_run_def)
  have "\<forall>p\<in>set (static_plan an cfg). clean Ci (snd p)"
    using gate_run_passed [OF assms(2)] gate_clean [OF wf, of clock Ci] assms(3) by (simp add: plan)
  then have "\<forall>p\<in>set (static_plan an cfg). clean Fast (snd p)"
    by (blast intro: clean_ci_mono)
  then have "gr_passed h"
    using gate_run_passed [OF h] gate_clean [OF wf, of clock Fast] by (simp add: plan)
  with h show ?thesis by blast
qed

text \<open>
  Property (fail-fast changes no outcome). The gate's overall result is the same with and without
  \<open>--fail-fast\<close>, whatever the analysers return.
\<close>

theorem gate_fail_fast_same_outcome:
  "\<exists>g h. gate_run an clock t (cfg\<lparr>gc_fail_fast := True\<rparr>) = Inr g
         \<and> gate_run an clock t (cfg\<lparr>gc_fail_fast := False\<rparr>) = Inr h
         \<and> gr_passed g = gr_passed h"
proof -
  have "static_plan an (cfg\<lparr>gc_fail_fast := b\<rparr>) = static_plan an cfg"
    "smoke_result an (cfg\<lparr>gc_fail_fast := b\<rparr>) = smoke_result an cfg" for b
    by (simp_all add: static_plan_def smoke_result_def)
  then have "no_failure (gate_steps an clock (cfg\<lparr>gc_fail_fast := b\<rparr>))
             = no_failure (gate_steps an clock (cfg\<lparr>gc_fail_fast := b'\<rparr>))" for b b'
    by (simp add: gate_no_failure)
  then show ?thesis
    by (metis gate_run_def gate_run_passed)
qed

text \<open>
  Property (shape of the report). A gate run returns a report of exactly the seven steps in the
  documented order; the passed, failed and skipped counts add up to seven, and the gate
  passed exactly when the failed count is zero.
\<close>

theorem gate_report_shape:
  "\<exists>g. gate_run an clock t cfg = Inr g
       \<and> map sr_name (gr_steps g) =
           [''doctor'', ''topology-doctor'', ''contract-audit'', ''runtime-bindings'',
            ''arch-guard'', ''drift-detect'', ''runtime-smoke'']
       \<and> gs_passed (gr_summary g) + gs_failed (gr_summary g) + gs_skipped (gr_summary g) = 7
       \<and> (gr_passed g \<longleftrightarrow> gs_failed (gr_summary g) = 0)"
proof -
  let ?g = "assemble cfg t (gate_steps an clock cfg)"
  have names: "map sr_name (gate_steps an clock cfg) = map fst (static_plan an cfg) @ [''runtime-smoke'']"
    by (simp add: gate_steps_eq ff_steps_names)
  have "length (map sr_name (gate_steps an clock cfg)) = 7"
    unfolding names by (simp add: static_plan_def)
  then have len: "length (gate_steps an clock cfg) = 7" by simp
  obtain p f k where c: "step_counts (gate_steps an clock cfg) = (p, f, k)" by (metis prod_cases3)
  from step_counts_total [OF c] len have "p + f + k = 7" by simp
  moreover have "f = 0 \<longleftrightarrow> list_all (\<lambda>s. sr_status s \<noteq> StepFail) (gate_steps an clock cfg)"
    using c by (auto simp: step_counts_def filter_empty_conv list_all_iff)
  ultimately show ?thesis
    using names c by (simp add: gate_run_def assemble_def static_plan_def)
qed

text \<open>
  Property (promotion). Promoting the warnings of a well-formed report turns every warning into an
  error and nothing else: the error count grows by the warning count, no warning is left,
  the checks keep their number and names, the result is well-formed, promoting again changes
  nothing, and the promoted report passes only if there was neither an error nor a warning.
\<close>

theorem promote_warnings_correct:
  assumes "report_wf r" and "count_findings r = (e, w)"
  shows "count_findings (promote_warnings r) = (e + w, 0)
         \<and> map ck_name (rp_checks (promote_warnings r)) = map ck_name (rp_checks r)
         \<and> report_wf (promote_warnings r)
         \<and> promote_warnings (promote_warnings r) = promote_warnings r
         \<and> (rp_passed (promote_warnings r) \<longleftrightarrow> e = 0 \<and> w = 0)"
  using assms promote_passed [OF assms(1)]
  by (auto simp: count_findings_eq sev_count_promote promote_warnings_wf promote_warnings_idem)

text \<open>
  Property (durations). From one second up, and for any duration a double holds exactly, the
  rendered duration is the number of tenths of a second nearest to the measured
  milliseconds: the two floating-point roundings never move it further than 50 ms.
\<close>

theorem format_duration_nearest_tenth:
  assumes "1000 \<le> ms" and "ms < 2 ^ 53"
  shows "\<exists>t. format_duration ms = show_nat (t div 10) @ ''.'' @ show_nat (t mod 10) @ ''s''
             \<and> \<bar>100 * int t - int ms\<bar> \<le> 50"
  using assms tenths_error [OF assms(2)]
  by (intro exI [of _ "tenths ms"]) (simp add: format_duration_def)

section \<open>Witnesses\<close>

text \<open>A project with one warning, whose topology analyser cannot read its input.\<close>

definition demo_report :: report where
  "demo_report = report_add (report_new ''demo'') (from_findings ''c'' [finding_warning ''c'' ''w''])"

definition demo_analysers :: "(cli_error + report) \<Rightarrow> analysers" where
  "demo_analysers topo =
     \<lparr>an_doctor = (\<lambda>_. Inr demo_report), an_topology = (\<lambda>_. topo),
      an_contracts = (\<lambda>_. Inr demo_report), an_runtime_bindings = (\<lambda>_. Inr demo_report),
      an_arch_guard = (\<lambda>_. Inr demo_report), an_drift_detect = (\<lambda>_. Inr demo_report),
      an_smoke = (\<lambda>_ _. Inr demo_report)\<rparr>"

definition demo_config :: "profile \<Rightarrow> bool \<Rightarrow> gate_config" where
  "demo_config p ff = \<lparr>gc_project_root = ''.'', gc_profile = p,
                        gc_base_url = ''http://127.0.0.1:8080'', gc_fail_fast = ff\<rparr>"

lemma demo_report_wf: "report_wf demo_report"
  unfolding demo_report_def by (intro wf_intros)

lemma demo_analysers_wf:
  "analysers_wf (demo_analysers (Inl e)) cfg" "analysers_wf (demo_analysers (Inr demo_report)) cfg"
  by (simp_all add: analysers_wf_def demo_analysers_def static_plan_def smoke_result_def
      result_wf_def demo_report_wf)

lemma demo_topology_fails:
  "sr_status (gate_steps (demo_analysers (Inl e)) clock (demo_config p ff) ! 1) = StepFail"
  "length (gate_steps (demo_analysers (Inl e)) clock (demo_config p ff)) = 7"
  if "p \<noteq> Ci"
  using that
  by (simp_all add: gate_steps_eq demo_analysers_def demo_config_def static_plan_def
      run_step_def warnings_are_errors_def demo_report_def count_findings_def from_findings_status
      Let_def)

theorem gate_fail_fast_skips_rest_witness:
  "gate_steps (demo_analysers (Inl (Io ''x''))) (\<lambda>_. 5) (demo_config Fast True) ! 3
   = make_skip
       (sr_name (gate_steps (demo_analysers (Inl (Io ''x''))) (\<lambda>_. 5) (demo_config Fast True) ! 3))
       (fail_fast_reason
         (sr_name (gate_steps (demo_analysers (Inl (Io ''x''))) (\<lambda>_. 5) (demo_config Fast True) ! 1)))"
proof -
  have ff: "gc_fail_fast (demo_config Fast True)" and p: "Fast \<noteq> Ci"
    by (simp_all add: demo_config_def)
  have "1 < (3 :: nat)" "3 < length (gate_steps (demo_analysers (Inl (Io ''x''))) (\<lambda>_. 5) (demo_config Fast True))"
    by (simp_all add: demo_topology_fails)
  from gate_fail_fast_skips_rest [OF ff this demo_topology_fails(1) [OF p]] show ?thesis .
qed

theorem gate_verdict_matches_report_witness:
  "\<exists>g. gate_run (demo_analysers (Inl (Io ''x''))) (\<lambda>_. 5) 9 (demo_config Fast False) = Inr g
       \<and> vd_message (gr_verdict g) =
           (if gr_passed g then proceed_message else stop_message (gs_total_errors (gr_summary g)))"
proof -
  obtain g where g: "gate_run (demo_analysers (Inl (Io ''x''))) (\<lambda>_. 5) 9 (demo_config Fast False) = Inr g"
    by (simp add: gate_run_def)
  from g gate_verdict_matches_report [OF demo_analysers_wf(1) g] show ?thesis by blast
qed

theorem gate_passed_iff_clean_witness:
  "\<exists>g. gate_run (demo_analysers (Inr demo_report)) (\<lambda>_. 5) 9 (demo_config Ci False) = Inr g
       \<and> \<not> gr_passed g"
proof -
  obtain g where g: "gate_run (demo_analysers (Inr demo_report)) (\<lambda>_. 5) 9 (demo_config Ci False) = Inr g"
    by (simp add: gate_run_def)
  have "\<not> clean Ci (Inr demo_report)"
    by (simp add: clean_def demo_report_def sev_count_def)
  with g gate_passed_iff_clean [OF demo_analysers_wf(2) g] show ?thesis
    by (auto simp: static_plan_def demo_analysers_def demo_config_def)
qed

definition tidy_analysers :: analysers where
  "tidy_analysers =
     \<lparr>an_doctor = (\<lambda>_. Inr (report_new ''a'')), an_topology = (\<lambda>_. Inr (report_new ''b'')),
      an_contracts = (\<lambda>_. Inr (report_new ''c'')),
      an_runtime_bindings = (\<lambda>_. Inr (report_new ''d'')),
      an_arch_guard = (\<lambda>_. Inr (report_new ''e'')), an_drift_detect = (\<lambda>_. Inr (report_new ''f'')),
      an_smoke = (\<lambda>_ _. Inl (Io ''connection refused''))\<rparr>"

theorem gate_ci_implies_fast_witness:
  "\<exists>h. gate_run tidy_analysers (\<lambda>_. 5) 9 ((demo_config Deep False)\<lparr>gc_profile := Fast\<rparr>) = Inr h
       \<and> gr_passed h"
proof -
  have wf: "analysers_wf tidy_analysers cfg" for cfg
    by (simp add: analysers_wf_def tidy_analysers_def static_plan_def smoke_result_def
        result_wf_def report_wf_new)
  obtain g where g: "gate_run tidy_analysers (\<lambda>_. 5) 9 ((demo_config Deep False)\<lparr>gc_profile := Ci\<rparr>) = Inr g"
    by (simp add: gate_run_def)
  have "no_failure (gate_steps tidy_analysers (\<lambda>_. 5) ((demo_config Deep False)\<lparr>gc_profile := Ci\<rparr>))"
    unfolding gate_clean [OF wf]
    by (simp add: static_plan_def tidy_analysers_def clean_def sev_count_def)
  then have "gr_passed g" using gate_run_passed [OF g] by simp
  from gate_ci_implies_fast [OF wf g this] show ?thesis .
qed

theorem promote_warnings_correct_witness:
  "count_findings (promote_warnings demo_report) = (0 + 1, 0) \<and> \<not> rp_passed (promote_warnings demo_report)"
proof -
  have "count_findings demo_report = (0, 1)"
    by (simp add: count_findings_def demo_report_def)
  from promote_warnings_correct [OF demo_report_wf this] show ?thesis by simp
qed

theorem format_duration_nearest_tenth_witness:
  "\<exists>t. format_duration 1250 = show_nat (t div 10) @ ''.'' @ show_nat (t mod 10) @ ''s''
       \<and> \<bar>100 * int t - 1250\<bar> \<le> 50"
  using format_duration_nearest_tenth [of 1250] by simp

end
