(* ===== verification/OrderedMap.thy ===== *)
theory OrderedMap
  imports Main
begin

text \<open>
  The interface of \<open>std::collections::BTreeMap\<close> the tool uses: the entry API on one key
  (\<open>entry(k).or_default()\<close>, \<open>or_insert_with\<close>, \<open>and_modify\<close>), lookup, and iteration in key
  order. The clients are proved against the locale \<open>ordered_map\<close>; the model of the map is
  the association list in key order that iteration yields, and interprets the locale.
\<close>

text \<open>Summing by key and then over the keys.\<close>

lemma sum_by_key:
  fixes w :: "'a \<Rightarrow> nat"
  assumes "distinct ks" "set ks = key ` set xs"
  shows "sum_list (map (\<lambda>k. sum_list (map w (filter (\<lambda>x. key x = k) xs))) ks) = sum_list (map w xs)"
proof -
  have "sum_list (map (\<lambda>k. sum_list (map w (filter (\<lambda>x. key x = k) ys))) ks) = sum_list (map w ys)"
    if "key ` set ys \<subseteq> set ks" for ys
    using that
  proof (induction ys)
    case Nil
    show ?case by (induction ks) auto
  next
    case (Cons y ys)
    let ?s = "\<lambda>k. sum_list (map w (filter (\<lambda>x. key x = k) ys))"
    have "sum_list (map (\<lambda>k. sum_list (map w (filter (\<lambda>x. key x = k) (y # ys)))) ks)
        = sum_list (map (\<lambda>k. (if k = key y then w y else 0) + ?s k) ks)"
      by (intro arg_cong [of _ _ sum_list] map_cong) auto
    also have "\<dots> = sum_list (map (\<lambda>k. if k = key y then w y else 0) ks) + sum_list (map ?s ks)"
      by (rule sum_list_addf)
    also have "sum_list (map (\<lambda>k. if k = key y then w y else 0) ks) = w y"
      using assms(1) Cons.prems by (simp add: sum_list_distinct_conv_sum_set)
    also have "sum_list (map ?s ks) = sum_list (map w ys)" using Cons by simp
    finally show ?case by simp
  qed
  with assms(2) show ?thesis by blast
qed

section \<open>The interface\<close>

text \<open>
  \<open>alter k f m\<close> replaces the entry of \<open>k\<close> by \<open>f\<close> of what was there.
\<close>

locale ordered_map =
  fixes empty :: 'm
    and alter :: "'k::linorder \<Rightarrow> ('v option \<Rightarrow> 'v) \<Rightarrow> 'm \<Rightarrow> 'm"
    and lookup :: "'m \<Rightarrow> 'k \<Rightarrow> 'v option"
    and entries :: "'m \<Rightarrow> ('k \<times> 'v) list"
    and invar :: "'m \<Rightarrow> bool"
  assumes lookup_empty: "lookup empty k = None"
    and lookup_alter: "invar m \<Longrightarrow> lookup (alter k f m) k' =
          (if k' = k then Some (f (lookup m k)) else lookup m k')"
    and invar_empty: "invar empty"
    and invar_alter: "invar m \<Longrightarrow> invar (alter k f m)"
    and entries_sorted: "invar m \<Longrightarrow> sorted_wrt (<) (map fst (entries m))"
    and entries_lookup: "invar m \<Longrightarrow> (k, v) \<in> set (entries m) \<longleftrightarrow> lookup m k = Some v"
begin

text \<open>Grouping: one pass over a list, each element altering the entry of its key.\<close>

lemma invar_fold: "invar m \<Longrightarrow> invar (fold (\<lambda>x. alter (key x) (upd x)) xs m)"
  by (induction xs arbitrary: m) (simp_all add: invar_alter)

lemma lookup_fold:
  "invar m \<Longrightarrow> lookup (fold (\<lambda>x. alter (key x) (upd x)) xs m) k
     = fold (\<lambda>x o'. Some (upd x o')) (filter (\<lambda>x. key x = k) xs) (lookup m k)"
  by (induction xs arbitrary: m) (simp_all add: invar_alter lookup_alter)

lemma fold_is_some:
  "(\<exists>v. fold (\<lambda>x o'. Some (upd x o')) xs o1 = Some v) \<longleftrightarrow> xs \<noteq> [] \<or> o1 \<noteq> None"
proof (induction xs arbitrary: o1)
  case (Cons x xs)
  have "fold (\<lambda>x o'. Some (upd x o')) xs (Some w) \<noteq> None" for w
    using Cons [of "Some w"] by auto
  then show ?case by auto
qed auto

lemma entry_keys_fold:
  "fst ` set (entries (fold (\<lambda>x. alter (key x) (upd x)) xs empty)) = key ` set xs"
proof -
  let ?m = "fold (\<lambda>x. alter (key x) (upd x)) xs empty"
  have inv: "invar ?m" by (rule invar_fold [OF invar_empty])
  have "k \<in> fst ` set (entries ?m) \<longleftrightarrow> k \<in> key ` set xs" for k
  proof -
    have "k \<in> fst ` set (entries ?m) \<longleftrightarrow> (\<exists>v. lookup ?m k = Some v)"
      using entries_lookup [OF inv] by force
    also have "\<dots> \<longleftrightarrow> filter (\<lambda>x. key x = k) xs \<noteq> []"
      unfolding lookup_fold [OF invar_empty] fold_is_some by (simp add: lookup_empty)
    also have "\<dots> \<longleftrightarrow> k \<in> key ` set xs" by (auto simp: filter_empty_conv)
    finally show ?thesis .
  qed
  then show ?thesis by blast
qed

lemma entries_fold:
  "(k, v) \<in> set (entries (fold (\<lambda>x. alter (key x) (upd x)) xs empty)) \<longleftrightarrow>
     fold (\<lambda>x o'. Some (upd x o')) (filter (\<lambda>x. key x = k) xs) None = Some v"
  unfolding entries_lookup [OF invar_fold [OF invar_empty]] lookup_fold [OF invar_empty] lookup_empty
  by (rule refl)

lemma entries_fold_sorted:
  "sorted_wrt (<) (map fst (entries (fold (\<lambda>x. alter (key x) (upd x)) xs empty)))"
  by (rule entries_sorted [OF invar_fold [OF invar_empty]])

text \<open>A quantity that every element adds its weight to sums up to the sum of the weights.\<close>

lemma sum_entries:
  fixes w :: "'a \<Rightarrow> nat"
  assumes "\<And>x v. g (upd x v) = (case v of None \<Rightarrow> 0 | Some u \<Rightarrow> g u) + w x"
  shows "sum_list (map (\<lambda>e. g (snd e)) (entries (fold (\<lambda>x. alter (key x) (upd x)) xs empty)))
         = sum_list (map w xs)"
proof -
  let ?es = "entries (fold (\<lambda>x. alter (key x) (upd x)) xs empty)"
  have acc: "fold (\<lambda>x o'. Some (upd x o')) ys v0 = Some v \<Longrightarrow>
      g v = (case v0 of None \<Rightarrow> 0 | Some u \<Rightarrow> g u) + sum_list (map w ys)" for ys v0 v
    by (induction ys arbitrary: v0) (auto simp: assms add.assoc)
  have g: "g (snd e) = sum_list (map w (filter (\<lambda>x. key x = fst e) xs))" if "e \<in> set ?es" for e
    using that acc [of "filter (\<lambda>x. key x = fst e) xs" None "snd e"] entries_fold [of "fst e" "snd e" key upd xs]
    by simp
  have "distinct (map fst ?es)"
    using entries_fold_sorted [of key upd xs] by (simp add: strict_sorted_iff)
  moreover have "set (map fst ?es) = key ` set xs" using entry_keys_fold [of key upd xs] by simp
  ultimately have total: "sum_list (map (\<lambda>k. sum_list (map w (filter (\<lambda>x. key x = k) xs))) (map fst ?es))
      = sum_list (map w xs)"
    by (rule sum_by_key)
  have "map (\<lambda>e. g (snd e)) ?es
      = map (\<lambda>k. sum_list (map w (filter (\<lambda>x. key x = k) xs))) (map fst ?es)"
    using g by simp
  then show ?thesis by (simp only: total)
qed

end

section \<open>The model: association lists in key order\<close>

fun bt_alter :: "'k::linorder \<Rightarrow> ('v option \<Rightarrow> 'v) \<Rightarrow> ('k \<times> 'v) list \<Rightarrow> ('k \<times> 'v) list" where
  "bt_alter k f [] = [(k, f None)]"
| "bt_alter k f ((a, v) # m) =
     (if k < a then (k, f None) # (a, v) # m
      else if k = a then (a, f (Some v)) # m
      else (a, v) # bt_alter k f m)"

definition bt_invar :: "('k::linorder \<times> 'v) list \<Rightarrow> bool" where
  "bt_invar m = sorted_wrt (<) (map fst m)"

lemma keys_bt_alter: "fst ` set (bt_alter k f m) = insert k (fst ` set m)"
  by (induction k f m rule: bt_alter.induct) auto

lemma bt_invar_alter: "bt_invar m \<Longrightarrow> bt_invar (bt_alter k f m)"
proof (induction k f m rule: bt_alter.induct)
  case (1 k f)
  show ?case by (simp add: bt_invar_def)
next
  case (2 k f a v m)
  have "\<forall>x\<in>set (bt_alter k f m). x \<in> set m \<or> fst x = k \<or> fst x \<in> fst ` set m"
    using keys_bt_alter [of k f m] by blast
  with 2 show ?case
    by (fastforce simp: bt_invar_def)
qed

lemma bt_lookup_alter:
  "bt_invar m \<Longrightarrow> map_of (bt_alter k f m) k' = (if k' = k then Some (f (map_of m k)) else map_of m k')"
proof (induction k f m rule: bt_alter.induct)
  case (1 k f)
  show ?case by simp
next
  case (2 k f a v m)
  have none: "k < a \<Longrightarrow> map_of m k = None"
    using "2.prems" by (force simp: bt_invar_def map_of_eq_None_iff)
  show ?case
    using 2 none by (auto simp: bt_invar_def)
qed

lemma bt_entries: "bt_invar m \<Longrightarrow> (k, v) \<in> set m \<longleftrightarrow> map_of m k = Some v"
  by (auto simp: bt_invar_def strict_sorted_iff dest: map_of_SomeD intro: map_of_is_SomeI)

interpretation btree: ordered_map "[]" bt_alter map_of "\<lambda>m. m" bt_invar
  by unfold_locales
    (simp_all add: bt_lookup_alter bt_invar_alter bt_entries, simp_all add: bt_invar_def)

end
