(* ===== verification/Filesystem.thy ===== *)
theory Filesystem
  imports Prelude "HOL-Library.Char_ord" "HOL-Library.List_Lexorder"
begin

text \<open>
  The part of the file system the analysers read: a tree of directories and files below the
  project root. A file holds what \<open>read_to_string\<close> returns, \<open>None\<close> when it fails; a directory
  that cannot be read behaves as an empty one in every caller. Entries come in the order the
  operating system lists them. There are no symbolic links in the model.

  Paths are lists of components below the root; the two tree walkers of the tool
  (\<open>codeintel/walker.rs\<close> and the helpers of \<open>analyzers/arch_guard.rs\<close>) are instances of one
  recursion.
\<close>

section \<open>Trees and lookups\<close>

datatype fs_node = FFile "string option" | FDir "(string \<times> fs_node) list"

type_synonym path = "string list"

fun lookup_path :: "fs_node \<Rightarrow> path \<Rightarrow> fs_node option" where
  "lookup_path n [] = Some n"
| "lookup_path (FFile c) (p # ps) = None"
| "lookup_path (FDir es) (p # ps) =
     (case map_of es p of None \<Rightarrow> None | Some n \<Rightarrow> lookup_path n ps)"

definition path_exists :: "fs_node \<Rightarrow> path \<Rightarrow> bool" where
  "path_exists root p = (lookup_path root p \<noteq> None)"

definition path_is_dir :: "fs_node \<Rightarrow> path \<Rightarrow> bool" where
  "path_is_dir root p = (case lookup_path root p of Some (FDir _) \<Rightarrow> True | _ \<Rightarrow> False)"

definition path_is_file :: "fs_node \<Rightarrow> path \<Rightarrow> bool" where
  "path_is_file root p = (case lookup_path root p of Some (FFile _) \<Rightarrow> True | _ \<Rightarrow> False)"

definition dir_entries :: "fs_node \<Rightarrow> path \<Rightarrow> (string \<times> fs_node) list" where
  "dir_entries root p = (case lookup_path root p of Some (FDir es) \<Rightarrow> es | _ \<Rightarrow> [])"

text \<open>\<open>Path::extension\<close>: what follows the last dot, unless that dot is the first byte.\<close>

definition extension :: "string \<Rightarrow> string option" where
  "extension name =
     (if name = ''..'' then None
      else (case rfind_char name (CHR ''.'') of
              None \<Rightarrow> None
            | Some 0 \<Rightarrow> None
            | Some k \<Rightarrow> Some (drop (Suc k) name)))"

definition path_string :: "path \<Rightarrow> string" where
  "path_string p = join ''/'' p"

section \<open>Walking a tree\<close>

text \<open>
  Files below a directory, with their contents, in the order of the traversal: \<open>skip\<close> names
  the directories that are not entered, \<open>keep\<close> the files that are collected.
\<close>

fun walk_tree :: "(string \<Rightarrow> bool) \<Rightarrow> (string \<Rightarrow> bool) \<Rightarrow> path \<Rightarrow> (string \<times> fs_node) list
                  \<Rightarrow> (path \<times> string option) list" where
  "walk_tree skip keep pre [] = []"
| "walk_tree skip keep pre ((nm, FDir es) # rest) =
     (if skip nm then [] else walk_tree skip keep (pre @ [nm]) es) @ walk_tree skip keep pre rest"
| "walk_tree skip keep pre ((nm, FFile c) # rest) =
     (if keep nm then [(pre @ [nm], c)] else []) @ walk_tree skip keep pre rest"

definition skip_dirs :: "string list" where
  "skip_dirs = [''vendor'', ''testdata'', ''node_modules'', ''.git'']"

definition walker_skip :: "string \<Rightarrow> bool" where
  "walker_skip nm = (starts_with nm ''.'' \<or> List.member skip_dirs nm)"

definition is_go_name :: "string \<Rightarrow> bool" where
  "is_go_name nm = (extension nm = Some ''go'')"

text \<open>\<open>walker::walk_go_files\<close>: the collected paths, sorted component by component.\<close>

definition walk_go_files :: "fs_node \<Rightarrow> (path \<times> string option) list" where
  "walk_go_files root =
     sort_key fst (walk_tree walker_skip is_go_name [] (dir_entries root []))"

section \<open>What the walk collects\<close>

text \<open>
  \<open>reach skip es p c\<close>: the path \<open>p\<close> below the directory with entries \<open>es\<close> leads to a file
  with contents \<open>c\<close> through directories none of which is skipped.
\<close>

inductive reach :: "(string \<Rightarrow> bool) \<Rightarrow> (string \<times> fs_node) list \<Rightarrow> path \<Rightarrow> string option \<Rightarrow> bool"
  for skip where
  reach_file: "(nm, FFile c) \<in> set es \<Longrightarrow> reach skip es [nm] c"
| reach_dir: "(nm, FDir es') \<in> set es \<Longrightarrow> \<not> skip nm \<Longrightarrow> reach skip es' p c \<Longrightarrow>
                reach skip es (nm # p) c"

inductive_cases reach_NilE: "reach skip es [] c"
inductive_cases reach_ConsE: "reach skip es (nm # p) c"

lemma reach_nonempty: "reach skip es p c \<Longrightarrow> p \<noteq> []"
  by (induction rule: reach.induct) auto

lemma reach_mono: "reach skip es p c \<Longrightarrow> set es \<subseteq> set es' \<Longrightarrow> reach skip es' p c"
  by (erule reach.cases) (auto intro: reach.intros)

lemma walk_tree_sound:
  "(p, c) \<in> set (walk_tree skip keep pre es) \<Longrightarrow>
     \<exists>q. p = pre @ q \<and> reach skip es q c \<and> keep (last q)"
proof (induction skip keep pre es rule: walk_tree.induct)
  case (1 skip keep pre)
  then show ?case by simp
next
  case (2 skip keep pre nm es rest)
  from "2.prems" consider "\<not> skip nm" "(p, c) \<in> set (walk_tree skip keep (pre @ [nm]) es)"
    | "(p, c) \<in> set (walk_tree skip keep pre rest)"
    by (auto split: if_splits)
  then show ?case
  proof cases
    case 1
    with "2.IH"(1) obtain q where q: "p = (pre @ [nm]) @ q" "reach skip es q c" "keep (last q)"
      by blast
    then have "reach skip ((nm, FDir es) # rest) (nm # q) c"
      using 1(1) by (auto intro: reach_dir)
    with q reach_nonempty [OF q(2)] show ?thesis
      by (intro exI [of _ "nm # q"]) simp
  next
    case 2
    from "2.IH"(2) [OF 2] obtain q where q: "p = pre @ q" "reach skip rest q c" "keep (last q)"
      by blast
    from reach_mono [OF q(2), of "(nm, FDir es) # rest"] have "reach skip ((nm, FDir es) # rest) q c"
      by auto
    with q show ?thesis by blast
  qed
next
  case (3 skip keep pre nm c' rest)
  from "3.prems" consider "keep nm" "p = pre @ [nm]" "c = c'"
    | "(p, c) \<in> set (walk_tree skip keep pre rest)"
    by (auto split: if_splits)
  then show ?case
  proof cases
    case 1
    then show ?thesis by (intro exI [of _ "[nm]"]) (auto intro: reach_file)
  next
    case 2
    from "3.IH" [OF 2] obtain q where q: "p = pre @ q" "reach skip rest q c" "keep (last q)"
      by blast
    from reach_mono [OF q(2), of "(nm, FFile c') # rest"] have "reach skip ((nm, FFile c') # rest) q c"
      by auto
    with q show ?thesis by blast
  qed
qed

lemma walk_tree_file:
  "(nm, FFile c) \<in> set es \<Longrightarrow> keep nm \<Longrightarrow> (pre @ [nm], c) \<in> set (walk_tree skip keep pre es)"
  by (induction skip keep pre es rule: walk_tree.induct) auto

lemma walk_tree_dir:
  "(nm, FDir es') \<in> set es \<Longrightarrow> \<not> skip nm \<Longrightarrow>
     set (walk_tree skip keep (pre @ [nm]) es') \<subseteq> set (walk_tree skip keep pre es)"
  by (induction skip keep pre es rule: walk_tree.induct) auto

lemma walk_tree_complete:
  "reach skip es q c \<Longrightarrow> keep (last q) \<Longrightarrow> (pre @ q, c) \<in> set (walk_tree skip keep pre es)"
proof (induction arbitrary: pre rule: reach.induct)
  case (reach_file nm c es)
  then show ?case by (simp add: walk_tree_file)
next
  case (reach_dir nm es' es p c)
  then have "keep (last p)" using reach_nonempty by force
  with reach_dir.IH have "((pre @ [nm]) @ p, c) \<in> set (walk_tree skip keep (pre @ [nm]) es')"
    by blast
  with walk_tree_dir [where skip = skip and keep = keep and pre = pre, OF reach_dir.hyps(1)]
    reach_dir.hyps(2)
  show ?case by auto
qed

lemma walk_tree_set:
  "(p, c) \<in> set (walk_tree skip keep [] es) \<longleftrightarrow> reach skip es p c \<and> keep (last p)"
  using walk_tree_sound [of p c skip keep "[]" es] walk_tree_complete [of skip es p c keep "[]"]
  by auto

text \<open>
  C35 (walker). The walker returns exactly the \<open>.go\<close> files that a path through directories
  outside the skip list and not hidden leads to, and returns their paths in sorted order.
\<close>

theorem walk_go_files_correct:
  "sorted (map fst (walk_go_files root))
   \<and> set (walk_go_files root) =
       {(p, c). reach walker_skip (dir_entries root []) p c \<and> extension (last p) = Some ''go''}"
  by (auto simp: walk_go_files_def walk_tree_set is_go_name_def)

end
