(* ===== verification/GoIndex.thy ===== *)
theory GoIndex
  imports GoParserProps OrderedMap Filesystem "HOL-Library.Product_Lexorder" "HOL-Library.Multiset"
begin

text \<open>
  The structural index (\<open>codeintel/index.rs\<close>): the Go files of a project are parsed,
  aggregated into packages keyed by directory and package name, and summarised. The queries
  of \<open>ProjectIndex\<close> are list functions over the parsed files.
\<close>

definition file_dir :: "string \<Rightarrow> string" where
  "file_dir path = (case rfind_char path (CHR ''/'') of Some pos \<Rightarrow> take pos path | None \<Rightarrow> ''.'')"

section \<open>Packages\<close>

definition group_key :: "go_file \<Rightarrow> string \<times> string" where
  "group_key f = (file_dir (gf_path f), gf_package f)"

definition push_file :: "go_file \<Rightarrow> go_file list option \<Rightarrow> go_file list" where
  "push_file f o1 = (case o1 of None \<Rightarrow> [] | Some fs \<Rightarrow> fs) @ [f]"

definition group_files :: "go_file list \<Rightarrow> ((string \<times> string) \<times> go_file list) list" where
  "group_files files = fold (\<lambda>f. bt_alter (group_key f) (push_file f)) files []"

definition keep_first :: "go_import \<Rightarrow> go_import option \<Rightarrow> go_import" where
  "keep_first imp o1 = (case o1 of None \<Rightarrow> imp | Some i \<Rightarrow> i)"

definition import_set :: "go_import list \<Rightarrow> (string \<times> go_import) list" where
  "import_set imps = fold (\<lambda>imp. bt_alter (im_path imp) (keep_first imp)) imps []"

definition mk_package :: "(string \<times> string) \<times> go_file list \<Rightarrow> go_package" where
  "mk_package g =
     (let ((dir, name), files) = g in
      \<lparr>pk_name = name, pk_dir = dir,
       pk_files = map gf_path files,
       pk_imports = map snd (import_set (concat (map gf_imports files))),
       pk_types = concat (map gf_types files),
       pk_functions = concat (map gf_functions (filter (\<lambda>f. \<not> gf_is_test f) files)),
       pk_constants = concat (map gf_constants files)\<rparr>)"

definition aggregate_packages :: "go_file list \<Rightarrow> go_package list" where
  "aggregate_packages files = map mk_package (group_files files)"

section \<open>Statistics\<close>

fun count_type :: "go_type \<Rightarrow> index_stats \<Rightarrow> index_stats" where
  "count_type t s =
     (let s1 = (case ty_kind t of
                  StructKind _ \<Rightarrow> s\<lparr>is_structs := is_structs s + 1\<rparr>
                | InterfaceKind _ _ \<Rightarrow> s\<lparr>is_interfaces := is_interfaces s + 1\<rparr>
                | AliasKind _ \<Rightarrow> s\<lparr>is_type_aliases := is_type_aliases s + 1\<rparr>)
      in if ty_visibility t = Exported
         then s1\<lparr>is_exported_types := is_exported_types s1 + 1\<rparr> else s1)"

definition count_func :: "go_func \<Rightarrow> index_stats \<Rightarrow> index_stats" where
  "count_func f s =
     (if fn_visibility f = Exported
      then s\<lparr>is_exported_functions := is_exported_functions s + 1\<rparr> else s)"

definition count_file :: "go_file \<Rightarrow> index_stats \<Rightarrow> index_stats" where
  "count_file f s =
     (let s1 = s\<lparr>is_total_types := is_total_types s + length (gf_types f),
                 is_total_functions := is_total_functions s + length (gf_functions f),
                 is_total_constants := is_total_constants s + length (gf_constants f),
                 is_total_imports := is_total_imports s + length (gf_imports f),
                 is_total_lines := is_total_lines s + gf_line_count f\<rparr>;
          s2 = (if gf_is_test f then s1\<lparr>is_test_files := is_test_files s1 + 1\<rparr> else s1);
          s3 = fold count_type (gf_types f) s2
      in fold count_func (gf_functions f) s3)"

definition compute_stats :: "go_file list \<Rightarrow> go_package list \<Rightarrow> index_stats" where
  "compute_stats files packages =
     fold count_file files
       \<lparr>is_total_files = length files, is_total_packages = length packages,
        is_total_types = 0, is_total_functions = 0, is_total_constants = 0,
        is_total_imports = 0, is_total_lines = 0, is_structs = 0, is_interfaces = 0,
        is_type_aliases = 0, is_exported_types = 0, is_exported_functions = 0,
        is_test_files = 0\<rparr>"

section \<open>Building the index\<close>

definition parse_all :: "(path \<times> string option) list \<Rightarrow> go_file list" where
  "parse_all fs =
     concat (map (\<lambda>(p, content).
       case content of Some c \<Rightarrow> [parse_file (path_string p) c] | None \<Rightarrow> []) fs)"

definition build_index :: "fs_node \<Rightarrow> project_index" where
  "build_index root =
     (let go_files = parse_all (walk_go_files root);
          packages = aggregate_packages go_files
      in \<lparr>px_files = go_files, px_packages = packages,
          px_stats = compute_stats go_files packages\<rparr>)"

section \<open>Queries\<close>

definition find_type :: "project_index \<Rightarrow> string \<Rightarrow> go_type list" where
  "find_type ix name = filter (\<lambda>t. ty_name t = name) (concat (map gf_types (px_files ix)))"

definition find_func :: "project_index \<Rightarrow> string \<Rightarrow> go_func list" where
  "find_func ix name = filter (\<lambda>f. fn_name f = name) (concat (map gf_functions (px_files ix)))"

definition methods_of :: "project_index \<Rightarrow> string \<Rightarrow> go_func list" where
  "methods_of ix type_name =
     filter (\<lambda>f. case fn_receiver f of Some r \<Rightarrow> rc_type_name r = type_name | None \<Rightarrow> False)
       (concat (map gf_functions (px_files ix)))"

definition find_package :: "project_index \<Rightarrow> string \<Rightarrow> go_package option" where
  "find_package ix dir = find (\<lambda>p. pk_dir p = dir) (px_packages ix)"

definition is_interface :: "go_type \<Rightarrow> bool" where
  "is_interface t = (case ty_kind t of InterfaceKind _ _ \<Rightarrow> True | _ \<Rightarrow> False)"

definition is_struct :: "go_type \<Rightarrow> bool" where
  "is_struct t = (case ty_kind t of StructKind _ \<Rightarrow> True | _ \<Rightarrow> False)"

definition is_alias :: "go_type \<Rightarrow> bool" where
  "is_alias t = (case ty_kind t of AliasKind _ \<Rightarrow> True | _ \<Rightarrow> False)"

definition all_interfaces :: "project_index \<Rightarrow> go_type list" where
  "all_interfaces ix = filter is_interface (concat (map gf_types (px_files ix)))"

definition all_structs :: "project_index \<Rightarrow> go_type list" where
  "all_structs ix = filter is_struct (concat (map gf_types (px_files ix)))"

definition files_in_dir :: "project_index \<Rightarrow> string \<Rightarrow> go_file list" where
  "files_in_dir ix dir = filter (\<lambda>f. file_dir (gf_path f) = dir) (px_files ix)"

definition bump :: "go_import \<Rightarrow> nat option \<Rightarrow> nat" where
  "bump imp o1 = (case o1 of None \<Rightarrow> 0 | Some n \<Rightarrow> n) + 1"

definition import_frequency :: "project_index \<Rightarrow> (string \<times> nat) list" where
  "import_frequency ix =
     sort_key (\<lambda>p. - int (snd p))
       (fold (\<lambda>imp. bt_alter (im_path imp) (bump imp)) (concat (map gf_imports (px_files ix))) [])"

definition constants_of_type :: "project_index \<Rightarrow> string \<Rightarrow> go_const list" where
  "constants_of_type ix type_name =
     filter (\<lambda>c. co_type_hint c = Some type_name) (concat (map gf_constants (px_files ix)))"

section \<open>Correctness of the grouping\<close>

lemma fold_push:
  "fold (\<lambda>f o'. Some (push_file f o')) fs o1 =
     (if fs = [] then o1 else Some ((case o1 of None \<Rightarrow> [] | Some gs \<Rightarrow> gs) @ fs))"
  by (induction fs arbitrary: o1) (auto simp: push_file_def)

lemma group_files_entry:
  "(k, fs) \<in> set (group_files files) \<longleftrightarrow> fs \<noteq> [] \<and> fs = filter (\<lambda>f. group_key f = k) files"
  unfolding group_files_def btree.entries_fold fold_push by auto

lemma group_files_sorted: "sorted_wrt (<) (map fst (group_files files))"
  unfolding group_files_def by (rule btree.entries_fold_sorted)

lemma group_files_keys: "fst ` set (group_files files) = group_key ` set files"
  unfolding group_files_def by (rule btree.entry_keys_fold)

lemma keep_first_simps [simp]: "keep_first x None = x" "keep_first x (Some i) = i"
  by (simp_all add: keep_first_def)

lemma fold_keep_first: "fold (\<lambda>x o'. Some (keep_first x o')) xs (Some i) = Some i"
  by (induction xs) simp_all

lemma import_set_sorted: "sorted_wrt (<) (map fst (import_set imps))"
  unfolding import_set_def by (rule btree.entries_fold_sorted)

lemma import_set_entry:
  "(k, i) \<in> set (import_set imps) \<longleftrightarrow> find (\<lambda>x. im_path x = k) imps = Some i"
proof -
  have "fold (\<lambda>x o'. Some (keep_first x o')) (filter (\<lambda>x. im_path x = k) imps) None
        = find (\<lambda>x. im_path x = k) imps"
    by (induction imps) (auto simp: fold_keep_first)
  then show ?thesis unfolding import_set_def btree.entries_fold by simp
qed

lemma import_set_keys: "fst ` set (import_set imps) = im_path ` set imps"
  unfolding import_set_def by (rule btree.entry_keys_fold)

lemma import_set_paths: "map im_path (map snd (import_set imps)) = map fst (import_set imps)"
proof -
  have "im_path (snd e) = fst e" if "e \<in> set (import_set imps)" for e
    using that import_set_entry [of "fst e" "snd e" imps] by (auto simp: find_Some_iff)
  then show ?thesis by simp
qed

lemma mk_package_simps [simp]:
  "pk_name (mk_package g) = snd (fst g)" "pk_dir (mk_package g) = fst (fst g)"
  "pk_files (mk_package g) = map gf_path (snd g)"
  "pk_imports (mk_package g) = map snd (import_set (concat (map gf_imports (snd g))))"
  "pk_types (mk_package g) = concat (map gf_types (snd g))"
  "pk_functions (mk_package g) = concat (map gf_functions (filter (\<lambda>f. \<not> gf_is_test f) (snd g)))"
  by (simp_all add: mk_package_def Let_def split: prod.splits)

definition package_key :: "go_package \<Rightarrow> string \<times> string" where
  "package_key p = (pk_dir p, pk_name p)"

definition files_of_key :: "go_file list \<Rightarrow> string \<times> string \<Rightarrow> go_file list" where
  "files_of_key files k = filter (\<lambda>f. group_key f = k) files"

lemma package_keys: "map package_key (aggregate_packages files) = map fst (group_files files)"
  by (simp add: aggregate_packages_def package_key_def)

text \<open>
  C33 (packages). The packages are keyed by directory and package name in strictly increasing
  order, one for every key of a file; each holds exactly the files of its key in their
  order, all their types, the functions of their non-test files, and each import path of
  those files once, in increasing order.
\<close>

theorem aggregate_packages_correct:
  "sorted_wrt (<) (map package_key (aggregate_packages files))
   \<and> package_key ` set (aggregate_packages files) = group_key ` set files
   \<and> (\<forall>p\<in>set (aggregate_packages files).
        (let fs = files_of_key files (package_key p) in
         pk_files p = map gf_path fs
         \<and> pk_types p = concat (map gf_types fs)
         \<and> pk_functions p = concat (map gf_functions (filter (\<lambda>f. \<not> gf_is_test f) fs))
         \<and> sorted_wrt (<) (map im_path (pk_imports p))
         \<and> im_path ` set (pk_imports p) = im_path ` set (concat (map gf_imports fs))
         \<and> set (pk_imports p) \<subseteq> set (concat (map gf_imports fs))))"
proof (intro conjI ballI)
  show "sorted_wrt (<) (map package_key (aggregate_packages files))"
    unfolding package_keys by (rule group_files_sorted)
  show "package_key ` set (aggregate_packages files) = group_key ` set files"
    unfolding group_files_keys [symmetric] by (metis list.set_map package_keys)
next
  fix p assume "p \<in> set (aggregate_packages files)"
  then obtain k fs where g: "(k, fs) \<in> set (group_files files)" and p: "p = mk_package (k, fs)"
    by (auto simp: aggregate_packages_def)
  then have fs: "files_of_key files (package_key p) = fs"
    by (simp add: group_files_entry files_of_key_def package_key_def)
  let ?imps = "concat (map gf_imports fs)"
  have "i \<in> set ?imps" if "(k, i) \<in> set (import_set ?imps)" for k i
    using that unfolding import_set_entry find_Some_iff by (metis nth_mem)
  then have "set (map snd (import_set ?imps)) \<subseteq> set ?imps" by auto
  moreover have "im_path ` set (map snd (import_set ?imps)) = im_path ` set ?imps"
    using import_set_paths [of ?imps] import_set_keys [of ?imps] by (metis list.set_map)
  ultimately show "let fs = files_of_key files (package_key p) in
         pk_files p = map gf_path fs
         \<and> pk_types p = concat (map gf_types fs)
         \<and> pk_functions p = concat (map gf_functions (filter (\<lambda>f. \<not> gf_is_test f) fs))
         \<and> sorted_wrt (<) (map im_path (pk_imports p))
         \<and> im_path ` set (pk_imports p) = im_path ` set (concat (map gf_imports fs))
         \<and> set (pk_imports p) \<subseteq> set (concat (map gf_imports fs))"
    unfolding fs [unfolded p] Let_def p mk_package_simps snd_conv import_set_paths
    by (simp add: import_set_sorted)
qed

definition two_files :: "go_file list" where
  "two_files =
     map (\<lambda>p. \<lparr>gf_path = p, gf_package = ''rules'', gf_imports = [mk_import p 3 None ''fmt''],
              gf_types = [], gf_functions = [], gf_constants = [], gf_variables = [],
              gf_is_test = False, gf_line_count = 5\<rparr>)
       [''internal/domain/rules/b.go'', ''internal/domain/rules/a.go'']"

lemma two_files_packages:
  "map (\<lambda>p. (package_key p, pk_files p, map im_path (pk_imports p))) (aggregate_packages two_files)
   = [((''internal/domain/rules'', ''rules''),
       [''internal/domain/rules/b.go'', ''internal/domain/rules/a.go''], [''fmt''])]"
  by code_simp

theorem aggregate_packages_correct_witness:
  "\<exists>p\<in>set (aggregate_packages two_files).
     package_key p = (''internal/domain/rules'', ''rules'')
     \<and> pk_files p = map gf_path (files_of_key two_files (package_key p))
     \<and> im_path ` set (pk_imports p) = {''fmt''}"
proof -
  obtain p where p: "p \<in> set (aggregate_packages two_files)"
    "package_key p = (''internal/domain/rules'', ''rules'')"
    using two_files_packages by auto
  have all: "\<forall>p\<in>set (aggregate_packages two_files).
     pk_files p = map gf_path (files_of_key two_files (package_key p))
     \<and> im_path ` set (pk_imports p)
       = im_path ` set (concat (map gf_imports (files_of_key two_files (package_key p))))"
    using aggregate_packages_correct [of two_files] by (simp add: Let_def)
  have "map im_path (concat (map gf_imports (files_of_key two_files (''internal/domain/rules'', ''rules''))))
        = [''fmt'', ''fmt'']"
    by code_simp
  then have "im_path ` set (concat (map gf_imports (files_of_key two_files (package_key p)))) = {''fmt''}"
    unfolding p(2) set_map [symmetric] by simp
  with bspec [OF all p(1)] p show ?thesis by metis
qed

section \<open>Correctness of the statistics\<close>

lemma count_types_fold:
  "fold count_type ts s = s\<lparr>
     is_structs := is_structs s + length (filter is_struct ts),
     is_interfaces := is_interfaces s + length (filter is_interface ts),
     is_type_aliases := is_type_aliases s + length (filter is_alias ts),
     is_exported_types := is_exported_types s + length (filter (\<lambda>t. ty_visibility t = Exported) ts)\<rparr>"
proof (induction ts arbitrary: s)
  case (Cons t ts)
  then show ?case
    by (cases "ty_kind t") (simp_all add: Let_def is_struct_def is_interface_def is_alias_def)
qed simp

lemma count_funcs_fold:
  "fold count_func fs s = s\<lparr>is_exported_functions :=
     is_exported_functions s + length (filter (\<lambda>f. fn_visibility f = Exported) fs)\<rparr>"
  by (induction fs arbitrary: s) (simp_all add: count_func_def)

lemma type_kinds_total:
  "length (filter is_struct ts) + length (filter is_interface ts) + length (filter is_alias ts) = length ts"
proof (induction ts)
  case (Cons t ts)
  then show ?case
    by (cases "ty_kind t") (simp_all add: is_struct_def is_interface_def is_alias_def)
qed simp

lemma count_files_fold:
  defines "tys \<equiv> \<lambda>fs. concat (map gf_types fs)" and "fns \<equiv> \<lambda>fs. concat (map gf_functions fs)"
  shows "fold count_file fs s = s\<lparr>
     is_total_types := is_total_types s + length (tys fs),
     is_total_functions := is_total_functions s + length (fns fs),
     is_total_constants := is_total_constants s + length (concat (map gf_constants fs)),
     is_total_imports := is_total_imports s + length (concat (map gf_imports fs)),
     is_total_lines := is_total_lines s + sum_list (map gf_line_count fs),
     is_structs := is_structs s + length (filter is_struct (tys fs)),
     is_interfaces := is_interfaces s + length (filter is_interface (tys fs)),
     is_type_aliases := is_type_aliases s + length (filter is_alias (tys fs)),
     is_exported_types := is_exported_types s + length (filter (\<lambda>t. ty_visibility t = Exported) (tys fs)),
     is_exported_functions := is_exported_functions s
       + length (filter (\<lambda>f. fn_visibility f = Exported) (fns fs)),
     is_test_files := is_test_files s + length (filter gf_is_test fs)\<rparr>"
  unfolding tys_def fns_def
  by (induction fs arbitrary: s)
     (simp_all add: count_file_def Let_def count_types_fold count_funcs_fold add.assoc)

text \<open>
  Property (statistics). The summary of an index counts what its queries list: every type is a
  struct, an interface or an alias; the struct and interface totals are the lengths of
  \<open>all_structs\<close> and \<open>all_interfaces\<close>; the other totals are the numbers of declarations,
  imports, lines, exported declarations and test files over all files.
\<close>

theorem index_stats_correct:
  "(let ix = build_index root; s = px_stats ix; fs = px_files ix in
    is_total_types s = is_structs s + is_interfaces s + is_type_aliases s
    \<and> is_structs s = length (all_structs ix) \<and> is_interfaces s = length (all_interfaces ix)
    \<and> is_total_files s = length fs \<and> is_total_packages s = length (px_packages ix)
    \<and> is_total_types s = length (concat (map gf_types fs))
    \<and> is_total_functions s = length (concat (map gf_functions fs))
    \<and> is_total_imports s = length (concat (map gf_imports fs))
    \<and> is_total_lines s = sum_list (map gf_line_count fs)
    \<and> is_exported_functions s
        = length (filter (\<lambda>f. fn_visibility f = Exported) (concat (map gf_functions fs)))
    \<and> is_test_files s = length (filter gf_is_test fs))"
  by (simp add: build_index_def Let_def compute_stats_def count_files_fold all_structs_def
      all_interfaces_def type_kinds_total)

section \<open>Correctness of the import frequencies\<close>

lemma fold_bump:
  "fold (\<lambda>x o'. Some (bump x o')) xs o1 =
     (if xs = [] then o1 else Some ((case o1 of None \<Rightarrow> 0 | Some n \<Rightarrow> n) + length xs))"
  by (induction xs arbitrary: o1) (auto simp: bump_def)

lemma sum_counts:
  assumes "distinct ks" "set ks = key ` set xs"
  shows "sum_list (map (\<lambda>k. length (filter (\<lambda>x. key x = k) xs)) ks) = length xs"
  using assms
proof (induction ks arbitrary: xs)
  case Nil
  then show ?case by simp
next
  case (Cons k ks)
  let ?ys = "filter (\<lambda>x. key x \<noteq> k) xs"
  have "set ks = key ` set ?ys" using Cons.prems by (auto simp: image_iff)
  then have "sum_list (map (\<lambda>k'. length (filter (\<lambda>x. key x = k') ?ys)) ks) = length ?ys"
    using Cons.IH [of ?ys] Cons.prems(1) by (simp only: distinct.simps simp_thms)
  moreover have eq: "map (\<lambda>k'. length (filter (\<lambda>x. key x = k') ?ys)) ks
      = map (\<lambda>k'. length (filter (\<lambda>x. key x = k') xs)) ks"
    using Cons.prems(1) by (auto simp: filter_filter intro!: arg_cong [of _ _ length] filter_cong)
  ultimately have "sum_list (map (\<lambda>k'. length (filter (\<lambda>x. key x = k') xs)) ks) = length ?ys"
    by (simp only: eq)
  then show ?case by (simp add: sum_length_filter_compl)
qed

text \<open>
  Property (import frequencies). Every imported path is listed once with the number of times it is
  imported, the counts are in descending order, and they add up to the number of imports.
\<close>

theorem import_frequency_correct:
  "sorted (map (\<lambda>p. - int (snd p)) (import_frequency ix))
   \<and> distinct (map fst (import_frequency ix))
   \<and> set (import_frequency ix) =
       (\<lambda>k. (k, length (filter (\<lambda>i. im_path i = k) (concat (map gf_imports (px_files ix))))))
         ` im_path ` set (concat (map gf_imports (px_files ix)))
   \<and> sum_list (map snd (import_frequency ix)) = length (concat (map gf_imports (px_files ix)))"
proof -
  define imps where "imps = concat (map gf_imports (px_files ix))"
  define m where "m = fold (\<lambda>imp. bt_alter (im_path imp) (bump imp)) imps []"
  define cnt where "cnt = (\<lambda>k. length (filter (\<lambda>i. im_path i = k) imps))"
  have fr: "import_frequency ix = sort_key (\<lambda>p. - int (snd p)) m"
    by (simp add: import_frequency_def m_def imps_def)
  have entry: "(k, n) \<in> set m \<longleftrightarrow> n \<noteq> 0 \<and> n = cnt k" for k n
    unfolding m_def btree.entries_fold fold_bump cnt_def by auto
  have keys: "fst ` set m = im_path ` set imps"
    unfolding m_def by (rule btree.entry_keys_fold)
  have dist: "distinct (map fst m)"
    using btree.entries_fold_sorted [of im_path bump imps] by (simp add: m_def strict_sorted_iff)
  have snd: "snd e = cnt (fst e)" if "e \<in> set m" for e
    using entry [of "fst e" "snd e"] that by simp
  have set_m: "set m = (\<lambda>k. (k, cnt k)) ` im_path ` set imps"
    unfolding keys [symmetric] image_image using snd by (force simp: image_iff)
  have cnts: "map snd m = map cnt (map fst m)" using snd by simp
  have "sum_list (map cnt (map fst m)) = length imps"
    unfolding cnt_def by (rule sum_counts) (simp_all add: dist keys)
  then have "sum_list (map snd m) = length imps" by (simp only: cnts)
  moreover have "sum_list (map snd (sort_key f m)) = sum_list (map snd m)"
    for f :: "string \<times> nat \<Rightarrow> int"
    by (metis mset_map mset_sort sum_mset_sum_list)
  moreover have "distinct (map fst (sort_key f m))" for f :: "string \<times> nat \<Rightarrow> int"
    using dist by (simp add: distinct_map)
  ultimately show ?thesis
    unfolding fr using set_m by (simp add: imps_def cnt_def)
qed

end
