(* ===== verification/ArchGuard.thy ===== *)
theory ArchGuard
  imports Gate GoIndex
begin

text \<open>
  The \<open>arch-guard\<close> analyser (\<open>analyzers/arch_guard.rs\<close>): the layer model of the Go code base
  and eleven rules over the structural index and the file tree. Each rule is a function from
  its input to a \<open>CheckResult\<close>; the nested loops that push findings are concatenations.

  The rule on imports between \<open>cmd/\<close> packages iterates over a \<open>HashSet\<close>, whose order the
  language leaves open: the order is a parameter, a function that lists a duplicate-free list
  in some order.
\<close>

section \<open>The layer model\<close>

definition layers :: "string list" where
  "layers = [''domain'', ''application'', ''adapters'', ''actors'', ''interfaces'']"

definition infra_prefixes :: "string list" where
  "infra_prefixes =
     [''github.com/nats-io'', ''github.com/segmentio/kafka'', ''github.com/anthdm/hollywood'',
      ''net/http'', ''database/sql'']"

definition infra_type_markers :: "string list" where
  "infra_type_markers =
     [''nats'', ''kafka'', ''hollywood'', ''jetstream'', ''http.Client'', ''http.Server'',
      ''http.Handler'', ''sql.DB'', ''sql.Tx'']"

fun position :: "'a \<Rightarrow> 'a list \<Rightarrow> nat option" where
  "position x [] = None"
| "position x (y # ys) = (if y = x then Some 0 else map_option Suc (position x ys))"

definition layer_index :: "string \<Rightarrow> nat option" where
  "layer_index segment = position segment layers"

definition extract_internal_layer :: "string \<Rightarrow> string option" where
  "extract_internal_layer import_path =
     (case split_on import_path ''internal/'' of
        _ # rest # _ \<Rightarrow> Some (split_first rest ''/'')
      | _ \<Rightarrow> None)"

definition is_allowed_dependency :: "nat \<Rightarrow> nat \<Rightarrow> bool" where
  "is_allowed_dependency from_layer to_layer =
     (if from_layer = to_layer then True
      else if from_layer = 0 then False
      else if from_layer = 1 then to_layer = 0
      else if from_layer = 2 then to_layer \<le> 1
      else if from_layer = 3 then to_layer \<le> 2
      else if from_layer = 4 then to_layer \<le> 1
      else False)"

definition file_layer :: "string \<Rightarrow> string option" where
  "file_layer file_path =
     (case strip_prefix file_path ''internal/'' of
        Some rest \<Rightarrow> Some (split_first rest ''/'')
      | None \<Rightarrow> None)"

definition type_expr_has_infra :: "string \<Rightarrow> string option" where
  "type_expr_has_infra expr = find (\<lambda>marker. contains expr marker) infra_type_markers"

definition type_expr_refs_adapter :: "string \<Rightarrow> bool" where
  "type_expr_refs_adapter expr =
     list_ex (\<lambda>p. contains expr p)
       [''nats.'', ''kafka.'', ''natsadapter.'', ''kafkaadapter.'', ''repository.'', ''repositories.'']"

section \<open>Helpers\<close>

definition at_line :: "string \<Rightarrow> nat \<Rightarrow> string" where
  "at_line path line = path @ '':'' @ show_nat line"

definition files_under :: "string \<Rightarrow> project_index \<Rightarrow> go_file list" where
  "files_under prefix ix =
     filter (\<lambda>f. starts_with (gf_path f) prefix \<and> \<not> gf_is_test f) (px_files ix)"

definition internal_files :: "project_index \<Rightarrow> go_file list" where
  "internal_files ix = files_under ''internal/'' ix"

definition file_name :: "string \<Rightarrow> string" where
  "file_name path = split_last path ''/''"

definition func_display_name :: "go_func \<Rightarrow> string" where
  "func_display_name f =
     (case fn_receiver f of
        Some r \<Rightarrow> ''('' @ (if rc_pointer r then ''*'' else []) @ rc_type_name r @ '').'' @ fn_name f
      | None \<Rightarrow> fn_name f)"

section \<open>Rules on imports\<close>

definition layer_dep_finding :: "string \<Rightarrow> string \<Rightarrow> nat \<Rightarrow> string \<Rightarrow> nat \<Rightarrow> nat \<Rightarrow> finding" where
  "layer_dep_finding path from_name from_idx to_name to_idx line =
     with_help
       (with_why
         (with_location
           (finding_error ''layer-dependency'' (from_name @ ''/ must not import '' @ to_name @ ''/''))
           (at_line path line))
         (''clean architecture: '' @ from_name @ '' (layer '' @ show_nat from_idx
          @ '') cannot depend on '' @ to_name @ '' (layer '' @ show_nat to_idx @ '')''))
       (''introduce a port interface in application/ports/ instead of importing ''
        @ to_name @ ''/ directly'')"

definition layer_dep_import :: "string \<Rightarrow> string \<Rightarrow> nat \<Rightarrow> go_import \<Rightarrow> finding list" where
  "layer_dep_import path from_name from_idx imp =
     (if im_kind imp \<noteq> Internal then []
      else (case extract_internal_layer (im_path imp) of
              None \<Rightarrow> []
            | Some to_name \<Rightarrow>
                (if to_name = ''shared'' then []
                 else (case layer_index to_name of
                         None \<Rightarrow> []
                       | Some to_idx \<Rightarrow>
                           (if is_allowed_dependency from_idx to_idx then []
                            else [layer_dep_finding path from_name from_idx to_name to_idx
                                    (loc_line (im_location imp))])))))"

definition layer_dep_file :: "go_file \<Rightarrow> finding list" where
  "layer_dep_file f =
     (case file_layer (gf_path f) of
        None \<Rightarrow> []
      | Some from_name \<Rightarrow>
          (case layer_index from_name of
             None \<Rightarrow> []
           | Some from_idx \<Rightarrow>
               concat (map (layer_dep_import (gf_path f) from_name from_idx) (gf_imports f))))"

definition check_layer_deps :: "project_index \<Rightarrow> check_result" where
  "check_layer_deps ix =
     from_findings ''layer-dependency-direction'' (concat (map layer_dep_file (internal_files ix)))"

definition check_domain_purity :: "project_index \<Rightarrow> check_result" where
  "check_domain_purity ix =
     (let domain_files = files_under ''internal/domain/'' ix in
      if domain_files = [] then check_skip ''domain-purity'' ''no domain files found''
      else from_findings ''domain-purity''
        (concat (map (\<lambda>f. concat (map (\<lambda>imp.
           map (\<lambda>_. with_help
                  (with_why
                    (with_location
                      (finding_error ''domain-purity''
                        (''domain imports infrastructure package: '' @ im_path imp))
                      (at_line (gf_path f) (loc_line (im_location imp))))
                    ''domain layer must be free of infrastructure dependencies to remain portable and testable'')
                  ''move infrastructure concerns to adapters/'')
             (filter (\<lambda>prefix. starts_with (im_path imp) prefix) infra_prefixes))
           (gf_imports f))) domain_files)))"

definition check_application_isolation :: "project_index \<Rightarrow> check_result" where
  "check_application_isolation ix =
     (let app_files = files_under ''internal/application/'' ix in
      if app_files = [] then check_skip ''application-isolation'' ''no application files found''
      else from_findings ''application-isolation''
        (concat (map (\<lambda>f. concat (map (\<lambda>imp.
           if im_kind imp \<noteq> Internal then []
           else (case extract_internal_layer (im_path imp) of
                   None \<Rightarrow> []
                 | Some layer \<Rightarrow>
                     (if layer = ''adapters'' \<or> layer = ''actors'' \<or> layer = ''interfaces''
                      then [with_help
                              (with_why
                                (with_location
                                  (finding_error ''application-isolation''
                                    (''application/ imports '' @ layer @ ''/''))
                                  (at_line (gf_path f) (loc_line (im_location imp))))
                                ''application layer must depend only on domain and ports, never on concrete implementations'')
                              (''define an interface in application/ports/ and implement it in '' @ layer @ ''/'')]
                      else []))) (gf_imports f))) app_files)))"

definition check_interfaces_isolation :: "project_index \<Rightarrow> check_result" where
  "check_interfaces_isolation ix =
     (let iface_files = files_under ''internal/interfaces/'' ix in
      if iface_files = [] then check_skip ''interfaces-isolation'' ''no interfaces files found''
      else from_findings ''interfaces-isolation''
        (concat (map (\<lambda>f. concat (map (\<lambda>imp.
           if im_kind imp \<noteq> Internal then []
           else (case extract_internal_layer (im_path imp) of
                   None \<Rightarrow> []
                 | Some layer \<Rightarrow>
                     (if layer = ''adapters'' \<or> layer = ''actors''
                      then [with_help
                              (with_why
                                (with_location
                                  (finding_error ''interfaces-isolation''
                                    (''interfaces/ imports '' @ layer @ ''/''))
                                  (at_line (gf_path f) (loc_line (im_location imp))))
                                ''HTTP handlers should depend on application use cases, not on infrastructure adapters or actor orchestration'')
                              ''inject dependencies via constructor; interfaces/ should only import application/ and shared/'']
                      else []))) (gf_imports f))) iface_files)))"

section \<open>Boundary rules\<close>

definition cmd_boundary_file :: "go_file \<Rightarrow> finding list" where
  "cmd_boundary_file f =
     concat (map (\<lambda>imp.
       if im_kind imp \<noteq> Internal then []
       else (case extract_internal_layer (im_path imp) of
               None \<Rightarrow> []
             | Some layer \<Rightarrow>
                 (if layer = ''domain''
                  then [with_help
                          (with_why
                            (with_location
                              (finding_warning ''cmd-boundary'' ''cmd/ imports domain/ directly'')
                              (at_line (gf_path f) (loc_line (im_location imp))))
                            ''cmd packages should orchestrate via application use cases, not reach into domain directly'')
                          ''access domain types through application layer contracts'']
                  else []))) (gf_imports f))
     @ (if length (gf_types f) > 5
        then [with_help
                (with_why
                  (finding_warning ''cmd-boundary''
                    (gf_path f @ '' defines '' @ show_nat (length (gf_types f)) @ '' types ''
                     @ em_dash @ '' cmd/ should only wire, not define models''))
                  ''business types in cmd/ bypass the layered architecture'')
                ''move types to internal/application/ or internal/domain/'']
        else [])"

definition check_cmd_boundary :: "project_index \<Rightarrow> check_result" where
  "check_cmd_boundary ix =
     (let cmd_files = files_under ''cmd/'' ix in
      if cmd_files = [] then check_skip ''cmd-boundary'' ''no cmd/ files found''
      else from_findings ''cmd-boundary'' (concat (map cmd_boundary_file cmd_files)))"

definition numbered_lines :: "string \<Rightarrow> (nat \<times> string) list" where
  "numbered_lines content = (let ls = str_lines content in zip [1..<Suc (length ls)] ls)"

definition walk_files_with_name :: "fs_node \<Rightarrow> string \<Rightarrow> string \<Rightarrow> (path \<times> string option) list" where
  "walk_files_with_name root dir name =
     walk_tree (\<lambda>_. False) (\<lambda>nm. nm = name) [dir] (dir_entries root [dir])"

definition walk_rust_files :: "fs_node \<Rightarrow> string \<Rightarrow> (path \<times> string option) list" where
  "walk_rust_files root dir =
     walk_tree (\<lambda>nm. nm = ''target'' \<or> starts_with nm ''.'') (\<lambda>nm. extension nm = Some ''rs'')
       [dir] (dir_entries root [dir])"

definition walk_go_files_guard :: "fs_node \<Rightarrow> string \<Rightarrow> (path \<times> string option) list" where
  "walk_go_files_guard root dir =
     walk_tree (\<lambda>nm. nm = ''vendor'' \<or> starts_with nm ''.'') (\<lambda>nm. extension nm = Some ''go'')
       [dir] (dir_entries root [dir])"

definition tooling_line :: "string \<Rightarrow> nat \<times> string \<Rightarrow> finding list" where
  "tooling_line rel il =
     (let trimmed = trim (snd il) in
      if starts_with trimmed ''//'' \<or> starts_with trimmed ''/*''
         \<or> starts_with trimmed [CHR 0x22] \<or> starts_with trimmed ''r#''
         \<or> starts_with trimmed (''r'' @ [CHR 0x22])
      then []
      else
        (let is_use_stmt = starts_with trimmed ''use '' \<and> contains trimmed ''quality_service'';
             is_mod_stmt = starts_with trimmed ''mod '' \<and> contains trimmed ''internal''
         in if is_use_stmt \<or> is_mod_stmt
            then [with_help
                    (with_why
                      (with_location
                        (finding_error ''tooling-boundary''
                          ''Rust source references Go internals as Rust modules'')
                        (at_line rel (fst il)))
                      ''Rust tooling must analyze Go source as text, not import it'')
                    ''use file scanning instead of module references'']
            else []))"

definition scan_contents :: "(string \<Rightarrow> nat \<times> string \<Rightarrow> finding list)
                             \<Rightarrow> (path \<times> string option) list \<Rightarrow> finding list" where
  "scan_contents line_rule files =
     concat (map (\<lambda>(p, content).
       case content of
         None \<Rightarrow> []
       | Some c \<Rightarrow> concat (map (line_rule (path_string p)) (numbered_lines c))) files)"

definition check_tooling_boundary :: "fs_node \<Rightarrow> check_result" where
  "check_tooling_boundary root =
     (if \<not> path_is_dir root [''tools''] then
        check_skip ''tooling-boundary'' ''tools/ directory not found''
      else from_findings ''tooling-boundary''
        (map (\<lambda>(p, _).
            with_help
              (with_why
                (finding_error ''tooling-boundary'' (''Go module found in tools/: '' @ path_string p))
                (''tools/ is the Rust tooling boundary '' @ em_dash @ '' Go modules here break separation''))
              ''move Go code to cmd/ or internal/'')
          (walk_files_with_name root ''tools'' ''go.mod'')
         @ scan_contents tooling_line (walk_rust_files root ''tools'')))"

definition cmd_of :: "string \<Rightarrow> string option" where
  "cmd_of path = map_option (\<lambda>rest. split_first rest ''/'') (strip_prefix path ''cmd/'')"

definition cmd_names_of :: "go_file list \<Rightarrow> string list" where
  "cmd_names_of cmd_files = remdups (List.map_filter (\<lambda>f. cmd_of (gf_path f)) cmd_files)"

definition cross_cmd_file :: "string list \<Rightarrow> go_file \<Rightarrow> finding list" where
  "cross_cmd_file cmd_names f =
     (case cmd_of (gf_path f) of
        None \<Rightarrow> []
      | Some own_cmd \<Rightarrow>
          concat (map (\<lambda>imp. concat (map (\<lambda>other_cmd.
            if other_cmd = own_cmd then []
            else if contains (im_path imp) (''cmd/'' @ other_cmd)
            then [with_help
                    (with_why
                      (with_location
                        (finding_error ''no-cross-cmd''
                          (''cmd/'' @ own_cmd @ '' imports cmd/'' @ other_cmd))
                        (at_line (gf_path f) (loc_line (im_location imp))))
                      ''each cmd/ binary must be independently deployable; cross-cmd imports create hidden coupling'')
                    ''extract shared logic to internal/application/ or internal/shared/'']
            else []) cmd_names)) (gf_imports f)))"

definition check_no_cross_cmd_imports :: "(string list \<Rightarrow> string list) \<Rightarrow> project_index \<Rightarrow> check_result" where
  "check_no_cross_cmd_imports hash_order ix =
     (let cmd_files = files_under ''cmd/'' ix in
      if cmd_files = [] then check_skip ''no-cross-cmd'' ''no cmd/ files found''
      else from_findings ''no-cross-cmd''
        (concat (map (cross_cmd_file (hash_order (cmd_names_of cmd_files))) cmd_files)))"

definition deploy_line :: "string \<Rightarrow> nat \<times> string \<Rightarrow> finding list" where
  "deploy_line rel il =
     (let trimmed = trim (snd il) in
      if starts_with trimmed ''//'' \<or> starts_with trimmed ''/*'' then []
      else if contains trimmed ''deploy/configs/'' \<or> contains trimmed ''deploy/compose/''
              \<or> contains trimmed ''deploy/docker/''
      then [with_help
              (with_why
                (with_location
                  (finding_warning ''deploy-boundary'' ''Go source hardcodes a deploy/ path'')
                  (at_line rel (fst il)))
                ''deploy paths should be injected via configuration, not hardcoded in Go source'')
              ''use settings/config to pass paths at runtime'']
      else [])"

definition check_deploy_boundary :: "fs_node \<Rightarrow> check_result" where
  "check_deploy_boundary root =
     (if \<not> path_is_dir root [''internal''] then
        check_skip ''deploy-boundary'' ''internal/ directory not found''
      else from_findings ''deploy-boundary''
        (scan_contents deploy_line (walk_go_files_guard root ''internal'')))"

section \<open>Semantic rules\<close>

definition port_method_findings :: "string \<Rightarrow> string \<Rightarrow> interface_method \<Rightarrow> finding list" where
  "port_method_findings path type_name m =
     (case type_expr_has_infra (mt_signature m) of
        None \<Rightarrow> []
      | Some marker \<Rightarrow>
          [with_help
             (with_why
               (with_location
                 (finding_error ''port-contract-leaks''
                   (''port interface '' @ type_name @ ''.'' @ mt_name m
                    @ '' signature references infrastructure type '' @ [CHR 0x27] @ marker @ [CHR 0x27]))
                 (at_line path (loc_line (mt_location m))))
               ''port interfaces define application-level contracts; infrastructure types in signatures couple the application layer to specific adapters, breaking substitutability'')
             ''use domain or application-level types in port signatures; map to infrastructure types inside the adapter implementation''])
     @ (if type_expr_refs_adapter (mt_signature m)
        then [with_help
                (with_why
                  (with_location
                    (finding_error ''port-contract-leaks''
                      (''port interface '' @ type_name @ ''.'' @ mt_name m
                       @ '' signature references adapter package''))
                    (at_line path (loc_line (mt_location m))))
                  ''adapter-qualified types in port signatures create compile-time coupling between application and adapter layers'')
                ''define return/parameter types in the application or domain layer'']
        else [])"

definition check_port_contract_leaks :: "project_index \<Rightarrow> check_result" where
  "check_port_contract_leaks ix =
     (let port_files = filter (\<lambda>f. contains (gf_path f) ''application/ports'' \<and> \<not> gf_is_test f)
                         (px_files ix) in
      if port_files = [] then
        check_skip ''port-contract-leaks'' ''no application/ports/ files found''
      else from_findings ''port-contract-leaks''
        (concat (map (\<lambda>f. concat (map (\<lambda>t.
           case ty_kind t of
             InterfaceKind methods _ \<Rightarrow>
               concat (map (port_method_findings (gf_path f) (ty_name t)) methods)
           | _ \<Rightarrow> []) (gf_types f))) port_files)))"

definition domain_field_findings :: "string \<Rightarrow> string \<Rightarrow> struct_field \<Rightarrow> finding list" where
  "domain_field_findings path type_name field =
     (case type_expr_has_infra (sf_type_expr field) of
        None \<Rightarrow> []
      | Some marker \<Rightarrow>
          [with_help
             (with_why
               (with_location
                 (finding_error ''domain-type-contamination''
                   (''domain struct '' @ type_name @ ''.'' @ sf_name field @ '' has infrastructure type ''
                    @ [CHR 0x27] @ marker @ [CHR 0x27] @ '' in field type '' @ [CHR 0x27]
                    @ sf_type_expr field @ [CHR 0x27]))
                 (at_line path (loc_line (sf_location field))))
               ''domain types must be infrastructure-agnostic; embedding infrastructure types makes the domain untestable without concrete adapters'')
             ''use a domain-level abstraction or move this struct to adapters/''])"

definition check_domain_type_contamination :: "project_index \<Rightarrow> check_result" where
  "check_domain_type_contamination ix =
     (let domain_files = files_under ''internal/domain/'' ix in
      if domain_files = [] then check_skip ''domain-type-contamination'' ''no domain files found''
      else from_findings ''domain-type-contamination''
        (concat (map (\<lambda>f. concat (map (\<lambda>t.
           case ty_kind t of
             StructKind flds \<Rightarrow> concat (map (domain_field_findings (gf_path f) (ty_name t)) flds)
           | _ \<Rightarrow> []) (gf_types f))) domain_files)))"

definition signature_findings :: "string \<Rightarrow> string \<Rightarrow> go_func \<Rightarrow> finding list" where
  "signature_findings layer path func =
     (if fn_visibility func \<noteq> Exported then []
      else
        concat (map (\<lambda>param.
          case type_expr_has_infra (pa_type_expr param) of
            None \<Rightarrow> []
          | Some marker \<Rightarrow>
              [with_help
                 (with_why
                   (with_location
                     (finding_warning ''exported-signature-leaks''
                       (layer @ ''/'' @ file_name path @ '': exported func '' @ func_display_name func
                        @ '' has param '' @ [CHR 0x27] @ pa_name param @ [CHR 0x27]
                        @ '' with infra type '' @ [CHR 0x27] @ marker @ [CHR 0x27]))
                     (at_line path (loc_line (fn_location func))))
                   ''exported functions in inner layers with infrastructure params force callers to depend on concrete adapters'')
                 ''accept an interface parameter defined in application/ports/'']) (fn_params func))
        @ concat (map (\<lambda>ret.
          case type_expr_has_infra (pa_type_expr ret) of
            None \<Rightarrow> []
          | Some marker \<Rightarrow>
              [with_help
                 (with_why
                   (with_location
                     (finding_warning ''exported-signature-leaks''
                       (layer @ ''/'' @ file_name path @ '': exported func '' @ func_display_name func
                        @ '' returns infra type '' @ [CHR 0x27] @ marker @ [CHR 0x27]))
                     (at_line path (loc_line (fn_location func))))
                   ''returning infrastructure types from inner layers exposes implementation details to outer layers'')
                 ''return a domain/application-level type or interface'']) (fn_returns func)))"

definition check_exported_func_signatures :: "project_index \<Rightarrow> check_result" where
  "check_exported_func_signatures ix =
     (let target_files = filter (\<lambda>f. \<not> gf_is_test f
                           \<and> (starts_with (gf_path f) ''internal/domain/''
                              \<or> starts_with (gf_path f) ''internal/application/'')) (px_files ix) in
      if target_files = [] then
        check_skip ''exported-signature-leaks'' ''no domain/application files found''
      else from_findings ''exported-signature-leaks''
        (concat (map (\<lambda>f.
           (let layer = (case file_layer (gf_path f) of Some l \<Rightarrow> l | None \<Rightarrow> ''unknown'')
            in concat (map (signature_findings layer (gf_path f)) (gf_functions f)))) target_files)))"

section \<open>The analyser\<close>

definition arch_rules :: "(string list \<Rightarrow> string list) \<Rightarrow> fs_node \<Rightarrow> check_result list" where
  "arch_rules hash_order root =
     (let ix = build_index root in
      [check_layer_deps ix, check_domain_purity ix, check_application_isolation ix,
       check_interfaces_isolation ix, check_cmd_boundary ix, check_tooling_boundary root,
       check_no_cross_cmd_imports hash_order ix, check_deploy_boundary root,
       check_port_contract_leaks ix, check_domain_type_contamination ix,
       check_exported_func_signatures ix])"

definition arch_guard_analyze :: "(string list \<Rightarrow> string list) \<Rightarrow> fs_node \<Rightarrow> cli_error + report" where
  "arch_guard_analyze hash_order root =
     (if \<not> path_is_dir root [''internal''] then
        Inr (report_add (report_new ''arch-guard'')
          (from_findings ''internal-dir''
            [with_help
               (with_why (finding_error ''arch-guard'' ''internal/ directory not found'')
                 ''arch-guard scans internal/ for layer dependency violations'')
               ''pass --project-root pointing to the quality-service root'']))
      else Inr (foldl report_add (report_new ''arch-guard'') (arch_rules hash_order root)))"

section \<open>The contract of a rule\<close>

text \<open>
  A rule has a fixed name, and its result is a skip or the verdict of \<open>from_findings\<close> on the
  findings of its clean-up function: the report it goes into stays well-formed.
\<close>

locale check_rule =
  fixes rule :: "'e \<Rightarrow> check_result"
    and name :: string
  assumes rule_shape: "(\<exists>why. rule e = check_skip name why) \<or> rule e = from_findings name (ck_findings (rule e))"
begin

lemma rule_wf: "check_wf (rule e)"
  using rule_shape [of e] check_wf_skip check_wf_from_findings by metis

lemma rule_name: "ck_name (rule e) = name"
  using rule_shape [of e] by (metis check_result_simps(4,6))

lemma rule_fails_iff: "ck_status (rule e) = CheckFail \<longleftrightarrow> Error \<in> severities (rule e)"
  using rule_wf by (auto simp: check_wf_def)

end

interpretation layer_deps: check_rule check_layer_deps "''layer-dependency-direction''"
  by unfold_locales (simp add: check_layer_deps_def)

interpretation domain_purity: check_rule check_domain_purity "''domain-purity''"
  by unfold_locales (auto simp: check_domain_purity_def Let_def)

interpretation application_isolation: check_rule check_application_isolation "''application-isolation''"
  by unfold_locales (auto simp: check_application_isolation_def Let_def)

interpretation interfaces_isolation: check_rule check_interfaces_isolation "''interfaces-isolation''"
  by unfold_locales (auto simp: check_interfaces_isolation_def Let_def)

interpretation cmd_boundary: check_rule check_cmd_boundary "''cmd-boundary''"
  by unfold_locales (auto simp: check_cmd_boundary_def Let_def)

interpretation tooling_boundary: check_rule check_tooling_boundary "''tooling-boundary''"
  by unfold_locales (auto simp: check_tooling_boundary_def)

interpretation no_cross_cmd: check_rule "check_no_cross_cmd_imports h" "''no-cross-cmd''" for h
  by unfold_locales (auto simp: check_no_cross_cmd_imports_def Let_def)

interpretation deploy_boundary: check_rule check_deploy_boundary "''deploy-boundary''"
  by unfold_locales (auto simp: check_deploy_boundary_def)

interpretation port_leaks: check_rule check_port_contract_leaks "''port-contract-leaks''"
  by unfold_locales (auto simp: check_port_contract_leaks_def Let_def)

interpretation domain_types: check_rule check_domain_type_contamination "''domain-type-contamination''"
  by unfold_locales (auto simp: check_domain_type_contamination_def Let_def)

interpretation exported_signatures: check_rule check_exported_func_signatures "''exported-signature-leaks''"
  by unfold_locales (auto simp: check_exported_func_signatures_def Let_def)

lemmas rules_wf =
  layer_deps.rule_wf domain_purity.rule_wf application_isolation.rule_wf interfaces_isolation.rule_wf
  cmd_boundary.rule_wf tooling_boundary.rule_wf no_cross_cmd.rule_wf deploy_boundary.rule_wf
  port_leaks.rule_wf domain_types.rule_wf exported_signatures.rule_wf

lemmas rules_named =
  layer_deps.rule_name domain_purity.rule_name application_isolation.rule_name
  interfaces_isolation.rule_name cmd_boundary.rule_name tooling_boundary.rule_name
  no_cross_cmd.rule_name deploy_boundary.rule_name port_leaks.rule_name domain_types.rule_name
  exported_signatures.rule_name

interpretation arch_guard: total_analyser "arch_guard_analyze h" for h
proof
  have rules: "\<forall>c\<in>set (arch_rules h e). check_wf c" for e
    by (simp add: arch_rules_def Let_def rules_wf)
  show "arch_guard_analyze h e = Inr r \<Longrightarrow> report_wf r" for e r
    using report_wf_foldl [OF report_wf_new rules]
      report_wf_add [OF report_wf_new check_wf_from_findings]
    by (auto simp: arch_guard_analyze_def split: if_splits)
  show "\<exists>r. arch_guard_analyze h e = Inr r" for e
    by (simp add: arch_guard_analyze_def)
qed

end
