(* ===== verification/ArchGuardProps.thy ===== *)
theory ArchGuardProps
  imports ArchGuard
begin

text \<open>
  What the rules of \<open>arch-guard\<close> establish: the layer rule characterised on the graph of
  imports between layers and the acyclicity it guarantees, the rules it subsumes, the
  independence of the report from the hash order, and the shape of the report.
\<close>

section \<open>The layer graph\<close>

text \<open>The edge of the layer graph an import adds: the layers of the file and of the target.\<close>

definition layer_edge :: "go_file \<Rightarrow> go_import \<Rightarrow> (nat \<times> nat) option" where
  "layer_edge f imp =
     (if im_kind imp \<noteq> Internal then None
      else (case file_layer (gf_path f) of
              None \<Rightarrow> None
            | Some a \<Rightarrow>
                (case layer_index a of
                   None \<Rightarrow> None
                 | Some i \<Rightarrow>
                     (case extract_internal_layer (im_path imp) of
                        None \<Rightarrow> None
                      | Some b \<Rightarrow> (case layer_index b of None \<Rightarrow> None | Some j \<Rightarrow> Some (i, j))))))"

definition layer_edges :: "project_index \<Rightarrow> (nat \<times> nat) set" where
  "layer_edges ix =
     {e. \<exists>f\<in>set (internal_files ix). \<exists>imp\<in>set (gf_imports f). layer_edge f imp = Some e}"

lemma layer_index_shared: "layer_index ''shared'' = None"
  by (simp add: layer_index_def layers_def)

lemma layer_dep_file_edge:
  "layer_dep_file f \<noteq> [] \<longleftrightarrow>
     (\<exists>imp\<in>set (gf_imports f). \<exists>a b. layer_edge f imp = Some (a, b) \<and> \<not> is_allowed_dependency a b)"
proof (cases "file_layer (gf_path f)")
  case None
  then show ?thesis by (simp add: layer_dep_file_def layer_edge_def)
next
  case (Some nm)
  show ?thesis
  proof (cases "layer_index nm")
    case None
    with Some show ?thesis by (simp add: layer_dep_file_def layer_edge_def)
  next
    case (Some i)
    have "layer_dep_import p nm i imp \<noteq> [] \<longleftrightarrow>
          (\<exists>a b. layer_edge f imp = Some (a, b) \<and> \<not> is_allowed_dependency a b)" for p imp
      using Some \<open>file_layer (gf_path f) = Some nm\<close> layer_index_shared
      by (auto simp: layer_dep_import_def layer_edge_def split: option.splits)
    with Some \<open>file_layer (gf_path f) = Some nm\<close> show ?thesis
      by (simp add: layer_dep_file_def)
  qed
qed

lemma layer_dep_file_errors: "fd \<in> set (layer_dep_file f) \<Longrightarrow> fd_severity fd = Error"
  by (auto simp: layer_dep_file_def layer_dep_import_def layer_dep_finding_def
      split: option.splits if_splits)

lemma layer_rule_status:
  "ck_status (check_layer_deps ix) = CheckFail \<longleftrightarrow>
     (\<exists>(a, b)\<in>layer_edges ix. \<not> is_allowed_dependency a b)"
proof -
  let ?fs = "concat (map layer_dep_file (internal_files ix))"
  have "ck_status (check_layer_deps ix) = CheckFail \<longleftrightarrow> ?fs \<noteq> []"
    unfolding check_layer_deps_def
    by (rule from_findings_all_errors) (use layer_dep_file_errors in auto)
  also have "\<dots> \<longleftrightarrow> (\<exists>f\<in>set (internal_files ix). layer_dep_file f \<noteq> [])" by auto
  finally show ?thesis
    unfolding layer_dep_file_edge layer_edges_def by fastforce
qed

text \<open>
  C5 (layer rule). \<open>layer-dependency-direction\<close> fails exactly when some non-test file under
  \<open>internal/\<close> has an internal import whose pair of layers is not allowed; and the allowed
  pairs are exactly: every layer to itself, application to domain, adapters to application
  and domain, actors to the three inner layers, interfaces to application and domain.
\<close>

theorem layer_rule_exact:
  "(ck_status (check_layer_deps ix) = CheckFail \<longleftrightarrow>
      (\<exists>(a, b)\<in>layer_edges ix. \<not> is_allowed_dependency a b))
   \<and> {(a, b). a < 5 \<and> b < 5 \<and> a \<noteq> b \<and> is_allowed_dependency a b}
     = {(1, 0), (2, 0), (2, 1), (3, 0), (3, 1), (3, 2), (4, 0), (4, 1)}"
proof (rule conjI)
  show "{(a, b). a < 5 \<and> b < 5 \<and> a \<noteq> b \<and> is_allowed_dependency a b}
     = {(1, 0), (2, 0), (2, 1), (3, 0), (3, 1), (3, 2), (4, 0), (4, 1)}"
    by (auto simp: is_allowed_dependency_def split: if_splits)
qed (rule layer_rule_status)

lemma allowed_decreases: "is_allowed_dependency a b \<Longrightarrow> a \<noteq> b \<Longrightarrow> b < a"
  by (auto simp: is_allowed_dependency_def split: if_splits)

text \<open>
  Property (acyclic layers). When the layer rule does not fail, the graph of imports between
  different layers has no cycle: every import leads to a strictly inner layer, the domain
  imports no other layer, and no layer depends on the interfaces layer.
\<close>

theorem layer_rule_acyclic:
  assumes "ck_status (check_layer_deps ix) \<noteq> CheckFail"
  shows "acyclic (layer_edges ix - Id)
         \<and> (\<forall>(a, b)\<in>(layer_edges ix - Id)\<^sup>+. b < a \<and> a \<noteq> 0 \<and> b \<noteq> 4)"
proof -
  have edge: "b < a \<and> a \<le> 4" if "(a, b) \<in> layer_edges ix - Id" for a b
  proof -
    from assms that have al: "is_allowed_dependency a b" "a \<noteq> b"
      using layer_rule_status [of ix] by auto
    then have "a \<le> 4" by (auto simp: is_allowed_dependency_def split: if_splits)
    with allowed_decreases [OF al] show ?thesis by simp
  qed
  have tr: "b < a \<and> a \<le> 4" if "(a, b) \<in> (layer_edges ix - Id)\<^sup>+" for a b
    using that by (induction rule: trancl_induct) (use edge in fastforce)+
  then have "acyclic (layer_edges ix - Id)" by (auto simp: acyclic_def)
  with tr show ?thesis by fastforce
qed

section \<open>Subsumption\<close>

lemma starts_with_trans: "starts_with s (p @ q) \<Longrightarrow> starts_with s p"
  by (auto simp: starts_with_iff)

lemma file_layer_prefix:
  assumes "starts_with path (''internal/'' @ layer @ ''/'')" "CHR ''/'' \<notin> set layer"
  shows "file_layer path = Some layer"
proof -
  from assms(1) obtain r where "path = ''internal/'' @ layer @ CHR ''/'' # r"
    by (auto simp: starts_with_iff)
  moreover have "split_first (layer @ CHR ''/'' # r) ''/'' = layer"
    using assms(2) by (simp add: split_first_def find_sub_single_append)
  ultimately show ?thesis unfolding file_layer_def by simp
qed

text \<open>A file in a layer with an internal import of another: the edge in the graph.\<close>

lemma layer_edge_in:
  assumes "f \<in> set (files_under (''internal/'' @ layer @ ''/'') ix)" "CHR ''/'' \<notin> set layer"
    and "imp \<in> set (gf_imports f)" "im_kind imp = Internal"
    and "extract_internal_layer (im_path imp) = Some target"
    and "layer_index layer = Some a" "layer_index target = Some b"
  shows "(a, b) \<in> layer_edges ix"
proof -
  from assms(1) have f: "f \<in> set (px_files ix)" "\<not> gf_is_test f"
    "starts_with (gf_path f) (''internal/'' @ layer @ ''/'')"
    by (auto simp: files_under_def)
  then have "f \<in> set (internal_files ix)"
    using starts_with_trans [of "gf_path f" "''internal/''"] by (simp add: internal_files_def files_under_def)
  moreover have "layer_edge f imp = Some (a, b)"
    using assms(4-7) file_layer_prefix [OF f(3) assms(2)] by (simp add: layer_edge_def)
  ultimately show ?thesis using assms(3) by (auto simp: layer_edges_def)
qed

lemma layer_indices:
  "layer_index ''domain'' = Some 0" "layer_index ''application'' = Some 1"
  "layer_index ''adapters'' = Some 2" "layer_index ''actors'' = Some 3"
  "layer_index ''interfaces'' = Some 4"
  by (simp_all add: layer_index_def layers_def)

lemma isolation_edges:
  "ck_status (check_application_isolation ix) = CheckFail \<Longrightarrow>
     \<exists>b\<in>{2, 3, 4}. (1, b) \<in> layer_edges ix"
  "ck_status (check_interfaces_isolation ix) = CheckFail \<Longrightarrow>
     \<exists>b\<in>{2, 3}. (4, b) \<in> layer_edges ix"
proof -
  assume "ck_status (check_application_isolation ix) = CheckFail"
  then obtain f imp layer where f: "f \<in> set (files_under ''internal/application/'' ix)"
    "imp \<in> set (gf_imports f)" "im_kind imp = Internal"
    "extract_internal_layer (im_path imp) = Some layer"
    "layer = ''adapters'' \<or> layer = ''actors'' \<or> layer = ''interfaces''"
    by (auto simp: check_application_isolation_def Let_def from_findings_status
        split: if_splits option.splits) metis+
  with layer_edge_in [of f "''application''" ix imp layer 1] layer_indices
  show "\<exists>b\<in>{2, 3, 4}. (1, b) \<in> layer_edges ix" by auto
next
  assume "ck_status (check_interfaces_isolation ix) = CheckFail"
  then obtain f imp layer where f: "f \<in> set (files_under ''internal/interfaces/'' ix)"
    "imp \<in> set (gf_imports f)" "im_kind imp = Internal"
    "extract_internal_layer (im_path imp) = Some layer"
    "layer = ''adapters'' \<or> layer = ''actors''"
    by (auto simp: check_interfaces_isolation_def Let_def from_findings_status
        split: if_splits option.splits) metis+
  with layer_edge_in [of f "''interfaces''" ix imp layer 4] layer_indices
  show "\<exists>b\<in>{2, 3}. (4, b) \<in> layer_edges ix" by auto
qed

text \<open>
  Property (redundant rules). When \<open>layer-dependency-direction\<close> does not fail, neither
  \<open>application-isolation\<close> nor \<open>interfaces-isolation\<close> does: both are consequences of the
  layer rule.
\<close>

theorem layer_rule_subsumes_isolation:
  assumes "ck_status (check_layer_deps ix) \<noteq> CheckFail"
  shows "ck_status (check_application_isolation ix) \<noteq> CheckFail
         \<and> ck_status (check_interfaces_isolation ix) \<noteq> CheckFail"
proof -
  have al: "is_allowed_dependency a b" if "(a, b) \<in> layer_edges ix" for a b
    using assms that layer_rule_status [of ix] by auto
  have "\<not> is_allowed_dependency 1 2" "\<not> is_allowed_dependency 1 3"
    "\<not> is_allowed_dependency 1 4" "\<not> is_allowed_dependency 4 2"
    "\<not> is_allowed_dependency 4 3"
    by (simp_all add: is_allowed_dependency_def)
  with al have "(1, 2) \<notin> layer_edges ix" "(1, 3) \<notin> layer_edges ix"
    "(1, 4) \<notin> layer_edges ix" "(4, 2) \<notin> layer_edges ix" "(4, 3) \<notin> layer_edges ix"
    by blast+
  then have "\<not> (\<exists>b\<in>{2, 3, 4}. (1, b) \<in> layer_edges ix)"
    "\<not> (\<exists>b\<in>{2, 3}. (4, b) \<in> layer_edges ix)"
    by simp_all
  with isolation_edges [of ix] show ?thesis by blast
qed

text \<open>A project with one application file that imports the domain.\<close>

definition layered_project :: project_index where
  "layered_project =
     (let path = ''internal/application/usecase/run.go'';
          fs = [\<lparr>gf_path = path, gf_package = ''usecase'',
                 gf_imports = [mk_import path 3 None ''quality-service/internal/domain/rules''],
                 gf_types = [], gf_functions = [], gf_constants = [], gf_variables = [],
                 gf_is_test = False, gf_line_count = 9\<rparr>]
      in \<lparr>px_files = fs, px_packages = [], px_stats = compute_stats fs []\<rparr>)"

lemma layered_project_passes: "ck_status (check_layer_deps layered_project) \<noteq> CheckFail"
  by code_simp

theorem layer_rule_acyclic_witness:
  "acyclic (layer_edges layered_project - Id)"
  using layer_rule_acyclic [OF layered_project_passes] by simp

theorem layer_rule_subsumes_isolation_witness:
  "ck_status (check_application_isolation layered_project) \<noteq> CheckFail
   \<and> ck_status (check_interfaces_isolation layered_project) \<noteq> CheckFail"
  by (rule layer_rule_subsumes_isolation [OF layered_project_passes])

section \<open>Imports between commands\<close>

lemma cross_cmd_errors: "fd \<in> set (cross_cmd_file ns f) \<Longrightarrow> fd_severity fd = Error"
  by (auto simp: cross_cmd_file_def split: option.splits if_splits)

lemma mset_concat_map_cong:
  "(\<And>x. x \<in> set xs \<Longrightarrow> mset (f x) = mset (g x)) \<Longrightarrow>
     mset (concat (map f xs)) = mset (concat (map g xs))"
  by (induction xs) auto

lemma mset_concat_map_perm:
  "mset xs = mset ys \<Longrightarrow> mset (concat (map f xs)) = mset (concat (map f ys))"
  by (metis mset_concat mset_map sum_mset_sum_list)

lemma cross_cmd_perm:
  "mset ns = mset ns' \<Longrightarrow> mset (cross_cmd_file ns f) = mset (cross_cmd_file ns' f)"
proof (cases "cmd_of (gf_path f)")
  case None
  then show ?thesis by (simp add: cross_cmd_file_def)
next
  case (Some own)
  assume perm: "mset ns = mset ns'"
  show ?thesis
    unfolding cross_cmd_file_def Some option.case
    by (rule mset_concat_map_cong, rule mset_concat_map_perm, rule perm)
qed

text \<open>
  Property (hash order). Whatever order the set of command names is iterated in, \<open>no-cross-cmd\<close>
  has the same status and the same findings up to their order.
\<close>

theorem cross_cmd_order_independent:
  assumes "\<And>xs. mset (h xs) = mset xs" and "\<And>xs. mset (h' xs) = mset xs"
  shows "ck_status (check_no_cross_cmd_imports h ix) = ck_status (check_no_cross_cmd_imports h' ix)
         \<and> mset (ck_findings (check_no_cross_cmd_imports h ix))
           = mset (ck_findings (check_no_cross_cmd_imports h' ix))"
proof -
  let ?fs = "files_under ''cmd/'' ix"
  let ?g = "\<lambda>h. concat (map (cross_cmd_file (h (cmd_names_of ?fs))) ?fs)"
  have m: "mset (?g h) = mset (?g h')"
    by (rule mset_concat_map_cong, rule cross_cmd_perm) (simp add: assms)
  then have "set (?g h) = set (?g h')" by (metis set_mset_mset)
  with m show ?thesis
    by (simp add: check_no_cross_cmd_imports_def Let_def from_findings_status)
qed

theorem cross_cmd_order_independent_witness:
  "mset (ck_findings (check_no_cross_cmd_imports (\<lambda>xs. xs) layered_project))
   = mset (ck_findings (check_no_cross_cmd_imports rev layered_project))"
  using cross_cmd_order_independent [of "\<lambda>xs. xs" rev layered_project] by simp

text \<open>
  The rule compares by substring: a command whose name extends another's is reported for
  importing its own packages.
\<close>

definition prefix_named_cmds :: project_index where
  "prefix_named_cmds =
     (let file = (\<lambda>p ims. \<lparr>gf_path = p, gf_package = ''main'', gf_imports = ims, gf_types = [],
                           gf_functions = [], gf_constants = [], gf_variables = [],
                           gf_is_test = False, gf_line_count = 3\<rparr>);
          fs = [file ''cmd/server/main.go'' [],
                file ''cmd/serverctl/main.go''
                  [mk_import ''cmd/serverctl/main.go'' 3 None ''quality-service/cmd/serverctl/flags'']]
      in \<lparr>px_files = fs, px_packages = [], px_stats = compute_stats fs []\<rparr>)"

theorem cross_cmd_reports_own_package:
  "map fd_message (ck_findings (check_no_cross_cmd_imports (\<lambda>xs. xs) prefix_named_cmds))
   = [''cmd/serverctl imports cmd/server'']"
  by code_simp

section \<open>The report\<close>

definition arch_rule_names :: "string list" where
  "arch_rule_names =
     [''layer-dependency-direction'', ''domain-purity'', ''application-isolation'',
      ''interfaces-isolation'', ''cmd-boundary'', ''tooling-boundary'', ''no-cross-cmd'',
      ''deploy-boundary'', ''port-contract-leaks'', ''domain-type-contamination'',
      ''exported-signature-leaks'']"

text \<open>
  Property (arch-guard report). The analyser never errors. Without an \<open>internal/\<close> directory it
  reports one failing check; with one, exactly the eleven rules in order, and then the report
  passes exactly when no rule produced an error.
\<close>

theorem arch_guard_report:
  "\<exists>r. arch_guard_analyze h root = Inr r \<and> report_wf r
       \<and> (if path_is_dir root [''internal'']
          then map ck_name (rp_checks r) = arch_rule_names
               \<and> (rp_passed r \<longleftrightarrow> list_all (\<lambda>c. Error \<notin> severities c) (arch_rules h root))
          else map ck_name (rp_checks r) = [''internal-dir''] \<and> \<not> rp_passed r)"
proof -
  obtain r where r: "arch_guard_analyze h root = Inr r"
    using arch_guard.analyse_total by blast
  have wf: "report_wf r" by (rule arch_guard.analyse_wf [OF r])
  show ?thesis
  proof (cases "path_is_dir root [''internal'']")
    case True
    with r have cs: "rp_checks r = arch_rules h root" by (auto simp: arch_guard_analyze_def)
    have "map ck_name (arch_rules h root) = arch_rule_names"
      by (simp add: arch_rules_def Let_def rules_named arch_rule_names_def)
    with r wf True cs report_wf_passed [OF wf] show ?thesis by (simp add: list_all_iff)
  next
    case False
    with r have "r = report_add (report_new ''arch-guard'')
        (from_findings ''internal-dir''
            [with_help
               (with_why (finding_error ''arch-guard'' ''internal/ directory not found'')
                 ''arch-guard scans internal/ for layer dependency violations'')
               ''pass --project-root pointing to the quality-service root''])"
      by (simp add: arch_guard_analyze_def)
    with r wf False show ?thesis by (simp add: from_findings_status)
  qed
qed

text \<open>
  The comment on the layer table says that a layer may import every layer of a lower index;
  the code does not allow the interfaces layer to import adapters or actors.
\<close>

theorem lower_index_not_sufficient:
  "layer_index ''interfaces'' = Some 4 \<and> layer_index ''adapters'' = Some 2
   \<and> \<not> is_allowed_dependency 4 2 \<and> \<not> is_allowed_dependency 4 3"
  by (simp add: layer_indices is_allowed_dependency_def)

end
