(* ===== verification/Doctor.thy ===== *)
theory Doctor
  imports Gate Filesystem
begin

text \<open>
  The \<open>doctor\<close> analyser (\<open>analyzers/doctor.rs\<close>): a fixed sequence of existence checks below
  the project root. A project is the root path, as it is displayed, with the tree below it.
\<close>

type_synonym project = "string \<times> fs_node"

definition doctor_root_check :: "project \<Rightarrow> check_result" where
  "doctor_root_check pr =
     (if path_exists (snd pr) [''go.work''] then check_pass ''project-root''
      else from_findings ''project-root''
        [with_help
           (with_why (finding_error ''project-root'' (''go.work not found at '' @ fst pr))
             ''go.work is the workspace root marker; all other checks depend on it'')
           ''pass --project-root pointing to the quality-service root''])"

definition dir_reasons :: "(string \<times> string) list" where
  "dir_reasons =
     [(''internal'', ''topology-doctor and contract-audit scan internal/ for Go source artifacts''),
      (''deploy'', ''topology-doctor reads configs and compose from deploy/''),
      (''tests'', ''test infrastructure lives in tests/''),
      (''tools'', ''raccoon-cli and other tooling live in tools/'')]"

definition doctor_dir_check :: "project \<Rightarrow> string \<times> string \<Rightarrow> check_result" where
  "doctor_dir_check pr d =
     (if path_is_dir (snd pr) [fst d] then check_pass (''dir-'' @ fst d)
      else from_findings (''dir-'' @ fst d)
        [with_help
           (with_why
             (finding_warning ''project-structure''
               (''expected directory '' @ [CHR 0x27] @ fst d @ ''/'' @ [CHR 0x27] @ '' not found''))
             (snd d))
           ''verify --project-root or create the directory''])"

definition doctor_compose_check :: "project \<Rightarrow> check_result" where
  "doctor_compose_check pr =
     (if path_is_file (snd pr) [''deploy'', ''compose'', ''docker-compose.yaml'']
      then check_pass ''compose-file''
      else from_findings ''compose-file''
        [with_help
           (with_why
             (finding_warning ''project-structure'' ''deploy/compose/docker-compose.yaml not found'')
             ''topology-doctor validates service wiring against the compose file; runtime-smoke needs it to start the environment'')
           ''create the compose file or check --project-root''])"

definition has_jsonc :: "project \<Rightarrow> bool" where
  "has_jsonc pr =
     list_ex (\<lambda>e. extension (fst e) = Some ''jsonc'') (dir_entries (snd pr) [''deploy'', ''configs''])"

definition doctor_config_check :: "project \<Rightarrow> check_result" where
  "doctor_config_check pr =
     (if path_is_dir (snd pr) [''deploy'', ''configs''] then
        (if has_jsonc pr then check_pass ''config-files''
         else from_findings ''config-files''
           [with_help
              (with_why
                (finding_warning ''project-structure'' ''deploy/configs/ exists but contains no .jsonc files'')
                ''topology-doctor reads .jsonc configs to validate transport consistency'')
              ''add service configs (consumer.jsonc, emulator.jsonc, validator.jsonc)''])
      else from_findings ''config-files''
        [with_help
           (with_why
             (finding_warning ''project-structure'' ''deploy/configs/ not found'')
             ''service configs are required for topology-doctor to validate transport wiring'')
           ''create deploy/configs/ with .jsonc service config files''])"

definition doctor_checks :: "project \<Rightarrow> check_result list" where
  "doctor_checks pr =
     doctor_root_check pr # map (doctor_dir_check pr) dir_reasons
     @ [doctor_compose_check pr, doctor_config_check pr]"

definition doctor_analyze :: "project \<Rightarrow> cli_error + report" where
  "doctor_analyze pr = Inr (foldl report_add (report_new ''doctor'') (doctor_checks pr))"

section \<open>Correctness\<close>

lemma doctor_check_wf:
  "check_wf (doctor_root_check pr)" "check_wf (doctor_dir_check pr d)"
  "check_wf (doctor_compose_check pr)" "check_wf (doctor_config_check pr)"
  by (simp_all add: doctor_root_check_def doctor_dir_check_def doctor_compose_check_def
      doctor_config_check_def check_wf_pass check_wf_from_findings)

interpretation doctor: total_analyser doctor_analyze
proof
  have "\<forall>c\<in>set (doctor_checks e). check_wf c" for e
    by (auto simp: doctor_checks_def doctor_check_wf)
  then have "report_wf (foldl report_add (report_new ''doctor'') (doctor_checks e))" for e
    by (intro report_wf_foldl report_wf_new)
  then show "doctor_analyze e = Inr r \<Longrightarrow> report_wf r" for e r
    by (metis doctor_analyze_def sum.inject(2))
  show "\<exists>r. doctor_analyze e = Inr r" for e
    by (simp add: doctor_analyze_def)
qed

text \<open>What the project root must hold for each severity level of \<open>doctor\<close>.\<close>

definition layout_complete :: "project \<Rightarrow> bool" where
  "layout_complete pr =
     (list_all (\<lambda>d. path_is_dir (snd pr) [fst d]) dir_reasons
      \<and> path_is_file (snd pr) [''deploy'', ''compose'', ''docker-compose.yaml'']
      \<and> path_is_dir (snd pr) [''deploy'', ''configs''] \<and> has_jsonc pr)"

lemma severities_from_single: "severities (from_findings n [f]) = {fd_severity f}"
  by (simp add: severities_def)

lemma severities_pass [simp]: "severities (check_pass n) = {}"
  by (simp add: severities_def)

lemma doctor_severities:
  "severities (doctor_root_check pr) = (if path_exists (snd pr) [''go.work''] then {} else {Error})"
  "severities (doctor_dir_check pr d) = (if path_is_dir (snd pr) [fst d] then {} else {Warning})"
  "severities (doctor_compose_check pr) =
     (if path_is_file (snd pr) [''deploy'', ''compose'', ''docker-compose.yaml''] then {} else {Warning})"
  "severities (doctor_config_check pr) =
     (if path_is_dir (snd pr) [''deploy'', ''configs''] \<and> has_jsonc pr then {} else {Warning})"
  by (simp_all add: doctor_root_check_def doctor_dir_check_def doctor_compose_check_def
      doctor_config_check_def severities_from_single)

text \<open>
  Property (doctor). The analyser always returns a report of seven checks; the report passes
  exactly when \<open>go.work\<close> exists (everything else is a warning), it has no findings at all
  exactly when the layout is complete as well, and so a \<open>ci\<close> gate step on it passes only
  for a complete layout.
\<close>

theorem doctor_verdict:
  "\<exists>r. doctor_analyze pr = Inr r \<and> length (rp_checks r) = 7
       \<and> (rp_passed r \<longleftrightarrow> path_exists (snd pr) [''go.work''])
       \<and> (sr_status (run_step ''doctor'' Ci d (doctor_analyze pr)) = StepPass
            \<longleftrightarrow> path_exists (snd pr) [''go.work''] \<and> layout_complete pr)"
proof -
  obtain r where r: "doctor_analyze pr = Inr r" using doctor.analyse_total by blast
  then have cs: "rp_checks r = doctor_checks pr" by (auto simp: doctor_analyze_def)
  have wf: "report_wf r" by (rule doctor.analyse_wf [OF r])
  have errs: "sev_count Error r = 0 \<longleftrightarrow> path_exists (snd pr) [''go.work'']"
    unfolding sev_count_zero cs
    by (auto simp: doctor_checks_def doctor_severities dir_reasons_def)
  have warns: "sev_count Warning r = 0 \<longleftrightarrow> layout_complete pr"
    unfolding sev_count_zero cs
    by (auto simp: doctor_checks_def doctor_severities layout_complete_def dir_reasons_def)
  have "length (rp_checks r) = 7" by (simp add: cs doctor_checks_def dir_reasons_def)
  moreover have "rp_passed r \<longleftrightarrow> path_exists (snd pr) [''go.work'']"
    unfolding passed_sev_count [OF wf] by (rule errs)
  moreover have "clean Ci (doctor_analyze pr) \<longleftrightarrow> path_exists (snd pr) [''go.work''] \<and> layout_complete pr"
    unfolding r clean_def by (simp only: sum.case errs warns simp_thms)
  ultimately show ?thesis
    using r doctor.step_passes_iff by blast
qed

end
