(* ===== verification/LspWire.thy ===== *)
theory LspWire
  imports Prelude
begin

text \<open>
  \<open>src/lsp/protocol.rs\<close>: the wire format spoken with \<open>gopls\<close>. A message is a
  \<open>Content-Length\<close> header, an empty line and a JSON body. The reader is the
  \<open>BufReader\<close> over the pipe: a buffer and the byte segments that later \<open>read\<close> calls find
  in the pipe, so that the model knows which bytes have already left the pipe. It is proved
  to refine a reader of the plain byte stream.

  JSON is \<open>serde_json\<close>'s: the decoder of a response is a parameter.
\<close>

section \<open>Messages\<close>

record rpc_error =
  re_code :: int
  re_message :: string

record 'j rpc_response =
  rr_id :: "64 word option"
  rr_result :: "'j option"
  rr_error :: "rpc_error option"

definition crlf :: string where
  "crlf = [CHR 0x0D, CHR 0x0A]"

definition content_length_header :: string where
  "content_length_header = ''Content-Length:''"

definition encode_message :: "string \<Rightarrow> string" where
  "encode_message body = ''Content-Length: '' @ show_nat (length body) @ crlf @ crlf @ body"

definition path_to_uri :: "string \<Rightarrow> string" where
  "path_to_uri path = (if starts_with path ''file://'' then path else ''file://'' @ path)"

definition uri_to_path :: "string \<Rightarrow> string" where
  "uri_to_path uri = (case strip_prefix uri ''file://'' of None \<Rightarrow> uri | Some p \<Rightarrow> p)"

section \<open>UTF-8\<close>

text \<open>\<open>read_line\<close> rejects a line that is not well-formed UTF-8.\<close>

definition byte_in :: "nat \<Rightarrow> nat \<Rightarrow> char \<Rightarrow> bool" where
  "byte_in lo hi c = (lo \<le> (of_char c :: nat) \<and> (of_char c :: nat) \<le> hi)"

fun utf8_valid :: "string \<Rightarrow> bool" where
  "utf8_valid [] = True"
| "utf8_valid (a # s) =
     (if byte_in 0 127 a then utf8_valid s
      else (case s of
              [] \<Rightarrow> False
            | b # s \<Rightarrow>
                if byte_in 194 223 a then byte_in 128 191 b \<and> utf8_valid s
                else (case s of
                        [] \<Rightarrow> False
                      | c # s \<Rightarrow>
                          if byte_in 224 239 a
                          then byte_in (if byte_in 224 224 a then 160 else 128)
                                 (if byte_in 237 237 a then 159 else 191) b
                               \<and> byte_in 128 191 c \<and> utf8_valid s
                          else (case s of
                                  [] \<Rightarrow> False
                                | d # s \<Rightarrow>
                                    byte_in 240 244 a
                                    \<and> byte_in (if byte_in 240 240 a then 144 else 128)
                                        (if byte_in 244 244 a then 143 else 191) b
                                    \<and> byte_in 128 191 c \<and> byte_in 128 191 d
                                    \<and> utf8_valid s))))"

declare utf8_valid.simps(2) [simp del]

lemma utf8_valid_ascii: "\<forall>c\<in>set s. (of_char c :: nat) < 128 \<Longrightarrow> utf8_valid s"
  by (induction s) (auto simp: utf8_valid.simps byte_in_def)

section \<open>The reader\<close>

text \<open>
  Why a read stops: an error of \<open>std::io\<close>, a read that blocks forever because the writer
  keeps the pipe open and is silent, or a panic (\<open>vec![0u8; n]\<close> beyond \<open>isize::MAX\<close>).
\<close>

datatype io_stop = UnexpectedEof string | InvalidData string | Blocks | Panics

record reader =
  rd_buf :: string
  rd_segs :: "string list"
  rd_open :: bool

definition buf_capacity :: nat where
  "buf_capacity = 8192"

text \<open>One \<open>read\<close> of at most \<open>n\<close> bytes from the pipe; nothing left yields no bytes.\<close>

fun pipe_read :: "nat \<Rightarrow> string list \<Rightarrow> string \<times> string list" where
  "pipe_read n [] = ([], [])"
| "pipe_read n (seg # segs) =
     (if seg = [] then pipe_read n segs else (take n seg, drop n seg # segs))"

definition fill_buf :: "reader \<Rightarrow> reader" where
  "fill_buf r =
     (if rd_buf r \<noteq> [] then r
      else (let (b, segs) = pipe_read buf_capacity (rd_segs r)
            in r\<lparr>rd_buf := b, rd_segs := segs\<rparr>))"

definition rd_bytes :: "reader \<Rightarrow> string" where
  "rd_bytes r = rd_buf r @ concat (rd_segs r)"

lemma pipe_read_concat: "pipe_read n segs = (b, segs') \<Longrightarrow> b @ concat segs' = concat segs"
  by (induction n segs rule: pipe_read.induct) (auto split: if_splits)

lemma pipe_read_nonempty:
  "pipe_read n segs = (b, segs') \<Longrightarrow> 0 < n \<Longrightarrow> b = [] \<longleftrightarrow> concat segs = []"
  by (induction n segs rule: pipe_read.induct) (auto split: if_splits)

lemma pipe_read_end: "pipe_read n segs = ([], segs') \<Longrightarrow> 0 < n \<Longrightarrow> segs' = []"
  by (induction n segs rule: pipe_read.induct) (auto split: if_splits)

lemma pipe_read_le: "pipe_read n segs = (b, segs') \<Longrightarrow> length b \<le> n"
  by (induction n segs rule: pipe_read.induct) (auto split: if_splits)

lemma rd_bytes_buf [simp]: "rd_bytes (r\<lparr>rd_buf := b\<rparr>) = b @ concat (rd_segs r)"
  by (simp add: rd_bytes_def)

lemma rd_bytes_segs [simp]: "rd_bytes (r\<lparr>rd_segs := segs\<rparr>) = rd_buf r @ concat segs"
  by (simp add: rd_bytes_def)

lemma fill_buf_bytes [simp]: "rd_bytes (fill_buf r) = rd_bytes r"
  by (auto simp: fill_buf_def rd_bytes_def dest: pipe_read_concat split: prod.splits)

lemma fill_buf_open [simp]: "rd_open (fill_buf r) = rd_open r"
  by (auto simp: fill_buf_def split: prod.splits)

lemma fill_buf_empty: "rd_buf (fill_buf r) = [] \<longleftrightarrow> rd_bytes r = []"
  by (auto simp: fill_buf_def rd_bytes_def buf_capacity_def dest: pipe_read_nonempty split: prod.splits)

text \<open>\<open>read_until(b'\n')\<close>, appending to the line.\<close>

function read_until_nl :: "string \<Rightarrow> reader \<Rightarrow> (io_stop + string) \<times> reader" where
  "read_until_nl acc r =
     (let r1 = fill_buf r in
      if rd_buf r1 = [] then (if rd_open r1 then Inl Blocks else Inr acc, r1)
      else (case find_sub (rd_buf r1) nl of
              Some i \<Rightarrow> (Inr (acc @ take (i + 1) (rd_buf r1)),
                         r1\<lparr>rd_buf := drop (i + 1) (rd_buf r1)\<rparr>)
            | None \<Rightarrow> read_until_nl (acc @ rd_buf r1) (r1\<lparr>rd_buf := []\<rparr>)))"
  by pat_completeness auto
termination
proof (relation "measure (\<lambda>(acc, r). length (rd_bytes r))", goal_cases)
  case 1
  show ?case by simp
next
  case (2 acc r r1)
  have "rd_bytes r1 = rd_bytes r" using 2(1) by simp
  then have "length (rd_bytes r) = length (rd_buf r1) + length (concat (rd_segs r1))"
    by (metis length_append rd_bytes_def)
  with 2(2) show ?case by (simp add: rd_bytes_def)
qed

declare read_until_nl.simps [simp del]

definition read_line :: "reader \<Rightarrow> (io_stop + string) \<times> reader" where
  "read_line r =
     (case read_until_nl [] r of
        (Inl e, r1) \<Rightarrow> (Inl e, r1)
      | (Inr l, r1) \<Rightarrow>
          if utf8_valid l then (Inr l, r1)
          else (Inl (InvalidData ''stream did not contain valid UTF-8''), r1))"

text \<open>\<open>read_exact\<close>: a request of the buffer's size or more bypasses an empty buffer.\<close>

definition short_read :: "reader \<Rightarrow> (io_stop + string) \<times> reader" where
  "short_read r = (Inl (if rd_open r then Blocks else UnexpectedEof ''failed to fill whole buffer''), r)"

function read_exact :: "nat \<Rightarrow> string \<Rightarrow> reader \<Rightarrow> (io_stop + string) \<times> reader" where
  "read_exact n acc r =
     (if n = 0 then (Inr acc, r)
      else if rd_buf r = [] \<and> buf_capacity \<le> n then
        (let (b, segs) = pipe_read n (rd_segs r);
             r1 = r\<lparr>rd_segs := segs\<rparr>
         in if b = [] then short_read r1 else read_exact (n - length b) (acc @ b) r1)
      else
        (let r1 = fill_buf r;
             b = take n (rd_buf r1)
         in if b = [] then short_read r1
            else read_exact (n - length b) (acc @ b) (r1\<lparr>rd_buf := drop n (rd_buf r1)\<rparr>)))"
  by pat_completeness auto
termination
  by (relation "measure (\<lambda>(n, acc, r). n)") auto

declare read_exact.simps [simp del]

lemma read_until_nl_bytes:
  "read_until_nl acc r = (Inr l, r1) \<Longrightarrow> acc @ rd_bytes r = l @ rd_bytes r1"
proof (induction acc r rule: read_until_nl.induct)
  case (1 acc r)
  define q where "q = fill_buf r"
  have q: "rd_bytes q = rd_bytes r" by (simp add: q_def)
  show ?case
  proof (cases "rd_buf q = []")
    case True
    with "1.prems" q show ?thesis
      by (auto simp: read_until_nl.simps [of acc r] Let_def q_def [symmetric] split: if_splits)
  next
    case False
    show ?thesis
    proof (cases "find_sub (rd_buf q) nl")
      case None
      with "1.prems" False have "read_until_nl (acc @ rd_buf q) (q\<lparr>rd_buf := []\<rparr>) = (Inr l, r1)"
        by (simp add: read_until_nl.simps [of acc r] Let_def q_def [symmetric])
      from "1.IH" [OF q_def False None this] q show ?thesis
        by (simp add: rd_bytes_def [of q])
    next
      case (Some i)
      with "1.prems" False have "l = acc @ take (i + 1) (rd_buf q)"
        "r1 = q\<lparr>rd_buf := drop (i + 1) (rd_buf q)\<rparr>"
        by (auto simp: read_until_nl.simps [of acc r] Let_def q_def [symmetric])
      moreover have "rd_bytes r = rd_buf q @ concat (rd_segs q)" using q by (simp add: rd_bytes_def)
      ultimately show ?thesis by simp
    qed
  qed
qed

lemma read_line_bytes: "read_line r = (Inr l, r1) \<Longrightarrow> rd_bytes r = l @ rd_bytes r1"
  using read_until_nl_bytes [of "[]" r l r1]
  by (auto simp: read_line_def split: prod.splits sum.splits if_splits)

section \<open>Reading a message\<close>

function read_headers :: "nat option \<Rightarrow> reader \<Rightarrow> (io_stop + nat option) \<times> reader" where
  "read_headers content_length r =
     (case read_line r of
        (Inl e, r1) \<Rightarrow> (Inl e, r1)
      | (Inr header_line, r1) \<Rightarrow>
          if header_line = [] then
            (Inl (UnexpectedEof ''gopls closed stdout before sending a complete message''), r1)
          else
            (let trimmed = trim header_line in
             if trimmed = [] then (Inr content_length, r1)
             else (case strip_prefix trimmed content_length_header of
                     Some val \<Rightarrow> read_headers (parse_usize (trim val)) r1
                   | None \<Rightarrow> read_headers content_length r1)))"
  by pat_completeness auto
termination
  by (relation "measure (\<lambda>(content_length, r). length (rd_bytes r))")
    (auto dest!: read_line_bytes [OF sym])

declare read_headers.simps [simp del]

definition read_message :: "(string \<Rightarrow> string + 'j rpc_response) \<Rightarrow> reader
                            \<Rightarrow> (io_stop + 'j rpc_response) \<times> reader" where
  "read_message decode r =
     (case read_headers None r of
        (Inl e, r1) \<Rightarrow> (Inl e, r1)
      | (Inr None, r1) \<Rightarrow> (Inl (InvalidData ''missing Content-Length header in LSP message''), r1)
      | (Inr (Some n), r1) \<Rightarrow>
          if 2 ^ 63 \<le> n then (Inl Panics, r1)
          else (case read_exact n [] r1 of
                  (Inl e, r2) \<Rightarrow> (Inl e, r2)
                | (Inr body, r2) \<Rightarrow>
                    (case decode body of
                       Inl e \<Rightarrow> (Inl (InvalidData (''invalid JSON in LSP response: '' @ e)), r2)
                     | Inr resp \<Rightarrow> (Inr resp, r2))))"

section \<open>The byte stream\<close>

text \<open>
  The same reader on the bytes still to come, without buffer and segments: the abstract
  specification of \<open>read_message\<close>.
\<close>

definition stream_end :: "bool \<Rightarrow> io_stop + string \<Rightarrow> io_stop + string" where
  "stream_end silent res = (if silent then Inl Blocks else res)"

definition stream_line :: "bool \<Rightarrow> string \<Rightarrow> (io_stop + string) \<times> string" where
  "stream_line silent s =
     (case find_sub s nl of
        None \<Rightarrow> (if silent then Inl Blocks
                 else if utf8_valid s then Inr s
                 else Inl (InvalidData ''stream did not contain valid UTF-8''), [])
      | Some i \<Rightarrow> (if utf8_valid (take (i + 1) s) then Inr (take (i + 1) s)
                  else Inl (InvalidData ''stream did not contain valid UTF-8''), drop (i + 1) s))"

lemma read_until_nl_stream:
  assumes "CHR 0x0A \<notin> set acc"
  shows "(case read_until_nl acc r of (res, r1) \<Rightarrow> (res, rd_bytes r1))
     = (case find_sub (rd_bytes r) nl of
          None \<Rightarrow> (if rd_open r then Inl Blocks else Inr (acc @ rd_bytes r), [])
        | Some i \<Rightarrow> (Inr (acc @ take (i + 1) (rd_bytes r)), drop (i + 1) (rd_bytes r)))"
  using assms
proof (induction acc r rule: read_until_nl.induct)
  case (1 acc r)
  define q where "q = fill_buf r"
  have q: "rd_bytes q = rd_bytes r" "rd_open q = rd_open r" by (simp_all add: q_def)
  define rest where "rest = concat (rd_segs q)"
  have br: "rd_bytes r = rd_buf q @ rest" using q(1) by (simp add: rd_bytes_def rest_def)
  show ?case
  proof (cases "rd_buf q = []")
    case True
    then have "rd_bytes r = []" using fill_buf_empty [of r] by (simp add: q_def)
    with True q show ?thesis
      by (simp add: read_until_nl.simps [of acc r] Let_def q_def [symmetric] nl_def)
  next
    case False
    show ?thesis
    proof (cases "find_sub (rd_buf q) nl")
      case None
      then have n: "CHR 0x0A \<notin> set (rd_buf q)" by (simp add: nl_def find_sub_single split: if_splits)
      then have "find_sub (rd_bytes r) nl = map_option (\<lambda>i. length (rd_buf q) + i) (find_sub rest nl)"
        by (simp add: br nl_def find_sub_single takeWhile_append)
      moreover have "rd_bytes (q\<lparr>rd_buf := []\<rparr>) = rest" by (simp add: rest_def)
      moreover have "read_until_nl acc r = read_until_nl (acc @ rd_buf q) (q\<lparr>rd_buf := []\<rparr>)"
        using False None by (simp add: read_until_nl.simps [of acc r] Let_def q_def [symmetric])
      moreover have "CHR 0x0A \<notin> set (acc @ rd_buf q)" using n "1.prems" by simp
      ultimately show ?thesis
        using "1.IH" [OF q_def False None] q(2) br by (auto split: option.splits)
    next
      case (Some i)
      then have i: "i < length (rd_buf q)" "CHR 0x0A \<in> set (rd_buf q)"
        using find_sub_length [OF Some] by (auto simp: nl_def find_sub_single split: if_splits)
      then have "find_sub (rd_bytes r) nl = Some i"
        using Some by (simp add: br nl_def find_sub_single takeWhile_append1)
      with False Some i show ?thesis
        by (simp add: read_until_nl.simps [of acc r] Let_def q_def [symmetric] br rest_def)
    qed
  qed
qed

lemma read_line_stream:
  "(case read_line r of (res, r1) \<Rightarrow> (res, rd_bytes r1)) = stream_line (rd_open r) (rd_bytes r)"
  using read_until_nl_stream [of "[]" r]
  by (auto simp: read_line_def stream_line_def split: prod.splits sum.splits option.splits if_splits)

lemma read_until_nl_open: "rd_open (snd (read_until_nl acc r)) = rd_open r"
  by (induction acc r rule: read_until_nl.induct)
    (subst read_until_nl.simps, auto simp: Let_def split: option.splits)

lemma read_until_nl_blocks: "fst (read_until_nl acc r) = Inl e \<Longrightarrow> rd_open r"
proof (induction acc r rule: read_until_nl.induct)
  case (1 acc r)
  then show ?case
    by (subst (asm) (2) read_until_nl.simps) (auto simp: Let_def split: if_splits option.splits)
qed

lemma read_line_blocks: "fst (read_line r) = Inl Blocks \<Longrightarrow> rd_open r"
  using read_until_nl_blocks [of "[]" r]
  by (auto simp: read_line_def split: prod.splits sum.splits if_splits)

lemma read_line_open: "rd_open (snd (read_line r)) = rd_open r"
  using read_until_nl_open [of "[]" r]
  by (auto simp: read_line_def split: prod.splits sum.splits)

definition stream_exact :: "bool \<Rightarrow> nat \<Rightarrow> string \<Rightarrow> (io_stop + string) \<times> string" where
  "stream_exact silent n s =
     (if n \<le> length s then (Inr (take n s), drop n s)
      else (Inl (if silent then Blocks else UnexpectedEof ''failed to fill whole buffer''), []))"

lemma read_exact_stream:
  "(case read_exact n acc r of (res, r1) \<Rightarrow> (res, rd_bytes r1))
   = (case stream_exact (rd_open r) n (rd_bytes r) of
        (Inl e, s) \<Rightarrow> (Inl e, s) | (Inr b, s) \<Rightarrow> (Inr (acc @ b), s))"
proof (induction n acc r rule: read_exact.induct)
  case (1 n acc r)
  consider "n = 0" | "n \<noteq> 0" "rd_buf r = []" "buf_capacity \<le> n"
    | "n \<noteq> 0" "\<not> (rd_buf r = [] \<and> buf_capacity \<le> n)" by blast
  then show ?case
  proof cases
    case 1
    then show ?thesis by (simp add: read_exact.simps stream_exact_def)
  next
    case 2
    obtain b segs where p: "pipe_read n (rd_segs r) = (b, segs)" by fastforce
    have bs: "rd_bytes r = b @ concat segs" "length b \<le> n"
      using pipe_read_concat [OF p] pipe_read_le [OF p] 2 by (simp_all add: rd_bytes_def)
    show ?thesis
    proof (cases "b = []")
      case True
      then have "rd_bytes r = []" "concat segs = []"
        using pipe_read_nonempty [OF p] 2 pipe_read_concat [OF p] by (auto simp: rd_bytes_def)
      with True 2 p show ?thesis
        by (simp add: read_exact.simps [of n] short_read_def stream_exact_def)
    next
      case False
      have rec: "read_exact n acc r = read_exact (n - length b) (acc @ b) (r\<lparr>rd_segs := segs\<rparr>)"
        using False 2 p by (simp add: read_exact.simps [of n])
      have "rd_bytes (r\<lparr>rd_segs := segs\<rparr>) = concat segs" using 2 by (simp add: rd_bytes_def)
      with "1.IH"(1) [of "(b, segs)" b segs "r\<lparr>rd_segs := segs\<rparr>"] False 2 p rec bs
      show ?thesis by (auto simp: stream_exact_def)
    qed
  next
    case 3
    define q where "q = fill_buf r"
    have q: "rd_bytes q = rd_bytes r" "rd_open q = rd_open r" by (simp_all add: q_def)
    have br: "rd_bytes r = rd_buf q @ concat (rd_segs q)" using q(1) by (simp add: rd_bytes_def)
    have unf: "read_exact n acc r
        = (if take n (rd_buf q) = [] then short_read q
           else read_exact (n - length (take n (rd_buf q))) (acc @ take n (rd_buf q))
                  (q\<lparr>rd_buf := drop n (rd_buf q)\<rparr>))"
      using 3 by (subst read_exact.simps) (simp only: Let_def q_def [symmetric] if_False simp_thms)
    show ?thesis
    proof (cases "rd_buf q = []")
      case True
      then have "rd_bytes r = []" using fill_buf_empty [of r] by (simp add: q_def)
      with True 3(1) q show ?thesis
        by (simp add: unf short_read_def stream_exact_def)
    next
      case False
      let ?b = "take n (rd_buf q)"
      have nb: "?b \<noteq> []" using False 3 by simp
      have rec: "read_exact n acc r
          = read_exact (n - length ?b) (acc @ ?b) (q\<lparr>rd_buf := drop n (rd_buf q)\<rparr>)"
        using nb by (simp only: unf if_False)
      show ?thesis
        using "1.IH"(2) [OF 3 q_def refl nb] rec q(2) br
        by (auto simp: stream_exact_def min_def split: if_splits)
    qed
  qed
qed

lemma stream_line_shorter: "stream_line silent s = (Inr l, s1) \<Longrightarrow> l \<noteq> [] \<Longrightarrow> length s1 < length s"
  by (auto simp: stream_line_def dest!: find_sub_length split: option.splits if_splits)

function stream_headers :: "bool \<Rightarrow> nat option \<Rightarrow> string \<Rightarrow> (io_stop + nat option) \<times> string" where
  "stream_headers silent content_length s =
     (case stream_line silent s of
        (Inl e, s1) \<Rightarrow> (Inl e, s1)
      | (Inr header_line, s1) \<Rightarrow>
          if header_line = [] then
            (Inl (UnexpectedEof ''gopls closed stdout before sending a complete message''), s1)
          else
            (let trimmed = trim header_line in
             if trimmed = [] then (Inr content_length, s1)
             else (case strip_prefix trimmed content_length_header of
                     Some val \<Rightarrow> stream_headers silent (parse_usize (trim val)) s1
                   | None \<Rightarrow> stream_headers silent content_length s1)))"
  by pat_completeness auto
termination
  by (relation "measure (\<lambda>(silent, content_length, s). length s)")
    (auto dest!: stream_line_shorter [OF sym])

declare stream_headers.simps [simp del]

lemma stream_headers_no_panic: "fst (stream_headers silent cl s) \<noteq> Inl Panics"
proof (induction silent cl s rule: stream_headers.induct)
  case (1 silent cl s)
  obtain res s1 where l: "stream_line silent s = (res, s1)" by fastforce
  have "res \<noteq> Inl Panics" using l by (auto simp: stream_line_def split: option.splits if_splits)
  with l 1 show ?case
    by (auto simp: stream_headers.simps [of silent cl s] Let_def split: sum.splits option.splits)
qed

definition stream_message :: "(string \<Rightarrow> string + 'j rpc_response) \<Rightarrow> bool \<Rightarrow> string
                              \<Rightarrow> (io_stop + 'j rpc_response) \<times> string" where
  "stream_message decode silent s =
     (case stream_headers silent None s of
        (Inl e, s1) \<Rightarrow> (Inl e, s1)
      | (Inr None, s1) \<Rightarrow> (Inl (InvalidData ''missing Content-Length header in LSP message''), s1)
      | (Inr (Some n), s1) \<Rightarrow>
          if 2 ^ 63 \<le> n then (Inl Panics, s1)
          else (case stream_exact silent n s1 of
                  (Inl e, s2) \<Rightarrow> (Inl e, s2)
                | (Inr body, s2) \<Rightarrow>
                    (case decode body of
                       Inl e \<Rightarrow> (Inl (InvalidData (''invalid JSON in LSP response: '' @ e)), s2)
                     | Inr resp \<Rightarrow> (Inr resp, s2))))"

lemma read_headers_stream:
  "(case read_headers cl r of (res, r1) \<Rightarrow> (res, rd_bytes r1)) = stream_headers (rd_open r) cl (rd_bytes r)
   \<and> rd_open (snd (read_headers cl r)) = rd_open r"
proof (induction cl r rule: read_headers.induct)
  case (1 cl r)
  obtain res r1 where l: "read_line r = (res, r1)" by fastforce
  then have sl: "stream_line (rd_open r) (rd_bytes r) = (res, rd_bytes r1)" "rd_open r1 = rd_open r"
    using read_line_stream [of r] read_line_open [of r] by simp_all
  show ?case
  proof (cases res)
    case (Inl e)
    with l sl show ?thesis
      by (simp add: read_headers.simps [of cl r] stream_headers.simps [of _ cl "rd_bytes r"])
  next
    case (Inr line)
    show ?thesis
    proof (cases "line = [] \<or> trim line = []")
      case True
      with l sl Inr show ?thesis
        by (auto simp: read_headers.simps [of cl r] stream_headers.simps [of _ cl "rd_bytes r"] Let_def)
    next
      case False
      with "1.IH" [OF l [unfolded Inr, symmetric] refl] l sl Inr show ?thesis
        by (simp add: read_headers.simps [of cl r] stream_headers.simps [of _ cl "rd_bytes r"] Let_def
            split: option.splits)
    qed
  qed
qed

lemma read_exact_open: "rd_open (snd (read_exact n acc r)) = rd_open r"
proof (induction n acc r rule: read_exact.induct)
  case (1 n acc r)
  show ?case
    by (subst read_exact.simps)
      (use "1.IH" in \<open>auto simp: Let_def short_read_def split: prod.splits\<close>)
qed

lemma read_message_open: "rd_open (snd (read_message decode r)) = rd_open r"
  using read_headers_stream [of None r] read_exact_open
  by (auto simp: read_message_def split: prod.splits sum.splits option.splits if_splits) (metis snd_conv)+

text \<open>Only a pipe the writer keeps open makes a read block.\<close>

lemma read_headers_blocks: "fst (read_headers cl r) = Inl Blocks \<Longrightarrow> rd_open r"
proof (induction cl r rule: read_headers.induct)
  case (1 cl r)
  obtain res q where l: "read_line r = (res, q)" by fastforce
  then have o: "rd_open q = rd_open r" using read_line_open [of r] by simp
  show ?case
  proof (cases res)
    case (Inl e)
    with "1.prems" l read_line_blocks [of r] show ?thesis by (simp add: read_headers.simps [of cl r])
  next
    case (Inr line)
    with "1.prems" "1.IH" [OF l [unfolded Inr, symmetric] refl] l o show ?thesis
      by (auto simp: read_headers.simps [of cl r] Let_def split: if_splits option.splits)
  qed
qed

lemma read_message_blocks: "fst (read_message decode r) = Inl Blocks \<Longrightarrow> rd_open r"
proof -
  assume m: "fst (read_message decode r) = Inl Blocks"
  obtain res q where h: "read_headers None r = (res, q)" by fastforce
  then have o: "rd_open q = rd_open r" using read_headers_stream [of None r] by simp
  have x: "fst (read_exact n [] q) = Inl Blocks \<Longrightarrow> rd_open q" for n
    using read_exact_stream [of n "[]" q] by (auto simp: stream_exact_def split: prod.splits if_splits)
  from m h o x read_headers_blocks [of None r] show ?thesis
    by (auto simp: read_message_def split: sum.splits option.splits if_splits prod.splits) (metis fst_conv)+
qed

section \<open>Properties\<close>

lemma read_message_stream:
  "(case read_message decode r of (res, r1) \<Rightarrow> (res, rd_bytes r1))
   = stream_message decode (rd_open r) (rd_bytes r)"
proof -
  obtain res r1 where h: "read_headers None r = (res, r1)" by fastforce
  then have sh: "stream_headers (rd_open r) None (rd_bytes r) = (res, rd_bytes r1)"
    "rd_open r1 = rd_open r"
    using read_headers_stream [of None r] by simp_all
  show ?thesis
  proof (cases "\<exists>n. res = Inr (Some n) \<and> \<not> 2 ^ 63 \<le> n")
    case False
    with h sh show ?thesis
      by (auto simp: read_message_def stream_message_def split: sum.splits option.splits)
  next
    case True
    then obtain n where n: "res = Inr (Some n)" "\<not> 2 ^ 63 \<le> n" by blast
    obtain res2 r2 where e: "read_exact n [] r1 = (res2, r2)" by fastforce
    then have "stream_exact (rd_open r) n (rd_bytes r1) = (res2, rd_bytes r2)"
      using read_exact_stream [of n "[]" r1] sh(2)
      by (auto split: prod.splits sum.splits)
    with h sh n e show ?thesis
      by (simp add: read_message_def stream_message_def split: sum.splits)
  qed
qed

text \<open>
  C8 (buffered reader). However the bytes of the pipe are cut into segments and whatever part
  of them already sits in the buffer, \<open>read_message\<close> returns what the reader of the plain
  byte stream returns, errors included, and leaves the same bytes to be read.
\<close>

theorem read_message_refines:
  "(case read_message decode r of (res, r1) \<Rightarrow> (res, rd_bytes r1))
   = stream_message decode (rd_open r) (rd_bytes r)"
  by (rule read_message_stream)

text \<open>The header \<open>encode_message\<close> writes.\<close>

definition header_line :: "nat \<Rightarrow> string" where
  "header_line n = ''Content-Length: '' @ show_nat n @ crlf"

lemma header_line_facts:
  "trim (header_line n) = ''Content-Length: '' @ show_nat n"
  "trim ('' '' @ show_nat n) = show_nat n"
  "utf8_valid (header_line n)"
  "find_sub (header_line n @ s) nl = Some (length (header_line n) - 1)"
proof -
  have pw: "plain_word (show_nat n)" by (rule show_nat_plain_word)
  then have pl: "last (show_nat n) \<in> set (show_nat n)" "\<forall>c\<in>set (show_nat n). plain_char c"
    by (auto simp: plain_word_def)
  have pe: "plain_ends (''Content-Length: '' @ show_nat n)"
    using pl by (auto simp: plain_ends_def) (simp add: plain_char_def ascii_ws_def)
  show "trim (header_line n) = ''Content-Length: '' @ show_nat n"
    using trim_pad [OF pe, of "[]" crlf] by (simp add: header_line_def crlf_def ascii_ws_def)
  show "trim ('' '' @ show_nat n) = show_nat n"
    using trim_pad [OF plain_word_ends [OF pw], of "'' ''" "[]"] by (simp add: ascii_ws_def)
  show "utf8_valid (header_line n)"
    using pl by (intro utf8_valid_ascii) (auto simp: header_line_def crlf_def plain_char_def)
  have "CHR 0x0A \<notin> set (show_nat n)" using pl by (auto simp: plain_char_def ascii_ws_def)
  then have "takeWhile (\<lambda>x. x \<noteq> CHR 0x0A) (header_line n @ s) = ''Content-Length: '' @ show_nat n @ [CHR 0x0D]"
    by (induction "show_nat n") (auto simp: header_line_def crlf_def takeWhile_tail takeWhile_append)
  then show "find_sub (header_line n @ s) nl = Some (length (header_line n) - 1)"
    by (simp add: nl_def find_sub_single header_line_def crlf_def)
qed

lemma stream_line_header: "stream_line silent (header_line n @ s) = (Inr (header_line n), s)"
  using header_line_facts(3) [of n] header_line_facts(4) [of n s]
  by (simp add: stream_line_def) (simp add: header_line_def crlf_def)

lemma stream_line_blank: "stream_line silent (crlf @ s) = (Inr crlf, s)"
  by (simp add: stream_line_def crlf_def nl_def starts_with_Cons utf8_valid_ascii)

lemma trim_crlf: "trim crlf = []"
  by (rule trim_all_ws) (simp add: crlf_def ascii_ws_def)

lemma encode_message_header: "encode_message body = header_line (length body) @ crlf @ body"
  by (simp add: encode_message_def header_line_def)

lemma stream_headers_step:
  assumes "n < 2 ^ 64"
  shows "stream_headers silent cl (header_line n @ s) = stream_headers silent (Some n) s"
proof -
  have "strip_prefix (''Content-Length: '' @ show_nat n) content_length_header = Some ('' '' @ show_nat n)"
    by (simp add: content_length_header_def)
  moreover have "header_line n \<noteq> []" by (simp add: header_line_def)
  ultimately show ?thesis
    using header_line_facts(1,2) [of n] parse_usize_show_nat [OF assms]
    by (simp add: stream_headers.simps [of _ cl] stream_line_header Let_def)
qed

lemma stream_headers_encoded:
  assumes "n < 2 ^ 64"
  shows "stream_headers silent cl (header_line n @ crlf @ s) = (Inr (Some n), s)"
proof -
  have "crlf \<noteq> []" by (simp add: crlf_def)
  then show ?thesis
    unfolding stream_headers_step [OF assms]
    by (simp add: stream_headers.simps [of _ "Some n"] stream_line_blank trim_crlf Let_def)
qed

lemma stream_message_encoded:
  assumes "length body < 2 ^ 63"
  shows "stream_message decode silent (encode_message body @ rest)
         = (case decode body of
              Inl e \<Rightarrow> Inl (InvalidData (''invalid JSON in LSP response: '' @ e))
            | Inr resp \<Rightarrow> Inr resp, rest)"
proof -
  have "length body < 2 ^ 64" using assms by simp
  from stream_headers_encoded [OF this] assms show ?thesis
    by (simp add: stream_message_def encode_message_header stream_exact_def split: sum.splits)
qed

lemma wire_message:
  assumes "rd_bytes r = encode_message body @ rest" "length body < 2 ^ 63"
  shows "\<exists>r1. read_message decode r
              = (case decode body of
                   Inl e \<Rightarrow> Inl (InvalidData (''invalid JSON in LSP response: '' @ e))
                 | Inr resp \<Rightarrow> Inr resp, r1)
              \<and> rd_bytes r1 = rest"
proof -
  obtain res r1 where m: "read_message decode r = (res, r1)" by fastforce
  with read_message_stream [of decode r] stream_message_encoded [OF assms(2), of decode "rd_open r" rest]
  have "(res, rd_bytes r1)
        = (case decode body of
             Inl e \<Rightarrow> Inl (InvalidData (''invalid JSON in LSP response: '' @ e))
           | Inr resp \<Rightarrow> Inr resp, rest)"
    unfolding assms(1) by simp
  with m show ?thesis by simp
qed

text \<open>
  C9 (wire round trip). When the bytes to come start with an encoded message, however they
  arrive, \<open>read_message\<close> consumes exactly that message and returns what the JSON decoder
  makes of its body.
\<close>

theorem wire_roundtrip:
  assumes "rd_bytes r = encode_message body @ rest" "length body < 2 ^ 63"
  shows "\<exists>r1. read_message decode r
              = (case decode body of
                   Inl e \<Rightarrow> Inl (InvalidData (''invalid JSON in LSP response: '' @ e))
                 | Inr resp \<Rightarrow> Inr resp, r1)
              \<and> rd_bytes r1 = rest"
  by (rule wire_message [OF assms])

theorem wire_roundtrip_witness:
  "\<exists>r1. read_message (\<lambda>b. Inl b :: string + nat rpc_response)
          \<lparr>rd_buf = ''Conte'', rd_segs = [''nt-Length: 2'' @ crlf, crlf @ ''[]Cont''], rd_open = True\<rparr>
        = (Inl (InvalidData ''invalid JSON in LSP response: []''), r1)
        \<and> rd_bytes r1 = ''Cont''"
proof -
  let ?r = "\<lparr>rd_buf = ''Conte'', rd_segs = [''nt-Length: 2'' @ crlf, crlf @ ''[]Cont''], rd_open = True\<rparr>"
  have "rd_bytes ?r = encode_message ''[]'' @ ''Cont''" by code_simp
  from wire_roundtrip [OF this, of "\<lambda>b. Inl b :: string + nat rpc_response"] show ?thesis by simp
qed

lemma stream_headers_end:
  "stream_headers silent cl [] =
     (Inl (if silent then Blocks
           else UnexpectedEof ''gopls closed stdout before sending a complete message''), [])"
  by (simp add: stream_headers.simps [of _ cl] stream_line_def nl_def)

text \<open>A message that is in the buffer already is read from there; the pipe is not touched.\<close>

lemma fill_buf_buffered: "rd_buf r \<noteq> [] \<Longrightarrow> fill_buf r = r"
  by (simp add: fill_buf_def)

lemma fill_buf_idem [simp]: "fill_buf (fill_buf r) = fill_buf r"
proof (cases "rd_buf (fill_buf r) = []")
  case True
  then have "rd_segs (fill_buf r) = []"
    by (auto simp: fill_buf_def buf_capacity_def split: prod.splits if_splits dest!: pipe_read_end)
  with True show ?thesis by (simp add: fill_buf_def [of "fill_buf r"])
qed (rule fill_buf_buffered)

lemma read_line_buffered:
  assumes "rd_buf r = l @ nl @ t" "CHR 0x0A \<notin> set l" "utf8_valid (l @ nl)"
  shows "read_line r = (Inr (l @ nl), r\<lparr>rd_buf := t\<rparr>)"
proof -
  have "find_sub (rd_buf r) nl = Some (length l)"
    using assms(1,2) by (simp add: nl_def find_sub_single_append)
  moreover have "rd_buf r \<noteq> []" using assms(1) by (simp add: nl_def)
  ultimately have "read_until_nl [] r = (Inr (l @ nl), r\<lparr>rd_buf := t\<rparr>)"
    using assms(1) by (simp add: read_until_nl.simps fill_buf_buffered nl_def)
  with assms(3) show ?thesis by (simp add: read_line_def)
qed

lemma read_headers_buffered:
  assumes "rd_buf r = header_line n @ crlf @ t" "n < 2 ^ 64"
  shows "read_headers None r = (Inr (Some n), r\<lparr>rd_buf := t\<rparr>)"
proof -
  let ?l = "''Content-Length: '' @ show_nat n @ [CHR 0x0D]"
  have h: "header_line n = ?l @ nl" by (simp add: header_line_def crlf_def nl_def)
  have c: "crlf = [CHR 0x0D] @ nl" by (simp add: crlf_def nl_def)
  have "CHR 0x0A \<notin> set ?l"
    using show_nat_plain_word [of n] by (auto simp: plain_word_def plain_char_def ascii_ws_def)
  then have "read_line r = (Inr (header_line n), r\<lparr>rd_buf := crlf @ t\<rparr>)"
    using read_line_buffered [of r ?l "crlf @ t"] header_line_facts(3) [of n] assms(1) by (simp add: h)
  moreover have "read_line (r\<lparr>rd_buf := crlf @ t\<rparr>) = (Inr crlf, r\<lparr>rd_buf := t\<rparr>)"
    using read_line_buffered [of "r\<lparr>rd_buf := crlf @ t\<rparr>" "[CHR 0x0D]" t]
    by (simp add: c utf8_valid_ascii nl_def)
  moreover have "strip_prefix (''Content-Length: '' @ show_nat n) content_length_header
                 = Some ('' '' @ show_nat n)"
    by (simp add: content_length_header_def)
  moreover have "header_line n \<noteq> []" "crlf \<noteq> []" by (simp_all add: header_line_def crlf_def)
  ultimately show ?thesis
    using header_line_facts(1,2) [of n] parse_usize_show_nat [OF assms(2)]
    by (simp add: read_headers.simps [of None] read_headers.simps [of "Some n"] trim_crlf Let_def)
qed

lemma read_message_buffered:
  assumes "rd_buf r = encode_message body @ t" "length body < 2 ^ 63" "decode body = Inr resp"
  shows "read_message decode r = (Inr resp, r\<lparr>rd_buf := t\<rparr>)"
proof -
  have "length body < 2 ^ 64" using assms(2) by simp
  then have h: "read_headers None r = (Inr (Some (length body)), r\<lparr>rd_buf := body @ t\<rparr>)"
    using read_headers_buffered [of r "length body" "body @ t"] assms(1)
    by (simp add: encode_message_header)
  have "read_exact (length body) [] (r\<lparr>rd_buf := body @ t\<rparr>) = (Inr body, r\<lparr>rd_buf := t\<rparr>)"
  proof (cases "body = []")
    case False
    then show ?thesis
      by (simp add: read_exact.simps [of "length body"] fill_buf_buffered) (simp add: read_exact.simps)
  qed (simp add: read_exact.simps)
  with h assms(2,3) show ?thesis by (simp add: read_message_def)
qed

lemma read_until_nl_fill: "read_until_nl acc r = read_until_nl acc (fill_buf r)"
  by (subst (1 2) read_until_nl.simps) simp

lemma read_message_fill: "read_message decode r = read_message decode (fill_buf r)"
proof -
  have "read_line r = read_line (fill_buf r)"
    unfolding read_line_def by (subst read_until_nl_fill) (rule refl)
  then have "read_headers None r = read_headers None (fill_buf r)"
    by (simp add: read_headers.simps [of None])
  then show ?thesis by (simp add: read_message_def)
qed

lemma stream_headers_cr:
  "stream_headers silent cl [CHR 0x0D] = (if silent then Inl Blocks else Inr cl, [])"
proof -
  have "trim [CHR 0x0D] = []" by (rule trim_all_ws) (simp add: ascii_ws_def)
  moreover have "utf8_valid [CHR 0x0D]" by (rule utf8_valid_ascii) simp
  ultimately show ?thesis
    by (simp add: stream_headers.simps [of _ cl] stream_line_def nl_def starts_with_Cons)
qed

text \<open>A header line without its line feed, then the end of the stream.\<close>

lemma stream_headers_cut_line:
  assumes "sent @ m = header_line n" "m \<noteq> []"
  shows "\<exists>e. fst (stream_headers silent cl sent) = Inl e
             \<and> (if silent then e = Blocks else \<exists>t. e = UnexpectedEof t)"
proof (cases sent)
  case Nil
  then show ?thesis by (simp add: stream_headers_end)
next
  case (Cons c cs)
  have b: "butlast (header_line n) = sent @ butlast m"
    using assms by (metis butlast_append)
  have "CHR 0x0A \<notin> set (butlast (header_line n))" and asc: "\<forall>x\<in>set (header_line n). (of_char x :: nat) < 128"
    using show_nat_plain_word [of n]
    by (auto simp: header_line_def crlf_def butlast_append plain_word_def plain_char_def ascii_ws_def)
  then have f: "find_sub sent nl = None" using b by (simp add: nl_def find_sub_single)
  have u: "utf8_valid sent" by (rule utf8_valid_ascii) (use asc assms(1) [symmetric] in auto)
  have "c = CHR ''C''" using assms(1) Cons by (simp add: header_line_def)
  then have t: "trim sent \<noteq> []"
    using Cons by (simp add: trim_plain_head plain_char_def ascii_ws_def)
  have "stream_line silent sent = (if silent then Inl Blocks else Inr sent, [])"
    using f u by (simp add: stream_line_def)
  moreover have "sent \<noteq> []" using Cons by simp
  ultimately show ?thesis
    using t by (simp add: stream_headers.simps [of _ cl sent] stream_headers_end Let_def split: option.splits)
qed

text \<open>
  Property (truncated stream). A message with a body, cut anywhere before its last byte, is never
  decoded: the read fails with an end of file when \<open>gopls\<close> has closed the pipe, and blocks when it has not.
\<close>

theorem truncated_message_not_decoded:
  assumes "encode_message body = rd_bytes r @ missing" "missing \<noteq> []" "body \<noteq> []"
    and "length body < 2 ^ 63"
  shows "\<exists>e. fst (read_message decode r) = Inl e
             \<and> (if rd_open r then e = Blocks else \<exists>t. e = UnexpectedEof t)"
proof -
  let ?h = "header_line (length body)" and ?s = "rd_bytes r" and ?o = "rd_open r"
  have split: "?h @ crlf @ body = ?s @ missing" using assms(1) by (simp add: encode_message_header)
  have body: "0 < length body" "length body < 2 ^ 64" using assms(3,4) by simp_all
  have "\<exists>e. fst (stream_message decode ?o ?s) = Inl e
            \<and> (if ?o then e = Blocks else \<exists>t. e = UnexpectedEof t)"
  proof (cases "length ?s < length ?h")
    case True
    have "?s = take (length ?s) (?h @ crlf @ body)" using split by simp
    also have "\<dots> = take (length ?s) ?h" using True by simp
    finally have "?s @ drop (length ?s) ?h = ?h" by (metis append_take_drop_id)
    moreover have "drop (length ?s) ?h \<noteq> []" using True by simp
    note cut = stream_headers_cut_line [OF calculation this]
    from cut [of ?o None] show ?thesis
      by (auto simp: stream_message_def split: prod.splits)
  next
    case False
    define u where "u = drop (length ?h) ?s"
    have "take (length ?h) (?s @ missing) = ?h" unfolding split [symmetric] by simp
    then have "take (length ?h) ?s = ?h" using False by simp
    then have u: "?s = ?h @ u" unfolding u_def by (metis append_take_drop_id)
    then have "crlf @ body = u @ missing" using split by simp
    then consider "u = []" | "u = [CHR 0x0D]" | b where "u = crlf @ b" "body = b @ missing"
      by (cases u; cases "tl u") (auto simp: crlf_def)
    then show ?thesis
    proof cases
      case 1
      have "stream_headers ?o None ?s = stream_headers ?o (Some (length body)) []"
        using stream_headers_step [OF body(2), of ?o None "[]"] u 1 by simp
      then show ?thesis by (simp add: stream_message_def stream_headers_end)
    next
      case 2
      have "stream_headers ?o None ?s = stream_headers ?o (Some (length body)) [CHR 0x0D]"
        using stream_headers_step [OF body(2), of ?o None "[CHR 0x0D]"] u 2 by simp
      with stream_headers_cr [of ?o "Some (length body)"] body assms(4) show ?thesis
        by (simp add: stream_message_def stream_exact_def)
    next
      case 3
      have "stream_headers ?o None ?s = (Inr (Some (length body)), b)"
        using stream_headers_encoded [OF body(2)] u 3(1) by simp
      moreover have "length b < length body" using 3(2) assms(2) by simp
      ultimately show ?thesis using assms(4) by (simp add: stream_message_def stream_exact_def)
    qed
  qed
  moreover have "fst (read_message decode r) = fst (stream_message decode ?o ?s)"
    using read_message_stream [of decode r] by (simp split: prod.splits) (metis fst_conv)
  ultimately show ?thesis by simp
qed

theorem truncated_message_not_decoded_witness:
  "fst (read_message (\<lambda>b. Inl b :: string + nat rpc_response)
          \<lparr>rd_buf = [], rd_segs = [''Content-Length: 2'' @ crlf @ crlf, ''[''], rd_open = True\<rparr>)
   = Inl Blocks"
proof -
  let ?r = "\<lparr>rd_buf = [], rd_segs = [''Content-Length: 2'' @ crlf @ crlf, ''[''], rd_open = True\<rparr>"
  have "encode_message ''[]'' = rd_bytes ?r @ '']''" by code_simp
  from truncated_message_not_decoded [OF this, of "\<lambda>b. Inl b :: string + nat rpc_response"] show ?thesis by simp
qed

text \<open>
  Property (URIs). Converting a path to a URI and back is the identity on paths that are not
  already \<open>file://\<close> URIs, and the conversion to a URI is idempotent.
\<close>

theorem uri_roundtrip:
  "path_to_uri (path_to_uri path) = path_to_uri path
   \<and> uri_to_path (path_to_uri path)
     = (if starts_with path ''file://'' then drop 7 path else path)"
  by (auto simp: path_to_uri_def uri_to_path_def starts_with_iff)

end
