(* ===== verification/LspClient.thy ===== *)
theory LspClient
  imports LspWire
begin

text \<open>
  \<open>src/lsp/client.rs\<close>: the \<open>gopls\<close> client. The state of \<open>GoplsClient\<close> is the record
  \<open>gopls\<close>: the id counter, what was written to the child's standard input, and what its
  standard output still holds, as the segments later reads find. The environment decides
  which writes fail, what the clock reads and what the child prints; a read that blocks
  forever and a panic are outcomes of their own.

  JSON is \<open>serde_json\<close>'s, and the type of its values is a parameter: the record
  \<open>json_api\<close> holds the encoder of requests and the decoders the client calls.
\<close>

section \<open>Protocol data\<close>

record lsp_position =
  lp_line :: "32 word"
  lp_character :: "32 word"

record lsp_range =
  lr_start :: lsp_position
  lr_end :: lsp_position

record lsp_location =
  ll_uri :: string
  ll_range :: lsp_range

datatype hover_contents = Markup string string | Plain string

fun hover_text :: "hover_contents \<Rightarrow> string" where
  "hover_text (Markup kind val) = val"
| "hover_text (Plain s) = s"

text \<open>The parameter objects the client builds.\<close>

datatype lsp_params =
    InitializeParams string
  | PositionParams string lsp_position
  | ReferenceParams string lsp_position bool

record rpc_message =
  rm_id :: "64 word option"
  rm_method :: string
  rm_params :: "lsp_params option"

record 'j json_api =
  js_encode :: "rpc_message \<Rightarrow> string"
  js_decode :: "string \<Rightarrow> string + 'j rpc_response"
  js_is_array :: "'j \<Rightarrow> bool"
  js_is_object :: "'j \<Rightarrow> bool"
  js_is_null :: "'j \<Rightarrow> bool"
  js_locations :: "'j \<Rightarrow> lsp_location list option"
  js_location :: "'j \<Rightarrow> lsp_location option"
  js_hover :: "'j \<Rightarrow> hover_contents option"

section \<open>Errors and state\<close>

datatype client_error =
    NotFound
  | SpawnFailed string
  | InvalidWorkspace string
  | InitializeFailed string
  | Timeout string nat
  | ClientIo string
  | RpcError int string
  | ProcessExited

datatype client_stop = Fails client_error | HangsForever | PanicsHere

fun io_failure :: "io_stop \<Rightarrow> client_stop" where
  "io_failure (UnexpectedEof e) = Fails (ClientIo e)"
| "io_failure (InvalidData e) = Fails (ClientIo e)"
| "io_failure Blocks = HangsForever"
| "io_failure Panics = PanicsHere"

text \<open>
  What a write to the pipe of \<open>gopls\<close> comes to: all of it is taken, it fails, or \<open>gopls\<close> stops
  reading with the pipe full and keeps it open, and the write never returns.
\<close>

datatype write_outcome = WriteDone | WriteFails string | WriteBlocks

text \<open>
  \<open>gc_write_faults\<close> lists the outcomes of the coming writes (the rest succeed);
  \<open>gc_elapsed rid k\<close> is the \<open>k\<close>-th reading of \<open>start.elapsed()\<close> during request \<open>rid\<close>, in
  milliseconds. The pipes are \<open>None\<close> when the child's handle has been taken.
\<close>

record gopls =
  gc_next_id :: "64 word"
  gc_stdin :: "string option"
  gc_write_faults :: "write_outcome list"
  gc_stdout :: "string list option"
  gc_open :: bool
  gc_timeout :: nat
  gc_elapsed :: "64 word \<Rightarrow> nat \<Rightarrow> nat"

section \<open>Low-level communication\<close>

definition write_stdin :: "string \<Rightarrow> gopls \<Rightarrow> (client_stop + unit) \<times> gopls" where
  "write_stdin bytes g =
     (case gc_stdin g of
        None \<Rightarrow> (Inl (Fails ProcessExited), g)
      | Some written \<Rightarrow>
          (case gc_write_faults g of
             WriteFails e # fs \<Rightarrow> (Inl (Fails (ClientIo e)), g\<lparr>gc_write_faults := fs\<rparr>)
           | WriteBlocks # fs \<Rightarrow> (Inl HangsForever, g)
           | WriteDone # fs \<Rightarrow> (Inr (), g\<lparr>gc_stdin := Some (written @ bytes), gc_write_faults := fs\<rparr>)
           | [] \<Rightarrow> (Inr (), g\<lparr>gc_stdin := Some (written @ bytes)\<rparr>)))"

text \<open>A message that was read has shortened what is left.\<close>

lemma read_headers_consumes:
  "read_headers cl r = (Inr n, r1) \<Longrightarrow> length (rd_bytes r1) < length (rd_bytes r)"
proof (induction cl r arbitrary: n r1 rule: read_headers.induct)
  case (1 cl r)
  obtain l q where l: "read_line r = (Inr l, q)" "l \<noteq> []"
    using "1.prems" by (auto simp: read_headers.simps [of cl r] split: prod.splits sum.splits if_splits)
  then have less: "length (rd_bytes q) < length (rd_bytes r)"
    by (simp add: read_line_bytes [OF l(1)])
  show ?case
  proof (cases "trim l = []")
    case True
    with "1.prems" l less show ?thesis by (simp add: read_headers.simps [of cl r])
  next
    case False
    then obtain cl' where "read_headers cl' q = (Inr n, r1)" "length (rd_bytes r1) < length (rd_bytes q)"
      using "1.prems" l "1.IH" [OF l(1) [symmetric] refl l(2) refl False]
      by (auto simp: read_headers.simps [of cl r] Let_def split: option.splits)
    with less show ?thesis by simp
  qed
qed

lemma read_exact_shrinks: "length (rd_bytes (snd (read_exact n acc r))) \<le> length (rd_bytes r)"
proof -
  obtain res r1 where x: "read_exact n acc r = (res, r1)" by fastforce
  with read_exact_stream [of n acc r] have "rd_bytes r1 = drop n (rd_bytes r) \<or> rd_bytes r1 = []"
    by (auto simp: stream_exact_def split: if_splits)
  with x show ?thesis by auto
qed

lemma read_message_consumes:
  "read_message decode r = (Inr resp, r1) \<Longrightarrow> length (rd_bytes r1) < length (rd_bytes r)"
proof -
  assume m: "read_message decode r = (Inr resp, r1)"
  then obtain n q where h: "read_headers None r = (Inr (Some n), q)"
    and x: "snd (read_exact n [] q) = r1"
    by (auto simp: read_message_def split: prod.splits sum.splits option.splits if_splits)
  from read_exact_shrinks [of n "[]" q] x read_headers_consumes [OF h] show ?thesis by simp
qed

text \<open>The loop of \<open>send_request\<close> over the incoming messages.\<close>

function receive :: "(string \<Rightarrow> string + 'j rpc_response) \<Rightarrow> string \<Rightarrow> 64 word \<Rightarrow> nat \<Rightarrow> (nat \<Rightarrow> nat)
                     \<Rightarrow> nat \<Rightarrow> reader \<Rightarrow> (client_stop + 'j rpc_response) \<times> reader" where
  "receive decode method rid timeout elapsed k r =
     (if timeout < elapsed k then (Inl (Fails (Timeout method (elapsed (k + 1)))), r)
      else (case read_message decode r of
              (Inl e, r1) \<Rightarrow> (Inl (io_failure e), r1)
            | (Inr resp, r1) \<Rightarrow>
                if rr_id resp = None then receive decode method rid timeout elapsed (k + 1) r1
                else if rr_id resp = Some rid then (Inr resp, r1)
                else receive decode method rid timeout elapsed (k + 1) r1))"
  by pat_completeness auto
termination
  by (relation "measure (\<lambda>(decode, method, rid, timeout, elapsed, k, r). length (rd_bytes r))")
    (auto dest!: read_message_consumes [OF sym])

declare receive.simps [simp del]

text \<open>
  \<open>send_request\<close> reads through a \<open>BufReader\<close> of its own; dropping it at the end drops
  whatever it has buffered, and only the segments stay in the pipe.
\<close>

definition send_request :: "'j json_api \<Rightarrow> string \<Rightarrow> lsp_params option \<Rightarrow> gopls
                            \<Rightarrow> (client_stop + 'j rpc_response) \<times> gopls" where
  "send_request api method params g =
     (let rid = gc_next_id g;
          encoded = encode_message (js_encode api \<lparr>rm_id = Some rid, rm_method = method, rm_params = params\<rparr>)
      in case write_stdin encoded (g\<lparr>gc_next_id := rid + 1\<rparr>) of
           (Inl e, g1) \<Rightarrow> (Inl e, g1)
         | (Inr _, g1) \<Rightarrow>
             (case gc_stdout g1 of
                None \<Rightarrow> (Inl (Fails ProcessExited), g1)
              | Some segs \<Rightarrow>
                  (let (res, r) = receive (js_decode api) method rid (gc_timeout g1) (gc_elapsed g1 rid) 0
                                    \<lparr>rd_buf = [], rd_segs = segs, rd_open = gc_open g1\<rparr>
                   in (res, g1\<lparr>gc_stdout := Some (rd_segs r)\<rparr>))))"

definition send_notification :: "'j json_api \<Rightarrow> string \<Rightarrow> lsp_params option \<Rightarrow> gopls
                                 \<Rightarrow> (client_stop + unit) \<times> gopls" where
  "send_notification api method params g =
     write_stdin (encode_message (js_encode api \<lparr>rm_id = None, rm_method = method, rm_params = params\<rparr>)) g"

definition check_rpc_error :: "'j rpc_response \<Rightarrow> client_stop + unit" where
  "check_rpc_error resp =
     (case rr_error resp of
        Some err \<Rightarrow> Inl (Fails (RpcError (re_code err) (re_message err)))
      | None \<Rightarrow> Inr ())"

section \<open>Queries\<close>

definition no_location :: lsp_location where
  "no_location =
     \<lparr>ll_uri = [], ll_range = \<lparr>lr_start = \<lparr>lp_line = 0, lp_character = 0\<rparr>,
                            lr_end = \<lparr>lp_line = 0, lp_character = 0\<rparr>\<rparr>\<rparr>"

definition or_default :: "'a list option \<Rightarrow> 'a list" where
  "or_default x = (case x of None \<Rightarrow> [] | Some xs \<Rightarrow> xs)"

definition definition_result :: "'j json_api \<Rightarrow> 'j option \<Rightarrow> lsp_location list" where
  "definition_result api result =
     (case result of
        Some val \<Rightarrow>
          if js_is_array api val then or_default (js_locations api val)
          else if js_is_object api val then
            [case js_location api val of None \<Rightarrow> no_location | Some l \<Rightarrow> l]
          else []
      | None \<Rightarrow> [])"

definition lsp_definition :: "'j json_api \<Rightarrow> string \<Rightarrow> 32 word \<Rightarrow> 32 word \<Rightarrow> gopls
                              \<Rightarrow> (client_stop + lsp_location list) \<times> gopls" where
  "lsp_definition api file line character g =
     (let params = PositionParams (path_to_uri file) \<lparr>lp_line = line, lp_character = character\<rparr> in
      case send_request api ''textDocument/definition'' (Some params) g of
        (Inl e, g1) \<Rightarrow> (Inl e, g1)
      | (Inr resp, g1) \<Rightarrow>
          (case check_rpc_error resp of
             Inl e \<Rightarrow> (Inl e, g1)
           | Inr _ \<Rightarrow> (Inr (definition_result api (rr_result resp)), g1)))"

definition lsp_references :: "'j json_api \<Rightarrow> string \<Rightarrow> 32 word \<Rightarrow> 32 word \<Rightarrow> bool \<Rightarrow> gopls
                              \<Rightarrow> (client_stop + lsp_location list) \<times> gopls" where
  "lsp_references api file line character include_declaration g =
     (let params = ReferenceParams (path_to_uri file) \<lparr>lp_line = line, lp_character = character\<rparr>
                     include_declaration in
      case send_request api ''textDocument/references'' (Some params) g of
        (Inl e, g1) \<Rightarrow> (Inl e, g1)
      | (Inr resp, g1) \<Rightarrow>
          (case check_rpc_error resp of
             Inl e \<Rightarrow> (Inl e, g1)
           | Inr _ \<Rightarrow>
               (Inr (case rr_result resp of Some val \<Rightarrow> or_default (js_locations api val) | None \<Rightarrow> []), g1)))"

definition lsp_hover :: "'j json_api \<Rightarrow> string \<Rightarrow> 32 word \<Rightarrow> 32 word \<Rightarrow> gopls
                         \<Rightarrow> (client_stop + hover_contents option) \<times> gopls" where
  "lsp_hover api file line character g =
     (let params = PositionParams (path_to_uri file) \<lparr>lp_line = line, lp_character = character\<rparr> in
      case send_request api ''textDocument/hover'' (Some params) g of
        (Inl e, g1) \<Rightarrow> (Inl e, g1)
      | (Inr resp, g1) \<Rightarrow>
          (case check_rpc_error resp of
             Inl e \<Rightarrow> (Inl e, g1)
           | Inr _ \<Rightarrow>
               (Inr (case rr_result resp of
                       None \<Rightarrow> None
                     | Some val \<Rightarrow> if js_is_null api val then None else js_hover api val), g1)))"

section \<open>Lifecycle\<close>

definition initialize :: "'j json_api \<Rightarrow> string \<Rightarrow> gopls \<Rightarrow> (client_stop + unit) \<times> gopls" where
  "initialize api workspace_root g =
     (case send_request api ''initialize'' (Some (InitializeParams (path_to_uri workspace_root))) g of
        (Inl e, g1) \<Rightarrow> (Inl e, g1)
      | (Inr resp, g1) \<Rightarrow>
          (case rr_error resp of
             Some err \<Rightarrow> (Inl (Fails (InitializeFailed (re_message err))), g1)
           | None \<Rightarrow> send_notification api ''initialized'' None g1))"

definition shutdown_inner :: "'j json_api \<Rightarrow> gopls \<Rightarrow> (client_stop + unit) \<times> gopls" where
  "shutdown_inner api g =
     (case send_request api ''shutdown'' None g of
        (Inl e, g1) \<Rightarrow> (Inl e, g1)
      | (Inr resp, g1) \<Rightarrow>
          (case check_rpc_error resp of
             Inl e \<Rightarrow> (Inl e, g1)
           | Inr _ \<Rightarrow> send_notification api ''exit'' None g1))"

text \<open>
  Dropping a client sends a shutdown request and ignores its outcome, unless it does not
  return; \<open>shutdown\<close> consumes the client, so that the drop follows it.
\<close>

definition drop_client :: "'j json_api \<Rightarrow> gopls \<Rightarrow> client_stop + unit" where
  "drop_client api g =
     (case fst (shutdown_inner api g) of
        Inl HangsForever \<Rightarrow> Inl HangsForever
      | Inl PanicsHere \<Rightarrow> Inl PanicsHere
      | _ \<Rightarrow> Inr ())"

definition client_shutdown :: "'j json_api \<Rightarrow> gopls \<Rightarrow> client_stop + unit" where
  "client_shutdown api g =
     (case shutdown_inner api g of
        (Inl HangsForever, _) \<Rightarrow> Inl HangsForever
      | (Inl PanicsHere, _) \<Rightarrow> Inl PanicsHere
      | (res, g1) \<Rightarrow>
          (case drop_client api g1 of Inl stop \<Rightarrow> Inl stop | Inr _ \<Rightarrow> res))"

text \<open>What starting finds: the canonical path, whether it is a directory, \<open>which gopls\<close>, the child.\<close>

record start_env =
  se_canonical :: "string option"
  se_is_dir :: bool
  se_gopls :: "string option"
  se_spawn :: "string + gopls"

text \<open>
  A failed \<open>initialize\<close> drops the client, which sends a shutdown request first and can hang
  in it.
\<close>

definition start_with_timeout :: "'j json_api \<Rightarrow> start_env \<Rightarrow> string \<Rightarrow> nat
                                  \<Rightarrow> client_stop + gopls" where
  "start_with_timeout api env workspace_root timeout =
     (case se_canonical env of
        None \<Rightarrow> Inl (Fails (InvalidWorkspace workspace_root))
      | Some root \<Rightarrow>
          if \<not> se_is_dir env then Inl (Fails (InvalidWorkspace root))
          else (case se_gopls env of
                  None \<Rightarrow> Inl (Fails NotFound)
                | Some _ \<Rightarrow>
                    (case se_spawn env of
                       Inl e \<Rightarrow> Inl (Fails (SpawnFailed e))
                     | Inr g \<Rightarrow>
                         (case initialize api root (g\<lparr>gc_next_id := 1, gc_timeout := timeout\<rparr>) of
                            (Inr _, g1) \<Rightarrow> Inr g1
                          | (Inl (Fails e), g1) \<Rightarrow>
                              (case drop_client api g1 of
                                 Inl stop \<Rightarrow> Inl stop
                               | Inr _ \<Rightarrow> Inl (Fails e))
                          | (Inl stop, _) \<Rightarrow> Inl stop))))"

section \<open>The receive loop\<close>

text \<open>One turn of the loop.\<close>

lemma receive_late:
  "timeout < elapsed k \<Longrightarrow> receive decode method rid timeout elapsed k r
     = (Inl (Fails (Timeout method (elapsed (k + 1)))), r)"
  by (simp add: receive.simps [of _ _ _ _ _ k])

lemma receive_error:
  "\<not> timeout < elapsed k \<Longrightarrow> read_message decode r = (Inl e, r1) \<Longrightarrow>
     receive decode method rid timeout elapsed k r = (Inl (io_failure e), r1)"
  by (simp add: receive.simps [of _ _ _ _ _ k])

lemma receive_answer:
  "\<not> timeout < elapsed k \<Longrightarrow> read_message decode r = (Inr resp, r1) \<Longrightarrow> rr_id resp = Some rid \<Longrightarrow>
     receive decode method rid timeout elapsed k r = (Inr resp, r1)"
  by (simp add: receive.simps [of _ _ _ _ _ k])

lemma receive_other:
  "\<not> timeout < elapsed k \<Longrightarrow> read_message decode r = (Inr resp, r1) \<Longrightarrow> rr_id resp \<noteq> Some rid \<Longrightarrow>
     receive decode method rid timeout elapsed k r = receive decode method rid timeout elapsed (k + 1) r1"
  by (simp add: receive.simps [of _ _ _ _ _ k])

lemmas receive_turn = receive_late receive_error receive_answer receive_other

text \<open>Induction over the turns.\<close>

lemma receive_cases [case_names late error answer other]:
  assumes "\<And>k r. timeout < elapsed k \<Longrightarrow> P k r"
    and "\<And>k r e r1. \<not> timeout < elapsed k \<Longrightarrow> read_message decode r = (Inl e, r1) \<Longrightarrow> P k r"
    and "\<And>k r resp r1. \<not> timeout < elapsed k \<Longrightarrow> read_message decode r = (Inr resp, r1) \<Longrightarrow>
           rr_id resp = Some rid \<Longrightarrow> P k r"
    and "\<And>k r resp r1. \<not> timeout < elapsed k \<Longrightarrow> read_message decode r = (Inr resp, r1) \<Longrightarrow>
           rr_id resp \<noteq> Some rid \<Longrightarrow> P (k + 1) r1 \<Longrightarrow> P k r"
  shows "P k (r :: reader)"
proof (induction "length (rd_bytes r)" arbitrary: k r rule: less_induct)
  case less
  obtain res q where m: "read_message decode r = (res, q)" by fastforce
  show ?case
  proof (cases "timeout < elapsed k")
    case False
    show ?thesis
    proof (cases res)
      case (Inr resp)
      with m have m': "read_message decode r = (Inr resp, q)" by simp
      show ?thesis
        using assms(3,4) [OF False m'] less [OF read_message_consumes [OF m']] by blast
    qed (use assms(2) False m in blast)
  qed (rule assms(1))
qed

lemma receive_id: "receive decode method rid timeout elapsed k r = (Inr resp, r1) \<Longrightarrow> rr_id resp = Some rid"
  by (induction k r rule: receive_cases [of timeout elapsed _ decode rid])
    (simp_all add: receive_turn)

text \<open>Messages for other requests and notifications are skipped, whatever the segments.\<close>

lemma receive_skips:
  assumes "rd_bytes r = concat (map encode_message (skipped @ [answer])) @ rest"
    and "\<forall>b\<in>set (skipped @ [answer]). length b < 2 ^ 63"
    and "\<forall>b\<in>set skipped. \<exists>m. decode b = Inr m \<and> rr_id m \<noteq> Some rid"
    and "decode answer = Inr resp" "rr_id resp = Some rid"
    and "\<forall>j\<le>length skipped. elapsed (k + j) \<le> timeout"
  shows "\<exists>r1. receive decode method rid timeout elapsed k r = (Inr resp, r1) \<and> rd_bytes r1 = rest"
  using assms
proof (induction skipped arbitrary: k r)
  case Nil
  then have "rd_bytes r = encode_message answer @ rest" "length answer < 2 ^ 63" by simp_all
  from wire_message [OF this, of decode] obtain r1
    where "read_message decode r = (Inr resp, r1)" "rd_bytes r1 = rest"
    using Nil.prems(4) by auto
  with Nil.prems(5,6) show ?case by (simp add: receive_answer)
next
  case (Cons b bs)
  let ?more = "concat (map encode_message (bs @ [answer])) @ rest"
  have "rd_bytes r = encode_message b @ ?more" "length b < 2 ^ 63" using Cons.prems(1,2) by simp_all
  from wire_message [OF this, of decode] obtain m r1
    where m: "read_message decode r = (Inr m, r1)" "rd_bytes r1 = ?more" "rr_id m \<noteq> Some rid"
    using Cons.prems(3) by auto
  have "\<forall>j\<le>length bs. elapsed (k + 1 + j) \<le> timeout"
    using Cons.prems(6) by (metis Suc_eq_plus1_left add.assoc add_le_cancel_left length_Cons plus_1_eq_Suc)
  with Cons.IH [OF m(2) _ _ Cons.prems(4,5), of "k + 1"] Cons.prems(2,3) obtain r2
    where "receive decode method rid timeout elapsed (k + 1) r1 = (Inr resp, r2)" "rd_bytes r2 = rest"
    by auto
  moreover have "elapsed k \<le> timeout" using Cons.prems(6) [rule_format, of 0] by simp
  ultimately show ?case using m(1,3) by (simp add: receive_other not_less)
qed

text \<open>Blocking needs a pipe the writer keeps open.\<close>

lemma receive_blocks:
  "fst (receive decode method rid timeout elapsed k r) = Inl HangsForever \<Longrightarrow> rd_open r"
proof (induction k r rule: receive_cases [of timeout elapsed _ decode rid])
  case (error k r e r1)
  then have "e = Blocks" by (cases e) (simp_all add: receive_error)
  with error(2) read_message_blocks [of decode r] show ?case by simp
next
  case (other k r resp r1)
  then have "rd_open r1" by (simp add: receive_other)
  with other(2) read_message_open [of decode r] show ?case by simp
qed (simp_all add: receive_turn)

section \<open>A small JSON\<close>

text \<open>
  An instance of the JSON parameter to run the client on: the body of a message with an id is
  that many times \<open>i\<close>, a notification is \<open>n\<close>, and the result of a response is its id.
\<close>

definition toy_response :: "nat \<Rightarrow> nat rpc_response" where
  "toy_response k = \<lparr>rr_id = Some (of_nat k), rr_result = Some k, rr_error = None\<rparr>"

definition toy_api :: "nat json_api" where
  "toy_api =
     \<lparr>js_encode = (\<lambda>m. case rm_id m of None \<Rightarrow> ''n'' | Some i \<Rightarrow> replicate (unat i) CHR ''i''),
      js_decode = (\<lambda>b. if b = ''n'' then Inr \<lparr>rr_id = None, rr_result = None, rr_error = None\<rparr>
                       else if list_all (\<lambda>c. c = CHR ''i'') b then Inr (toy_response (length b))
                       else Inl ''expected value''),
      js_is_array = (\<lambda>j. True), js_is_object = (\<lambda>j. False), js_is_null = (\<lambda>j. j = 0),
      js_locations = (\<lambda>j. Some (replicate j no_location)), js_location = (\<lambda>j. None),
      js_hover = (\<lambda>j. Some (Plain (show_nat j)))\<rparr>"

lemma toy_decode:
  "js_decode toy_api ''n'' = Inr \<lparr>rr_id = None, rr_result = None, rr_error = None\<rparr>"
  "js_decode toy_api ''i'' = Inr (toy_response 1)"
  "js_decode toy_api ''iii'' = Inr (toy_response 3)"
  by (simp_all add: toy_api_def numeral_3_eq_3)

definition toy_gopls :: "string list \<Rightarrow> bool \<Rightarrow> gopls" where
  "toy_gopls segs silent =
     \<lparr>gc_next_id = 1, gc_stdin = Some [], gc_write_faults = [], gc_stdout = Some segs, gc_open = silent,
      gc_timeout = 30000, gc_elapsed = (\<lambda>rid k. 10 * k)\<rparr>"

section \<open>Properties\<close>

lemma write_stdin_next_id: "gc_next_id (snd (write_stdin b g)) = gc_next_id g"
  by (auto simp: write_stdin_def split: option.splits list.splits write_outcome.splits)

lemma send_request_id:
  "send_request api method params g = (Inr resp, g1) \<Longrightarrow> rr_id resp = Some (gc_next_id g)"
  by (auto simp: send_request_def Let_def dest: receive_id
      split: prod.splits sum.splits option.splits)

lemma send_request_next: "gc_next_id (snd (send_request api method params g)) = gc_next_id g + 1"
proof -
  have "gc_next_id (snd (write_stdin b (g\<lparr>gc_next_id := gc_next_id g + 1\<rparr>))) = gc_next_id g + 1" for b
    by (simp add: write_stdin_next_id)
  then show ?thesis
    unfolding send_request_def
    by (auto simp: Let_def split: prod.splits sum.splits option.splits) (metis snd_conv)+
qed

lemma send_request_skips:
  assumes "gc_stdin g = Some w" "gc_write_faults g = []" "gc_stdout g = Some segs"
    and "concat segs = concat (map encode_message (skipped @ [answer])) @ rest"
    and "\<forall>b\<in>set (skipped @ [answer]). length b < 2 ^ 63"
    and "\<forall>b\<in>set skipped. \<exists>m. js_decode api b = Inr m \<and> rr_id m \<noteq> Some (gc_next_id g)"
    and "js_decode api answer = Inr resp" "rr_id resp = Some (gc_next_id g)"
    and "\<forall>j\<le>length skipped. gc_elapsed g (gc_next_id g) j \<le> gc_timeout g"
  shows "fst (send_request api method params g) = Inr resp"
proof -
  have b: "rd_bytes \<lparr>rd_buf = [], rd_segs = segs, rd_open = gc_open g\<rparr>
           = concat (map encode_message (skipped @ [answer])) @ rest"
    using assms(4) by (simp add: rd_bytes_def)
  have "\<forall>j\<le>length skipped. gc_elapsed g (gc_next_id g) (0 + j) \<le> gc_timeout g"
    using assms(9) by simp
  from receive_skips [OF b assms(5-8) this, of "method"] obtain r1
    where "receive (js_decode api) method (gc_next_id g) (gc_timeout g) (gc_elapsed g (gc_next_id g)) 0
             \<lparr>rd_buf = [], rd_segs = segs, rd_open = gc_open g\<rparr> = (Inr resp, r1)" by blast
  with assms(1-3) show ?thesis by (simp add: send_request_def write_stdin_def Let_def)
qed

text \<open>A notification and a stale response, then the answer and part of what follows.\<close>

definition chatty_gopls :: gopls where
  "chatty_gopls =
     toy_gopls [encode_message ''n'' @ take 7 (encode_message ''iii''),
                drop 7 (encode_message ''iii'') @ encode_message ''i'' @ ''Con''] True"

lemma chatty_facts:
  "gc_stdin chatty_gopls = Some []" "gc_write_faults chatty_gopls = []"
  "gc_stdout chatty_gopls =
     Some [encode_message ''n'' @ take 7 (encode_message ''iii''),
           drop 7 (encode_message ''iii'') @ encode_message ''i'' @ ''Con'']"
  "concat [encode_message ''n'' @ take 7 (encode_message ''iii''),
           drop 7 (encode_message ''iii'') @ encode_message ''i'' @ ''Con'']
     = concat (map encode_message ([''n'', ''iii''] @ [''i''])) @ ''Con''"
  "\<forall>b\<in>set ([''n'', ''iii''] @ [''i'']). length b < 2 ^ 63"
  "\<forall>b\<in>set [''n'', ''iii'']. \<exists>m. js_decode toy_api b = Inr m \<and> rr_id m \<noteq> Some (gc_next_id chatty_gopls)"
  "js_decode toy_api ''i'' = Inr (toy_response 1)"
  "rr_id (toy_response 1) = Some (gc_next_id chatty_gopls)"
  "\<forall>j\<le>length [''n'', ''iii'']. gc_elapsed chatty_gopls (gc_next_id chatty_gopls) j \<le> gc_timeout chatty_gopls"
  by (simp_all add: chatty_gopls_def toy_gopls_def toy_decode toy_response_def)

text \<open>
  C10 (an answered request succeeds). When \<open>gopls\<close> prints the encoded answer after any number
  of notifications and responses to other requests, cut into segments in any way, and the
  clock has not passed the timeout when the answer is reached, the request returns it.
\<close>

theorem send_request_answered:
  assumes "gc_stdin g = Some w" "gc_write_faults g = []" "gc_stdout g = Some segs"
    and "concat segs = concat (map encode_message (skipped @ [answer])) @ rest"
    and "\<forall>b\<in>set (skipped @ [answer]). length b < 2 ^ 63"
    and "\<forall>b\<in>set skipped. \<exists>m. js_decode api b = Inr m \<and> rr_id m \<noteq> Some (gc_next_id g)"
    and "js_decode api answer = Inr resp" "rr_id resp = Some (gc_next_id g)"
    and "\<forall>j\<le>length skipped. gc_elapsed g (gc_next_id g) j \<le> gc_timeout g"
  shows "fst (send_request api method params g) = Inr resp"
  by (rule send_request_skips [OF assms])

theorem send_request_answered_witness:
  "fst (send_request toy_api ''textDocument/hover'' None chatty_gopls) = Inr (toy_response 1)"
  by (rule send_request_answered [OF chatty_facts])

text \<open>
  Property (responses are matched). A response that a request returns carries the id the request was
  sent with, whatever \<open>gopls\<close> prints; and the counter is one further, so that no later request
  uses the id again before the 64-bit counter wraps.
\<close>

theorem send_request_matches_id:
  assumes "send_request api method params g = (Inr resp, g1)"
  shows "rr_id resp = Some (gc_next_id g) \<and> gc_next_id g1 = gc_next_id g + 1"
  using send_request_id [OF assms] send_request_next [of api "method" params g] assms by simp

theorem send_request_matches_id_witness:
  "\<exists>g1. send_request toy_api ''shutdown'' None chatty_gopls = (Inr (toy_response 1), g1)
        \<and> gc_next_id g1 = 2"
proof -
  obtain g1 where g1: "send_request toy_api ''shutdown'' None chatty_gopls = (Inr (toy_response 1), g1)"
    using send_request_skips [OF chatty_facts, of "''shutdown''" None]
    by (cases "send_request toy_api ''shutdown'' None chatty_gopls") auto
  from send_request_matches_id [OF this] g1 show ?thesis
    by (simp add: chatty_gopls_def toy_gopls_def)
qed

text \<open>Only an open pipe lets a request block, and only an announced length out of range lets it panic.\<close>

lemma write_stdin_cases:
  assumes "write_stdin b g = (x, g1)" "WriteBlocks \<notin> set (gc_write_faults g)"
  shows "gc_open g1 = gc_open g" "gc_stdout g1 = gc_stdout g" "x = Inr () \<or> (\<exists>e. x = Inl (Fails e))"
  using assms by (auto simp: write_stdin_def split: option.splits list.splits write_outcome.splits)

lemma read_headers_rest:
  "read_headers cl r = (res, r1) \<Longrightarrow> isl res \<or> (\<exists>pre. rd_bytes r = pre @ rd_bytes r1)"
proof (induction cl r arbitrary: res r1 rule: read_headers.induct)
  case (1 cl r)
  show ?case
  proof (cases "isl res")
    case False
    then obtain l q where l: "read_line r = (Inr l, q)" "l \<noteq> []"
      using "1.prems" by (auto simp: read_headers.simps [of cl r] split: prod.splits sum.splits if_splits)
    note bytes = read_line_bytes [OF l(1)]
    show ?thesis
    proof (cases "trim l = []")
      case True
      with "1.prems" l bytes show ?thesis by (simp add: read_headers.simps [of cl r])
    next
      case False
      then obtain cl' where "read_headers cl' q = (res, r1)" "isl res \<or> (\<exists>pre. rd_bytes q = pre @ rd_bytes r1)"
        using "1.prems" l "1.IH" [OF l(1) [symmetric] refl l(2) refl False]
        by (auto simp: read_headers.simps [of cl r] Let_def split: option.splits)
      with bytes show ?thesis by (metis append_assoc)
    qed
  qed simp
qed

lemma read_message_rest:
  assumes "read_message decode r = (Inr resp, r1)"
  shows "\<exists>pre. rd_bytes r = pre @ rd_bytes r1"
proof -
  obtain n q body where h: "read_headers None r = (Inr (Some n), q)" and x: "read_exact n [] q = (Inr body, r1)"
    using assms by (auto simp: read_message_def split: prod.splits sum.splits option.splits if_splits)
  have "rd_bytes r1 = drop n (rd_bytes q)"
    using read_exact_stream [of n "[]" q] x by (auto simp: stream_exact_def split: if_splits)
  then have "rd_bytes q = take n (rd_bytes q) @ rd_bytes r1" by simp
  moreover obtain pre where "rd_bytes r = pre @ rd_bytes q" using read_headers_rest [OF h] by auto
  ultimately have "rd_bytes r = (pre @ take n (rd_bytes q)) @ rd_bytes r1" by simp
  then show ?thesis by blast
qed

text \<open>Somewhere in the bytes a message starts whose length is out of the range of \<open>isize\<close>.\<close>

definition announces_huge :: "string \<Rightarrow> bool" where
  "announces_huge s =
     (\<exists>pre msg n after. s = pre @ msg \<and> stream_headers False None msg = (Inr (Some n), after) \<and> 2 ^ 63 \<le> n)"

lemma announces_huge_append: "announces_huge s \<Longrightarrow> announces_huge (pre @ s)"
  unfolding announces_huge_def by (metis append_assoc)

lemma read_message_panics:
  assumes "read_message decode r = (Inl Panics, r1)" "\<not> rd_open r"
  shows "announces_huge (rd_bytes r)"
proof -
  have "stream_message decode False (rd_bytes r) = (Inl Panics, rd_bytes r1)"
    using read_message_stream [of decode r] assms by simp
  then obtain n after where "stream_headers False None (rd_bytes r) = (Inr (Some n), after)" "2 ^ 63 \<le> n"
    using stream_headers_no_panic [of False None "rd_bytes r"]
    by (auto simp: stream_message_def stream_exact_def split: prod.splits sum.splits option.splits if_splits)
  then show ?thesis unfolding announces_huge_def by (metis append_Nil)
qed

lemma receive_returns:
  assumes "\<not> rd_open r"
  shows "case fst (receive decode method rid timeout elapsed k r) of
           Inr resp \<Rightarrow> rr_id resp = Some rid
         | Inl (Fails e) \<Rightarrow> True
         | Inl HangsForever \<Rightarrow> False
         | Inl PanicsHere \<Rightarrow> announces_huge (rd_bytes r)"
  using assms
proof (induction k r rule: receive_cases [of timeout elapsed _ decode rid])
  case (error k r e r1)
  then show ?case
    using read_message_blocks [of decode r] read_message_panics [of decode r r1]
    by (cases e) (simp_all add: receive_error)
next
  case (other k r resp r1)
  have "\<not> rd_open r1" using read_message_open [of decode r] other(2,5) by simp
  moreover obtain pre where "rd_bytes r = pre @ rd_bytes r1" using read_message_rest [OF other(2)] by blast
  ultimately show ?case
    using other(1-4) announces_huge_append [of "rd_bytes r1" pre]
    by (simp add: receive_other split: sum.splits client_stop.splits)
qed (simp_all add: receive_turn)

text \<open>
  C38 (a request on a closed pipe ends). When \<open>gopls\<close> has closed its output and no write to it
  blocks, a request never hangs: it gives a response with its own id or an error, or it panics, and then
  the output contains headers that announce a length of \<open>2 ^ 63\<close> or more.
\<close>

theorem send_request_returns:
  assumes "\<not> gc_open g" "WriteBlocks \<notin> set (gc_write_faults g)"
  shows "case fst (send_request api method params g) of
           Inr resp \<Rightarrow> rr_id resp = Some (gc_next_id g)
         | Inl (Fails e) \<Rightarrow> True
         | Inl HangsForever \<Rightarrow> False
         | Inl PanicsHere \<Rightarrow> (\<exists>segs. gc_stdout g = Some segs \<and> announces_huge (concat segs))"
proof -
  let ?body = "js_encode api \<lparr>rm_id = Some (gc_next_id g), rm_method = method, rm_params = params\<rparr>"
  obtain x g1 where w: "write_stdin (encode_message ?body) (g\<lparr>gc_next_id := gc_next_id g + 1\<rparr>) = (x, g1)"
    by fastforce
  have "WriteBlocks \<notin> set (gc_write_faults (g\<lparr>gc_next_id := gc_next_id g + 1\<rparr>))" using assms(2) by simp
  note written = write_stdin_cases [OF w this]
  show ?thesis
  proof (cases "x = Inr () \<and> gc_stdout g \<noteq> None")
    case True
    then obtain segs where segs: "gc_stdout g = Some segs" by blast
    define r where "r = \<lparr>rd_buf = [], rd_segs = segs, rd_open = gc_open g1\<rparr>"
    have r: "\<not> rd_open r" "rd_bytes r = concat segs" using assms(1) written(1) by (simp_all add: r_def rd_bytes_def)
    have "fst (send_request api method params g)
        = fst (receive (js_decode api) method (gc_next_id g) (gc_timeout g1) (gc_elapsed g1 (gc_next_id g)) 0 r)"
      using True written(2) segs by (simp add: send_request_def w Let_def r_def split: prod.split)
    moreover have "case fst (receive (js_decode api) method (gc_next_id g) (gc_timeout g1)
          (gc_elapsed g1 (gc_next_id g)) 0 r) of
        Inr resp \<Rightarrow> rr_id resp = Some (gc_next_id g) | Inl (Fails e) \<Rightarrow> True | Inl HangsForever \<Rightarrow> False
      | Inl PanicsHere \<Rightarrow> announces_huge (rd_bytes r)"
      by (rule receive_returns [OF r(1)])
    ultimately show ?thesis using r(2) segs by (simp split: sum.splits client_stop.splits)
  next
    case False
    then have "\<exists>e. fst (send_request api method params g) = Inl (Fails e)"
      using written(2,3) by (auto simp: send_request_def w Let_def)
    then show ?thesis by auto
  qed
qed

theorem send_request_returns_witness:
  "case fst (send_request toy_api ''shutdown'' None (toy_gopls [] False)) of
     Inr resp \<Rightarrow> rr_id resp = Some 1
   | Inl (Fails e) \<Rightarrow> True
   | Inl HangsForever \<Rightarrow> False
   | Inl PanicsHere \<Rightarrow> announces_huge []"
  using send_request_returns [of "toy_gopls [] False" toy_api "''shutdown''" None]
  by (simp add: toy_gopls_def split: sum.splits client_stop.splits)

text \<open>A write that blocks makes the request block, whatever \<open>gopls\<close> prints.\<close>

lemma full_pipe_blocks:
  assumes "gc_stdin g = Some w" "gc_write_faults g = WriteBlocks # fs"
  shows "fst (send_request api method params g) = Inl HangsForever"
  using assms by (simp add: send_request_def write_stdin_def Let_def)

section \<open>Two limits of the client\<close>

text \<open>
  Property (read-ahead is lost). When the answer comes in one segment with more bytes after it, the
  request succeeds and those bytes are gone: the next request does not see them, wherever
  they cut the message they start.
\<close>

theorem read_ahead_lost:
  assumes "gc_stdin g = Some w" "gc_write_faults g = []"
    and "gc_stdout g = Some ((encode_message answer @ ahead) # later)"
    and "length (encode_message answer @ ahead) \<le> buf_capacity"
    and "js_decode api answer = Inr resp" "rr_id resp = Some (gc_next_id g)"
    and "gc_elapsed g (gc_next_id g) 0 \<le> gc_timeout g"
  shows "\<exists>g1. send_request api method params g = (Inr resp, g1) \<and> gc_stdout g1 = Some ([] # later)"
proof -
  let ?seg = "encode_message answer @ ahead"
  define r where "r = \<lparr>rd_buf = [], rd_segs = ?seg # later, rd_open = gc_open g\<rparr>"
  have ne: "encode_message answer \<noteq> []" by (simp add: encode_message_def)
  then have "fill_buf r = \<lparr>rd_buf = ?seg, rd_segs = [] # later, rd_open = gc_open g\<rparr>"
    using assms(4) by (simp add: fill_buf_def r_def)
  moreover have "length answer < 2 ^ 63"
    using assms(4) by (simp add: encode_message_def buf_capacity_def)
  ultimately have "read_message (js_decode api) r
      = (Inr resp, \<lparr>rd_buf = ahead, rd_segs = [] # later, rd_open = gc_open g\<rparr>)"
    using read_message_buffered [of "fill_buf r" answer ahead "js_decode api" resp] assms(5)
    by (subst read_message_fill) simp
  then have "receive (js_decode api) method (gc_next_id g) (gc_timeout g) (gc_elapsed g (gc_next_id g)) 0 r
      = (Inr resp, \<lparr>rd_buf = ahead, rd_segs = [] # later, rd_open = gc_open g\<rparr>)"
    by (rule receive_answer [rotated]) (use assms(6,7) in simp_all)
  with assms(1-3) show ?thesis by (simp add: send_request_def write_stdin_def Let_def r_def)
qed

text \<open>Two answers, the second one starting in the segment that ends the first.\<close>

definition split_gopls :: gopls where
  "split_gopls = toy_gopls [encode_message ''i'' @ ''Content-L'', ''ength: 2'' @ crlf @ crlf @ ''ii''] False"

theorem read_ahead_lost_witness:
  "\<exists>g1. send_request toy_api ''textDocument/hover'' None split_gopls = (Inr (toy_response 1), g1)
        \<and> gc_stdout g1 = Some [[], ''ength: 2'' @ crlf @ crlf @ ''ii'']"
proof -
  have "length (encode_message ''i'' @ ''Content-L'') = 31" by code_simp
  then have len: "length (encode_message ''i'' @ ''Content-L'') \<le> buf_capacity"
    by (simp only: buf_capacity_def)
  show ?thesis
    by (rule read_ahead_lost [where w = "[]" and answer = "''i''" and ahead = "''Content-L''"])
      (use len toy_decode(2) in \<open>simp_all add: split_gopls_def toy_gopls_def toy_response_def\<close>)
qed

text \<open>
  Property (the timeout does not interrupt a read). With a \<open>gopls\<close> that keeps its output open and
  prints nothing more, a request blocks forever, whatever the timeout: the deadline is only
  checked between messages.
\<close>

theorem silent_gopls_blocks:
  assumes "gc_stdin g = Some w" "gc_write_faults g = []" "gc_stdout g = Some segs" "concat segs = []"
    and "gc_open g" "gc_elapsed g (gc_next_id g) 0 \<le> gc_timeout g"
  shows "fst (send_request api method params g) = Inl HangsForever"
proof -
  let ?r = "\<lparr>rd_buf = [], rd_segs = segs, rd_open = gc_open g\<rparr>"
  have "rd_bytes ?r = []" using assms(4) by (simp add: rd_bytes_def)
  with read_message_stream [of "js_decode api" ?r] assms(5) obtain r1
    where "read_message (js_decode api) ?r = (Inl Blocks, r1)"
    by (auto simp: stream_message_def stream_headers_end split: prod.splits)
  from receive_error [OF _ this, of "gc_timeout g" "gc_elapsed g (gc_next_id g)" 0] assms
  show ?thesis by (simp add: send_request_def write_stdin_def Let_def)
qed

theorem silent_gopls_blocks_witness:
  "fst (send_request toy_api ''shutdown'' None (toy_gopls [] True)) = Inl HangsForever"
  by (rule silent_gopls_blocks [where w = "[]" and segs = "[]"]) (simp_all add: toy_gopls_def)

end
