(* ===== verification/LspBridge.thy ===== *)
theory LspBridge
  imports LspClient GoIndex
begin

text \<open>
  \<open>src/lsp/bridge.rs\<close> and the fact types of \<open>src/lsp/types.rs\<close>: enriching a symbol of the
  index with what \<open>gopls\<close> knows. A query that hangs or panics makes the whole operation not
  return, which is the value \<open>None\<close> here; every other failure becomes an empty fact.
\<close>

section \<open>Facts\<close>

datatype fact_source = Ast | Lsp | NoSource string

record lsp_def =
  ld_location :: location
  ld_qualified_name :: "string option"
  ld_source :: fact_source

record lsp_ref =
  lf_location :: location
  lf_context :: "string option"
  lf_source :: fact_source

record hover_info =
  hi_signature :: "string option"
  hi_documentation :: "string option"
  hi_source :: fact_source

datatype lsp_status = Enriched | NoResults | Unavailable string

record enriched_symbol =
  es_symbol :: string
  es_ast_definitions :: "lsp_def list"
  es_lsp_definitions :: "lsp_def list"
  es_lsp_references :: "lsp_ref list"
  es_hover :: "hover_info option"
  es_lsp_status :: lsp_status

section \<open>Facts of the index\<close>

definition kind_word :: "type_kind \<Rightarrow> string" where
  "kind_word k =
     (case k of StructKind _ \<Rightarrow> ''struct'' | InterfaceKind _ _ \<Rightarrow> ''interface'' | AliasKind _ \<Rightarrow> ''alias'')"

definition ast_def :: "location \<Rightarrow> string \<Rightarrow> lsp_def" where
  "ast_def l q = \<lparr>ld_location = l, ld_qualified_name = Some q, ld_source = Ast\<rparr>"

definition qualified_func :: "go_func \<Rightarrow> string" where
  "qualified_func f =
     (case fn_receiver f of
        Some recv \<Rightarrow> ''('' @ rc_type_name recv @ '').'' @ fn_name f
      | None \<Rightarrow> fn_name f)"

definition collect_ast_definitions :: "project_index \<Rightarrow> string \<Rightarrow> lsp_def list" where
  "collect_ast_definitions ix symbol =
     map (\<lambda>t. ast_def (ty_location t) (ty_name t @ '' ('' @ kind_word (ty_kind t) @ '')''))
       (find_type ix symbol)
     @ map (\<lambda>f. ast_def (fn_location f) (qualified_func f @ '' (func)'')) (find_func ix symbol)
     @ map (\<lambda>c. ast_def (co_location c) (co_name c @ '' (const)''))
         (filter (\<lambda>c. co_name c = symbol) (concat (map gf_constants (px_files ix))))
     @ map (\<lambda>v. ast_def (va_location v) (va_name v @ '' (var)''))
         (filter (\<lambda>v. va_name v = symbol) (concat (map gf_variables (px_files ix))))"

section \<open>Facts of gopls\<close>

text \<open>The line is incremented as a \<open>u32\<close>.\<close>

definition lsp_location_to_ours :: "lsp_location \<Rightarrow> location" where
  "lsp_location_to_ours l =
     \<lparr>loc_file = uri_to_path (ll_uri l), loc_line = unat (lp_line (lr_start (ll_range l)) + 1)\<rparr>"

definition anchor_line :: "location \<Rightarrow> 32 word" where
  "anchor_line l = of_nat (loc_line l - 1)"

definition code_fence :: string where
  "code_fence = [CHR 0x60, CHR 0x60, CHR 0x60]"

definition non_empty :: "string \<Rightarrow> string option" where
  "non_empty s = (if s = [] then None else Some s)"

definition split_hover_text :: "string \<Rightarrow> string option \<times> string option" where
  "split_hover_text raw =
     (let text = (case strip_prefix raw (code_fence @ ''go'' @ nl) of
                    None \<Rightarrow> raw
                  | Some t \<Rightarrow> (case strip_suffix t (nl @ code_fence) of None \<Rightarrow> raw | Some u \<Rightarrow> u))
      in case find_sub text (nl @ nl) of
           None \<Rightarrow> (non_empty (trim text), None)
         | Some i \<Rightarrow> (non_empty (trim (take i text)), non_empty (trim (drop (i + 2) text))))"

text \<open>A failed query yields its default; one that does not return stops everything.\<close>

definition or_empty :: "client_stop + 'a \<Rightarrow> 'a \<Rightarrow> 'a option" where
  "or_empty res none =
     (case res of Inr x \<Rightarrow> Some x | Inl (Fails e) \<Rightarrow> Some none | Inl _ \<Rightarrow> None)"

definition lsp_def_of :: "lsp_location \<Rightarrow> lsp_def" where
  "lsp_def_of l = \<lparr>ld_location = lsp_location_to_ours l, ld_qualified_name = None, ld_source = Lsp\<rparr>"

definition lsp_ref_of :: "lsp_location \<Rightarrow> lsp_ref" where
  "lsp_ref_of l = \<lparr>lf_location = lsp_location_to_ours l, lf_context = None, lf_source = Lsp\<rparr>"

definition hover_of :: "hover_contents \<Rightarrow> hover_info" where
  "hover_of h =
     (let (sig, doc) = split_hover_text (hover_text h)
      in \<lparr>hi_signature = sig, hi_documentation = doc, hi_source = Lsp\<rparr>)"

definition query_lsp :: "'j json_api \<Rightarrow> string \<Rightarrow> 32 word \<Rightarrow> gopls
                         \<Rightarrow> ((lsp_def list \<times> lsp_ref list \<times> hover_info option) \<times> gopls) option" where
  "query_lsp api file line g =
     (let (dres, g1) = lsp_definition api file line 0 g in
      case or_empty dres [] of
        None \<Rightarrow> None
      | Some defs \<Rightarrow>
          (let (rres, g2) = lsp_references api file line 0 False g1 in
           case or_empty rres [] of
             None \<Rightarrow> None
           | Some refs \<Rightarrow>
               (let (hres, g3) = lsp_hover api file line 0 g2 in
                case or_empty hres None of
                  None \<Rightarrow> None
                | Some hover \<Rightarrow>
                    Some ((map lsp_def_of defs, map lsp_ref_of refs, map_option hover_of hover), g3))))"

section \<open>The bridge\<close>

record bridge =
  br_client :: "gopls option"
  br_unavailable_reason :: "string option"

definition bridge_unavailable :: "string \<Rightarrow> bridge" where
  "bridge_unavailable reason = \<lparr>br_client = None, br_unavailable_reason = Some reason\<rparr>"

definition show_client_error :: "client_error \<Rightarrow> (nat \<Rightarrow> string) \<Rightarrow> (int \<Rightarrow> string) \<Rightarrow> string" where
  "show_client_error e show_duration show_int =
     (case e of
        NotFound \<Rightarrow> ''gopls not found on PATH''
      | SpawnFailed e \<Rightarrow> ''failed to spawn gopls: '' @ e
      | InvalidWorkspace p \<Rightarrow> ''invalid workspace: '' @ p
      | InitializeFailed msg \<Rightarrow> ''LSP initialize failed: '' @ msg
      | Timeout method elapsed \<Rightarrow>
          ''gopls request '' @ [CHR 0x27] @ method @ [CHR 0x27] @ '' timed out after '' @ show_duration elapsed
      | ClientIo e \<Rightarrow> ''gopls IO error: '' @ e
      | RpcError code message \<Rightarrow> ''gopls error '' @ show_int code @ '': '' @ message
      | ProcessExited \<Rightarrow> ''gopls process exited unexpectedly'')"

text \<open>\<open>GoplsBridge::new\<close>: \<open>None\<close> when starting \<open>gopls\<close> does not return.\<close>

definition bridge_new :: "(client_error \<Rightarrow> string) \<Rightarrow> client_stop + gopls \<Rightarrow> bridge option" where
  "bridge_new show_error started =
     (case started of
        Inr client \<Rightarrow> Some \<lparr>br_client = Some client, br_unavailable_reason = None\<rparr>
      | Inl (Fails e) \<Rightarrow> Some \<lparr>br_client = None, br_unavailable_reason = Some (show_error e)\<rparr>
      | Inl _ \<Rightarrow> None)"

text \<open>
  \<open>join_root\<close> joins the project root and the path of the anchor's file; the anchor is the
  first definition of the index.
\<close>

definition enrich_symbol_with_index ::
    "'j json_api \<Rightarrow> (string \<Rightarrow> string) \<Rightarrow> project_index \<Rightarrow> string \<Rightarrow> bridge
     \<Rightarrow> (enriched_symbol \<times> bridge) option" where
  "enrich_symbol_with_index api join_root ix symbol b =
     (let ast = collect_ast_definitions ix symbol;
          result = (\<lambda>defs refs hover status.
            \<lparr>es_symbol = symbol, es_ast_definitions = ast, es_lsp_definitions = defs,
             es_lsp_references = refs, es_hover = hover, es_lsp_status = status\<rparr>)
      in case br_client b of
           None \<Rightarrow>
             Some (result [] [] None
                     (Unavailable (case br_unavailable_reason b of
                                     Some reason \<Rightarrow> reason | None \<Rightarrow> ''gopls not started'')), b)
         | Some client \<Rightarrow>
             (case (case ast of
                      [] \<Rightarrow> Some (([], [], None), client)
                    | d # _ \<Rightarrow> query_lsp api (join_root (loc_file (ld_location d)))
                                 (anchor_line (ld_location d)) client) of
                None \<Rightarrow> None
              | Some ((defs, refs, hover), client') \<Rightarrow>
                  Some (result defs refs hover
                          (if defs \<noteq> [] \<or> refs \<noteq> [] \<or> hover \<noteq> None then Enriched else NoResults),
                        b\<lparr>br_client := Some client'\<rparr>)))"

text \<open>\<open>shutdown\<close> consumes the bridge: \<open>None\<close> when the client's shutdown does not return.\<close>

definition bridge_shutdown :: "'j json_api \<Rightarrow> bridge \<Rightarrow> unit option" where
  "bridge_shutdown api b =
     (case br_client b of
        None \<Rightarrow> Some ()
      | Some client \<Rightarrow> or_empty (client_shutdown api client) ())"

section \<open>Properties\<close>

lemma enrich_unavailable:
  "enrich_symbol_with_index api join_root ix symbol (bridge_unavailable reason)
   = Some (\<lparr>es_symbol = symbol, es_ast_definitions = collect_ast_definitions ix symbol, es_lsp_definitions = [],
            es_lsp_references = [], es_hover = None, es_lsp_status = Unavailable reason\<rparr>,
           bridge_unavailable reason)"
  by (simp add: enrich_symbol_with_index_def bridge_unavailable_def Let_def)

lemma query_lsp_source:
  "query_lsp api f l g = Some ((defs, refs, hover), g') \<Longrightarrow>
     list_all (\<lambda>d. ld_source d = Lsp) defs \<and> list_all (\<lambda>r. lf_source r = Lsp) refs"
  by (auto simp: query_lsp_def lsp_def_of_def lsp_ref_of_def list_all_iff Let_def
      split: prod.splits option.splits)

text \<open>
  Property (graceful degradation). When enrichment returns, the facts of the index are exactly the
  ones found without \<open>gopls\<close> and carry the source \<open>Ast\<close>; every other fact carries the source
  \<open>Lsp\<close>; without a client the status is \<open>Unavailable\<close> and there is no other fact, and with
  one it is \<open>Enriched\<close> exactly when there is.
\<close>

theorem enrichment_adds_only:
  assumes "enrich_symbol_with_index api join_root ix symbol b = Some (es, b')"
  shows "es_ast_definitions es = collect_ast_definitions ix symbol
         \<and> list_all (\<lambda>d. ld_source d = Ast) (es_ast_definitions es)
         \<and> list_all (\<lambda>d. ld_source d = Lsp) (es_lsp_definitions es)
         \<and> list_all (\<lambda>r. lf_source r = Lsp) (es_lsp_references es)
         \<and> (br_client b = None \<longrightarrow> (\<exists>reason. es_lsp_status es = Unavailable reason))
         \<and> (br_client b \<noteq> None \<longrightarrow> es_lsp_status es \<in> {Enriched, NoResults})
         \<and> (es_lsp_status es = Enriched \<longleftrightarrow>
              es_lsp_definitions es \<noteq> [] \<or> es_lsp_references es \<noteq> [] \<or> es_hover es \<noteq> None)"
proof -
  have ast: "list_all (\<lambda>d. ld_source d = Ast) (collect_ast_definitions ix symbol)"
    by (auto simp: collect_ast_definitions_def ast_def_def list_all_iff)
  show ?thesis
  proof (cases "br_client b")
    case None
    with assms ast show ?thesis by (auto simp: enrich_symbol_with_index_def Let_def)
  next
    case (Some client)
    then obtain defs refs hover client' where r:
      "(case collect_ast_definitions ix symbol of
          [] \<Rightarrow> Some (([], [], None), client)
        | d # _ \<Rightarrow> query_lsp api (join_root (loc_file (ld_location d)))
                     (anchor_line (ld_location d)) client) = Some ((defs, refs, hover), client')"
      and es: "es = \<lparr>es_symbol = symbol, es_ast_definitions = collect_ast_definitions ix symbol,
             es_lsp_definitions = defs, es_lsp_references = refs, es_hover = hover,
             es_lsp_status = (if defs \<noteq> [] \<or> refs \<noteq> [] \<or> hover \<noteq> None then Enriched else NoResults)\<rparr>"
      using assms by (auto simp: enrich_symbol_with_index_def Let_def split: option.splits prod.splits)
    have "list_all (\<lambda>d. ld_source d = Lsp) defs \<and> list_all (\<lambda>r. lf_source r = Lsp) refs"
    proof (cases "collect_ast_definitions ix symbol")
      case Nil
      with r show ?thesis by simp
    next
      case (Cons d ds)
      with r query_lsp_source show ?thesis by fastforce
    qed
    with ast Some es show ?thesis by simp
  qed
qed

text \<open>A project with one function, and a \<open>gopls\<close> that answers the three queries.\<close>

definition one_func_index :: project_index where
  "one_func_index =
     (let fs = [\<lparr>gf_path = ''a.go'', gf_package = ''a'', gf_imports = [], gf_types = [],
                 gf_functions = [\<lparr>fn_name = ''Run'', fn_receiver = None, fn_params = [], fn_returns = [],
                                  fn_visibility = Exported, fn_location = mk_loc ''a.go'' 7\<rparr>],
                 gf_constants = [], gf_variables = [], gf_is_test = False, gf_line_count = 9\<rparr>]
      in \<lparr>px_files = fs, px_packages = [], px_stats = compute_stats fs []\<rparr>)"

lemma one_func_def:
  "collect_ast_definitions one_func_index ''Run'' = [ast_def (mk_loc ''a.go'' 7) ''Run (func)'']"
  by code_simp

theorem enrichment_adds_only_witness:
  "\<exists>es. enrich_symbol_with_index toy_api (\<lambda>f. ''/p/'' @ f) one_func_index ''Run''
          (bridge_unavailable ''gopls not found on PATH'') = Some (es, bridge_unavailable ''gopls not found on PATH'')
        \<and> es_ast_definitions es = [ast_def (mk_loc ''a.go'' 7) ''Run (func)'']"
proof -
  let ?b = "bridge_unavailable ''gopls not found on PATH''"
  obtain es where es: "enrich_symbol_with_index toy_api (\<lambda>f. ''/p/'' @ f) one_func_index ''Run'' ?b = Some (es, ?b)"
    by (simp add: enrich_symbol_with_index_def bridge_unavailable_def Let_def)
  with enrichment_adds_only [OF es] one_func_def show ?thesis by simp
qed

text \<open>
  Property (lines). A line of the index sent to \<open>gopls\<close> and read back is the same line as long as it
  fits in 32 bits; the largest \<open>u32\<close> line that \<open>gopls\<close> can send becomes line 0.
\<close>

theorem line_roundtrip:
  assumes "1 \<le> n" "n < 2 ^ 32"
  shows "loc_line (lsp_location_to_ours
           \<lparr>ll_uri = path_to_uri p,
            ll_range = \<lparr>lr_start = \<lparr>lp_line = anchor_line (mk_loc p n), lp_character = 0\<rparr>, lr_end = e\<rparr>\<rparr>) = n
         \<and> unat ((2 ^ 32 - 1 :: 32 word) + 1) = 0"
proof -
  have "of_nat (n - 1) + 1 = (of_nat n :: 32 word)"
    using assms(1) by (metis Suc_diff_1 Suc_le_eq One_nat_def add.commute of_nat_Suc)
  then show ?thesis
    using assms by (simp add: lsp_location_to_ours_def anchor_line_def mk_loc_def unsigned_of_nat take_bit_nat_eq_self)
qed

theorem line_roundtrip_witness:
  "loc_line (lsp_location_to_ours
     \<lparr>ll_uri = ''file:///p/a.go'',
      ll_range = \<lparr>lr_start = \<lparr>lp_line = anchor_line (mk_loc ''/p/a.go'' 7), lp_character = 0\<rparr>,
                  lr_end = \<lparr>lp_line = 9, lp_character = 2\<rparr>\<rparr>\<rparr>) = 7"
proof -
  have "path_to_uri ''/p/a.go'' = ''file:///p/a.go''" by code_simp
  with line_roundtrip [of 7 "''/p/a.go''" "\<lparr>lp_line = 9, lp_character = 2\<rparr>"] show ?thesis by simp
qed

text \<open>
  The fence of a hover text is only removed when nothing follows it: with documentation after
  the fence, the signature keeps the markdown.
\<close>

theorem hover_fence_kept:
  "split_hover_text (code_fence @ ''go'' @ nl @ ''func F()'' @ nl @ code_fence @ nl @ nl @ ''Docs.'')
   = (Some (code_fence @ ''go'' @ nl @ ''func F()'' @ nl @ code_fence), Some ''Docs.'')
   \<and> split_hover_text (code_fence @ ''go'' @ nl @ ''func F()'' @ nl @ code_fence)
   = (Some ''func F()'', None)"
  by code_simp

end
