(* ===== verification/ResultsInspect.thy ===== *)
theory ResultsInspect
  imports Models OrderedMap "HOL-Library.List_Lexorder" "HOL-Library.Char_ord"
begin

text \<open>
  \<open>src/results_inspect/mod.rs\<close>: fetching the validation results of the service, parsing them
  and summarising them by binding and by violated rule. The HTTP client (\<open>ureq\<close>) and the JSON
  values (\<open>serde_json\<close>) are parameters: the answer to a URL, and the accessors of a value.
\<close>

section \<open>Data\<close>

record inspect_config =
  ic_base_url :: string
  ic_scope_kind :: string
  ic_scope_key :: string
  ic_binding_name :: "string option"
  ic_topic :: "string option"
  ic_limit :: nat
  ic_failed_only :: bool
  ic_latest :: "nat option"

record violation_record =
  vr_rule :: string
  vr_field :: string
  vr_operator :: string
  vr_severity :: string
  vr_message :: string

record result_record =
  rs_message_id :: string
  rs_correlation_id :: "string option"
  rs_binding :: string
  rs_topic :: string
  rs_status :: string
  rs_config_key :: string
  rs_config_version :: nat
  rs_violations :: "violation_record list"
  rs_processed_at :: string

record binding_summary =
  bs_topic :: string
  bs_passed :: nat
  bs_failed :: nat

record summary =
  sm_total :: nat
  sm_passed :: nat
  sm_failed :: nat
  sm_bindings :: "(string \<times> binding_summary) list"
  sm_violation_rules :: "(string \<times> nat) list"

record filters_applied =
  fa_scope_kind :: string
  fa_scope_key :: string
  fa_binding_name :: "string option"
  fa_topic :: "string option"
  fa_failed_only :: bool
  fa_limit :: nat

record inspect_report =
  ir_summary :: summary
  ir_results :: "result_record list"
  ir_filters_applied :: "filters_applied option"

section \<open>Parsing\<close>

record 'j value_api =
  jv_get :: "'j \<Rightarrow> string \<Rightarrow> 'j option"
  jv_array :: "'j \<Rightarrow> 'j list option"
  jv_str :: "'j \<Rightarrow> string option"
  jv_u64 :: "'j \<Rightarrow> nat option"

definition str_or_empty :: "string option \<Rightarrow> string" where
  "str_or_empty x = (case x of None \<Rightarrow> [] | Some s \<Rightarrow> s)"

definition str_field :: "'j value_api \<Rightarrow> 'j \<Rightarrow> string \<Rightarrow> string" where
  "str_field J v key =
     (case jv_get J v key of None \<Rightarrow> [] | Some x \<Rightarrow> str_or_empty (jv_str J x))"

fun str_nested :: "'j value_api \<Rightarrow> 'j \<Rightarrow> string list \<Rightarrow> string" where
  "str_nested J current [] = str_or_empty (jv_str J current)"
| "str_nested J current (key # path) =
     (case jv_get J current key of Some next \<Rightarrow> str_nested J next path | None \<Rightarrow> [])"

definition parse_violation :: "'j value_api \<Rightarrow> 'j \<Rightarrow> violation_record" where
  "parse_violation J viol =
     \<lparr>vr_rule = str_field J viol ''rule'', vr_field = str_field J viol ''field'',
      vr_operator = str_field J viol ''operator'', vr_severity = str_field J viol ''severity'',
      vr_message = str_field J viol ''message''\<rparr>"

definition parse_single_result :: "'j value_api \<Rightarrow> 'j \<Rightarrow> result_record" where
  "parse_single_result J v =
     \<lparr>rs_message_id = str_field J v ''message_id'',
      rs_correlation_id =
        (case Option.bind (jv_get J v ''correlation_id'') (jv_str J) of
           Some s \<Rightarrow> if s = [] then None else Some s
         | None \<Rightarrow> None),
      rs_binding = str_nested J v [''binding'', ''name''],
      rs_topic = str_nested J v [''binding'', ''topic''],
      rs_status = str_field J v ''status'',
      rs_config_key = str_nested J v [''config'', ''key''],
      rs_config_version =
        (case Option.bind (Option.bind (jv_get J v ''config'') (\<lambda>c. jv_get J c ''version'')) (jv_u64 J) of
           Some n \<Rightarrow> n | None \<Rightarrow> 0),
      rs_violations =
        (case Option.bind (jv_get J v ''violations'') (jv_array J) of
           Some arr \<Rightarrow> map (parse_violation J) arr | None \<Rightarrow> []),
      rs_processed_at = str_field J v ''processed_at''\<rparr>"

definition parse_results :: "'j value_api \<Rightarrow> 'j \<Rightarrow> cli_error + result_record list" where
  "parse_results J body =
     (case Option.bind (jv_get J body ''results'') (jv_array J) of
        None \<Rightarrow> Inl (Command (''unexpected response format: missing '' @ [CHR 0x27] @ ''results''
                              @ [CHR 0x27] @ '' array''))
      | Some results_arr \<Rightarrow> Inr (map (parse_single_result J) results_arr))"

section \<open>Summary\<close>

definition add_to_binding :: "result_record \<Rightarrow> binding_summary option \<Rightarrow> binding_summary" where
  "add_to_binding r entry =
     (let e = (case entry of
                 Some e \<Rightarrow> e | None \<Rightarrow> \<lparr>bs_topic = rs_topic r, bs_passed = 0, bs_failed = 0\<rparr>)
      in if rs_status r = ''passed'' then e\<lparr>bs_passed := bs_passed e + 1\<rparr>
         else e\<lparr>bs_failed := bs_failed e + 1\<rparr>)"

definition bump_rule :: "violation_record \<Rightarrow> nat option \<Rightarrow> nat" where
  "bump_rule v n = (case n of None \<Rightarrow> 0 | Some k \<Rightarrow> k) + 1"

definition build_summary :: "result_record list \<Rightarrow> summary" where
  "build_summary records =
     \<lparr>sm_total = length records,
      sm_passed = length (filter (\<lambda>r. rs_status r = ''passed'') records),
      sm_failed = length (filter (\<lambda>r. rs_status r = ''failed'') records),
      sm_bindings = fold (\<lambda>r. bt_alter (rs_binding r) (add_to_binding r)) records [],
      sm_violation_rules =
        fold (\<lambda>v. bt_alter (vr_rule v) (bump_rule v)) (concat (map rs_violations records)) []\<rparr>"

section \<open>Fetching and running\<close>

datatype http_error = Transport "string option" | HttpStatus nat

text \<open>The URL is formatted without percent-encoding, as the code does.\<close>

definition results_url :: "inspect_config \<Rightarrow> string" where
  "results_url c =
     trim_end_char (ic_base_url c) CHR ''/'' @ ''/runtime/validator/results?scope_kind=''
     @ ic_scope_kind c @ ''&scope_key='' @ ic_scope_key c @ ''&limit='' @ show_nat (ic_limit c)
     @ (case ic_binding_name c of Some binding \<Rightarrow> ''&binding_name='' @ binding | None \<Rightarrow> [])
     @ (case ic_topic c of Some topic \<Rightarrow> ''&topic='' @ topic | None \<Rightarrow> [])
     @ (if ic_failed_only c then ''&status=failed'' else [])"

definition fetch_results :: "(string \<Rightarrow> http_error + (string + 'j)) \<Rightarrow> inspect_config \<Rightarrow> cli_error + 'j" where
  "fetch_results http c =
     (case http (results_url c) of
        Inl (Transport msg) \<Rightarrow>
          Inl (Command (''cannot reach quality-service at '' @ ic_base_url c @ '': ''
                        @ (case msg of Some m \<Rightarrow> m | None \<Rightarrow> ''connection failed'')))
      | Inl (HttpStatus code) \<Rightarrow>
          Inl (Command (''quality-service returned HTTP '' @ show_nat code @ '' for results query''))
      | Inr (Inl e) \<Rightarrow> Inl (Command (''failed to parse results response: '' @ e))
      | Inr (Inr body) \<Rightarrow> Inr body)"

definition select_records :: "inspect_config \<Rightarrow> result_record list \<Rightarrow> result_record list" where
  "select_records c records =
     (let kept = (if ic_failed_only c then filter (\<lambda>r. rs_status r = ''failed'') records else records)
      in case ic_latest c of Some n \<Rightarrow> take n kept | None \<Rightarrow> kept)"

definition inspect_run :: "'j value_api \<Rightarrow> (string \<Rightarrow> http_error + (string + 'j)) \<Rightarrow> inspect_config
                           \<Rightarrow> cli_error + inspect_report" where
  "inspect_run J http c =
     (case fetch_results http c of
        Inl e \<Rightarrow> Inl e
      | Inr raw \<Rightarrow>
          (case parse_results J raw of
             Inl e \<Rightarrow> Inl e
           | Inr parsed \<Rightarrow>
               (let records = select_records c parsed in
                Inr \<lparr>ir_summary = build_summary records, ir_results = records,
                     ir_filters_applied =
                       Some \<lparr>fa_scope_kind = ic_scope_kind c, fa_scope_key = ic_scope_key c,
                             fa_binding_name = ic_binding_name c, fa_topic = ic_topic c,
                             fa_failed_only = ic_failed_only c, fa_limit = ic_limit c\<rparr>\<rparr>)))"

section \<open>Properties\<close>

lemma sum_list_count: "sum_list (map (\<lambda>x. if P x then 1 else 0) xs) = length (filter P xs)"
  by (induction xs) auto

text \<open>
  Property (the summary adds up). The passed counts of the bindings add up to the total passed, the
  passed and failed counts of all bindings to the number of results, and the counts of the
  rules to the number of violations; the bindings and the rules are listed once each, in
  order, and the bindings are exactly those of the results. So the failed counts of the
  bindings agree with the failed total exactly when every status is \<open>passed\<close> or \<open>failed\<close>.
\<close>

theorem build_summary_adds_up:
  "(let s = build_summary records;
        passed = sum_list (map (\<lambda>e. bs_passed (snd e)) (sm_bindings s));
        failed = sum_list (map (\<lambda>e. bs_failed (snd e)) (sm_bindings s))
    in passed = sm_passed s \<and> passed + failed = sm_total s
       \<and> sum_list (map snd (sm_violation_rules s)) = length (concat (map rs_violations records))
       \<and> sorted_wrt (<) (map fst (sm_bindings s)) \<and> sorted_wrt (<) (map fst (sm_violation_rules s))
       \<and> fst ` set (sm_bindings s) = rs_binding ` set records
       \<and> (failed = sm_failed s \<longleftrightarrow> list_all (\<lambda>r. rs_status r \<in> {''passed'', ''failed''}) records))"
proof -
  let ?m = "fold (\<lambda>r. bt_alter (rs_binding r) (add_to_binding r)) records []"
  let ?v = "fold (\<lambda>v. bt_alter (vr_rule v) (bump_rule v)) (concat (map rs_violations records)) []"
  have p: "sum_list (map (\<lambda>e. bs_passed (snd e)) ?m) = length (filter (\<lambda>r. rs_status r = ''passed'') records)"
    unfolding sum_list_count [symmetric]
    by (rule btree.sum_entries) (simp add: add_to_binding_def Let_def split: option.splits)
  have f: "sum_list (map (\<lambda>e. bs_failed (snd e)) ?m) = length (filter (\<lambda>r. rs_status r \<noteq> ''passed'') records)"
    unfolding sum_list_count [symmetric]
    by (rule btree.sum_entries) (simp add: add_to_binding_def Let_def split: option.splits)
  have v: "sum_list (map (\<lambda>e. snd e) ?v) = sum_list (map (\<lambda>_. 1) (concat (map rs_violations records)))"
    by (rule btree.sum_entries) (simp add: bump_rule_def)
  have fl: "length (filter (\<lambda>r. rs_status r \<noteq> ''passed'') rs) = length (filter (\<lambda>r. rs_status r = ''failed'') rs)
            \<longleftrightarrow> list_all (\<lambda>r. rs_status r \<in> {''passed'', ''failed''}) rs"
    and le: "length (filter (\<lambda>r. rs_status r = ''failed'') rs) \<le> length (filter (\<lambda>r. rs_status r \<noteq> ''passed'') rs)"
    for rs :: "result_record list"
  proof -
    show "length (filter (\<lambda>r. rs_status r = ''failed'') rs) \<le> length (filter (\<lambda>r. rs_status r \<noteq> ''passed'') rs)"
      for rs :: "result_record list"
      by (induction rs) auto
    then show "length (filter (\<lambda>r. rs_status r \<noteq> ''passed'') rs) = length (filter (\<lambda>r. rs_status r = ''failed'') rs)
            \<longleftrightarrow> list_all (\<lambda>r. rs_status r \<in> {''passed'', ''failed''}) rs"
      by (induction rs) (auto dest: le_imp_less_Suc [THEN less_not_refl3 [symmetric]])
  qed
  show ?thesis
    unfolding Let_def build_summary_def summary.simps
    using p f v fl sum_length_filter_compl [of "\<lambda>r. rs_status r = ''passed''" records]
      btree.entry_keys_fold [of rs_binding add_to_binding records]
      btree.entries_fold_sorted [of rs_binding add_to_binding records]
      btree.entries_fold_sorted [of vr_rule bump_rule "concat (map rs_violations records)"]
    by (simp add: sum_list_triv)
qed

text \<open>
  A result whose status is neither \<open>passed\<close> nor \<open>failed\<close> is a failure of its binding but not
  of the summary, whose failed count the verdict \<open>All validations passed\<close> is printed from.
\<close>

definition odd_record :: result_record where
  "odd_record =
     \<lparr>rs_message_id = ''m1'', rs_correlation_id = None, rs_binding = ''orders'', rs_topic = ''t'',
      rs_status = ''error'', rs_config_key = ''k'', rs_config_version = 3, rs_violations = [],
      rs_processed_at = []\<rparr>"

theorem other_status_not_counted:
  "(let s = build_summary [odd_record] in
    sm_total s = 1 \<and> sm_passed s = 0 \<and> sm_failed s = 0
    \<and> sm_bindings s = [(''orders'', \<lparr>bs_topic = ''t'', bs_passed = 0, bs_failed = 1\<rparr>)])"
  by code_simp

text \<open>A small JSON to run the parser on.\<close>

datatype small_json = JObj "(string \<times> small_json) list" | JArr "small_json list" | JStr string | JNum nat

definition small_api :: "small_json value_api" where
  "small_api =
     \<lparr>jv_get = (\<lambda>v k. case v of JObj kvs \<Rightarrow> map_of kvs k | _ \<Rightarrow> None),
      jv_array = (\<lambda>v. case v of JArr vs \<Rightarrow> Some vs | _ \<Rightarrow> None),
      jv_str = (\<lambda>v. case v of JStr s \<Rightarrow> Some s | _ \<Rightarrow> None),
      jv_u64 = (\<lambda>v. case v of JNum n \<Rightarrow> Some n | _ \<Rightarrow> None)\<rparr>"

definition small_body :: small_json where
  "small_body =
     JObj [(''results'',
            JArr (map (\<lambda>(m, st). JObj [(''message_id'', JStr m), (''status'', JStr st),
                                        (''binding'', JObj [(''name'', JStr ''orders'')])])
                   [(''m1'', ''failed''), (''m2'', ''passed''), (''m3'', ''failed''), (''m4'', ''failed'')]))]"

definition small_config :: inspect_config where
  "small_config =
     \<lparr>ic_base_url = ''http://h/'', ic_scope_kind = ''global'', ic_scope_key = ''default'',
      ic_binding_name = None, ic_topic = None, ic_limit = 20, ic_failed_only = True,
      ic_latest = Some 2\<rparr>"

text \<open>
  Property (inspection). A run that succeeds reports a summary of exactly the results it lists; they
  are the service's results in their order, cut to the latest ones after the filter: with
  \<open>failed_only\<close> every one of them failed and the summary counts them all as failed, and the
  cut never hides a failed result in favour of one that did not fail.
\<close>

theorem inspect_run_consistent:
  assumes "inspect_run J http c = Inr rep"
  shows "\<exists>body parsed.
           fetch_results http c = Inr body \<and> parse_results J body = Inr parsed
           \<and> ir_summary rep = build_summary (ir_results rep)
           \<and> ir_results rep = select_records c parsed
           \<and> (ic_failed_only c \<longrightarrow>
                (\<forall>r\<in>set (ir_results rep). rs_status r = ''failed'')
                \<and> sm_failed (ir_summary rep) = sm_total (ir_summary rep)
                \<and> length (ir_results rep)
                  = (let n = length (filter (\<lambda>r. rs_status r = ''failed'') parsed)
                     in case ic_latest c of None \<Rightarrow> n | Some k \<Rightarrow> min n k))"
proof -
  obtain body parsed where b: "fetch_results http c = Inr body" "parse_results J body = Inr parsed"
    and r: "ir_summary rep = build_summary (select_records c parsed)" "ir_results rep = select_records c parsed"
    using assms by (auto simp: inspect_run_def Let_def split: sum.splits)
  have "\<forall>x\<in>set (select_records c parsed). rs_status x = ''failed''" if "ic_failed_only c"
    using that by (auto simp: select_records_def Let_def dest: in_set_takeD split: option.splits)
  moreover from this have "sm_failed (ir_summary rep) = sm_total (ir_summary rep)" if "ic_failed_only c"
    using that r(1) by (simp add: build_summary_def filter_True)
  moreover have "length (select_records c parsed)
      = (let n = length (filter (\<lambda>r. rs_status r = ''failed'') parsed)
         in case ic_latest c of None \<Rightarrow> n | Some k \<Rightarrow> min n k)" if "ic_failed_only c"
    using that by (simp add: select_records_def Let_def split: option.splits)
  ultimately show ?thesis using b r by (intro exI [of _ body] exI [of _ parsed]) simp
qed

theorem inspect_run_consistent_witness:
  "\<exists>rep. inspect_run small_api (\<lambda>url. Inr (Inr small_body)) small_config = Inr rep
         \<and> map rs_message_id (ir_results rep) = [''m1'', ''m3'']
         \<and> sm_failed (ir_summary rep) = sm_total (ir_summary rep)"
proof -
  have ids: "(case inspect_run small_api (\<lambda>url. Inr (Inr small_body)) small_config of
                Inr rep \<Rightarrow> map rs_message_id (ir_results rep) = [''m1'', ''m3''] | Inl _ \<Rightarrow> False)"
    by code_simp
  then obtain rep where rep: "inspect_run small_api (\<lambda>url. Inr (Inr small_body)) small_config = Inr rep"
    "map rs_message_id (ir_results rep) = [''m1'', ''m3'']" by (auto split: sum.splits)
  moreover have "ic_failed_only small_config" by (simp add: small_config_def)
  ultimately show ?thesis using inspect_run_consistent [OF rep(1)] by auto
qed

end
