(* ===== verification/Diagnostics.thy ===== *)
theory Diagnostics
  imports Prelude
begin

text \<open>
  \<open>src/runtime_diagnostics.rs\<close>: reading the bootstrap diagnostics of the consumer and of the
  emulator back from their logs. The services log with Go's \<open>slog\<close> text handler; the
  specification of its quoting is \<open>slog_quote\<close>, which agrees with \<open>strconv.Quote\<close> on
  strings whose only control characters are line feeds and tabs.
\<close>

section \<open>Fields of a log line\<close>

definition backslash :: char where
  "backslash = CHR 0x5C"

definition dquote :: char where
  "dquote = CHR 0x22"

definition unescape :: "char \<Rightarrow> char" where
  "unescape c = (if c = CHR ''n'' then CHR 0x0A else if c = CHR ''t'' then CHR 0x09 else c)"

text \<open>The loop over the characters after the opening quote; the flag is \<open>escaped\<close>.\<close>

fun quoted_value :: "bool \<Rightarrow> string \<Rightarrow> string" where
  "quoted_value escaped [] = []"
| "quoted_value escaped (ch # cs) =
     (if escaped then unescape ch # quoted_value False cs
      else if ch = backslash then quoted_value True cs
      else if ch = dquote then []
      else ch # quoted_value False cs)"

definition parse_slog_field :: "string \<Rightarrow> string \<Rightarrow> string option" where
  "parse_slog_field line key =
     (let pattern = key @ ''='' in
      case find_sub line pattern of
        None \<Rightarrow> None
      | Some i \<Rightarrow>
          (let rest = drop (i + length pattern) line in
           case strip_prefix rest [dquote] of
             Some after_quote \<Rightarrow> Some (quoted_value False after_quote)
           | None \<Rightarrow> Some (fst (split_ws_once rest))))"

definition parse_runtime_refs :: "string \<Rightarrow> string list" where
  "parse_runtime_refs raw =
     (let trimmed = trim raw;
          inner = trim (case strip_prefix trimmed ''['' of
                          None \<Rightarrow> trimmed
                        | Some value \<Rightarrow>
                            (case strip_suffix value '']'' of None \<Rightarrow> trimmed | Some v \<Rightarrow> v))
      in if inner = [] then [] else split_ws inner)"

section \<open>The last marked line\<close>

record bootstrap_diagnostics =
  bd_source :: string
  bd_event :: string
  bd_signature :: string
  bd_runtime_refs :: "string list"

definition marked :: "string list \<Rightarrow> string \<Rightarrow> bool" where
  "marked markers line = list_ex (contains line) markers"

definition diagnostics_of :: "string \<Rightarrow> string list \<Rightarrow> string \<Rightarrow> bootstrap_diagnostics option" where
  "diagnostics_of source markers line =
     (case parse_slog_field line ''bootstrap_signature'' of
        None \<Rightarrow> None
      | Some signature \<Rightarrow>
          (case parse_slog_field line ''runtime_refs'' of
             None \<Rightarrow> None
           | Some refs \<Rightarrow>
               Some \<lparr>bd_source = source,
                     bd_event = (case find (contains line) markers of
                                   None \<Rightarrow> ''loaded'' | Some marker \<Rightarrow> marker),
                     bd_signature = signature, bd_runtime_refs = parse_runtime_refs refs\<rparr>))"

text \<open>The loop over \<open>raw.lines().rev()\<close>; a marked line decides, complete or not.\<close>

fun scan_lines :: "string \<Rightarrow> string list \<Rightarrow> string list \<Rightarrow> bootstrap_diagnostics option" where
  "scan_lines source markers [] = None"
| "scan_lines source markers (line # ls) =
     (if marked markers line then diagnostics_of source markers line
      else scan_lines source markers ls)"

definition parse_loaded_bootstrap_diagnostics ::
    "string \<Rightarrow> string \<Rightarrow> string list \<Rightarrow> bootstrap_diagnostics option" where
  "parse_loaded_bootstrap_diagnostics raw source markers = scan_lines source markers (rev (str_lines raw))"

definition parse_consumer_bootstrap_diagnostics :: "string \<Rightarrow> bootstrap_diagnostics option" where
  "parse_consumer_bootstrap_diagnostics raw =
     parse_loaded_bootstrap_diagnostics raw ''consumer'' [''consumer runtime ready'']"

definition parse_emulator_bootstrap_diagnostics :: "string \<Rightarrow> bootstrap_diagnostics option" where
  "parse_emulator_bootstrap_diagnostics raw =
     parse_loaded_bootstrap_diagnostics raw ''emulator''
       [''emulator bootstrap refreshed'', ''emulator started'']"

definition compact_bootstrap_signature :: "string \<Rightarrow> string" where
  "compact_bootstrap_signature signature =
     join '' ; '' (filter (\<lambda>l. l \<noteq> []) (map trim (split_on signature nl)))"

section \<open>Quoting\<close>

text \<open>What the log handler writes for a quoted value.\<close>

definition slog_escape :: "char \<Rightarrow> string" where
  "slog_escape c =
     (if c = CHR 0x0A then [backslash, CHR ''n'']
      else if c = CHR 0x09 then [backslash, CHR ''t'']
      else if c = dquote then [backslash, dquote]
      else if c = backslash then [backslash, backslash]
      else [c])"

definition slog_quote :: "string \<Rightarrow> string" where
  "slog_quote v = [dquote] @ concat (map slog_escape v) @ [dquote]"

lemma quoted_value_escape:
  "quoted_value False (slog_escape c @ s) = c # quoted_value False s"
  by (auto simp: slog_escape_def unescape_def backslash_def dquote_def)

lemma quoted_value_quote:
  "quoted_value False (concat (map slog_escape v) @ dquote # s) = v"
proof (induction v)
  case Nil
  show ?case by (simp add: backslash_def dquote_def)
next
  case (Cons c v)
  show ?case using Cons.IH by (simp add: quoted_value_escape)
qed

lemma slog_quote_no_nl: "CHR 0x0A \<notin> set (slog_quote v)"
  by (auto simp: slog_quote_def slog_escape_def backslash_def dquote_def split: if_splits)

text \<open>A key is found at its place when it does not occur earlier in the line.\<close>

lemma key_overlap:
  assumes "CHR ''='' \<notin> set key" "u @ key @ ''='' @ s = key @ ''='' @ b" "u \<noteq> []"
  shows "contains u (key @ ''='')"
proof (cases "length key < length u")
  case True
  define P where "P = key @ ''=''"
  have "length P \<le> length u" using True by (simp add: P_def)
  moreover have "u @ P @ s = P @ b" using assms(2) by (simp add: P_def)
  ultimately have "u = P @ drop (length P) u"
    by (metis append_eq_append_conv_if append_take_drop_id)
  then show ?thesis unfolding contains_iff P_def [symmetric] by (metis append_Nil)
next
  case False
  then have "length key - length u < length key" using assms(3) by (cases u) auto
  moreover have "(u @ key @ ''='' @ s) ! length key = key ! (length key - length u)"
    using False calculation by (simp add: nth_append)
  moreover have "(key @ ''='' @ b) ! length key = CHR ''=''" by simp
  ultimately show ?thesis using assms(1,2) by (metis nth_mem)
qed

lemma find_key:
  assumes "CHR ''='' \<notin> set key" "\<not> contains pre (key @ ''='')"
  shows "find_sub (pre @ key @ ''='' @ s) (key @ ''='') = Some (length pre)"
  using assms(2)
proof (induction pre)
  case Nil
  have "starts_with (key @ ''='' @ s) (key @ ''='')"
    by (metis append.assoc starts_with_append)
  then show ?case by (cases "key @ ''='' @ s") (simp_all add: starts_with_def)
next
  case (Cons c pre)
  have "\<not> contains pre (key @ ''='')"
    using Cons.prems unfolding contains_iff by (metis append_Cons)
  moreover have "\<not> starts_with ((c # pre) @ key @ ''='' @ s) (key @ ''='')"
    using key_overlap [OF assms(1), of "c # pre" s] Cons.prems by (auto simp: starts_with_iff)
  ultimately show ?case using Cons.IH by simp
qed

lemma parse_quoted_field:
  assumes "CHR ''='' \<notin> set key" "\<not> contains pre (key @ ''='')"
  shows "parse_slog_field (pre @ key @ ''='' @ slog_quote v @ s) key = Some v"
  using find_key [OF assms, of "slog_quote v @ s"]
  by (simp add: parse_slog_field_def slog_quote_def quoted_value_quote)

section \<open>References\<close>

lemma parse_printed_refs:
  assumes "\<forall>r\<in>set refs. plain_word r"
  shows "parse_runtime_refs (''['' @ join '' '' refs @ '']'') = refs"
proof -
  have "trim ([] @ (''['' @ join '' '' refs @ '']'') @ []) = ''['' @ join '' '' refs @ '']''"
    by (rule trim_pad) (simp_all add: plain_ends_def plain_char_def ascii_ws_def multi_ws_heads_def multi_ws_def)
  then have outer: "trim (''['' @ join '' '' refs @ '']'') = ''['' @ join '' '' refs @ '']''" by simp
  have suffix: "strip_suffix (s @ '']'') '']'' = Some s" for s
    by (simp add: strip_suffix_def)
  show ?thesis
  proof (cases "refs = []")
    case True
    then show ?thesis using outer suffix [of "[]"] by (simp add: parse_runtime_refs_def Let_def)
  next
    case False
    have ends: "plain_ends (join '' '' refs)" by (rule join_plain_ends [OF False assms])
    then have "trim (join '' '' refs) = join '' '' refs" "join '' '' refs \<noteq> []"
      by (simp_all add: trim_plain_ends) (simp add: plain_ends_def)
    moreover have "split_ws (join '' '' refs) = refs" by (rule split_ws_join [OF assms])
    ultimately show ?thesis
      using outer suffix by (simp add: parse_runtime_refs_def Let_def)
  qed
qed

section \<open>Properties\<close>

lemma scan_lines_find:
  "scan_lines source markers ls
   = (case find (marked markers) ls of None \<Rightarrow> None | Some l \<Rightarrow> diagnostics_of source markers l)"
  by (induction ls) auto

lemma find_append_none: "find P xs = None \<Longrightarrow> find P (xs @ ys) = find P ys"
  by (induction xs) (auto split: if_splits)

text \<open>The line the services print when they are ready.\<close>

definition ready_line :: "string \<Rightarrow> string \<Rightarrow> string list \<Rightarrow> string" where
  "ready_line pre signature refs =
     pre @ ''bootstrap_signature='' @ slog_quote signature
     @ '' runtime_refs='' @ slog_quote (''['' @ join '' '' refs @ '']'')"

definition log_text :: "string list \<Rightarrow> string" where
  "log_text ls = concat (map (\<lambda>l. l @ nl) ls)"

lemma diagnostics_of_ready_line:
  assumes "\<not> contains pre ''bootstrap_signature=''"
    and "\<not> contains (pre @ ''bootstrap_signature='' @ slog_quote signature @ '' '') ''runtime_refs=''"
    and "\<forall>r\<in>set refs. plain_word r"
  shows "diagnostics_of source markers (ready_line pre signature refs)
         = Some \<lparr>bd_source = source,
                 bd_event = (case find (contains (ready_line pre signature refs)) markers of
                               None \<Rightarrow> ''loaded'' | Some marker \<Rightarrow> marker),
                 bd_signature = signature, bd_runtime_refs = refs\<rparr>"
proof -
  let ?tail = "'' runtime_refs='' @ slog_quote (''['' @ join '' '' refs @ '']'')"
  have "parse_slog_field (ready_line pre signature refs) ''bootstrap_signature'' = Some signature"
    using parse_quoted_field [of "''bootstrap_signature''" pre signature ?tail] assms(1)
    by (simp add: ready_line_def)
  moreover have "parse_slog_field (ready_line pre signature refs) ''runtime_refs''
                 = Some (''['' @ join '' '' refs @ '']'')"
    using parse_quoted_field [of "''runtime_refs''"
        "pre @ ''bootstrap_signature='' @ slog_quote signature @ '' ''" _ "[]"] assms(2)
    by (simp add: ready_line_def)
  ultimately show ?thesis
    using parse_printed_refs [OF assms(3)] by (simp add: diagnostics_of_def)
qed

text \<open>
  Property (bootstrap diagnostics). In a log whose last line with the marker \<open>consumer runtime
  ready\<close> is the one the consumer prints, the signature and the runtime references are read
  back exactly, whatever the signature contains (quotes, backslashes, line feeds), however
  many earlier lines carry the marker, and whatever unmarked lines follow.
\<close>

theorem consumer_bootstrap_roundtrip:
  assumes "\<forall>l\<in>set (before @ after). line_ok l" "CHR 0x0A \<notin> set pre"
    and "contains pre ''consumer runtime ready''"
    and "\<forall>l\<in>set after. \<not> contains l ''consumer runtime ready''"
    and "\<not> contains pre ''bootstrap_signature=''"
    and "\<not> contains (pre @ ''bootstrap_signature='' @ slog_quote signature @ '' '') ''runtime_refs=''"
    and "\<forall>r\<in>set refs. plain_word r"
  shows "parse_consumer_bootstrap_diagnostics
           (log_text (before @ [ready_line pre signature refs] @ after))
         = Some \<lparr>bd_source = ''consumer'', bd_event = ''consumer runtime ready'',
                 bd_signature = signature, bd_runtime_refs = refs\<rparr>"
proof -
  let ?l = "ready_line pre signature refs" and ?ms = "[''consumer runtime ready'']"
  have m: "contains ?l ''consumer runtime ready''"
    using assms(3) unfolding ready_line_def contains_iff by (metis append.assoc)
  have "last ?l = dquote" by (simp add: ready_line_def slog_quote_def)
  moreover have "CHR 0x0A \<notin> set ?l" using assms(2) slog_quote_no_nl by (simp add: ready_line_def)
  ultimately have "line_ok ?l" by (simp add: line_ok_def dquote_def)
  with assms(1) have ls: "str_lines (log_text (before @ [?l] @ after)) = before @ [?l] @ after"
    unfolding log_text_def by (intro str_lines_concat) auto
  have "find (marked ?ms) (rev after) = None"
    using assms(4) by (auto simp: find_None_iff marked_def)
  then have "find (marked ?ms) (rev (before @ [?l] @ after)) = Some ?l"
    using m by (simp add: find_append_none marked_def)
  then show ?thesis
    using diagnostics_of_ready_line [OF assms(5-7)] m ls
    by (simp add: parse_consumer_bootstrap_diagnostics_def parse_loaded_bootstrap_diagnostics_def
        scan_lines_find)
qed

theorem consumer_bootstrap_roundtrip_witness:
  "parse_consumer_bootstrap_diagnostics
     (log_text [''level=INFO msg=x'',
                ready_line ''msg=consumer runtime ready '' (''a'' @ nl @ [dquote]) [''r1'', ''r2''],
                ''level=WARN''])
   = Some \<lparr>bd_source = ''consumer'', bd_event = ''consumer runtime ready'',
           bd_signature = ''a'' @ nl @ [dquote], bd_runtime_refs = [''r1'', ''r2'']\<rparr>"
proof -
  have "\<forall>l\<in>set ([''level=INFO msg=x''] @ [''level=WARN'']). line_ok l"
    "CHR 0x0A \<notin> set ''msg=consumer runtime ready ''"
    "contains ''msg=consumer runtime ready '' ''consumer runtime ready''"
    "\<forall>l\<in>set [''level=WARN'']. \<not> contains l ''consumer runtime ready''"
    "\<not> contains ''msg=consumer runtime ready '' ''bootstrap_signature=''"
    "\<not> contains (''msg=consumer runtime ready '' @ ''bootstrap_signature=''
        @ slog_quote (''a'' @ nl @ [dquote]) @ '' '') ''runtime_refs=''"
    "\<forall>r\<in>set [''r1'', ''r2'']. plain_word r"
    by code_simp+
  from consumer_bootstrap_roundtrip [OF this] show ?thesis by simp
qed

text \<open>
  The last marked line decides even when it is incomplete: a complete earlier line is not
  looked at again.
\<close>

theorem incomplete_line_hides_earlier:
  "parse_emulator_bootstrap_diagnostics
     (log_text [ready_line ''emulator started '' ''s'' [''r''], ''emulator bootstrap refreshed''])
   = None
   \<and> parse_emulator_bootstrap_diagnostics (log_text [ready_line ''emulator started '' ''s'' [''r'']])
   = Some \<lparr>bd_source = ''emulator'', bd_event = ''emulator started'',
           bd_signature = ''s'', bd_runtime_refs = [''r'']\<rparr>"
  by code_simp

end
