(* ===== verification/ProcessUtils.thy ===== *)
theory ProcessUtils
  imports Prelude
begin

text \<open>
  \<open>src/process_utils.rs\<close>: running a command under a deadline. The operating system is a
  parameter: what the child answers to the \<open>k\<close>-th \<open>try_wait\<close>, what \<open>Instant::now\<close> reads
  (in milliseconds) at the check after it, and what the pipes hold when they are read. The
  polling loop may run forever, so it is a partial function; that it returns is a theorem
  about clocks on which \<open>thread::sleep\<close> lasts at least as long as it is asked to.
\<close>

section \<open>The command\<close>

record 'st child =
  ch_try_wait :: "nat \<Rightarrow> string + 'st option"
  ch_now :: "nat \<Rightarrow> nat"
  ch_stdout :: string
  ch_stderr :: string

record 'st command_capture =
  cc_status :: 'st
  cc_stdout :: string
  cc_stderr :: string

text \<open>How the loop is left.\<close>

datatype 'st wait_outcome = Exited 'st | DeadlinePassed | WaitFailed string

partial_function (option) wait_loop :: "'st child \<Rightarrow> nat \<Rightarrow> nat \<Rightarrow> ('st wait_outcome \<times> nat) option" where
  "wait_loop ch deadline k =
     (case ch_try_wait ch k of
        Inr (Some status) \<Rightarrow> Some (Exited status, k)
      | Inr None \<Rightarrow>
          if deadline \<le> ch_now ch k then Some (DeadlinePassed, k)
          else wait_loop ch deadline (k + 1)
      | Inl e \<Rightarrow> Some (WaitFailed e, k))"

definition read_child_output :: "'st child \<Rightarrow> string \<times> string" where
  "read_child_output ch = (ch_stdout ch, ch_stderr ch)"

definition as_secs :: "nat \<Rightarrow> nat" where
  "as_secs ms = ms div 1000"

definition timeout_message :: "string \<Rightarrow> nat \<Rightarrow> string \<Rightarrow> string" where
  "timeout_message context timeout err =
     (let stderr = trim err;
          head = context @ '' timed out after '' @ show_nat (as_secs timeout) @ ''s''
      in if stderr = [] then head else head @ '': '' @ stderr)"

text \<open>
  The \<open>Command\<close> either fails to start, with the message of the error, or yields a child and
  the time \<open>Instant::now()\<close> reads right after.
\<close>

definition run_command_with_timeout ::
    "string + 'st child \<times> nat \<Rightarrow> nat \<Rightarrow> string \<Rightarrow> (string + 'st command_capture) option" where
  "run_command_with_timeout spawned timeout context =
     (case spawned of
        Inl e \<Rightarrow> Some (Inl (''failed to start '' @ context @ '': '' @ e))
      | Inr (ch, start) \<Rightarrow>
          (let deadline = start + timeout in
           case wait_loop ch deadline 0 of
             None \<Rightarrow> None
           | Some (Exited status, _) \<Rightarrow>
               (let (stdout, stderr) = read_child_output ch in
                Some (Inr \<lparr>cc_status = status, cc_stdout = stdout, cc_stderr = stderr\<rparr>))
           | Some (DeadlinePassed, _) \<Rightarrow>
               (let (_, stderr) = read_child_output ch in
                Some (Inl (timeout_message context timeout stderr)))
           | Some (WaitFailed e, _) \<Rightarrow>
               Some (Inl (''failed while waiting for '' @ context @ '': '' @ e))))"

section \<open>The loop\<close>

text \<open>Poll \<open>k\<close> leaves the loop.\<close>

definition decisive :: "'st child \<Rightarrow> nat \<Rightarrow> nat \<Rightarrow> bool" where
  "decisive ch deadline k = (ch_try_wait ch k \<noteq> Inr None \<or> deadline \<le> ch_now ch k)"

definition outcome_at :: "'st child \<Rightarrow> nat \<Rightarrow> 'st wait_outcome" where
  "outcome_at ch k =
     (case ch_try_wait ch k of
        Inr (Some status) \<Rightarrow> Exited status | Inr None \<Rightarrow> DeadlinePassed | Inl e \<Rightarrow> WaitFailed e)"

lemma wait_loop_decisive:
  "decisive ch deadline k \<Longrightarrow> wait_loop ch deadline k = Some (outcome_at ch k, k)"
  by (subst wait_loop.simps)
    (auto simp: decisive_def outcome_at_def split: sum.splits option.splits)

lemma wait_loop_step:
  "\<not> decisive ch deadline k \<Longrightarrow> wait_loop ch deadline k = wait_loop ch deadline (k + 1)"
  by (subst wait_loop.simps) (auto simp: decisive_def)

lemma wait_loop_first:
  assumes "decisive ch deadline n" "k \<le> n" "\<forall>j\<in>{k..<n}. \<not> decisive ch deadline j"
  shows "wait_loop ch deadline k = Some (outcome_at ch n, n)"
  using assms(2,3)
proof (induction rule: inc_induct)
  case base
  show ?case by (rule wait_loop_decisive [OF assms(1)])
next
  case (step m)
  then show ?case using wait_loop_step [of ch deadline m] by simp
qed

text \<open>Between two polls the loop sleeps 100 ms.\<close>

definition clock_ok :: "'st child \<Rightarrow> nat \<Rightarrow> bool" where
  "clock_ok ch start = (start \<le> ch_now ch 0 \<and> (\<forall>k. ch_now ch k + 100 \<le> ch_now ch (Suc k)))"

lemma clock_advances:
  assumes "clock_ok ch start"
  shows "start + 100 * k \<le> ch_now ch k"
proof (induction k)
  case (Suc k)
  moreover have "ch_now ch k + 100 \<le> ch_now ch (Suc k)" using assms by (simp add: clock_ok_def)
  ultimately show ?case by simp
qed (use assms in \<open>simp add: clock_ok_def\<close>)

lemma deadline_reached:
  assumes "clock_ok ch start"
  shows "\<exists>n\<le>timeout div 100 + 1. decisive ch (start + timeout) n"
proof (intro exI conjI)
  have "timeout mod 100 < 100" by simp
  then have "timeout \<le> 100 * (timeout div 100 + 1)"
    using mult_div_mod_eq [of 100 timeout] by (simp del: mult_div_mod_eq)
  also have "start + \<dots> \<le> ch_now ch (timeout div 100 + 1)" by (rule clock_advances [OF assms])
  finally show "decisive ch (start + timeout) (timeout div 100 + 1)" by (simp add: decisive_def)
qed simp

section \<open>Properties\<close>

text \<open>
  Property (the wait ends). On a clock that advances by the 100 ms the loop sleeps, the loop ends
  after at most \<open>timeout / 100 + 2\<close> polls, with the answer of the first poll that found the
  child finished, found an error, or came at or after the deadline.
\<close>

theorem wait_loop_terminates:
  assumes "clock_ok ch start"
  shows "\<exists>n\<le>timeout div 100 + 1.
           wait_loop ch (start + timeout) 0 = Some (outcome_at ch n, n)
           \<and> decisive ch (start + timeout) n \<and> (\<forall>j<n. \<not> decisive ch (start + timeout) j)"
proof -
  obtain m where m: "m \<le> timeout div 100 + 1" "decisive ch (start + timeout) m"
    using deadline_reached [OF assms] by blast
  then obtain n where n: "decisive ch (start + timeout) n"
    "\<forall>j<n. \<not> decisive ch (start + timeout) j"
    using exists_least_iff [of "decisive ch (start + timeout)"] by blast
  then have "n \<le> m" using m(2) by (meson not_le)
  moreover have "wait_loop ch (start + timeout) 0 = Some (outcome_at ch n, n)"
    by (rule wait_loop_first [OF n(1)]) (use n(2) in auto)
  ultimately show ?thesis using m(1) n le_trans by blast
qed

text \<open>A child that never finishes, on a clock that ticks exactly.\<close>

definition hanging_child :: "nat child" where
  "hanging_child =
     \<lparr>ch_try_wait = (\<lambda>k. Inr None), ch_now = (\<lambda>k. 7 + 100 * k), ch_stdout = [],
      ch_stderr = '' no route ''\<rparr>"

lemma hanging_child_ok: "clock_ok hanging_child 7"
  by (simp add: clock_ok_def hanging_child_def)

theorem wait_loop_terminates_witness:
  "\<exists>n\<le>3. wait_loop hanging_child (7 + 250) 0 = Some (outcome_at hanging_child n, n)"
  using wait_loop_terminates [OF hanging_child_ok, of 250] by auto

lemma wait_loop_result:
  assumes "\<forall>j<n. ch_try_wait ch j = Inr None \<and> ch_now ch j < deadline" "decisive ch deadline n"
  shows "wait_loop ch deadline 0 = Some (outcome_at ch n, n)"
  by (rule wait_loop_first [OF assms(2)]) (use assms(1) in \<open>auto simp: decisive_def not_le\<close>)

lemma first_passing:
  assumes "\<not> (\<forall>j<m. ch_now ch j < deadline)"
  shows "\<exists>n<m. deadline \<le> ch_now ch n \<and> (\<forall>j<n. ch_now ch j < deadline)"
proof -
  from assms have "\<exists>n. n < m \<and> deadline \<le> ch_now ch n" by (auto simp: not_less)
  then obtain n where n: "n < m" "deadline \<le> ch_now ch n"
    "\<forall>j<n. \<not> (j < m \<and> deadline \<le> ch_now ch j)"
    using exists_least_iff [of "\<lambda>n. n < m \<and> deadline \<le> ch_now ch n"] by blast
  then have "\<forall>j<n. ch_now ch j < deadline" by (meson less_trans not_le)
  with n show ?thesis by blast
qed

text \<open>
  Property (exit or timeout). A child that exits at poll \<open>m\<close> is reported with its status and its
  output when every earlier poll was before the deadline, even if the deadline passed in the
  last sleep; otherwise the caller gets the timeout message, with the trimmed standard error
  when there is one. There is no third outcome.
\<close>

theorem run_command_exit_or_timeout:
  assumes "\<forall>j<m. ch_try_wait ch j = Inr None" and "ch_try_wait ch m = Inr (Some st)"
  shows "run_command_with_timeout (Inr (ch, start)) timeout context =
           Some (if \<forall>j<m. ch_now ch j < start + timeout
                 then Inr \<lparr>cc_status = st, cc_stdout = ch_stdout ch, cc_stderr = ch_stderr ch\<rparr>
                 else Inl (timeout_message context timeout (ch_stderr ch)))"
proof (cases "\<forall>j<m. ch_now ch j < start + timeout")
  case True
  have "wait_loop ch (start + timeout) 0 = Some (outcome_at ch m, m)"
    by (rule wait_loop_result) (use assms True in \<open>auto simp: decisive_def\<close>)
  with True assms(2) show ?thesis
    by (simp add: run_command_with_timeout_def outcome_at_def read_child_output_def)
next
  case False
  obtain n where n: "n < m" "start + timeout \<le> ch_now ch n" "\<forall>j<n. ch_now ch j < start + timeout"
    using first_passing [OF False] by blast
  have "wait_loop ch (start + timeout) 0 = Some (outcome_at ch n, n)"
    by (rule wait_loop_result) (use assms n in \<open>auto simp: decisive_def\<close>)
  moreover have "outcome_at ch n = DeadlinePassed" using assms(1) n(1) by (simp add: outcome_at_def)
  ultimately show ?thesis
    unfolding run_command_with_timeout_def using False by (simp add: read_child_output_def)
qed

definition quick_child :: "nat child" where
  "quick_child =
     \<lparr>ch_try_wait = (\<lambda>k. if k < 3 then Inr None else Inr (Some 0)), ch_now = (\<lambda>k. 100 * k),
      ch_stdout = ''ok'', ch_stderr = []\<rparr>"

theorem run_command_exit_or_timeout_witness:
  "run_command_with_timeout (Inr (quick_child, 0)) 250 ''docker compose ps''
     = Some (Inr \<lparr>cc_status = 0, cc_stdout = ''ok'', cc_stderr = []\<rparr>)
   \<and> run_command_with_timeout (Inr (quick_child, 0)) 200 ''docker compose ps''
     = Some (Inl ''docker compose ps timed out after 0s'')"
proof -
  have h: "\<forall>j<3. ch_try_wait quick_child j = Inr None" "ch_try_wait quick_child 3 = Inr (Some 0)"
    by (simp_all add: quick_child_def)
  have "\<forall>j<3. ch_now quick_child j < 0 + 250" by (simp add: quick_child_def)
  moreover have "\<not> (\<forall>j<3. ch_now quick_child j < 0 + 200)"
    by (simp add: quick_child_def) (intro exI [of _ 2], simp)
  moreover have "timeout_message ''docker compose ps'' 200 (ch_stderr quick_child)
                 = ''docker compose ps timed out after 0s''"
    by code_simp
  ultimately show ?thesis
    using run_command_exit_or_timeout [OF h, of 0 250 "''docker compose ps''"]
      run_command_exit_or_timeout [OF h, of 0 200 "''docker compose ps''"]
    by (simp add: quick_child_def)
qed

section \<open>A child that fills its pipe\<close>

text \<open>
  The pipes are read only after the child has ended. A child that writes \<open>out\<close> to a pipe that holds
  \<open>cap\<close> characters and would end at poll \<open>n\<close> ends only when all of it fits.
\<close>

definition piped_child :: "nat \<Rightarrow> nat \<Rightarrow> 'st \<Rightarrow> string \<Rightarrow> (nat \<Rightarrow> nat) \<Rightarrow> 'st child" where
  "piped_child cap n st out now =
     \<lparr>ch_try_wait = (\<lambda>k. Inr (if length out \<le> cap \<and> n \<le> k then Some st else None)), ch_now = now,
      ch_stdout = take cap out, ch_stderr = []\<rparr>"

lemma full_pipe_times_out:
  assumes "cap < length out" and clock: "clock_ok (piped_child cap n st out now) start"
  shows "run_command_with_timeout (Inr (piped_child cap n st out now, start)) timeout context
         = Some (Inl (timeout_message context timeout []))"
proof -
  obtain k where "wait_loop (piped_child cap n st out now) (start + timeout) 0
      = Some (outcome_at (piped_child cap n st out now) k, k)"
    using wait_loop_terminates [OF clock] by blast
  then show ?thesis using assms(1)
    by (simp add: run_command_with_timeout_def outcome_at_def piped_child_def read_child_output_def)
qed

end
