(* ===== verification/Smoke.thy ===== *)
theory Smoke
  imports ResultsInspect Diagnostics ProcessUtils
begin

text \<open>
  The runtime smoke test: \<open>src/smoke/mod.rs\<close> (the pipeline), \<open>smoke/compose.rs\<close>,
  \<open>smoke/api.rs\<close> and \<open>smoke/stages.rs\<close>. The outside world is a parameter: a state of any
  type that HTTP requests, \<open>docker\<close> commands and sleeping change, and a clock that reads it.
  Every operation threads that state, so that the order of the calls is in the model. The
  polling loops may run forever; that they end when the clock advances is a theorem.
\<close>

section \<open>The world\<close>

datatype 'j http_reply =
    Reply nat "string + 'j"
  | StatusError nat string
  | TransportError string

record ('w, 'j) smoke_env =
  sv_now :: "'w \<Rightarrow> nat"
  sv_sleep :: "nat \<Rightarrow> 'w \<Rightarrow> 'w"
  sv_get :: "string \<Rightarrow> 'w \<Rightarrow> 'j http_reply \<times> 'w"
  sv_post :: "string \<Rightarrow> 'j \<Rightarrow> 'w \<Rightarrow> 'j http_reply \<times> 'w"
  sv_compose_exists :: "'w \<Rightarrow> bool"
  sv_compose_ps :: "'w \<Rightarrow> (string + nat command_capture) \<times> 'w"
  sv_compose_logs :: "string \<Rightarrow> 'w \<Rightarrow> (string + nat command_capture) \<times> 'w"

text \<open>Building JSON values, as \<open>serde_json::json!\<close> and \<open>to_string\<close> do.\<close>

record 'j json_build =
  jb_obj :: "(string \<times> 'j) list \<Rightarrow> 'j"
  jb_arr :: "'j list \<Rightarrow> 'j"
  jb_str :: "string \<Rightarrow> 'j"
  jb_bool :: "bool \<Rightarrow> 'j"
  jb_text :: "'j \<Rightarrow> string"

record smoke_config =
  sk_base_url :: string
  sk_compose_file :: string
  sk_readiness_timeout_secs :: nat
  sk_poll_interval_ms :: nat
  sk_results_timeout_secs :: nat
  sk_run_id :: string
  sk_scope_kind :: string
  sk_scope_key :: string
  sk_config_key :: string
  sk_binding_name :: string

text \<open>\<open>SmokeConfig::new\<close>; the run id (\<open>pid-millis\<close>) comes from the system.\<close>

definition smoke_config_new :: "string \<Rightarrow> string \<Rightarrow> string option \<Rightarrow> smoke_config" where
  "smoke_config_new run_id compose_file base_url =
     \<lparr>sk_base_url = (case base_url of Some u \<Rightarrow> u | None \<Rightarrow> ''http://127.0.0.1:8080''),
      sk_compose_file = compose_file, sk_readiness_timeout_secs = 60, sk_poll_interval_ms = 500,
      sk_results_timeout_secs = 30, sk_run_id = run_id, sk_scope_kind = ''global'',
      sk_scope_key = ''default'', sk_config_key = ''raccoon-smoke-'' @ run_id,
      sk_binding_name = ''smoke_events_'' @ run_id\<rparr>"

section \<open>The API client\<close>

definition api_base :: "smoke_config \<Rightarrow> string" where
  "api_base cfg = trim_end_char (sk_base_url cfg) CHR ''/''"

definition status_request :: "('w, 'j) smoke_env \<Rightarrow> smoke_config \<Rightarrow> string \<Rightarrow> 'w \<Rightarrow> (string + nat) \<times> 'w" where
  "status_request env cfg name w =
     (case sv_get env (api_base cfg @ ''/'' @ name) w of
        (Reply code _, w1) \<Rightarrow> (Inr code, w1)
      | (StatusError code _, w1) \<Rightarrow> (Inr code, w1)
      | (TransportError e, w1) \<Rightarrow> (Inl (name @ '' request failed: '' @ e), w1))"

definition healthz :: "('w, 'j) smoke_env \<Rightarrow> smoke_config \<Rightarrow> 'w \<Rightarrow> (string + nat) \<times> 'w" where
  "healthz env cfg = status_request env cfg ''healthz''"

definition readyz :: "('w, 'j) smoke_env \<Rightarrow> smoke_config \<Rightarrow> 'w \<Rightarrow> (string + nat) \<times> 'w" where
  "readyz env cfg = status_request env cfg ''readyz''"

definition json_reply :: "string \<Rightarrow> string \<Rightarrow> 'j http_reply \<Rightarrow> string + 'j" where
  "json_reply verb url reply =
     (case reply of
        Reply _ (Inr v) \<Rightarrow> Inr v
      | Reply _ (Inl e) \<Rightarrow> Inl (''failed to parse response from '' @ url @ '': '' @ e)
      | StatusError _ e \<Rightarrow> Inl (verb @ '' '' @ url @ '' failed: '' @ e)
      | TransportError e \<Rightarrow> Inl (verb @ '' '' @ url @ '' failed: '' @ e))"

definition get_json :: "('w, 'j) smoke_env \<Rightarrow> string \<Rightarrow> 'w \<Rightarrow> (string + 'j) \<times> 'w" where
  "get_json env url w = (let (reply, w1) = sv_get env url w in (json_reply ''GET'' url reply, w1))"

definition post_json :: "('w, 'j) smoke_env \<Rightarrow> string \<Rightarrow> 'j \<Rightarrow> 'w \<Rightarrow> (string + 'j) \<times> 'w" where
  "post_json env url body w =
     (let (reply, w1) = sv_post env url body w in (json_reply ''POST'' url reply, w1))"

definition create_draft :: "('w, 'j) smoke_env \<Rightarrow> 'j json_build \<Rightarrow> smoke_config \<Rightarrow> string \<Rightarrow> 'j
                            \<Rightarrow> 'w \<Rightarrow> (string + 'j) \<times> 'w" where
  "create_draft env B cfg name content =
     post_json env (api_base cfg @ ''/configctl/configs'')
       (jb_obj B [(''name'', jb_str B name), (''format'', jb_str B ''json''),
                  (''content'', jb_str B (jb_text B content))])"

definition version_url :: "smoke_config \<Rightarrow> string \<Rightarrow> string \<Rightarrow> string" where
  "version_url cfg i action = api_base cfg @ ''/configctl/config-versions/'' @ i @ ''/'' @ action"

definition validate_config :: "('w, 'j) smoke_env \<Rightarrow> 'j json_build \<Rightarrow> smoke_config \<Rightarrow> string
                               \<Rightarrow> 'w \<Rightarrow> (string + 'j) \<times> 'w" where
  "validate_config env B cfg i = post_json env (version_url cfg i ''validate'') (jb_obj B [])"

definition compile_config :: "('w, 'j) smoke_env \<Rightarrow> 'j json_build \<Rightarrow> smoke_config \<Rightarrow> string
                              \<Rightarrow> 'w \<Rightarrow> (string + 'j) \<times> 'w" where
  "compile_config env B cfg i = post_json env (version_url cfg i ''compile'') (jb_obj B [])"

definition activate_config :: "('w, 'j) smoke_env \<Rightarrow> 'j json_build \<Rightarrow> smoke_config \<Rightarrow> string
                               \<Rightarrow> 'w \<Rightarrow> (string + 'j) \<times> 'w" where
  "activate_config env B cfg i =
     post_json env (version_url cfg i ''activate'')
       (jb_obj B [(''scope_kind'', jb_str B (sk_scope_kind cfg)),
                  (''scope_key'', jb_str B (sk_scope_key cfg))])"

definition scoped_url :: "smoke_config \<Rightarrow> string \<Rightarrow> string" where
  "scoped_url cfg path =
     api_base cfg @ path @ ''?scope_kind='' @ sk_scope_kind cfg @ ''&scope_key='' @ sk_scope_key cfg"

definition ingestion_bindings :: "('w, 'j) smoke_env \<Rightarrow> smoke_config \<Rightarrow> 'w \<Rightarrow> (string + 'j) \<times> 'w" where
  "ingestion_bindings env cfg = get_json env (scoped_url cfg ''/runtime/ingestion/bindings'')"

definition validation_results :: "('w, 'j) smoke_env \<Rightarrow> smoke_config \<Rightarrow> nat \<Rightarrow> 'w \<Rightarrow> (string + 'j) \<times> 'w" where
  "validation_results env cfg limit =
     get_json env (scoped_url cfg ''/runtime/validator/results'' @ ''&limit='' @ show_nat limit)"

definition validator_runtime :: "('w, 'j) smoke_env \<Rightarrow> smoke_config \<Rightarrow> 'w \<Rightarrow> (string + 'j) \<times> 'w" where
  "validator_runtime env cfg = get_json env (scoped_url cfg ''/runtime/validator/active'')"

section \<open>Compose\<close>

definition service_line :: "string \<Rightarrow> string option" where
  "service_line line =
     (case find_sub line '':'' of
        None \<Rightarrow> None
      | Some i \<Rightarrow> if contains (drop (i + 1) line) ''running'' then Some (take i line) else None)"

definition compose_failure :: "string \<Rightarrow> nat command_capture \<Rightarrow> string" where
  "compose_failure head output =
     (let stderr = trim (cc_stderr output) in if stderr = [] then head else head @ '': '' @ stderr)"

definition running_services :: "string + nat command_capture \<Rightarrow> string + string list" where
  "running_services res =
     (case res of
        Inl e \<Rightarrow> Inl e
      | Inr output \<Rightarrow>
          if cc_status output \<noteq> 0 then Inl (compose_failure ''docker compose ps failed'' output)
          else Inr (List.map_filter service_line (str_lines (cc_stdout output))))"

definition service_logs :: "string \<Rightarrow> string + nat command_capture \<Rightarrow> string + string" where
  "service_logs service res =
     (case res of
        Inl e \<Rightarrow> Inl e
      | Inr output \<Rightarrow>
          if cc_status output \<noteq> 0 then
            Inl (compose_failure
                   (''docker compose logs failed for service '' @ [CHR 0x27] @ service @ [CHR 0x27]) output)
          else Inr (cc_stdout output))"

definition required_services :: "string list" where
  "required_services =
     [''nats'', ''kafka'', ''configctl'', ''server'', ''consumer'', ''validator'', ''emulator'']"

definition missing_required_services :: "string list \<Rightarrow> string list \<Rightarrow> string list" where
  "missing_required_services running required = filter (\<lambda>svc. svc \<notin> set running) required"

section \<open>Stages\<close>

definition pass_with :: "string \<Rightarrow> string \<Rightarrow> check_result" where
  "pass_with name msg = (check_pass name)\<lparr>ck_findings := [finding_info name msg]\<rparr>"

definition fail_with :: "string \<Rightarrow> string \<Rightarrow> check_result" where
  "fail_with name msg = from_findings name [finding_error name msg]"

definition bootstrap_required :: "('w, 'j) smoke_env \<Rightarrow> smoke_config \<Rightarrow> string list \<Rightarrow> string
                                  \<Rightarrow> 'w \<Rightarrow> check_result \<times> 'w" where
  "bootstrap_required env cfg required help_command w =
     (if \<not> sv_compose_exists env w then
        (fail_with ''bootstrap'' (''compose file not found: '' @ sk_compose_file cfg), w)
      else (let (res, w1) = sv_compose_ps env w in
        case running_services res of
          Inl e \<Rightarrow> (fail_with ''bootstrap'' e, w1)
        | Inr running \<Rightarrow>
            (let missing = missing_required_services running required in
             if missing = [] then
               (pass_with ''bootstrap'' (''required services available: '' @ join '', '' required), w1)
             else
               (fail_with ''bootstrap''
                  (''missing services: '' @ join '', '' missing @ ''. Run `'' @ help_command @ ''` first.''),
                w1))))"

definition bootstrap :: "('w, 'j) smoke_env \<Rightarrow> smoke_config \<Rightarrow> 'w \<Rightarrow> check_result \<times> 'w" where
  "bootstrap env cfg = bootstrap_required env cfg required_services ''make up-dataplane''"

text \<open>
  The loops \<open>while Instant::now() < deadline { attempt; thread::sleep(interval); }\<close>: an attempt
  ends the loop with \<open>Inl\<close> a result, or continues with \<open>Inr\<close> the loop's variables.
\<close>

partial_function (option) poll ::
    "('w \<Rightarrow> nat) \<Rightarrow> ('w \<Rightarrow> 'w) \<Rightarrow> ('s \<Rightarrow> 'w \<Rightarrow> ('r + 's) \<times> 'w) \<Rightarrow> nat \<Rightarrow> 's \<Rightarrow> 'w
     \<Rightarrow> (('r + 's) \<times> 'w) option" where
  "poll now sleep attempt deadline s w =
     (if now w < deadline then
        (case attempt s w of
           (Inl r, w1) \<Rightarrow> Some (Inl r, w1)
         | (Inr s1, w1) \<Rightarrow> poll now sleep attempt deadline s1 (sleep w1))
      else Some (Inr s, w))"

definition poll_stage :: "('w, 'j) smoke_env \<Rightarrow> smoke_config \<Rightarrow> nat
     \<Rightarrow> ('s \<Rightarrow> 'w \<Rightarrow> (check_result + 's) \<times> 'w) \<Rightarrow> 's \<Rightarrow> ('s \<Rightarrow> 'w \<Rightarrow> check_result \<times> 'w)
     \<Rightarrow> 'w \<Rightarrow> (check_result \<times> 'w) option" where
  "poll_stage env cfg timeout attempt s give_up w =
     (case poll (sv_now env) (sv_sleep env (sk_poll_interval_ms cfg)) attempt (sv_now env w + timeout) s w of
        None \<Rightarrow> None
      | Some (Inl r, w1) \<Rightarrow> Some (r, w1)
      | Some (Inr s1, w1) \<Rightarrow> Some (give_up s1 w1))"

text \<open>The variables of the readiness loop are the last errors of the two endpoints.\<close>

definition readiness_attempt :: "('w, 'j) smoke_env \<Rightarrow> smoke_config \<Rightarrow> string \<times> string \<Rightarrow> 'w
                                 \<Rightarrow> (check_result + string \<times> string) \<times> 'w" where
  "readiness_attempt env cfg errs w =
     (let (last_health_err, last_ready_err) = errs in
      case healthz env cfg w of
        (Inl e, w1) \<Rightarrow> (Inr (e, last_ready_err), w1)
      | (Inr code, w1) \<Rightarrow>
          if code \<noteq> 200 then (Inr (''/healthz returned '' @ show_nat code, last_ready_err), w1)
          else (case readyz env cfg w1 of
                  (Inl e, w2) \<Rightarrow> (Inr (last_health_err, e), w2)
                | (Inr rcode, w2) \<Rightarrow>
                    if rcode = 200
                    then (Inl (pass_with ''readiness'' ''healthz=200, readyz=200''), w2)
                    else (Inr (last_health_err, ''/readyz returned '' @ show_nat rcode), w2)))"

definition readiness_timeout :: "smoke_config \<Rightarrow> string \<times> string \<Rightarrow> check_result" where
  "readiness_timeout cfg errs =
     fail_with ''readiness''
       (''timed out after '' @ show_nat (sk_readiness_timeout_secs cfg) @ ''s waiting for readiness''
        @ (if fst errs \<noteq> [] then ''. Last healthz error: '' @ fst errs else [])
        @ (if snd errs \<noteq> [] then ''. Last readyz error: '' @ snd errs else []))"

definition readiness :: "('w, 'j) smoke_env \<Rightarrow> smoke_config \<Rightarrow> 'w \<Rightarrow> (check_result \<times> 'w) option" where
  "readiness env cfg =
     poll_stage env cfg (1000 * sk_readiness_timeout_secs cfg) (readiness_attempt env cfg) ([], [])
       (\<lambda>errs w. (readiness_timeout cfg errs, w))"

definition smoke_config_content :: "'j json_build \<Rightarrow> smoke_config \<Rightarrow> 'j" where
  "smoke_config_content B cfg =
     (let str = jb_str B; obj = jb_obj B in
      obj [(''metadata'',
            obj [(''name'', str ''Smoke Test''),
                 (''description'', str (''raccoon-cli runtime smoke test config ('' @ sk_run_id cfg @ '')''))]),
           (''bindings'',
            jb_arr B [obj [(''name'', str (sk_binding_name cfg)), (''topic'', str ''smoke.events.created'')]]),
           (''fields'',
            jb_arr B [obj [(''name'', str ''event_id''), (''type'', str ''string''), (''required'', jb_bool B True)],
                      obj [(''name'', str ''status''), (''type'', str ''string''), (''required'', jb_bool B True)],
                      obj [(''name'', str ''amount''), (''type'', str ''number''), (''required'', jb_bool B False)]]),
           (''rules'',
            jb_arr B [obj [(''name'', str ''event_id_required''), (''field'', str ''event_id''),
                           (''operator'', str ''required''), (''severity'', str ''error'')],
                      obj [(''name'', str ''status_not_empty''), (''field'', str ''status''),
                           (''operator'', str ''not_empty''), (''severity'', str ''error'')]])])"

definition config_id_of :: "'j value_api \<Rightarrow> 'j \<Rightarrow> string option" where
  "config_id_of J resp =
     Option.bind (Option.bind (jv_get J resp ''config'') (\<lambda>v. jv_get J v ''id'')) (jv_str J)"

definition inject :: "('w, 'j) smoke_env \<Rightarrow> 'j value_api \<Rightarrow> 'j json_build \<Rightarrow> smoke_config \<Rightarrow> 'w
                      \<Rightarrow> check_result \<times> 'w" where
  "inject env J B cfg w =
     (case create_draft env B cfg (sk_config_key cfg) (smoke_config_content B cfg) w of
        (Inl e, w1) \<Rightarrow> (fail_with ''inject'' (''create draft failed: '' @ e), w1)
      | (Inr draft_resp, w1) \<Rightarrow>
          (case config_id_of J draft_resp of
             None \<Rightarrow>
               (fail_with ''inject''
                  (''create draft response missing '' @ [CHR 0x27] @ ''config.id'' @ [CHR 0x27] @ '' field: ''
                   @ jb_text B draft_resp), w1)
           | Some config_id \<Rightarrow>
               (case validate_config env B cfg config_id w1 of
                  (Inl e, w2) \<Rightarrow> (fail_with ''inject'' (''validate failed: '' @ e), w2)
                | (Inr _, w2) \<Rightarrow>
                    (case compile_config env B cfg config_id w2 of
                       (Inl e, w3) \<Rightarrow> (fail_with ''inject'' (''compile failed: '' @ e), w3)
                     | (Inr _, w3) \<Rightarrow>
                         (case activate_config env B cfg config_id w3 of
                            (Inl e, w4) \<Rightarrow> (fail_with ''inject'' (''activate failed: '' @ e), w4)
                          | (Inr _, w4) \<Rightarrow>
                              (pass_with ''inject''
                                 (''config '' @ config_id @ '' created, validated, compiled, activated in ''
                                  @ sk_scope_kind cfg @ '':'' @ sk_scope_key cfg), w4))))))"

definition array_field :: "'j value_api \<Rightarrow> 'j \<Rightarrow> string \<Rightarrow> 'j list option" where
  "array_field J v key = Option.bind (jv_get J v key) (jv_array J)"

definition matching_binding_count :: "'j value_api \<Rightarrow> 'j \<Rightarrow> string \<Rightarrow> nat" where
  "matching_binding_count J resp binding_name =
     (case array_field J resp ''bindings'' of
        None \<Rightarrow> 0
      | Some entries \<Rightarrow>
          length (filter (\<lambda>entry.
            Option.bind (Option.bind (jv_get J entry ''binding'') (\<lambda>b. jv_get J b ''name'')) (jv_str J)
            = Some binding_name) entries))"

definition route_attempt :: "('w, 'j) smoke_env \<Rightarrow> 'j value_api \<Rightarrow> smoke_config \<Rightarrow> unit \<Rightarrow> 'w
                             \<Rightarrow> (check_result + unit) \<times> 'w" where
  "route_attempt env J cfg u w =
     (case ingestion_bindings env cfg w of
        (Inl _, w1) \<Rightarrow> (Inr (), w1)
      | (Inr resp, w1) \<Rightarrow>
          (let bindings = matching_binding_count J resp (sk_binding_name cfg) in
           if 0 < bindings then
             (Inl (pass_with ''route''
                     (show_nat bindings @ '' active ingestion binding(s) found for ''
                      @ sk_scope_kind cfg @ '':'' @ sk_scope_key cfg)), w1)
           else (Inr (), w1)))"

definition route :: "('w, 'j) smoke_env \<Rightarrow> 'j value_api \<Rightarrow> smoke_config \<Rightarrow> 'w \<Rightarrow> (check_result \<times> 'w) option" where
  "route env J cfg =
     poll_stage env cfg 10000 (route_attempt env J cfg) ()
       (\<lambda>_ w. (fail_with ''route'' ''no active ingestion bindings found within 10s after activation'', w))"

definition scope_text :: "smoke_config \<Rightarrow> string" where
  "scope_text cfg = sk_scope_kind cfg @ '':'' @ sk_scope_key cfg"

definition runtime_diagnostic :: "'j value_api \<Rightarrow> 'j \<Rightarrow> string option" where
  "runtime_diagnostic J resp =
     (case jv_get J resp ''runtime'' of
        None \<Rightarrow> None
      | Some runtime \<Rightarrow>
          (let version_id =
                 (case Option.bind (Option.bind (jv_get J runtime ''config'') (\<lambda>c. jv_get J c ''version_id''))
                         (jv_str J) of
                    Some v \<Rightarrow> Some v
                  | None \<Rightarrow> Option.bind (jv_get J runtime ''config_version_id'') (jv_str J));
               loaded_at = Option.bind (jv_get J runtime ''loaded_at'') (jv_str J)
           in case (version_id, loaded_at) of
                (Some v, Some l) \<Rightarrow>
                  Some (''validator runtime is loaded for config version '' @ v @ '' (loaded_at '' @ l @ '')'')
              | (Some v, None) \<Rightarrow> Some (''validator runtime is loaded for config version '' @ v)
              | (None, Some l) \<Rightarrow> Some (''validator runtime is present and was loaded at '' @ l)
              | (None, None) \<Rightarrow> None))"

definition diagnose_pipeline_gap :: "('w, 'j) smoke_env \<Rightarrow> 'j value_api \<Rightarrow> smoke_config \<Rightarrow> 'w
                                     \<Rightarrow> finding list \<times> 'w" where
  "diagnose_pipeline_gap env J cfg w =
     (let (bres, w1) = ingestion_bindings env cfg w;
          first = (case bres of
            Inl e \<Rightarrow> finding_warning ''consume''
                       (''failed to inspect active ingestion bindings during diagnosis: '' @ e)
          | Inr resp \<Rightarrow>
              (let binding_count = matching_binding_count J resp (sk_binding_name cfg) in
               if 0 < binding_count then
                 finding_info ''consume''
                   (''configctl projects '' @ show_nat binding_count @ '' active binding(s) for ''
                    @ quote1 (sk_binding_name cfg) @ '' in '' @ scope_text cfg)
               else
                 finding_warning ''consume''
                   (''configctl projection does not show active binding ''
                    @ quote1 (sk_binding_name cfg) @ '' in '' @ scope_text cfg)));
          (rres, w2) = validator_runtime env cfg w1;
          second = (case rres of
            Inl e \<Rightarrow> finding_warning ''consume''
                       (''failed to inspect validator runtime during diagnosis: '' @ e)
          | Inr resp \<Rightarrow>
              (case runtime_diagnostic J resp of
                 Some message \<Rightarrow> finding_info ''consume'' message
               | None \<Rightarrow> finding_warning ''consume''
                           (''validator runtime endpoint returned no loaded runtime for '' @ scope_text cfg)))
      in ([first, second], w2))"

definition consume_attempt :: "('w, 'j) smoke_env \<Rightarrow> 'j value_api \<Rightarrow> smoke_config \<Rightarrow> unit \<Rightarrow> 'w
                               \<Rightarrow> (check_result + unit) \<times> 'w" where
  "consume_attempt env J cfg u w =
     (case validation_results env cfg 10 w of
        (Inl _, w1) \<Rightarrow> (Inr (), w1)
      | (Inr resp, w1) \<Rightarrow>
          (let count = (case array_field J resp ''results'' of None \<Rightarrow> 0 | Some a \<Rightarrow> length a) in
           if 0 < count then
             (Inl (pass_with ''consume''
                     (show_nat count
                      @ '' validation result(s) received (Kafka->consumer->JetStream->validator pipeline confirmed)'')),
              w1)
           else (Inr (), w1)))"

definition consume_give_up :: "('w, 'j) smoke_env \<Rightarrow> 'j value_api \<Rightarrow> smoke_config \<Rightarrow> unit \<Rightarrow> 'w
                               \<Rightarrow> check_result \<times> 'w" where
  "consume_give_up env J cfg u w =
     (let (diagnosis, w1) = diagnose_pipeline_gap env J cfg w in
      (from_findings ''consume''
         ([finding_error ''consume''
             (''no validation results within '' @ show_nat (sk_results_timeout_secs cfg)
              @ ''s. Data pipeline may be stuck.'')]
          @ diagnosis
          @ [finding_info ''consume''
               ''inspect consumer/emulator logs and run `raccoon-cli trace-pack` to confirm CONFIGCTL_EVENTS refresh durables and JetStream state'']),
       w1))"

definition consume :: "('w, 'j) smoke_env \<Rightarrow> 'j value_api \<Rightarrow> smoke_config \<Rightarrow> 'w \<Rightarrow> (check_result \<times> 'w) option" where
  "consume env J cfg =
     poll_stage env cfg (1000 * sk_results_timeout_secs cfg) (consume_attempt env J cfg) ()
       (consume_give_up env J cfg)"

definition status_of :: "'j value_api \<Rightarrow> 'j \<Rightarrow> string option" where
  "status_of J entry = Option.bind (jv_get J entry ''status'') (jv_str J)"

definition validate_findings :: "'j value_api \<Rightarrow> 'j list \<Rightarrow> finding list" where
  "validate_findings J results =
     (let has_passed = list_ex (\<lambda>entry. status_of J entry = Some ''passed'') results;
          has_failed = list_ex (\<lambda>entry. status_of J entry = Some ''failed'') results
      in [finding_info ''validate'' (show_nat (length results) @ '' result(s) inspected''),
          (if has_passed then
             finding_info ''validate''
               (''found '' @ quote1 ''passed'' @ '' result '' @ em_dash @ '' valid payload processed correctly'')
           else
             finding_error ''validate''
               (''no '' @ quote1 ''passed'' @ '' result found; expected emulator valid sample to pass validation'')),
          (if has_failed then
             finding_info ''validate''
               (''found '' @ quote1 ''failed'' @ '' result '' @ em_dash @ '' invalid payload caught by rules'')
           else
             finding_warning ''validate''
               (''no '' @ quote1 ''failed''
                @ '' result found; emulator may not have produced invalid sample yet''))])"

definition validate :: "('w, 'j) smoke_env \<Rightarrow> 'j value_api \<Rightarrow> smoke_config \<Rightarrow> 'w \<Rightarrow> check_result \<times> 'w" where
  "validate env J cfg w =
     (case validation_results env cfg 20 w of
        (Inl e, w1) \<Rightarrow> (fail_with ''validate'' (''failed to fetch results: '' @ e), w1)
      | (Inr resp, w1) \<Rightarrow>
          (case array_field J resp ''results'' of
             None \<Rightarrow> (fail_with ''validate'' (''response has no '' @ quote1 ''results'' @ '' array''), w1)
           | Some results \<Rightarrow> (from_findings ''validate'' (validate_findings J results), w1)))"

section \<open>Bootstrap alignment\<close>

definition backquote :: "string \<Rightarrow> string" where
  "backquote s = [CHR 0x60] @ s @ [CHR 0x60]"

definition format_runtime_refs :: "string list \<Rightarrow> string" where
  "format_runtime_refs refs = (if refs = [] then ''none'' else join '', '' (map backquote refs))"

definition align_info :: "string \<Rightarrow> finding" where
  "align_info = finding_info ''bootstrap-alignment''"

definition align_error :: "string \<Rightarrow> finding" where
  "align_error = finding_error ''bootstrap-alignment''"

definition render_loaded_bootstrap_findings :: "bootstrap_diagnostics \<Rightarrow> finding list" where
  "render_loaded_bootstrap_findings d =
     [align_info (bd_source d @ '' observed '' @ backquote (bd_event d)),
      align_info (bd_source d @ '' bootstrap signature ''
                  @ backquote (compact_bootstrap_signature (bd_signature d))),
      align_info (bd_source d @ '' runtime refs '' @ format_runtime_refs (bd_runtime_refs d))]"

definition loaded_findings :: "string \<Rightarrow> bootstrap_diagnostics option \<Rightarrow> finding list" where
  "loaded_findings service d =
     (case d of
        Some diag \<Rightarrow> render_loaded_bootstrap_findings diag
      | None \<Rightarrow> [align_error (service @ '' logs did not expose a loaded bootstrap diagnostic'')])"

definition compare_findings :: "bootstrap_diagnostics \<Rightarrow> bootstrap_diagnostics \<Rightarrow> finding list" where
  "compare_findings c e =
     (if bd_signature c = bd_signature e \<and> bd_runtime_refs c = bd_runtime_refs e then
        [align_info ''consumer and emulator loaded the same aggregate bootstrap generation'']
      else
        [align_error (''consumer and emulator loaded different bootstrap generations: consumer=''
           @ backquote (compact_bootstrap_signature (bd_signature c)) @ '' emulator=''
           @ backquote (compact_bootstrap_signature (bd_signature e))),
         align_error (''runtime refs diverged: consumer='' @ format_runtime_refs (bd_runtime_refs c)
           @ '' emulator='' @ format_runtime_refs (bd_runtime_refs e))])"

definition bootstrap_alignment_from_logs :: "string \<Rightarrow> string \<Rightarrow> check_result" where
  "bootstrap_alignment_from_logs consumer_logs emulator_logs =
     (let consumer = parse_consumer_bootstrap_diagnostics consumer_logs;
          emulator = parse_emulator_bootstrap_diagnostics emulator_logs;
          findings = loaded_findings ''consumer'' consumer @ loaded_findings ''emulator'' emulator
            @ (case (consumer, emulator) of (Some c, Some e) \<Rightarrow> compare_findings c e | _ \<Rightarrow> []);
          advice = (if list_ex (\<lambda>f. fd_severity f = Error) findings
                    then [align_info ''inspect consumer/emulator logs or run `raccoon-cli trace-pack` for the latest loaded bootstrap evidence'']
                    else [])
      in from_findings ''bootstrap-alignment'' (findings @ advice))"

definition fetch_logs :: "('w, 'j) smoke_env \<Rightarrow> 'w \<Rightarrow> (string + string \<times> string) \<times> 'w" where
  "fetch_logs env w =
     (let (cres, w1) = sv_compose_logs env ''consumer'' w in
      case service_logs ''consumer'' cres of
        Inl e \<Rightarrow> (Inl (''failed to read consumer logs: '' @ e), w1)
      | Inr consumer_logs \<Rightarrow>
          (let (eres, w2) = sv_compose_logs env ''emulator'' w1 in
           case service_logs ''emulator'' eres of
             Inl e \<Rightarrow> (Inl (''failed to read emulator logs: '' @ e), w2)
           | Inr emulator_logs \<Rightarrow> (Inr (consumer_logs, emulator_logs), w2)))"

text \<open>The loop fetches at least once, and checks the deadline after a result that did not pass.\<close>

partial_function (option) alignment_loop ::
    "('w \<Rightarrow> nat) \<Rightarrow> ('w \<Rightarrow> 'w) \<Rightarrow> ('w \<Rightarrow> (string + string \<times> string) \<times> 'w) \<Rightarrow> string \<Rightarrow> nat \<Rightarrow> 'w
     \<Rightarrow> (check_result \<times> 'w) option" where
  "alignment_loop now sleep fetcher timed_out deadline w =
     (case fetcher w of
        (Inl e, w1) \<Rightarrow> Some (fail_with ''bootstrap-alignment'' e, w1)
      | (Inr (consumer_logs, emulator_logs), w1) \<Rightarrow>
          (let result = bootstrap_alignment_from_logs consumer_logs emulator_logs in
           if ck_status result = CheckPass then Some (result, w1)
           else if deadline \<le> now w1
           then Some (result\<lparr>ck_findings := ck_findings result @ [align_info timed_out]\<rparr>, w1)
           else alignment_loop now sleep fetcher timed_out deadline (sleep w1)))"

definition bootstrap_alignment :: "('w, 'j) smoke_env \<Rightarrow> smoke_config \<Rightarrow> 'w \<Rightarrow> (check_result \<times> 'w) option" where
  "bootstrap_alignment env cfg w =
     alignment_loop (sv_now env) (sv_sleep env (sk_poll_interval_ms cfg)) (fetch_logs env)
       (''timed out after 10s waiting for consumer and emulator to converge on the same bootstrap generation'')
       (sv_now env w + 10000) w"

section \<open>The pipeline\<close>

type_synonym 'w stage = "string \<times> ('w \<Rightarrow> (check_result \<times> 'w) option)"

definition smoke_stages :: "('w, 'j) smoke_env \<Rightarrow> 'j value_api \<Rightarrow> 'j json_build \<Rightarrow> smoke_config
                            \<Rightarrow> 'w stage list" where
  "smoke_stages env J B cfg =
     [(''bootstrap'', \<lambda>w. Some (bootstrap env cfg w)),
      (''readiness'', readiness env cfg),
      (''inject'', \<lambda>w. Some (inject env J B cfg w)),
      (''route'', route env J cfg),
      (''consume'', consume env J cfg),
      (''validate'', \<lambda>w. Some (validate env J cfg w))]"

text \<open>The loop of \<open>run\<close>: the report so far, the stage that failed, and the world.\<close>

fun run_stages :: "'w stage list \<Rightarrow> report \<Rightarrow> string option \<Rightarrow> 'w \<Rightarrow> (report \<times> 'w) option" where
  "run_stages [] rep failed_at w = Some (rep, w)"
| "run_stages ((name, stage_fn) # stages) rep failed_at w =
     (case failed_at of
        Some blocker \<Rightarrow>
          run_stages stages
            (report_add rep (check_skip name (''skipped: '' @ blocker @ '' failed''))) failed_at w
      | None \<Rightarrow>
          (case stage_fn w of
             None \<Rightarrow> None
           | Some (result, w1) \<Rightarrow>
               run_stages stages (report_add rep result)
                 (if ck_status result = CheckPass then None else Some name) w1))"

definition smoke_run :: "('w, 'j) smoke_env \<Rightarrow> 'j value_api \<Rightarrow> 'j json_build \<Rightarrow> smoke_config \<Rightarrow> 'w
                         \<Rightarrow> (report \<times> 'w) option" where
  "smoke_run env J B cfg w =
     run_stages (smoke_stages env J B cfg) (report_new ''runtime-smoke'') None w"

end
