(* ===== verification/SmokeProps.thy ===== *)
theory SmokeProps
  imports Smoke
begin

text \<open>
  Correctness of the smoke test: the pipeline as a relation on traces of stages, the shape of
  its report, the end of its polling loops, what the stages \<open>inject\<close> and \<open>validate\<close> establish,
  and when the consumer and the emulator are aligned.
\<close>

section \<open>Results of the stages\<close>

lemma pass_with_simps [simp]:
  "ck_status (pass_with n m) = CheckPass" "ck_name (pass_with n m) = n"
  by (simp_all add: pass_with_def)

lemma fail_with_simps [simp]:
  "ck_status (fail_with n m) = CheckFail" "ck_name (fail_with n m) = n"
  by (simp_all add: fail_with_def from_findings_status)

lemma check_wf_with [wf_intros]: "check_wf (pass_with n m)" "check_wf (fail_with n m)"
  by (auto simp: check_wf_def severities_iff pass_with_def check_pass_def fail_with_def from_findings_def)

text \<open>A stage named \<open>n\<close> reports a well-formed check of that name that passed or failed.\<close>

definition stage_result :: "string \<Rightarrow> check_result \<Rightarrow> bool" where
  "stage_result n c = (ck_name c = n \<and> ck_status c \<noteq> CheckSkip \<and> check_wf c)"

lemma stage_result_intros:
  "stage_result n (pass_with n m)" "stage_result n (fail_with n m)" "stage_result n (from_findings n fs)"
  by (simp_all add: stage_result_def wf_intros from_findings_status)

lemma bootstrap_result: "stage_result ''bootstrap'' (fst (bootstrap env cfg w))"
  by (auto simp: bootstrap_def bootstrap_required_def Let_def stage_result_intros
      split: prod.splits sum.splits)

lemma inject_result: "stage_result ''inject'' (fst (inject env J B cfg w))"
  by (auto simp: inject_def stage_result_intros split: prod.splits sum.splits option.splits)

lemma validate_result: "stage_result ''validate'' (fst (validate env J cfg w))"
  by (auto simp: validate_def stage_result_intros split: prod.splits sum.splits option.splits)

section \<open>Polling\<close>

lemma poll_invariant:
  assumes "poll now sleep attempt deadline s w = Some (Inl r, w')"
    and "\<And>s w r w'. attempt s w = (Inl r, w') \<Longrightarrow> P r"
  shows "P r"
proof -
  have "(\<forall>s w r w'. attempt s w = (Inl r, w') \<longrightarrow> P r) \<longrightarrow> (case res of (Inl r, _) \<Rightarrow> P r | _ \<Rightarrow> True)"
    if "poll now sleep attempt deadline s w = Some res" for now sleep attempt deadline s w res
    using that
  proof (induction now sleep attempt deadline s w res rule: poll.raw_induct [rotated, consumes 1])
    case (1 poll now sleep attempt deadline s w res)
    show ?case
    proof
      assume a: "\<forall>s w r w'. attempt s w = (Inl r, w') \<longrightarrow> P r"
      show "case res of (Inl r, _) \<Rightarrow> P r | _ \<Rightarrow> True"
      proof (cases "now w < deadline")
        case False
        with 1(2) show ?thesis by auto
      next
        case True
        obtain x w1 where t: "attempt s w = (x, w1)" by fastforce
        show ?thesis
        proof (cases x)
          case (Inl r)
          with t a have "P r" by blast
          with 1(2) True t Inl show ?thesis by auto
        next
          case (Inr s1)
          with 1(2) True t have "poll now sleep attempt deadline s1 (sleep w1) = Some res" by simp
          from 1(1) [OF this] a show ?thesis by blast
        qed
      qed
    qed
  qed
  from this [OF assms(1)] assms(2) show ?thesis by simp
qed

lemma poll_stage_result:
  assumes "poll_stage env cfg timeout attempt s give_up w = Some (c, w')"
    and "\<And>s w c w'. attempt s w = (Inl c, w') \<Longrightarrow> P c"
    and "\<And>s w. P (fst (give_up s w))"
  shows "P c"
proof -
  from assms(1) consider w1 where "poll (sv_now env) (sv_sleep env (sk_poll_interval_ms cfg)) attempt
        (sv_now env w + timeout) s w = Some (Inl c, w1)"
    | s1 w1 where "give_up s1 w1 = (c, w')"
    by (auto simp: poll_stage_def split: option.splits sum.splits)
  then show ?thesis
  proof cases
    case 1
    then show ?thesis by (rule poll_invariant [where P = P]) (rule assms(2))
  next
    case 2
    with assms(3) show ?thesis by (metis fst_conv)
  qed
qed

lemma readiness_result: "readiness env cfg w = Some (c, w') \<Longrightarrow> stage_result ''readiness'' c"
  unfolding readiness_def
  by (erule poll_stage_result)
    (auto simp: readiness_attempt_def readiness_timeout_def stage_result_intros
      split: prod.splits sum.splits if_splits)

lemma route_result: "route env J cfg w = Some (c, w') \<Longrightarrow> stage_result ''route'' c"
  unfolding route_def
  by (erule poll_stage_result)
    (auto simp: route_attempt_def Let_def stage_result_intros split: prod.splits sum.splits if_splits)

lemma consume_result: "consume env J cfg w = Some (c, w') \<Longrightarrow> stage_result ''consume'' c"
  unfolding consume_def
  by (erule poll_stage_result)
    (auto simp: consume_attempt_def consume_give_up_def Let_def stage_result_intros
      split: prod.splits sum.splits if_splits)

lemma smoke_stage_result:
  assumes "(n, f) \<in> set (smoke_stages env J B cfg)" "f w = Some (c, w')"
  shows "stage_result n c"
  using assms bootstrap_result [of env cfg w] inject_result [of env J B cfg w]
    validate_result [of env J cfg w] readiness_result route_result consume_result
  by (auto simp: smoke_stages_def)

text \<open>The loop ends when sleeping advances the clock and an attempt does not turn it back.\<close>

lemma poll_returns:
  assumes "\<And>s w. now w \<le> now (snd (attempt s w))" "\<And>w. now w < now (sleep w)"
  shows "\<exists>res. poll now sleep attempt deadline s w = Some res"
proof (induction "deadline - now w" arbitrary: s w rule: less_induct)
  case less
  show ?case
  proof (cases "now w < deadline")
    case False
    then show ?thesis by (simp add: poll.simps [of now])
  next
    case True
    obtain x w1 where t: "attempt s w = (x, w1)" by fastforce
    show ?thesis
    proof (cases x)
      case (Inl r)
      with True t show ?thesis by (simp add: poll.simps [of now])
    next
      case (Inr s1)
      have "now w \<le> now w1" using assms(1) [of w s] t by simp
      also have "\<dots> < now (sleep w1)" by (rule assms(2))
      finally have "deadline - now (sleep w1) < deadline - now w" using True by linarith
      from less [OF this, of s1] True t Inr show ?thesis by (simp add: poll.simps [of now])
    qed
  qed
qed

lemma alignment_loop_returns:
  assumes "\<And>w. now w \<le> now (snd (fetcher w))" "\<And>w. now w < now (sleep w)"
  shows "\<exists>res. alignment_loop now sleep fetcher timed_out deadline w = Some res"
proof (induction "deadline - now w" arbitrary: w rule: less_induct)
  case less
  obtain x w1 where t: "fetcher w = (x, w1)" by fastforce
  show ?case
  proof (cases x)
    case (Inl e)
    with t show ?thesis by (simp add: alignment_loop.simps [of now])
  next
    case (Inr logs)
    show ?thesis
    proof (cases "deadline \<le> now w1")
      case True
      with t Inr show ?thesis by (cases logs) (simp add: alignment_loop.simps [of now] Let_def)
    next
      case False
      have "now w \<le> now w1" using assms(1) [of w] t by simp
      also have "\<dots> < now (sleep w1)" by (rule assms(2))
      finally have "deadline - now (sleep w1) < deadline - now w" using False \<open>now w \<le> now w1\<close> by linarith
      from less [OF this] t Inr show ?thesis by (cases logs) (auto simp: alignment_loop.simps [of now _ _ _ _ w] Let_def)
    qed
  qed
qed

section \<open>The pipeline as a relation\<close>

text \<open>
  A trace of the stages: every stage that runs passes, until one does not; the stages after it
  are skipped, with its name as the reason, and do not touch the world.
\<close>

definition skipped :: "string \<Rightarrow> 'w stage \<Rightarrow> check_result" where
  "skipped blocker st = check_skip (fst st) (''skipped: '' @ blocker @ '' failed'')"

inductive stage_trace :: "'w stage list \<Rightarrow> 'w \<Rightarrow> check_result list \<Rightarrow> 'w \<Rightarrow> bool" where
  trace_end: "stage_trace [] w [] w"
| trace_pass: "f w = Some (c, w1) \<Longrightarrow> ck_status c = CheckPass \<Longrightarrow> stage_trace stages w1 cs w' \<Longrightarrow>
     stage_trace ((name, f) # stages) w (c # cs) w'"
| trace_fail: "f w = Some (c, w1) \<Longrightarrow> ck_status c \<noteq> CheckPass \<Longrightarrow>
     stage_trace ((name, f) # stages) w (c # map (skipped name) stages) w1"

inductive_cases stage_trace_NilE: "stage_trace [] w cs w'"
inductive_cases stage_trace_ConsE: "stage_trace (st # stages) w cs w'"

lemma run_stages_blocked:
  "run_stages stages rep (Some b) w = Some (foldl report_add rep (map (skipped b) stages), w)"
  by (induction stages arbitrary: rep) (auto simp: skipped_def)

lemma run_stages_trace:
  "run_stages stages rep None w = Some (rep', w') \<longleftrightarrow>
     (\<exists>cs. stage_trace stages w cs w' \<and> rep' = foldl report_add rep cs)"
proof (induction stages arbitrary: rep w)
  case Nil
  show ?case by (auto intro: trace_end elim: stage_trace_NilE)
next
  case (Cons st stages)
  obtain name f where st: "st = (name, f)" by (cases st)
  show ?case
  proof (cases "f w")
    case None
    then show ?thesis by (auto simp: st elim: stage_trace_ConsE)
  next
    case (Some r)
    obtain c w1 where r: "r = (c, w1)" by (cases r)
    show ?thesis
    proof (cases "ck_status c = CheckPass")
      case True
      have "(\<exists>cs. stage_trace (st # stages) w cs w' \<and> rep' = foldl report_add rep cs) \<longleftrightarrow>
            (\<exists>cs. stage_trace stages w1 cs w' \<and> rep' = foldl report_add (report_add rep c) cs)"
      proof
        assume "\<exists>cs. stage_trace (st # stages) w cs w' \<and> rep' = foldl report_add rep cs"
        with True Some r st show "\<exists>cs. stage_trace stages w1 cs w' \<and> rep' = foldl report_add (report_add rep c) cs"
          by (auto elim!: stage_trace_ConsE)
      next
        assume "\<exists>cs. stage_trace stages w1 cs w' \<and> rep' = foldl report_add (report_add rep c) cs"
        then obtain cs where "stage_trace stages w1 cs w'" "rep' = foldl report_add rep (c # cs)" by auto
        with True Some r st show "\<exists>cs. stage_trace (st # stages) w cs w' \<and> rep' = foldl report_add rep cs"
          by (metis trace_pass)
      qed
      with True Some r st Cons.IH [of "report_add rep c" w1] show ?thesis by simp
    next
      case False
      have "(\<exists>cs. stage_trace (st # stages) w cs w' \<and> rep' = foldl report_add rep cs) \<longleftrightarrow>
            w' = w1 \<and> rep' = foldl report_add rep (c # map (skipped name) stages)"
      proof
        assume "\<exists>cs. stage_trace (st # stages) w cs w' \<and> rep' = foldl report_add rep cs"
        with False Some r st show "w' = w1 \<and> rep' = foldl report_add rep (c # map (skipped name) stages)"
          by (auto elim!: stage_trace_ConsE)
      next
        assume "w' = w1 \<and> rep' = foldl report_add rep (c # map (skipped name) stages)"
        with False Some r st show "\<exists>cs. stage_trace (st # stages) w cs w' \<and> rep' = foldl report_add rep cs"
          by (metis trace_fail)
      qed
      with False Some r st run_stages_blocked [of stages "report_add rep c" name w1] show ?thesis by auto
    qed
  qed
qed

lemma trace_names:
  assumes "stage_trace stages w cs w'"
    and "\<And>n f w c w'. (n, f) \<in> set stages \<Longrightarrow> f w = Some (c, w') \<Longrightarrow> stage_result n c"
  shows "map ck_name cs = map fst stages \<and> (\<forall>c\<in>set cs. check_wf c)
         \<and> (\<forall>i<length cs. ck_status (cs ! i) = CheckSkip \<longleftrightarrow> (\<exists>j<i. ck_status (cs ! j) = CheckFail))"
  using assms
proof (induction rule: stage_trace.induct)
  case (trace_end w)
  show ?case by simp
next
  case (trace_pass f w c w1 stages cs w' name)
  have r: "stage_result name c" using trace_pass.prems [of name f w c w1] trace_pass.hyps(1) by simp
  have ih: "map ck_name cs = map fst stages \<and> (\<forall>c\<in>set cs. check_wf c)
      \<and> (\<forall>i<length cs. ck_status (cs ! i) = CheckSkip \<longleftrightarrow> (\<exists>j<i. ck_status (cs ! j) = CheckFail))"
    using trace_pass.IH trace_pass.prems by (meson list.set_intros(2))
  have "\<forall>i<length (c # cs). ck_status ((c # cs) ! i) = CheckSkip \<longleftrightarrow> (\<exists>j<i. ck_status ((c # cs) ! j) = CheckFail)"
  proof (intro allI impI)
    fix i
    assume i: "i < length (c # cs)"
    show "ck_status ((c # cs) ! i) = CheckSkip \<longleftrightarrow> (\<exists>j<i. ck_status ((c # cs) ! j) = CheckFail)"
    proof (cases i)
      case 0
      with trace_pass.hyps(2) show ?thesis by simp
    next
      case (Suc k)
      have "(\<exists>j<Suc k. ck_status ((c # cs) ! j) = CheckFail) \<longleftrightarrow> (\<exists>j<k. ck_status (cs ! j) = CheckFail)"
        using trace_pass.hyps(2) by (auto simp: less_Suc_eq_0_disj)
      with Suc i ih show ?thesis by simp
    qed
  qed
  with r ih show ?case by (simp add: stage_result_def)
next
  case (trace_fail f w c w1 name stages)
  have r: "stage_result name c" using trace_fail.prems [of name f w c w1] trace_fail.hyps(1) by simp
  with trace_fail.hyps(2) have "ck_status c = CheckFail"
    by (cases "ck_status c") (auto simp: stage_result_def)
  with r show ?case
    by (auto simp: stage_result_def skipped_def wf_intros nth_Cons' o_def intro: exI [of _ 0])
qed

text \<open>What running a list of stages into an empty report gives.\<close>

definition stages_named :: "'w stage list \<Rightarrow> bool" where
  "stages_named stages \<longleftrightarrow>
     (\<forall>(n, f)\<in>set stages. \<forall>w c w'. f w = Some (c, w') \<longrightarrow> stage_result n c)"

lemma smoke_stages_named: "stages_named (smoke_stages env J B cfg)"
  unfolding stages_named_def
proof (intro ballI)
  fix st
  assume "st \<in> set (smoke_stages env J B cfg)"
  then show "case st of (n, f) \<Rightarrow> \<forall>w c w'. f w = Some (c, w') \<longrightarrow> stage_result n c"
    using smoke_stage_result [of "fst st" "snd st" env J B cfg] by (auto simp: case_prod_beta)
qed

lemma staged_report:
  assumes run: "run_stages stages (report_new title) None w = Some (rep, w')"
    and stage: "stages_named stages"
  shows "rep = foldl report_add (report_new title) (rp_checks rep)"
    and "stage_trace stages w (rp_checks rep) w'"
    and "map ck_name (rp_checks rep) = map fst stages"
    and "report_wf rep"
    and "\<forall>i<length stages. ck_status (rp_checks rep ! i) = CheckSkip \<longleftrightarrow>
             (\<exists>j<i. ck_status (rp_checks rep ! j) = CheckFail)"
    and "rp_passed rep \<longleftrightarrow> (\<forall>c\<in>set (rp_checks rep). ck_status c = CheckPass)"
proof -
  from run obtain cs where cs: "stage_trace stages w cs w'" "rep = foldl report_add (report_new title) cs"
    unfolding run_stages_trace by metis
  then have checks: "rp_checks rep = cs" by simp
  have result: "stage_result n c" if "(n, f) \<in> set stages" "f w = Some (c, w')" for n f w c w'
    using stage that unfolding stages_named_def by blast
  have names: "map ck_name cs = map fst stages \<and> (\<forall>c\<in>set cs. check_wf c)
      \<and> (\<forall>i<length cs. ck_status (cs ! i) = CheckSkip \<longleftrightarrow> (\<exists>j<i. ck_status (cs ! j) = CheckFail))"
    by (rule trace_names [OF cs(1)]) (rule result)
  then have t: "map ck_name cs = map fst stages" "\<forall>c\<in>set cs. check_wf c"
    "\<forall>i<length cs. ck_status (cs ! i) = CheckSkip \<longleftrightarrow> (\<exists>j<i. ck_status (cs ! j) = CheckFail)"
    by blast+
  then have len: "length cs = length stages" by (metis length_map)
  show wf: "report_wf rep" unfolding cs(2) by (intro report_wf_foldl report_wf_new t(2))
  have no_skip: "ck_status c = CheckPass" if nf: "\<forall>c\<in>set cs. ck_status c \<noteq> CheckFail" and c: "c \<in> set cs" for c
  proof -
    obtain i where i: "i < length cs" "cs ! i = c" using c by (metis in_set_conv_nth)
    have "\<not> (\<exists>j<i. ck_status (cs ! j) = CheckFail)"
    proof
      assume "\<exists>j<i. ck_status (cs ! j) = CheckFail"
      then obtain j where "j < i" "ck_status (cs ! j) = CheckFail" by blast
      with nf i(1) show False using nth_mem [of j cs] by simp
    qed
    with t(3) i have "ck_status c \<noteq> CheckSkip" by blast
    with nf c show ?thesis by (cases "ck_status c") auto
  qed
  have "rp_passed rep \<longleftrightarrow> (\<forall>c\<in>set cs. ck_status c \<noteq> CheckFail)"
    using wf checks by (simp add: report_wf_def)
  also have "\<dots> \<longleftrightarrow> (\<forall>c\<in>set cs. ck_status c = CheckPass)"
    using no_skip by auto
  finally show "rp_passed rep \<longleftrightarrow> (\<forall>c\<in>set (rp_checks rep). ck_status c = CheckPass)"
    using checks by simp
  show "rep = foldl report_add (report_new title) (rp_checks rep)"
    and "stage_trace stages w (rp_checks rep) w'" and "map ck_name (rp_checks rep) = map fst stages"
    and "\<forall>i<length stages. ck_status (rp_checks rep ! i) = CheckSkip \<longleftrightarrow>
             (\<exists>j<i. ck_status (rp_checks rep ! j) = CheckFail)"
    unfolding checks len [symmetric] by (fact cs(2) cs(1) t(1) t(3))+
qed

section \<open>Properties\<close>

definition stage_names :: "string list" where
  "stage_names = [''bootstrap'', ''readiness'', ''inject'', ''route'', ''consume'', ''validate'']"

lemma smoke_stage_names: "map fst (smoke_stages env J B cfg) = stage_names"
  by (simp add: smoke_stages_def stage_names_def)

lemma smoke_stages_length: "length (smoke_stages env J B cfg) = 6"
  by (simp add: smoke_stages_def)

lemma smoke_run_staged:
  "smoke_run env J B cfg w = Some (rep, w') \<Longrightarrow>
     run_stages (smoke_stages env J B cfg) (report_new ''runtime-smoke'') None w = Some (rep, w')"
  by (simp add: smoke_run_def)

lemmas smoke_run_report =
  staged_report [OF smoke_run_staged smoke_stages_named, unfolded smoke_stage_names smoke_stages_length]

text \<open>
  C11 (smoke pipeline). The run is the trace of its stages: it returns a report and a world
  exactly when the stages have a trace ending there. The report has the six stages in order,
  a stage is skipped exactly when an earlier one failed, so at most one fails, and the report
  passes exactly when all six passed.
\<close>

theorem smoke_run_trace:
  "smoke_run env J B cfg w = Some (rep, w') \<longleftrightarrow>
     rep = foldl report_add (report_new ''runtime-smoke'') (rp_checks rep)
     \<and> stage_trace (smoke_stages env J B cfg) w (rp_checks rep) w'
     \<and> map ck_name (rp_checks rep) = stage_names \<and> report_wf rep
     \<and> (\<forall>i<6. ck_status (rp_checks rep ! i) = CheckSkip \<longleftrightarrow>
              (\<exists>j<i. ck_status (rp_checks rep ! j) = CheckFail))
     \<and> (rp_passed rep \<longleftrightarrow> (\<forall>c\<in>set (rp_checks rep). ck_status c = CheckPass))"
  (is "?run \<longleftrightarrow> ?spec")
proof
  assume ?run
  from smoke_run_report [OF this] show ?spec by blast
next
  assume ?spec
  then show ?run unfolding smoke_run_def run_stages_trace by blast
qed

text \<open>The clock of a world: no request turns it back, and sleeping advances it.\<close>

definition clock_advances_in :: "('w, 'j) smoke_env \<Rightarrow> smoke_config \<Rightarrow> bool" where
  "clock_advances_in env cfg \<longleftrightarrow>
     (\<forall>url w. sv_now env w \<le> sv_now env (snd (sv_get env url w)))
     \<and> (\<forall>svc w. sv_now env w \<le> sv_now env (snd (sv_compose_logs env svc w)))
     \<and> (\<forall>w. sv_now env w < sv_now env (sv_sleep env (sk_poll_interval_ms cfg) w))"

lemma get_clock:
  assumes "clock_advances_in env cfg"
  shows "sv_now env w \<le> sv_now env (snd (get_json env url w))"
    "sv_now env w \<le> sv_now env (snd (status_request env c name w))"
  using assms
  by (auto simp: clock_advances_in_def get_json_def status_request_def
      split: prod.splits http_reply.splits) (metis snd_conv)+

lemma poll_stage_returns:
  assumes "clock_advances_in env cfg"
    and "\<And>s w. sv_now env w \<le> sv_now env (snd (attempt s w))"
  shows "\<exists>r. poll_stage env cfg timeout attempt s give_up w = Some r"
proof -
  have "\<exists>res. poll (sv_now env) (sv_sleep env (sk_poll_interval_ms cfg)) attempt
      (sv_now env w + timeout) s w = Some res"
    by (rule poll_returns) (use assms in \<open>simp_all add: clock_advances_in_def\<close>)
  then obtain res where "poll (sv_now env) (sv_sleep env (sk_poll_interval_ms cfg)) attempt
      (sv_now env w + timeout) s w = Some res" ..
  then show ?thesis by (auto simp: poll_stage_def split: prod.splits sum.splits)
qed

lemma readiness_clock:
  assumes "clock_advances_in env cfg"
  shows "sv_now env w \<le> sv_now env (snd (readiness_attempt env cfg s w))"
proof -
  obtain r1 w1 where h: "healthz env cfg w = (r1, w1)" by fastforce
  obtain r2 w2 where r: "readyz env cfg w1 = (r2, w2)" by fastforce
  have "sv_now env w \<le> sv_now env w1" "sv_now env w1 \<le> sv_now env w2"
    using get_clock(2) [OF assms, of w cfg "''healthz''"] get_clock(2) [OF assms, of w1 cfg "''readyz''"] h r
    by (simp_all add: healthz_def readyz_def)
  with h r show ?thesis by (auto simp: readiness_attempt_def split: prod.splits sum.splits)
qed

lemma readiness_returns: "clock_advances_in env cfg \<Longrightarrow> \<exists>r. readiness env cfg w = Some r"
  unfolding readiness_def using poll_stage_returns readiness_clock by metis

lemma route_returns:
  assumes "clock_advances_in env cfg"
  shows "\<exists>r. route env J cfg w = Some r"
  unfolding route_def
proof (rule poll_stage_returns [OF assms])
  show "sv_now env w \<le> sv_now env (snd (route_attempt env J cfg s w))" for s w
    using get_clock(1) [OF assms, of w] unfolding route_attempt_def ingestion_bindings_def
    by (auto simp: Let_def split: prod.splits sum.splits) (metis snd_conv)+
qed

lemma consume_returns:
  assumes "clock_advances_in env cfg"
  shows "\<exists>r. consume env J cfg w = Some r"
  unfolding consume_def
proof (rule poll_stage_returns [OF assms])
  show "sv_now env w \<le> sv_now env (snd (consume_attempt env J cfg s w))" for s w
    using get_clock(1) [OF assms, of w] unfolding consume_attempt_def validation_results_def
    by (auto simp: Let_def split: prod.splits sum.splits) (metis snd_conv)+
qed

lemma alignment_returns:
  assumes "clock_advances_in env cfg"
  shows "\<exists>r. bootstrap_alignment env cfg w = Some r"
proof -
  have logs: "sv_now env w \<le> sv_now env (snd (sv_compose_logs env svc w))" for svc w
    using assms by (simp add: clock_advances_in_def)
  have "sv_now env w \<le> sv_now env (snd (fetch_logs env w))" for w
  proof -
    obtain r1 w1 where l1: "sv_compose_logs env ''consumer'' w = (r1, w1)" by fastforce
    obtain r2 w2 where l2: "sv_compose_logs env ''emulator'' w1 = (r2, w2)" by fastforce
    from logs [of w "''consumer''"] logs [of w1 "''emulator''"] l1 l2 show ?thesis
      by (auto simp: fetch_logs_def split: sum.splits)
  qed
  then show ?thesis
    unfolding bootstrap_alignment_def
    using alignment_loop_returns [of "sv_now env" "fetch_logs env" "sv_sleep env (sk_poll_interval_ms cfg)"]
      assms by (fastforce simp: clock_advances_in_def)
qed

definition stages_return :: "'w stage list \<Rightarrow> bool" where
  "stages_return stages \<longleftrightarrow> (\<forall>(n, f)\<in>set stages. \<forall>w. \<exists>r. f w = Some r)"

lemma run_stages_returns:
  "stages_return stages \<Longrightarrow> \<exists>r. run_stages stages rep b w = Some r"
proof (induction stages arbitrary: rep b w)
  case (Cons st stages)
  obtain n f where st: "st = (n, f)" by (cases st)
  with Cons.prems obtain c w1 where f: "f w = Some (c, w1)" by (fastforce simp: stages_return_def)
  from Cons st f show ?case by (cases b) (auto simp: stages_return_def)
qed simp

lemma smoke_stages_return:
  "clock_advances_in env cfg \<Longrightarrow> stages_return (smoke_stages env J B cfg)"
  using readiness_returns route_returns consume_returns
  by (fastforce simp: stages_return_def smoke_stages_def)

text \<open>
  Property (the smoke test ends). When requests do not turn the clock back and sleeping advances
  it, the smoke test returns a report, whatever the service answers; and so does the bootstrap
  alignment stage of the scenarios.
\<close>

theorem smoke_run_returns:
  assumes "clock_advances_in env cfg"
  shows "(\<exists>rep w'. smoke_run env J B cfg w = Some (rep, w'))
         \<and> (\<exists>c w'. bootstrap_alignment env cfg w = Some (c, w'))"
  using run_stages_returns [OF smoke_stages_return [OF assms]] alignment_returns [OF assms]
  by (simp add: smoke_run_def)

text \<open>A host without the compose file, on which no request is answered; the world is the time.\<close>

definition bare_host :: "(nat, small_json) smoke_env" where
  "bare_host =
     \<lparr>sv_now = (\<lambda>w. w), sv_sleep = (\<lambda>d w. w + d), sv_get = (\<lambda>url w. (TransportError ''refused'', w + 1)),
      sv_post = (\<lambda>url body w. (TransportError ''refused'', w + 1)), sv_compose_exists = (\<lambda>w. False),
      sv_compose_ps = (\<lambda>w. (Inl ''failed to start docker'', w)),
      sv_compose_logs = (\<lambda>svc w. (Inl ''failed to start docker'', w))\<rparr>"

definition small_build :: "small_json json_build" where
  "small_build = \<lparr>jb_obj = JObj, jb_arr = JArr, jb_str = JStr, jb_bool = (\<lambda>b. JStr (if b then ''true'' else ''false'')),
                  jb_text = (\<lambda>j. ''{}'')\<rparr>"

definition demo_smoke :: smoke_config where
  "demo_smoke = smoke_config_new ''42'' ''deploy/compose/docker-compose.yaml'' None"

text \<open>A cluster on which everything is running and every request succeeds.\<close>

definition healthy_get :: small_json where
  "healthy_get =
     JObj [(''bindings'', JArr [JObj [(''binding'', JObj [(''name'', JStr ''smoke_events_42'')])]]),
           (''results'', JArr
              [JObj [(''status'', JStr ''passed'')],
               JObj [(''status'', JStr ''failed''),
                     (''violations'', JArr [JObj [(''rule'', JStr ''event_id_required'')]])]])]"

definition healthy_host :: "(nat, small_json) smoke_env" where
  "healthy_host =
     \<lparr>sv_now = (\<lambda>w. w), sv_sleep = (\<lambda>d w. w + d), sv_get = (\<lambda>url w. (Reply 200 (Inr healthy_get), w + 1)),
      sv_post = (\<lambda>url body w. (Reply 200 (Inr (JObj [(''config'', JObj [(''id'', JStr ''c1'')])])), w + 1)),
      sv_compose_exists = (\<lambda>w. True),
      sv_compose_ps = (\<lambda>w. (Inr \<lparr>cc_status = 0,
         cc_stdout = join [CHR 0x0A] (map (\<lambda>s. s @ '':running'') required_services), cc_stderr = []\<rparr>, w)),
      sv_compose_logs = (\<lambda>svc w. (Inl ''failed to start docker'', w))\<rparr>"

lemma bare_host_clock: "clock_advances_in bare_host demo_smoke"
  by (simp add: clock_advances_in_def bare_host_def demo_smoke_def smoke_config_new_def)

lemma poll_first:
  "now w < deadline \<Longrightarrow> attempt s w = (Inl r, w1) \<Longrightarrow> poll now sleep attempt deadline s w = Some (Inl r, w1)"
  by (subst poll.simps) simp

lemma healthy_attempts:
  "readiness_attempt healthy_host demo_smoke ([], []) 0
     = (Inl (pass_with ''readiness'' ''healthz=200, readyz=200''), 2)"
  "route_attempt healthy_host small_api demo_smoke () 6
     = (Inl (pass_with ''route'' ''1 active ingestion binding(s) found for global:default''), 7)"
  "consume_attempt healthy_host small_api demo_smoke () 7
     = (Inl (pass_with ''consume''
         ''2 validation result(s) received (Kafka->consumer->JetStream->validator pipeline confirmed)''), 8)"
  by code_simp+

lemma healthy_steps:
  "ck_status (fst (bootstrap healthy_host demo_smoke 0)) = CheckPass"
  "snd (bootstrap healthy_host demo_smoke 0) = 0"
  "ck_status (fst (inject healthy_host small_api small_build demo_smoke 2)) = CheckPass"
  "snd (inject healthy_host small_api small_build demo_smoke 2) = 6"
  "ck_status (fst (validate healthy_host small_api demo_smoke 8)) = CheckPass"
  "snd (validate healthy_host small_api demo_smoke 8) = 9"
  by code_simp+

lemma healthy_polls:
  "readiness healthy_host demo_smoke 0 = Some (pass_with ''readiness'' ''healthz=200, readyz=200'', 2)"
  "route healthy_host small_api demo_smoke 6
     = Some (pass_with ''route'' ''1 active ingestion binding(s) found for global:default'', 7)"
  "consume healthy_host small_api demo_smoke 7
     = Some (pass_with ''consume''
         ''2 validation result(s) received (Kafka->consumer->JetStream->validator pipeline confirmed)'', 8)"
proof -
  have c: "sv_now healthy_host = (\<lambda>w. w)" "sk_readiness_timeout_secs demo_smoke = 60"
    "sk_results_timeout_secs demo_smoke = 30"
    by (simp_all add: healthy_host_def demo_smoke_def smoke_config_new_def)
  have "poll (\<lambda>w. w) (sv_sleep healthy_host (sk_poll_interval_ms demo_smoke))
      (readiness_attempt healthy_host demo_smoke) 60000 ([], []) 0
      = Some (Inl (pass_with ''readiness'' ''healthz=200, readyz=200''), 2)"
    by (rule poll_first) (simp_all add: healthy_attempts)
  then show "readiness healthy_host demo_smoke 0 = Some (pass_with ''readiness'' ''healthz=200, readyz=200'', 2)"
    by (simp add: readiness_def poll_stage_def c)
  have "poll (\<lambda>w. w) (sv_sleep healthy_host (sk_poll_interval_ms demo_smoke))
      (route_attempt healthy_host small_api demo_smoke) 10006 () 6
      = Some (Inl (pass_with ''route'' ''1 active ingestion binding(s) found for global:default''), 7)"
    by (rule poll_first) (simp_all add: healthy_attempts)
  then show "route healthy_host small_api demo_smoke 6
     = Some (pass_with ''route'' ''1 active ingestion binding(s) found for global:default'', 7)"
    by (simp add: route_def poll_stage_def c)
  have "poll (\<lambda>w. w) (sv_sleep healthy_host (sk_poll_interval_ms demo_smoke))
      (consume_attempt healthy_host small_api demo_smoke) 30007 () 7
      = Some (Inl (pass_with ''consume''
         ''2 validation result(s) received (Kafka->consumer->JetStream->validator pipeline confirmed)''), 8)"
    by (rule poll_first) (simp_all add: healthy_attempts)
  then show "consume healthy_host small_api demo_smoke 7
     = Some (pass_with ''consume''
         ''2 validation result(s) received (Kafka->consumer->JetStream->validator pipeline confirmed)'', 8)"
    by (simp add: consume_def poll_stage_def c)
qed

lemma healthy_run:
  "\<exists>rep. smoke_run healthy_host small_api small_build demo_smoke 0 = Some (rep, 9) \<and> rp_passed rep"
proof -
  obtain b where b: "bootstrap healthy_host demo_smoke 0 = (b, 0)" "ck_status b = CheckPass"
    using healthy_steps(1,2) by (metis prod.collapse)
  obtain i where i: "inject healthy_host small_api small_build demo_smoke 2 = (i, 6)" "ck_status i = CheckPass"
    using healthy_steps(3,4) by (metis prod.collapse)
  obtain v where v: "validate healthy_host small_api demo_smoke 8 = (v, 9)" "ck_status v = CheckPass"
    using healthy_steps(5,6) by (metis prod.collapse)
  have p: "ck_status (pass_with n m) = CheckPass" for n m by (simp add: pass_with_def)
  obtain rep where run: "smoke_run healthy_host small_api small_build demo_smoke 0 = Some (rep, 9)"
    and cs: "rp_checks rep = [b, pass_with ''readiness'' ''healthz=200, readyz=200'', i,
        pass_with ''route'' ''1 active ingestion binding(s) found for global:default'',
        pass_with ''consume''
         ''2 validation result(s) received (Kafka->consumer->JetStream->validator pipeline confirmed)'', v]"
    by (simp add: smoke_run_def smoke_stages_def b i v healthy_polls p)
  from smoke_run_report(6) [OF run] cs b i v p have "rp_passed rep" by simp
  with run show ?thesis by blast
qed

theorem smoke_run_returns_witness:
  "(\<exists>rep w'. smoke_run bare_host small_api small_build demo_smoke 0 = Some (rep, w'))
   \<and> (\<exists>c w'. bootstrap_alignment bare_host demo_smoke 0 = Some (c, w'))"
  by (rule smoke_run_returns [OF bare_host_clock])

theorem smoke_run_trace_witness:
  "\<exists>rep. smoke_run bare_host small_api small_build demo_smoke 0 = Some (rep, 0)
         \<and> map ck_name (rp_checks rep) = stage_names \<and> \<not> rp_passed rep"
proof -
  have "fst (hd (smoke_stages bare_host small_api small_build demo_smoke)) = ''bootstrap''"
    by (simp add: smoke_stages_def)
  have "bootstrap bare_host demo_smoke 0 = (fail_with ''bootstrap''
      (''compose file not found: '' @ sk_compose_file demo_smoke), 0)"
    by (simp add: bootstrap_def bootstrap_required_def bare_host_def)
  then obtain rep where rep: "smoke_run bare_host small_api small_build demo_smoke 0 = Some (rep, 0)"
    "ck_status (hd (rp_checks rep)) = CheckFail" "rp_checks rep \<noteq> []"
    by (simp add: smoke_run_def smoke_stages_def)
  from rep(1) have "map ck_name (rp_checks rep) = stage_names
      \<and> (rp_passed rep \<longleftrightarrow> (\<forall>c\<in>set (rp_checks rep). ck_status c = CheckPass))"
    unfolding smoke_run_trace by blast
  with rep show ?thesis by (metis check_status.distinct(1) list.set_sel(1))
qed

text \<open>
  Property (inject). The stage passes exactly when the four requests \<open>create\<close>, \<open>validate\<close>,
  \<open>compile\<close>, \<open>activate\<close>, each made after the one before succeeded and with the id the first
  one returned, all succeed; a request that fails is the last one made.
\<close>

theorem inject_protocol:
  "(ck_status (fst (inject env J B cfg w)) = CheckPass \<longleftrightarrow>
      (\<exists>draft w1 i v w2 c w3 a.
         create_draft env B cfg (sk_config_key cfg) (smoke_config_content B cfg) w = (Inr draft, w1)
         \<and> config_id_of J draft = Some i
         \<and> validate_config env B cfg i w1 = (Inr v, w2)
         \<and> compile_config env B cfg i w2 = (Inr c, w3)
         \<and> activate_config env B cfg i w3 = (Inr a, snd (inject env J B cfg w))))
   \<and> (\<forall>e w1. create_draft env B cfg (sk_config_key cfg) (smoke_config_content B cfg) w = (Inl e, w1)
        \<longrightarrow> snd (inject env J B cfg w) = w1)
   \<and> (\<forall>draft w1 i. create_draft env B cfg (sk_config_key cfg) (smoke_config_content B cfg) w = (Inr draft, w1)
        \<and> config_id_of J draft = Some i \<longrightarrow>
        (\<forall>e w2. validate_config env B cfg i w1 = (Inl e, w2) \<longrightarrow> snd (inject env J B cfg w) = w2)
        \<and> (\<forall>v w2 e w3. validate_config env B cfg i w1 = (Inr v, w2)
             \<and> compile_config env B cfg i w2 = (Inl e, w3) \<longrightarrow> snd (inject env J B cfg w) = w3))"
  by (auto simp: inject_def split: prod.splits sum.splits option.splits)

theorem inject_protocol_witness:
  "snd (inject bare_host small_api small_build demo_smoke 5) = 6"
proof -
  have f: "create_draft bare_host small_build demo_smoke (sk_config_key demo_smoke)
        (smoke_config_content small_build demo_smoke) 5
      = (Inl (''POST http://127.0.0.1:8080/configctl/configs failed: refused''), 6)"
    by (simp add: create_draft_def post_json_def bare_host_def json_reply_def api_base_def demo_smoke_def
        smoke_config_new_def trim_end_char_def)
  with inject_protocol [of bare_host small_api small_build demo_smoke 5] show ?thesis by blast
qed

text \<open>
  Property (validate). With an array of results the stage passes exactly when one of them passed;
  without a failed result it still passes, with a warning.
\<close>

theorem validate_verdict:
  "(let c = from_findings ''validate'' (validate_findings J results) in
    (ck_status c = CheckPass \<longleftrightarrow> (\<exists>r\<in>set results. status_of J r = Some ''passed''))
    \<and> (Warning \<in> severities c \<longleftrightarrow> \<not> (\<exists>r\<in>set results. status_of J r = Some ''failed'')))"
  by (auto simp: Let_def from_findings_status validate_findings_def list_ex_iff severities_iff)

lemma align_severity [simp]:
  "fd_severity (align_info m) = Info" "fd_severity (align_error m) = Error"
  by (simp_all add: align_info_def align_error_def)

lemma loaded_findings_error:
  "(\<exists>f\<in>set (loaded_findings service d). fd_severity f = Error) \<longleftrightarrow> d = None"
  by (cases d) (simp_all add: loaded_findings_def render_loaded_bootstrap_findings_def)

lemma compare_findings_error:
  "(\<exists>f\<in>set (compare_findings c e). fd_severity f = Error)
   \<longleftrightarrow> \<not> (bd_signature c = bd_signature e \<and> bd_runtime_refs c = bd_runtime_refs e)"
  by (simp add: compare_findings_def)

text \<open>
  Property (alignment). The consumer and the emulator are reported as aligned exactly when both logs
  expose a loaded bootstrap and the two agree on its signature and its runtime references.
\<close>

theorem alignment_verdict:
  "ck_status (bootstrap_alignment_from_logs consumer_logs emulator_logs) = CheckPass \<longleftrightarrow>
     (\<exists>c e. parse_consumer_bootstrap_diagnostics consumer_logs = Some c
            \<and> parse_emulator_bootstrap_diagnostics emulator_logs = Some e
            \<and> bd_signature c = bd_signature e \<and> bd_runtime_refs c = bd_runtime_refs e)"
proof -
  have split_pass: "ck_status (from_findings n (fs @ (if b then [align_info m] else []))) = CheckPass
      \<longleftrightarrow> \<not> (\<exists>f\<in>set fs. fd_severity f = Error)" for n fs b m
    by (auto simp: from_findings_status)
  show ?thesis
    unfolding bootstrap_alignment_from_logs_def Let_def split_pass set_append bex_Un
      loaded_findings_error
    by (cases "parse_consumer_bootstrap_diagnostics consumer_logs";
        cases "parse_emulator_bootstrap_diagnostics emulator_logs")
      (simp_all add: compare_findings_error)
qed

end
