(* ===== verification/Scenarios.thy ===== *)
theory Scenarios
  imports SmokeProps
begin

text \<open>
  The named scenarios of \<open>smoke/scenarios.rs\<close>, built from the stages of the smoke test: the
  full pipeline, the life cycle of a configuration on the control plane, the rejection of
  invalid payloads, queries of an unknown scope, and the readiness probe. As in \<open>Smoke\<close> the
  world is passed from call to call, and \<open>None\<close> is a loop that does not end.
\<close>

section \<open>Scenarios\<close>

datatype scenario = HappyPath | ConfigLifecycle | InvalidPayload | MissingBinding | ReadinessProbe

fun scenario_name :: "scenario \<Rightarrow> string" where
  "scenario_name HappyPath = ''happy-path''"
| "scenario_name ConfigLifecycle = ''config-lifecycle''"
| "scenario_name InvalidPayload = ''invalid-payload''"
| "scenario_name MissingBinding = ''missing-binding''"
| "scenario_name ReadinessProbe = ''readiness-probe''"

definition parse_scenario :: "string \<Rightarrow> scenario option" where
  "parse_scenario name =
     (if name = ''happy-path'' then Some HappyPath
      else if name = ''config-lifecycle'' then Some ConfigLifecycle
      else if name = ''invalid-payload'' then Some InvalidPayload
      else if name = ''missing-binding'' then Some MissingBinding
      else if name = ''readiness-probe'' then Some ReadinessProbe
      else None)"

definition all_names :: "string list" where
  "all_names = [''happy-path'', ''config-lifecycle'', ''invalid-payload'', ''missing-binding'',
                ''readiness-probe'']"

definition all_scenarios :: "scenario list" where
  "all_scenarios = [HappyPath, ConfigLifecycle, InvalidPayload, MissingBinding, ReadinessProbe]"

definition scenario_config_key :: "smoke_config \<Rightarrow> string \<Rightarrow> string" where
  "scenario_config_key cfg prefix = prefix @ ''-'' @ sk_run_id cfg"

definition scenario_report :: "scenario \<Rightarrow> report" where
  "scenario_report s = report_new (''scenario-smoke: '' @ scenario_name s)"

section \<open>Helpers\<close>

text \<open>The loop of \<open>run_stages_sequential\<close>, which also returns its variable \<open>failed_at\<close>.\<close>

fun run_stages_sequential :: "'w stage list \<Rightarrow> report \<Rightarrow> string option \<Rightarrow> 'w
                              \<Rightarrow> ((report \<times> string option) \<times> 'w) option" where
  "run_stages_sequential [] rep failed_at w = Some ((rep, failed_at), w)"
| "run_stages_sequential ((name, stage_fn) # stages) rep failed_at w =
     (case failed_at of
        Some blocker \<Rightarrow>
          run_stages_sequential stages
            (report_add rep (check_skip name (''skipped: '' @ blocker @ '' failed''))) failed_at w
      | None \<Rightarrow>
          (case stage_fn w of
             None \<Rightarrow> None
           | Some (result, w1) \<Rightarrow>
               run_stages_sequential stages (report_add rep result)
                 (if ck_status result = CheckPass then None else Some name) w1))"

definition skip_remaining :: "report \<Rightarrow> string list \<Rightarrow> string \<Rightarrow> report" where
  "skip_remaining rep names blocker =
     foldl (\<lambda>r name. report_add r (check_skip name (''skipped: '' @ blocker @ '' failed''))) rep names"

text \<open>The requests with a scope of their own, and the two the other stages do not make.\<close>

definition with_scope :: "smoke_config \<Rightarrow> string \<Rightarrow> string \<Rightarrow> smoke_config" where
  "with_scope cfg kind key = cfg\<lparr>sk_scope_kind := kind, sk_scope_key := key\<rparr>"

definition ingestion_bindings_scoped :: "('w, 'j) smoke_env \<Rightarrow> smoke_config \<Rightarrow> string \<Rightarrow> string
                                         \<Rightarrow> 'w \<Rightarrow> (string + 'j) \<times> 'w" where
  "ingestion_bindings_scoped env cfg kind key = ingestion_bindings env (with_scope cfg kind key)"

definition validation_results_scoped :: "('w, 'j) smoke_env \<Rightarrow> smoke_config \<Rightarrow> string \<Rightarrow> string
                                         \<Rightarrow> nat \<Rightarrow> 'w \<Rightarrow> (string + 'j) \<times> 'w" where
  "validation_results_scoped env cfg kind key limit =
     validation_results env (with_scope cfg kind key) limit"

definition get_active_config :: "('w, 'j) smoke_env \<Rightarrow> smoke_config \<Rightarrow> 'w \<Rightarrow> (string + 'j) \<times> 'w" where
  "get_active_config env cfg = get_json env (scoped_url cfg ''/configctl/configs/active'')"

definition configctl_runtime_projections :: "('w, 'j) smoke_env \<Rightarrow> smoke_config \<Rightarrow> 'w
                                             \<Rightarrow> (string + 'j) \<times> 'w" where
  "configctl_runtime_projections env cfg =
     get_json env (scoped_url cfg ''/runtime/configctl/projections'')"

section \<open>The full pipeline\<close>

definition run_happy_path :: "('w, 'j) smoke_env \<Rightarrow> 'j value_api \<Rightarrow> 'j json_build \<Rightarrow> smoke_config
                              \<Rightarrow> 'w \<Rightarrow> (report \<times> 'w) option" where
  "run_happy_path env J B cfg w =
     (case run_stages_sequential
             (smoke_stages env J B cfg @ [(''bootstrap-alignment'', bootstrap_alignment env cfg)])
             (scenario_report HappyPath) None w of
        None \<Rightarrow> None
      | Some ((rep, _), w1) \<Rightarrow> Some (rep, w1))"

section \<open>The life cycle of a configuration\<close>

text \<open>\<open>as_bool\<close> is \<open>Value::as_bool\<close>.\<close>

definition validation_valid :: "'j value_api \<Rightarrow> ('j \<Rightarrow> bool option) \<Rightarrow> 'j \<Rightarrow> bool" where
  "validation_valid J as_bool resp =
     (case Option.bind (Option.bind (jv_get J resp ''validation'') (\<lambda>v. jv_get J v ''valid'')) as_bool of
        Some b \<Rightarrow> b | None \<Rightarrow> False)"

definition validation_diagnostics :: "'j value_api \<Rightarrow> 'j json_build \<Rightarrow> 'j \<Rightarrow> string" where
  "validation_diagnostics J B resp =
     (case Option.bind (jv_get J resp ''validation'') (\<lambda>v. jv_get J v ''diagnostics'') of
        Some d \<Rightarrow> jb_text B d | None \<Rightarrow> [])"

definition version_id_of :: "'j value_api \<Rightarrow> 'j \<Rightarrow> string option" where
  "version_id_of J entry = Option.bind (jv_get J entry ''version_id'') (jv_str J)"

definition active_finding :: "'j value_api \<Rightarrow> string \<Rightarrow> string + 'j \<Rightarrow> finding" where
  "active_finding J config_id res =
     (case res of
        Inl e \<Rightarrow> finding_error ''verify-active'' (''failed to query active config: '' @ e)
      | Inr resp \<Rightarrow>
          (let active_id = (case config_id_of J resp of Some i \<Rightarrow> i | None \<Rightarrow> []) in
           if active_id = config_id then
             finding_info ''verify-active'' ''active config matches the activated version''
           else if active_id \<noteq> [] then
             finding_warning ''verify-active''
               (''active config is present but differs from activated version (active='' @ active_id
                @ '', activated='' @ config_id @ '')'')
           else finding_error ''verify-active'' ''no active config found after activation''))"

definition projection_finding :: "'j value_api \<Rightarrow> smoke_config \<Rightarrow> string \<Rightarrow> string + 'j \<Rightarrow> finding" where
  "projection_finding J cfg config_id res =
     (case res of
        Inl e \<Rightarrow> finding_error ''verify-active'' (''failed to query configctl runtime projections: '' @ e)
      | Inr resp \<Rightarrow>
          (let runtimes = array_field J resp ''runtimes'';
               entries = (case runtimes of Some es \<Rightarrow> es | None \<Rightarrow> [])
           in case find (\<lambda>entry. version_id_of J entry = Some config_id) entries of
                Some entry \<Rightarrow>
                  finding_info ''verify-active''
                    (''configctl runtime projection includes activated version with ''
                     @ show_nat (case array_field J entry ''bindings'' of Some vs \<Rightarrow> length vs | None \<Rightarrow> 0)
                     @ '' bindings'')
              | None \<Rightarrow>
                  (let observed_versions = join '', '' (List.map_filter (version_id_of J) entries) in
                   if observed_versions = [] then
                     finding_error ''verify-active''
                       (''configctl runtime projections do not include an active version for ''
                        @ scope_text cfg)
                   else
                     finding_error ''verify-active''
                       (''configctl runtime projections do not include activated version '' @ config_id
                        @ '' (observed: '' @ observed_versions @ '')''))))"

definition lifecycle_verify :: "('w, 'j) smoke_env \<Rightarrow> 'j value_api \<Rightarrow> smoke_config \<Rightarrow> string
                                \<Rightarrow> report \<Rightarrow> 'w \<Rightarrow> report \<times> 'w" where
  "lifecycle_verify env J cfg config_id rep w =
     (let (ares, w1) = get_active_config env cfg w;
          (pres, w2) = configctl_runtime_projections env cfg w1
      in (report_add rep (from_findings ''verify-active''
            [active_finding J config_id ares, projection_finding J cfg config_id pres]), w2))"

definition lifecycle_activate :: "('w, 'j) smoke_env \<Rightarrow> 'j value_api \<Rightarrow> 'j json_build \<Rightarrow> smoke_config
                                  \<Rightarrow> string \<Rightarrow> report \<Rightarrow> 'w \<Rightarrow> report \<times> 'w" where
  "lifecycle_activate env J B cfg config_id rep w =
     (case activate_config env B cfg config_id w of
        (Inl e, w1) \<Rightarrow>
          (skip_remaining
             (report_add rep (fail_with ''activate'' (''activate request failed: '' @ e)))
             [''verify-active''] ''activate'', w1)
      | (Inr _, w1) \<Rightarrow>
          lifecycle_verify env J cfg config_id
            (report_add rep (pass_with ''activate''
               (''config '' @ config_id @ '' activated in '' @ scope_text cfg))) w1)"

definition lifecycle_compile :: "('w, 'j) smoke_env \<Rightarrow> 'j value_api \<Rightarrow> 'j json_build \<Rightarrow> smoke_config
                                 \<Rightarrow> string \<Rightarrow> report \<Rightarrow> 'w \<Rightarrow> report \<times> 'w" where
  "lifecycle_compile env J B cfg config_id rep w =
     (case compile_config env B cfg config_id w of
        (Inl e, w1) \<Rightarrow>
          (skip_remaining
             (report_add rep (fail_with ''compile'' (''compile request failed: '' @ e)))
             [''activate'', ''verify-active''] ''compile'', w1)
      | (Inr resp, w1) \<Rightarrow>
          (let has_artifact =
                 Option.bind (jv_get J resp ''config'') (\<lambda>v. jv_get J v ''artifact'') \<noteq> None
           in lifecycle_activate env J B cfg config_id
                (report_add rep (pass_with ''compile''
                   (if has_artifact then ''compilation artifact generated''
                    else ''compiled (no artifact in response)''))) w1))"

definition lifecycle_validate :: "('w, 'j) smoke_env \<Rightarrow> 'j value_api \<Rightarrow> ('j \<Rightarrow> bool option)
                                  \<Rightarrow> 'j json_build \<Rightarrow> smoke_config \<Rightarrow> string \<Rightarrow> report \<Rightarrow> 'w
                                  \<Rightarrow> report \<times> 'w" where
  "lifecycle_validate env J as_bool B cfg config_id rep w =
     (case validate_config env B cfg config_id w of
        (Inl e, w1) \<Rightarrow>
          (skip_remaining
             (report_add rep (fail_with ''validate'' (''validate request failed: '' @ e)))
             [''compile'', ''activate'', ''verify-active''] ''validate'', w1)
      | (Inr resp, w1) \<Rightarrow>
          if validation_valid J as_bool resp then
            lifecycle_compile env J B cfg config_id
              (report_add rep (pass_with ''validate'' ''config validated successfully'')) w1
          else
            (skip_remaining
               (report_add rep (fail_with ''validate''
                  (''validation returned invalid: '' @ validation_diagnostics J B resp)))
               [''compile'', ''activate'', ''verify-active''] ''validate'', w1))"

definition lifecycle_create :: "('w, 'j) smoke_env \<Rightarrow> 'j value_api \<Rightarrow> ('j \<Rightarrow> bool option)
                                \<Rightarrow> 'j json_build \<Rightarrow> smoke_config \<Rightarrow> report \<Rightarrow> 'w \<Rightarrow> report \<times> 'w" where
  "lifecycle_create env J as_bool B cfg rep w =
     (let later = [''validate'', ''compile'', ''activate'', ''verify-active''] in
      case create_draft env B cfg (scenario_config_key cfg ''scenario-lifecycle'')
             (smoke_config_content B cfg) w of
        (Inl e, w1) \<Rightarrow>
          (skip_remaining
             (report_add rep (fail_with ''create-draft'' (''create draft failed: '' @ e)))
             later ''create-draft'', w1)
      | (Inr draft_resp, w1) \<Rightarrow>
          (case config_id_of J draft_resp of
             None \<Rightarrow>
               (skip_remaining
                  (report_add rep (fail_with ''create-draft''
                     (''response missing '' @ quote1 ''config.id'' @ '' field'')))
                  later ''create-draft'', w1)
           | Some config_id \<Rightarrow>
               lifecycle_validate env J as_bool B cfg config_id
                 (report_add rep (pass_with ''create-draft'' (''draft created: '' @ config_id))) w1))"

definition run_config_lifecycle :: "('w, 'j) smoke_env \<Rightarrow> 'j value_api \<Rightarrow> ('j \<Rightarrow> bool option)
                                    \<Rightarrow> 'j json_build \<Rightarrow> smoke_config \<Rightarrow> 'w \<Rightarrow> (report \<times> 'w) option" where
  "run_config_lifecycle env J as_bool B cfg w =
     (let later = [''create-draft'', ''validate'', ''compile'', ''activate'', ''verify-active''];
          (b, w1) = bootstrap_required env cfg [''nats'', ''configctl'', ''server''] ''make up-core'' w;
          rep1 = report_add (scenario_report ConfigLifecycle) b
      in if ck_status b \<noteq> CheckPass then
           Some (skip_remaining rep1 (''readiness'' # later) ''bootstrap'', w1)
         else
           (case readiness env cfg w1 of
              None \<Rightarrow> None
            | Some (r, w2) \<Rightarrow>
                (let rep2 = report_add rep1 r in
                 if ck_status r \<noteq> CheckPass then Some (skip_remaining rep2 later ''readiness'', w2)
                 else Some (lifecycle_create env J as_bool B cfg rep2 w2))))"

section \<open>Invalid payloads\<close>

definition has_status :: "'j value_api \<Rightarrow> string \<Rightarrow> 'j \<Rightarrow> bool" where
  "has_status J st entry = (status_of J entry = Some st)"

text \<open>One turn of the waiting loop; it is left with \<open>Inl\<close> when a failed result is found.\<close>

definition failures_attempt :: "('w, 'j) smoke_env \<Rightarrow> 'j value_api \<Rightarrow> smoke_config \<Rightarrow> unit \<Rightarrow> 'w
                                \<Rightarrow> (check_result + unit) \<times> 'w" where
  "failures_attempt env J cfg u w =
     (case validation_results env cfg 20 w of
        (Inl _, w1) \<Rightarrow> (Inr (), w1)
      | (Inr resp, w1) \<Rightarrow>
          (case array_field J resp ''results'' of
             None \<Rightarrow> (Inr (), w1)
           | Some results \<Rightarrow>
               if list_ex (has_status J ''failed'') results then
                 (Inl (pass_with ''wait-for-failures''
                         (''validator produced '' @ quote1 ''failed''
                          @ '' results from invalid emulator samples'')), w1)
               else (Inr (), w1)))"

definition failures_timeout :: "smoke_config \<Rightarrow> check_result" where
  "failures_timeout cfg =
     from_findings ''wait-for-failures''
       [with_help
          (with_why
             (finding_error ''wait-for-failures''
                (''no '' @ quote1 ''failed'' @ '' validation results within ''
                 @ show_nat (sk_results_timeout_secs cfg) @ ''s '' @ em_dash
                 @ '' emulator may not have produced invalid samples yet''))
             ''invalid payloads should be caught by validation rules'')
          ''check emulator logs; ensure it produces SyntheticScenarioInvalidMissingField samples'']"

definition wait_for_failures :: "('w, 'j) smoke_env \<Rightarrow> 'j value_api \<Rightarrow> smoke_config \<Rightarrow> 'w
                                 \<Rightarrow> (check_result \<times> 'w) option" where
  "wait_for_failures env J cfg =
     poll_stage env cfg (1000 * sk_results_timeout_secs cfg) (failures_attempt env J cfg) ()
       (\<lambda>_ w. (failures_timeout cfg, w))"

text \<open>The violations of the first failed result that has any.\<close>

fun first_violation :: "'j value_api \<Rightarrow> 'j list \<Rightarrow> 'j option" where
  "first_violation J [] = None"
| "first_violation J (entry # entries) =
     (if has_status J ''failed'' entry then
        (case array_field J entry ''violations'' of
           Some (violation # _) \<Rightarrow> Some violation
         | _ \<Rightarrow> first_violation J entries)
      else first_violation J entries)"

definition str_or_unknown :: "'j value_api \<Rightarrow> 'j \<Rightarrow> string \<Rightarrow> string" where
  "str_or_unknown J v key =
     (case Option.bind (jv_get J v key) (jv_str J) of Some s \<Rightarrow> s | None \<Rightarrow> ''unknown'')"

definition verify_violations :: "('w, 'j) smoke_env \<Rightarrow> 'j value_api \<Rightarrow> smoke_config \<Rightarrow> 'w
                                 \<Rightarrow> check_result \<times> 'w" where
  "verify_violations env J cfg w =
     (case validation_results env cfg 20 w of
        (Inl e, w1) \<Rightarrow> (fail_with ''verify-violations'' (''failed to fetch results: '' @ e), w1)
      | (Inr resp, w1) \<Rightarrow>
          (case first_violation J (case array_field J resp ''results'' of Some rs \<Rightarrow> rs | None \<Rightarrow> []) of
             Some violation \<Rightarrow>
               (from_findings ''verify-violations''
                  [finding_info ''verify-violations''
                     ''failed results contain structured violations with rule/field/severity'',
                   finding_info ''verify-violations''
                     (''violation found: rule='' @ str_or_unknown J violation ''rule''
                      @ '', field='' @ str_or_unknown J violation ''field'')], w1)
           | None \<Rightarrow>
               (fail_with ''verify-violations''
                  (''failed results have no violations array '' @ em_dash
                   @ '' validator may not be recording violation details''), w1)))"

definition run_invalid_payload :: "('w, 'j) smoke_env \<Rightarrow> 'j value_api \<Rightarrow> 'j json_build \<Rightarrow> smoke_config
                                   \<Rightarrow> 'w \<Rightarrow> (report \<times> 'w) option" where
  "run_invalid_payload env J B cfg w =
     (case run_stages_sequential (take 4 (smoke_stages env J B cfg))
             (scenario_report InvalidPayload) None w of
        None \<Rightarrow> None
      | Some ((rep, Some _), w1) \<Rightarrow>
          Some (report_add
                  (report_add rep (check_skip ''wait-for-failures'' ''skipped: prior stage failed''))
                  (check_skip ''verify-violations'' ''skipped: prior stage failed''), w1)
      | Some ((rep, None), w1) \<Rightarrow>
          (case wait_for_failures env J cfg w1 of
             None \<Rightarrow> None
           | Some (c, w2) \<Rightarrow>
               if ck_status c = CheckPass then
                 (let (v, w3) = verify_violations env J cfg w2
                  in Some (report_add (report_add rep c) v, w3))
               else
                 Some (report_add (report_add rep c)
                         (check_skip ''verify-violations'' ''skipped: no failed results to inspect''),
                       w2)))"

section \<open>Unknown scopes and the readiness probe\<close>

definition missing_query :: "'j value_api \<Rightarrow> string \<Rightarrow> string \<Rightarrow> string \<Rightarrow> string + 'j
                             \<Rightarrow> check_result" where
  "missing_query J name kind endpoint res =
     (case res of
        Inr resp \<Rightarrow>
          (let n = (case array_field J resp kind of Some a \<Rightarrow> length a | None \<Rightarrow> 0) in
           if n = 0 then
             pass_with name (''non-existent scope returns empty '' @ kind @ '' (no error)'')
           else from_findings name
             [finding_warning name
                (''expected 0 '' @ kind @ '' for nonexistent scope, got '' @ show_nat n)])
      | Inl e \<Rightarrow>
          from_findings name
            [with_help
               (with_why
                  (finding_error name
                     (''request failed (expected empty response, not error): '' @ e))
                  ''querying non-existent scopes should return empty results, not HTTP errors'')
               (''check if the '' @ endpoint @ '' endpoint handles unknown scopes'')])"

definition run_missing_binding :: "('w, 'j) smoke_env \<Rightarrow> 'j value_api \<Rightarrow> smoke_config \<Rightarrow> 'w
                                   \<Rightarrow> (report \<times> 'w) option" where
  "run_missing_binding env J cfg w =
     (case readiness env cfg w of
        None \<Rightarrow> None
      | Some (r, w1) \<Rightarrow>
          (let rep = report_add (scenario_report MissingBinding) r in
           if ck_status r \<noteq> CheckPass then
             Some (skip_remaining rep [''query-missing-bindings'', ''query-missing-results'']
                     ''readiness'', w1)
           else
             (let (bres, w2) = ingestion_bindings_scoped env cfg ''nonexistent-tenant'' ''nonexistent-key'' w1;
                  (rres, w3) = validation_results_scoped env cfg ''nonexistent-tenant'' ''nonexistent-key'' 10 w2
              in Some (report_add
                   (report_add rep
                      (missing_query J ''query-missing-bindings'' ''bindings'' ''/runtime/ingestion/bindings'' bres))
                   (missing_query J ''query-missing-results'' ''results'' ''/runtime/validator/results'' rres),
                 w3))))"

definition run_readiness_probe :: "('w, 'j) smoke_env \<Rightarrow> smoke_config \<Rightarrow> 'w \<Rightarrow> (report \<times> 'w) option" where
  "run_readiness_probe env cfg w =
     (let (b, w1) = bootstrap env cfg w;
          rep = report_add (scenario_report ReadinessProbe) b
      in if ck_status b \<noteq> CheckPass then
           Some (skip_remaining rep [''readiness''] ''bootstrap'', w1)
         else (case readiness env cfg w1 of
                 None \<Rightarrow> None
               | Some (r, w2) \<Rightarrow> Some (report_add rep r, w2)))"

definition run_scenario :: "('w, 'j) smoke_env \<Rightarrow> 'j value_api \<Rightarrow> ('j \<Rightarrow> bool option) \<Rightarrow> 'j json_build
                            \<Rightarrow> scenario \<Rightarrow> smoke_config \<Rightarrow> 'w \<Rightarrow> (report \<times> 'w) option" where
  "run_scenario env J as_bool B s cfg w =
     (case s of
        HappyPath \<Rightarrow> run_happy_path env J B cfg w
      | ConfigLifecycle \<Rightarrow> run_config_lifecycle env J as_bool B cfg w
      | InvalidPayload \<Rightarrow> run_invalid_payload env J B cfg w
      | MissingBinding \<Rightarrow> run_missing_binding env J cfg w
      | ReadinessProbe \<Rightarrow> run_readiness_probe env cfg w)"

end
