(* ===== verification/ScenarioProps.thy ===== *)
theory ScenarioProps
  imports Scenarios
begin

text \<open>
  Correctness of the scenarios: the shape of every report and what its passing means, what the
  life cycle and the invalid-payload scenario have seen when they pass, and that every
  scenario returns on a clock that advances.
\<close>

section \<open>Reports built stage by stage\<close>

text \<open>
  The invariant of the reports under construction: every check is well-formed and a check is
  skipped only behind a failing one.
\<close>

definition blocked :: "report \<Rightarrow> bool" where
  "blocked rep \<longleftrightarrow> (\<exists>c\<in>set (rp_checks rep). ck_status c = CheckFail)"

definition staged :: "report \<Rightarrow> bool" where
  "staged rep \<longleftrightarrow>
     report_wf rep
     \<and> (\<forall>i<length (rp_checks rep). ck_status (rp_checks rep ! i) = CheckSkip \<longrightarrow>
            (\<exists>j<i. ck_status (rp_checks rep ! j) = CheckFail))"

definition grows :: "string list \<Rightarrow> report \<Rightarrow> report \<Rightarrow> bool" where
  "grows names rep rep' \<longleftrightarrow>
     staged rep' \<and> map ck_name (rp_checks rep') = map ck_name (rp_checks rep) @ names"

named_theorems staged_intros

lemma blocked_index: "blocked rep \<longleftrightarrow> (\<exists>j<length (rp_checks rep). ck_status (rp_checks rep ! j) = CheckFail)"
  unfolding blocked_def by (metis in_set_conv_nth)

lemma blocked_add [simp]: "blocked (report_add rep c) \<longleftrightarrow> blocked rep \<or> ck_status c = CheckFail"
  by (auto simp: blocked_def)

lemma staged_new [staged_intros]: "staged (scenario_report s)"
  by (simp add: staged_def scenario_report_def report_wf_new)

lemma staged_add:
  assumes "staged rep" "check_wf c" "ck_status c = CheckSkip \<Longrightarrow> blocked rep"
  shows "staged (report_add rep c)"
  unfolding staged_def
proof (intro conjI allI impI)
  show "report_wf (report_add rep c)" using assms by (simp add: staged_def report_wf_add)
  fix i
  assume i: "i < length (rp_checks (report_add rep c))"
    and skip: "ck_status (rp_checks (report_add rep c) ! i) = CheckSkip"
  show "\<exists>j<i. ck_status (rp_checks (report_add rep c) ! j) = CheckFail"
  proof (cases "i < length (rp_checks rep)")
    case True
    with skip have "ck_status (rp_checks rep ! i) = CheckSkip" by (simp add: nth_append)
    with assms(1) True obtain j where j: "j < i" "ck_status (rp_checks rep ! j) = CheckFail"
      unfolding staged_def by blast
    with True have "ck_status (rp_checks (report_add rep c) ! j) = CheckFail"
      by (simp add: nth_append)
    with j(1) show ?thesis by blast
  next
    case False
    with i have len: "i = length (rp_checks rep)" by simp
    have "ck_status c = CheckSkip" using skip unfolding len by simp
    then obtain j where j: "j < i" "ck_status (rp_checks rep ! j) = CheckFail"
      using assms(3) unfolding blocked_index len by blast
    then have "ck_status (rp_checks (report_add rep c) ! j) = CheckFail"
      unfolding len by (simp add: nth_append)
    with j(1) show ?thesis by blast
  qed
qed

lemma grows_stage [staged_intros]:
  "staged rep \<Longrightarrow> stage_result n c \<Longrightarrow> grows [n] rep (report_add rep c)"
  unfolding grows_def by (auto simp: stage_result_def intro: staged_add)

lemma grows_skip:
  "staged rep \<Longrightarrow> blocked rep \<Longrightarrow> grows [n] rep (report_add rep (check_skip n why))"
  unfolding grows_def by (auto simp: wf_intros intro: staged_add)

lemma grows_trans: "grows ns rep rep1 \<Longrightarrow> grows ms rep1 rep2 \<Longrightarrow> grows (ns @ ms) rep rep2"
  by (simp add: grows_def)

lemma grows_Cons: "grows [n] rep rep1 \<Longrightarrow> grows ms rep1 rep2 \<Longrightarrow> grows (n # ms) rep rep2"
  using grows_trans [of "[n]"] by simp

lemma grows_staged: "grows ns rep rep1 \<Longrightarrow> staged rep1"
  by (simp add: grows_def)

lemma grows_skip_remaining:
  "staged rep \<Longrightarrow> blocked rep \<Longrightarrow> grows names rep (skip_remaining rep names b)"
proof (induction names arbitrary: rep)
  case Nil
  then show ?case by (simp add: grows_def skip_remaining_def)
next
  case (Cons n names)
  let ?rep1 = "report_add rep (check_skip n (''skipped: '' @ b @ '' failed''))"
  have g: "grows [n] rep ?rep1" by (rule grows_skip [OF Cons.prems])
  have "blocked ?rep1" using Cons.prems by simp
  from grows_Cons [OF g Cons.IH [OF grows_staged [OF g] this]] show ?case
    by (simp add: skip_remaining_def)
qed

lemma blocked_skip_remaining: "blocked rep \<Longrightarrow> blocked (skip_remaining rep names b)"
  by (induction names arbitrary: rep) (simp_all add: skip_remaining_def)

lemma failed_stage:
  assumes "staged rep" "stage_result n c" "ck_status c \<noteq> CheckPass"
  shows "grows (n # names) rep (skip_remaining (report_add rep c) names b)"
proof -
  have "ck_status c = CheckFail"
    using assms(2,3) by (cases "ck_status c") (auto simp: stage_result_def)
  then show ?thesis
    using grows_Cons [OF grows_stage [OF assms(1,2)] grows_skip_remaining]
      grows_staged [OF grows_stage [OF assms(1,2)]] by simp
qed

lemma passed_stage:
  "staged rep \<Longrightarrow> stage_result n c \<Longrightarrow> grows names (report_add rep c) rep' \<Longrightarrow> grows (n # names) rep rep'"
  by (rule grows_Cons [OF grows_stage])

lemma staged_passed:
  assumes "staged rep"
  shows "rp_passed rep \<longleftrightarrow> (\<forall>c\<in>set (rp_checks rep). ck_status c = CheckPass)"
proof -
  have "rp_passed rep \<longleftrightarrow> \<not> blocked rep"
    using assms by (auto simp: staged_def report_wf_def blocked_def)
  also have "\<dots> \<longleftrightarrow> (\<forall>c\<in>set (rp_checks rep). ck_status c = CheckPass)"
  proof
    assume nb: "\<not> blocked rep"
    show "\<forall>c\<in>set (rp_checks rep). ck_status c = CheckPass"
    proof
      fix c
      assume "c \<in> set (rp_checks rep)"
      then obtain i where i: "i < length (rp_checks rep)" "rp_checks rep ! i = c"
        by (metis in_set_conv_nth)
      with assms nb have "ck_status c \<noteq> CheckSkip"
        unfolding staged_def blocked_index by (metis order.strict_trans)
      moreover have "ck_status c \<noteq> CheckFail"
        using nb i unfolding blocked_index by blast
      ultimately show "ck_status c = CheckPass" by (cases "ck_status c") simp_all
    qed
  qed (auto simp: blocked_def)
  finally show ?thesis .
qed

section \<open>The sequential runner\<close>

text \<open>The two copies of the pipeline loop, in \<open>smoke/mod.rs\<close> and here, do the same.\<close>

lemma run_stages_map:
  "run_stages stages rep b w
   = map_option (\<lambda>((rep, _), w). (rep, w)) (run_stages_sequential stages rep b w)"
proof (induction stages arbitrary: rep b w)
  case (Cons st stages)
  then show ?case by (cases st; cases b) (auto split: option.splits)
qed simp

lemma sequential_blocked:
  "run_stages_sequential stages rep (Some b) w = Some ((skip_remaining rep (map fst stages) b, Some b), w)"
  by (induction stages arbitrary: rep) (auto simp: skip_remaining_def)

lemma sequential_grows:
  assumes "run_stages_sequential stages rep None w = Some ((rep', failed), w')"
    and "staged rep" "stages_named stages" "\<not> blocked rep"
  shows "grows (map fst stages) rep rep' \<and> (failed = None \<longleftrightarrow> \<not> blocked rep')"
  using assms
proof (induction stages arbitrary: rep w)
  case Nil
  then show ?case by (auto simp: grows_def)
next
  case (Cons st stages)
  obtain n f where st: "st = (n, f)" by (cases st)
  with Cons.prems(1) obtain c w1 where f: "f w = Some (c, w1)" by (auto split: option.splits)
  with Cons.prems(3) st have res: "stage_result n c" by (auto simp: stages_named_def)
  have g: "grows [n] rep (report_add rep c)" by (rule grows_stage [OF Cons.prems(2) res])
  show ?case
  proof (cases "ck_status c = CheckPass")
    case True
    with st f Cons.prems have "run_stages_sequential stages (report_add rep c) None w1 = Some ((rep', failed), w')"
      and "\<not> blocked (report_add rep c)" "stages_named stages"
      by (simp_all add: stages_named_def)
    with Cons.IH grows_staged [OF g] grows_Cons [OF g] show ?thesis by (simp add: st)
  next
    case False
    with st f Cons.prems(1) have r: "rep' = skip_remaining (report_add rep c) (map fst stages) n"
      "failed = Some n"
      by (simp_all add: sequential_blocked)
    have "ck_status c = CheckFail" using res False by (cases "ck_status c") (auto simp: stage_result_def)
    then have "blocked rep'" unfolding r(1) by (simp add: blocked_skip_remaining)
    with failed_stage [OF Cons.prems(2) res False] r st show ?thesis by simp
  qed
qed

section \<open>The stages of the scenarios\<close>

lemma stage_result_with [simp]:
  "stage_result n (pass_with n m)" "stage_result n (fail_with n m)" "stage_result n (from_findings n fs)"
  by (rule stage_result_intros)+

lemma bootstrap_required_result: "stage_result ''bootstrap'' (fst (bootstrap_required env cfg req help w))"
  by (auto simp: bootstrap_required_def Let_def split: prod.splits sum.splits)

lemma wait_for_failures_result:
  "wait_for_failures env J cfg w = Some (c, w') \<Longrightarrow> stage_result ''wait-for-failures'' c"
  unfolding wait_for_failures_def
  by (erule poll_stage_result)
    (auto simp: failures_attempt_def failures_timeout_def split: prod.splits sum.splits option.splits if_splits)

lemma verify_violations_result: "stage_result ''verify-violations'' (fst (verify_violations env J cfg w))"
  by (auto simp: verify_violations_def split: prod.splits sum.splits option.splits)

lemma missing_query_result: "stage_result n (missing_query J n kind endpoint res)"
  by (auto simp: missing_query_def Let_def split: sum.splits)

lemma alignment_result:
  "bootstrap_alignment env cfg w = Some (c, w') \<Longrightarrow> stage_result ''bootstrap-alignment'' c"
proof -
  have "stage_result ''bootstrap-alignment'' (fst res)"
    if "alignment_loop now sleep fetcher timed_out deadline w = Some res"
    for now :: "'x \<Rightarrow> nat" and sleep fetcher timed_out deadline w res
    using that
  proof (induction now sleep fetcher timed_out deadline w res
      rule: alignment_loop.raw_induct [rotated, consumes 1])
    case (1 loop now sleep fetcher timed_out deadline w res)
    obtain x w1 where f: "fetcher w = (x, w1)" by fastforce
    show ?case
    proof (cases x)
      case (Inl e)
      with 1(2) f show ?thesis by auto
    next
      case (Inr logs)
      obtain cl el where logs: "logs = (cl, el)" by fastforce
      let ?r = "bootstrap_alignment_from_logs cl el"
      have r: "stage_result ''bootstrap-alignment'' ?r"
        by (simp add: bootstrap_alignment_from_logs_def Let_def)
      then have "stage_result ''bootstrap-alignment'' (?r\<lparr>ck_findings := ck_findings ?r @ [align_info timed_out]\<rparr>)"
        by (auto simp: stage_result_def check_wf_def severities_def align_info_def)
      with r 1(2) f Inr logs 1(1) show ?thesis by (auto simp: Let_def split: if_splits)
    qed
  qed
  from this [of "sv_now env"] show "bootstrap_alignment env cfg w = Some (c, w') \<Longrightarrow> ?thesis"
    unfolding bootstrap_alignment_def by fastforce
qed

section \<open>The shape of the reports\<close>

definition lifecycle_names :: "string list" where
  "lifecycle_names = [''create-draft'', ''validate'', ''compile'', ''activate'', ''verify-active'']"

fun scenario_checks :: "scenario \<Rightarrow> string list" where
  "scenario_checks HappyPath = stage_names @ [''bootstrap-alignment'']"
| "scenario_checks ConfigLifecycle = [''bootstrap'', ''readiness''] @ lifecycle_names"
| "scenario_checks InvalidPayload = take 4 stage_names @ [''wait-for-failures'', ''verify-violations'']"
| "scenario_checks MissingBinding = [''readiness'', ''query-missing-bindings'', ''query-missing-results'']"
| "scenario_checks ReadinessProbe = [''bootstrap'', ''readiness'']"

lemma verify_grows:
  "staged rep \<Longrightarrow> grows [''verify-active''] rep (fst (lifecycle_verify env J cfg i rep w))"
  by (auto simp: lifecycle_verify_def Let_def intro: grows_stage split: prod.splits)

lemma fail_grows:
  "staged rep \<Longrightarrow> grows (n # names) rep (skip_remaining (report_add rep (fail_with n m)) names b)"
  by (rule failed_stage) simp_all

lemma staged_pass: "staged rep \<Longrightarrow> staged (report_add rep (pass_with n m))"
  by (rule staged_add) (simp_all add: wf_intros)

lemma grows_pass:
  "staged rep \<Longrightarrow> grows names (report_add rep (pass_with n m)) rep' \<Longrightarrow> grows (n # names) rep rep'"
  by (rule passed_stage) simp_all

lemma activate_grows:
  "staged rep \<Longrightarrow> grows [''activate'', ''verify-active''] rep (fst (lifecycle_activate env J B cfg i rep w))"
  unfolding lifecycle_activate_def
  by (auto simp: fail_grows grows_pass [OF _ verify_grows [OF staged_pass]] split: prod.splits sum.splits)

lemma compile_grows:
  "staged rep \<Longrightarrow> grows [''compile'', ''activate'', ''verify-active''] rep
     (fst (lifecycle_compile env J B cfg i rep w))"
  unfolding lifecycle_compile_def Let_def
  by (auto simp: fail_grows grows_pass [OF _ activate_grows [OF staged_pass]] split: prod.splits sum.splits)

lemma validate_grows:
  "staged rep \<Longrightarrow> grows [''validate'', ''compile'', ''activate'', ''verify-active''] rep
     (fst (lifecycle_validate env J as_bool B cfg i rep w))"
  unfolding lifecycle_validate_def
  by (auto simp: fail_grows grows_pass [OF _ compile_grows [OF staged_pass]] split: prod.splits sum.splits)

lemma create_grows:
  "staged rep \<Longrightarrow> grows lifecycle_names rep (fst (lifecycle_create env J as_bool B cfg rep w))"
  unfolding lifecycle_create_def Let_def lifecycle_names_def
  by (auto simp: fail_grows grows_pass [OF _ validate_grows [OF staged_pass]]
      split: prod.splits sum.splits option.splits)

lemma happy_path_grows:
  assumes "run_happy_path env J B cfg w = Some (rep, w')"
  shows "grows (scenario_checks HappyPath) (scenario_report HappyPath) rep"
proof -
  let ?stages = "smoke_stages env J B cfg @ [(''bootstrap-alignment'', bootstrap_alignment env cfg)]"
  have named: "stages_named ?stages"
    using smoke_stages_named [of env J B cfg] by (auto simp: stages_named_def alignment_result)
  from assms obtain failed where
    "run_stages_sequential ?stages (scenario_report HappyPath) None w = Some ((rep, failed), w')"
    by (auto simp: run_happy_path_def split: option.splits)
  from sequential_grows [OF this staged_new named] show ?thesis
    by (simp add: blocked_def scenario_report_def smoke_stage_names)
qed

lemma lifecycle_grows:
  assumes "run_config_lifecycle env J as_bool B cfg w = Some (rep, w')"
  shows "grows (scenario_checks ConfigLifecycle) (scenario_report ConfigLifecycle) rep"
proof -
  obtain b w1 where b: "bootstrap_required env cfg [''nats'', ''configctl'', ''server''] ''make up-core'' w = (b, w1)"
    by fastforce
  have bres: "stage_result ''bootstrap'' b"
    using bootstrap_required_result [of env cfg "[''nats'', ''configctl'', ''server'']" "''make up-core''" w] b
    by simp
  let ?rep1 = "report_add (scenario_report ConfigLifecycle) b"
  have g1: "grows [''bootstrap''] (scenario_report ConfigLifecycle) ?rep1"
    by (rule grows_stage [OF staged_new bres])
  show ?thesis
  proof (cases "ck_status b = CheckPass")
    case False
    with assms b have "rep = skip_remaining ?rep1 (''readiness'' # lifecycle_names) ''bootstrap''"
      by (simp add: run_config_lifecycle_def lifecycle_names_def)
    then show ?thesis using failed_stage [OF staged_new bres False] by simp
  next
    case True
    with assms b obtain r w2 where r: "readiness env cfg w1 = Some (r, w2)"
      by (auto simp: run_config_lifecycle_def split: option.splits)
    note rres = readiness_result [OF r]
    have "grows (''readiness'' # lifecycle_names) ?rep1 rep"
    proof (cases "ck_status r = CheckPass")
      case False
      with assms b True r have "rep = skip_remaining (report_add ?rep1 r) lifecycle_names ''readiness''"
        by (simp add: run_config_lifecycle_def lifecycle_names_def)
      then show ?thesis using failed_stage [OF grows_staged [OF g1] rres False] by simp
    next
      case pass: True
      with assms b True r have rep: "rep = fst (lifecycle_create env J as_bool B cfg (report_add ?rep1 r) w2)"
        by (simp add: run_config_lifecycle_def lifecycle_names_def)
      note st2 = grows_staged [OF grows_stage [OF grows_staged [OF g1] rres]]
      show ?thesis
        unfolding rep by (rule passed_stage [OF grows_staged [OF g1] rres create_grows [OF st2]])
    qed
    from grows_Cons [OF g1 this] show ?thesis by simp
  qed
qed

lemma scenario_report_simps [simp]: "rp_checks (scenario_report s) = []" "\<not> blocked (scenario_report s)"
  by (simp_all add: scenario_report_def blocked_def)

lemma invalid_payload_grows:
  assumes "run_invalid_payload env J B cfg w = Some (rep, w')"
  shows "grows (scenario_checks InvalidPayload) (scenario_report InvalidPayload) rep"
proof -
  let ?stages = "take 4 (smoke_stages env J B cfg)"
  have named: "stages_named ?stages"
    using smoke_stages_named [of env J B cfg] set_take_subset [of 4 "smoke_stages env J B cfg"]
    unfolding stages_named_def by blast
  from assms obtain rep1 failed w1 where
    run: "run_stages_sequential ?stages (scenario_report InvalidPayload) None w = Some ((rep1, failed), w1)"
    by (auto simp: run_invalid_payload_def split: option.splits)
  have names: "map fst ?stages = take 4 stage_names"
    by (simp add: take_map [symmetric] smoke_stage_names)
  from sequential_grows [OF run staged_new named]
  have g: "grows (take 4 stage_names) (scenario_report InvalidPayload) rep1"
    and bl: "failed = None \<longleftrightarrow> \<not> blocked rep1"
    unfolding names by simp_all
  have "grows [''wait-for-failures'', ''verify-violations''] rep1 rep"
  proof (cases failed)
    case (Some b)
    with bl have "blocked rep1" by simp
    from grows_skip [OF grows_staged [OF g] this]
    have g1: "grows [''wait-for-failures''] rep1 (report_add rep1 (check_skip ''wait-for-failures'' why))" for why .
    have "blocked (report_add rep1 (check_skip n why))" for n why using \<open>blocked rep1\<close> by simp
    from grows_Cons [OF g1 grows_skip [OF grows_staged [OF g1] this]] assms run Some
    show ?thesis by (auto simp: run_invalid_payload_def)
  next
    case None
    with assms run obtain c w2 where c: "wait_for_failures env J cfg w1 = Some (c, w2)"
      by (auto simp: run_invalid_payload_def split: option.splits)
    note cres = wait_for_failures_result [OF c]
    note g1 = grows_stage [OF grows_staged [OF g] cres]
    show ?thesis
    proof (cases "ck_status c = CheckPass")
      case True
      obtain v w3 where v: "verify_violations env J cfg w2 = (v, w3)" by fastforce
      have "stage_result ''verify-violations'' v" using verify_violations_result [of env J cfg w2] v by simp
      from grows_Cons [OF g1 grows_stage [OF grows_staged [OF g1] this]] assms run None c True v
      show ?thesis by (auto simp: run_invalid_payload_def)
    next
      case False
      with cres have "blocked (report_add rep1 c)" by (cases "ck_status c") (auto simp: stage_result_def)
      from grows_Cons [OF g1 grows_skip [OF grows_staged [OF g1] this]] assms run None c False
      show ?thesis by (auto simp: run_invalid_payload_def)
    qed
  qed
  from grows_trans [OF g this] show ?thesis by simp
qed

lemma missing_binding_grows:
  assumes "run_missing_binding env J cfg w = Some (rep, w')"
  shows "grows (scenario_checks MissingBinding) (scenario_report MissingBinding) rep"
proof -
  from assms obtain r w1 where r: "readiness env cfg w = Some (r, w1)"
    by (auto simp: run_missing_binding_def split: option.splits)
  note rres = readiness_result [OF r]
  show ?thesis
  proof (cases "ck_status r = CheckPass")
    case False
    with assms r show ?thesis using failed_stage [OF staged_new rres False]
      by (auto simp: run_missing_binding_def)
  next
    case True
    obtain bres w2 where b: "ingestion_bindings_scoped env cfg ''nonexistent-tenant'' ''nonexistent-key'' w1 = (bres, w2)"
      by fastforce
    obtain qres w3 where q: "validation_results_scoped env cfg ''nonexistent-tenant'' ''nonexistent-key'' 10 w2 = (qres, w3)"
      by fastforce
    note g1 = grows_stage [OF staged_new rres]
    note g2 = grows_stage [OF grows_staged [OF g1] missing_query_result]
    note g3 = grows_stage [OF grows_staged [OF g2] missing_query_result]
    show ?thesis
      using grows_Cons [OF g1 grows_Cons [OF g2 g3]] assms r True b q
      by (auto simp: run_missing_binding_def)
  qed
qed

lemma readiness_probe_grows:
  assumes "run_readiness_probe env cfg w = Some (rep, w')"
  shows "grows (scenario_checks ReadinessProbe) (scenario_report ReadinessProbe) rep"
proof -
  obtain b w1 where b: "bootstrap env cfg w = (b, w1)" by fastforce
  have bres: "stage_result ''bootstrap'' b" using bootstrap_result [of env cfg w] b by simp
  show ?thesis
  proof (cases "ck_status b = CheckPass")
    case False
    with assms b show ?thesis using failed_stage [OF staged_new bres False]
      by (auto simp: run_readiness_probe_def)
  next
    case True
    with assms b obtain r where r: "readiness env cfg w1 = Some (r, w')"
      and rep: "rep = report_add (report_add (scenario_report ReadinessProbe) b) r"
      by (auto simp: run_readiness_probe_def split: option.splits)
    note g1 = grows_stage [OF staged_new bres]
    from grows_Cons [OF g1 grows_stage [OF grows_staged [OF g1] readiness_result [OF r]]] show ?thesis
      by (simp add: rep)
  qed
qed

lemma scenario_grows:
  "run_scenario env J as_bool B s cfg w = Some (rep, w') \<Longrightarrow>
     grows (scenario_checks s) (scenario_report s) rep"
  by (cases s)
    (simp_all only: run_scenario_def scenario.case happy_path_grows lifecycle_grows
      invalid_payload_grows missing_binding_grows readiness_probe_grows)

section \<open>Properties\<close>

text \<open>
  Property (scenario reports). Whatever the cluster answers, the report of a scenario lists the
  checks of that scenario in their order; a check is skipped only behind a failing one; so the
  report passes exactly when every check passed, never because something was skipped.
\<close>

theorem scenario_report_shape:
  assumes "run_scenario env J as_bool B s cfg w = Some (rep, w')"
  shows "map ck_name (rp_checks rep) = scenario_checks s
         \<and> (\<forall>i<length (rp_checks rep). ck_status (rp_checks rep ! i) = CheckSkip \<longrightarrow>
                (\<exists>j<i. ck_status (rp_checks rep ! j) = CheckFail))
         \<and> (rp_passed rep \<longleftrightarrow> (\<forall>c\<in>set (rp_checks rep). ck_status c = CheckPass))"
  using scenario_grows [OF assms] staged_passed by (auto simp: grows_def staged_def)

definition no_bools :: "small_json \<Rightarrow> bool option" where
  "no_bools v = (if v = JStr ''true'' then Some True else None)"

theorem scenario_report_shape_witness:
  "\<exists>rep w'. run_scenario bare_host small_api no_bools small_build ReadinessProbe demo_smoke 0 = Some (rep, w')
            \<and> map ck_name (rp_checks rep) = [''bootstrap'', ''readiness''] \<and> \<not> rp_passed rep"
proof -
  obtain rep w' where run: "run_scenario bare_host small_api no_bools small_build ReadinessProbe demo_smoke 0 = Some (rep, w')"
    and first: "ck_status (hd (rp_checks rep)) = CheckFail" "rp_checks rep \<noteq> []"
    by (simp add: run_scenario_def run_readiness_probe_def bootstrap_def bootstrap_required_def bare_host_def
        skip_remaining_def)
  from scenario_report_shape [OF run] have "map ck_name (rp_checks rep) = [''bootstrap'', ''readiness'']"
    and "rp_passed rep \<longleftrightarrow> (\<forall>c\<in>set (rp_checks rep). ck_status c = CheckPass)" by simp_all
  with run first show ?thesis by (metis check_status.distinct(1) list.set_sel(1))
qed

lemma failures_returns:
  assumes "clock_advances_in env cfg"
  shows "\<exists>r. wait_for_failures env J cfg w = Some r"
  unfolding wait_for_failures_def
proof (rule poll_stage_returns [OF assms])
  show "sv_now env w \<le> sv_now env (snd (failures_attempt env J cfg s w))" for s w
    using get_clock(1) [OF assms, of w] unfolding failures_attempt_def validation_results_def
    by (auto simp: Let_def split: prod.splits sum.splits option.splits) (metis snd_conv)+
qed

lemma sequential_returns:
  "stages_return stages \<Longrightarrow> \<exists>rep' failed w'. run_stages_sequential stages rep b w = Some ((rep', failed), w')"
  using run_stages_returns [of stages rep b w] by (auto simp: run_stages_map)

text \<open>
  C37 (scenarios end). On a clock that requests do not turn back and that sleeping advances,
  every scenario returns a report, whatever the cluster answers.
\<close>

theorem scenario_returns:
  assumes "clock_advances_in env cfg"
  shows "\<exists>rep w'. run_scenario env J as_bool B s cfg w = Some (rep, w')"
proof -
  note all = smoke_stages_return [OF assms, of J B]
  have ret: "stages_return (take 4 (smoke_stages env J B cfg))"
    using all set_take_subset [of 4 "smoke_stages env J B cfg"] unfolding stages_return_def by blast
  have ret7: "stages_return (smoke_stages env J B cfg @ [(''bootstrap-alignment'', bootstrap_alignment env cfg)])"
    using all alignment_returns [OF assms] by (auto simp: stages_return_def)
  show ?thesis
  proof (cases s)
    case HappyPath
    then show ?thesis
      using sequential_returns [OF ret7, of "scenario_report HappyPath" None w]
      by (auto simp: run_scenario_def run_happy_path_def)
  next
    case ConfigLifecycle
    obtain b w1 where b: "bootstrap_required env cfg [''nats'', ''configctl'', ''server''] ''make up-core'' w
        = (b, w1)" by fastforce
    obtain r w2 where "readiness env cfg w1 = Some (r, w2)" using readiness_returns [OF assms] by fastforce
    with ConfigLifecycle b show ?thesis
      by (cases "lifecycle_create env J as_bool B cfg (report_add (report_add (scenario_report ConfigLifecycle) b) r) w2")
        (auto simp: run_scenario_def run_config_lifecycle_def Let_def)
  next
    case InvalidPayload
    obtain rep failed w1 where
      run: "run_stages_sequential (take 4 (smoke_stages env J B cfg)) (scenario_report InvalidPayload) None w
            = Some ((rep, failed), w1)"
      using sequential_returns [OF ret] by blast
    obtain c w2 where "wait_for_failures env J cfg w1 = Some (c, w2)"
      using failures_returns [OF assms] by fastforce
    with InvalidPayload run show ?thesis
      by (cases failed) (auto simp: run_scenario_def run_invalid_payload_def split: prod.splits)
  next
    case MissingBinding
    then show ?thesis
      using readiness_returns [OF assms, of w]
      by (auto simp: run_scenario_def run_missing_binding_def Let_def split: prod.splits)
  next
    case ReadinessProbe
    obtain b w1 where "bootstrap env cfg w = (b, w1)" by fastforce
    with ReadinessProbe show ?thesis
      using readiness_returns [OF assms, of w1]
      by (auto simp: run_scenario_def run_readiness_probe_def Let_def)
  qed
qed

theorem scenario_returns_witness:
  "\<exists>rep w'. run_scenario bare_host small_api no_bools small_build MissingBinding demo_smoke 0 = Some (rep, w')"
  by (rule scenario_returns [OF bare_host_clock])

lemma passed_skip_remaining [simp]: "rp_passed (skip_remaining rep names b) \<longleftrightarrow> rp_passed rep"
  by (induction names arbitrary: rep) (simp_all add: skip_remaining_def)

lemma projection_found:
  "fd_severity (projection_finding J cfg i res) \<noteq> Error \<longleftrightarrow>
     (\<exists>resp runtimes entry. res = Inr resp \<and> array_field J resp ''runtimes'' = Some runtimes
        \<and> entry \<in> set runtimes \<and> version_id_of J entry = Some i)"
  (is "?l \<longleftrightarrow> ?r")
proof
  assume ?l
  then obtain resp where resp: "res = Inr resp"
    by (auto simp: projection_finding_def split: sum.splits)
  define entries where "entries = (case array_field J resp ''runtimes'' of Some es \<Rightarrow> es | None \<Rightarrow> [])"
  from \<open>?l\<close> resp obtain e where "find (\<lambda>entry. version_id_of J entry = Some i) entries = Some e"
    by (auto simp: projection_finding_def entries_def Let_def split: option.splits if_splits)
  then have "e \<in> set entries" "version_id_of J e = Some i"
    by (auto simp: find_Some_iff)
  with resp show ?r by (cases "array_field J resp ''runtimes''") (auto simp: entries_def)
next
  assume ?r
  then obtain resp runtimes entry where r: "res = Inr resp" "array_field J resp ''runtimes'' = Some runtimes"
    "entry \<in> set runtimes" "version_id_of J entry = Some i" by blast
  then have "find (\<lambda>entry. version_id_of J entry = Some i) runtimes \<noteq> None"
    by (auto simp: find_None_iff)
  with r show ?l by (auto simp: projection_finding_def)
qed

lemma verify_passed:
  assumes "lifecycle_verify env J cfg i rep w = (rep', w')" "rp_passed rep'"
  shows "\<exists>w1 resp runtimes entry. configctl_runtime_projections env cfg w1 = (Inr resp, w')
           \<and> array_field J resp ''runtimes'' = Some runtimes \<and> entry \<in> set runtimes
           \<and> version_id_of J entry = Some i"
proof -
  obtain ares w1 pres where q: "get_active_config env cfg w = (ares, w1)"
    "configctl_runtime_projections env cfg w1 = (pres, w')"
    "rep' = report_add rep (from_findings ''verify-active''
              [active_finding J i ares, projection_finding J cfg i pres])"
    using assms(1) by (auto simp: lifecycle_verify_def split: prod.splits)
  then have "fd_severity (projection_finding J cfg i pres) \<noteq> Error"
    using assms(2) by (auto simp: from_findings_status)
  with q(2) show ?thesis unfolding projection_found by blast
qed

lemma compiled_passed:
  assumes "lifecycle_compile env J B cfg i rep w = (rep', w')" "rp_passed rep'"
  shows "\<exists>c w1 a w2 w3 resp runtimes entry.
           compile_config env B cfg i w = (Inr c, w1) \<and> activate_config env B cfg i w1 = (Inr a, w2)
           \<and> configctl_runtime_projections env cfg w3 = (Inr resp, w')
           \<and> array_field J resp ''runtimes'' = Some runtimes \<and> entry \<in> set runtimes
           \<and> version_id_of J entry = Some i"
proof -
  from assms obtain c w1 rep1 where c: "compile_config env B cfg i w = (Inr c, w1)"
    "lifecycle_activate env J B cfg i rep1 w1 = (rep', w')"
    by (auto simp: lifecycle_compile_def Let_def split: prod.splits sum.splits)
  with assms(2) obtain a w2 rep2 where a: "activate_config env B cfg i w1 = (Inr a, w2)"
    "lifecycle_verify env J cfg i rep2 w2 = (rep', w')"
    by (auto simp: lifecycle_activate_def split: prod.splits sum.splits)
  from verify_passed [OF a(2) assms(2)] c(1) a(1) show ?thesis by blast
qed

lemma created_passed:
  assumes "lifecycle_create env J as_bool B cfg rep w = (rep', w')" "rp_passed rep'"
  shows "\<exists>draft w1 i v w2 rep1.
           create_draft env B cfg (scenario_config_key cfg ''scenario-lifecycle'')
             (smoke_config_content B cfg) w = (Inr draft, w1)
           \<and> config_id_of J draft = Some i
           \<and> validate_config env B cfg i w1 = (Inr v, w2) \<and> validation_valid J as_bool v
           \<and> lifecycle_compile env J B cfg i rep1 w2 = (rep', w')"
proof -
  from assms obtain draft w1 i rep1 where c:
    "create_draft env B cfg (scenario_config_key cfg ''scenario-lifecycle'')
             (smoke_config_content B cfg) w = (Inr draft, w1)" "config_id_of J draft = Some i"
    "lifecycle_validate env J as_bool B cfg i rep1 w1 = (rep', w')"
    by (auto simp: lifecycle_create_def Let_def split: prod.splits sum.splits option.splits)
  with assms(2) obtain v w2 rep2 where "validate_config env B cfg i w1 = (Inr v, w2)"
    "validation_valid J as_bool v" "lifecycle_compile env J B cfg i rep2 w2 = (rep', w')"
    by (auto simp: lifecycle_validate_def split: prod.splits sum.splits if_splits)
  with c show ?thesis by blast
qed

text \<open>
  Property (what a passing life cycle has seen). When \<open>config-lifecycle\<close> passes, the draft was
  created, its id was validated with an answer that says \<open>valid\<close>, compiled and activated, in
  this order, each request after the answer of the one before, and the projections read at the
  end list a runtime of exactly that version.
\<close>

theorem lifecycle_passed:
  assumes "run_config_lifecycle env J as_bool B cfg w = Some (rep, w')" and "rp_passed rep"
  shows "\<exists>w1 draft w2 i v w3 c w4 a w5 w6 resp runtimes entry.
           create_draft env B cfg (scenario_config_key cfg ''scenario-lifecycle'')
             (smoke_config_content B cfg) w1 = (Inr draft, w2)
           \<and> config_id_of J draft = Some i
           \<and> validate_config env B cfg i w2 = (Inr v, w3) \<and> validation_valid J as_bool v
           \<and> compile_config env B cfg i w3 = (Inr c, w4)
           \<and> activate_config env B cfg i w4 = (Inr a, w5)
           \<and> configctl_runtime_projections env cfg w6 = (Inr resp, w')
           \<and> array_field J resp ''runtimes'' = Some runtimes \<and> entry \<in> set runtimes
           \<and> version_id_of J entry = Some i"
proof -
  from assms(1) obtain b w1 where b: "bootstrap_required env cfg [''nats'', ''configctl'', ''server''] ''make up-core'' w
      = (b, w1)" by fastforce
  have bres: "stage_result ''bootstrap'' b" using bootstrap_required_result b by (metis fst_conv)
  have bpass: "ck_status b = CheckPass"
  proof (rule ccontr)
    assume "ck_status b \<noteq> CheckPass"
    with assms b bres show False
      by (cases "ck_status b") (auto simp: run_config_lifecycle_def stage_result_def)
  qed
  then obtain r w2 where r: "readiness env cfg w1 = Some (r, w2)"
    using assms(1) b by (auto simp: run_config_lifecycle_def split: option.splits)
  note rres = readiness_result [OF r]
  have rpass: "ck_status r = CheckPass"
  proof (rule ccontr)
    assume "ck_status r \<noteq> CheckPass"
    with assms b bpass r rres show False
      by (cases "ck_status r") (auto simp: run_config_lifecycle_def stage_result_def)
  qed
  from assms(1) b bpass r rpass obtain rep2 where "lifecycle_create env J as_bool B cfg rep2 w2 = (rep, w')"
    by (auto simp: run_config_lifecycle_def)
  from created_passed [OF this assms(2)] obtain draft w3 i v w4 rep3 where c:
    "create_draft env B cfg (scenario_config_key cfg ''scenario-lifecycle'')
             (smoke_config_content B cfg) w2 = (Inr draft, w3)"
    "config_id_of J draft = Some i" "validate_config env B cfg i w3 = (Inr v, w4)"
    "validation_valid J as_bool v" "lifecycle_compile env J B cfg i rep3 w4 = (rep, w')"
    by blast
  from compiled_passed [OF c(5) assms(2)] c(1-4) show ?thesis by blast
qed

text \<open>A control plane that accepts a configuration and projects its version.\<close>

definition core_host :: "(nat, small_json) smoke_env" where
  "core_host = healthy_host\<lparr>
     sv_get := (\<lambda>url w. (Reply 200 (Inr (JObj
        [(''config'', JObj [(''id'', JStr ''c1'')]),
         (''runtimes'', JArr [JObj [(''version_id'', JStr ''c0'')], JObj [(''version_id'', JStr ''c1'')]])])), w + 1)),
     sv_post := (\<lambda>url body w. (Reply 200 (Inr (JObj
        [(''config'', JObj [(''id'', JStr ''c1'')]),
         (''validation'', JObj [(''valid'', JStr ''true'')])])), w + 1))\<rparr>"

lemma core_host_run:
  "\<exists>rep. run_config_lifecycle core_host small_api no_bools small_build demo_smoke 0 = Some (rep, 8)
         \<and> rp_passed rep"
proof -
  have b: "ck_status (fst (bootstrap_required core_host demo_smoke [''nats'', ''configctl'', ''server''] ''make up-core'' 0))
      = CheckPass"
    "snd (bootstrap_required core_host demo_smoke [''nats'', ''configctl'', ''server''] ''make up-core'' 0) = 0"
    by code_simp+
  then obtain b where b: "bootstrap_required core_host demo_smoke [''nats'', ''configctl'', ''server''] ''make up-core'' 0
      = (b, 0)" "ck_status b = CheckPass" by (metis prod.collapse)
  have "readiness_attempt core_host demo_smoke ([], []) 0
     = (Inl (pass_with ''readiness'' ''healthz=200, readyz=200''), 2)"
    by code_simp
  then have "poll (\<lambda>w. w) (sv_sleep core_host (sk_poll_interval_ms demo_smoke))
      (readiness_attempt core_host demo_smoke) 60000 ([], []) 0
      = Some (Inl (pass_with ''readiness'' ''healthz=200, readyz=200''), 2)"
    by (intro poll_first) simp_all
  moreover have "sv_now core_host = (\<lambda>w. w)" "sk_readiness_timeout_secs demo_smoke = 60"
    by (simp_all add: core_host_def healthy_host_def demo_smoke_def smoke_config_new_def)
  ultimately have r: "readiness core_host demo_smoke 0 = Some (pass_with ''readiness'' ''healthz=200, readyz=200'', 2)"
    by (simp add: readiness_def poll_stage_def)
  have create: "(case lifecycle_create core_host small_api no_bools small_build demo_smoke
      (report_add (report_add (scenario_report ConfigLifecycle)
         (fst (bootstrap_required core_host demo_smoke [''nats'', ''configctl'', ''server''] ''make up-core'' 0)))
         (pass_with ''readiness'' ''healthz=200, readyz=200'')) 2 of (rep, w) \<Rightarrow> rp_passed rep \<and> w = 8)"
    by code_simp
  show ?thesis
    using create b r by (auto simp: run_config_lifecycle_def Let_def split: prod.splits)
qed

theorem lifecycle_passed_witness:
  "\<exists>w1 draft w2 i. create_draft core_host small_build demo_smoke ''scenario-lifecycle-42''
        (smoke_config_content small_build demo_smoke) w1 = (Inr draft, w2)
      \<and> config_id_of small_api draft = Some i"
proof -
  obtain rep where rep: "run_config_lifecycle core_host small_api no_bools small_build demo_smoke 0 = Some (rep, 8)"
    "rp_passed rep" using core_host_run by blast
  have key: "scenario_config_key demo_smoke ''scenario-lifecycle'' = ''scenario-lifecycle-42''"
    by (simp add: scenario_config_key_def demo_smoke_def smoke_config_new_def)
  from lifecycle_passed [OF rep, unfolded key] show ?thesis by blast
qed

text \<open>
  Property (what a passing invalid-payload run has seen). When \<open>invalid-payload\<close> passes, the last
  request returned a failed result with at least one violation in it.
\<close>

theorem invalid_payload_passed:
  assumes "run_invalid_payload env J B cfg w = Some (rep, w')" and "rp_passed rep"
  shows "\<exists>w1 resp results entry violation others.
           validation_results env cfg 20 w1 = (Inr resp, w')
           \<and> array_field J resp ''results'' = Some results \<and> entry \<in> set results
           \<and> status_of J entry = Some ''failed''
           \<and> array_field J entry ''violations'' = Some (violation # others)"
proof -
  have found: "\<exists>entry\<in>set es. status_of J entry = Some ''failed''
        \<and> (\<exists>others. array_field J entry ''violations'' = Some (v # others))"
    if "first_violation J es = Some v" for es v
    using that by (induction es) (auto simp: has_status_def split: if_splits option.splits list.splits)
  have all_pass: "\<forall>c\<in>set (rp_checks rep). ck_status c = CheckPass"
    using staged_passed [OF grows_staged [OF invalid_payload_grows [OF assms(1)]]] assms(2) by simp
  from assms(1) obtain rep1 failed w1 where
    run: "run_stages_sequential (take 4 (smoke_stages env J B cfg)) (scenario_report InvalidPayload) None w
          = Some ((rep1, failed), w1)"
    by (auto simp: run_invalid_payload_def split: option.splits)
  have "failed = None" using assms(1) run all_pass by (cases failed) (auto simp: run_invalid_payload_def)
  then obtain c w2 where c: "wait_for_failures env J cfg w1 = Some (c, w2)"
    using assms(1) run by (auto simp: run_invalid_payload_def split: option.splits)
  have "ck_status c = CheckPass"
    using assms(1) run \<open>failed = None\<close> c all_pass by (auto simp: run_invalid_payload_def split: if_splits prod.splits)
  then obtain v where v: "verify_violations env J cfg w2 = (v, w')" "v \<in> set (rp_checks rep)"
    using assms(1) run \<open>failed = None\<close> c by (auto simp: run_invalid_payload_def split: prod.splits)
  with all_pass have "ck_status v = CheckPass" by blast
  with v(1) obtain resp x where r: "validation_results env cfg 20 w2 = (Inr resp, w')"
    "first_violation J (case array_field J resp ''results'' of Some rs \<Rightarrow> rs | None \<Rightarrow> []) = Some x"
    by (auto simp: verify_violations_def split: prod.splits sum.splits option.splits)
  then obtain results where results: "array_field J resp ''results'' = Some results"
    by (cases "array_field J resp ''results''") auto
  with r(2) have "first_violation J results = Some x" by simp
  from found [OF this] r(1) results show ?thesis by blast
qed

lemma healthy_failures:
  "failures_attempt healthy_host small_api demo_smoke () 7
     = (Inl (pass_with ''wait-for-failures''
              (''validator produced '' @ quote1 ''failed'' @ '' results from invalid emulator samples'')), 8)"
  "ck_status (fst (verify_violations healthy_host small_api demo_smoke 8)) = CheckPass"
  "snd (verify_violations healthy_host small_api demo_smoke 8) = 9"
  by code_simp+

lemma healthy_wait:
  "\<exists>c. wait_for_failures healthy_host small_api demo_smoke 7 = Some (c, 8) \<and> ck_status c = CheckPass"
proof -
  have c: "sv_now healthy_host = (\<lambda>w. w)" "sk_results_timeout_secs demo_smoke = 30"
    by (simp_all add: healthy_host_def demo_smoke_def smoke_config_new_def)
  have "poll (\<lambda>w. w) (sv_sleep healthy_host (sk_poll_interval_ms demo_smoke))
      (failures_attempt healthy_host small_api demo_smoke) 30007 () 7
      = Some (Inl (pass_with ''wait-for-failures''
              (''validator produced '' @ quote1 ''failed'' @ '' results from invalid emulator samples'')), 8)"
    by (rule poll_first) (simp_all add: healthy_failures)
  then show ?thesis by (simp add: wait_for_failures_def poll_stage_def c)
qed

lemma healthy_invalid_payload:
  "\<exists>rep. run_invalid_payload healthy_host small_api small_build demo_smoke 0 = Some (rep, 9) \<and> rp_passed rep"
proof -
  obtain b where b: "bootstrap healthy_host demo_smoke 0 = (b, 0)" "ck_status b = CheckPass"
    using healthy_steps(1,2) by (metis prod.collapse)
  obtain i where i: "inject healthy_host small_api small_build demo_smoke 2 = (i, 6)" "ck_status i = CheckPass"
    using healthy_steps(3,4) by (metis prod.collapse)
  obtain c where c: "wait_for_failures healthy_host small_api demo_smoke 7 = Some (c, 8)" "ck_status c = CheckPass"
    using healthy_wait by blast
  obtain v where v: "verify_violations healthy_host small_api demo_smoke 8 = (v, 9)" "ck_status v = CheckPass"
    using healthy_failures(2,3) by (metis prod.collapse)
  show ?thesis
    by (simp add: run_invalid_payload_def smoke_stages_def b i c v healthy_polls pass_with_def scenario_report_def)
qed

theorem invalid_payload_passed_witness:
  "\<exists>w1 resp results entry.
      validation_results healthy_host demo_smoke 20 w1 = (Inr resp, 9)
      \<and> array_field small_api resp ''results'' = Some results \<and> entry \<in> set results
      \<and> status_of small_api entry = Some ''failed''"
  using healthy_invalid_payload invalid_payload_passed by metis

lemma parse_scenario_names:
  "parse_scenario n = Some s \<longleftrightarrow> n = scenario_name s" "map scenario_name all_scenarios = all_names"
  by (cases s) (auto simp: parse_scenario_def all_scenarios_def all_names_def)

end
