(* ===== verification/SourceText.thy ===== *)
theory SourceText
  imports Filesystem "HOL-Library.AList" "HOL-Library.Multiset"
begin

text \<open>
  What the text-based analysers share: finding quoted literals in Go source, recognising stream
  names and NATS subjects, searching the lines around a line, stripping comments from JSONC,
  and \<open>HashMap\<close>s. The functions occur as identical copies in \<open>analyzers/topology/source.rs\<close>,
  \<open>analyzers/runtime_bindings/source.rs\<close>, \<open>analyzers/topology/configs.rs\<close> and
  \<open>analyzers/drift_detect.rs\<close>. Characters beyond ASCII count as not alphanumeric.
\<close>

section \<open>Hash maps\<close>

text \<open>
  A \<open>HashMap\<close> is a list of entries with distinct keys; the order in which it is iterated is a
  permutation of the keys that is a parameter of the analysers.
\<close>

type_synonym 'v hash_map = "(string \<times> 'v) list"

type_synonym hash_orders = "string \<Rightarrow> string list \<Rightarrow> string list"

definition hm_insert :: "string \<Rightarrow> 'v \<Rightarrow> 'v hash_map \<Rightarrow> 'v hash_map" where
  "hm_insert = AList.update"

definition hm_get :: "'v hash_map \<Rightarrow> string \<Rightarrow> 'v option" where
  "hm_get m k = map_of m k"

definition hm_has :: "'v hash_map \<Rightarrow> string \<Rightarrow> bool" where
  "hm_has m k = (hm_get m k \<noteq> None)"

definition hm_iter :: "(string list \<Rightarrow> string list) \<Rightarrow> 'v hash_map \<Rightarrow> (string \<times> 'v) list" where
  "hm_iter order m =
     List.map_filter (\<lambda>k. map_option (Pair k) (hm_get m k)) (order (map fst m))"

definition hm_wf :: "'v hash_map \<Rightarrow> bool" where
  "hm_wf m = distinct (map fst m)"

definition orders_ok :: "hash_orders \<Rightarrow> bool" where
  "orders_ok h \<longleftrightarrow> (\<forall>n ks. mset (h n ks) = mset ks)"

definition hs_iter :: "(string list \<Rightarrow> string list) \<Rightarrow> string list \<Rightarrow> string list" where
  "hs_iter order xs = order (remdups xs)"

lemma hm_get_insert [simp]: "hm_get (hm_insert k v m) k' = (if k' = k then Some v else hm_get m k')"
  by (simp add: hm_get_def hm_insert_def update_conv)

lemma hm_wf_insert [simp]: "hm_wf m \<Longrightarrow> hm_wf (hm_insert k v m)"
  by (simp add: hm_wf_def hm_insert_def distinct_update)

lemma hm_wf_Nil [simp]: "hm_wf []"
  by (simp add: hm_wf_def)

lemma hm_get_Nil [simp]: "hm_get [] k = None"
  by (simp add: hm_get_def)

lemma hm_iter_iff:
  "(k, v) \<in> set (hm_iter order m) \<longleftrightarrow> k \<in> set (order (map fst m)) \<and> hm_get m k = Some v"
  by (auto simp: hm_iter_def map_filter_def intro: rev_image_eqI)

lemma hm_iter_set:
  assumes "hm_wf m" "\<And>ks. mset (order ks) = mset ks"
  shows "set (hm_iter order m) = set m"
proof -
  have keys: "set (order (map fst m)) = fst ` set m"
    using assms(2) [of "map fst m"] by (metis set_mset_mset set_map)
  have "(k, v) \<in> set (hm_iter order m) \<longleftrightarrow> (k, v) \<in> set m" for k v
    using assms(1) unfolding hm_iter_iff keys
    by (auto simp: hm_get_def hm_wf_def intro: rev_image_eqI dest: map_of_SomeD)
  then show ?thesis by auto
qed

lemma hm_iter_get:
  assumes "hm_wf m" "\<And>ks. mset (order ks) = mset ks"
  shows "(k, v) \<in> set (hm_iter order m) \<longleftrightarrow> hm_get m k = Some v"
  using assms by (auto simp: hm_iter_set hm_get_def hm_wf_def dest: map_of_SomeD)

section \<open>Quoted literals\<close>

definition dq :: char where
  "dq = CHR 0x22"

definition ascii_upper :: "char \<Rightarrow> bool" where
  "ascii_upper c = (CHR ''A'' \<le> c \<and> c \<le> CHR ''Z'')"

definition ascii_lower :: "char \<Rightarrow> bool" where
  "ascii_lower c = (CHR ''a'' \<le> c \<and> c \<le> CHR ''z'')"

definition ascii_digit :: "char \<Rightarrow> bool" where
  "ascii_digit c = (CHR ''0'' \<le> c \<and> c \<le> CHR ''9'')"

definition ascii_alnum :: "char \<Rightarrow> bool" where
  "ascii_alnum c = (ascii_upper c \<or> ascii_lower c \<or> ascii_digit c)"

definition lower_char :: "char \<Rightarrow> char" where
  "lower_char c = (if ascii_upper c then char_of (of_char c + 32 :: nat) else c)"

text \<open>The text between the first two quotes.\<close>

definition first_quoted :: "string \<Rightarrow> string option" where
  "first_quoted s =
     (case find_sub s [dq] of
        None \<Rightarrow> None
      | Some start \<Rightarrow>
          (case find_sub (drop (start + 1) s) [dq] of
             None \<Rightarrow> None
           | Some stop \<Rightarrow> Some (take stop (drop (start + 1) s))))"

text \<open>The text from the first occurrence of a pattern on.\<close>

definition from_sub :: "string \<Rightarrow> string \<Rightarrow> string option" where
  "from_sub s p = map_option (\<lambda>k. drop k s) (find_sub s p)"

definition comment_line :: "string \<Rightarrow> bool" where
  "comment_line s = starts_with s ''//''"

function extract_all_quoted :: "string \<Rightarrow> string list" where
  "extract_all_quoted rest =
     (case find_sub rest [dq] of
        None \<Rightarrow> []
      | Some start \<Rightarrow>
          (let after_quote = drop (start + 1) rest in
           case find_sub after_quote [dq] of
             None \<Rightarrow> []
           | Some stop \<Rightarrow>
               (let val = take stop after_quote
                in (if val = [] then [] else [val]) @ extract_all_quoted (drop (stop + 1) after_quote))))"
  by pat_completeness auto
termination
  by (relation "measure length") (auto dest!: find_sub_length)

declare extract_all_quoted.simps [simp del]

text \<open>White space around a line, and what follows its last quote, do not matter.\<close>

lemma strip_any_no_dq:
  assumes "strip_any ts s = Some r" "\<forall>t\<in>set ts. dq \<notin> set t"
  shows "\<exists>p. s = p @ r \<and> dq \<notin> set p"
  using strip_any_Some [OF assms(1)] assms(2) by blast

lemma ascii_ws_no_dq: "ascii_ws c \<Longrightarrow> \<exists>p. c # cs = p @ cs \<and> dq \<notin> set p"
  by (intro exI [of _ "[c]"]) (auto simp: ascii_ws_def dq_def)

lemma strip_ws_split:
  "strip_ws s = Some r \<Longrightarrow> \<exists>p. s = p @ r \<and> dq \<notin> set p"
  "strip_ws_rev s = Some r \<Longrightarrow> \<exists>p. s = p @ r \<and> dq \<notin> set p"
proof -
  have none: "\<forall>t\<in>set multi_ws. dq \<notin> set t" by (simp add: multi_ws_def dq_def)
  then have none': "\<forall>t\<in>set (map rev multi_ws). dq \<notin> set t" by simp
  show "\<exists>p. s = p @ r \<and> dq \<notin> set p" if "strip_ws s = Some r"
  proof (cases s)
    case (Cons c cs)
    with that ascii_ws_no_dq [of c cs] strip_any_no_dq [OF _ none, of "c # cs"]
    show ?thesis by (simp split: if_splits)
  qed (use that in simp)
  show "\<exists>p. s = p @ r \<and> dq \<notin> set p" if "strip_ws_rev s = Some r"
  proof (cases s)
    case (Cons c cs)
    with that ascii_ws_no_dq [of c cs] strip_any_no_dq [OF _ none', of "c # cs"]
    show ?thesis by (simp split: if_splits)
  qed (use that in simp)
qed

lemma trim_start_split: "\<exists>p. s = p @ trim_start s \<and> dq \<notin> set p"
proof (induction s rule: trim_start.induct)
  case (1 s)
  show ?case
  proof (cases "strip_ws s")
    case None
    then show ?thesis by (simp add: trim_start.simps [of s])
  next
    case (Some r)
    obtain p where p: "s = p @ r" "dq \<notin> set p" using strip_ws_split(1) [OF Some] by blast
    obtain q where q: "r = q @ trim_start r" "dq \<notin> set q" using 1 [OF Some] by blast
    have "trim_start s = trim_start r" by (simp add: trim_start.simps [of s] Some)
    with p q show ?thesis by (intro exI [of _ "p @ q"]) simp
  qed
qed

lemma trim_rev_split: "\<exists>p. s = p @ trim_rev s \<and> dq \<notin> set p"
proof (induction s rule: trim_rev.induct)
  case (1 s)
  show ?case
  proof (cases "strip_ws_rev s")
    case None
    then show ?thesis by (simp add: trim_rev.simps [of s])
  next
    case (Some r)
    obtain p where p: "s = p @ r" "dq \<notin> set p" using strip_ws_split(2) [OF Some] by blast
    obtain q where q: "r = q @ trim_rev r" "dq \<notin> set q" using 1 [OF Some] by blast
    have "trim_rev s = trim_rev r" by (simp add: trim_rev.simps [of s] Some)
    with p q show ?thesis by (intro exI [of _ "p @ q"]) simp
  qed
qed

lemma trim_split: "\<exists>a b. s = a @ trim s @ b \<and> dq \<notin> set a \<and> dq \<notin> set b"
proof -
  obtain a where a: "s = a @ trim_start s" "dq \<notin> set a" using trim_start_split by blast
  obtain b where b: "rev (trim_start s) = b @ trim_rev (rev (trim_start s))" "dq \<notin> set b"
    using trim_rev_split by blast
  have "trim_start s = trim s @ rev b"
    unfolding trim_def trim_end_def using arg_cong [OF b(1), of rev] by (simp only: rev_append rev_rev_ident)
  then have "a @ trim_start s = a @ trim s @ rev b" by (rule arg_cong)
  then have eq: "s = a @ trim s @ rev b" by (rule trans [OF a(1)])
  show ?thesis by (intro exI conjI) (rule eq, rule a(2), simp add: b(2))
qed

lemma extract_all_quoted_prefix:
  assumes "dq \<notin> set a"
  shows "extract_all_quoted (a @ s) = extract_all_quoted s"
proof -
  have "find_sub (a @ s) [dq] = map_option (\<lambda>k. length a + k) (find_sub s [dq])"
    using assms by (induction a; cases "find_sub s [dq]") (auto simp: starts_with_Cons)
  then show ?thesis
    unfolding extract_all_quoted.simps [of "a @ s"] extract_all_quoted.simps [of s]
    by (cases "find_sub s [dq]") simp_all
qed

lemma extract_all_quoted_suffix:
  "dq \<notin> set b \<Longrightarrow> extract_all_quoted (s @ b) = extract_all_quoted s"
proof (induction s rule: extract_all_quoted.induct)
  case (1 rest)
  have find: "find_sub (x @ b) [dq] = find_sub x [dq]" for x
    using "1.prems" by (simp add: find_sub_single takeWhile_append1)
  note unf = extract_all_quoted.simps [of "rest @ b"] extract_all_quoted.simps [of rest]
  show ?case
  proof (cases "find_sub rest [dq]")
    case None
    then show ?thesis unfolding unf find by simp
  next
    case start: (Some k)
    have k: "k + 1 \<le> length rest" using find_sub_length [OF start] by simp
    then have drop1: "drop (k + 1) (rest @ b) = drop (k + 1) rest @ b" by simp
    show ?thesis
    proof (cases "find_sub (drop (k + 1) rest) [dq]")
      case None
      then show ?thesis unfolding unf find start option.case Let_def drop1 by simp
    next
      case stop: (Some j)
      have j: "j + 1 \<le> length (drop (k + 1) rest)" using find_sub_length [OF stop] by simp
      then have drop2: "drop (j + 1) (drop (k + 1) rest @ b) = drop (j + 1) (drop (k + 1) rest) @ b"
        "take j (drop (k + 1) rest @ b) = take j (drop (k + 1) rest)" by simp_all
      show ?thesis
        unfolding unf find start option.case Let_def drop1 stop drop2
        using "1.IH" [OF start refl stop refl "1.prems"] by simp
    qed
  qed
qed

lemma extract_all_quoted_trim: "extract_all_quoted (trim l) = extract_all_quoted l"
proof -
  obtain a b where l: "l = a @ trim l @ b" and no: "dq \<notin> set a" "dq \<notin> set b" using trim_split by blast
  have "extract_all_quoted (a @ trim l @ b) = extract_all_quoted (trim l)"
    by (simp only: extract_all_quoted_prefix [OF no(1)] extract_all_quoted_suffix [OF no(2)])
  with l show ?thesis by simp
qed

definition is_stream_name :: "string \<Rightarrow> bool" where
  "is_stream_name s =
     (3 \<le> length s
      \<and> list_all (\<lambda>c. ascii_upper c \<or> c = CHR ''_'' \<or> ascii_digit c) s
      \<and> CHR ''_'' \<in> set s
      \<and> (case s of [] \<Rightarrow> False | c # _ \<Rightarrow> ascii_upper c))"

definition subject_char :: "char \<Rightarrow> bool" where
  "subject_char c =
     (ascii_alnum c \<or> c = CHR ''_'' \<or> c = CHR ''-'' \<or> c = CHR ''>'' \<or> c = CHR ''*'')"

definition is_nats_subject :: "string \<Rightarrow> bool" where
  "is_nats_subject s =
     (if s = [] \<or> length s < 3 then False
      else (let segments = split_on s ''.'' in
            if length segments < 2 then False
            else list_all (\<lambda>seg. seg \<noteq> [] \<and> list_all subject_char seg) segments))"

definition nats_quoted :: "string \<Rightarrow> string list" where
  "nats_quoted s = filter is_nats_subject (extract_all_quoted s)"

section \<open>Searching near a line\<close>

fun block_more :: "string list \<Rightarrow> string list" where
  "block_more [] = []"
| "block_more (l # ls) =
     nats_quoted l
     @ (if CHR 0x7D \<in> set (trim l) \<or> CHR '']'' \<in> set (trim l) then [] else block_more ls)"

text \<open>The subjects declared at the first line of \<open>rest\<close> and on the four lines after it.\<close>

definition block_subjects :: "string list \<Rightarrow> string list" where
  "block_subjects rest =
     (case rest of
        [] \<Rightarrow> []
      | line # after \<Rightarrow>
          (let trimmed = trim line in
           if contains trimmed ''Subjects'' \<and> \<not> comment_line trimmed
           then nats_quoted trimmed @ block_more (take 4 after) else []))"

definition window :: "string list \<Rightarrow> nat \<Rightarrow> nat \<Rightarrow> nat list" where
  "window lines center radius = [center - radius ..< min (center + radius) (length lines)]"

definition find_subjects_near :: "string list \<Rightarrow> nat \<Rightarrow> nat \<Rightarrow> string list" where
  "find_subjects_near lines center radius =
     (case find (\<lambda>subjects. subjects \<noteq> [])
             (map (\<lambda>i. block_subjects (drop i lines)) (window lines center radius)) of
        Some subjects \<Rightarrow> subjects
      | None \<Rightarrow> [])"

definition line_stream_name :: "string \<Rightarrow> string option" where
  "line_stream_name line =
     (let trimmed = trim line in
      if comment_line trimmed then None else find is_stream_name (extract_all_quoted trimmed))"

fun first_some :: "'a option list \<Rightarrow> 'a option" where
  "first_some [] = None"
| "first_some (x # xs) = (case x of Some v \<Rightarrow> Some v | None \<Rightarrow> first_some xs)"

definition find_stream_name_near :: "string list \<Rightarrow> nat \<Rightarrow> nat \<Rightarrow> string option" where
  "find_stream_name_near lines center radius =
     first_some (map (\<lambda>i. line_stream_name (lines ! i)) (window lines center radius))"

text \<open>The quoted durable names of a line: \<open>Durable: "validator-dataplane-v1"\<close>.\<close>

definition is_durable_name :: "string \<Rightarrow> bool" where
  "is_durable_name s = (CHR ''-'' \<in> set s \<and> list_all (\<lambda>c. ascii_alnum c \<or> c = CHR ''-'') s)"

definition durable_stream :: "string list \<Rightarrow> nat \<Rightarrow> string option" where
  "durable_stream lines i =
     (case find_stream_name_near lines i 15 of
        Some s \<Rightarrow> Some s
      | None \<Rightarrow> find_stream_name_near lines (length lines div 2) (length lines))"

fun durables_from :: "string list \<Rightarrow> nat \<Rightarrow> string list \<Rightarrow> string hash_map \<Rightarrow> string hash_map" where
  "durables_from all_lines i [] durables = durables"
| "durables_from all_lines i (line # rest) durables =
     (let trimmed = trim line;
          found = (if contains trimmed ''Durable'' \<and> \<not> comment_line trimmed
                   then filter is_durable_name (extract_all_quoted trimmed) else [])
      in durables_from all_lines (i + 1) rest
           (fold (\<lambda>val m. case durable_stream all_lines i of
                    Some stream \<Rightarrow> hm_insert val stream m | None \<Rightarrow> m) found durables))"

definition extract_durables :: "string \<Rightarrow> string hash_map \<Rightarrow> string hash_map" where
  "extract_durables content durables =
     (let lines = str_lines content in durables_from lines 0 lines durables)"

definition stream_context :: "string \<Rightarrow> bool" where
  "stream_context trimmed =
     (contains trimmed ''Name:'' \<or> contains trimmed ''Stream'' \<or> contains trimmed ''stream'')"

text \<open>\<open>sort\<close> and \<open>dedup\<close>, applied to the subjects of every stream.\<close>

definition sort_dedup :: "string list \<Rightarrow> string list" where
  "sort_dedup xs = remdups_adj (sort xs)"

lemma sort_dedup_set [simp]: "set (sort_dedup xs) = set xs"
  by (simp add: sort_dedup_def)

lemma distinct_remdups_adj: "sorted xs \<Longrightarrow> distinct (remdups_adj xs)"
  by (induction xs rule: remdups_adj.induct) (auto simp: less_le)

lemma sort_dedup_distinct [simp]: "distinct (sort_dedup xs)"
  by (simp add: sort_dedup_def distinct_remdups_adj)

lemma sort_dedup_list_of_set: "sort_dedup xs = sorted_list_of_set (set xs)"
proof -
  have "sorted (sort_dedup xs)" by (simp add: sort_dedup_def sorted_remdups_adj)
  then have "sorted_list_of_set (set (sort_dedup xs)) = sort_dedup xs"
    by (intro sorted_list_of_set.idem_if_sorted_distinct) simp_all
  then show ?thesis by simp
qed

lemma length_sort_dedup: "length (sort_dedup xs) = card (set xs)"
  by (metis distinct_card sort_dedup_distinct sort_dedup_set)

lemma sort_dedup_Nil [simp]: "sort_dedup xs = [] \<longleftrightarrow> xs = []"
  by (metis set_empty sort_dedup_set)

definition dedup_values :: "string list hash_map \<Rightarrow> string list hash_map" where
  "dedup_values m = map (\<lambda>(k, v). (k, sort_dedup v)) m"

definition hm_extend :: "string \<Rightarrow> string list \<Rightarrow> string list hash_map \<Rightarrow> string list hash_map" where
  "hm_extend k xs m = hm_insert k ((case hm_get m k of Some v \<Rightarrow> v | None \<Rightarrow> []) @ xs) m"

section \<open>Files below a directory\<close>

text \<open>
  The files with an extension below a directory in the order of the recursion, no directory
  skipped, with their contents; a file that cannot be read ends the scan with an error.
\<close>

definition files_below :: "string \<Rightarrow> (string \<times> fs_node) list \<Rightarrow> (path \<times> string option) list" where
  "files_below ext es = walk_tree (\<lambda>_. False) (\<lambda>nm. extension nm = Some ext) [] es"

fun read_all :: "(path \<Rightarrow> 'e) \<Rightarrow> (path \<times> string option) list \<Rightarrow> 'e + string list" where
  "read_all ioe [] = Inr []"
| "read_all ioe ((p, None) # fs) = Inl (ioe p)"
| "read_all ioe ((p, Some c) # fs) =
     (case read_all ioe fs of Inl e \<Rightarrow> Inl e | Inr cs \<Rightarrow> Inr (c # cs))"

section \<open>Comments in JSONC\<close>

fun strip_jsonc :: "bool \<Rightarrow> bool \<Rightarrow> string \<Rightarrow> string"
  and skip_comment :: "string \<Rightarrow> string" where
  "strip_jsonc in_string escape_next [] = []"
| "strip_jsonc in_string escape_next (c # cs) =
     (if escape_next then c # strip_jsonc in_string False cs
      else if c = CHR 0x5C \<and> in_string then c # strip_jsonc in_string True cs
      else if c = dq then c # strip_jsonc (\<not> in_string) False cs
      else if \<not> in_string \<and> c = CHR ''/'' \<and> (case cs of [] \<Rightarrow> False | d # _ \<Rightarrow> d = CHR ''/'')
      then skip_comment cs
      else c # strip_jsonc in_string False cs)"
| "skip_comment [] = []"
| "skip_comment (c # cs) = (if c = CHR 0x0A then c # strip_jsonc False False cs else skip_comment cs)"

definition strip_jsonc_comments :: "string \<Rightarrow> string" where
  "strip_jsonc_comments input = strip_jsonc False False input"

lemma strip_jsonc_keeps_head:
  "d \<noteq> CHR ''/'' \<Longrightarrow> \<exists>b' e'. strip_jsonc b e (d # ds) = d # strip_jsonc b' e' ds"
  by auto

lemma strip_jsonc_again:
  "strip_jsonc b e (strip_jsonc b e s) = strip_jsonc b e s"
  "strip_jsonc False False (skip_comment s) = skip_comment s"
proof (induction b e s and s rule: strip_jsonc_skip_comment.induct)
  case (2 in_string escape_next c cs)
  have no_comment: "case strip_jsonc in_string False cs of [] \<Rightarrow> True | d # _ \<Rightarrow> d \<noteq> CHR ''/''"
    if "\<not> (case cs of [] \<Rightarrow> False | d # _ \<Rightarrow> d = CHR ''/'')"
  proof (cases cs)
    case (Cons d ds)
    with that have "d \<noteq> CHR ''/''" by simp
    from strip_jsonc_keeps_head [OF this] Cons \<open>d \<noteq> CHR ''/''\<close> show ?thesis by fastforce
  qed simp
  show ?case
  proof (cases "\<not> escape_next \<and> \<not> (c = CHR 0x5C \<and> in_string) \<and> c \<noteq> dq \<and> \<not> in_string \<and> c = CHR ''/''")
    case True
    then show ?thesis
      using "2.IH"(4) "2.IH"(5) no_comment
      by (auto split: list.splits)
  next
    case False
    then show ?thesis using "2.IH" by auto
  qed
qed (auto simp: dq_def)

lemma strip_jsonc_lines:
  "count_char (strip_jsonc b e s) CHR 0x0A = count_char s CHR 0x0A"
  "count_char (skip_comment s) CHR 0x0A = count_char s CHR 0x0A"
  by (induction b e s and s rule: strip_jsonc_skip_comment.induct) (auto simp: count_char_def)

text \<open>
  Property (stripping comments). Stripping the comments of a JSONC text leaves no comment behind, so
  doing it twice changes nothing, and it keeps the line breaks, so that positions in errors of
  the JSON parser are those of the file.
\<close>

theorem strip_jsonc_comments_ok:
  "strip_jsonc_comments (strip_jsonc_comments s) = strip_jsonc_comments s
   \<and> count_char (strip_jsonc_comments s) CHR 0x0A = count_char s CHR 0x0A"
  by (simp add: strip_jsonc_comments_def strip_jsonc_again strip_jsonc_lines)

end
