(* ===== verification/HashOrder.thy ===== *)
theory HashOrder
  imports SourceText Gate
begin

text \<open>
  Analysers that iterate over hash maps. The order of the iteration is a parameter of their
  models; the locale \<open>order_robust\<close> is the contract that it does not matter for the gate: the
  checks keep their names, statuses and the severities of their findings.
\<close>

definition same_outcome :: "check_result \<Rightarrow> check_result \<Rightarrow> bool" where
  "same_outcome a b =
     (ck_name a = ck_name b \<and> ck_status a = ck_status b \<and> severities a = severities b)"

lemma same_outcome_refl [simp]: "same_outcome c c"
  by (simp add: same_outcome_def)

lemma same_outcome_all_refl [simp]: "list_all2 same_outcome cs cs"
  by (simp add: list.rel_refl)

lemma same_outcome_findings:
  "fd_severity ` set xs = fd_severity ` set ys \<Longrightarrow> same_outcome (from_findings n xs) (from_findings n ys)"
proof -
  assume s: "fd_severity ` set xs = fd_severity ` set ys"
  then have "(\<exists>f\<in>set xs. fd_severity f = Error) \<longleftrightarrow> (\<exists>f\<in>set ys. fd_severity f = Error)"
    by (metis imageE imageI)
  with s show ?thesis by (simp add: same_outcome_def severities_findings from_findings_status)
qed

lemma iter_set_eq:
  assumes "orders_ok h" "orders_ok h'" "hm_wf m"
  shows "set (hm_iter (h n) m) = set (hm_iter (h' n) m)"
  using assms by (simp add: hm_iter_set orders_ok_def)

lemma hs_iter_set: "orders_ok h \<Longrightarrow> set (hs_iter (h n) xs) = set xs"
  using orders_ok_def [of h] by (metis hs_iter_def set_mset_mset set_remdups)

lemma iter_same:
  assumes "orders_ok h" "orders_ok h'" "hm_wf m"
  shows "same_outcome (from_findings n (concat (map f (hm_iter (h k) m))))
                      (from_findings n (concat (map f (hm_iter (h' k) m))))"
  using iter_set_eq [OF assms, of k] by (intro same_outcome_findings) simp

lemma same_outcome_map: "list_all2 same_outcome xs ys \<Longrightarrow> map severities xs = map severities ys"
  by (induction rule: list_all2_induct) (simp_all add: same_outcome_def)

locale order_robust =
  fixes checks :: "hash_orders \<Rightarrow> 'e \<Rightarrow> check_result list"
  assumes same_checks:
    "orders_ok h \<Longrightarrow> orders_ok h' \<Longrightarrow> list_all2 same_outcome (checks h e) (checks h' e)"
begin

lemma same_severities:
  assumes "orders_ok h" "orders_ok h'"
  shows "(\<exists>c\<in>set (checks h e). s \<in> severities c) \<longleftrightarrow> (\<exists>c\<in>set (checks h' e). s \<in> severities c)"
proof -
  have "set (map severities (checks h e)) = set (map severities (checks h' e))"
    by (simp only: same_outcome_map [OF same_checks [OF assms]])
  then have "(\<exists>S\<in>severities ` set (checks h e). s \<in> S) \<longleftrightarrow> (\<exists>S\<in>severities ` set (checks h' e). s \<in> S)"
    by simp
  then show ?thesis by (simp only: bex_simps(7))
qed

lemma same_verdict:
  assumes "orders_ok h" "orders_ok h'"
  shows "clean p (Inr (foldl report_add (report_new t) (checks h e)))
           = clean p (Inr (foldl report_add (report_new t) (checks h' e)))"
proof -
  have "sev_count s (foldl report_add (report_new t) (checks h e)) = 0
      \<longleftrightarrow> sev_count s (foldl report_add (report_new t) (checks h' e)) = 0" for s
    using same_severities [OF assms, of e s] by (auto simp: sev_count_zero)
  then show ?thesis by (simp add: clean_def)
qed

end

end
