(* ===== verification/Topology.thy ===== *)
theory Topology
  imports ComposeFile HashOrder ResultsInspect
begin

text \<open>
  The topology doctor (\<open>analyzers/topology.rs\<close> with \<open>configs.rs\<close> and \<open>source.rs\<close>): the service
  configurations, the compose file and the Go sources are read into a topology, and fourteen
  checks compare them. JSON is a parameter; so is the order in which a hash map is iterated,
  by the name of the map.
\<close>

section \<open>Service configurations\<close>

record service_config =
  sc_name :: string
  sc_kafka_brokers :: "string list"
  sc_kafka_consumer_group :: "string option"
  sc_kafka_client_id :: "string option"
  sc_nats_url :: "string option"
  sc_bootstrap_base_url :: "string option"
  sc_bootstrap_reconcile_interval :: "string option"

definition default_config :: service_config where
  "default_config =
     \<lparr>sc_name = [], sc_kafka_brokers = [], sc_kafka_consumer_group = None, sc_kafka_client_id = None,
      sc_nats_url = None, sc_bootstrap_base_url = None, sc_bootstrap_reconcile_interval = None\<rparr>"

definition str_at :: "'j value_api \<Rightarrow> 'j \<Rightarrow> string \<Rightarrow> string \<Rightarrow> string option" where
  "str_at J v outer key =
     Option.bind (Option.bind (jv_get J v outer) (\<lambda>u. jv_get J u key)) (jv_str J)"

definition config_brokers :: "'j value_api \<Rightarrow> 'j \<Rightarrow> string list" where
  "config_brokers J v =
     (case Option.bind (Option.bind (jv_get J v ''kafka'') (\<lambda>u. jv_get J u ''brokers'')) (jv_array J) of
        Some brokers \<Rightarrow> List.map_filter (jv_str J) brokers
      | None \<Rightarrow> [])"

text \<open>\<open>parse_config\<close>; both errors, an unreadable file and invalid JSON, are treated alike.\<close>

definition parse_config :: "'j value_api \<Rightarrow> (string \<Rightarrow> 'j option) \<Rightarrow> fs_node \<Rightarrow> service_config option" where
  "parse_config J from_str node =
     (case node of
        FFile (Some raw) \<Rightarrow>
          map_option (\<lambda>v.
            \<lparr>sc_name = [], sc_kafka_brokers = config_brokers J v,
             sc_kafka_consumer_group = str_at J v ''kafka'' ''consumer_group'',
             sc_kafka_client_id = str_at J v ''kafka'' ''client_id'',
             sc_nats_url = str_at J v ''nats'' ''url'',
             sc_bootstrap_base_url = str_at J v ''bootstrap'' ''base_url'',
             sc_bootstrap_reconcile_interval = str_at J v ''bootstrap'' ''reconcile_interval''\<rparr>)
            (from_str (strip_jsonc_comments raw))
      | _ \<Rightarrow> None)"

definition file_stem :: "string \<Rightarrow> string" where
  "file_stem name =
     (case extension name of Some e \<Rightarrow> take (length name - length e - 1) name | None \<Rightarrow> name)"

definition config_entry :: "'j value_api \<Rightarrow> (string \<Rightarrow> 'j option) \<Rightarrow> string \<times> fs_node
                            \<Rightarrow> service_config hash_map \<Rightarrow> service_config hash_map" where
  "config_entry J from_str e m =
     (if extension (fst e) = Some ''jsonc'' then
        (let name = file_stem (fst e);
             cfg = (case parse_config J from_str (snd e) of Some c \<Rightarrow> c | None \<Rightarrow> default_config)
         in hm_insert name (cfg\<lparr>sc_name := name\<rparr>) m)
      else m)"

definition parse_all_configs :: "'j value_api \<Rightarrow> (string \<Rightarrow> 'j option) \<Rightarrow> (string \<times> fs_node) list
                                 \<Rightarrow> service_config hash_map" where
  "parse_all_configs J from_str entries = fold (config_entry J from_str) entries []"

section \<open>Constants of the Go sources\<close>

record source_topology =
  st_streams :: "string list hash_map"
  st_durables :: "string hash_map"
  st_subjects :: "string list"

definition quoted_stream_name :: "string \<Rightarrow> string option" where
  "quoted_stream_name line =
     (let trimmed = trim line in
      if comment_line trimmed \<or> \<not> stream_context trimmed then None
      else find is_stream_name (extract_all_quoted trimmed))"

fun streams_from :: "string list \<Rightarrow> nat \<Rightarrow> string list \<Rightarrow> string list hash_map
                     \<Rightarrow> string list hash_map" where
  "streams_from all_lines i [] streams = streams"
| "streams_from all_lines i (line # rest) streams =
     streams_from all_lines (i + 1) rest
       (case quoted_stream_name line of
          Some name \<Rightarrow> hm_extend name (find_subjects_near all_lines i 10) streams
        | None \<Rightarrow> streams)"

definition extract_streams :: "string \<Rightarrow> string list hash_map \<Rightarrow> string list hash_map" where
  "extract_streams content streams =
     (let lines = str_lines content in dedup_values (streams_from lines 0 lines streams))"

definition extract_subjects :: "string \<Rightarrow> string list \<Rightarrow> string list" where
  "extract_subjects content subjects =
     subjects @ concat (map (\<lambda>line. if comment_line (trim line) then [] else nats_quoted (trim line))
                         (str_lines content))"

definition scan_file :: "string \<Rightarrow> source_topology \<Rightarrow> source_topology" where
  "scan_file content topo =
     \<lparr>st_streams = extract_streams content (st_streams topo),
      st_durables = extract_durables content (st_durables topo),
      st_subjects = extract_subjects content (st_subjects topo)\<rparr>"

text \<open>
  The subjects are collected in a hash set and sorted. A file that cannot be read ends the scan
  with its error.
\<close>

definition scan_source :: "(path \<Rightarrow> string) \<Rightarrow> (string \<times> fs_node) list \<Rightarrow> cli_error + source_topology" where
  "scan_source io_error entries =
     (case read_all (\<lambda>p. Io (io_error p)) (files_below ''go'' entries) of
        Inl e \<Rightarrow> Inl e
      | Inr contents \<Rightarrow>
          (let topo = fold scan_file contents \<lparr>st_streams = [], st_durables = [], st_subjects = []\<rparr>
           in Inr (topo\<lparr>st_subjects := sort_dedup (st_subjects topo)\<rparr>)))"

record topology =
  tp_configs :: "service_config hash_map"
  tp_compose :: "compose_service hash_map option"
  tp_source :: "source_topology option"

section \<open>Checks of the configurations\<close>

definition on_config :: "service_config hash_map \<Rightarrow> string \<Rightarrow> (service_config \<Rightarrow> finding list)
                         \<Rightarrow> finding list" where
  "on_config configs name f = (case hm_get configs name of Some cfg \<Rightarrow> f cfg | None \<Rightarrow> [])"

definition interval_findings :: "string \<Rightarrow> string \<Rightarrow> service_config \<Rightarrow> finding list" where
  "interval_findings service help_path cfg =
     (let interval = map_option trim (sc_bootstrap_reconcile_interval cfg) in
      if interval = None \<or> interval = Some [] then
        [with_help
           (with_why
              (finding_error ''bootstrap-reconcile-interval''
                 (service @ '' config has no bootstrap.reconcile_interval''))
              ''event-driven refresh is primary, but the dataplane now relies on bounded bootstrap reconciliation as the self-healing fallback'')
           (''add bootstrap.reconcile_interval to '' @ help_path)]
      else if interval = Some ''0s'' then
        [with_help
           (with_why
              (finding_warning ''bootstrap-reconcile-interval''
                 (service @ '' config disables bootstrap reconciliation with 0s''))
              ''a zero interval removes the fallback path that recovers from missed local runtime-change events'')
           (''set bootstrap.reconcile_interval to a bounded non-zero duration in '' @ help_path)]
      else [])"

definition consumer_findings :: "service_config \<Rightarrow> finding list" where
  "consumer_findings cfg =
     opt_finding (sc_kafka_brokers cfg = [])
       (with_help
          (with_why (finding_error ''consumer-kafka'' ''consumer config has no kafka brokers'')
             ''consumer bridges Kafka to JetStream; without kafka config the pipeline is broken'')
          ''add kafka.brokers to deploy/configs/consumer.jsonc'')
     @ opt_finding (sc_nats_url cfg = None)
       (with_help
          (with_why (finding_error ''consumer-nats'' ''consumer config has no nats url'')
             ''consumer publishes to JetStream via NATS; without it data never reaches the validator'')
          ''add nats.url to deploy/configs/consumer.jsonc'')
     @ opt_finding (sc_kafka_consumer_group cfg = None)
       (with_help
          (with_why (finding_warning ''consumer-group'' ''consumer config has no consumer_group'')
             ''without a consumer group, Kafka assigns a random one on each restart'')
          ''add kafka.consumer_group to deploy/configs/consumer.jsonc'')"

definition emulator_findings :: "service_config \<Rightarrow> finding list" where
  "emulator_findings cfg =
     opt_finding (sc_kafka_brokers cfg = [])
       (with_help
          (with_why (finding_error ''emulator-kafka'' ''emulator config has no kafka brokers'')
             ''emulator produces test data to Kafka; without it no data enters the pipeline'')
          ''add kafka.brokers to deploy/configs/emulator.jsonc'')
     @ opt_finding (sc_nats_url cfg = None)
       (with_help
          (with_why (finding_error ''emulator-nats'' ''emulator config has no nats url'')
             ''emulator now listens for config.ingestion_runtime_changed to refresh aggregate bootstrap; without NATS it stays stale after runtime changes'')
          ''add nats.url to deploy/configs/emulator.jsonc'')"

definition check_configs :: "service_config hash_map \<Rightarrow> check_result" where
  "check_configs configs =
     from_findings ''config-completeness''
       (concat (map (\<lambda>name. opt_finding (\<not> hm_has configs name)
                       (finding_warning ''config-present''
                          (''config for '' @ quote1 name @ '' not found in deploy/configs/'')))
                  [''consumer'', ''emulator'', ''validator''])
        @ on_config configs ''consumer'' consumer_findings
        @ on_config configs ''emulator'' emulator_findings
        @ on_config configs ''consumer'' (interval_findings ''consumer'' ''deploy/configs/consumer.jsonc'')
        @ on_config configs ''emulator'' (interval_findings ''emulator'' ''deploy/configs/emulator.jsonc'')
        @ on_config configs ''validator'' (\<lambda>cfg. opt_finding (sc_nats_url cfg = None)
            (with_help
               (with_why (finding_error ''validator-nats'' ''validator config has no nats url'')
                  ''validator consumes from JetStream via NATS; without it validation never runs'')
               ''add nats.url to deploy/configs/validator.jsonc'')))"

section \<open>Checks of the compose file\<close>

definition pipeline_services :: "string list" where
  "pipeline_services =
     [''nats'', ''kafka'', ''configctl'', ''server'', ''consumer'', ''emulator'', ''validator'']"

definition check_compose :: "compose_service hash_map \<Rightarrow> check_result" where
  "check_compose ct =
     from_findings ''compose-services''
       (concat (map (\<lambda>name. opt_finding (\<not> hm_has ct name)
                       (with_help
                          (with_why
                             (finding_error ''compose-service''
                                (''service '' @ quote1 name @ '' not found in docker-compose''))
                             ''runtime-smoke expects all services to be defined; missing services break the local environment'')
                          (''add '' @ quote1 name @ '' service to deploy/compose/docker-compose.yaml'')))
                  pipeline_services))"

definition expected_deps :: "(string \<times> string list) list" where
  "expected_deps =
     [(''consumer'', [''nats'', ''server'', ''kafka'']),
      (''emulator'', [''nats'', ''server'', ''kafka'', ''consumer'', ''validator'']),
      (''validator'', [''nats'', ''configctl'']),
      (''server'', [''nats'', ''configctl'']),
      (''configctl'', [''nats''])]"

definition on_service :: "compose_service hash_map \<Rightarrow> string \<Rightarrow> (compose_service \<Rightarrow> finding list)
                          \<Rightarrow> finding list" where
  "on_service ct name f = (case hm_get ct name of Some svc \<Rightarrow> f svc | None \<Rightarrow> [])"

definition compose_location :: "string \<Rightarrow> string" where
  "compose_location service = ''docker-compose.yaml:'' @ service"

definition check_compose_dependencies :: "compose_service hash_map \<Rightarrow> check_result" where
  "check_compose_dependencies ct =
     from_findings ''compose-dependencies''
       (concat (map (\<lambda>(service, deps). on_service ct service (\<lambda>svc.
            concat (map (\<lambda>dep. opt_finding (dep \<notin> set (sv_depends_on svc))
              (with_location
                 (finding_warning ''compose-dependency''
                    (quote1 service @ '' should depend on '' @ quote1 dep))
                 (compose_location service))) deps)))
          expected_deps))"

definition expected_profiles :: "(string \<times> string list) list" where
  "expected_profiles =
     [(''configctl'', [''core'', ''all'']), (''server'', [''core'', ''all'']),
      (''validator'', [''runtime'', ''all'']), (''kafka'', [''dataplane'', ''all'']),
      (''consumer'', [''dataplane'', ''all'']), (''emulator'', [''dataplane'', ''all''])]"

definition expected_images :: "(string \<times> string) list" where
  "expected_images = [(''nats'', ''nats:2.10.18-alpine''), (''kafka'', ''bitnamilegacy/kafka:3.9.0'')]"

definition expected_ports :: "(string \<times> string) list" where
  "expected_ports =
     [(''nats'', ''4222:4222''), (''nats'', ''8222:8222''), (''server'', ''8080:8080''),
      (''kafka'', ''19092:19092'')]"

definition profile_finding :: "string \<Rightarrow> string \<Rightarrow> finding" where
  "profile_finding service profile =
     with_help
       (with_why
          (with_location
             (finding_error ''compose-profile''
                (quote1 service @ '' must include compose profile '' @ quote1 profile))
             (compose_location service))
          ''profile drift breaks `make up-core`, `make up-runtime`, `make up-dataplane` and smoke selection'')
       (''add '' @ quote1 profile @ '' to service '' @ quote1 service @ '' profiles'')"

definition image_finding :: "string \<Rightarrow> string \<Rightarrow> string option \<Rightarrow> finding" where
  "image_finding service img found =
     with_help
       (with_why
          (with_location
             (finding_error ''compose-image''
                (quote1 service @ '' image drifted from '' @ quote1 img @ '' to ''
                 @ quote1 (case found of Some i \<Rightarrow> i | None \<Rightarrow> ''<missing>'')))
             (compose_location service))
          ''the project freezes these broker image families to keep local runtime behavior predictable'')
       (''set service '' @ quote1 service @ '' image to '' @ quote1 img)"

definition port_finding :: "string \<Rightarrow> string \<Rightarrow> finding" where
  "port_finding service fragment =
     with_help
       (with_why
          (with_location
             (finding_error ''compose-port''
                (quote1 service @ '' must expose local port mapping containing '' @ quote1 fragment))
             (compose_location service))
          ''local smoke, trace collection and operator workflows depend on these stable host port mappings'')
       (''restore a port mapping containing '' @ quote1 fragment @ '' for '' @ quote1 service)"

definition check_compose_runtime_contract :: "compose_service hash_map \<Rightarrow> check_result" where
  "check_compose_runtime_contract ct =
     from_findings ''compose-runtime-contract''
       (concat (map (\<lambda>(service, profiles). on_service ct service (\<lambda>svc.
            concat (map (\<lambda>profile. opt_finding (profile \<notin> set (sv_profiles svc))
                                     (profile_finding service profile)) profiles)))
          expected_profiles)
        @ concat (map (\<lambda>(service, img). on_service ct service (\<lambda>svc.
            opt_finding (sv_image svc \<noteq> Some img) (image_finding service img (sv_image svc))))
          expected_images)
        @ concat (map (\<lambda>(service, fragment). on_service ct service (\<lambda>svc.
            opt_finding (\<not> list_ex (\<lambda>port. contains port fragment) (sv_ports svc))
              (port_finding service fragment)))
          expected_ports))"

section \<open>Checks of the sources\<close>

definition check_source_streams :: "source_topology \<Rightarrow> check_result" where
  "check_source_streams st =
     from_findings ''source-streams''
       (concat (map (\<lambda>stream. opt_finding (\<not> hm_has (st_streams st) stream)
          (with_help
             (with_why
                (finding_error ''stream-defined''
                   (''expected stream '' @ quote1 stream @ '' not found in source''))
                ''JetStream streams are required for durable message delivery in the pipeline'')
             ''verify the stream constant is defined in the NATS adapter or JetStream setup code''))
          [''DATA_PLANE_INGESTION'', ''CONFIGCTL_EVENTS'']))"

definition expected_durables :: "string list" where
  "expected_durables =
     [''validator-dataplane-v1'', ''validator-runtime-cache-v1'', ''consumer-runtime-refresh-v1'',
      ''emulator-runtime-refresh-v1'']"

definition check_source_durables :: "source_topology \<Rightarrow> check_result" where
  "check_source_durables st =
     from_findings ''source-durables''
       (concat (map (\<lambda>durable. opt_finding (\<not> hm_has (st_durables st) durable)
          (finding_error ''durable-defined''
             (''expected durable consumer '' @ quote1 durable @ '' not found in source'')))
          expected_durables))"

definition check_source_subjects :: "source_topology \<Rightarrow> check_result" where
  "check_source_subjects st =
     from_findings ''source-subjects''
       (concat (map (\<lambda>prefix. opt_finding (\<not> list_ex (\<lambda>s. starts_with s prefix) (st_subjects st))
          (finding_warning ''subject-prefix''
             (''no subjects with prefix '' @ quote1 prefix @ '' found in source'')))
          [''dataplane.ingestion.received'', ''configctl.events.config'', ''configctl.control'']))"

section \<open>Cross-validation\<close>

text \<open>The configurations in the order in which the hash map is iterated.\<close>

definition configs_iter :: "hash_orders \<Rightarrow> topology \<Rightarrow> (string \<times> service_config) list" where
  "configs_iter h topo = hm_iter (h ''configs'') (tp_configs topo)"

definition compare_first :: "('v \<Rightarrow> 'v \<Rightarrow> bool) \<Rightarrow> (string \<times> 'v \<Rightarrow> string \<times> 'v \<Rightarrow> finding)
                             \<Rightarrow> (string \<times> 'v) list \<Rightarrow> finding list" where
  "compare_first differ f entries =
     (case entries of
        [] \<Rightarrow> []
      | reference # others \<Rightarrow>
          concat (map (\<lambda>e. opt_finding (differ (snd e) (snd reference)) (f reference e)) others))"

definition broker_sets :: "hash_orders \<Rightarrow> topology \<Rightarrow> (string \<times> string list) list" where
  "broker_sets h topo =
     filter (\<lambda>e. snd e \<noteq> []) (map (\<lambda>(name, cfg). (name, sc_kafka_brokers cfg)) (configs_iter h topo))"

definition broker_finding :: "string \<times> string list \<Rightarrow> string \<times> string list \<Rightarrow> finding" where
  "broker_finding r e =
     finding_warning ''kafka-brokers''
       (''kafka brokers differ between '' @ quote1 (fst r) @ '' ('' @ debug_strings (snd r) @ '') and ''
        @ quote1 (fst e) @ '' ('' @ debug_strings (snd e) @ '')'')"

definition local_host :: "string \<Rightarrow> bool" where
  "local_host host = (host = ''localhost'' \<or> host = ''127.0.0.1'')"

definition broker_host_findings :: "string \<Rightarrow> string \<Rightarrow> finding list" where
  "broker_host_findings name broker =
     (let host = split_first broker '':'' in
      opt_finding (host \<noteq> ''kafka'' \<and> \<not> local_host host)
        (finding_warning ''kafka-broker-host''
           (quote1 name @ '' config broker '' @ quote1 broker
            @ '' hostname doesn'' @ [CHR 0x27] @ ''t match compose service name '' @ quote1 ''kafka'')))"

definition nth_piece :: "string \<Rightarrow> string \<Rightarrow> nat \<Rightarrow> string option" where
  "nth_piece s sep n = (let ps = split_on s sep in if n < length ps then Some (ps ! n) else None)"

definition broker_port_findings :: "string \<Rightarrow> string \<Rightarrow> string \<Rightarrow> finding list" where
  "broker_port_findings internal_port name broker =
     (case nth_piece broker '':'' 1 of
        Some port \<Rightarrow>
          opt_finding (port \<noteq> internal_port)
            (finding_error ''kafka-port''
               (quote1 name @ '' broker port '' @ port @ '' doesn'' @ [CHR 0x27]
                @ ''t match compose internal port '' @ internal_port))
      | None \<Rightarrow> [])"

definition for_brokers :: "hash_orders \<Rightarrow> topology \<Rightarrow> (string \<Rightarrow> string \<Rightarrow> finding list)
                           \<Rightarrow> finding list" where
  "for_brokers h topo f =
     concat (map (\<lambda>(name, cfg). concat (map (f name) (sc_kafka_brokers cfg))) (configs_iter h topo))"

definition check_kafka_broker_consistency :: "hash_orders \<Rightarrow> topology \<Rightarrow> check_result" where
  "check_kafka_broker_consistency h topo =
     from_findings ''kafka-broker-consistency''
       (compare_first (\<lambda>a b. set a \<noteq> set b) broker_finding (broker_sets h topo)
        @ (case Option.bind (tp_compose topo) (\<lambda>ct. hm_get ct ''kafka'') of
             None \<Rightarrow> []
           | Some kafka \<Rightarrow>
               (let internal_port = (case sv_internal_port kafka of Some p \<Rightarrow> p | None \<Rightarrow> ''9092'')
                in for_brokers h topo broker_host_findings
                   @ for_brokers h topo (broker_port_findings internal_port))))"

definition url_entries :: "(service_config \<Rightarrow> string option) \<Rightarrow> hash_orders \<Rightarrow> topology
                           \<Rightarrow> (string \<times> string) list" where
  "url_entries field_of h topo =
     List.map_filter (\<lambda>(name, cfg). map_option (Pair name) (field_of cfg)) (configs_iter h topo)"

definition url_finding :: "string \<Rightarrow> string \<Rightarrow> string \<times> string \<Rightarrow> string \<times> string \<Rightarrow> finding" where
  "url_finding check what r e =
     finding_warning check
       (what @ '' differs between '' @ quote1 (fst r) @ '' ('' @ snd r @ '') and ''
        @ quote1 (fst e) @ '' ('' @ snd e @ '')'')"

definition check_nats_url_consistency :: "hash_orders \<Rightarrow> topology \<Rightarrow> check_result" where
  "check_nats_url_consistency h topo =
     from_findings ''nats-url-consistency''
       (compare_first (\<noteq>) (url_finding ''nats-url'' ''NATS URL'') (url_entries sc_nats_url h topo))"

definition url_hostname :: "string \<Rightarrow> string" where
  "url_hostname url =
     split_first (trim_start_str (trim_start_str url ''http://'') ''https://'') '':''"

definition bootstrap_host_findings :: "string \<times> string \<Rightarrow> finding list" where
  "bootstrap_host_findings e =
     (let hostname = url_hostname (snd e) in
      opt_finding (hostname \<noteq> ''server'' \<and> \<not> local_host hostname)
        (finding_warning ''bootstrap-host''
           (quote1 (fst e) @ '' bootstrap URL hostname '' @ quote1 hostname
            @ '' doesn'' @ [CHR 0x27] @ ''t match compose service '' @ quote1 ''server'')))"

definition check_bootstrap_url_consistency :: "hash_orders \<Rightarrow> topology \<Rightarrow> check_result" where
  "check_bootstrap_url_consistency h topo =
     from_findings ''bootstrap-url-consistency''
       (compare_first (\<noteq>) (url_finding ''bootstrap-url'' ''bootstrap base_url'')
          (url_entries sc_bootstrap_base_url h topo)
        @ (if (case tp_compose topo of Some ct \<Rightarrow> hm_has ct ''server'' | None \<Rightarrow> False)
           then concat (map bootstrap_host_findings (url_entries sc_bootstrap_base_url h topo))
           else []))"

definition interval_of :: "topology \<Rightarrow> string \<Rightarrow> string option" where
  "interval_of topo name =
     Option.bind (hm_get (tp_configs topo) name) sc_bootstrap_reconcile_interval"

definition check_bootstrap_reconcile_consistency :: "topology \<Rightarrow> check_result" where
  "check_bootstrap_reconcile_consistency topo =
     from_findings ''bootstrap-reconcile-consistency''
       (case (interval_of topo ''consumer'', interval_of topo ''emulator'') of
          (Some consumer_interval, Some emulator_interval) \<Rightarrow>
            opt_finding (consumer_interval \<noteq> emulator_interval)
              (with_help
                 (with_why
                    (finding_warning ''bootstrap-reconcile-consistency''
                       (''bootstrap.reconcile_interval differs between consumer ('' @ consumer_interval
                        @ '') and emulator ('' @ emulator_interval @ '')''))
                    ''the repository treats dataplane self-healing as a shared operational seam; divergent intervals make refresh recovery harder to reason about'')
                 ''align bootstrap.reconcile_interval in deploy/configs/consumer.jsonc and deploy/configs/emulator.jsonc'')
        | _ \<Rightarrow> [])"

definition subject_matched :: "string list \<Rightarrow> string \<Rightarrow> bool" where
  "subject_matched subjects pat =
     (let prefix = trim_end_str pat ''.>''
      in list_ex (\<lambda>s. starts_with s prefix \<or> s = pat) subjects)"

definition check_stream_subject_alignment :: "hash_orders \<Rightarrow> topology \<Rightarrow> check_result" where
  "check_stream_subject_alignment h topo =
     (case tp_source topo of
        None \<Rightarrow> check_skip ''stream-subject-alignment'' ''source not scanned''
      | Some source \<Rightarrow>
          from_findings ''stream-subject-alignment''
            (concat (map (\<lambda>(stream_name, patterns).
               concat (map (\<lambda>pat. opt_finding (\<not> subject_matched (st_subjects source) pat)
                 (finding_warning ''stream-subject''
                    (''stream '' @ quote1 stream_name @ '' declares subject '' @ quote1 pat
                     @ '' but no matching subject found in source''))) patterns))
               (hm_iter (h ''streams'') (st_streams source)))))"

definition check_durable_stream_alignment :: "hash_orders \<Rightarrow> topology \<Rightarrow> check_result" where
  "check_durable_stream_alignment h topo =
     (case tp_source topo of
        None \<Rightarrow> check_skip ''durable-stream-alignment'' ''source not scanned''
      | Some source \<Rightarrow>
          from_findings ''durable-stream-alignment''
            (concat (map (\<lambda>(durable_name, stream).
               opt_finding (\<not> hm_has (st_streams source) stream)
                 (finding_error ''durable-stream''
                    (''durable '' @ quote1 durable_name @ '' references stream '' @ quote1 stream
                     @ '' which was not found'')))
               (hm_iter (h ''durables'') (st_durables source)))))"

definition pipeline_hops :: "(string \<times> string \<times> string) list" where
  "pipeline_hops =
     [(''emulator'', ''kafka'', ''emulator produces to kafka''),
      (''consumer'', ''kafka'', ''consumer reads from kafka''),
      (''consumer'', ''nats'', ''consumer publishes to jetstream''),
      (''validator'', ''nats'', ''validator consumes from jetstream'')]"

definition has_transport :: "service_config hash_map \<Rightarrow> string \<Rightarrow> string \<Rightarrow> bool" where
  "has_transport configs service transport =
     (case hm_get configs service of
        None \<Rightarrow> False
      | Some cfg \<Rightarrow>
          if transport = ''kafka'' then sc_kafka_brokers cfg \<noteq> []
          else if transport = ''nats'' then sc_nats_url cfg \<noteq> None
          else False)"

definition subscriber_findings :: "source_topology \<Rightarrow> finding list" where
  "subscriber_findings source =
     (let has_dataplane_stream = hm_has (st_streams source) ''DATA_PLANE_INGESTION'';
          has_validator_durable = hm_has (st_durables source) ''validator-dataplane-v1''
      in opt_finding (has_dataplane_stream \<and> \<not> has_validator_durable)
           (finding_error ''pipeline-subscriber''
              ''DATA_PLANE_INGESTION stream exists but validator durable consumer not found'')
         @ opt_finding (\<not> has_dataplane_stream \<and> has_validator_durable)
           (finding_error ''pipeline-stream''
              ''validator durable consumer exists but DATA_PLANE_INGESTION stream not found''))"

definition check_pipeline_continuity :: "topology \<Rightarrow> check_result" where
  "check_pipeline_continuity topo =
     from_findings ''pipeline-continuity''
       (concat (map (\<lambda>(service, transport, description).
          opt_finding (\<not> has_transport (tp_configs topo) service transport)
            (finding_error ''pipeline-continuity''
               (description @ '': '' @ quote1 service @ '' has no '' @ transport @ '' config'')))
          pipeline_hops)
        @ on_config (tp_configs topo) ''consumer'' (\<lambda>cfg.
            opt_finding (sc_kafka_brokers cfg = [] \<or> sc_nats_url cfg = None)
              (finding_error ''pipeline-bridge''
                 ''consumer must have both kafka and nats to bridge the pipeline''))
        @ (case tp_source topo of Some source \<Rightarrow> subscriber_findings source | None \<Rightarrow> []))"

section \<open>The analyser\<close>

text \<open>
  The compose file with the checks it leads to; the content of a file that cannot be read is
  an error. A panic of the parser is undefined here; \<open>parse_compose_total\<close> excludes it.
\<close>

definition compose_path :: path where
  "compose_path = [''deploy'', ''compose'', ''docker-compose.yaml'']"

definition read_compose :: "(path \<Rightarrow> string) \<Rightarrow> fs_node
                            \<Rightarrow> check_result list \<times> compose_service hash_map option" where
  "read_compose io_error root =
     (case lookup_path root compose_path of
        Some (FFile (Some content)) \<Rightarrow>
          (let ct = the (parse_compose content)
           in ([check_compose ct, check_compose_dependencies ct, check_compose_runtime_contract ct], Some ct))
      | Some (FFile None) \<Rightarrow>
          ([from_findings ''compose-parse''
              [finding_error ''compose''
                 (''failed to parse: '' @ show_cli_error (Io (io_error compose_path)))]], None)
      | _ \<Rightarrow>
          ([from_findings ''compose-exists''
              [finding_warning ''compose'' ''docker-compose.yaml not found'']], None))"

definition read_source :: "(path \<Rightarrow> string) \<Rightarrow> fs_node \<Rightarrow> check_result list \<times> source_topology option" where
  "read_source io_error root =
     (if path_is_dir root [''internal''] then
        (case scan_source io_error (dir_entries root [''internal'']) of
           Inr st \<Rightarrow>
             ([check_source_streams st, check_source_durables st, check_source_subjects st], Some st)
         | Inl e \<Rightarrow>
             ([from_findings ''source-scan''
                 [finding_error ''source'' (''failed to scan: '' @ show_cli_error e)]], None))
      else ([], None))"

definition cross_checks :: "hash_orders \<Rightarrow> topology \<Rightarrow> check_result list" where
  "cross_checks h topo =
     [check_kafka_broker_consistency h topo, check_nats_url_consistency h topo,
      check_bootstrap_url_consistency h topo, check_bootstrap_reconcile_consistency topo,
      check_stream_subject_alignment h topo, check_durable_stream_alignment h topo,
      check_pipeline_continuity topo]"

definition read_topology :: "'j value_api \<Rightarrow> (string \<Rightarrow> 'j option) \<Rightarrow> (path \<Rightarrow> string) \<Rightarrow> fs_node
                             \<Rightarrow> topology" where
  "read_topology J from_str io_error root =
     \<lparr>tp_configs = parse_all_configs J from_str (dir_entries root [''deploy'', ''configs'']),
      tp_compose = snd (read_compose io_error root),
      tp_source = snd (read_source io_error root)\<rparr>"

definition topology_checks :: "'j value_api \<Rightarrow> (string \<Rightarrow> 'j option) \<Rightarrow> (path \<Rightarrow> string)
                               \<Rightarrow> hash_orders \<Rightarrow> fs_node \<Rightarrow> check_result list" where
  "topology_checks J from_str io_error h root =
     (if path_is_dir root [''deploy'', ''configs''] then
        (let topo = read_topology J from_str io_error root
         in [check_pass ''configs-dir-exists'', check_configs (tp_configs topo)]
            @ fst (read_compose io_error root) @ fst (read_source io_error root) @ cross_checks h topo)
      else
        [from_findings ''configs-dir-exists''
           [with_help
              (with_why (finding_error ''configs-dir'' ''deploy/configs directory not found'')
                 ''all topology checks depend on service configs to validate transport consistency'')
              ''run `raccoon-cli doctor` to verify project structure first'']])"

definition topology_analyze :: "'j value_api \<Rightarrow> (string \<Rightarrow> 'j option) \<Rightarrow> (path \<Rightarrow> string)
                                \<Rightarrow> hash_orders \<Rightarrow> fs_node \<Rightarrow> cli_error + report" where
  "topology_analyze J from_str io_error h root =
     Inr (foldl report_add (report_new ''topology-doctor'')
            (topology_checks J from_str io_error h root))"

end
