(* ===== verification/ComposeRoundTrip.thy ===== *)
theory ComposeRoundTrip
  imports ComposeFile
begin

text \<open>
  Printing the services of a compose file, in the layout of
  \<open>deploy/compose/docker-compose.yaml\<close>, and reading them back with the parser of
  \<open>ComposeFile\<close>.
\<close>

declare compose_loop.simps(2) [simp del]

section \<open>Printing\<close>

definition pad :: "nat \<Rightarrow> string \<Rightarrow> string" where
  "pad n s = replicate n CHR 0x20 @ s"

definition quoted_item :: "string \<Rightarrow> string" where
  "quoted_item w = ''- '' @ [dq] @ w @ [dq]"

definition section_lines :: "string \<Rightarrow> string list \<Rightarrow> string list" where
  "section_lines key body = (if body = [] then [] else pad 4 (key @ '':'') # body)"

definition dependency_lines :: "string \<Rightarrow> string list" where
  "dependency_lines d = [pad 6 (d @ '':''), pad 8 ''condition: service_healthy'']"

definition image_lines :: "string option \<Rightarrow> string list" where
  "image_lines img = (case img of None \<Rightarrow> [] | Some w \<Rightarrow> [pad 4 (''image: '' @ w)])"

definition listener_lines :: "string option \<Rightarrow> string list" where
  "listener_lines port =
     (case port of
        None \<Rightarrow> []
      | Some p \<Rightarrow> [pad 6 (''KAFKA_CFG_LISTENERS: '' @ [dq] @ ''PLAINTEXT://:'' @ p @ [dq])])"

definition service_lines :: "compose_service \<Rightarrow> string list" where
  "service_lines s =
     pad 2 (sv_name s @ '':'') # image_lines (sv_image s)
     @ section_lines ''profiles'' (map (\<lambda>w. pad 6 (quoted_item w)) (sv_profiles s))
     @ section_lines ''depends_on'' (concat (map dependency_lines (sv_depends_on s)))
     @ section_lines ''environment'' (listener_lines (sv_internal_port s))
     @ section_lines ''ports'' (map (\<lambda>w. pad 6 (quoted_item w)) (sv_ports s))"

definition print_compose :: "compose_service list \<Rightarrow> string" where
  "print_compose svs =
     concat (map (\<lambda>l. l @ nl) (''services:'' # concat (map service_lines svs)))"

text \<open>Which services can be printed: names of plain characters, values without quotes.\<close>

definition name_char :: "char \<Rightarrow> bool" where
  "name_char c = (ascii_alnum c \<or> c = CHR ''-'' \<or> c = CHR ''_'' \<or> c = CHR ''.'')"

definition name_ok :: "string \<Rightarrow> bool" where
  "name_ok w = (w \<noteq> [] \<and> list_all name_char w \<and> ascii_alnum (hd w))"

definition dependency_ok :: "string \<Rightarrow> bool" where
  "dependency_ok w = (name_ok w \<and> \<not> starts_with w ''condition'')"

definition value_ok :: "string \<Rightarrow> bool" where
  "value_ok w = (w \<noteq> [] \<and> list_all (\<lambda>c. plain_char c \<and> c \<noteq> dq \<and> c \<noteq> CHR 0x27) w)"

definition image_ok :: "string \<Rightarrow> bool" where
  "image_ok w = (value_ok w \<and> last w \<noteq> CHR '':'')"

definition port_ok :: "string \<Rightarrow> bool" where
  "port_ok w = (value_ok w \<and> CHR '':'' \<notin> set w \<and> CHR '','' \<notin> set w)"

definition service_ok :: "compose_service \<Rightarrow> bool" where
  "service_ok s =
     (name_ok (sv_name s) \<and> list_all value_ok (sv_profiles s) \<and> list_all value_ok (sv_ports s)
      \<and> list_all dependency_ok (sv_depends_on s) \<and> pred_option image_ok (sv_image s)
      \<and> pred_option port_ok (sv_internal_port s))"

section \<open>Lines\<close>

lemma ascii_alnum_code: "ascii_alnum c \<longleftrightarrow>
    (let n = (of_char c :: nat) in 65 \<le> n \<and> n \<le> 90 \<or> 97 \<le> n \<and> n \<le> 122 \<or> 48 \<le> n \<and> n \<le> 57)"
  by (simp add: ascii_alnum_def ascii_upper_def ascii_lower_def ascii_digit_def less_eq_char_def Let_def)

lemma ascii_alnum_plain: "ascii_alnum c \<Longrightarrow> plain_char c"
  by (auto simp: ascii_alnum_code plain_char_def ascii_ws_def Let_def)

lemma name_char_plain: "name_char c \<Longrightarrow> plain_char c"
  by (auto simp: name_char_def ascii_alnum_plain) (simp_all add: plain_char_def ascii_ws_def)

lemma ascii_alnum_not: "ascii_alnum c \<Longrightarrow> c \<notin> set ''- #:[<'' \<and> c \<noteq> dq \<and> c \<noteq> CHR 0x27"
  by (auto simp: ascii_alnum_code dq_def Let_def)

lemma name_char_not: "name_char c \<Longrightarrow> c \<noteq> CHR '':'' \<and> c \<noteq> dq"
  by (auto simp: name_char_def dq_def dest: ascii_alnum_not)

lemma step_line:
  assumes "plain_ends s" "hd s \<noteq> CHR ''#''" "n \<noteq> 0 \<or> \<not> starts_with s ''x-''"
  shows "compose_loop (pad n s # rest) st =
           (case compose_line n s st of None \<Rightarrow> None | Some st1 \<Rightarrow> compose_loop rest st1)"
proof -
  have ws: "\<forall>c\<in>set (replicate n CHR 0x20). ascii_ws c" by (auto simp: ascii_ws_def)
  have t: "trim (pad n s) = s" using trim_pad [OF assms(1) ws, of "[]"] by (simp add: pad_def)
  obtain c cs where s: "s = c # cs" "plain_char c" using assms(1) by (cases s) (auto simp: plain_ends_def)
  have "trim_start (pad n s) = s"
    using ws s by (simp add: pad_def trim_start_ascii_ws_append trim_start_plain)
  then have i: "line_indent (pad n s) = n" by (simp add: line_indent_def pad_def)
  have "s \<noteq> []" "\<not> starts_with s ''#''" using assms(2) s(1) by (auto simp: starts_with_single)
  with assms(3) show ?thesis unfolding compose_loop.simps t i Let_def by auto
qed

text \<open>The state of the parser inside the service \<open>svc\<close>, after the services \<open>before\<close>.\<close>

definition at_service :: "compose_service list \<Rightarrow> compose_service \<Rightarrow> string option \<Rightarrow> nat
                          \<Rightarrow> compose_state" where
  "at_service before svc sec k =
     \<lparr>cp_services = map (\<lambda>s. (sv_name s, s)) (before @ [svc]), cp_in_services = True,
      cp_service = Some (sv_name svc), cp_section = sec, cp_service_indent = 2,
      cp_section_indent = k\<rparr>"

lemma hm_insert_last:
  "k \<notin> fst ` set m \<Longrightarrow> hm_insert k v (m @ [(k, x)]) = m @ [(k, v)]"
  unfolding hm_insert_def by (induction m) auto

lemma hm_insert_new: "k \<notin> fst ` set m \<Longrightarrow> hm_insert k v m = m @ [(k, v)]"
  unfolding hm_insert_def by (induction m) auto

lemma hm_get_last: "k \<notin> fst ` set m \<Longrightarrow> hm_get (m @ [(k, x)]) k = Some x"
  by (simp add: hm_get_def map_add_def map_of_eq_None_iff [THEN iffD2])

lemma update_at_service:
  assumes "sv_name svc \<notin> sv_name ` set before" "sv_name (f svc) = sv_name svc"
  shows "update_service (sv_name svc) f (at_service before svc sec k) = Some (at_service before (f svc) sec k)"
  using assms by (simp add: update_service_def at_service_def hm_get_last hm_insert_last image_image)

lemma colon_line:
  assumes "w \<noteq> []" "last w \<noteq> CHR '':''"
  shows "ends_with (w @ '':'') '':''" "trim_end_char (w @ '':'') (CHR '':'') = w"
  using assms by (cases w rule: rev_cases; simp add: ends_with_def strip_suffix_def trim_end_char_def)+

lemma name_ok_facts:
  assumes "name_ok w"
  shows "w \<noteq> []" "last w \<noteq> CHR '':''" "hd w \<notin> set ''- #:[<''" "plain_ends w" "plain_ends (w @ '':'')"
    "trim w = w" "CHR '':'' \<notin> set w"
proof -
  have chars: "\<forall>c\<in>set w. name_char c" and w: "w \<noteq> []" and h: "ascii_alnum (hd w)"
    using assms by (auto simp: name_ok_def list_all_iff)
  then show "w \<noteq> []" "last w \<noteq> CHR '':''" "hd w \<notin> set ''- #:[<''" "CHR '':'' \<notin> set w"
    using ascii_alnum_not [OF h] name_char_not last_in_set [OF w] by blast+
  show "plain_ends w" "plain_ends (w @ '':'')"
    using w chars name_char_plain by (auto simp: plain_ends_def plain_char_def ascii_ws_def)
  then show "trim w = w" by (simp add: trim_plain_ends)
qed

lemma starts_with_hd: "w \<noteq> [] \<Longrightarrow> hd w \<noteq> c \<Longrightarrow> \<not> starts_with (w @ v) (c # cs)"
  by (cases w) (auto simp: starts_with_Cons)

lemma value_ok_facts:
  assumes "value_ok w"
  shows "w \<noteq> []" "plain_ends w" "trim w = w" "hd w \<noteq> dq" "last w \<noteq> dq"
    "hd w \<noteq> CHR 0x27" "last w \<noteq> CHR 0x27"
proof -
  have "\<forall>c\<in>set w. plain_char c \<and> c \<noteq> dq \<and> c \<noteq> CHR 0x27" and w: "w \<noteq> []"
    using assms by (auto simp: value_ok_def list_all_iff)
  with hd_in_set [OF w] last_in_set [OF w]
  show "w \<noteq> []" "plain_ends w" "hd w \<noteq> dq" "last w \<noteq> dq" "hd w \<noteq> CHR 0x27" "last w \<noteq> CHR 0x27"
    by (auto simp: plain_ends_def)
  then show "trim w = w" by (simp add: trim_plain_ends)
qed

lemma trim_char_id:
  assumes "w \<noteq> []" "hd w \<noteq> c" "last w \<noteq> c"
  shows "trim_char w c = w"
proof -
  have "trim_start_char w c = w" using assms(1,2) by (cases w) (simp_all add: trim_start_char_def)
  moreover have "trim_end_char w c = w"
    using assms(1,3) by (cases w rule: rev_cases) (simp_all add: trim_end_char_def)
  ultimately show ?thesis by (simp add: trim_char_def)
qed

lemma trim_char_wrap:
  assumes "w \<noteq> []" "hd w \<noteq> c" "last w \<noteq> c"
  shows "trim_char ([c] @ w @ [c]) c = w"
proof -
  obtain x xs where w: "w = x # xs" using assms(1) by (cases w) auto
  obtain y ys where w': "w = ys @ [y]" using assms(1) by (cases w rule: rev_cases) auto
  have "trim_start_char ([c] @ w @ [c]) c = w @ [c]"
    using assms(2) w by (simp add: trim_start_char_def)
  then show ?thesis using assms(3) w' by (simp add: trim_char_def trim_end_char_def)
qed

lemma unquote_value: "value_ok w \<Longrightarrow> unquote w = w"
  using value_ok_facts [of w] by (simp add: unquote_def trim_char_id)

lemma unquote_quoted: "value_ok w \<Longrightarrow> unquote ([dq] @ w @ [dq]) = w"
  using value_ok_facts [of w] trim_char_wrap [of w dq] by (simp add: unquote_def trim_char_id)

lemma dq_plain: "plain_char dq" "dq \<noteq> CHR ''-''" "dq \<noteq> CHR 0x27" "\<not> ascii_ws dq"
  by (simp_all add: dq_def plain_char_def ascii_ws_def)

lemma list_item_quoted:
  assumes "value_ok w"
  shows "list_item (quoted_item w) = w"
proof -
  have ends: "plain_ends ([dq] @ w @ [dq])" using dq_plain(1) by (simp add: plain_ends_def)
  have "trim_start_char (quoted_item w) (CHR ''-'') = '' '' @ ([dq] @ w @ [dq]) @ []"
    by (simp add: quoted_item_def trim_start_char_def)
  then have "trim (trim_start_char (quoted_item w) (CHR ''-'')) = [dq] @ w @ [dq]"
    using trim_pad [OF ends, of "'' ''" "[]"] by (simp add: ascii_ws_def)
  then show ?thesis using unquote_quoted [OF assms] by (simp add: list_item_def)
qed

section \<open>The lines of a service\<close>

lemma service_header:
  assumes "name_ok name" "name \<notin> fst ` set (cp_services st)" "cp_in_services st"
    "cp_service st = None \<and> cp_section st = None
     \<or> cp_service st \<noteq> None \<and> cp_service_indent st = 2 \<and> (cp_section st = None \<or> 2 \<le> cp_section_indent st)"
  shows "compose_line 2 (name @ '':'') st =
           Some (st\<lparr>cp_service_indent := 2, cp_services := cp_services st @ [(name, empty_service name)],
                    cp_service := Some name, cp_section := None\<rparr>)"
proof -
  note f = name_ok_facts [OF assms(1)]
  have no: "\<not> starts_with (name @ '':'') ''-''" "\<not> starts_with (name @ '':'') ''<<''"
    using f(1,3) by (simp_all add: starts_with_hd)
  have new: "or_insert_service name (cp_services st) = cp_services st @ [(name, empty_service name)]"
    using assms(2)
    by (simp add: or_insert_service_def hm_has_def hm_get_def hm_insert_new map_of_eq_None_iff [THEN iffD2])
  show ?thesis
    using assms(3,4) no colon_line [OF f(1,2)] f(6) new
    by (auto simp: compose_line_def service_line_def split: option.splits)
qed


definition section_keys :: "string list" where
  "section_keys = [''depends_on'', ''ports'', ''profiles'', ''environment'']"

lemma after_colon_append: "CHR '':'' \<notin> set a \<Longrightarrow> after_colon (a @ '':'' @ b) = Some b"
  by (simp add: after_colon_def find_sub_single_append [of "CHR '':''", simplified])

lemma section_key_facts:
  assumes "key \<in> set section_keys"
  shows "name_ok key" "section_key (key @ '':'') = Some key" "after_colon (key @ '':'') = Some []"
proof -
  show ok: "name_ok key"
    using assms by (auto simp: section_keys_def name_ok_def name_char_def ascii_alnum_code)
  note f = name_ok_facts [OF ok]
  show "section_key (key @ '':'') = Some key" by (simp add: section_key_def colon_line f)
  show "after_colon (key @ '':'') = Some []" using after_colon_append [OF f(7), of "[]"] by simp
qed

lemma section_header:
  assumes "key \<in> set section_keys" "sec \<noteq> None \<longrightarrow> k = 4"
  shows "compose_line 4 (key @ '':'') (at_service before svc sec k) = Some (at_service before svc (Some key) 4)"
proof -
  have "section_line 4 (key @ '':'') (sv_name svc) (at_service before svc None k)
          = Some (at_service before svc (Some key) 4)"
    using section_key_facts [OF assms(1)] assms(1)
    by (simp add: section_line_def Let_def at_service_def section_keys_def)
  then have "service_line 4 (key @ '':'') (at_service before svc None k)
          = Some (at_service before svc (Some key) 4)"
    by (simp add: service_line_def at_service_def)
  then show ?thesis
    using assms(2) by (cases sec) (simp_all add: compose_line_def at_service_def)
qed

lemma section_item:
  assumes "sv_name svc \<notin> sv_name ` set before" "4 < n"
  shows "compose_line n trimmed (at_service before svc (Some sec) 4) =
           Some (at_service before (parse_section_item sec trimmed svc) (Some sec) 4)"
proof -
  have name: "sv_name (parse_section_item sec trimmed svc) = sv_name svc" for sec trimmed svc
  proof -
    have inl: "sv_name (fold (push_inline s) xs v) = sv_name v" for s xs v
      by (induction xs arbitrary: v) (simp_all add: push_inline_def Let_def)
    show ?thesis
      by (simp add: parse_section_item_def list_dependency_def map_dependency_def Let_def
          parse_inline_list_def inl split: option.splits)
  qed
  have "compose_line n trimmed (at_service before svc (Some sec) 4)
        = update_service (sv_name svc) (parse_section_item sec trimmed) (at_service before svc (Some sec) 4)"
    using assms(2) by (simp add: compose_line_def at_service_def)
  with update_at_service [where f = "parse_section_item sec trimmed", OF assms(1) name]
  show ?thesis by simp
qed

lemma image_line:
  assumes "sv_name svc \<notin> sv_name ` set before" "image_ok w"
  shows "compose_line 4 (''image: '' @ w) (at_service before svc None k) =
           Some (at_service before (svc\<lparr>sv_image := Some w\<rparr>) None k)"
proof -
  have v: "value_ok w" "last w \<noteq> CHR '':''" using assms(2) by (auto simp: image_ok_def)
  note f = value_ok_facts [OF v(1)]
  have t: "trim ('' '' @ w) = w" using trim_pad [OF f(2), of "'' ''" "[]"] by (simp add: ascii_ws_def)
  have no_end: "\<not> ends_with (''image: '' @ w) '':''"
    using f(1) v(2) by (cases w rule: rev_cases) (auto simp: ends_with_def strip_suffix_def split: option.splits)
  have "contains (''image: '' @ w) '': ''"
    unfolding contains_iff by (rule exI [of _ "''image''"], rule exI [of _ w]) simp
  moreover have "split_first (''image: '' @ w) '':'' = ''image''" by (simp add: split_first_char)
  moreover have "trim ''image'' = ''image''"
    by (rule trim_plain_ends) (simp add: plain_ends_def plain_char_def ascii_ws_def)
  ultimately have key: "section_key (''image: '' @ w) = Some ''image''"
    using no_end by (simp add: section_key_def)
  have after: "after_colon (''image: '' @ w) = Some ('' '' @ w)"
    using after_colon_append [of "''image''" "'' '' @ w"] by simp
  have "compose_line 4 (''image: '' @ w) (at_service before svc None k)
        = update_service (sv_name svc)
            (\<lambda>svc. if unquote w = [] then svc else svc\<lparr>sv_image := Some (unquote w)\<rparr>)
            (at_service before svc None k)"
    using key after t no_end
    by (simp add: compose_line_def at_service_def service_line_def section_line_def cong: if_cong)
  also have "\<dots> = Some (at_service before (svc\<lparr>sv_image := Some w\<rparr>) None k)"
    using update_at_service [OF assms(1), of "\<lambda>svc. svc\<lparr>sv_image := Some w\<rparr>"] f(1)
    by (simp add: unquote_value [OF v(1)])
  finally show ?thesis .
qed


text \<open>One list of items after another.\<close>

lemma item_lines:
  assumes "sv_name svc \<notin> sv_name ` set before" "list_all value_ok ws"
    "sec = ''ports'' \<and> upd = (\<lambda>ws svc. svc\<lparr>sv_ports := sv_ports svc @ ws\<rparr>)
     \<or> sec = ''profiles'' \<and> upd = (\<lambda>ws svc. svc\<lparr>sv_profiles := sv_profiles svc @ ws\<rparr>)"
  shows "compose_loop (map (\<lambda>w. pad 6 (quoted_item w)) ws @ rest) (at_service before svc (Some sec) 4)
           = compose_loop rest (at_service before (upd ws svc) (Some sec) 4)"
  using assms(1,2)
proof (induction ws arbitrary: svc)
  case Nil
  with assms(3) show ?case by auto
next
  case (Cons w ws)
  have w: "value_ok w" "w \<noteq> []" using Cons.prems(2) value_ok_facts(1) by auto
  have ends: "plain_ends (quoted_item w)" "hd (quoted_item w) \<noteq> CHR ''#''"
    using dq_plain by (simp_all add: quoted_item_def plain_ends_def plain_char_def ascii_ws_def)
  have dash: "starts_with (quoted_item w) ''-''" "\<not> starts_with (quoted_item w) ''[''"
    by (simp_all add: quoted_item_def starts_with_single)
  have item: "parse_section_item sec (quoted_item w) svc = upd [w] svc"
    using assms(3) dash list_item_quoted [OF w(1)] w(2) by (auto simp: parse_section_item_def Let_def)
  have "sv_name (upd [w] svc) = sv_name svc" "upd ws (upd [w] svc) = upd (w # ws) svc"
    using assms(3) by auto
  then show ?case
    using Cons.IH [of "upd [w] svc"] Cons.prems section_item [OF Cons.prems(1), of 6]
    by (simp add: step_line [OF ends] item)
qed

lemmas port_lines = item_lines [where sec = "''ports''" and
    upd = "\<lambda>ws svc. svc\<lparr>sv_ports := sv_ports svc @ ws\<rparr>", OF _ _ disjI1, OF _ _ conjI, OF _ _ refl refl]

lemmas profile_lines = item_lines [where sec = "''profiles''" and
    upd = "\<lambda>ws svc. svc\<lparr>sv_profiles := sv_profiles svc @ ws\<rparr>", OF _ _ disjI2, OF _ _ conjI, OF _ _ refl refl]

lemma condition_prefix:
  assumes "starts_with (d @ '':'') ''condition''"
  shows "starts_with d ''condition''"
proof -
  obtain r where r: "d @ '':'' = ''condition'' @ r" using assms by (auto simp: starts_with_iff)
  then have "r \<noteq> []" by (cases d rule: rev_cases) auto
  with r obtain r' where "d = ''condition'' @ r'" by (cases r rule: rev_cases) auto
  then show ?thesis by (simp only: starts_with_append)
qed

lemma condition_item: "parse_section_item ''depends_on'' ''condition: service_healthy'' svc = svc"
  by (simp add: parse_section_item_def map_dependency_def list_dependency_def ends_with_def
      strip_suffix_def starts_with_Cons)

lemma dependency_item:
  assumes "dependency_ok d"
  shows "parse_section_item ''depends_on'' (d @ '':'') svc = svc\<lparr>sv_depends_on := sv_depends_on svc @ [d]\<rparr>"
proof -
  have d: "name_ok d" "\<not> starts_with d ''condition''" using assms by (auto simp: dependency_ok_def)
  note f = name_ok_facts [OF d(1)]
  have no: "\<not> starts_with (d @ '':'') ''condition''" "\<not> starts_with (d @ '':'') ''-''"
    using d(2) condition_prefix f(1,3) by (auto simp: starts_with_hd)
  show ?thesis
    using no colon_line [OF f(1,2)] f(1,6)
    by (simp add: parse_section_item_def map_dependency_def list_dependency_def)
qed

lemma depends_lines:
  assumes "sv_name svc \<notin> sv_name ` set before" "list_all dependency_ok ds"
  shows "compose_loop (concat (map dependency_lines ds) @ rest)
           (at_service before svc (Some ''depends_on'') 4)
         = compose_loop rest
             (at_service before (svc\<lparr>sv_depends_on := sv_depends_on svc @ ds\<rparr>) (Some ''depends_on'') 4)"
  using assms
proof (induction ds arbitrary: svc)
  case (Cons d ds)
  have d: "dependency_ok d" "name_ok d" using Cons.prems(2) by (auto simp: dependency_ok_def)
  note f = name_ok_facts [OF d(2)]
  let ?svc = "svc\<lparr>sv_depends_on := sv_depends_on svc @ [d]\<rparr>"
  let ?rest = "concat (map dependency_lines ds) @ rest"
  have not_hash: "hd (d @ '':'') \<noteq> CHR ''#''" using f(1,3) by simp
  have cond: "plain_ends ''condition: service_healthy''"
    by (simp add: plain_ends_def plain_char_def ascii_ws_def)
  have "compose_loop (pad 6 (d @ '':'') # pad 8 ''condition: service_healthy'' # ?rest)
          (at_service before svc (Some ''depends_on'') 4)
        = compose_loop (pad 8 ''condition: service_healthy'' # ?rest)
            (at_service before ?svc (Some ''depends_on'') 4)"
    by (simp add: step_line [OF f(5) not_hash] section_item [OF Cons.prems(1)] dependency_item [OF d(1)])
  also have "\<dots> = compose_loop ?rest (at_service before ?svc (Some ''depends_on'') 4)"
    using Cons.prems(1) step_line [OF cond, of 8 ?rest]
    by (simp add: section_item condition_item)
  finally show ?case using Cons.IH [of ?svc] Cons.prems by (simp add: dependency_lines_def [of d])
qed simp

lemma listener_item:
  assumes "port_ok p"
  shows "parse_section_item ''environment'' (''KAFKA_CFG_LISTENERS: '' @ [dq] @ ''PLAINTEXT://:'' @ p @ [dq]) svc
           = svc\<lparr>sv_internal_port := Some p\<rparr>"
proof -
  have p: "value_ok p" "CHR '':'' \<notin> set p" "CHR '','' \<notin> set p" using assms by (auto simp: port_ok_def)
  note f = value_ok_facts [OF p(1)]
  let ?l = "''PLAINTEXT://:'' @ p"
  have last: "last ?l = last p" "hd ?l = CHR ''P''" using f(1) by simp_all
  have ends: "plain_ends ?l" "plain_ends ([dq] @ ?l @ [dq])"
    using f(1,2) dq_plain(1) by (simp_all add: plain_ends_def plain_char_def ascii_ws_def)
  have "trim ('' '' @ ([dq] @ ?l @ [dq]) @ []) = [dq] @ ?l @ [dq]"
    by (rule trim_pad [OF ends(2)]) (simp_all add: ascii_ws_def)
  moreover have "trim_char ([dq] @ ?l @ [dq]) dq = ?l"
    by (rule trim_char_wrap) (use f last in \<open>simp_all add: dq_def\<close>)
  moreover have "split_on ?l '','' = [?l]" using p(3) by (intro split_on_no_char) simp
  moreover have "split_last ?l '':'' = p"
    using split_on_single_char [of "CHR '':''" "''PLAINTEXT''" "''//:'' @ p"]
      split_on_single_char [of "CHR '':''" "''//''" p] split_on_no_char [OF p(2)]
    by (simp add: split_last_def)
  moreover have "starts_with ?l ''PLAINTEXT://''" by (simp add: starts_with_Cons)
  ultimately have "plaintext_port (trim_char (trim ('' '' @ [dq] @ ?l @ [dq])) dq) = Some p"
    using trim_plain_ends [OF ends(1)] by (simp add: plaintext_port_def)
  then show ?thesis by (simp add: parse_section_item_def)
qed

section \<open>Round trip\<close>

text \<open>
  \<open>parses lines before svc svc'\<close>: inside a service, the lines turn \<open>svc\<close> into \<open>svc'\<close>, whatever
  section was open and whatever follows.
\<close>

definition parses :: "string list \<Rightarrow> compose_service list \<Rightarrow> compose_service \<Rightarrow> compose_service \<Rightarrow> bool" where
  "parses ls before svc svc' =
     (\<forall>sec k. (sec \<noteq> None \<longrightarrow> k = 4) \<longrightarrow>
        (\<exists>sec' k'. (sec' \<noteq> None \<longrightarrow> k' = 4)
           \<and> (\<forall>rest. compose_loop (ls @ rest) (at_service before svc sec k)
                       = compose_loop rest (at_service before svc' sec' k'))))"

lemma parsesD:
  "parses ls before svc svc' \<Longrightarrow> sec \<noteq> None \<longrightarrow> k = 4 \<Longrightarrow>
     \<exists>sec' k'. (sec' \<noteq> None \<longrightarrow> k' = 4)
       \<and> (\<forall>rest. compose_loop (ls @ rest) (at_service before svc sec k)
                   = compose_loop rest (at_service before svc' sec' k'))"
  unfolding parses_def by simp

lemma parses_append:
  assumes a: "parses xs before a b" and b: "parses ys before b c"
  shows "parses (xs @ ys) before a c"
  unfolding parses_def
proof (intro allI impI)
  fix sec :: "string option" and k :: nat assume "sec \<noteq> None \<longrightarrow> k = 4"
  from parsesD [OF a this] obtain sec1 k1 where 1: "sec1 \<noteq> None \<longrightarrow> k1 = 4"
    "\<And>rest. compose_loop (xs @ rest) (at_service before a sec k) = compose_loop rest (at_service before b sec1 k1)"
    by blast
  from parsesD [OF b 1(1)] obtain sec2 k2 where 2: "sec2 \<noteq> None \<longrightarrow> k2 = 4"
    "\<And>rest. compose_loop (ys @ rest) (at_service before b sec1 k1) = compose_loop rest (at_service before c sec2 k2)"
    by blast
  have "compose_loop ((xs @ ys) @ rest) (at_service before a sec k)
      = compose_loop rest (at_service before c sec2 k2)" for rest
    by (simp only: append_assoc 1(2) 2(2))
  with 2(1) show "\<exists>sec' k'. (sec' \<noteq> None \<longrightarrow> k' = 4)
      \<and> (\<forall>rest. compose_loop ((xs @ ys) @ rest) (at_service before a sec k)
                  = compose_loop rest (at_service before c sec' k'))"
    by blast
qed

lemma section_block:
  assumes body: "\<And>rest. compose_loop (body @ rest) (at_service before svc (Some key) 4)
        = compose_loop rest (at_service before svc' (Some key) 4)"
    and "key \<in> set section_keys" "body = [] \<Longrightarrow> svc' = svc"
  shows "parses (section_lines key body) before svc svc'"
  unfolding parses_def
proof (intro allI impI)
  fix sec :: "string option" and k :: nat assume sec: "sec \<noteq> None \<longrightarrow> k = 4"
  note f = name_ok_facts [OF section_key_facts(1) [OF assms(2)]]
  have hash: "hd (key @ '':'') \<noteq> CHR ''#''" using f(1,3) by simp
  show "\<exists>sec' k'. (sec' \<noteq> None \<longrightarrow> k' = 4)
      \<and> (\<forall>rest. compose_loop (section_lines key body @ rest) (at_service before svc sec k)
                  = compose_loop rest (at_service before svc' sec' k'))"
  proof (cases "body = []")
    case True
    with assms(3) sec show ?thesis
      by (intro exI [of _ sec] exI [of _ k]) (simp add: section_lines_def)
  next
    case False
    then show ?thesis
      using body section_header [OF assms(2) sec]
      by (intro exI [of _ "Some key"] exI [of _ 4])
        (simp add: section_lines_def step_line [OF f(5) hash])
  qed
qed

lemma image_block:
  assumes "sv_name svc \<notin> sv_name ` set before" "pred_option image_ok img" "sv_image svc = None"
  shows "compose_loop (image_lines img @ rest) (at_service before svc None k)
           = compose_loop rest (at_service before (svc\<lparr>sv_image := img\<rparr>) None k)"
proof (cases img)
  case None
  moreover from assms(3) have "svc\<lparr>sv_image := None\<rparr> = svc" by simp
  ultimately show ?thesis by (simp add: image_lines_def)
next
  case (Some w)
  with assms(2) have w: "image_ok w" by simp
  then have "plain_ends w" "w \<noteq> []" using value_ok_facts by (auto simp: image_ok_def)
  then have ends: "plain_ends (''image: '' @ w)" "hd (''image: '' @ w) \<noteq> CHR ''#''"
    by (simp_all add: plain_ends_def plain_char_def ascii_ws_def)
  show ?thesis
    using step_line [OF ends, of 4 rest] image_line [OF assms(1) w] by (simp add: Some image_lines_def)
qed

lemma service_block:
  assumes ok: "service_ok s" and fresh: "sv_name s \<notin> sv_name ` set before"
  shows "\<exists>sec' k'. (sec' \<noteq> None \<longrightarrow> k' = 4)
    \<and> (\<forall>rest. compose_loop (tl (service_lines s) @ rest) (at_service before (empty_service (sv_name s)) None k)
                = compose_loop rest (at_service before s sec' k'))"
proof -
  note ok = ok [unfolded service_ok_def]
  define e1 where "e1 = (empty_service (sv_name s))\<lparr>sv_image := sv_image s\<rparr>"
  define e2 where "e2 = e1\<lparr>sv_profiles := sv_profiles s\<rparr>"
  define e3 where "e3 = e2\<lparr>sv_depends_on := sv_depends_on s\<rparr>"
  define e4 where "e4 = e3\<lparr>sv_internal_port := sv_internal_port s\<rparr>"
  note e = e1_def e2_def e3_def e4_def empty_service_def
  have s: "e4\<lparr>sv_ports := sv_ports e4 @ sv_ports s\<rparr> = s" and e4: "sv_name e4 = sv_name s"
    by (simp_all add: e)
  let ?items = "map (\<lambda>w. pad 6 (quoted_item w))"
  have profiles: "parses (section_lines ''profiles'' (?items (sv_profiles s))) before e1 e2"
    by (rule section_block, subst profile_lines)
      (use ok fresh in \<open>simp_all add: e section_keys_def\<close>)
  have depends: "parses (section_lines ''depends_on'' (concat (map dependency_lines (sv_depends_on s))))
      before e2 e3"
    by (rule section_block, subst depends_lines)
      (use ok fresh in \<open>auto simp: e section_keys_def dependency_lines_def\<close>)
  have environment: "parses (section_lines ''environment'' (listener_lines (sv_internal_port s))) before e3 e4"
  proof (rule section_block)
    fix rest
    show "compose_loop (listener_lines (sv_internal_port s) @ rest) (at_service before e3 (Some ''environment'') 4)
        = compose_loop rest (at_service before e4 (Some ''environment'') 4)"
    proof (cases "sv_internal_port s")
      case (Some p)
      let ?l = "''KAFKA_CFG_LISTENERS: '' @ [dq] @ ''PLAINTEXT://:'' @ p @ [dq]"
      have p: "port_ok p" using ok Some by simp
      have ends: "plain_ends ?l" "hd ?l \<noteq> CHR ''#''"
        using dq_plain by (simp_all add: plain_ends_def plain_char_def ascii_ws_def)
      have "sv_name e3 \<notin> sv_name ` set before" using fresh by (simp add: e)
      with step_line [OF ends, of 6 rest] show ?thesis
        by (simp add: Some listener_lines_def e4_def section_item [of _ _ 6] listener_item [OF p, simplified])
    qed (simp add: listener_lines_def e)
  qed (auto simp: section_keys_def listener_lines_def e split: option.splits)
  have ports: "parses (section_lines ''ports'' (?items (sv_ports s))) before e4 s"
  proof (rule section_block)
    show "compose_loop (?items (sv_ports s) @ rest) (at_service before e4 (Some ''ports'') 4)
        = compose_loop rest (at_service before s (Some ''ports'') 4)" for rest
      using port_lines [of e4 before "sv_ports s" rest] fresh ok unfolding s e4 by blast
  qed (use s in \<open>auto simp: section_keys_def\<close>)
  define rest_lines where "rest_lines = section_lines ''profiles'' (?items (sv_profiles s))
      @ section_lines ''depends_on'' (concat (map dependency_lines (sv_depends_on s)))
      @ section_lines ''environment'' (listener_lines (sv_internal_port s))
      @ section_lines ''ports'' (?items (sv_ports s))"
  have all_lines: "tl (service_lines s) = image_lines (sv_image s) @ rest_lines"
    by (simp add: service_lines_def rest_lines_def)
  have img: "compose_loop (image_lines (sv_image s) @ rest)
      (at_service before (empty_service (sv_name s)) None k) = compose_loop rest (at_service before e1 None k)" for rest
    unfolding e1_def by (rule image_block) (use fresh ok in \<open>simp_all add: empty_service_def\<close>)
  have "parses rest_lines before e1 s"
    unfolding rest_lines_def
    by (rule parses_append [OF profiles parses_append [OF depends parses_append [OF environment ports]]])
  from parsesD [OF this, of None k] show ?thesis by (simp add: all_lines img)
qed

definition in_file :: "compose_service list \<Rightarrow> compose_state \<Rightarrow> bool" where
  "in_file before st =
     (cp_services st = map (\<lambda>s. (sv_name s, s)) before \<and> cp_in_services st
      \<and> (cp_service st = None \<and> cp_section st = None
         \<or> cp_service st \<noteq> None \<and> cp_service_indent st = 2
            \<and> (cp_section st = None \<or> 2 \<le> cp_section_indent st)))"

lemma services_read:
  assumes "list_all service_ok svs" "distinct (map sv_name (before @ svs))" "in_file before st"
  shows "map_option cp_services (compose_loop (concat (map service_lines svs)) st)
           = Some (map (\<lambda>s. (sv_name s, s)) (before @ svs))"
  using assms
proof (induction svs arbitrary: before st)
  case Nil
  then show ?case by (simp add: in_file_def)
next
  case (Cons s svs)
  have s: "service_ok s" "name_ok (sv_name s)" using Cons.prems(1) by (auto simp: service_ok_def)
  have fresh: "sv_name s \<notin> sv_name ` set before" using Cons.prems(2) by auto
  note f = name_ok_facts [OF s(2)]
  have hash: "hd (sv_name s @ '':'') \<noteq> CHR ''#''" using f(1,3) by simp
  obtain sec k where loop: "(sec \<noteq> None \<longrightarrow> k = 4)
      \<and> (\<forall>rest. compose_loop (tl (service_lines s) @ rest)
                    (at_service before (empty_service (sv_name s)) None (cp_section_indent st))
                  = compose_loop rest (at_service before s sec k))"
    using service_block [OF s(1) fresh, of "cp_section_indent st"] by (elim exE) (rule that)
  have "compose_line 2 (sv_name s @ '':'') st
      = Some (at_service before (empty_service (sv_name s)) None (cp_section_indent st))"
    using Cons.prems(3) fresh
    by (subst service_header [OF s(2)])
      (auto simp: in_file_def at_service_def empty_service_def image_image)
  then have "compose_loop (concat (map service_lines (s # svs))) st
      = compose_loop (concat (map service_lines svs)) (at_service before s sec k)"
    using step_line [OF f(5) hash, of 2] loop by (simp add: service_lines_def)
  moreover have "in_file (before @ [s]) (at_service before s sec k)"
    using loop by (auto simp: in_file_def at_service_def)
  ultimately show ?case
    using Cons.IH [of "before @ [s]"] Cons.prems(1,2) by simp
qed

lemma line_ok_chars:
  assumes "\<forall>c\<in>set l. plain_char c \<or> c = CHR 0x20"
  shows "line_ok l"
proof -
  have "\<forall>c\<in>set l. c \<noteq> CHR 0x0A \<and> c \<noteq> CHR 0x0D" using assms by (auto simp: plain_char_def ascii_ws_def)
  with last_in_set show ?thesis by (auto simp: line_ok_def)
qed

definition line_chars :: "string \<Rightarrow> bool" where
  "line_chars l = (\<forall>c\<in>set l. plain_char c \<or> c = CHR 0x20)"

lemma line_chars_append [simp]: "line_chars (a @ b) \<longleftrightarrow> line_chars a \<and> line_chars b"
  by (auto simp: line_chars_def)

lemma line_chars_pad [simp]: "line_chars (pad n a) \<longleftrightarrow> line_chars a"
  by (auto simp: line_chars_def pad_def)

lemma line_chars_Cons [simp]: "line_chars (c # a) \<longleftrightarrow> (plain_char c \<or> c = CHR 0x20) \<and> line_chars a"
  "line_chars []"
  by (auto simp: line_chars_def)

lemma value_chars: "value_ok w \<Longrightarrow> line_chars w"
  by (auto simp: value_ok_def list_all_iff line_chars_def)

lemma name_chars: "name_ok w \<Longrightarrow> line_chars w"
  by (auto simp: name_ok_def list_all_iff line_chars_def name_char_plain)

lemma section_lines_chars:
  "list_all line_chars body \<Longrightarrow> line_chars key \<Longrightarrow> list_all line_chars (section_lines key body)"
  by (simp add: section_lines_def plain_char_def ascii_ws_def)

lemma quoted_item_chars: "value_ok w \<Longrightarrow> line_chars (pad 6 (quoted_item w))"
  using dq_plain(1) by (simp add: quoted_item_def value_chars)
    (simp add: plain_char_def ascii_ws_def)

lemma service_lines_ok:
  assumes "service_ok s" "l \<in> set (service_lines s)"
  shows "line_ok l"
proof (rule line_ok_chars, fold line_chars_def)
  note ok = assms(1) [unfolded service_ok_def]
  have colon: "plain_char CHR '':''" by (simp add: plain_char_def ascii_ws_def)
  have keys: "list_all line_chars section_keys"
    by (simp add: section_keys_def plain_char_def ascii_ws_def)
  have name: "line_chars (pad 2 (sv_name s @ '':''))"
    using ok colon by (simp add: name_chars)
  have img: "list_all line_chars (image_lines (sv_image s))"
    using ok by (cases "sv_image s")
      (simp_all add: image_lines_def image_ok_def value_chars, simp add: plain_char_def ascii_ws_def)
  have items: "list_all line_chars (map (\<lambda>w. pad 6 (quoted_item w)) ws)" if "list_all value_ok ws" for ws
    using that quoted_item_chars by (auto simp: list_all_iff)
  have dep: "list_all line_chars (dependency_lines d)" if "dependency_ok d" for d
    using that colon
    by (simp add: dependency_lines_def dependency_ok_def name_chars)
      (simp add: plain_char_def ascii_ws_def)
  have deps: "list_all line_chars (concat (map dependency_lines (sv_depends_on s)))"
    using ok dep by (auto simp: list_all_iff)
  have env: "list_all line_chars (listener_lines (sv_internal_port s))"
    using ok dq_plain(1) by (cases "sv_internal_port s")
      (simp_all add: listener_lines_def port_ok_def value_chars,
        simp add: plain_char_def ascii_ws_def)
  have "list_all line_chars (service_lines s)"
    using name img items deps env ok keys section_lines_chars
    by (simp add: service_lines_def section_keys_def)
  with assms(2) show "line_chars l" by (simp add: list_all_iff)
qed

text \<open>
  C12 (reading back a printed compose file). For services with distinct printable names and
  values, parsing the printed file gives exactly these services: image, profiles, dependencies,
  ports and the internal Kafka port, in the order of the file.
\<close>

theorem compose_roundtrip:
  assumes "list_all service_ok svs" "distinct (map sv_name svs)"
  shows "parse_compose (print_compose svs) = Some (map (\<lambda>s. (sv_name s, s)) svs)"
proof -
  have "\<forall>l\<in>set (''services:'' # concat (map service_lines svs)). line_ok l"
    using assms(1) service_lines_ok by (auto simp: list_all_iff line_ok_def)
  then have ls: "str_lines (print_compose svs) = pad 0 ''services:'' # concat (map service_lines svs)"
    unfolding print_compose_def by (subst str_lines_concat) (simp_all add: pad_def)
  have ends: "plain_ends ''services:''" by (simp add: plain_ends_def plain_char_def ascii_ws_def)
  have top: "compose_line 0 ''services:'' compose_start = Some (compose_start\<lparr>cp_in_services := True\<rparr>)"
    by (simp add: compose_line_def ends_with_def strip_suffix_def compose_start_def starts_with_single)
  have "in_file [] (compose_start\<lparr>cp_in_services := True\<rparr>)" by (simp add: in_file_def compose_start_def)
  from services_read [OF assms(1) _ this] assms(2) show ?thesis
    using step_line [OF ends, of 0] by (simp add: parse_compose_def ls top starts_with_Cons)
qed

definition demo_services :: "compose_service list" where
  "demo_services =
     [\<lparr>sv_name = ''kafka'', sv_image = Some ''bitnamilegacy/kafka:3.9.0'', sv_depends_on = [],
       sv_profiles = [''dataplane'', ''all''], sv_ports = [''127.0.0.1:19092:19092''],
       sv_internal_port = Some ''9092''\<rparr>,
      \<lparr>sv_name = ''consumer'', sv_image = None, sv_depends_on = [''nats'', ''kafka''],
       sv_profiles = [''all''], sv_ports = [], sv_internal_port = None\<rparr>]"

lemma demo_services_ok: "list_all service_ok demo_services" "distinct (map sv_name demo_services)"
proof -
  have names: "list_all name_ok [''kafka'', ''consumer'', ''nats'']"
    by (simp add: name_ok_def name_char_def ascii_alnum_code Let_def)
  have vals: "list_all value_ok [''bitnamilegacy/kafka:3.9.0'', ''dataplane'', ''all'',
      ''127.0.0.1:19092:19092'', ''9092'']"
    by (simp add: value_ok_def plain_char_def ascii_ws_def dq_def)
  show "list_all service_ok demo_services"
    using names vals
    by (simp add: demo_services_def service_ok_def dependency_ok_def image_ok_def port_ok_def starts_with_Cons)
  show "distinct (map sv_name demo_services)" by (simp add: demo_services_def)
qed

theorem compose_roundtrip_witness:
  "parse_compose (print_compose demo_services)
     = Some [(''kafka'', hd demo_services), (''consumer'', last demo_services)]"
  using compose_roundtrip [OF demo_services_ok] by (simp add: demo_services_def)

text \<open>
  Property (inline dependencies). A dependency list written inline, \<open>depends_on: [nats, kafka]\<close>,
  is read and dropped: the service keeps the dependencies it had.
\<close>

theorem inline_dependencies_dropped: "parse_inline_list ''depends_on'' v svc = svc"
proof -
  have "fold (push_inline ''depends_on'') items svc = svc" for items
    by (induction items) (simp_all add: push_inline_def Let_def)
  then show ?thesis by (simp add: parse_inline_list_def)
qed

end
