(* ===== verification/TopologyProps.thy ===== *)
theory TopologyProps
  imports Topology ComposeRoundTrip
begin

text \<open>
  Properties of the topology doctor: what a passing report guarantees, that the order of hash
  maps does not change its verdict, and two of its checks that do not check what they are
  meant to.
\<close>

section \<open>Findings\<close>

lemma topology_checks_wf: "\<forall>c\<in>set (topology_checks J from_str io_error h root). check_wf c"
proof -
  have "check_wf c" if "c \<in> set (cross_checks h topo)" for c topo
    using that
    by (auto simp: cross_checks_def check_kafka_broker_consistency_def check_nats_url_consistency_def
        check_bootstrap_url_consistency_def check_bootstrap_reconcile_consistency_def
        check_stream_subject_alignment_def check_durable_stream_alignment_def check_pipeline_continuity_def
        check_wf_from_findings check_wf_skip split: option.splits)
  moreover have "check_wf c" if "c \<in> set (fst (read_compose io_error root))" for c
    using that
    by (auto simp: read_compose_def check_compose_def check_compose_dependencies_def
        check_compose_runtime_contract_def Let_def check_wf_from_findings
        split: option.splits fs_node.splits)
  moreover have "check_wf c" if "c \<in> set (fst (read_source io_error root))" for c
    using that
    by (auto simp: read_source_def check_source_streams_def check_source_durables_def
        check_source_subjects_def check_wf_from_findings split: if_splits sum.splits)
  ultimately show ?thesis
    by (auto simp: topology_checks_def Let_def check_configs_def check_wf_from_findings check_wf_pass)
qed

interpretation topology: total_analyser "topology_analyze J from_str io_error h"
  for J :: "'j value_api" and from_str io_error h
proof
  have "report_wf (foldl report_add (report_new ''topology-doctor'') (topology_checks J from_str io_error h root))"
    for root
    using topology_checks_wf by (intro report_wf_foldl report_wf_new)
  then show "topology_analyze J from_str io_error h root = Inr r \<Longrightarrow> report_wf r" for root r
    by (metis topology_analyze_def sum.inject(2))
  show "\<exists>r. topology_analyze J from_str io_error h root = Inr r" for root
    by (simp add: topology_analyze_def)
qed

section \<open>The maps the readers build\<close>

lemma parse_all_configs_wf: "hm_wf (parse_all_configs J from_str es)"
proof -
  have "hm_wf m \<Longrightarrow> hm_wf (fold (config_entry J from_str) es m)" for m
    by (induction es arbitrary: m) (simp_all add: config_entry_def Let_def)
  then show ?thesis by (simp add: parse_all_configs_def)
qed

lemma hm_wf_extend: "hm_wf m \<Longrightarrow> hm_wf (hm_extend k xs m)"
  by (simp add: hm_extend_def)

lemma hm_wf_dedup: "hm_wf (dedup_values m) = hm_wf m"
  by (simp add: hm_wf_def dedup_values_def comp_def case_prod_beta)

lemma streams_from_wf: "hm_wf m \<Longrightarrow> hm_wf (streams_from all_lines i ls m)"
  by (induction all_lines i ls m rule: streams_from.induct)
    (simp_all add: hm_wf_extend split: option.splits)

lemma durables_from_wf: "hm_wf m \<Longrightarrow> hm_wf (durables_from all_lines i ls m)"
proof (induction all_lines i ls m rule: durables_from.induct)
  case (2 all_lines i line rest durables)
  have "hm_wf m \<Longrightarrow> hm_wf (fold (\<lambda>val m. case durable_stream all_lines i of
      Some stream \<Rightarrow> hm_insert val stream m | None \<Rightarrow> m) found m)" for found and m :: "string hash_map"
    by (induction found arbitrary: m) (simp_all split: option.splits)
  with 2 show ?case by (simp add: Let_def)
qed simp

lemma scan_source_wf:
  assumes "scan_source io_error es = Inr st"
  shows "hm_wf (st_streams st)" "hm_wf (st_durables st)"
proof -
  have "hm_wf (st_streams t) \<and> hm_wf (st_durables t) \<Longrightarrow>
      hm_wf (st_streams (fold scan_file cs t)) \<and> hm_wf (st_durables (fold scan_file cs t))" for cs t
    by (induction cs arbitrary: t)
      (simp_all add: scan_file_def extract_streams_def extract_durables_def hm_wf_dedup
        streams_from_wf durables_from_wf Let_def)
  from this [of "\<lparr>st_streams = [], st_durables = [], st_subjects = []\<rparr>"] assms
  show "hm_wf (st_streams st)" "hm_wf (st_durables st)"
    by (auto simp: scan_source_def Let_def split: sum.splits)
qed

definition topology_wf :: "topology \<Rightarrow> bool" where
  "topology_wf topo =
     (hm_wf (tp_configs topo)
      \<and> (case tp_source topo of Some st \<Rightarrow> hm_wf (st_streams st) \<and> hm_wf (st_durables st) | None \<Rightarrow> True))"

lemma read_topology_wf: "topology_wf (read_topology J from_str io_error root)"
  using scan_source_wf
  by (auto simp: topology_wf_def read_topology_def parse_all_configs_wf read_source_def
      split: option.splits sum.splits if_splits)

section \<open>Independence of the iteration order\<close>

lemma compare_first_severities:
  assumes "\<And>a b. differ a b \<longleftrightarrow> g a \<noteq> g b" "\<And>r e. fd_severity (f r e) = Warning"
  shows "fd_severity ` set (compare_first differ f es) =
           (if \<exists>x\<in>set es. \<exists>y\<in>set es. g (snd x) \<noteq> g (snd y) then {Warning} else {})"
proof (cases es)
  case (Cons r others)
  have "(\<exists>x\<in>set es. \<exists>y\<in>set es. g (snd x) \<noteq> g (snd y)) \<longleftrightarrow> (\<exists>e\<in>set others. g (snd e) \<noteq> g (snd r))"
  proof
    assume "\<exists>x\<in>set es. \<exists>y\<in>set es. g (snd x) \<noteq> g (snd y)"
    then obtain x y where xy: "x \<in> set es" "y \<in> set es" "g (snd x) \<noteq> g (snd y)" by blast
    then obtain e where "e \<in> set es" "g (snd e) \<noteq> g (snd r)"
      by (cases "g (snd x) = g (snd r)") auto
    then show "\<exists>e\<in>set others. g (snd e) \<noteq> g (snd r)" by (auto simp: Cons)
  next
    assume "\<exists>e\<in>set others. g (snd e) \<noteq> g (snd r)"
    then show "\<exists>x\<in>set es. \<exists>y\<in>set es. g (snd x) \<noteq> g (snd y)" by (auto simp: Cons)
  qed
  moreover have "fd_severity ` set (compare_first differ f es)
      = (if \<exists>e\<in>set others. g (snd e) \<noteq> g (snd r) then {Warning} else {})"
    using assms by (auto simp: Cons compare_first_def opt_finding_set image_UN)
  ultimately show ?thesis by simp
qed (simp add: compare_first_def)

lemma compare_first_same:
  assumes "set es = set es'" "\<And>a b. differ a b \<longleftrightarrow> g a \<noteq> g b" "\<And>r e. fd_severity (f r e) = Warning"
  shows "fd_severity ` set (compare_first differ f es) = fd_severity ` set (compare_first differ f es')"
  using assms(1) by (simp add: compare_first_severities [where g = g, OF assms(2,3)])

lemma cross_checks_same:
  assumes h: "orders_ok h" "orders_ok h'" and wf: "topology_wf topo"
  shows "list_all2 same_outcome (cross_checks h topo) (cross_checks h' topo)"
proof -
  have configs: "set (configs_iter h topo) = set (configs_iter h' topo)"
    using iter_set_eq [OF h, of "tp_configs topo"] wf by (simp add: configs_iter_def topology_wf_def)
  have brokers: "set (broker_sets h topo) = set (broker_sets h' topo)"
    by (simp add: broker_sets_def configs)
  have urls: "set (url_entries f h topo) = set (url_entries f h' topo)" for f
    by (simp add: url_entries_def map_filter_def configs)
  have for_b: "set (for_brokers h topo f) = set (for_brokers h' topo f)" for f
    by (simp add: for_brokers_def configs)
  have kafka: "same_outcome (check_kafka_broker_consistency h topo) (check_kafka_broker_consistency h' topo)"
    unfolding check_kafka_broker_consistency_def
    by (rule same_outcome_findings)
      (simp add: image_Un for_b Let_def compare_first_same [where g = set, OF brokers] broker_finding_def split: option.splits)
  have nats: "same_outcome (check_nats_url_consistency h topo) (check_nats_url_consistency h' topo)"
    unfolding check_nats_url_consistency_def
    by (rule same_outcome_findings) (simp add: compare_first_same [where g = "\<lambda>x. x", OF urls] url_finding_def)
  have boot: "same_outcome (check_bootstrap_url_consistency h topo) (check_bootstrap_url_consistency h' topo)"
    unfolding check_bootstrap_url_consistency_def
    by (rule same_outcome_findings)
      (simp add: image_Un image_UN urls compare_first_same [where g = "\<lambda>x. x", OF urls] url_finding_def split: option.splits)
  have subj: "same_outcome (check_stream_subject_alignment h topo) (check_stream_subject_alignment h' topo)"
    unfolding check_stream_subject_alignment_def
    by (cases "tp_source topo")
      (use wf in \<open>simp, simp only: option.case, intro iter_same [OF h], simp add: topology_wf_def\<close>)
  have dur: "same_outcome (check_durable_stream_alignment h topo) (check_durable_stream_alignment h' topo)"
    unfolding check_durable_stream_alignment_def
    by (cases "tp_source topo")
      (use wf in \<open>simp, simp only: option.case, intro iter_same [OF h], simp add: topology_wf_def\<close>)
  show ?thesis using kafka nats boot subj dur by (simp add: cross_checks_def)
qed

interpretation topology_order: order_robust "topology_checks J from_str io_error"
  for J :: "'j value_api" and from_str io_error
proof
  fix h h' :: hash_orders and root :: fs_node
  assume h: "orders_ok h" "orders_ok h'"
  show "list_all2 same_outcome (topology_checks J from_str io_error h root)
                               (topology_checks J from_str io_error h' root)"
    unfolding topology_checks_def Let_def
    by (simp, intro impI list_all2_appendI same_outcome_all_refl cross_checks_same [OF h read_topology_wf])
qed

text \<open>
  C14 (the verdict does not depend on hash order). Whatever the order in which the hash maps of
  configurations, streams and durables are iterated, the topology step of the gate passes or
  does not, under every profile.
\<close>

theorem topology_order_independent:
  assumes "orders_ok h" "orders_ok h'"
  shows "clean p (topology_analyze J from_str io_error h root)
           = clean p (topology_analyze J from_str io_error h' root)"
  unfolding topology_analyze_def by (rule topology_order.same_verdict [OF assms])

theorem topology_order_independent_witness:
  "clean Ci (topology_analyze small_api (\<lambda>_. None) (\<lambda>_. []) (\<lambda>_ ks. ks) (FDir []))
     = clean Ci (topology_analyze small_api (\<lambda>_. None) (\<lambda>_. []) (\<lambda>_ ks. rev ks) (FDir []))"
  by (rule topology_order_independent) (simp_all add: orders_ok_def)

definition two_against_one :: topology where
  "two_against_one =
     \<lparr>tp_configs =
        [(''a'', default_config\<lparr>sc_kafka_brokers := [''x'']\<rparr>), (''b'', default_config\<lparr>sc_kafka_brokers := [''x'']\<rparr>),
         (''c'', default_config\<lparr>sc_kafka_brokers := [''y'']\<rparr>)],
      tp_compose = None, tp_source = None\<rparr>"

text \<open>
  Property (warnings depend on hash order). The number of broker warnings does depend on the
  order: two services with one broker and a third with another give one warning or two,
  according to which service is visited first.
\<close>

theorem broker_warnings_depend_on_order:
  "length (ck_findings (check_kafka_broker_consistency (\<lambda>_ ks. ks) two_against_one)) = 1
   \<and> length (ck_findings (check_kafka_broker_consistency (\<lambda>_ ks. rev ks) two_against_one)) = 2"
  by code_simp

section \<open>What a passing report guarantees\<close>

definition config_of :: "topology \<Rightarrow> string \<Rightarrow> (service_config \<Rightarrow> bool) \<Rightarrow> bool" where
  "config_of topo name P = (case hm_get (tp_configs topo) name of Some cfg \<Rightarrow> P cfg | None \<Rightarrow> False)"

definition pipeline_configured :: "topology \<Rightarrow> bool" where
  "pipeline_configured topo =
     (config_of topo ''emulator'' (\<lambda>c. sc_kafka_brokers c \<noteq> [] \<and> sc_nats_url c \<noteq> None)
      \<and> config_of topo ''consumer'' (\<lambda>c. sc_kafka_brokers c \<noteq> [] \<and> sc_nats_url c \<noteq> None)
      \<and> config_of topo ''validator'' (\<lambda>c. sc_nats_url c \<noteq> None))"

definition streams_connected :: "source_topology \<Rightarrow> bool" where
  "streams_connected st =
     (list_all (hm_has (st_streams st)) [''DATA_PLANE_INGESTION'', ''CONFIGCTL_EVENTS'']
      \<and> list_all (hm_has (st_durables st)) expected_durables
      \<and> list_all (\<lambda>(durable, stream). hm_has (st_streams st) stream) (st_durables st))"

lemma pipeline_configured_if:
  assumes "ck_status (check_pipeline_continuity topo) \<noteq> CheckFail"
    "ck_status (check_configs (tp_configs topo)) \<noteq> CheckFail"
  shows "pipeline_configured topo"
proof -
  have hops: "list_all (\<lambda>(service, transport, d). has_transport (tp_configs topo) service transport) pipeline_hops"
    using assms(1) by (auto simp: check_pipeline_continuity_def check_ok_iff list_all_iff)
  have emulator: "no_error (on_config (tp_configs topo) ''emulator'' emulator_findings)"
    using assms(2) by (simp add: check_configs_def check_ok_iff)
  show ?thesis
    using hops emulator
    by (auto simp: pipeline_configured_def config_of_def pipeline_hops_def has_transport_def on_config_def
        emulator_findings_def split: option.splits)
qed

lemma topology_guarantee:
  assumes "topology_analyze J from_str io_error h root = Inr r" "rp_passed r" "orders_ok h"
  shows "path_is_dir root [''deploy'', ''configs'']
         \<and> pipeline_configured (read_topology J from_str io_error root)
         \<and> pred_option (\<lambda>ct. list_all (hm_has ct) pipeline_services)
             (tp_compose (read_topology J from_str io_error root))
         \<and> pred_option streams_connected (tp_source (read_topology J from_str io_error root))"
proof -
  let ?topo = "read_topology J from_str io_error root"
  have checks: "\<forall>c\<in>set (topology_checks J from_str io_error h root). ck_status c \<noteq> CheckFail"
    using topology.analyse_wf [OF assms(1)] assms(1,2) by (auto simp: topology_analyze_def report_wf_def)
  have dir: "path_is_dir root [''deploy'', ''configs'']"
    using checks by (auto simp: topology_checks_def check_ok_iff split: if_splits)
  have cross: "\<forall>c\<in>set (cross_checks h ?topo). ck_status c \<noteq> CheckFail"
    and configs: "ck_status (check_configs (tp_configs ?topo)) \<noteq> CheckFail"
    and compose: "\<forall>c\<in>set (fst (read_compose io_error root)). ck_status c \<noteq> CheckFail"
    and source: "\<forall>c\<in>set (fst (read_source io_error root)). ck_status c \<noteq> CheckFail"
    using checks dir by (auto simp: topology_checks_def Let_def)
  have "pipeline_configured ?topo"
    using cross configs by (intro pipeline_configured_if) (simp_all add: cross_checks_def)
  moreover have "list_all (hm_has ct) pipeline_services" if "tp_compose ?topo = Some ct" for ct
  proof -
    have "check_compose ct \<in> set (fst (read_compose io_error root))"
      using that by (auto simp: read_topology_def read_compose_def Let_def split: option.splits fs_node.splits)
    with compose have "ck_status (check_compose ct) \<noteq> CheckFail" by blast
    then show ?thesis
      by (auto simp: check_compose_def check_ok_iff list_all_iff)
  qed
  moreover have "streams_connected st" if "tp_source ?topo = Some st" for st
  proof -
    have "{check_source_streams st, check_source_durables st} \<subseteq> set (fst (read_source io_error root))"
      using that by (auto simp: read_topology_def read_source_def split: sum.splits if_splits)
    with source have st: "ck_status (check_source_streams st) \<noteq> CheckFail"
      "ck_status (check_source_durables st) \<noteq> CheckFail" by blast+
    have "ck_status (check_durable_stream_alignment h ?topo) \<noteq> CheckFail"
      using cross by (simp add: cross_checks_def)
    then have "no_error (concat (map (\<lambda>(durable_name, stream).
               opt_finding (\<not> hm_has (st_streams st) stream)
                 (finding_error ''durable-stream''
                    (''durable '' @ quote1 durable_name @ '' references stream '' @ quote1 stream
                     @ '' which was not found''))) (hm_iter (h ''durables'') (st_durables st))))"
      by (simp only: check_durable_stream_alignment_def that option.case check_ok_iff)
    moreover have "hm_wf (st_durables st)"
      using read_topology_wf [of J from_str io_error root] that by (simp add: topology_wf_def)
    then have "set (hm_iter (h ''durables'') (st_durables st)) = set (st_durables st)"
      using assms(3) by (simp add: hm_iter_set orders_ok_def)
    ultimately have "\<forall>(durable, stream)\<in>set (st_durables st). hm_has (st_streams st) stream"
      by (auto simp: list_all_iff)
    then show ?thesis
      using st
      by (auto simp: streams_connected_def check_source_streams_def check_source_durables_def check_ok_iff
          list_all_iff)
  qed
  ultimately show ?thesis using dir by (auto simp: pred_option_def)
qed

text \<open>A passing report was made from a compose file and sources that could be read, where they exist.\<close>

lemma topology_scanned:
  assumes "topology_analyze J from_str io_error h root = Inr r" "rp_passed r"
  shows "lookup_path root compose_path = Some (FFile content)
      \<Longrightarrow> \<exists>ct. tp_compose (read_topology J from_str io_error root) = Some ct"
    and "path_is_dir root [''internal'']
      \<Longrightarrow> \<exists>st. tp_source (read_topology J from_str io_error root) = Some st"
proof -
  have checks: "\<forall>c\<in>set (topology_checks J from_str io_error h root). ck_status c \<noteq> CheckFail"
    using topology.analyse_wf [OF assms(1)] assms(1,2) by (auto simp: topology_analyze_def report_wf_def)
  have dir: "path_is_dir root [''deploy'', ''configs'']"
    using checks by (auto simp: topology_checks_def check_ok_iff split: if_splits)
  have compose: "\<forall>c\<in>set (fst (read_compose io_error root)). ck_status c \<noteq> CheckFail"
    and source: "\<forall>c\<in>set (fst (read_source io_error root)). ck_status c \<noteq> CheckFail"
    using checks dir by (auto simp: topology_checks_def Let_def)
  show "\<exists>ct. tp_compose (read_topology J from_str io_error root) = Some ct"
    if "lookup_path root compose_path = Some (FFile content)"
    using compose that
    by (cases content) (auto simp: read_topology_def read_compose_def Let_def check_ok_iff)
  show "\<exists>st. tp_source (read_topology J from_str io_error root) = Some st" if "path_is_dir root [''internal'']"
    using source that
    by (auto simp: read_topology_def read_source_def check_ok_iff split: sum.splits)
qed

text \<open>
  C13 (what a passing topology report guarantees). When the report passes, the emulator and the
  consumer are configured for both Kafka and NATS and the validator for NATS. If the compose file
  exists, it was read and defines all seven services. If \<open>internal/\<close> exists, its Go sources were
  scanned and define both streams and the four durable consumers, each on a defined stream;
  a project without \<open>internal/\<close> or without a compose file can pass with nothing said about them.
\<close>

theorem topology_passed:
  assumes "topology_analyze J from_str io_error h root = Inr r" "rp_passed r" "orders_ok h"
  shows "path_is_dir root [''deploy'', ''configs'']
         \<and> pipeline_configured (read_topology J from_str io_error root)
         \<and> ((\<exists>content. lookup_path root compose_path = Some (FFile content)) \<longrightarrow>
              (\<exists>ct. tp_compose (read_topology J from_str io_error root) = Some ct
                    \<and> list_all (hm_has ct) pipeline_services))
         \<and> (path_is_dir root [''internal''] \<longrightarrow>
              (\<exists>st. tp_source (read_topology J from_str io_error root) = Some st \<and> streams_connected st))"
  using topology_guarantee [OF assms] topology_scanned [OF assms(1,2)]
  by (fastforce simp: pred_option_def)

definition demo_topology_json :: small_json where
  "demo_topology_json =
     JObj [(''kafka'', JObj [(''brokers'', JArr [JStr ''kafka:9092'']), (''consumer_group'', JStr ''g'')]),
           (''nats'', JObj [(''url'', JStr ''nats://nats:4222'')]),
           (''bootstrap'', JObj [(''base_url'', JStr ''http://server:8080''), (''reconcile_interval'', JStr ''30s'')])]"

definition demo_go :: string where
  "demo_go = concat (map (\<lambda>l. l @ nl)
     [''Name: '' @ [dq] @ ''DATA_PLANE_INGESTION'' @ [dq],
      ''Durable: '' @ [dq] @ ''validator-dataplane-v1'' @ [dq],
      ''Name: '' @ [dq] @ ''CONFIGCTL_EVENTS'' @ [dq],
      ''Durable: '' @ [dq] @ ''validator-runtime-cache-v1'' @ [dq],
      ''Durable: '' @ [dq] @ ''consumer-runtime-refresh-v1'' @ [dq],
      ''Durable: '' @ [dq] @ ''emulator-runtime-refresh-v1'' @ [dq]])"

definition demo_root :: fs_node where
  "demo_root =
     FDir [(''deploy'', FDir [(''configs'', FDir
             [(''consumer.jsonc'', FFile (Some ''c'')), (''emulator.jsonc'', FFile (Some ''e'')),
              (''validator.jsonc'', FFile (Some ''v''))])]),
           (''internal'', FDir [(''registry.go'', FFile (Some demo_go))])]"

definition demo_topology_report :: "cli_error + report" where
  "demo_topology_report =
     topology_analyze small_api (\<lambda>_. Some demo_topology_json) (\<lambda>_. []) (\<lambda>_ ks. ks) demo_root"

lemma demo_topology_passes:
  "case demo_topology_report of Inr r \<Rightarrow> rp_passed r | Inl _ \<Rightarrow> False"
  by code_simp

theorem topology_passed_witness:
  "pipeline_configured (read_topology small_api (\<lambda>_. Some demo_topology_json) (\<lambda>_. []) demo_root)
   \<and> (\<exists>st. tp_source (read_topology small_api (\<lambda>_. Some demo_topology_json) (\<lambda>_. []) demo_root) = Some st
        \<and> streams_connected st)"
proof -
  obtain r where r: "topology_analyze small_api (\<lambda>_. Some demo_topology_json) (\<lambda>_. []) (\<lambda>_ ks. ks) demo_root
      = Inr r" "rp_passed r"
    using demo_topology_passes by (auto simp: demo_topology_report_def split: sum.splits)
  have "orders_ok (\<lambda>_ ks. ks)" by (simp add: orders_ok_def)
  note passed = topology_passed [OF r this]
  have "path_is_dir demo_root [''internal'']" by (simp add: path_is_dir_def demo_root_def)
  with passed show ?thesis by blast
qed

section \<open>What two of the checks miss\<close>

definition comments_clean :: "string list \<Rightarrow> bool" where
  "comments_clean ls = list_all (\<lambda>l. comment_line (trim l) \<longrightarrow> nats_quoted l = []) ls"

definition line_subjects :: "string list \<Rightarrow> string set" where
  "line_subjects ls = (\<Union>l\<in>set ls. if comment_line (trim l) then {} else set (nats_quoted (trim l)))"

lemma nats_quoted_trim [simp]: "nats_quoted (trim l) = nats_quoted l"
  by (simp add: nats_quoted_def extract_all_quoted_trim)

lemma nats_quoted_seen:
  "comments_clean ls \<Longrightarrow> l \<in> set ls \<Longrightarrow> set (nats_quoted l) \<subseteq> line_subjects ls"
  by (fastforce simp: comments_clean_def line_subjects_def list_all_iff split: if_splits)

lemma block_more_subset: "set (block_more ls) \<subseteq> (\<Union>l\<in>set ls. set (nats_quoted l))"
  by (induction ls) auto

lemma find_subjects_near_seen:
  assumes "comments_clean ls"
  shows "set (find_subjects_near ls center radius) \<subseteq> line_subjects ls"
proof -
  have "set (block_subjects (drop i ls)) \<subseteq> line_subjects ls" for i
  proof (cases "drop i ls")
    case (Cons line after)
    have sub: "line \<in> set ls" "set (take 4 after) \<subseteq> set ls"
      using Cons by (metis in_set_dropD list.set_intros(1))
        (metis Cons in_set_dropD in_set_takeD list.set_intros(2) subsetI)
    have "set (block_more (take 4 after)) \<subseteq> line_subjects ls"
      using block_more_subset [of "take 4 after"] nats_quoted_seen [OF assms] sub(2) by blast
    with nats_quoted_seen [OF assms sub(1)] show ?thesis by (auto simp: block_subjects_def Cons Let_def)
  qed (simp add: block_subjects_def)
  then show ?thesis
    by (auto simp: find_subjects_near_def find_Some_iff find_Some_iff2 split: option.splits) blast
qed

definition subjects_seen :: "source_topology \<Rightarrow> bool" where
  "subjects_seen st = (\<forall>k v. hm_get (st_streams st) k = Some v \<longrightarrow> set v \<subseteq> set (st_subjects st))"

lemma streams_from_seen:
  assumes "comments_clean all_lines" "line_subjects all_lines \<subseteq> S"
    "\<forall>k v. hm_get m k = Some v \<longrightarrow> set v \<subseteq> S"
  shows "\<forall>k v. hm_get (streams_from all_lines i ls m) k = Some v \<longrightarrow> set v \<subseteq> S"
  using assms
proof (induction all_lines i ls m rule: streams_from.induct)
  case (2 all_lines i line rest m)
  have "\<forall>k v. hm_get (hm_extend name (find_subjects_near all_lines i 10) m) k = Some v \<longrightarrow> set v \<subseteq> S" for name
    using find_subjects_near_seen [OF "2.prems"(1)] "2.prems"(2,3)
    by (fastforce simp: hm_extend_def split: option.splits if_splits)
  with 2 show ?case by (simp split: option.splits)
qed simp

lemma hm_get_dedup: "hm_get (dedup_values m) k = map_option sort_dedup (hm_get m k)"
  by (induction m) (auto simp: hm_get_def dedup_values_def)

lemma scan_file_seen:
  assumes "subjects_seen topo" "comments_clean (str_lines content)"
  shows "subjects_seen (scan_file content topo)"
proof -
  let ?S = "set (st_subjects (scan_file content topo))"
  have subjects: "?S = set (st_subjects topo) \<union> line_subjects (str_lines content)"
    by (simp add: scan_file_def extract_subjects_def line_subjects_def if_distrib cong: if_cong)
  have "\<forall>k v. hm_get (streams_from (str_lines content) 0 (str_lines content) (st_streams topo)) k = Some v
      \<longrightarrow> set v \<subseteq> ?S"
    by (rule streams_from_seen [OF assms(2)]) (use assms(1) subjects in \<open>auto simp: subjects_seen_def\<close>)
  then show ?thesis
    by (fastforce simp: subjects_seen_def scan_file_def extract_streams_def Let_def hm_get_dedup sort_dedup_def)
qed

text \<open>
  Property (the stream-subject check cannot fail). When no comment of the Go files quotes a subject,
  every subject recorded for a stream was also recorded as a subject, so the check that compares
  the two sets never has a finding.
\<close>

theorem stream_subject_check_vacuous:
  assumes "read_all (\<lambda>p. Io (io_error p)) (files_below ''go'' entries) = Inr contents"
    and "scan_source io_error entries = Inr st" "tp_source topo = Some st" "orders_ok h"
    and "list_all (\<lambda>c. comments_clean (str_lines c)) contents"
  shows "ck_findings (check_stream_subject_alignment h topo) = []"
proof -
  have "subjects_seen (fold scan_file cs t)"
    if "subjects_seen t" "list_all (\<lambda>c. comments_clean (str_lines c)) cs" for cs t
    using that by (induction cs arbitrary: t) (simp_all add: scan_file_seen)
  moreover have "subjects_seen \<lparr>st_streams = [], st_durables = [], st_subjects = []\<rparr>"
    by (simp add: subjects_seen_def)
  ultimately have "subjects_seen (fold scan_file contents \<lparr>st_streams = [], st_durables = [], st_subjects = []\<rparr>)"
    using assms(5) by blast
  then have seen: "subjects_seen st"
    using assms(1,2) by (fastforce simp: scan_source_def Let_def subjects_seen_def sort_dedup_def)
  have matched: "subject_matched (st_subjects st) pat"
    if "(k, pats) \<in> set (hm_iter (h ''streams'') (st_streams st))" "pat \<in> set pats" for k pats pat
  proof -
    have "hm_get (st_streams st) k = Some pats" using that(1) by (simp add: hm_iter_iff)
    with seen that(2) have "pat \<in> set (st_subjects st)" by (auto simp: subjects_seen_def)
    then show ?thesis by (auto simp: subject_matched_def Let_def list_ex_iff)
  qed
  then show ?thesis
    by (auto simp: check_stream_subject_alignment_def assms(3))
qed

theorem stream_subject_check_vacuous_witness:
  "\<exists>st. scan_source (\<lambda>_. []) [(''registry.go'', FFile (Some demo_go))] = Inr st
     \<and> ck_findings (check_stream_subject_alignment (\<lambda>_ ks. ks)
          \<lparr>tp_configs = [], tp_compose = None, tp_source = Some st\<rparr>) = []"
proof -
  have files: "read_all (\<lambda>p. Io []) (files_below ''go'' [(''registry.go'', FFile (Some demo_go))]) = Inr [demo_go]"
    by code_simp
  then obtain st where st: "scan_source (\<lambda>_. []) [(''registry.go'', FFile (Some demo_go))] = Inr st"
    by (auto simp: scan_source_def Let_def)
  have "list_all (\<lambda>c. comments_clean (str_lines c)) [demo_go]" by code_simp
  moreover have "orders_ok (\<lambda>_ ks. ks)" by (simp add: orders_ok_def)
  moreover have "tp_source \<lparr>tp_configs = [], tp_compose = None, tp_source = Some st\<rparr> = Some st" by simp
  ultimately show ?thesis using stream_subject_check_vacuous [OF files st] st by blast
qed

definition two_streams :: string where
  "two_streams = concat (map (\<lambda>l. l @ nl)
     [''Name: '' @ [dq] @ ''FIRST_STREAM'' @ [dq], ''Subjects: {'' @ [dq] @ ''first.events.>'' @ [dq],
      ''}'', [], ''Name: '' @ [dq] @ ''SECOND_STREAM'' @ [dq],
      ''Subjects: {'' @ [dq] @ ''second.events.>'' @ [dq], ''}''])"

text \<open>
  Property (subjects of a neighbouring stream). The search for the subjects of a stream starts
  ten lines before its name: in a file with two streams the second one gets the subjects of the
  first.
\<close>

theorem second_stream_gets_first_subjects:
  "extract_streams two_streams [] =
     [(''FIRST_STREAM'', [''first.events.>'']), (''SECOND_STREAM'', [''first.events.>''])]"
  by code_simp

end
