(* ===== verification/RuntimeBindings.thy ===== *)
theory RuntimeBindings
  imports HashOrder ResultsInspect "HOL-Library.Product_Lexorder"
begin

text \<open>
  The runtime-bindings analyser (\<open>analyzers/runtime_bindings.rs\<close> with \<open>source.rs\<close> and
  \<open>configs.rs\<close>): the routing constants of the Go sources, the bindings declared in the HTTP
  fixtures, and the JetStream subjects derived from them. JSON is a parameter; so is the
  iteration order of hash maps and sets, by the name of the map. The set
  \<open>kafka_topics_referenced\<close> is never filled by the code and left out.
\<close>

section \<open>Constants of the Go sources\<close>

record binding_source =
  bn_subject_prefix :: string
  bn_subject_pattern :: string
  bn_stream_subjects :: "string list hash_map"
  bn_durables :: "string hash_map"
  bn_lifecycle_events :: "string list"
  bn_has_bootstrap_client :: bool
  bn_has_topology_builder :: bool
  bn_has_runtime_cache :: bool
  bn_has_validation_worker :: bool
  bn_bootstrap_scopes :: "(string \<times> string) list"

definition empty_source :: binding_source where
  "empty_source =
     \<lparr>bn_subject_prefix = [], bn_subject_pattern = [], bn_stream_subjects = [], bn_durables = [],
      bn_lifecycle_events = [], bn_has_bootstrap_client = False, bn_has_topology_builder = False,
      bn_has_runtime_cache = False, bn_has_validation_worker = False, bn_bootstrap_scopes = []\<rparr>"

definition take_prefix :: "string \<Rightarrow> binding_source \<Rightarrow> binding_source" where
  "take_prefix val src =
     (if starts_with val ''dataplane.'' \<and> contains val ''ingestion'' then
        (if ends_with val ''.>'' then src\<lparr>bn_subject_pattern := val\<rparr> else src\<lparr>bn_subject_prefix := val\<rparr>)
      else src)"

definition take_pattern :: "string \<Rightarrow> binding_source \<Rightarrow> binding_source" where
  "take_pattern val src =
     (if ends_with val ''.>'' \<and> contains val ''dataplane'' then src\<lparr>bn_subject_pattern := val\<rparr> else src)"

definition prefix_line :: "string \<Rightarrow> binding_source \<Rightarrow> binding_source" where
  "prefix_line line src =
     (let trimmed = trim line in
      if comment_line trimmed then src
      else
        (let src1 = (if contains trimmed ''subjectPrefix'' \<or> contains trimmed ''SubjectPrefix''
                     then fold take_prefix (extract_all_quoted trimmed) src else src)
         in if contains trimmed ''SubjectPattern''
            then fold take_pattern (extract_all_quoted trimmed) src1 else src1))"

definition extract_subject_prefix :: "string \<Rightarrow> binding_source \<Rightarrow> binding_source" where
  "extract_subject_prefix content src = fold prefix_line (str_lines content) src"

text \<open>All stream names of a line, unlike the topology doctor, which takes the first.\<close>

definition stream_names :: "string \<Rightarrow> string list" where
  "stream_names line =
     (let trimmed = trim line in
      if comment_line trimmed \<or> \<not> stream_context trimmed then []
      else filter is_stream_name (extract_all_quoted trimmed))"

fun all_streams_from :: "string list \<Rightarrow> nat \<Rightarrow> string list \<Rightarrow> string list hash_map
                         \<Rightarrow> string list hash_map" where
  "all_streams_from all_lines i [] streams = streams"
| "all_streams_from all_lines i (line # rest) streams =
     all_streams_from all_lines (i + 1) rest
       (fold (\<lambda>name m. hm_extend name (find_subjects_near all_lines i 10) m) (stream_names line) streams)"

definition extract_all_streams :: "string \<Rightarrow> string list hash_map \<Rightarrow> string list hash_map" where
  "extract_all_streams content streams =
     (let lines = str_lines content in dedup_values (all_streams_from lines 0 lines streams))"

definition event_line :: "string \<Rightarrow> string list" where
  "event_line line =
     (let trimmed = trim line in
      if \<not> comment_line trimmed \<and> (contains trimmed ''events.Name'' \<or> contains trimmed ''EventName'')
      then filter (\<lambda>val. starts_with val ''config.'') (extract_all_quoted trimmed) else [])"

definition scan_go_file :: "string \<Rightarrow> binding_source \<Rightarrow> binding_source" where
  "scan_go_file content src0 =
     (let src = extract_subject_prefix content src0 in
      src\<lparr>bn_stream_subjects := extract_all_streams content (bn_stream_subjects src),
          bn_durables := extract_durables content (bn_durables src),
          bn_lifecycle_events := bn_lifecycle_events src @ concat (map event_line (str_lines content))\<rparr>)"

text \<open>The scopes that the service configurations bootstrap.\<close>

definition str_or :: "'j value_api \<Rightarrow> 'j \<Rightarrow> string \<Rightarrow> string \<Rightarrow> string" where
  "str_or J v key dflt =
     (case Option.bind (jv_get J v key) (jv_str J) of Some s \<Rightarrow> s | None \<Rightarrow> dflt)"

definition config_scope :: "'j value_api \<Rightarrow> (string \<Rightarrow> 'j option) \<Rightarrow> string \<Rightarrow> (string \<times> string) list" where
  "config_scope J from_str raw =
     (case Option.bind (from_str (strip_jsonc_comments raw)) (\<lambda>v. jv_get J v ''bootstrap'') of
        Some b \<Rightarrow> [(str_or J b ''scope_kind'' ''global'', str_or J b ''scope_key'' ''default'')]
      | None \<Rightarrow> [])"

definition files_with :: "string \<Rightarrow> (string \<times> fs_node) list \<Rightarrow> (path \<times> string option) list" where
  "files_with ext es =
     map (\<lambda>(nm, n). ([nm], case n of FFile c \<Rightarrow> c | FDir _ \<Rightarrow> None))
       (filter (\<lambda>e. extension (fst e) = Some ext) es)"

definition scan_bootstrap_scopes :: "'j value_api \<Rightarrow> (string \<Rightarrow> 'j option) \<Rightarrow> (path \<Rightarrow> string)
                                     \<Rightarrow> (string \<times> fs_node) list \<Rightarrow> cli_error + (string \<times> string) list" where
  "scan_bootstrap_scopes J from_str io_error es =
     (case read_all (\<lambda>p. Io (io_error p)) (files_with ''jsonc'' es) of
        Inl e \<Rightarrow> Inl e
      | Inr raws \<Rightarrow> Inr (remdups_adj (sort (concat (map (config_scope J from_str) raws)))))"

text \<open>\<open>scan_runtime_bindings\<close>: after the scan a wildcard pattern is made up from the prefix.\<close>

definition wildcard :: "string \<Rightarrow> string" where
  "wildcard prefix = prefix @ ''.>''"

definition synthesise :: "binding_source \<Rightarrow> binding_source" where
  "synthesise src =
     (let src1 = (if bn_subject_prefix src \<noteq> [] \<and> bn_subject_pattern src = []
                  then src\<lparr>bn_subject_pattern := wildcard (bn_subject_prefix src)\<rparr> else src)
      in if bn_subject_prefix src1 = [] then src1
         else (case hm_get (bn_stream_subjects src1) ''DATA_PLANE_INGESTION'' of
                 None \<Rightarrow> src1
               | Some subjects \<Rightarrow>
                   (let w = wildcard (bn_subject_prefix src1) in
                    if w \<in> set subjects then src1
                    else src1\<lparr>bn_stream_subjects :=
                           hm_insert ''DATA_PLANE_INGESTION'' (subjects @ [w]) (bn_stream_subjects src1)\<rparr>)))"

definition key_files :: "fs_node \<Rightarrow> binding_source \<Rightarrow> binding_source" where
  "key_files root src =
     src\<lparr>bn_has_bootstrap_client :=
           path_is_file root [''internal'', ''application'', ''runtimebootstrap'', ''client.go''],
         bn_has_topology_builder :=
           path_is_file root [''internal'', ''application'', ''dataplane'', ''topology.go''],
         bn_has_runtime_cache :=
           path_is_file root [''internal'', ''actors'', ''scopes'', ''validator'', ''runtime_cache.go''],
         bn_has_validation_worker :=
           path_is_file root [''internal'', ''actors'', ''scopes'', ''validator'', ''validation_worker.go'']\<rparr>"

definition scan_runtime_bindings :: "'j value_api \<Rightarrow> (string \<Rightarrow> 'j option) \<Rightarrow> (path \<Rightarrow> string)
                                     \<Rightarrow> fs_node \<Rightarrow> cli_error + binding_source" where
  "scan_runtime_bindings J from_str io_error root =
     (case read_all (\<lambda>p. Io (io_error p)) (files_below ''go'' (dir_entries root [''internal''])) of
        Inl e \<Rightarrow> Inl e
      | Inr contents \<Rightarrow>
          (let src = synthesise (key_files root (fold scan_go_file contents empty_source)) in
           if path_is_dir root [''deploy'', ''configs''] then
             (case scan_bootstrap_scopes J from_str io_error (dir_entries root [''deploy'', ''configs'']) of
                Inl e \<Rightarrow> Inl e
              | Inr scopes \<Rightarrow> Inr (src\<lparr>bn_bootstrap_scopes := scopes\<rparr>))
           else Inr src))"

section \<open>Bindings of the fixtures\<close>

record binding_definition =
  bd_name :: string
  bd_topic :: string
  bd_config_name :: string
  bd_scope_kind :: string
  bd_scope_key :: string
  bd_field_count :: nat
  bd_rule_count :: nat
  bd_source_file :: "string option"

definition fixture_binding :: "string \<Rightarrow> string \<Rightarrow> string \<Rightarrow> string \<Rightarrow> nat \<Rightarrow> nat \<Rightarrow> binding_definition" where
  "fixture_binding file_name config_name name topic fc rc =
     \<lparr>bd_name = name, bd_topic = topic, bd_config_name = config_name, bd_scope_kind = ''global'',
      bd_scope_key = ''default'', bd_field_count = fc, bd_rule_count = rc,
      bd_source_file = Some (''tests/http/'' @ file_name)\<rparr>"

definition array_length :: "'j value_api \<Rightarrow> 'j \<Rightarrow> string \<Rightarrow> nat" where
  "array_length J v key =
     (case Option.bind (jv_get J v key) (jv_array J) of Some a \<Rightarrow> length a | None \<Rightarrow> 0)"

definition bindings_of_value :: "'j value_api \<Rightarrow> string \<Rightarrow> 'j \<Rightarrow> binding_definition list" where
  "bindings_of_value J file_name v =
     (case Option.bind (jv_get J v ''bindings'') (jv_array J) of
        None \<Rightarrow> []
      | Some binding_array \<Rightarrow>
          (let config_name = (case jv_get J v ''metadata'' of
                                Some m \<Rightarrow> str_or J m ''name'' ''unknown'' | None \<Rightarrow> ''unknown'')
           in map (\<lambda>(name, topic). fixture_binding file_name config_name name topic
                     (array_length J v ''fields'') (array_length J v ''rules''))
                (filter (\<lambda>(name, topic). name \<noteq> [] \<or> topic \<noteq> [])
                  (map (\<lambda>b. (str_or J b ''name'' [], str_or J b ''topic'' [])) binding_array))))"

record yaml_state =
  ym_in_bindings :: bool
  ym_name :: string
  ym_topic :: string
  ym_config_name :: string
  ym_field_count :: nat
  ym_rule_count :: nat
  ym_out :: "binding_definition list"

definition yaml_push :: "string \<Rightarrow> yaml_state \<Rightarrow> yaml_state" where
  "yaml_push file_name st =
     (if ym_name st = [] \<and> ym_topic st = [] then st
      else st\<lparr>ym_out := ym_out st @
               [fixture_binding file_name (ym_config_name st) (ym_name st) (ym_topic st)
                  (ym_field_count st) (ym_rule_count st)]\<rparr>)"

definition yaml_value :: "string \<Rightarrow> string \<Rightarrow> string" where
  "yaml_value trimmed key = trim_char (trim (trim_start_str trimmed key)) dq"

text \<open>Is \<open>heading\<close> one of the ten lines before the first occurrence of the line's text?\<close>

definition heading_before :: "string \<Rightarrow> string \<Rightarrow> string \<Rightarrow> bool" where
  "heading_before content trimmed heading =
     (let upto = take (case find_sub content trimmed of Some k \<Rightarrow> k | None \<Rightarrow> 0) content
      in list_ex (\<lambda>l. trim l = heading) (take 10 (rev (str_lines upto))))"

definition yaml_line :: "string \<Rightarrow> string \<Rightarrow> string \<Rightarrow> yaml_state \<Rightarrow> yaml_state" where
  "yaml_line content file_name line st0 =
     (let trimmed = trim line;
          st = (if starts_with trimmed ''name:'' \<and> \<not> ym_in_bindings st0
                   \<and> yaml_value trimmed ''name:'' \<noteq> []
                then st0\<lparr>ym_config_name := yaml_value trimmed ''name:''\<rparr> else st0)
      in if trimmed = ''bindings:'' then st\<lparr>ym_in_bindings := True\<rparr>
         else
           (let st1 =
                  (if \<not> ym_in_bindings st then st
                   else if starts_with trimmed ''- name:'' \<or> starts_with trimmed ''name:'' then
                     (yaml_push file_name st)
                       \<lparr>ym_name := yaml_value (trim_start_str trimmed ''- '') ''name:'', ym_topic := []\<rparr>
                   else if starts_with trimmed ''topic:'' then st\<lparr>ym_topic := yaml_value trimmed ''topic:''\<rparr>
                   else if \<not> starts_with trimmed ''-'' \<and> trimmed \<noteq> [] \<and> \<not> starts_with trimmed ''#''
                   then st\<lparr>ym_in_bindings := False\<rparr> else st);
                st2 = (if trimmed = ''fields:'' then st1\<lparr>ym_in_bindings := False\<rparr> else st1)
            in if starts_with trimmed ''- name:'' \<and> \<not> ym_in_bindings st2 then
                 st2\<lparr>ym_field_count := ym_field_count st2
                        + (if heading_before content trimmed ''fields:'' then 1 else 0),
                     ym_rule_count := ym_rule_count st2
                        + (if heading_before content trimmed ''rules:'' then 1 else 0)\<rparr>
               else st2))"

definition bindings_of_yaml :: "string \<Rightarrow> string \<Rightarrow> binding_definition list" where
  "bindings_of_yaml file_name content =
     ym_out (yaml_push file_name (fold (yaml_line content file_name) (str_lines content)
       \<lparr>ym_in_bindings = False, ym_name = [], ym_topic = [], ym_config_name = ''unknown'',
        ym_field_count = 0, ym_rule_count = 0, ym_out = []\<rparr>))"

definition parse_config_body :: "'j value_api \<Rightarrow> (string \<Rightarrow> 'j option) \<Rightarrow> string \<Rightarrow> string
                                 \<Rightarrow> binding_definition list" where
  "parse_config_body J from_str file_name body =
     (case from_str body of
        None \<Rightarrow> []
      | Some v \<Rightarrow>
          (case Option.bind (jv_get J v ''content'') (jv_str J) of
             Some content_str \<Rightarrow>
               (case from_str content_str of
                  Some inner \<Rightarrow> bindings_of_value J file_name inner
                | None \<Rightarrow> bindings_of_yaml file_name content_str)
           | None \<Rightarrow> bindings_of_value J file_name v))"

text \<open>
  The bodies of a fixture: from a line that opens a brace to the line that closes it; a body
  that is not closed by the end of the file is dropped.
\<close>

definition brace_balance :: "string \<Rightarrow> 32 word" where
  "brace_balance s = of_nat (count_char s CHR 0x7B) - of_nat (count_char s CHR 0x7D)"

fun http_bodies :: "(string list \<times> 32 word) option \<Rightarrow> string list \<Rightarrow> string list" where
  "http_bodies body [] = []"
| "http_bodies body (line # rest) =
     (let trimmed = trim line;
          opened = (case body of
                      Some b \<Rightarrow> Some b
                    | None \<Rightarrow> if starts_with trimmed ''{'' then Some ([], 0) else None)
      in case opened of
           None \<Rightarrow> http_bodies None rest
         | Some (ls, depth) \<Rightarrow>
             (let depth1 = depth + brace_balance trimmed in
              if sint depth1 \<le> 0 then join nl (ls @ [line]) # http_bodies None rest
              else http_bodies (Some (ls @ [line], depth1)) rest))"

definition fixture_bindings :: "'j value_api \<Rightarrow> (string \<Rightarrow> 'j option) \<Rightarrow> string \<Rightarrow> string
                                \<Rightarrow> binding_definition list" where
  "fixture_bindings J from_str file_name content =
     concat (map (parse_config_body J from_str file_name) (http_bodies None (str_lines content)))"

definition scan_http_fixtures :: "'j value_api \<Rightarrow> (string \<Rightarrow> 'j option) \<Rightarrow> (path \<Rightarrow> string)
                                  \<Rightarrow> (string \<times> fs_node) list \<Rightarrow> cli_error + binding_definition list" where
  "scan_http_fixtures J from_str io_error es =
     (let fs = files_with ''http'' es in
      case read_all (\<lambda>p. Io (io_error p)) fs of
        Inl e \<Rightarrow> Inl e
      | Inr contents \<Rightarrow>
          Inr (concat (map (\<lambda>(p, c). fixture_bindings J from_str (path_string p) c)
                 (zip (map fst fs) contents))))"

definition scan_binding_configs :: "cli_error + binding_definition list" where
  "scan_binding_configs = Inr []"

section \<open>Resolution\<close>

record resolved_binding =
  rb_config_name :: string
  rb_binding_name :: string
  rb_kafka_topic :: string
  rb_jetstream_subject :: "string option"
  rb_scope :: string
  rb_field_count :: nat
  rb_rule_count :: nat
  rb_source_file :: "string option"
  rb_issues :: "string list"

record bindings_index =
  ix_config_bindings :: "binding_definition list"
  ix_source :: "binding_source option"
  ix_resolved :: "resolved_binding list"

text \<open>
  The loop of \<open>sanitize_token\<close>: runs of other characters become one dash. \<open>to_lowercase\<close> is
  modelled on ASCII; the few characters beyond it whose lower case is ASCII are not.
\<close>

fun dashed :: "bool \<Rightarrow> string \<Rightarrow> string" where
  "dashed last_dash [] = []"
| "dashed last_dash (c # cs) =
     (if ascii_alnum c then c # dashed False cs
      else if last_dash then dashed True cs
      else CHR ''-'' # dashed True cs)"

definition sanitize_token :: "string \<Rightarrow> string" where
  "sanitize_token raw0 =
     (let raw = map lower_char (trim raw0) in
      if raw = [] then ''unknown''
      else (let token = trim_char (dashed False raw) (CHR ''-'') in
            if token = [] then ''unknown'' else token))"

definition derive_jetstream_subject :: "string \<Rightarrow> string \<Rightarrow> string \<Rightarrow> string \<Rightarrow> string option" where
  "derive_jetstream_subject prefix scope_kind scope_key binding_name =
     (if prefix = [] then None
      else Some (prefix @ ''.'' @ sanitize_token scope_kind @ ''.'' @ sanitize_token scope_key
                 @ ''.'' @ sanitize_token binding_name))"

definition subject_matches_pattern :: "string \<Rightarrow> string \<Rightarrow> bool" where
  "subject_matches_pattern subject pat =
     (if ends_with pat ''.>'' then starts_with subject (take (length pat - 2) pat) else pat = subject)"

definition scope_of :: "binding_definition \<Rightarrow> string" where
  "scope_of b = bd_scope_kind b @ '':'' @ bd_scope_key b"

definition resolution_issues :: "binding_source \<Rightarrow> string option \<Rightarrow> string list" where
  "resolution_issues source subject =
     (case subject of
        Some subj \<Rightarrow>
          (if list_ex (\<lambda>e. list_ex (subject_matches_pattern subj) (snd e)) (bn_stream_subjects source)
           then []
           else [''derived subject '' @ quote1 subj @ '' does not match any stream subscription pattern''])
      | None \<Rightarrow> [''could not derive JetStream subject (missing subject prefix in source)''])"

definition resolve_binding :: "binding_source \<Rightarrow> binding_definition \<Rightarrow> resolved_binding" where
  "resolve_binding source b =
     (let subject = derive_jetstream_subject (bn_subject_prefix source) (bd_scope_kind b)
                      (bd_scope_key b) (bd_name b)
      in \<lparr>rb_config_name = bd_config_name b, rb_binding_name = bd_name b, rb_kafka_topic = bd_topic b,
          rb_jetstream_subject = subject, rb_scope = scope_of b, rb_field_count = bd_field_count b,
          rb_rule_count = bd_rule_count b, rb_source_file = bd_source_file b,
          rb_issues = resolution_issues source subject\<rparr>)"

definition resolve_bindings :: "bindings_index \<Rightarrow> resolved_binding list" where
  "resolve_bindings ix =
     (case ix_source ix of None \<Rightarrow> [] | Some source \<Rightarrow> map (resolve_binding source) (ix_config_bindings ix))"

section \<open>Checks of the source\<close>

definition check_subject_pattern :: "binding_source \<Rightarrow> check_result" where
  "check_subject_pattern src =
     from_findings ''subject-pattern''
       ((if bn_subject_prefix src = [] then
           [with_help
              (with_why
                 (finding_error ''subject-prefix'' ''dataplane ingestion subject prefix not found in source'')
                 ''without the subject prefix, runtime cannot derive JetStream subjects for bindings'')
              (''verify '' @ quote1 ''dataplane.ingestion.received''
               @ '' is defined in internal/application/dataplane/registry.go'')]
         else [finding_info ''subject-prefix'' (''subject prefix: '' @ quote1 (bn_subject_prefix src))])
        @ opt_finding (bn_subject_pattern src = [])
            (finding_warning ''subject-pattern'' ''wildcard subject pattern not found''))"

definition refresh_durables :: "(string \<times> string) list" where
  "refresh_durables =
     [(''consumer-runtime-refresh-v1'',
       ''consumer refreshes aggregate bootstrap when ingestion runtime changes''),
      (''emulator-runtime-refresh-v1'',
       ''emulator refreshes aggregate bootstrap when ingestion runtime changes'')]"

definition check_routing_constants :: "binding_source \<Rightarrow> check_result" where
  "check_routing_constants src =
     from_findings ''routing-constants''
       (opt_finding (\<not> hm_has (bn_stream_subjects src) ''DATA_PLANE_INGESTION'')
          (with_help
             (with_why (finding_error ''dataplane-stream'' ''DATA_PLANE_INGESTION stream not found in source'')
                ''this stream carries all ingested messages from consumer to validator'')
             ''check internal/adapters/nats/dataplane_registry.go'')
        @ opt_finding (\<not> hm_has (bn_durables src) ''validator-dataplane-v1'')
          (with_help
             (with_why
                (finding_error ''validator-durable''
                   ''validator-dataplane-v1 durable consumer not found in source'')
                ''validator needs a durable consumer to receive data-plane messages reliably'')
             ''check internal/adapters/nats/dataplane_registry.go'')
        @ opt_finding (\<not> hm_has (bn_durables src) ''validator-runtime-cache-v1'')
          (with_why
             (finding_warning ''runtime-cache-durable'' ''validator-runtime-cache-v1 durable not found'')
             ''validator caches RuntimeProjection from activation events via this durable'')
        @ concat (map (\<lambda>(durable, purpose). opt_finding (\<not> hm_has (bn_durables src) durable)
            (with_help
               (with_why
                  (finding_error ''runtime-refresh-durable''
                     (durable @ '' durable consumer not found in source''))
                  purpose)
               ''check internal/adapters/nats/configctl_registry.go''))
            refresh_durables))"

definition expected_events :: "(string \<times> string) list" where
  "expected_events =
     [(''config.activated'', ''triggers RuntimeProjection cache update in validator''),
      (''config.deactivated'', ''clears cached projection when config is deactivated''),
      (''config.ingestion_runtime_changed'', ''notifies consumer and emulator to re-bootstrap bindings'')]"

definition check_lifecycle_events :: "binding_source \<Rightarrow> check_result" where
  "check_lifecycle_events src =
     from_findings ''lifecycle-events''
       (concat (map (\<lambda>(event, purpose). opt_finding (event \<notin> set (bn_lifecycle_events src))
          (with_why
             (finding_warning ''lifecycle-event''
                (''lifecycle event '' @ quote1 event @ '' not found in source''))
             purpose)) expected_events))"

section \<open>Checks of the bindings\<close>

text \<open>Names grouped by a key, as the code builds its hash maps of vectors.\<close>

definition group_names :: "('b \<Rightarrow> string) \<Rightarrow> ('b \<Rightarrow> string) \<Rightarrow> 'b list \<Rightarrow> string list hash_map" where
  "group_names key nm bs = fold (\<lambda>b m. hm_extend (key b) [nm b] m) bs []"

definition empty_parts :: "binding_definition \<Rightarrow> finding list" where
  "empty_parts b =
     opt_finding (bd_field_count b = 0)
       (with_why
          (finding_warning ''empty-fields'' (''binding '' @ quote1 (bd_name b) @ '' has no fields defined''))
          ''without fields, no validation can be performed on incoming messages'')
     @ opt_finding (bd_rule_count b = 0)
       (with_why
          (finding_warning ''empty-rules'' (''binding '' @ quote1 (bd_name b) @ '' has no rules defined''))
          ''without rules, messages will always pass validation'')"

definition check_config_bindings :: "hash_orders \<Rightarrow> binding_definition list \<Rightarrow> check_result" where
  "check_config_bindings h bindings =
     from_findings ''config-bindings''
       (if bindings = [] then
          [finding_info ''config-bindings''
             ''no binding definitions found in deploy/configs/; bindings are expected to come from runtime fixtures and configctl lifecycle flows'']
        else
          concat (map (\<lambda>(name, configs). opt_finding (1 < length configs)
            (with_why
               (finding_warning ''duplicate-binding''
                  (''binding '' @ quote1 name @ '' appears in multiple configs: '' @ join '', '' configs))
               ''duplicate binding names across configs may cause routing conflicts at runtime''))
            (hm_iter (h ''seen'') (group_names bd_name bd_config_name bindings)))
          @ concat (map (\<lambda>(topic, names). opt_finding (1 < length names)
            (finding_info ''shared-topic''
               (''topic '' @ quote1 topic @ '' is consumed by multiple bindings: '' @ join '', '' names)))
            (hm_iter (h ''topics'') (group_names bd_topic bd_name bindings)))
          @ concat (map empty_parts bindings))"

definition check_fixture_bindings :: "binding_definition list \<Rightarrow> check_result" where
  "check_fixture_bindings bindings =
     (if bindings = [] then check_pass ''fixture-bindings''
      else from_findings ''fixture-bindings''
        (concat (map (\<lambda>b. opt_finding (bd_topic b = [])
           (finding_warning ''fixture-binding''
              (''fixture binding '' @ quote1 (bd_name b) @ '' has no topic''))) bindings)
         @ [finding_info ''fixture-bindings''
              (show_nat (length bindings) @ '' binding(s) found in HTTP test fixtures'')]))"

definition issue_findings :: "resolved_binding \<Rightarrow> finding list" where
  "issue_findings rb =
     map (\<lambda>issue. with_location
            (finding_warning ''binding-resolution''
               (''binding '' @ quote1 (rb_binding_name rb) @ '' ('' @ rb_kafka_topic rb @ ''): '' @ issue))
            (case rb_source_file rb of Some s \<Rightarrow> s | None \<Rightarrow> ''config''))
       (rb_issues rb)"

definition check_resolved_bindings :: "resolved_binding list \<Rightarrow> check_result" where
  "check_resolved_bindings resolved =
     from_findings ''resolved-bindings''
       (if resolved = [] then
          [finding_warning ''resolved-bindings''
             ''no bindings could be resolved (no config + source cross-reference)'']
        else
          (let error_count = length (filter (\<lambda>rb. rb_issues rb \<noteq> []) resolved)
           in concat (map issue_findings resolved)
              @ [finding_info ''resolved-summary''
                   (show_nat (length resolved) @ '' binding(s) resolved: ''
                    @ show_nat (length resolved - error_count) @ '' clean, ''
                    @ show_nat error_count @ '' with issues'')]))"

definition check_topic_subject_mapping :: "bindings_index \<Rightarrow> check_result" where
  "check_topic_subject_mapping ix =
     (case ix_source ix of
        None \<Rightarrow> check_skip ''topic-subject-mapping'' ''source not scanned''
      | Some source \<Rightarrow>
          from_findings ''topic-subject-mapping''
            (concat (map (\<lambda>rb.
               (case (rb_jetstream_subject rb, hm_get (bn_stream_subjects source) ''DATA_PLANE_INGESTION'') of
                  (Some subject, Some patterns) \<Rightarrow>
                    opt_finding (\<not> list_ex (subject_matches_pattern subject) patterns)
                      (with_help
                         (with_why
                            (finding_error ''topic-subject''
                               (''binding '' @ quote1 (rb_binding_name rb) @ '': derived subject ''
                                @ quote1 subject @ '' is outside DATA_PLANE_INGESTION stream scope''))
                            ''messages published to this subject will not be received by the validator'')
                         (''check the stream'' @ [CHR 0x27]
                          @ ''s subject filter pattern in dataplane_registry.go''))
                | _ \<Rightarrow> [])) (ix_resolved ix))))"

definition check_binding_consumer_coverage :: "bindings_index \<Rightarrow> check_result" where
  "check_binding_consumer_coverage ix =
     (case ix_source ix of
        None \<Rightarrow> check_skip ''consumer-coverage'' ''source not scanned''
      | Some source \<Rightarrow>
          from_findings ''consumer-coverage''
            (opt_finding (\<not> bn_has_bootstrap_client source)
               (with_help
                  (with_why
                     (finding_error ''consumer-bootstrap'' ''consumer bootstrap client not found in source'')
                     ''consumer needs to fetch active bindings from server at startup to know which topics to subscribe to'')
                  ''verify internal/application/runtimebootstrap/client.go exists'')
             @ opt_finding (\<not> bn_has_topology_builder source)
               (with_help
                  (with_why
                     (finding_error ''topology-builder'' ''RuntimeTopology builder not found in source'')
                     ''without topology builder, consumer cannot route Kafka messages to correct JetStream subjects'')
                  ''verify internal/application/dataplane/topology.go exists'')))"

definition check_binding_validator_coverage :: "bindings_index \<Rightarrow> check_result" where
  "check_binding_validator_coverage ix =
     (case ix_source ix of
        None \<Rightarrow> check_skip ''validator-coverage'' ''source not scanned''
      | Some source \<Rightarrow>
          from_findings ''validator-coverage''
            (opt_finding (\<not> bn_has_runtime_cache source)
               (with_help
                  (with_why
                     (finding_error ''runtime-cache'' ''validator RuntimeProjection cache not found in source'')
                     ''validator caches active RuntimeProjection (with rules) to evaluate incoming messages'')
                  ''verify internal/actors/scopes/validator/runtime_cache.go exists'')
             @ opt_finding (\<not> bn_has_validation_worker source)
               (with_why
                  (finding_error ''validation-worker'' ''validation worker not found in source'')
                  ''without a validation worker, incoming data-plane messages cannot be evaluated against rules'')))"

definition check_scope_consistency :: "hash_orders \<Rightarrow> bindings_index \<Rightarrow> check_result" where
  "check_scope_consistency h ix =
     (let scopes = map scope_of (ix_config_bindings ix) in
      from_findings ''scope-consistency''
        (opt_finding (1 < length (remdups scopes))
           (with_why
              (finding_warning ''multi-scope''
                 (''bindings reference multiple scopes: ''
                  @ join '', '' (map quote1 (hs_iter (h ''scopes'') scopes))))
              ''multiple scopes increase routing complexity; ensure each service bootstraps the correct scope'')
         @ opt_finding (scopes \<noteq> [] \<and> ''global:default'' \<notin> set scopes)
           (with_why
              (finding_warning ''default-scope''
                 (''no bindings use the default scope '' @ quote1 ''global:default''))
              (''the default activation scope is '' @ quote1 ''global:default''
               @ ''; non-standard scopes require explicit configuration''))))"

section \<open>The bootstrap contract\<close>

record bootstrap_contract =
  bc_has_ingestion_bindings_field :: bool
  bc_has_ingestion_runtimes_field :: bool
  bc_populates_compact_runtimes :: bool
  bc_has_compact_runtime_mapper :: bool
  bc_has_runtime_projections_route :: bool

text \<open>
  \<open>read_file_if_exists\<close>: a missing file is empty. A directory, an unreadable file and a path
  that leads through a file are errors.
\<close>

fun through_file :: "fs_node \<Rightarrow> path \<Rightarrow> bool" where
  "through_file n [] = False"
| "through_file (FFile c) (p # ps) = True"
| "through_file (FDir es) (p # ps) =
     (case map_of es p of None \<Rightarrow> False | Some n \<Rightarrow> through_file n ps)"

definition read_file_if_exists :: "(path \<Rightarrow> string) \<Rightarrow> fs_node \<Rightarrow> path \<Rightarrow> cli_error + string" where
  "read_file_if_exists io_error root p =
     (case lookup_path root p of
        None \<Rightarrow> if through_file root p then Inl (Io (io_error p)) else Inr []
      | Some (FFile (Some c)) \<Rightarrow> Inr c
      | Some _ \<Rightarrow> Inl (Io (io_error p)))"

definition replies_path :: path where
  "replies_path = [''internal'', ''application'', ''configctl'', ''contracts'', ''replies.go'']"

definition usecase_path :: path where
  "usecase_path = [''internal'', ''application'', ''configctl'', ''list_active_ingestion_bindings.go'']"

definition mappers_path :: path where
  "mappers_path = [''internal'', ''application'', ''configctl'', ''mappers.go'']"

definition routes_path :: path where
  "routes_path = [''internal'', ''interfaces'', ''http'', ''routes'', ''runtime.go'']"

definition contract_of :: "string \<Rightarrow> string \<Rightarrow> string \<Rightarrow> string \<Rightarrow> bootstrap_contract" where
  "contract_of replies usecase mappers routes =
     \<lparr>bc_has_ingestion_bindings_field = contains replies ''Bindings []ActiveIngestionBindingRecord'',
      bc_has_ingestion_runtimes_field = contains replies ''Runtimes []sharedruntime.RuntimeRecord'',
      bc_populates_compact_runtimes =
        contains usecase ''Runtimes: compactIngestionRuntimesFromDomain(runtimes)'',
      bc_has_compact_runtime_mapper =
        (contains mappers ''func compactIngestionRuntimesFromDomain''
         \<and> contains mappers ''sharedruntime.RecordFromIngestionProjection(runtime)''),
      bc_has_runtime_projections_route =
        contains routes (''Path:    '' @ [dq] @ ''/runtime/configctl/projections'' @ [dq])\<rparr>"

definition or_fail :: "'e + 'a \<Rightarrow> ('a \<Rightarrow> 'e + 'b) \<Rightarrow> 'e + 'b" where
  "or_fail r f = (case r of Inl e \<Rightarrow> Inl e | Inr x \<Rightarrow> f x)"

definition scan_bootstrap_runtime_contract :: "(path \<Rightarrow> string) \<Rightarrow> fs_node
                                               \<Rightarrow> cli_error + bootstrap_contract" where
  "scan_bootstrap_runtime_contract io_error root =
     or_fail (read_file_if_exists io_error root replies_path) (\<lambda>replies.
     or_fail (read_file_if_exists io_error root usecase_path) (\<lambda>usecase.
     or_fail (read_file_if_exists io_error root mappers_path) (\<lambda>mappers.
     or_fail (read_file_if_exists io_error root routes_path) (\<lambda>routes.
       Inr (contract_of replies usecase mappers routes)))))"

definition contract_finding :: "bool \<Rightarrow> string \<Rightarrow> string \<Rightarrow> string \<Rightarrow> finding list" where
  "contract_finding ok msg why help =
     opt_finding (\<not> ok)
       (with_help (with_why (finding_error ''bootstrap-runtime-contract'' msg) why) help)"

definition check_bootstrap_runtime_contract :: "bootstrap_contract \<Rightarrow> check_result" where
  "check_bootstrap_runtime_contract c =
     (let findings =
        contract_finding (bc_has_ingestion_bindings_field c)
          ''ListActiveIngestionBindingsReply no longer exposes `bindings`''
          ''bootstrap clients still depend on per-binding records to build the dataplane index''
          ''restore `Bindings []ActiveIngestionBindingRecord` in internal/application/configctl/contracts/replies.go''
        @ contract_finding (bc_has_ingestion_runtimes_field c)
          ''ListActiveIngestionBindingsReply no longer exposes compact `runtimes`''
          ''local inspection and future consumer bootstrap would lose the explicit active runtime set and fall back to inference from repeated binding metadata''
          ''restore `Runtimes []sharedruntime.RuntimeRecord` in internal/application/configctl/contracts/replies.go''
        @ contract_finding (bc_populates_compact_runtimes c)
          ''active ingestion bindings use case no longer populates compact `runtimes`''
          ''the HTTP bootstrap reply would advertise a runtime summary surface without actually binding it to the active ingestion projection set''
          ''populate `Runtimes: compactIngestionRuntimesFromDomain(runtimes)` in internal/application/configctl/list_active_ingestion_bindings.go''
        @ contract_finding (bc_has_compact_runtime_mapper c)
          ''compact ingestion runtime mapper is missing or no longer derived from ingestion projections''
          ''bootstrap runtime summaries must stay derived from configctl ingestion projections, not from ad hoc HTTP-only assembly''
          ''preserve `compactIngestionRuntimesFromDomain` using `sharedruntime.RecordFromIngestionProjection` in internal/application/configctl/mappers.go''
        @ contract_finding (bc_has_runtime_projections_route c)
          ''canonical runtime projection route `/runtime/configctl/projections` is missing''
          ''runtime-bindings must be able to point operators from bootstrap state back to the configctl truth surface''
          ''restore the `/runtime/configctl/projections` route in internal/interfaces/http/routes/runtime.go''
      in from_findings ''bootstrap-runtime-contract''
           (if findings = [] then
              [finding_info ''bootstrap-runtime-contract''
                 ''bootstrap contract keeps `bindings`, compact `runtimes`, and the configctl projection route aligned'']
            else findings))"

section \<open>Drift and the analyser\<close>

definition durable_drift :: "binding_source \<Rightarrow> string \<Rightarrow> string \<Rightarrow> (string \<Rightarrow> finding) \<Rightarrow> finding list" where
  "durable_drift source durable expected f =
     (case hm_get (bn_durables source) durable of
        Some stream \<Rightarrow> opt_finding (stream \<noteq> expected) (f stream)
      | None \<Rightarrow> [])"

definition scope_drift :: "hash_orders \<Rightarrow> bindings_index \<Rightarrow> binding_source \<Rightarrow> finding list" where
  "scope_drift h ix source =
     (let config_scopes = map scope_of (ix_config_bindings ix);
          bootstrap_scopes = map (\<lambda>(k, v). k @ '':'' @ v) (bn_bootstrap_scopes source)
      in if config_scopes \<noteq> [] \<and> bootstrap_scopes \<noteq> [] then
           concat (map (\<lambda>scope. opt_finding (scope \<notin> set bootstrap_scopes)
             (with_why
                (finding_warning ''bootstrap-scope-drift''
                   (''binding scope '' @ quote1 scope @ '' is not bootstrapped by any service config''))
                ''bindings in this scope will not be fetched during consumer/emulator bootstrap''))
             (hs_iter (h ''config_scopes'') config_scopes))
         else [])"

definition check_drift :: "hash_orders \<Rightarrow> bindings_index \<Rightarrow> check_result" where
  "check_drift h ix =
     (case ix_source ix of
        None \<Rightarrow> check_skip ''drift-detection'' ''source not scanned''
      | Some source \<Rightarrow>
          from_findings ''drift-detection''
            (opt_finding (bn_subject_prefix source \<noteq> []
                          \<and> bn_subject_prefix source \<noteq> ''dataplane.ingestion.received'')
               (with_help
                  (with_why
                     (finding_error ''prefix-drift''
                        (''subject prefix '' @ quote1 (bn_subject_prefix source)
                         @ '' differs from expected '' @ quote1 ''dataplane.ingestion.received''))
                     ''prefix drift means consumer and validator will not agree on JetStream subjects'')
                  ''align the prefix in internal/application/dataplane/registry.go'')
             @ opt_finding (\<not> hm_has (bn_stream_subjects source) ''CONFIGCTL_EVENTS'')
               (with_why
                  (finding_warning ''event-stream-drift''
                     (''CONFIGCTL_EVENTS stream not found '' @ em_dash
                      @ '' validator may not receive activation events''))
                  ''without this stream, the validator cannot cache RuntimeProjection from activation events'')
             @ durable_drift source ''validator-dataplane-v1'' ''DATA_PLANE_INGESTION'' (\<lambda>stream.
                 with_why
                   (finding_error ''durable-stream-drift''
                      (''validator durable targets stream '' @ quote1 stream @ '' instead of ''
                       @ quote1 ''DATA_PLANE_INGESTION''))
                   ''durable consumer bound to wrong stream will never receive data-plane messages'')
             @ durable_drift source ''validator-runtime-cache-v1'' ''CONFIGCTL_EVENTS'' (\<lambda>stream.
                 with_why
                   (finding_error ''runtime-durable-drift''
                      (''runtime cache durable targets stream '' @ quote1 stream @ '' instead of ''
                       @ quote1 ''CONFIGCTL_EVENTS''))
                   ''runtime cache durable bound to wrong stream will miss activation events'')
             @ concat (map (\<lambda>durable. durable_drift source durable ''CONFIGCTL_EVENTS'' (\<lambda>stream.
                 with_why
                   (finding_error ''runtime-refresh-durable-drift''
                      (''refresh durable '' @ quote1 durable @ '' targets stream '' @ quote1 stream
                       @ '' instead of '' @ quote1 ''CONFIGCTL_EVENTS''))
                   ''event-driven dataplane refresh depends on CONFIGCTL_EVENTS; wrong stream means runtime changes will be missed''))
                 (map fst refresh_durables))
             @ scope_drift h ix source))"

definition source_phase :: "cli_error + binding_source \<Rightarrow> check_result list" where
  "source_phase res =
     (case res of
        Inr src \<Rightarrow> [check_subject_pattern src, check_routing_constants src, check_lifecycle_events src]
      | Inl e \<Rightarrow> [from_findings ''source-scan'' [finding_error ''source'' (''failed to scan: '' @ show_cli_error e)]])"

definition config_phase :: "hash_orders \<Rightarrow> fs_node \<Rightarrow> check_result list \<times> binding_definition list" where
  "config_phase h root =
     (if path_is_dir root [''deploy'', ''configs''] then
        (case scan_binding_configs of
           Inr bindings \<Rightarrow> ([check_config_bindings h bindings], bindings)
         | Inl e \<Rightarrow>
             ([from_findings ''config-scan''
                 [finding_error ''config'' (''failed to scan: '' @ show_cli_error e)]], []))
      else ([], []))"

definition merge_binding :: "binding_definition \<Rightarrow> binding_definition list \<Rightarrow> binding_definition list" where
  "merge_binding fb bs =
     (if list_ex (\<lambda>b. bd_name b = bd_name fb \<and> bd_topic b = bd_topic fb) bs then bs else bs @ [fb])"

definition fixture_phase :: "'j value_api \<Rightarrow> (string \<Rightarrow> 'j option) \<Rightarrow> (path \<Rightarrow> string) \<Rightarrow> fs_node
                             \<Rightarrow> binding_definition list \<Rightarrow> check_result list \<times> binding_definition list" where
  "fixture_phase J from_str io_error root bindings =
     (if path_is_dir root [''tests'', ''http''] then
        (case scan_http_fixtures J from_str io_error (dir_entries root [''tests'', ''http'']) of
           Inr fbs \<Rightarrow> ([check_fixture_bindings fbs], fold merge_binding fbs bindings)
         | Inl _ \<Rightarrow> ([], bindings))
      else ([], bindings))"

definition contract_phase :: "cli_error + bootstrap_contract \<Rightarrow> check_result" where
  "contract_phase res =
     (case res of
        Inr c \<Rightarrow> check_bootstrap_runtime_contract c
      | Inl e \<Rightarrow>
          from_findings ''bootstrap-runtime-contract''
            [finding_error ''bootstrap-runtime-contract''
               (''failed to scan bootstrap runtime contract: '' @ show_cli_error e)])"

definition build_bindings_index :: "'j value_api \<Rightarrow> (string \<Rightarrow> 'j option) \<Rightarrow> (path \<Rightarrow> string)
                                    \<Rightarrow> hash_orders \<Rightarrow> fs_node \<Rightarrow> bindings_index" where
  "build_bindings_index J from_str io_error h root =
     (let ix = \<lparr>ix_config_bindings =
                  snd (fixture_phase J from_str io_error root (snd (config_phase h root))),
                ix_source = (case scan_runtime_bindings J from_str io_error root of
                               Inr src \<Rightarrow> Some src | Inl _ \<Rightarrow> None),
                ix_resolved = []\<rparr>
      in ix\<lparr>ix_resolved := resolve_bindings ix\<rparr>)"

definition bindings_checks :: "'j value_api \<Rightarrow> (string \<Rightarrow> 'j option) \<Rightarrow> (path \<Rightarrow> string)
                               \<Rightarrow> hash_orders \<Rightarrow> fs_node \<Rightarrow> check_result list" where
  "bindings_checks J from_str io_error h root =
     (if path_is_dir root [''internal''] then
        (let ix = build_bindings_index J from_str io_error h root in
         source_phase (scan_runtime_bindings J from_str io_error root)
         @ fst (config_phase h root)
         @ fst (fixture_phase J from_str io_error root (snd (config_phase h root)))
         @ [check_resolved_bindings (ix_resolved ix), check_topic_subject_mapping ix,
            check_binding_consumer_coverage ix, check_binding_validator_coverage ix,
            check_scope_consistency h ix,
            contract_phase (scan_bootstrap_runtime_contract io_error root), check_drift h ix])
      else
        [from_findings ''internal-dir''
           [with_help
              (with_why (finding_error ''internal-dir'' ''internal/ directory not found'')
                 ''runtime-bindings scans Go source for binding definitions and routing constants'')
              ''run `raccoon-cli doctor` to verify project structure first'']])"

definition runtime_bindings_analyze :: "'j value_api \<Rightarrow> (string \<Rightarrow> 'j option) \<Rightarrow> (path \<Rightarrow> string)
                                        \<Rightarrow> hash_orders \<Rightarrow> fs_node \<Rightarrow> cli_error + report" where
  "runtime_bindings_analyze J from_str io_error h root =
     Inr (foldl report_add (report_new ''runtime-bindings'') (bindings_checks J from_str io_error h root))"

end
