(* ===== verification/RuntimeBindingsProps.thy ===== *)
theory RuntimeBindingsProps
  imports RuntimeBindings
begin

text \<open>
  Properties of the runtime-bindings analyser: the tokens and subjects it derives, what a
  passing report guarantees, and where its checks are weaker than they look.
\<close>

section \<open>Tokens and subjects\<close>

definition token_char :: "char \<Rightarrow> bool" where
  "token_char c = (ascii_lower c \<or> ascii_digit c \<or> c = CHR ''-'')"

fun no_double_dash :: "string \<Rightarrow> bool" where
  "no_double_dash (a # b # cs) = (\<not> (a = CHR ''-'' \<and> b = CHR ''-'') \<and> no_double_dash (b # cs))"
| "no_double_dash _ = True"

definition token_ok :: "string \<Rightarrow> bool" where
  "token_ok t =
     (t \<noteq> [] \<and> list_all token_char t \<and> hd t \<noteq> CHR ''-'' \<and> last t \<noteq> CHR ''-'' \<and> no_double_dash t)"

lemma ascii_codes:
  "ascii_upper c \<longleftrightarrow> 65 \<le> (of_char c :: nat) \<and> (of_char c :: nat) \<le> 90"
  "ascii_lower c \<longleftrightarrow> 97 \<le> (of_char c :: nat) \<and> (of_char c :: nat) \<le> 122"
  "ascii_digit c \<longleftrightarrow> 48 \<le> (of_char c :: nat) \<and> (of_char c :: nat) \<le> 57"
  by (simp_all add: ascii_upper_def ascii_lower_def ascii_digit_def less_eq_char_def)

lemma lower_char_alnum:
  assumes "ascii_alnum (lower_char c)"
  shows "ascii_lower (lower_char c) \<or> ascii_digit (lower_char c)"
  using assms
  by (cases "ascii_upper c")
    (auto simp: lower_char_def ascii_alnum_def ascii_codes)

lemma dashed_chars:
  "\<forall>c\<in>set s. ascii_alnum c \<longrightarrow> ascii_lower c \<or> ascii_digit c \<Longrightarrow> list_all token_char (dashed b s)"
  by (induction b s rule: dashed.induct) (auto simp: token_char_def)

lemma dash_not_alnum: "\<not> ascii_alnum CHR ''-''"
  by (simp add: ascii_alnum_def ascii_codes)

lemma dashed_single:
  "no_double_dash (dashed b s) \<and> (b \<longrightarrow> dashed b s = [] \<or> hd (dashed b s) \<noteq> CHR ''-'')"
proof (induction b s rule: dashed.induct)
  case (2 b c cs)
  then show ?case
    using dash_not_alnum by (cases "dashed False cs"; cases "dashed True cs") auto
qed simp

lemma no_double_dash_append:
  "no_double_dash (xs @ ys) \<Longrightarrow> no_double_dash xs \<and> no_double_dash ys"
  by (cases ys; induction xs rule: no_double_dash.induct) auto

lemma dropWhile_split: "\<exists>p. s = p @ dropWhile P s"
  by (rule exI [of _ "takeWhile P s"]) simp

lemma trim_char_parts:
  "\<exists>a b. s = a @ trim_char s c @ b"
proof -
  obtain a where a: "s = a @ trim_start_char s c"
    using dropWhile_split [of s "\<lambda>x. x = c"] by (auto simp: trim_start_char_def)
  obtain b where b: "rev (trim_start_char s c) = b @ dropWhile (\<lambda>x. x = c) (rev (trim_start_char s c))"
    using dropWhile_split by blast
  have "trim_start_char s c = trim_char s c @ rev b"
    unfolding trim_char_def trim_end_char_def using arg_cong [OF b, of rev] by (simp only: rev_append rev_rev_ident)
  then have "a @ trim_start_char s c = a @ trim_char s c @ rev b" by (rule arg_cong)
  then have eq: "s = a @ trim_char s c @ rev b" by (rule trans [OF a])
  show ?thesis by (intro exI) (rule eq)
qed

lemma trim_char_ends:
  assumes "trim_char s c \<noteq> []"
  shows "hd (trim_char s c) \<noteq> c" "last (trim_char s c) \<noteq> c"
proof -
  let ?t = "trim_start_char s c"
  have last: "last (trim_char s c) = hd (dropWhile (\<lambda>x. x = c) (rev ?t))"
    and ne: "dropWhile (\<lambda>x. x = c) (rev ?t) \<noteq> []"
    using assms by (auto simp: trim_char_def trim_end_char_def last_rev)
  show "last (trim_char s c) \<noteq> c" unfolding last by (rule hd_dropWhile [OF ne])
  have "?t \<noteq> []" using ne by auto
  then have hd_t: "hd ?t \<noteq> c" unfolding trim_start_char_def by (rule hd_dropWhile)
  obtain b where "rev ?t = b @ dropWhile (\<lambda>x. x = c) (rev ?t)" using dropWhile_split by blast
  then have "?t = trim_char s c @ rev b"
    unfolding trim_char_def trim_end_char_def by (metis rev_append rev_rev_ident)
  with assms hd_t show "hd (trim_char s c) \<noteq> c" by (metis hd_append2)
qed

text \<open>
  C16 (sanitised tokens). Every token the analyser derives from a scope or a binding name is a
  non-empty string of lower-case letters, digits and single dashes that neither starts nor ends
  with a dash, so that it is one segment of a NATS subject.
\<close>

theorem sanitize_token_ok: "token_ok (sanitize_token raw)"
proof -
  have unknown: "token_ok ''unknown''" by (simp add: token_ok_def token_char_def ascii_codes)
  let ?raw = "map lower_char (trim raw)"
  let ?d = "dashed False ?raw"
  let ?t = "trim_char ?d (CHR ''-'')"
  show ?thesis
  proof (cases "?raw = [] \<or> ?t = []")
    case True
    then show ?thesis using unknown by (auto simp: sanitize_token_def Let_def)
  next
    case False
    have "\<forall>c\<in>set ?raw. ascii_alnum c \<longrightarrow> ascii_lower c \<or> ascii_digit c"
      using lower_char_alnum by auto
    then have chars: "list_all token_char ?d" by (rule dashed_chars)
    obtain a b where ab: "?d = a @ ?t @ b" using trim_char_parts by blast
    have "no_double_dash (a @ ?t @ b)" using dashed_single [of False ?raw] ab by simp
    then have nd: "no_double_dash ?t" using no_double_dash_append by blast
    have "list_all token_char (a @ ?t @ b)" using chars ab by simp
    then have tc: "list_all token_char ?t" by simp
    have "sanitize_token raw = ?t" using False by (simp add: sanitize_token_def Let_def)
    then show ?thesis using False nd tc trim_char_ends [of ?d "CHR ''-''"] by (simp add: token_ok_def)
  qed
qed

lemma split_on_append:
  "split_on (a @ c # b) [c] = split_on a [c] @ split_on b [c]"
proof (induction a rule: length_induct)
  case (1 a)
  show ?case
  proof (cases "c \<in> set a")
    case False
    then show ?thesis by (simp add: split_on_single_char split_on_no_char)
  next
    case True
    then obtain x y where a: "a = x @ c # y" "c \<notin> set x" by (meson split_list_first)
    have "split_on (y @ c # b) [c] = split_on y [c] @ split_on b [c]" using 1 a(1) by simp
    then show ?thesis by (simp add: a split_on_single_char)
  qed
qed

lemma token_segment:
  assumes "token_ok t"
  shows "CHR ''.'' \<notin> set t" "t \<noteq> []" "list_all subject_char t"
proof -
  have dot: "\<not> token_char CHR ''.''" by (simp add: token_char_def ascii_codes)
  show "CHR ''.'' \<notin> set t" using assms dot by (auto simp: token_ok_def list_all_iff)
  show "t \<noteq> []" using assms by (simp add: token_ok_def)
  show "list_all subject_char t"
    using assms by (auto simp: token_ok_def list_all_iff token_char_def subject_char_def ascii_alnum_def)
qed

text \<open>
  Property (derived subjects). When the prefix found in the sources is a NATS subject, the subject
  derived for any scope and binding name is one too, with exactly three more segments, one for
  each part.
\<close>

theorem derived_subject_ok:
  assumes "is_nats_subject prefix"
  shows "\<exists>subj. derive_jetstream_subject prefix kind key name = Some subj
           \<and> split_on subj ''.'' = split_on prefix ''.''
               @ [sanitize_token kind, sanitize_token key, sanitize_token name]
           \<and> is_nats_subject subj"
proof -
  note tok = token_segment [OF sanitize_token_ok]
  let ?s = "prefix @ ''.'' @ sanitize_token kind @ ''.'' @ sanitize_token key @ ''.'' @ sanitize_token name"
  have p: "prefix \<noteq> []" "3 \<le> length prefix" "2 \<le> length (split_on prefix ''.'')"
    "list_all (\<lambda>seg. seg \<noteq> [] \<and> list_all subject_char seg) (split_on prefix ''.'')"
    using assms by (auto simp: is_nats_subject_def Let_def split: if_splits)
  have segs: "split_on ?s ''.'' = split_on prefix ''.''
      @ [sanitize_token kind, sanitize_token key, sanitize_token name]"
    by (simp add: split_on_append split_on_no_char tok(1))
  have "is_nats_subject ?s"
    unfolding is_nats_subject_def segs Let_def using p tok(2,3) by simp
  with segs p(1) show ?thesis by (simp add: derive_jetstream_subject_def)
qed

theorem derived_subject_ok_witness:
  "is_nats_subject ''dataplane.ingestion.received''
   \<and> derive_jetstream_subject ''dataplane.ingestion.received'' ''global'' ''default'' '' Orders (EU) v2''
       = Some ''dataplane.ingestion.received.global.default.orders-eu-v2''"
proof -
  have p: "is_nats_subject ''dataplane.ingestion.received''" by code_simp
  have s: "sanitize_token ''global'' = ''global''" "sanitize_token ''default'' = ''default''"
    "sanitize_token '' Orders (EU) v2'' = ''orders-eu-v2''"
    by code_simp+
  from derived_subject_ok [OF p, of "''global''" "''default''" "'' Orders (EU) v2''"] p
  show ?thesis by (simp add: derive_jetstream_subject_def s)
qed

section \<open>What a passing report guarantees\<close>

lemma bindings_check_wf: "\<forall>c\<in>set (bindings_checks J from_str io_error h root). check_wf c"
proof -
  have src: "check_wf c" if "c \<in> set (source_phase res)" for c res
    using that
    by (auto simp: source_phase_def check_subject_pattern_def check_routing_constants_def
        check_lifecycle_events_def check_wf_from_findings split: sum.splits)
  have cfg: "check_wf c" if "c \<in> set (fst (config_phase h root))" for c
    using that by (auto simp: config_phase_def scan_binding_configs_def check_config_bindings_def
        check_wf_from_findings split: if_splits)
  have fix_wf: "check_wf c" if "c \<in> set (fst (fixture_phase J from_str io_error root bs))" for c bs
    using that by (auto simp: fixture_phase_def check_fixture_bindings_def check_wf_from_findings
        check_wf_pass split: if_splits sum.splits)
  have rest: "check_wf (check_resolved_bindings rs)" "check_wf (check_topic_subject_mapping ix)"
    "check_wf (check_binding_consumer_coverage ix)" "check_wf (check_binding_validator_coverage ix)"
    "check_wf (check_scope_consistency h ix)" "check_wf (contract_phase res)" "check_wf (check_drift h ix)"
    for rs ix res
    by (simp_all add: check_resolved_bindings_def check_topic_subject_mapping_def
        check_binding_consumer_coverage_def check_binding_validator_coverage_def check_scope_consistency_def
        contract_phase_def check_bootstrap_runtime_contract_def check_drift_def Let_def
        check_wf_from_findings check_wf_skip split: option.splits sum.splits)
  show ?thesis
    using src cfg fix_wf rest by (auto simp: bindings_checks_def Let_def check_wf_from_findings)
qed

interpretation bindings: total_analyser "runtime_bindings_analyze J from_str io_error h"
  for J :: "'j value_api" and from_str io_error h
proof
  have "report_wf (foldl report_add (report_new ''runtime-bindings'') (bindings_checks J from_str io_error h root))"
    for root
    using bindings_check_wf by (intro report_wf_foldl report_wf_new)
  then show "runtime_bindings_analyze J from_str io_error h root = Inr r \<Longrightarrow> report_wf r" for root r
    by (metis runtime_bindings_analyze_def sum.inject(2))
  show "\<exists>r. runtime_bindings_analyze J from_str io_error h root = Inr r" for root
    by (simp add: runtime_bindings_analyze_def)
qed

lemma config_phase_none: "snd (config_phase h root) = []"
  by (simp add: config_phase_def scan_binding_configs_def)

interpretation bindings_order: order_robust "bindings_checks J from_str io_error"
  for J :: "'j value_api" and from_str io_error
proof
  fix h h' :: hash_orders and root :: fs_node
  assume h: "orders_ok h" "orders_ok h'"
  have index: "build_bindings_index J from_str io_error h root = build_bindings_index J from_str io_error h' root"
    by (simp add: build_bindings_index_def config_phase_none)
  have cfg: "fst (config_phase h root) = fst (config_phase h' root)"
    by (simp add: config_phase_def scan_binding_configs_def check_config_bindings_def)
  have scope: "same_outcome (check_scope_consistency h ix) (check_scope_consistency h' ix)" for ix
    unfolding check_scope_consistency_def Let_def
    by (rule same_outcome_findings) (simp add: opt_finding_set)
  have drift_set: "fd_severity ` set (scope_drift h ix src) = fd_severity ` set (scope_drift h' ix src)" for ix src
    by (simp add: scope_drift_def Let_def image_UN hs_iter_set h)
  have drift: "same_outcome (check_drift h ix) (check_drift h' ix)" for ix
  proof (cases "ix_source ix")
    case (Some src)
    show ?thesis
      unfolding check_drift_def Some option.case
      by (rule same_outcome_findings) (simp only: set_append image_Un drift_set)
  qed (simp add: check_drift_def)
  show "list_all2 same_outcome (bindings_checks J from_str io_error h root)
                               (bindings_checks J from_str io_error h' root)"
    unfolding bindings_checks_def Let_def index cfg config_phase_none
    by (simp add: scope drift list_all2_appendI)
qed

definition routing_ok :: "binding_source \<Rightarrow> bool" where
  "routing_ok src =
     (bn_subject_prefix src = ''dataplane.ingestion.received''
      \<and> hm_has (bn_stream_subjects src) ''DATA_PLANE_INGESTION''
      \<and> hm_get (bn_durables src) ''validator-dataplane-v1'' = Some ''DATA_PLANE_INGESTION''
      \<and> hm_get (bn_durables src) ''consumer-runtime-refresh-v1'' = Some ''CONFIGCTL_EVENTS''
      \<and> hm_get (bn_durables src) ''emulator-runtime-refresh-v1'' = Some ''CONFIGCTL_EVENTS''
      \<and> pred_option (\<lambda>stream. stream = ''CONFIGCTL_EVENTS'') (hm_get (bn_durables src) ''validator-runtime-cache-v1'')
      \<and> bn_has_bootstrap_client src \<and> bn_has_topology_builder src
      \<and> bn_has_runtime_cache src \<and> bn_has_validation_worker src)"

definition contract_ok :: "bootstrap_contract \<Rightarrow> bool" where
  "contract_ok c =
     (bc_has_ingestion_bindings_field c \<and> bc_has_ingestion_runtimes_field c
      \<and> bc_populates_compact_runtimes c \<and> bc_has_compact_runtime_mapper c
      \<and> bc_has_runtime_projections_route c)"

lemma durable_ok:
  assumes "no_error (durable_drift src d expected f)" "\<And>s. fd_severity (f s) = Error" "hm_has (bn_durables src) d"
  shows "hm_get (bn_durables src) d = Some expected"
  using assms by (auto simp: durable_drift_def hm_has_def split: option.splits)

lemma routing_ok_if:
  assumes "ix_source ix = Some src"
    and "\<forall>c\<in>set (source_phase (Inr src)). ck_status c \<noteq> CheckFail"
    and "ck_status (check_binding_consumer_coverage ix) \<noteq> CheckFail"
    and "ck_status (check_binding_validator_coverage ix) \<noteq> CheckFail"
    and "ck_status (check_drift h ix) \<noteq> CheckFail"
  shows "routing_ok src"
proof -
  have prefix: "bn_subject_prefix src \<noteq> []"
    using assms(2) by (auto simp: source_phase_def check_subject_pattern_def check_ok_iff split: if_splits)
  have routing: "hm_has (bn_stream_subjects src) ''DATA_PLANE_INGESTION''"
    "hm_has (bn_durables src) ''validator-dataplane-v1''"
    "hm_has (bn_durables src) ''consumer-runtime-refresh-v1''"
    "hm_has (bn_durables src) ''emulator-runtime-refresh-v1''"
    using assms(2) by (simp_all add: source_phase_def check_routing_constants_def check_ok_iff refresh_durables_def)
  have flags: "bn_has_bootstrap_client src" "bn_has_topology_builder src"
    "bn_has_runtime_cache src" "bn_has_validation_worker src"
    using assms(3,4)
    by (simp_all add: assms(1) check_binding_consumer_coverage_def check_binding_validator_coverage_def check_ok_iff)
  have drift: "bn_subject_prefix src = ''dataplane.ingestion.received''"
    using assms(5) prefix by (simp add: check_drift_def assms(1) check_ok_iff)
  have durables: "hm_get (bn_durables src) ''validator-dataplane-v1'' = Some ''DATA_PLANE_INGESTION''"
    "hm_get (bn_durables src) ''consumer-runtime-refresh-v1'' = Some ''CONFIGCTL_EVENTS''"
    "hm_get (bn_durables src) ''emulator-runtime-refresh-v1'' = Some ''CONFIGCTL_EVENTS''"
    using assms(5) routing
    by (auto simp: check_drift_def assms(1) check_ok_iff refresh_durables_def durable_drift_def hm_has_def)
  have "pred_option (\<lambda>stream. stream = ''CONFIGCTL_EVENTS'') (hm_get (bn_durables src) ''validator-runtime-cache-v1'')"
    using assms(5) by (auto simp: check_drift_def assms(1) check_ok_iff durable_drift_def pred_option_def)
  with routing flags drift durables show ?thesis by (simp add: routing_ok_def)
qed

lemma bindings_guarantee:
  assumes "runtime_bindings_analyze J from_str io_error h root = Inr r" "rp_passed r"
  shows "(\<exists>src. scan_runtime_bindings J from_str io_error root = Inr src \<and> routing_ok src)
         \<and> (\<exists>c. scan_bootstrap_runtime_contract io_error root = Inr c \<and> contract_ok c)"
proof -
  have checks: "\<forall>c\<in>set (bindings_checks J from_str io_error h root). ck_status c \<noteq> CheckFail"
    using bindings.analyse_wf [OF assms(1)] assms by (auto simp: runtime_bindings_analyze_def report_wf_def)
  have dir: "path_is_dir root [''internal'']"
    using checks by (auto simp: bindings_checks_def check_ok_iff split: if_splits)
  let ?scan = "scan_runtime_bindings J from_str io_error root"
  let ?ix = "build_bindings_index J from_str io_error h root"
  have source: "\<forall>c\<in>set (source_phase ?scan). ck_status c \<noteq> CheckFail"
    and contract: "ck_status (contract_phase (scan_bootstrap_runtime_contract io_error root)) \<noteq> CheckFail"
    and rest: "ck_status (check_binding_consumer_coverage ?ix) \<noteq> CheckFail"
      "ck_status (check_binding_validator_coverage ?ix) \<noteq> CheckFail" "ck_status (check_drift h ?ix) \<noteq> CheckFail"
    using checks dir by (simp_all add: bindings_checks_def Let_def)
  obtain src where src: "?scan = Inr src"
    using source by (cases ?scan) (simp_all add: source_phase_def check_ok_iff)
  have "ix_source ?ix = Some src" by (simp add: build_bindings_index_def Let_def src)
  from routing_ok_if [OF this _ rest] source src have routing: "routing_ok src" by simp
  obtain c where c: "scan_bootstrap_runtime_contract io_error root = Inr c"
    using contract by (cases "scan_bootstrap_runtime_contract io_error root")
      (simp_all add: contract_phase_def check_ok_iff)
  have "contract_ok c"
    using contract
    by (auto simp: contract_phase_def c check_bootstrap_runtime_contract_def Let_def check_ok_iff
        contract_finding_def contract_ok_def split: if_splits)
  with src routing c show ?thesis by blast
qed

text \<open>
  C15 (what a passing runtime-bindings report guarantees). When the report passes, the sources
  define the expected subject prefix, the ingestion stream and three durables, the data-plane one
  on DATA_PLANE_INGESTION and the two refresh ones on CONFIGCTL_EVENTS; the runtime cache durable
  may be missing (a warning), but is on CONFIGCTL_EVENTS when defined. The four files of the runtime
  exist and the bootstrap contract of the control plane is intact.
\<close>

theorem bindings_passed:
  assumes "runtime_bindings_analyze J from_str io_error h root = Inr r" "rp_passed r"
  shows "(\<exists>src. scan_runtime_bindings J from_str io_error root = Inr src \<and> routing_ok src)
         \<and> (\<exists>c. scan_bootstrap_runtime_contract io_error root = Inr c \<and> contract_ok c)"
  by (rule bindings_guarantee [OF assms])

text \<open>A small project whose report passes.\<close>

definition qt :: "string \<Rightarrow> string" where
  "qt s = [dq] @ s @ [dq]"

definition lines_file :: "string list \<Rightarrow> fs_node" where
  "lines_file ls = FFile (Some (concat (map (\<lambda>l. l @ nl) ls)))"

definition dataplane_go :: fs_node where
  "dataplane_go = lines_file
     [''const subjectPrefix = '' @ qt ''dataplane.ingestion.received'',
      ''Name: '' @ qt ''DATA_PLANE_INGESTION'', ''Durable: '' @ qt ''validator-dataplane-v1'']"

definition registry_go :: fs_node where
  "registry_go = lines_file
     [''Name: '' @ qt ''CONFIGCTL_EVENTS'', ''Durable: '' @ qt ''validator-runtime-cache-v1'',
      ''Durable: '' @ qt ''consumer-runtime-refresh-v1'',
      ''Durable: '' @ qt ''emulator-runtime-refresh-v1'']"

definition bound_project :: fs_node where
  "bound_project =
     FDir [(''internal'', FDir
       [(''adapters'', FDir [(''registry.go'', registry_go)]),
        (''application'', FDir
          [(''runtimebootstrap'', FDir [(''client.go'', FFile (Some []))]),
           (''dataplane'', FDir [(''topology.go'', dataplane_go)]),
           (''configctl'', FDir
             [(''contracts'', FDir [(''replies.go'', lines_file
                 [''Bindings []ActiveIngestionBindingRecord'', ''Runtimes []sharedruntime.RuntimeRecord''])]),
              (''list_active_ingestion_bindings.go'', lines_file
                 [''Runtimes: compactIngestionRuntimesFromDomain(runtimes)'']),
              (''mappers.go'', lines_file
                 [''func compactIngestionRuntimesFromDomain'',
                  ''sharedruntime.RecordFromIngestionProjection(runtime)''])])]),
        (''actors'', FDir [(''scopes'', FDir [(''validator'', FDir
           [(''runtime_cache.go'', FFile (Some [])), (''validation_worker.go'', FFile (Some []))])])]),
        (''interfaces'', FDir [(''http'', FDir [(''routes'', FDir
           [(''runtime.go'', lines_file [''Path:    '' @ qt ''/runtime/configctl/projections''])])])])])]"

lemma bound_project_passes:
  "case runtime_bindings_analyze small_api (\<lambda>_. None) (\<lambda>_. []) (\<lambda>_ ks. ks) bound_project of
     Inr r \<Rightarrow> rp_passed r | Inl _ \<Rightarrow> False"
  by code_simp

lemma bound_project_cache:
  "case scan_runtime_bindings small_api (\<lambda>_. None) (\<lambda>_. []) bound_project of
     Inr src \<Rightarrow> hm_has (bn_durables src) ''validator-runtime-cache-v1'' | Inl _ \<Rightarrow> False"
  by code_simp

theorem bindings_passed_witness:
  "\<exists>src. scan_runtime_bindings small_api (\<lambda>_. None) (\<lambda>_. []) bound_project = Inr src \<and> routing_ok src
     \<and> hm_get (bn_durables src) ''validator-runtime-cache-v1'' = Some ''CONFIGCTL_EVENTS''"
proof -
  obtain r where r: "runtime_bindings_analyze small_api (\<lambda>_. None) (\<lambda>_. []) (\<lambda>_ ks. ks) bound_project = Inr r"
    "rp_passed r"
    using bound_project_passes by (auto split: sum.splits)
  from bindings_passed [OF r] obtain src where
    src: "scan_runtime_bindings small_api (\<lambda>_. None) (\<lambda>_. []) bound_project = Inr src" "routing_ok src"
    by blast
  have "hm_has (bn_durables src) ''validator-runtime-cache-v1''" using bound_project_cache src(1) by simp
  with src show ?thesis by (auto simp: routing_ok_def hm_has_def pred_option_def split: option.splits)
qed

section \<open>Checks that are weaker than they look\<close>

lemma ends_with_append: "ends_with (a @ b) b"
  by (simp add: ends_with_def strip_suffix_def)

lemma wildcard_matches: "subject_matches_pattern (prefix @ ''.'' @ s) (wildcard prefix)"
  using ends_with_append [of prefix "''.>''"]
  by (simp add: subject_matches_pattern_def wildcard_def)

lemma synthesise_wildcard:
  assumes "bn_subject_prefix (synthesise src) \<noteq> []"
    "hm_get (bn_stream_subjects (synthesise src)) ''DATA_PLANE_INGESTION'' = Some patterns"
  shows "wildcard (bn_subject_prefix (synthesise src)) \<in> set patterns"
  using assms unfolding synthesise_def Let_def
  by (auto split: if_splits option.splits)

text \<open>
  Property (the topic-subject check cannot fail). The scan adds the wildcard made up from the prefix
  to the ingestion stream, and the derived subjects start with that prefix: whatever subjects
  the stream really declares, the check that the derived subjects fall into it has no finding.
\<close>

theorem topic_subject_check_vacuous:
  assumes "scan_runtime_bindings J from_str io_error root = Inr src"
    and "ix_source ix = Some src" "ix_resolved ix = resolve_bindings ix"
  shows "ck_findings (check_topic_subject_mapping ix) = []"
proof -
  obtain src0 where src0: "bn_subject_prefix src = bn_subject_prefix (synthesise src0)"
    "bn_stream_subjects src = bn_stream_subjects (synthesise src0)"
    using assms(1) by (auto simp: scan_runtime_bindings_def Let_def split: sum.splits if_splits)
  have "list_ex (subject_matches_pattern subject) patterns"
    if rb: "rb \<in> set (ix_resolved ix)" "rb_jetstream_subject rb = Some subject"
      and patterns: "hm_get (bn_stream_subjects src) ''DATA_PLANE_INGESTION'' = Some patterns"
    for rb subject patterns
  proof -
    obtain b where "rb = resolve_binding src b"
      using rb(1) by (auto simp: assms(2,3) resolve_bindings_def)
    with rb(2) obtain s where prefix: "bn_subject_prefix src \<noteq> []" and s: "subject = bn_subject_prefix src @ ''.'' @ s"
      by (auto simp: resolve_binding_def Let_def derive_jetstream_subject_def split: if_splits)
    have "wildcard (bn_subject_prefix src) \<in> set patterns"
      using synthesise_wildcard [of src0 patterns] prefix patterns by (simp add: src0)
    then show ?thesis using wildcard_matches by (auto simp: s list_ex_iff)
  qed
  then show ?thesis
    by (auto simp: check_topic_subject_mapping_def assms(2) split: option.splits)
qed

theorem topic_subject_check_vacuous_witness:
  "\<exists>src. scan_runtime_bindings small_api (\<lambda>_. None) (\<lambda>_. []) bound_project = Inr src
     \<and> ck_findings (check_topic_subject_mapping
          \<lparr>ix_config_bindings = [], ix_source = Some src, ix_resolved = []\<rparr>) = []"
proof -
  obtain src where src: "scan_runtime_bindings small_api (\<lambda>_. None) (\<lambda>_. []) bound_project = Inr src"
  proof -
    have "case scan_runtime_bindings small_api (\<lambda>_. None) (\<lambda>_. []) bound_project of Inr _ \<Rightarrow> True | Inl _ \<Rightarrow> False"
      by code_simp
    then show ?thesis using that by (auto split: sum.splits)
  qed
  have "ck_findings (check_topic_subject_mapping
          \<lparr>ix_config_bindings = [], ix_source = Some src, ix_resolved = []\<rparr>) = []"
    by (rule topic_subject_check_vacuous [OF src]) (simp_all add: resolve_bindings_def)
  with src show ?thesis by blast
qed

text \<open>
  Property (patterns match partial segments). A pattern \<open>a.b.>\<close> matches subjects that are not
  below \<open>a.b\<close>: one whose segment merely starts with \<open>b\<close>, and \<open>a.b\<close> itself, which NATS excludes.
\<close>

theorem pattern_matches_partial_segment:
  "subject_matches_pattern ''dataplane.ingestion.received2.x'' ''dataplane.ingestion.received.>''
   \<and> subject_matches_pattern ''dataplane.ingestion.received'' ''dataplane.ingestion.received.>''"
  by code_simp

text \<open>
  Property (counts of YAML bindings). A binding that is followed by another one is stored
  before the fields are counted, so that it has none: here the first of two bindings of a
  document with one field.
\<close>

theorem first_yaml_binding_has_no_fields:
  "map (\<lambda>b. (bd_name b, bd_field_count b))
     (bindings_of_yaml ''f.http'' (concat (map (\<lambda>l. l @ nl)
        [''bindings:'', ''  - name: one'', ''    topic: t1'', ''  - name: two'', ''    topic: t2'',
         ''fields:'', ''  - name: id'']))) = [(''one'', 0), (''two'', 1)]"
  by code_simp

end
