(* ===== verification/ContractScan.thy ===== *)
theory ContractScan
  imports SourceText Models
begin

text \<open>
  The scanners of the contract audit (\<open>analyzers/contracts/registry.rs\<close>, \<open>envelope.rs\<close>,
  \<open>events.rs\<close>, \<open>dataplane.rs\<close>): blocks of Go composite literals, struct bodies and method bodies
  found by text search and brace matching. Sources are ASCII; depths count braces of a file in
  memory and are natural numbers.
\<close>

section \<open>Text\<close>

text \<open>
  The three copies of \<open>find_closing_brace\<close> and \<open>find_struct_end\<close> differ in the characters that
  open a string and in whether a backslash escapes in it.
\<close>

fun close_brace :: "char list \<Rightarrow> bool \<Rightarrow> nat \<Rightarrow> bool \<Rightarrow> bool \<Rightarrow> string \<Rightarrow> nat option" where
  "close_brace quotes escapes depth in_string escape [] = None"
| "close_brace quotes escapes depth in_string escape (c # cs) =
     (if escape then map_option Suc (close_brace quotes escapes depth in_string False cs)
      else if escapes \<and> c = CHR 0x5C \<and> in_string
      then map_option Suc (close_brace quotes escapes depth in_string True cs)
      else if c \<in> set quotes
      then map_option Suc (close_brace quotes escapes depth (\<not> in_string) False cs)
      else if \<not> in_string \<and> c = CHR 0x7B
      then map_option Suc (close_brace quotes escapes (depth + 1) in_string False cs)
      else if \<not> in_string \<and> c = CHR 0x7D
      then (if depth - 1 = 0 then Some 0
            else map_option Suc (close_brace quotes escapes (depth - 1) in_string False cs))
      else map_option Suc (close_brace quotes escapes depth in_string False cs))"

definition backquote :: char where
  "backquote = CHR 0x60"

definition find_closing_brace :: "string \<Rightarrow> nat \<Rightarrow> nat option" where
  "find_closing_brace source start =
     map_option ((+) start) (close_brace [dq] True 1 False False (drop start source))"

definition find_struct_end :: "string \<Rightarrow> nat \<Rightarrow> nat option" where
  "find_struct_end source start =
     map_option ((+) start) (close_brace [dq, backquote] True 1 False False (drop start source))"

definition find_body_end :: "string \<Rightarrow> nat \<Rightarrow> nat option" where
  "find_body_end source start =
     map_option ((+) start) (close_brace [dq, backquote] False 1 False False (drop start source))"

lemma find_closing_brace_ge: "find_closing_brace source start = Some e \<Longrightarrow> start \<le> e"
  "find_body_end source start = Some e \<Longrightarrow> start \<le> e"
  by (auto simp: find_closing_brace_def find_body_end_def)

definition slice :: "string \<Rightarrow> nat \<Rightarrow> nat \<Rightarrow> string" where
  "slice s a b = take (b - a) (drop a s)"

definition ident_char :: "char \<Rightarrow> bool" where
  "ident_char c = (ascii_alnum c \<or> c = CHR ''_'')"

definition ident_prefix :: "string \<Rightarrow> string" where
  "ident_prefix s = takeWhile ident_char s"

definition rfind_sub :: "string \<Rightarrow> string \<Rightarrow> nat option" where
  "rfind_sub s p = map_option (\<lambda>k. length s - length p - k) (find_sub (rev s) (rev p))"

text \<open>The first value of a list of lines for which a line has one.\<close>

definition first_in_lines :: "(string \<Rightarrow> string option) \<Rightarrow> string \<Rightarrow> string option" where
  "first_in_lines f s = first_some (map (\<lambda>line. f (trim line)) (str_lines s))"

section \<open>Registries\<close>

record control_spec =
  cs_name :: string
  cs_subject :: string
  cs_request_type :: string
  cs_reply_type :: string
  cs_queue_group :: string
  cs_file :: string

record event_spec =
  es_name :: string
  es_subject :: string
  es_event_type :: string
  es_stream_name :: "string option"
  es_file :: string

record stream_spec =
  ss_name :: string
  ss_subjects :: "string list"
  ss_file :: string

record consumer_spec =
  co_durable :: string
  co_stream_name :: string
  co_filter_subjects :: "string list"
  co_file :: string

record registry_index =
  rg_control_specs :: "control_spec list"
  rg_event_specs :: "event_spec list"
  rg_streams :: "stream_spec list"
  rg_consumers :: "consumer_spec list"

text \<open>
  The literals that begin with a marker such as \<open>ControlSpec{\<close>: the position of the marker and
  of the closing brace. The search goes on after a literal, or one byte after a marker with no
  closing brace.
\<close>

function spec_blocks :: "string \<Rightarrow> string \<Rightarrow> nat \<Rightarrow> (nat \<times> nat) list" where
  "spec_blocks marker source i =
     (if length source \<le> i then []
      else (case find_sub (drop i source) marker of
              None \<Rightarrow> []
            | Some pos \<Rightarrow>
                (case find_closing_brace source (i + pos + length marker) of
                   Some block_end \<Rightarrow> (i + pos, block_end) # spec_blocks marker source (block_end + 1)
                 | None \<Rightarrow> spec_blocks marker source (i + pos + 1))))"
  by pat_completeness auto
termination
  by (relation "measure (\<lambda>(marker, source, i). length source - i)")
    (auto dest!: find_closing_brace_ge(1))

declare spec_blocks.simps [simp del]

definition block_text :: "string \<Rightarrow> nat \<times> nat \<Rightarrow> string" where
  "block_text source b = slice source (fst b) (snd b + 1)"

definition extract_field_name :: "string \<Rightarrow> string option" where
  "extract_field_name prior =
     (let trimmed = rev (dropWhile (\<lambda>c. c = CHR '':'' \<or> c = CHR ''='' \<or> ascii_ws c) (rev (trim_end prior)));
          name = rev (takeWhile ident_char (rev trimmed))
      in if name = [] then None else Some name)"

definition name_or_unknown :: "string \<Rightarrow> string" where
  "name_or_unknown prior = (case extract_field_name prior of Some n \<Rightarrow> n | None \<Rightarrow> ''unknown'')"

definition extract_string_field :: "string \<Rightarrow> string \<Rightarrow> string option" where
  "extract_string_field block fld =
     first_in_lines (\<lambda>trimmed. if starts_with trimmed fld then first_quoted trimmed else None) block"

definition const_after :: "string \<Rightarrow> string \<Rightarrow> string option" where
  "const_after source pat =
     (case find_sub source pat of
        None \<Rightarrow> None
      | Some pos \<Rightarrow>
          (let rest = drop (pos + length pat) source in
           map_option (\<lambda>stop. take stop rest) (find_sub rest [dq])))"

definition extract_const_string :: "string \<Rightarrow> string \<Rightarrow> string option" where
  "extract_const_string source name =
     (case const_after source (name @ '' = '' @ [dq]) of
        Some v \<Rightarrow> Some v
      | None \<Rightarrow> const_after source (name @ ''  = '' @ [dq]))"

text \<open>All quoted strings, the empty ones included.\<close>

function quoted_strings :: "string \<Rightarrow> string list" where
  "quoted_strings s =
     (case find_sub s [dq] of
        None \<Rightarrow> []
      | Some start \<Rightarrow>
          (let rest = drop (start + 1) s in
           case find_sub rest [dq] of
             None \<Rightarrow> []
           | Some stop \<Rightarrow> take stop rest # quoted_strings (drop (stop + 1) rest)))"
  by pat_completeness auto
termination
  by (relation "measure length") (auto dest!: find_sub_length)

declare quoted_strings.simps [simp del]

definition extract_string_array :: "string \<Rightarrow> string \<Rightarrow> string list" where
  "extract_string_array block fld =
     concat (map (\<lambda>line. let trimmed = trim line in
        if starts_with trimmed fld \<or> contains trimmed (fld @ '':'') then
          quoted_strings (case find_sub trimmed ''{'' of Some pos \<Rightarrow> drop pos trimmed | None \<Rightarrow> trimmed)
        else []) (str_lines block))"

text \<open>The literal with a marker nested in a block.\<close>

definition nested_field :: "string \<Rightarrow> string \<Rightarrow> string \<Rightarrow> string option option" where
  "nested_field block marker fld =
     (case find_sub block marker of
        None \<Rightarrow> None
      | Some pos \<Rightarrow>
          (case find_closing_brace block (pos + length marker) of
             None \<Rightarrow> None
           | Some stop \<Rightarrow> Some (extract_string_field (slice block pos (stop + 1)) fld)))"

definition find_nested_stream_name :: "string \<Rightarrow> string option" where
  "find_nested_stream_name block =
     (case nested_field block ''StreamSpec{'' ''Name'' of Some r \<Rightarrow> r | None \<Rightarrow> None)"

definition extract_nested_event_subject :: "string \<Rightarrow> string option" where
  "extract_nested_event_subject block =
     (case nested_field block ''EventSpec{'' ''Subject'' of
        Some r \<Rightarrow> r | None \<Rightarrow> extract_string_field block ''Subject'')"

definition control_of_block :: "string \<Rightarrow> string \<Rightarrow> nat \<times> nat \<Rightarrow> control_spec list" where
  "control_of_block source file_name b =
     (let block = block_text source b in
      case (extract_string_field block ''Subject'', extract_string_field block ''RequestType'',
            extract_string_field block ''ReplyType'') of
        (Some subj, Some req, Some rep) \<Rightarrow>
          [\<lparr>cs_name = name_or_unknown (take (fst b) source), cs_subject = subj, cs_request_type = req,
            cs_reply_type = rep,
            cs_queue_group = (case extract_string_field block ''QueueGroup'' of Some q \<Rightarrow> q | None \<Rightarrow> []),
            cs_file = file_name\<rparr>]
      | _ \<Rightarrow> [])"

definition extract_control_specs :: "string \<Rightarrow> string \<Rightarrow> control_spec list" where
  "extract_control_specs source file_name =
     concat (map (control_of_block source file_name) (spec_blocks ''ControlSpec{'' source 0))"

definition event_of_block :: "string \<Rightarrow> string \<Rightarrow> nat \<times> nat \<Rightarrow> event_spec list" where
  "event_of_block source file_name b =
     (let block = block_text source b in
      case (extract_string_field block ''Subject'', extract_string_field block ''Type'') of
        (Some subj, Some typ) \<Rightarrow>
          [\<lparr>es_name = name_or_unknown (take (fst b) source), es_subject = subj, es_event_type = typ,
            es_stream_name =
              (if contains block ''Stream:'' \<or> contains block ''Stream ''
               then extract_string_field block ''Name'' else None),
            es_file = file_name\<rparr>]
      | _ \<Rightarrow> [])"

definition extract_event_specs :: "string \<Rightarrow> string \<Rightarrow> event_spec list" where
  "extract_event_specs source file_name =
     concat (map (event_of_block source file_name) (spec_blocks ''EventSpec{'' source 0))"

definition add_stream :: "stream_spec \<Rightarrow> stream_spec list \<Rightarrow> stream_spec list" where
  "add_stream s out = (if list_ex (\<lambda>t. ss_name t = ss_name s) out then out else out @ [s])"

definition stream_of_block :: "string \<Rightarrow> string \<Rightarrow> nat \<times> nat \<Rightarrow> stream_spec list \<Rightarrow> stream_spec list" where
  "stream_of_block source file_name b out =
     (let block = block_text source b in
      case extract_string_field block ''Name'' of
        Some n \<Rightarrow>
          add_stream \<lparr>ss_name = n, ss_subjects = extract_string_array block ''Subjects'', ss_file = file_name\<rparr> out
      | None \<Rightarrow> out)"

definition extract_stream_specs :: "string \<Rightarrow> string \<Rightarrow> stream_spec list \<Rightarrow> stream_spec list" where
  "extract_stream_specs source file_name out =
     fold (stream_of_block source file_name) (spec_blocks ''StreamSpec{'' source 0) out"

definition consumer_of_block :: "string \<Rightarrow> string \<Rightarrow> nat \<times> nat \<Rightarrow> consumer_spec list" where
  "consumer_of_block source file_name b =
     (let block = block_text source b;
          listed = extract_string_array block ''FilterSubjects'';
          filters = (if listed = [] then (case extract_nested_event_subject block of
                                            Some subj \<Rightarrow> [subj] | None \<Rightarrow> []) else listed)
      in case extract_string_field block ''Durable'' of
           Some d \<Rightarrow>
             [\<lparr>co_durable = d,
               co_stream_name = (case find_nested_stream_name block of Some n \<Rightarrow> n | None \<Rightarrow> []),
               co_filter_subjects = filters, co_file = file_name\<rparr>]
         | None \<Rightarrow> [])"

definition extract_consumer_specs :: "string \<Rightarrow> string \<Rightarrow> consumer_spec list" where
  "extract_consumer_specs source file_name =
     concat (map (consumer_of_block source file_name) (spec_blocks ''ConsumerSpec{'' source 0))"

definition scan_registry_file :: "string \<times> string \<Rightarrow> registry_index \<Rightarrow> registry_index" where
  "scan_registry_file fc ix =
     (let (file_name, source) = fc in
      \<lparr>rg_control_specs = rg_control_specs ix @ extract_control_specs source file_name,
       rg_event_specs = rg_event_specs ix @ extract_event_specs source file_name,
       rg_streams = extract_stream_specs source file_name (rg_streams ix),
       rg_consumers = rg_consumers ix @ extract_consumer_specs source file_name\<rparr>)"

definition or_else :: "'a option \<Rightarrow> 'a option \<Rightarrow> 'a option" where
  "or_else a b = (case a of Some x \<Rightarrow> Some x | None \<Rightarrow> b)"

text \<open>The route of \<open>dataplane/registry.go\<close>, whose fields may refer to a constant of the file.\<close>

definition extract_dataplane_registry :: "string \<Rightarrow> string \<Rightarrow> registry_index \<Rightarrow> registry_index" where
  "extract_dataplane_registry source file_name ix =
     (case find_sub source ''IngestedRoute{'' of
        None \<Rightarrow> ix
      | Some pos \<Rightarrow>
          (case find_closing_brace source (pos + length ''IngestedRoute{'') of
             None \<Rightarrow> ix
           | Some block_end \<Rightarrow>
               (let block = slice source pos (block_end + 1);
                    prefix = or_else (extract_string_field block ''SubjectPrefix'')
                               (extract_const_string source ''subjectPrefix'');
                    pat = or_else (extract_string_field block ''SubjectPattern'')
                            (map_option (\<lambda>p. p @ ''.>'') prefix);
                    stream = (case extract_string_field block ''Stream'' of
                                Some s \<Rightarrow> s | None \<Rightarrow> ''DATA_PLANE_INGESTION'');
                    resolved = (case pat of Some p \<Rightarrow> p | None \<Rightarrow> [])
                in if resolved = [] then ix
                   else
                     (let ix1 = ix\<lparr>rg_streams :=
                                  add_stream \<lparr>ss_name = stream, ss_subjects = [resolved], ss_file = file_name\<rparr>
                                    (rg_streams ix)\<rparr>
                      in case extract_string_field block ''EventType'' of
                           Some et \<Rightarrow>
                             ix1\<lparr>rg_event_specs := rg_event_specs ix1 @
                               [\<lparr>es_name = ''DataPlaneIngested'', es_subject = resolved, es_event_type = et,
                                 es_stream_name = Some stream, es_file = file_name\<rparr>]\<rparr>
                         | None \<Rightarrow> ix1))))"

definition registry_files :: "fs_node \<Rightarrow> (path \<times> string option) list" where
  "registry_files root =
     walk_tree (\<lambda>_. False) (\<lambda>nm. ends_with nm ''_registry.go'') [''internal'']
       (dir_entries root [''internal''])"

definition empty_registry :: registry_index where
  "empty_registry =
     \<lparr>rg_control_specs = [], rg_event_specs = [], rg_streams = [], rg_consumers = []\<rparr>"

text \<open>
  A single file read when it is a regular file: \<open>Inr None\<close> when it is not there, an error when it
  cannot be read.
\<close>

definition read_optional :: "(path \<Rightarrow> string) \<Rightarrow> fs_node \<Rightarrow> path \<Rightarrow> cli_error + string option" where
  "read_optional io_error root p =
     (case lookup_path root p of
        Some (FFile (Some c)) \<Rightarrow> Inr (Some c)
      | Some (FFile None) \<Rightarrow> Inl (Io (io_error p))
      | _ \<Rightarrow> Inr None)"

definition dataplane_registry_path :: path where
  "dataplane_registry_path = [''internal'', ''application'', ''dataplane'', ''registry.go'']"

definition scan_registries :: "(path \<Rightarrow> string) \<Rightarrow> fs_node \<Rightarrow> cli_error + registry_index" where
  "scan_registries io_error root =
     (case read_all (\<lambda>p. Io (io_error p)) (registry_files root) of
        Inl e \<Rightarrow> Inl e
      | Inr contents \<Rightarrow>
          (let ix = fold scan_registry_file
                      (zip (map (\<lambda>f. path_string (fst f)) (registry_files root)) contents) empty_registry
           in case read_optional io_error root dataplane_registry_path of
                Inl e \<Rightarrow> Inl e
              | Inr None \<Rightarrow> Inr ix
              | Inr (Some content) \<Rightarrow>
                  Inr (extract_dataplane_registry content (path_string dataplane_registry_path) ix)))"

end
