(* ===== verification/ContractSources.thy ===== *)
theory ContractSources
  imports ContractScan
begin

text \<open>
  The other scanners of the contract audit: the message envelope and the NATS codec
  (\<open>contracts/envelope.rs\<close>), the domain events (\<open>contracts/events.rs\<close>) and the data-plane
  message (\<open>contracts/dataplane.rs\<close>). Each looks for one file below \<open>internal/\<close>; a file that is not
  there is \<open>None\<close>, a file that cannot be read ends the audit with an error.
\<close>

section \<open>Envelope and codec\<close>

record envelope_field =
  ef_name :: string
  ef_json_tag :: string
  ef_required :: bool

record envelope_contract =
  en_fields :: "envelope_field list"
  en_valid_kinds :: "string list"
  en_default_content_type :: "string option"
  en_required_fields :: "string list"
  en_file :: string

record kind_check =
  kc_function :: string
  kc_expected_kind :: string
  kc_type_field :: string

record codec_usage =
  cu_encode :: "kind_check list"
  cu_decode :: "kind_check list"
  cu_format :: string
  cu_file :: string

text \<open>The text between a pattern that ends with a quote and the next quote, cut at a comma.\<close>

definition json_tag_open :: string where
  "json_tag_open = [backquote] @ ''json:'' @ [dq]"

definition extract_json_tag :: "string \<Rightarrow> string option" where
  "extract_json_tag line =
     map_option (\<lambda>tag. split_first tag '','') (const_after line json_tag_open)"

definition parse_struct_field :: "string \<Rightarrow> envelope_field option" where
  "parse_struct_field line =
     (let parts = split_ws line in
      if length parts < 2 then None
      else
        (let name = parts ! 0 in
         if \<not> (case name of [] \<Rightarrow> False | c # cs \<Rightarrow> ascii_upper c) then None
         else if contains line json_tag_open then
           Some \<lparr>ef_name = name,
                 ef_json_tag = (case extract_json_tag line of Some t \<Rightarrow> t | None \<Rightarrow> map lower_char name),
                 ef_required = False\<rparr>
         else None))"

definition envelope_struct_start :: "string \<Rightarrow> nat option" where
  "envelope_struct_start source =
     (case find_sub source ''struct {'' of
        None \<Rightarrow> None
      | Some pos \<Rightarrow>
          (let prior = take pos source in
           if \<not> contains prior ''Envelope[T any]'' \<and> \<not> contains prior ''Envelope[''
           then map_option (\<lambda>pos2. pos2 + length ''Envelope[T any] '')
                  (find_sub source ''Envelope[T any] struct {'')
           else Some pos))"

definition extract_envelope_fields :: "string \<Rightarrow> envelope_field list" where
  "extract_envelope_fields source =
     (case envelope_struct_start source of
        None \<Rightarrow> []
      | Some start \<Rightarrow>
          (case find_struct_end source (start + length ''struct {'') of
             None \<Rightarrow> []
           | Some stop \<Rightarrow>
               List.map_filter (\<lambda>line. let trimmed = trim line in
                   if trimmed = [] \<or> starts_with trimmed ''//'' \<or> trimmed = ''struct {'' \<or> trimmed = ''}''
                   then None else parse_struct_field trimmed)
                 (str_lines (slice source start stop))))"

definition kind_patterns :: "(string \<times> string) list" where
  "kind_patterns =
     [(''KindCommand'', ''command''), (''KindEvent'', ''event''),
      (''KindRequest'', ''request''), (''KindReply'', ''reply'')]"

definition extract_valid_kinds :: "string \<Rightarrow> string list" where
  "extract_valid_kinds source = map snd (filter (\<lambda>p. contains source (fst p)) kind_patterns)"

definition extract_default_content_type :: "string \<Rightarrow> string option" where
  "extract_default_content_type source =
     first_in_lines (\<lambda>trimmed. if contains trimmed ''DefaultContentType'' \<and> contains trimmed ''=''
                              then first_quoted trimmed else None) source"

definition empty_check_field :: "string \<Rightarrow> string list" where
  "empty_check_field line =
     (let trimmed = trim line in
      if contains trimmed ''e.'' \<and> (contains trimmed (''== '' @ [dq, dq]) \<or> contains trimmed ''.IsZero()'') then
        (case find_sub trimmed ''e.'' of
           None \<Rightarrow> []
         | Some pos \<Rightarrow> (let fld = ident_prefix (drop (pos + 2) trimmed) in if fld = [] then [] else [fld]))
      else [])"

definition issue_field :: "string \<Rightarrow> string list" where
  "issue_field line =
     (let trimmed = trim line in
      case find_sub trimmed ''Field:'' of
        None \<Rightarrow> []
      | Some pos \<Rightarrow>
          (case first_quoted (drop (pos + length ''Field:'') trimmed) of None \<Rightarrow> [] | Some f \<Rightarrow> [f]))"

definition validate_body :: "string \<Rightarrow> string option" where
  "validate_body source =
     (case from_sub source ''func (e Envelope'' of
        None \<Rightarrow> None
      | Some rest \<Rightarrow>
          (case from_sub rest ''Validate()'' of
             None \<Rightarrow> None
           | Some rest2 \<Rightarrow>
               (case find_sub rest2 ''{'' of
                  None \<Rightarrow> None
                | Some brace \<Rightarrow>
                    map_option (\<lambda>stop. slice rest2 (brace + 1) stop) (find_struct_end rest2 (brace + 1)))))"

definition extract_required_fields :: "string \<Rightarrow> string list" where
  "extract_required_fields source =
     sort_dedup (case validate_body source of
                   None \<Rightarrow> []
                 | Some body \<Rightarrow> concat (map empty_check_field (str_lines body))
                               @ concat (map issue_field (str_lines body)))"

definition envelope_path :: path where
  "envelope_path = [''internal'', ''shared'', ''envelope'', ''envelope.go'']"

definition scan_envelope :: "(path \<Rightarrow> string) \<Rightarrow> fs_node \<Rightarrow> cli_error + envelope_contract option" where
  "scan_envelope io_error root =
     map_sum id (map_option (\<lambda>content.
         \<lparr>en_fields = extract_envelope_fields content, en_valid_kinds = extract_valid_kinds content,
          en_default_content_type = extract_default_content_type content,
          en_required_fields = extract_required_fields content,
          en_file = ''internal/shared/envelope/envelope.go''\<rparr>))
       (read_optional io_error root envelope_path)"

definition codec_functions :: "(string \<times> bool \<times> string \<times> string) list" where
  "codec_functions =
     [(''encodeControlRequest'', True, ''command'', ''RequestType''),
      (''decodeControlRequest'', False, ''command'', ''RequestType''),
      (''encodeControlReply'', True, ''reply'', ''ReplyType''),
      (''decodeControlReply'', False, ''reply'', ''ReplyType''),
      (''encodeEvent'', True, ''event'', ''Type''),
      (''decodeEvent'', False, ''event'', ''Type'')]"

definition extract_kind_checks :: "string \<Rightarrow> bool \<Rightarrow> kind_check list" where
  "extract_kind_checks source encode =
     map (\<lambda>(f, _, k, t). \<lparr>kc_function = f, kc_expected_kind = k, kc_type_field = t\<rparr>)
       (filter (\<lambda>(f, e, _, _). e = encode \<and> contains source f) codec_functions)"

definition serialization_format :: "string \<Rightarrow> string" where
  "serialization_format content =
     (if contains content ''cbor.Marshal'' \<or> contains content ''cbor.Unmarshal'' then ''cbor''
      else if contains content ''json.Marshal'' \<or> contains content ''json.Unmarshal'' then ''json''
      else ''unknown'')"

definition codec_path :: path where
  "codec_path = [''internal'', ''adapters'', ''nats'', ''codec.go'']"

definition scan_codec :: "(path \<Rightarrow> string) \<Rightarrow> fs_node \<Rightarrow> cli_error + codec_usage option" where
  "scan_codec io_error root =
     map_sum id (map_option (\<lambda>content.
         \<lparr>cu_encode = extract_kind_checks content True, cu_decode = extract_kind_checks content False,
          cu_format = serialization_format content, cu_file = ''internal/adapters/nats/codec.go''\<rparr>))
       (read_optional io_error root codec_path)"

section \<open>Domain events\<close>

record domain_event =
  de_const :: string
  de_event :: string
  de_struct :: string
  de_has_metadata :: bool
  de_file :: string

definition event_const :: "string \<Rightarrow> (string \<times> string) list" where
  "event_const line =
     (let trimmed = trim line in
      if starts_with trimmed ''Event'' \<and> contains trimmed ''events.Name'' \<and> contains trimmed (''= '' @ [dq]) then
        (case first_quoted trimmed of
           None \<Rightarrow> []
         | Some name \<Rightarrow> [(case split_ws trimmed of w # ws \<Rightarrow> w | [] \<Rightarrow> [], name)])
      else [])"

text \<open>
  Structs whose name ends with \<open>Event\<close>: their name and the text of their body. The name is what
  follows the last \<open>type\<close> since the position where this search started.
\<close>

function event_structs :: "string \<Rightarrow> nat \<Rightarrow> (string \<times> string) list" where
  "event_structs source i =
     (if length source \<le> i then []
      else (case find_sub (drop i source) ''Event struct {'' of
              None \<Rightarrow> []
            | Some pos \<Rightarrow>
                (case (rfind_sub (slice source i (i + pos)) ''type '',
                       find_body_end source (i + pos + length ''Event struct {'')) of
                   (Some p, Some stop) \<Rightarrow>
                     (trim (slice source (i + p + 5) (i + pos + length ''Event'')),
                      slice source (i + pos + length ''Event struct {'') stop)
                       # event_structs source (stop + 1)
                 | _ \<Rightarrow> event_structs source (i + pos + 1))))"
  by pat_completeness auto
termination
  by (relation "measure (\<lambda>(source, i). length source - i)") (auto dest!: sym [of "Some _"] find_closing_brace_ge(2))

declare event_structs.simps [simp del]

definition extract_event_structs :: "string \<Rightarrow> (string \<times> bool) list" where
  "extract_event_structs source =
     map (\<lambda>(name, body). (name, contains body ''Metadata'' \<and> contains body ''events.Metadata''))
       (event_structs source 0)"

definition extract_receiver_type :: "string \<Rightarrow> string option" where
  "extract_receiver_type line =
     (case find_sub line ''('' of
        None \<Rightarrow> None
      | Some p \<Rightarrow>
          (let rest = drop (p + 1) line in
           case find_sub rest '')'' of
             None \<Rightarrow> None
           | Some stop \<Rightarrow>
               (let parts = split_ws (take stop rest) in
                if 2 \<le> length parts then Some (trim_start_char (parts ! 1) (CHR ''*'')) else None)))"

definition extract_return_value :: "string \<Rightarrow> string option" where
  "extract_return_value line =
     (case find_sub line ''return '' of
        None \<Rightarrow> None
      | Some pos \<Rightarrow> (let v = ident_prefix (drop (pos + 7) line) in if v = [] then None else Some v))"

definition event_of_method ::
  "(string \<times> string) list \<Rightarrow> (string \<times> bool) list \<Rightarrow> string \<Rightarrow> string \<Rightarrow> domain_event list" where
  "event_of_method consts structs file_name line =
     (let trimmed = trim line in
      if contains trimmed ''EventName()'' \<and> contains trimmed ''return Event'' then
        (case (extract_receiver_type trimmed, extract_return_value trimmed) of
           (Some sname, Some cname) \<Rightarrow>
             (case find (\<lambda>(c, _). c = cname) consts of
                None \<Rightarrow> []
              | Some (_, event_name) \<Rightarrow>
                  [\<lparr>de_const = cname, de_event = event_name, de_struct = sname,
                    de_has_metadata = (case find (\<lambda>(n, _). n = sname) structs of
                                         Some (_, has_meta) \<Rightarrow> has_meta | None \<Rightarrow> False),
                    de_file = file_name\<rparr>])
         | _ \<Rightarrow> [])
      else [])"

definition extract_domain_events :: "string \<Rightarrow> string \<Rightarrow> domain_event list" where
  "extract_domain_events source file_name =
     (let consts = concat (map event_const (str_lines source));
          structs = extract_event_structs source
      in concat (map (event_of_method consts structs file_name) (str_lines source)))"

definition events_path :: path where
  "events_path = [''internal'', ''domain'', ''configctl'', ''events.go'']"

definition scan_domain_events :: "(path \<Rightarrow> string) \<Rightarrow> fs_node \<Rightarrow> cli_error + domain_event list" where
  "scan_domain_events io_error root =
     map_sum id (\<lambda>c. case c of
                     None \<Rightarrow> []
                   | Some content \<Rightarrow> extract_domain_events content ''internal/domain/configctl/events.go'')
       (read_optional io_error root events_path)"

section \<open>The data-plane message\<close>

record validated_field =
  vf_path :: string
  vf_condition :: string

record dataplane_contract =
  dp_message_fields :: "string list"
  dp_validated_fields :: "validated_field list"
  dp_default_content_type :: "string option"
  dp_default_source :: "string option"
  dp_message_id_format :: "string option"
  dp_file :: string

definition extract_message_fields :: "string \<Rightarrow> string list" where
  "extract_message_fields source =
     (case find_sub source ''type Message struct {'' of
        None \<Rightarrow> []
      | Some start \<Rightarrow>
          (let brace_start = start + length ''type Message struct {'' in
           case find_body_end source brace_start of
             None \<Rightarrow> []
           | Some stop \<Rightarrow>
               List.map_filter (\<lambda>line. let trimmed = trim line in
                   if trimmed = [] \<or> starts_with trimmed ''//'' then None else extract_json_tag trimmed)
                 (str_lines (slice source brace_start stop))))"

definition field_condition :: "string \<Rightarrow> string list \<Rightarrow> nat \<Rightarrow> string \<Rightarrow> string" where
  "field_condition body ls idx fpath =
     (let near = join '' '' (take (min (idx + 3) (length ls) - (idx - 2)) (drop (idx - 2) ls)) in
      if contains body ''json.Valid(m.Payload)'' \<and> fpath = ''payload'' then ''valid_json''
      else if contains near ''must not be zero'' \<or> contains near ''IsZero'' then ''not_zero''
      else ''not_empty'')"

definition message_validate_body :: "string \<Rightarrow> string option" where
  "message_validate_body source =
     (case from_sub source ''func (m Message) Validate()'' of
        None \<Rightarrow> None
      | Some rest \<Rightarrow>
          (case find_sub rest ''{'' of
             None \<Rightarrow> None
           | Some brace \<Rightarrow>
               map_option (\<lambda>stop. slice rest (brace + 1) stop) (find_body_end rest (brace + 1))))"

definition extract_validated_fields :: "string \<Rightarrow> validated_field list" where
  "extract_validated_fields source =
     (case message_validate_body source of
        None \<Rightarrow> []
      | Some body \<Rightarrow>
          (let ls = str_lines body in
           concat (map (\<lambda>(idx, line).
               map (\<lambda>f. \<lparr>vf_path = f, vf_condition = field_condition body ls idx f\<rparr>) (issue_field line))
             (enumerate 0 ls))))"

definition extract_const_value :: "string \<Rightarrow> string \<Rightarrow> string option" where
  "extract_const_value source name =
     first_in_lines (\<lambda>trimmed. if contains trimmed name then const_after trimmed (''= '' @ [dq]) else None)
       source"

definition extract_message_id_format :: "string \<Rightarrow> string option" where
  "extract_message_id_format source =
     (case from_sub source ''MessageIDForKafkaRecord'' of
        None \<Rightarrow> None
      | Some rest \<Rightarrow>
          (case from_sub rest ''Sprintf('' of None \<Rightarrow> None | Some after \<Rightarrow> first_quoted after))"

definition dataplane_path :: path where
  "dataplane_path = [''internal'', ''application'', ''dataplane'', ''contracts.go'']"

definition scan_dataplane :: "(path \<Rightarrow> string) \<Rightarrow> fs_node \<Rightarrow> cli_error + dataplane_contract option" where
  "scan_dataplane io_error root =
     map_sum id (map_option (\<lambda>content.
         \<lparr>dp_message_fields = extract_message_fields content,
          dp_validated_fields = extract_validated_fields content,
          dp_default_content_type = extract_const_value content ''ContentTypeJSON'',
          dp_default_source = extract_const_value content ''SourceKafka'',
          dp_message_id_format = extract_message_id_format content,
          dp_file = ''internal/application/dataplane/contracts.go''\<rparr>))
       (read_optional io_error root dataplane_path)"

end
