(* ===== verification/ContractChecks.thy ===== *)
theory ContractChecks
  imports ContractSources
begin

text \<open>
  The contract audit (\<open>analyzers/contracts.rs\<close>): the index built by the five scanners and the
  thirteen checks on it.
\<close>

record contract_index =
  ci_registry :: registry_index
  ci_envelope :: "envelope_contract option"
  ci_codec :: "codec_usage option"
  ci_events :: "domain_event list"
  ci_dataplane :: "dataplane_contract option"

section \<open>Registry checks\<close>

definition field_error :: "string \<Rightarrow> string \<Rightarrow> string \<Rightarrow> string \<Rightarrow> string \<Rightarrow> finding" where
  "field_error check name fld file_name why =
     with_why (with_location (finding_error check (quote1 name @ '' has empty '' @ fld)) file_name) why"

definition control_findings :: "control_spec \<Rightarrow> finding list" where
  "control_findings spec =
     opt_finding (cs_subject spec = [])
       (field_error ''control-subject'' (cs_name spec) ''Subject'' (cs_file spec)
          ''Subject is the NATS routing address; without it requests cannot be dispatched'')
     @ opt_finding (cs_request_type spec = [])
         (field_error ''control-request-type'' (cs_name spec) ''RequestType'' (cs_file spec)
            ''RequestType is used by the codec to serialize/deserialize the envelope correctly'')
     @ opt_finding (cs_reply_type spec = [])
         (field_error ''control-reply-type'' (cs_name spec) ''ReplyType'' (cs_file spec)
            ''ReplyType is used by the codec to deserialize the response envelope'')
     @ opt_finding (cs_queue_group spec = [])
         (with_why (with_location
            (finding_warning ''control-queue-group'' (quote1 (cs_name spec) @ '' has empty QueueGroup''))
            (cs_file spec))
            ''without a queue group, all subscribers receive every message instead of load-balancing'')"

definition check_registry_control_completeness :: "contract_index \<Rightarrow> check_result" where
  "check_registry_control_completeness ix =
     from_findings ''registry-control-completeness''
       (if rg_control_specs (ci_registry ix) = [] then
          [with_help (with_why (finding_error ''control-specs'' ''no control specs found in registry files'')
              ''control specs define the request-reply contract for NATS communication'')
              ''add ControlSpec definitions to the registry files in internal/adapters/nats/'']
        else concat (map control_findings (rg_control_specs (ci_registry ix))))"

definition event_findings :: "event_spec \<Rightarrow> finding list" where
  "event_findings spec =
     opt_finding (es_subject spec = [])
       (field_error ''event-subject'' (es_name spec) ''Subject'' (es_file spec)
          ''Subject is the JetStream publishing address; events cannot be stored without it'')
     @ opt_finding (es_event_type spec = [])
         (field_error ''event-type'' (es_name spec) ''Type'' (es_file spec)
            ''Type is used for envelope kind routing and consumer deserialization'')"

definition check_registry_event_completeness :: "contract_index \<Rightarrow> check_result" where
  "check_registry_event_completeness ix =
     from_findings ''registry-event-completeness''
       (if rg_event_specs (ci_registry ix) = [] then
          [with_help (with_why (finding_error ''event-specs'' ''no event specs found in registry files'')
              ''event specs define the JetStream event contract; downstream consumers depend on them'')
              ''add EventSpec definitions to the registry files in internal/adapters/nats/'']
        else concat (map event_findings (rg_event_specs (ci_registry ix))))"

definition replace_sub :: "string \<Rightarrow> string \<Rightarrow> string \<Rightarrow> string" where
  "replace_sub s old new = join new (split_on s old)"

text \<open>
  The types a control subject calls for: the command, the query and the reply type. A subject
  with no \<open>.control.\<close> puts them before its last segment; one with no dot at all has none.
\<close>

definition expected_types :: "string \<Rightarrow> (string \<times> string \<times> string) option" where
  "expected_types subject =
     (if contains subject ''.control.'' then
        Some (replace_sub subject ''.control.'' ''.command.'', replace_sub subject ''.control.'' ''.query.'',
              replace_sub subject ''.control.'' ''.reply.'')
      else
        (case rfind_char subject (CHR ''.'') of
           None \<Rightarrow> None
         | Some k \<Rightarrow>
             (let operation = drop (k + 1) subject; prefix = take k subject in
              Some (prefix @ ''.command.'' @ operation, prefix @ ''.query.'' @ operation,
                    prefix @ ''.reply.'' @ operation))))"

definition convention_message :: "string \<Rightarrow> string \<Rightarrow> string \<Rightarrow> string \<Rightarrow> string \<Rightarrow> string" where
  "convention_message name subject what actual expected =
     quote1 name @ '': subject '' @ quote1 subject @ '' '' @ arrow @ '' '' @ what @ '' '' @ quote1 actual
     @ '' doesn'' @ [CHR 0x27] @ ''t follow convention (expected '' @ expected @ '')''"

definition control_type_findings :: "control_spec \<Rightarrow> finding list" where
  "control_type_findings spec =
     (case expected_types (cs_subject spec) of
        None \<Rightarrow> []
      | Some (command, query, reply) \<Rightarrow>
          opt_finding (cs_request_type spec \<noteq> command \<and> cs_request_type spec \<noteq> query)
            (with_location (finding_error ''subject-request-type''
               (convention_message (cs_name spec) (cs_subject spec) ''request type'' (cs_request_type spec)
                  (quote1 command @ '' or '' @ quote1 query))) (cs_file spec))
          @ opt_finding (cs_reply_type spec \<noteq> reply)
              (with_location (finding_error ''subject-reply-type''
                 (convention_message (cs_name spec) (cs_subject spec) ''reply type'' (cs_reply_type spec)
                    (quote1 reply))) (cs_file spec)))"

definition event_type_findings :: "event_spec \<Rightarrow> finding list" where
  "event_type_findings spec =
     (if ends_with (es_subject spec) ''.>'' \<or> ends_with (es_subject spec) ''.*'' then []
      else
        (let expected = replace_sub (es_subject spec) ''.events.'' ''.event.'' in
         opt_finding (es_event_type spec \<noteq> expected)
           (with_location (finding_error ''event-subject-type''
              (convention_message (es_name spec) (es_subject spec) ''type'' (es_event_type spec)
                 (quote1 expected))) (es_file spec))))"

definition check_subject_type_convention :: "contract_index \<Rightarrow> check_result" where
  "check_subject_type_convention ix =
     from_findings ''subject-type-convention''
       (concat (map control_type_findings (rg_control_specs (ci_registry ix)))
        @ concat (map event_type_findings (rg_event_specs (ci_registry ix))))"

definition symmetry_findings :: "control_spec \<Rightarrow> finding list" where
  "symmetry_findings spec =
     (let req = split_last (cs_request_type spec) ''.''; reply = split_last (cs_reply_type spec) ''.'' in
      opt_finding (req \<noteq> reply)
        (with_location (finding_warning ''reply-symmetry''
           (quote1 (cs_name spec) @ '': request type suffix '' @ quote1 req
            @ '' doesn'' @ [CHR 0x27] @ ''t match reply type suffix '' @ quote1 reply)) (cs_file spec)))"

definition check_reply_type_symmetry :: "contract_index \<Rightarrow> check_result" where
  "check_reply_type_symmetry ix =
     from_findings ''reply-type-symmetry''
       (concat (map symmetry_findings (rg_control_specs (ci_registry ix))))"

definition queue_group_findings :: "control_spec \<Rightarrow> finding list" where
  "queue_group_findings spec =
     (if cs_queue_group spec = [] then []
      else
        (let parts = split_on (cs_queue_group spec) ''.'';
             subject_domain = split_first (cs_subject spec) ''.'';
             qg_domain = (case parts of p # ps \<Rightarrow> p | [] \<Rightarrow> [])
         in opt_finding (length parts < 2)
              (with_location (finding_warning ''queue-group''
                 (quote1 (cs_name spec) @ '': queue group '' @ quote1 (cs_queue_group spec)
                  @ '' should follow '' @ quote1 ''domain.scope'' @ '' convention'')) (cs_file spec))
            @ opt_finding (subject_domain \<noteq> qg_domain)
                (with_location (finding_warning ''queue-group-domain''
                   (quote1 (cs_name spec) @ '': queue group domain '' @ quote1 qg_domain
                    @ '' doesn'' @ [CHR 0x27] @ ''t match subject domain '' @ quote1 subject_domain))
                   (cs_file spec))))"

definition check_queue_group_convention :: "contract_index \<Rightarrow> check_result" where
  "check_queue_group_convention ix =
     from_findings ''queue-group-convention''
       (concat (map queue_group_findings (rg_control_specs (ci_registry ix))))"

section \<open>Streams and consumers\<close>

text \<open>
  The loop over the segments of a subject and of a pattern. The segment \<open>>\<close> matches whatever is
  left, at least one segment.
\<close>

fun segments_match :: "string list \<Rightarrow> string list \<Rightarrow> bool" where
  "segments_match (s # ss) (p # ps) =
     (if p = ''>'' then True
      else if p = ''*'' then segments_match ss ps
      else if p \<noteq> s then False
      else segments_match ss ps)"
| "segments_match ss ps = (ss = [] \<and> ps = [])"

definition subject_matches :: "string \<Rightarrow> string \<Rightarrow> bool" where
  "subject_matches subject pat =
     (subject = pat \<or> segments_match (split_on subject ''.'') (split_on pat ''.''))"

definition stream_patterns :: "registry_index \<Rightarrow> (string \<times> string) list" where
  "stream_patterns rg = concat (map (\<lambda>s. map (Pair (ss_name s)) (ss_subjects s)) (rg_streams rg))"

definition event_covered :: "registry_index \<Rightarrow> event_spec \<Rightarrow> bool" where
  "event_covered rg e = list_ex (\<lambda>(_, pat). subject_matches (es_subject e) pat) (stream_patterns rg)"

definition check_event_stream_coverage :: "contract_index \<Rightarrow> check_result" where
  "check_event_stream_coverage ix =
     (if rg_streams (ci_registry ix) = [] then check_skip ''event-stream-coverage'' ''no stream specs found''
      else from_findings ''event-stream-coverage''
        (concat (map (\<lambda>e. opt_finding (\<not> event_covered (ci_registry ix) e)
            (with_location (finding_error ''event-stream''
               (''event '' @ quote1 (es_name e) @ '' with subject '' @ quote1 (es_subject e)
                @ '' is not covered by any stream'')) (es_file e)))
          (rg_event_specs (ci_registry ix)))))"

definition consumer_filter_findings :: "registry_index \<Rightarrow> consumer_spec \<Rightarrow> finding list" where
  "consumer_filter_findings rg c =
     (case find (\<lambda>s. ss_name s = co_stream_name c) (rg_streams rg) of
        Some s \<Rightarrow>
          concat (map (\<lambda>flt. opt_finding (\<not> list_ex (subject_matches flt) (ss_subjects s))
              (with_location (finding_error ''consumer-filter''
                 (''consumer '' @ quote1 (co_durable c) @ '' filter '' @ quote1 flt
                  @ '' doesn'' @ [CHR 0x27] @ ''t match stream '' @ quote1 (ss_name s)
                  @ '' subjects '' @ debug_strings (ss_subjects s))) (co_file c)))
            (co_filter_subjects c))
      | None \<Rightarrow>
          opt_finding (co_stream_name c \<noteq> [])
            (with_location (finding_error ''consumer-stream''
               (''consumer '' @ quote1 (co_durable c) @ '' references stream '' @ quote1 (co_stream_name c)
                @ '' which was not found'')) (co_file c)))"

definition check_consumer_filter_validity :: "contract_index \<Rightarrow> check_result" where
  "check_consumer_filter_validity ix =
     from_findings ''consumer-filter-validity''
       (concat (map (consumer_filter_findings (ci_registry ix)) (rg_consumers (ci_registry ix))))"

section \<open>Envelope and codec\<close>

text \<open>
  A constant with the value the audit expects is reported as information, any other value or
  none as a warning.
\<close>

definition expected_required :: "string list" where
  "expected_required = [''id'', ''kind'', ''type'', ''timestamp'', ''content_type'']"

definition expected_kinds :: "string list" where
  "expected_kinds = [''command'', ''event'', ''request'', ''reply'']"

definition envelope_type_finding :: "envelope_contract \<Rightarrow> finding" where
  "envelope_type_finding en =
     (case en_default_content_type en of
        Some ct \<Rightarrow>
          (if ct = ''application/json''
           then finding_info ''envelope-content-type'' (''default content type is '' @ quote1 ct)
           else with_location (finding_warning ''envelope-content-type''
                  (''unexpected default content type: '' @ quote1 ct)) (en_file en))
      | None \<Rightarrow> with_location (finding_warning ''envelope-content-type'' ''no default content type found'')
                  (en_file en))"

definition check_envelope_required_fields :: "contract_index \<Rightarrow> check_result" where
  "check_envelope_required_fields ix =
     (case ci_envelope ix of
        None \<Rightarrow> check_skip ''envelope-required-fields'' ''envelope.go not found''
      | Some en \<Rightarrow>
          from_findings ''envelope-required-fields''
            (concat (map (\<lambda>fld. opt_finding (fld \<notin> set (en_required_fields en))
                (with_location (finding_error ''envelope-required''
                   (''envelope field '' @ quote1 fld @ '' is not validated as required'')) (en_file en)))
               expected_required)
             @ [envelope_type_finding en]
             @ concat (map (\<lambda>kind. opt_finding (kind \<notin> set (en_valid_kinds en))
                (with_location (finding_error ''envelope-kind''
                   (''expected Kind '' @ quote1 kind @ '' not defined'')) (en_file en)))
               expected_kinds)))"

definition codec_findings :: "codec_usage \<Rightarrow> kind_check list \<Rightarrow> string \<Rightarrow> string \<Rightarrow> string \<Rightarrow> string \<times> string
                              \<Rightarrow> finding list" where
  "codec_findings cu checks verb role check fk =
     (case find (\<lambda>c. kc_function c = fst fk) checks of
        Some c \<Rightarrow>
          opt_finding (kc_expected_kind c \<noteq> snd fk)
            (with_location (finding_error ''codec-kind''
               (fst fk @ '' '' @ verb @ '' Kind '' @ quote1 (kc_expected_kind c) @ '' but expected ''
                @ quote1 (snd fk))) (cu_file cu))
      | None \<Rightarrow>
          [with_location (finding_warning check (role @ '' function '' @ quote1 (fst fk) @ '' not found''))
             (cu_file cu)])"

definition expected_encode :: "(string \<times> string) list" where
  "expected_encode =
     [(''encodeControlRequest'', ''command''), (''encodeControlReply'', ''reply''), (''encodeEvent'', ''event'')]"

definition expected_decode :: "(string \<times> string) list" where
  "expected_decode =
     [(''decodeControlRequest'', ''command''), (''decodeControlReply'', ''reply''), (''decodeEvent'', ''event'')]"

definition check_codec_consistency :: "contract_index \<Rightarrow> check_result" where
  "check_codec_consistency ix =
     (case ci_codec ix of
        None \<Rightarrow> check_skip ''codec-consistency'' ''codec.go not found''
      | Some cu \<Rightarrow>
          from_findings ''codec-consistency''
            ((if cu_format cu \<noteq> ''cbor''
              then [with_location (finding_error ''codec-format''
                      (''NATS codec uses '' @ quote1 (cu_format cu) @ '' instead of expected '' @ quote1 ''cbor''))
                      (cu_file cu)]
              else [finding_info ''codec-format'' ''NATS codec uses CBOR serialization''])
             @ concat (map (codec_findings cu (cu_encode cu) ''uses'' ''encode'' ''codec-encode'') expected_encode)
             @ concat (map (codec_findings cu (cu_decode cu) ''validates'' ''decode'' ''codec-decode'')
                        expected_decode)))"

section \<open>The data plane\<close>

definition expected_message_fields :: "string list" where
  "expected_message_fields = [''binding'', ''origin'', ''payload'', ''metadata'']"

definition expected_validated :: "string list" where
  "expected_validated =
     [''binding.name'', ''binding.topic'', ''binding.scope.kind'', ''binding.scope.key'', ''origin.source'',
      ''origin.topic'', ''metadata.message_id'', ''metadata.ingested_at'', ''metadata.content_type'',
      ''payload'']"

definition check_dataplane_field_completeness :: "contract_index \<Rightarrow> check_result" where
  "check_dataplane_field_completeness ix =
     (case ci_dataplane ix of
        None \<Rightarrow> check_skip ''dataplane-field-completeness'' ''dataplane contracts.go not found''
      | Some dp \<Rightarrow>
          from_findings ''dataplane-field-completeness''
            (concat (map (\<lambda>fld. opt_finding (fld \<notin> set (dp_message_fields dp))
                (with_location (finding_error ''dataplane-field''
                   (''Message struct missing expected field '' @ quote1 fld)) (dp_file dp)))
               expected_message_fields)
             @ concat (map (\<lambda>fld. opt_finding (fld \<notin> set (map vf_path (dp_validated_fields dp)))
                (with_location (finding_error ''dataplane-validation''
                   (''DataPlane Message.Validate() doesn'' @ [CHR 0x27] @ ''t check '' @ quote1 fld)) (dp_file dp)))
               expected_validated)
             @ [case dp_message_id_format dp of
                  Some _ \<Rightarrow> finding_info ''dataplane-message-id'' ''MessageID format for Kafka records is defined''
                | None \<Rightarrow> with_location (finding_warning ''dataplane-message-id''
                            ''MessageIDForKafkaRecord format not found'') (dp_file dp)]))"

definition dataplane_type_finding :: "dataplane_contract \<Rightarrow> finding" where
  "dataplane_type_finding dp =
     (case dp_default_content_type dp of
        Some ct \<Rightarrow>
          (if ct = ''application/json''
           then finding_info ''dataplane-content-type''
                  (''DataPlane defaults content_type to '' @ quote1 ''application/json'')
           else with_location (finding_warning ''dataplane-content-type''
                  (''DataPlane default content_type is '' @ quote1 ct @ '', expected ''
                   @ quote1 ''application/json'')) (dp_file dp))
      | None \<Rightarrow> with_location (finding_warning ''dataplane-content-type''
                  ''DataPlane ContentTypeJSON constant not found'') (dp_file dp))"

definition dataplane_source_finding :: "dataplane_contract \<Rightarrow> finding" where
  "dataplane_source_finding dp =
     (case dp_default_source dp of
        Some src \<Rightarrow>
          (if src = ''kafka''
           then finding_info ''dataplane-source'' (''DataPlane defaults source to '' @ quote1 ''kafka'')
           else with_location (finding_warning ''dataplane-source''
                  (''DataPlane default source is '' @ quote1 src @ '', expected '' @ quote1 ''kafka''))
                  (dp_file dp))
      | None \<Rightarrow> with_location (finding_warning ''dataplane-source''
                  ''DataPlane SourceKafka constant not found'') (dp_file dp))"

definition check_dataplane_content_type_default :: "contract_index \<Rightarrow> check_result" where
  "check_dataplane_content_type_default ix =
     (case ci_dataplane ix of
        None \<Rightarrow> check_skip ''dataplane-content-type'' ''dataplane contracts.go not found''
      | Some dp \<Rightarrow> from_findings ''dataplane-content-type'' [dataplane_type_finding dp, dataplane_source_finding dp])"

section \<open>Domain events\<close>

definition check_event_metadata_presence :: "contract_index \<Rightarrow> check_result" where
  "check_event_metadata_presence ix =
     (if ci_events ix = [] then check_skip ''event-metadata-presence'' ''no domain events found''
      else
        (let findings = concat (map (\<lambda>e. opt_finding (\<not> de_has_metadata e)
               (with_location (finding_error ''event-metadata''
                  (''domain event '' @ quote1 (de_struct e) @ '' ('' @ de_event e
                   @ '') is missing events.Metadata field'')) (de_file e))) (ci_events ix))
         in from_findings ''event-metadata-presence''
              (if findings = [] then
                 [finding_info ''event-metadata''
                    (''all '' @ show_nat (length (ci_events ix)) @ '' domain events have Metadata field'')]
               else findings)))"

definition spec_alignment :: "string list \<Rightarrow> event_spec \<Rightarrow> finding list" where
  "spec_alignment domain_names spec =
     (let parts = split_on (es_subject spec) ''.''; event_suffix = join ''.'' (drop 2 parts) in
      if contains (es_subject spec) ''dataplane.'' \<or> length parts < 4 then []
      else opt_finding (event_suffix \<notin> set domain_names
             \<and> \<not> contains (es_subject spec) ''>'' \<and> \<not> contains (es_subject spec) ''*'')
             (with_location (finding_warning ''event-alignment''
                (''registry event '' @ quote1 (es_name spec) @ '' (subject '' @ quote1 (es_subject spec)
                 @ '', suffix '' @ quote1 event_suffix @ '') has no matching domain event'')) (es_file spec)))"

definition event_alignment :: "event_spec list \<Rightarrow> domain_event \<Rightarrow> finding list" where
  "event_alignment specs e =
     opt_finding (\<not> list_ex (\<lambda>spec. ends_with (es_subject spec) (de_event e)) specs)
       (with_location (finding_warning ''event-alignment''
          (''domain event '' @ quote1 (de_event e) @ '' ('' @ de_struct e
           @ '') has no matching registry event spec'')) (de_file e))"

definition check_event_registry_alignment :: "contract_index \<Rightarrow> check_result" where
  "check_event_registry_alignment ix =
     (let specs = rg_event_specs (ci_registry ix) in
      if ci_events ix = [] \<or> specs = [] then
        check_skip ''event-registry-alignment'' ''domain events or registry event specs not found''
      else from_findings ''event-registry-alignment''
        (concat (map (spec_alignment (map de_event (ci_events ix))) specs)
         @ concat (map (event_alignment specs) (ci_events ix))))"

section \<open>The audit\<close>

definition contract_checks :: "contract_index \<Rightarrow> check_result list" where
  "contract_checks ix =
     [check_registry_control_completeness ix, check_registry_event_completeness ix,
      check_subject_type_convention ix, check_reply_type_symmetry ix, check_queue_group_convention ix,
      check_event_stream_coverage ix, check_consumer_filter_validity ix, check_envelope_required_fields ix,
      check_codec_consistency ix, check_dataplane_field_completeness ix,
      check_dataplane_content_type_default ix, check_event_metadata_presence ix,
      check_event_registry_alignment ix]"

text \<open>The sequence of the scans: the first that fails ends the audit.\<close>

definition bind_result :: "'e + 'a \<Rightarrow> ('a \<Rightarrow> 'e + 'b) \<Rightarrow> 'e + 'b" where
  "bind_result r f = (case r of Inl e \<Rightarrow> Inl e | Inr x \<Rightarrow> f x)"

definition scan_contracts :: "(path \<Rightarrow> string) \<Rightarrow> fs_node \<Rightarrow> cli_error + contract_index" where
  "scan_contracts io_error root =
     bind_result (scan_registries io_error root) (\<lambda>rg.
     bind_result (scan_envelope io_error root) (\<lambda>en.
     bind_result (scan_codec io_error root) (\<lambda>cu.
     bind_result (scan_domain_events io_error root) (\<lambda>ev.
     bind_result (scan_dataplane io_error root) (\<lambda>dp.
       Inr \<lparr>ci_registry = rg, ci_envelope = en, ci_codec = cu, ci_events = ev, ci_dataplane = dp\<rparr>)))))"

definition missing_internal_dir :: check_result where
  "missing_internal_dir =
     from_findings ''internal-dir''
       [with_help (with_why (finding_error ''internal-dir'' ''internal/ directory not found'')
          ''contract-audit scans Go source in internal/ for registries, envelopes, and domain events'')
          (''run `raccoon-cli doctor` to verify project structure first'')]"

definition contracts_analyze :: "(path \<Rightarrow> string) \<Rightarrow> fs_node \<Rightarrow> cli_error + report" where
  "contracts_analyze io_error root =
     (if \<not> path_is_dir root [''internal''] then
        Inr (report_add (report_new ''contract-audit'') missing_internal_dir)
      else map_sum id (\<lambda>ix. foldl report_add (report_new ''contract-audit'') (contract_checks ix))
             (scan_contracts io_error root))"

end
