(* ===== verification/ContractProps.thy ===== *)
theory ContractProps
  imports ContractChecks Gate
begin

text \<open>
  Properties of the contract audit: its subject matcher against the NATS rules, what an accepted
  consumer filter and a passing report guarantee, and a check that cannot fail.
\<close>

section \<open>Subjects and patterns\<close>

definition seg_ok :: "string \<Rightarrow> string \<Rightarrow> bool" where
  "seg_ok p s = (p = ''*'' \<or> p = s)"

text \<open>
  The rules of NATS: the segments before the first \<open>>\<close> match one by one; without a \<open>>\<close> there are
  no other segments, with one there is at least one more.
\<close>

definition nats_matches :: "string list \<Rightarrow> string list \<Rightarrow> bool" where
  "nats_matches ps ss =
     (let fixed = takeWhile (\<lambda>p. p \<noteq> ''>'') ps; n = length fixed in
      list_all2 seg_ok fixed (take n ss)
      \<and> (if fixed = ps then length ss = n else n < length ss))"

lemma segments_match_nats: "segments_match ss ps = nats_matches ps ss"
proof (induction ps arbitrary: ss)
  case Nil
  then show ?case by (cases ss) (auto simp: nats_matches_def Let_def)
next
  case (Cons p ps)
  then show ?case by (cases ss) (auto simp: nats_matches_def Let_def seg_ok_def)
qed

lemma segments_match_refl: "segments_match ss ss"
  by (induction ss) auto

text \<open>
  C20 (the matcher follows NATS). A subject matches a pattern, as the contract audit decides
  it, exactly when it does under the rules of NATS.
\<close>

theorem subject_matches_nats:
  "subject_matches subject pat \<longleftrightarrow> nats_matches (split_on pat ''.'') (split_on subject ''.'')"
  using segments_match_refl by (auto simp: subject_matches_def segments_match_nats)

lemma segments_match_step:
  assumes "segments_match (f # fs) (p # ps)" "''>'' \<notin> set (butlast (f # fs))"
    "''>'' \<in> set (f # fs) \<Longrightarrow> ''>'' \<in> set (p # ps)" "p \<noteq> ''>''"
  shows "f \<noteq> ''>''" "segments_match fs ps" "p = ''*'' \<or> p = f"
    "''>'' \<notin> set (butlast fs)" "''>'' \<in> set fs \<Longrightarrow> ''>'' \<in> set ps"
proof -
  show m: "segments_match fs ps" and "p = ''*'' \<or> p = f"
    using assms(1,4) by (auto split: if_splits)
  show "''>'' \<notin> set (butlast fs)" using assms(2) by (auto split: if_splits)
  show "''>'' \<in> set fs \<Longrightarrow> ''>'' \<in> set ps" using assms(3,4) by auto
  show "f \<noteq> ''>''"
  proof
    assume f: "f = ''>''"
    with assms(2) have "fs = []" by (auto split: if_splits)
    moreover from f assms(3,4) have "ps \<noteq> []" by auto
    ultimately show False using m by (cases ps) auto
  qed
qed

lemma segments_match_trans:
  assumes "segments_match fs ps" "''>'' \<notin> set (butlast fs)" "''>'' \<in> set fs \<Longrightarrow> ''>'' \<in> set ps"
    "segments_match ss fs"
  shows "segments_match ss ps"
  using assms
proof (induction ps arbitrary: fs ss)
  case Nil
  then show ?case by (cases fs; cases ss) auto
next
  case (Cons p ps)
  show ?case
  proof (cases "p = ''>''")
    case True
    then show ?thesis using Cons.prems(1,4) by (cases fs; cases ss) auto
  next
    case False
    obtain f fs' where fs: "fs = f # fs'" using Cons.prems(1) by (cases fs) auto
    obtain s ss' where ss: "ss = s # ss'" using Cons.prems(4) fs by (cases ss) auto
    note step = segments_match_step [OF Cons.prems(1-3) [unfolded fs] False]
    have "segments_match ss' fs'" "f = ''*'' \<or> f = s"
      using Cons.prems(4) step(1) by (auto simp: fs ss split: if_splits)
    with Cons.IH [OF step(2,4,5)] step(3) False show ?thesis by (auto simp: ss)
  qed
qed

text \<open>
  Property (accepted consumer filters). A consumer filter that the audit accepts for a subject
  of its stream selects messages of the stream only, when the filter has a \<open>>\<close> at most at its
  end, and then the subject of the stream has one too.
\<close>

theorem filter_check_sound:
  assumes "subject_matches flt pat" "''>'' \<notin> set (butlast (split_on flt ''.''))"
    and "''>'' \<in> set (split_on flt ''.'') \<longrightarrow> ''>'' \<in> set (split_on pat ''.'')"
    and "subject_matches subject flt"
  shows "subject_matches subject pat"
proof -
  have m: "subject_matches s p \<longleftrightarrow> segments_match (split_on s ''.'') (split_on p ''.'')" for s p
    by (simp add: subject_matches_nats segments_match_nats)
  show ?thesis using assms segments_match_trans unfolding m by blast
qed

theorem filter_check_sound_witness:
  "subject_matches ''configctl.events.config.activated'' ''configctl.events.>''"
  by (rule filter_check_sound [of "''configctl.events.*.activated''"]) code_simp+

text \<open>
  Property (a filter that selects too much). The last condition is needed: a filter that ends
  with \<open>>\<close> is accepted for a subject that ends with \<open>*\<close>, of which it is no part.
\<close>

theorem filter_check_unsound:
  "subject_matches ''configctl.events.>'' ''configctl.events.*''
   \<and> subject_matches ''configctl.events.config.activated'' ''configctl.events.>''
   \<and> \<not> subject_matches ''configctl.events.config.activated'' ''configctl.events.*''"
  by code_simp

section \<open>The kinds of the codec\<close>

lemma codec_function_kinds:
  "(f, e, k, t) \<in> set codec_functions \<Longrightarrow> (f, k) \<in> set (if e then expected_encode else expected_decode)"
  by (auto simp: codec_functions_def expected_encode_def expected_decode_def)

lemma expected_kinds_distinct:
  "distinct (map fst expected_encode)" "distinct (map fst expected_decode)"
  by (simp_all add: expected_encode_def expected_decode_def)

lemma kind_check_expected:
  assumes "find (\<lambda>c. kc_function c = fst fk) (extract_kind_checks content e) = Some c"
    and "fk \<in> set (if e then expected_encode else expected_decode)"
  shows "kc_expected_kind c = snd fk"
proof -
  have c: "c \<in> set (extract_kind_checks content e)" "kc_function c = fst fk"
    using assms(1) by (auto simp: find_Some_iff)
  then have "(fst fk, e, kc_expected_kind c, kc_type_field c) \<in> set codec_functions"
    by (auto simp: extract_kind_checks_def)
  from codec_function_kinds [OF this]
  have a: "(fst fk, kc_expected_kind c) \<in> set (if e then expected_encode else expected_decode)" .
  have b: "(fst fk, snd fk) \<in> set (if e then expected_encode else expected_decode)" using assms(2) by simp
  have "distinct (map fst (if e then expected_encode else expected_decode))"
    using expected_kinds_distinct by simp
  then show ?thesis using a b by (rule eq_key_imp_eq_value)
qed


text \<open>
  Property (codec kinds). The kinds that the audit compares are not read from the codec: they come
  from a table that agrees with the expected ones, so that no codec file whatever gives a finding
  that a function uses or validates the wrong kind.
\<close>

theorem codec_kind_check_vacuous:
  assumes "scan_codec io_error root = Inr (ci_codec ix)"
  shows "''codec-kind'' \<notin> fd_check ` set (ck_findings (check_codec_consistency ix))"
proof (cases "ci_codec ix")
  case None
  then show ?thesis by (simp add: check_codec_consistency_def check_skip_def)
next
  case (Some cu)
  with assms obtain content where cu: "cu_encode cu = extract_kind_checks content True"
    "cu_decode cu = extract_kind_checks content False"
    by (auto simp: scan_codec_def map_sum_def split: sum.splits)
  have none: "fd_check f \<noteq> ''codec-kind''"
    if "f \<in> set (codec_findings cu (extract_kind_checks content e) verb role check fk)"
      "fk \<in> set (if e then expected_encode else expected_decode)" "check \<noteq> ''codec-kind''"
    for e verb role check fk f
    using that(1,3) kind_check_expected [OF _ that(2)]
    by (auto simp: codec_findings_def opt_finding_set split: option.splits if_splits)
  have "\<forall>f\<in>set (ck_findings (check_codec_consistency ix)). fd_check f \<noteq> ''codec-kind''"
  proof
    fix f
    assume "f \<in> set (ck_findings (check_codec_consistency ix))"
    then consider "fd_check f = ''codec-format''"
      | fk where "fk \<in> set expected_encode"
          "f \<in> set (codec_findings cu (extract_kind_checks content True) ''uses'' ''encode'' ''codec-encode'' fk)"
      | fk where "fk \<in> set expected_decode"
          "f \<in> set (codec_findings cu (extract_kind_checks content False) ''validates'' ''decode'' ''codec-decode'' fk)"
      unfolding check_codec_consistency_def Some option.case check_result_simps cu set_append
      by (auto split: if_splits)
    then show "fd_check f \<noteq> ''codec-kind''"
    proof cases
      case 1
      then show ?thesis by simp
    next
      case (2 fk)
      then show ?thesis using none [OF 2(2)] by simp
    next
      case (3 fk)
      then show ?thesis using none [OF 3(2)] by simp
    qed
  qed
  then show ?thesis by auto
qed

definition bare_index :: "codec_usage option \<Rightarrow> contract_index" where
  "bare_index cu =
     \<lparr>ci_registry = empty_registry, ci_envelope = None, ci_codec = cu, ci_events = [], ci_dataplane = None\<rparr>"

definition wrong_codec_root :: fs_node where
  "wrong_codec_root =
     FDir [(''internal'', FDir [(''adapters'', FDir [(''nats'', FDir [(''codec.go'',
        FFile (Some ''func encodeEvent() { return marshal(KindCommand) }''))])])])]"

theorem codec_kind_check_vacuous_witness:
  "\<exists>cu. scan_codec (\<lambda>_. []) wrong_codec_root = Inr (Some cu)
     \<and> ''codec-kind'' \<notin> fd_check ` set (ck_findings (check_codec_consistency (bare_index (Some cu))))"
proof -
  let ?s = "scan_codec (\<lambda>_. []) wrong_codec_root"
  have "case ?s of Inr (Some _) \<Rightarrow> True | _ \<Rightarrow> False" by code_simp
  then obtain cu where cu: "?s = Inr (Some cu)" by (auto split: sum.splits option.splits)
  have "?s = Inr (ci_codec (bare_index (Some cu)))" using cu by (simp add: bare_index_def)
  from codec_kind_check_vacuous [OF this] cu show ?thesis by blast
qed

section \<open>What a passing report guarantees\<close>

lemma contract_checks_wf: "\<forall>c\<in>set (contract_checks ix). check_wf c"
  by (simp add: contract_checks_def check_registry_control_completeness_def
      check_registry_event_completeness_def check_subject_type_convention_def check_reply_type_symmetry_def
      check_queue_group_convention_def check_event_stream_coverage_def check_consumer_filter_validity_def
      check_envelope_required_fields_def check_codec_consistency_def check_dataplane_field_completeness_def
      check_dataplane_content_type_default_def check_event_metadata_presence_def
      check_event_registry_alignment_def Let_def check_wf_from_findings check_wf_skip split: option.splits)

interpretation contracts: analyser "contracts_analyze io_error" for io_error
proof
  have "report_wf (foldl report_add (report_new ''contract-audit'') (contract_checks ix))" for ix
    by (intro report_wf_foldl report_wf_new contract_checks_wf)
  moreover have "report_wf (report_add (report_new ''contract-audit'') missing_internal_dir)"
    by (simp add: missing_internal_dir_def report_wf_add report_wf_new check_wf_from_findings)
  ultimately show "contracts_analyze io_error root = Inr r \<Longrightarrow> report_wf r" for root r
    by (auto simp: contracts_analyze_def map_sum_def split: if_splits sum.splits)
qed

definition control_ok :: "control_spec \<Rightarrow> bool" where
  "control_ok c =
     (cs_subject c \<noteq> [] \<and> cs_request_type c \<noteq> [] \<and> cs_reply_type c \<noteq> []
      \<and> (case expected_types (cs_subject c) of
           None \<Rightarrow> True
         | Some (command, query, reply) \<Rightarrow>
             (cs_request_type c = command \<or> cs_request_type c = query) \<and> cs_reply_type c = reply))"

definition event_ok :: "registry_index \<Rightarrow> event_spec \<Rightarrow> bool" where
  "event_ok rg e =
     (es_subject e \<noteq> [] \<and> es_event_type e \<noteq> []
      \<and> (\<not> ends_with (es_subject e) ''.>'' \<and> \<not> ends_with (es_subject e) ''.*'' \<longrightarrow>
           es_event_type e = replace_sub (es_subject e) ''.events.'' ''.event.'')
      \<and> (rg_streams rg \<noteq> [] \<longrightarrow>
           (\<exists>s\<in>set (rg_streams rg). \<exists>pat\<in>set (ss_subjects s). subject_matches (es_subject e) pat)))"

definition consumer_ok :: "registry_index \<Rightarrow> consumer_spec \<Rightarrow> bool" where
  "consumer_ok rg c =
     (co_stream_name c = [] \<or>
      (\<exists>s\<in>set (rg_streams rg). ss_name s = co_stream_name c
         \<and> (\<forall>flt\<in>set (co_filter_subjects c). \<exists>pat\<in>set (ss_subjects s). subject_matches flt pat)))"

definition contracts_ok :: "contract_index \<Rightarrow> bool" where
  "contracts_ok ix =
     (rg_control_specs (ci_registry ix) \<noteq> [] \<and> list_all control_ok (rg_control_specs (ci_registry ix))
      \<and> rg_event_specs (ci_registry ix) \<noteq> []
      \<and> list_all (event_ok (ci_registry ix)) (rg_event_specs (ci_registry ix))
      \<and> list_all (consumer_ok (ci_registry ix)) (rg_consumers (ci_registry ix))
      \<and> pred_option (\<lambda>en. set expected_required \<subseteq> set (en_required_fields en)
                       \<and> set expected_kinds \<subseteq> set (en_valid_kinds en)) (ci_envelope ix)
      \<and> pred_option (\<lambda>cu. cu_format cu = ''cbor'') (ci_codec ix)
      \<and> pred_option (\<lambda>dp. set expected_message_fields \<subseteq> set (dp_message_fields dp)
                       \<and> set expected_validated \<subseteq> vf_path ` set (dp_validated_fields dp)) (ci_dataplane ix)
      \<and> list_all de_has_metadata (ci_events ix))"

lemma no_error_opt_concat:
  "(\<And>x. fd_severity (f x) = Error) \<Longrightarrow> no_error (concat (map (\<lambda>x. opt_finding (P x) (f x)) xs)) \<longleftrightarrow> (\<forall>x\<in>set xs. \<not> P x)"
  by (auto simp: list_all_iff)

lemma control_ok_if:
  "no_error (control_findings c) \<Longrightarrow> no_error (control_type_findings c) \<Longrightarrow> control_ok c"
  by (auto simp: control_ok_def control_findings_def control_type_findings_def field_error_def
      split: option.splits)

lemma event_ok_if:
  assumes "no_error (event_findings e)" "no_error (event_type_findings e)" "rg_streams rg \<noteq> [] \<Longrightarrow> event_covered rg e"
  shows "event_ok rg e"
  using assms
  by (auto simp: event_ok_def event_findings_def event_type_findings_def Let_def field_error_def event_covered_def stream_patterns_def list_ex_iff)

lemma consumer_ok_if: "no_error (consumer_filter_findings rg c) \<Longrightarrow> consumer_ok rg c"
  by (auto simp: consumer_ok_def consumer_filter_findings_def no_error_opt_concat list_all_iff list_ex_iff
      find_Some_iff split: option.splits)

lemma contracts_guarantee:
  assumes "contracts_analyze io_error root = Inr r" "rp_passed r"
  shows "\<exists>ix. scan_contracts io_error root = Inr ix \<and> contracts_ok ix"
proof -
  have dir: "path_is_dir root [''internal'']"
  proof (rule ccontr)
    assume "\<not> path_is_dir root [''internal'']"
    with assms show False
      by (auto simp: contracts_analyze_def missing_internal_dir_def from_findings_status)
  qed
  with assms(1) obtain ix where ix: "scan_contracts io_error root = Inr ix"
    and r: "r = foldl report_add (report_new ''contract-audit'') (contract_checks ix)"
    by (auto simp: contracts_analyze_def map_sum_def split: sum.splits)
  have "report_wf r" by (rule contracts.analyse_wf [OF assms(1)])
  with assms(2) have ok: "\<forall>c\<in>set (contract_checks ix). ck_status c \<noteq> CheckFail"
    by (simp add: report_wf_def r)
  let ?rg = "ci_registry ix"
  have control: "rg_control_specs ?rg \<noteq> []" "list_all no_error (map control_findings (rg_control_specs ?rg))"
    using ok by (auto simp: contract_checks_def check_registry_control_completeness_def check_ok_iff split: if_splits)
  have event: "rg_event_specs ?rg \<noteq> []" "list_all no_error (map event_findings (rg_event_specs ?rg))"
    using ok by (auto simp: contract_checks_def check_registry_event_completeness_def check_ok_iff split: if_splits)
  have types: "list_all no_error (map control_type_findings (rg_control_specs ?rg))"
    "list_all no_error (map event_type_findings (rg_event_specs ?rg))"
    using ok by (simp_all add: contract_checks_def check_subject_type_convention_def check_ok_iff)
  have covered: "rg_streams ?rg \<noteq> [] \<Longrightarrow> \<forall>e\<in>set (rg_event_specs ?rg). event_covered ?rg e"
    using ok by (auto simp: contract_checks_def check_event_stream_coverage_def check_ok_iff list_all_iff)
  have consumers: "list_all no_error (map (consumer_filter_findings ?rg) (rg_consumers ?rg))"
    using ok by (simp add: contract_checks_def check_consumer_filter_validity_def check_ok_iff)
  have envelope: "pred_option (\<lambda>en. set expected_required \<subseteq> set (en_required_fields en)
      \<and> set expected_kinds \<subseteq> set (en_valid_kinds en)) (ci_envelope ix)"
    using ok by (auto simp: contract_checks_def check_envelope_required_fields_def check_ok_iff list_all_iff
        pred_option_def)
  have codec: "pred_option (\<lambda>cu. cu_format cu = ''cbor'') (ci_codec ix)"
    using ok by (auto simp: contract_checks_def check_codec_consistency_def check_ok_iff pred_option_def
        split: if_splits)
  have dataplane: "pred_option (\<lambda>dp. set expected_message_fields \<subseteq> set (dp_message_fields dp)
      \<and> set expected_validated \<subseteq> vf_path ` set (dp_validated_fields dp)) (ci_dataplane ix)"
    using ok by (auto simp: contract_checks_def check_dataplane_field_completeness_def check_ok_iff list_all_iff
        pred_option_def)
  have metadata: "list_all de_has_metadata (ci_events ix)"
    using ok by (auto simp: contract_checks_def check_event_metadata_presence_def check_ok_iff Let_def list_all_iff
        split: if_splits)
  have "contracts_ok ix"
    unfolding contracts_ok_def
    using control event types covered consumers envelope codec dataplane metadata
      control_ok_if event_ok_if consumer_ok_if by (auto simp: list_all_iff)
  with ix show ?thesis by blast
qed

text \<open>
  C17 (what a passing contract audit guarantees). When the audit passes, all files could be read;
  there are control and event specs, each complete, its types those that the convention derives
  from its subject (except a subject with no dot and a wildcard event); every event is covered by a
  stream, if there is one; every consumer that names a stream names a defined one and filters its
  subjects. Where there is an envelope, a codec or a data-plane message, the envelope has its required fields
  and kinds, the codec is cbor and the message has its fields and validates the expected ones; and
  every domain event has metadata.
\<close>

theorem contracts_passed:
  assumes "contracts_analyze io_error root = Inr r" "rp_passed r"
  shows "\<exists>ix. scan_contracts io_error root = Inr ix \<and> contracts_ok ix"
  by (rule contracts_guarantee [OF assms])

definition quoted :: "string \<Rightarrow> string" where
  "quoted s = [dq] @ s @ [dq]"

definition go_file :: "string list \<Rightarrow> fs_node" where
  "go_file ls = FFile (Some (concat (map (\<lambda>l. l @ nl) ls)))"

definition registry_source :: fs_node where
  "registry_source = go_file
     [''Get: ControlSpec{'', ''Subject: '' @ quoted ''a.control.g'', ''RequestType: '' @ quoted ''a.query.g'',
      ''ReplyType: '' @ quoted ''a.reply.g'', ''}'',
      ''S: StreamSpec{'', ''Name: '' @ quoted ''S'', ''Subjects: {'' @ quoted ''a.events.>'' @ ''}'', ''}'',
      ''E: EventSpec{'', ''Subject: '' @ quoted ''a.events.d'', ''Type: '' @ quoted ''a.event.d'', ''}'',
      ''C: ConsumerSpec{'', ''Durable: '' @ quoted ''r'', ''Stream: StreamSpec{'', ''Name: '' @ quoted ''S'',
      ''}'', ''FilterSubjects: {'' @ quoted ''a.events.*'' @ ''}'', ''}'']"

definition envelope_source :: fs_node where
  "envelope_source = go_file
     ([''const DefaultContentType = '' @ quoted ''application/json'',
       ''KindCommand KindEvent KindRequest KindReply'', ''func (e Envelope[T]) Validate() error {'']
      @ map (\<lambda>f. ''Field: '' @ quoted f) expected_required @ [''}''])"

definition events_source :: fs_node where
  "events_source = go_file
     [''EventD events.Name = '' @ quoted ''d'',
      ''type DEvent struct {'', ''Metadata events.Metadata'', ''}'',
      ''func (e DEvent) EventName() { return EventD }'']"

definition contract_project :: fs_node where
  "contract_project =
     FDir [(''internal'', FDir
       [(''adapters'', FDir [(''nats'', FDir
           [(''codec.go'', go_file [''cbor.Marshal'']), (''configctl_registry.go'', registry_source)])]),
        (''domain'', FDir [(''configctl'', FDir [(''events.go'', events_source)])]),
        (''shared'', FDir [(''envelope'', FDir [(''envelope.go'', envelope_source)])])])]"

lemma contract_project_passes:
  "case scan_contracts (\<lambda>_. []) contract_project of
     Inr ix \<Rightarrow> list_all (\<lambda>c. ck_status c \<noteq> CheckFail) (contract_checks ix) | Inl _ \<Rightarrow> False"
  by code_simp

theorem contracts_passed_witness:
  "\<exists>ix. scan_contracts (\<lambda>_. []) contract_project = Inr ix \<and> contracts_ok ix"
proof -
  obtain ix where ix: "scan_contracts (\<lambda>_. []) contract_project = Inr ix"
    "\<forall>c\<in>set (contract_checks ix). ck_status c \<noteq> CheckFail"
    using contract_project_passes by (auto simp: list_all_iff split: sum.splits)
  have dir: "path_is_dir contract_project [''internal'']" by code_simp
  have "contracts_analyze (\<lambda>_. []) contract_project
      = Inr (foldl report_add (report_new ''contract-audit'') (contract_checks ix))"
    by (simp add: contracts_analyze_def dir ix(1))
  from contracts_passed [OF this] ix(2) show ?thesis by simp
qed

end
