(* ===== verification/DriftDetect.thy ===== *)
theory DriftDetect
  imports Topology
begin

text \<open>
  Drift detection (\<open>analyzers/drift_detect.rs\<close>): evidence gathered from configurations, compose
  file, Go sources, HTTP fixtures, the makefile and the development guide, and six checks that
  compare it. Files that cannot be read are left out. A hash set is a list whose duplicates do
  not matter; the order in which it is iterated is a parameter, by the name of the set.
\<close>

section \<open>Subcommands of the tool\<close>

definition known_cli_subcommands :: "string list" where
  "known_cli_subcommands =
     [''doctor'', ''topology-doctor'', ''contract-audit'', ''runtime-bindings'', ''arch-guard'',
      ''runtime-smoke'', ''scenario-smoke'', ''results-inspect'', ''quality-gate'', ''trace-pack'',
      ''drift-detect'']"

definition kebab_char :: "nat \<times> char \<Rightarrow> string" where
  "kebab_char ic =
     (let (i, c) = ic in
      if ascii_upper c then (if 0 < i then [CHR ''-''] else []) @ [lower_char c] else [c])"

definition camel_to_kebab :: "string \<Rightarrow> string" where
  "camel_to_kebab input = concat (map kebab_char (enumerate 0 input))"

text \<open>The name that a line of the enumeration begins with, at an indentation of four.\<close>

definition variant_name :: "string \<Rightarrow> string list" where
  "variant_name line =
     (let trimmed = trim line; indent = length (takeWhile ascii_ws line);
          variant = trim (takeWhile (\<lambda>c. c \<notin> set '' {,('') trimmed)
      in if trimmed = [] \<or> starts_with trimmed ''///'' \<or> starts_with trimmed ''#['' \<or> indent \<noteq> 4 then []
         else (case variant of [] \<Rightarrow> [] | c # cs \<Rightarrow> if ascii_upper c then [camel_to_kebab variant] else []))"

definition brace_change :: "string \<Rightarrow> 32 word" where
  "brace_change line = of_nat (count_char line CHR 0x7B) - of_nat (count_char line CHR 0x7D)"

fun commands_from :: "bool \<Rightarrow> 32 word \<Rightarrow> string list \<Rightarrow> string list" where
  "commands_from inside depth [] = []"
| "commands_from inside depth (line # rest) =
     (if \<not> inside then
        (if starts_with (trim line) ''enum Commands'' then commands_from True (depth + brace_change line) rest
         else commands_from False depth rest)
      else if sint (depth + brace_change line) \<le> 0 then []
      else variant_name line @ commands_from True (depth + brace_change line) rest)"

definition extract_cli_subcommands :: "string \<Rightarrow> string list" where
  "extract_cli_subcommands content = commands_from False 0 (str_lines content)"

definition file_text :: "fs_node \<Rightarrow> path \<Rightarrow> string option" where
  "file_text root p = (case lookup_path root p of Some (FFile c) \<Rightarrow> c | _ \<Rightarrow> None)"

definition scan_cli_subcommands :: "fs_node \<Rightarrow> string list" where
  "scan_cli_subcommands root =
     (case file_text root [''tools'', ''raccoon-cli'', ''src'', ''main.rs''] of
        None \<Rightarrow> known_cli_subcommands
      | Some content \<Rightarrow>
          (let commands = extract_cli_subcommands content in
           if commands = [] then known_cli_subcommands else commands))"

section \<open>Events\<close>

definition lower_word :: "string \<Rightarrow> bool" where
  "lower_word p = list_all (\<lambda>c. ascii_lower c \<or> c = CHR ''_'' \<or> ascii_digit c) p"

definition known_verbs :: "string list" where
  "known_verbs =
     [''activated'', ''deactivated'', ''compiled'', ''validated'', ''rejected'', ''archived'']"

definition is_event_name :: "string \<Rightarrow> bool" where
  "is_event_name s =
     (case split_on s ''.'' of
        [domain, action] \<Rightarrow>
          domain \<noteq> [] \<and> action \<noteq> [] \<and> lower_word domain \<and> lower_word action
          \<and> (CHR ''_'' \<in> set action \<or> action \<in> set known_verbs)
      | _ \<Rightarrow> False)"

definition normalize_registry_event_name :: "string \<Rightarrow> string option" where
  "normalize_registry_event_name s =
     (if is_event_name s then Some s
      else
        (case split_on s ''.'' of
           [p0, p1, p2, p3] \<Rightarrow>
             (if p0 = ''configctl'' \<and> p1 \<in> set [''event'', ''events''] \<and> is_event_name (p2 @ ''.'' @ p3)
              then Some (p2 @ ''.'' @ p3) else None)
         | _ \<Rightarrow> None))"

definition nearby_contains :: "string list \<Rightarrow> nat \<Rightarrow> nat \<Rightarrow> string \<Rightarrow> bool" where
  "nearby_contains ls center radius keyword =
     list_ex (\<lambda>i. contains (ls ! i) keyword) (window ls center radius)"

definition event_context :: "string list \<Rightarrow> nat \<Rightarrow> string \<Rightarrow> bool" where
  "event_context ls i trimmed =
     (contains trimmed ''EventName'' \<or> contains trimmed ''event_name''
      \<or> (contains trimmed ''Name'' \<and> nearby_contains ls i 5 ''Event''))"

definition extract_event_names :: "string \<Rightarrow> string list \<Rightarrow> string list" where
  "extract_event_names content events =
     (let ls = str_lines content in
      sort_dedup (events @ concat (map (\<lambda>(i, line). let trimmed = trim line in
          if comment_line trimmed \<or> \<not> event_context ls i trimmed then []
          else filter is_event_name (extract_all_quoted trimmed)) (enumerate 0 ls))))"

text \<open>The contents of the readable files below a directory, the others skipped.\<close>

definition readable :: "(path \<times> string option) list \<Rightarrow> string list" where
  "readable files = List.map_filter snd files"

definition scan_drift_domain_events :: "fs_node \<Rightarrow> string list" where
  "scan_drift_domain_events root =
     fold extract_event_names
       (readable (files_below ''go'' (dir_entries root [''internal'', ''domain'']))) []"

definition registry_line :: "string \<Rightarrow> string list" where
  "registry_line line =
     (let trimmed = trim line in
      if \<not> comment_line trimmed \<and> (contains trimmed ''Type:'' \<or> contains trimmed ''type:'')
      then List.map_filter normalize_registry_event_name (extract_all_quoted trimmed) else [])"

definition registry_go_files :: "(string \<times> fs_node) list \<Rightarrow> (path \<times> string option) list" where
  "registry_go_files es =
     walk_tree (\<lambda>_. False) (\<lambda>nm. contains nm ''registry'' \<and> ends_with nm ''.go'') [] es"

definition scan_registry_events :: "fs_node \<Rightarrow> string list" where
  "scan_registry_events root =
     sort_dedup (concat (map (\<lambda>content. concat (map registry_line (str_lines content)))
       (readable (registry_go_files (dir_entries root [''internal'', ''adapters''])))))"

section \<open>Bindings\<close>

record config_binding =
  cb_name :: string
  cb_topic :: string
  cb_source_file :: string

definition extract_json_string_value :: "string \<Rightarrow> string \<Rightarrow> string option" where
  "extract_json_string_value line key =
     (let pat = [dq] @ key @ [dq] in
      case find_sub line pat of
        None \<Rightarrow> None
      | Some k \<Rightarrow>
          (let after_key = drop (k + length pat) line in
           case find_sub after_key '':'' of
             None \<Rightarrow> None
           | Some j \<Rightarrow> first_quoted (trim (drop (j + 1) after_key))))"

text \<open>
  A line with a name counts when at least five lines follow it. Quotes at its ends are removed
  before the name is looked for.
\<close>

definition json_binding :: "string list \<Rightarrow> string \<Rightarrow> nat \<times> string \<Rightarrow> config_binding list" where
  "json_binding ls file_name il =
     (let (i, line) = il; trimmed = trim_char (trim line) dq in
      if contains trimmed ([dq] @ ''name'' @ [dq]) \<and> i + 5 < length ls then
        (case extract_json_string_value trimmed ''name'' of
           None \<Rightarrow> []
         | Some name \<Rightarrow>
             (case first_some (map (\<lambda>j. extract_json_string_value (trim (ls ! j)) ''topic'')
                                 [i - 3 ..< min (i + 5) (length ls)]) of
                None \<Rightarrow> []
              | Some topic \<Rightarrow> [\<lparr>cb_name = name, cb_topic = topic, cb_source_file = file_name\<rparr>]))
      else [])"

definition extract_bindings_from_json_content :: "string \<Rightarrow> string \<Rightarrow> config_binding list" where
  "extract_bindings_from_json_content content file_name =
     (let ls = str_lines content in concat (map (json_binding ls file_name) (enumerate 0 ls)))"

text \<open>The files with an extension directly in a directory.\<close>

definition scan_dir_for_bindings :: "fs_node \<Rightarrow> path \<Rightarrow> string \<Rightarrow> config_binding list" where
  "scan_dir_for_bindings root dir ext =
     concat (map (\<lambda>(name, node).
         if extension name = Some ext then
           (case node of
              FFile (Some content) \<Rightarrow> extract_bindings_from_json_content content (path_string (dir @ [name]))
            | _ \<Rightarrow> [])
         else []) (dir_entries root dir))"

definition binding_token :: "string \<Rightarrow> bool" where
  "binding_token val =
     (val \<noteq> [] \<and> length val < 64 \<and> list_all (\<lambda>c. ascii_alnum c \<or> c = CHR ''-'' \<or> c = CHR ''_'') val)"

definition go_binding_line :: "string \<Rightarrow> string \<Rightarrow> config_binding list" where
  "go_binding_line file_name line =
     (let trimmed = trim line in
      if \<not> comment_line trimmed \<and> (contains trimmed ''BindingName'' \<or> contains trimmed ''binding_name'')
      then map (\<lambda>val. \<lparr>cb_name = val, cb_topic = [], cb_source_file = file_name\<rparr>)
             (filter binding_token (extract_all_quoted trimmed))
      else [])"

definition scan_go_for_bindings :: "fs_node \<Rightarrow> config_binding list" where
  "scan_go_for_bindings root =
     concat (map (\<lambda>(p, c). case c of
         Some content \<Rightarrow> concat (map (go_binding_line (path_string (''internal'' # p))) (str_lines content))
       | None \<Rightarrow> []) (files_below ''go'' (dir_entries root [''internal''])))"

definition scan_config_bindings :: "fs_node \<Rightarrow> config_binding list" where
  "scan_config_bindings root =
     scan_dir_for_bindings root [''tests'', ''http''] ''http''
     @ scan_dir_for_bindings root [''deploy'', ''configs''] ''jsonc''
     @ scan_go_for_bindings root"

section \<open>Makefile and development guide\<close>

definition make_skip_prefixes :: "string list" where
  "make_skip_prefixes =
     [''#'', [CHR 0x09], '' '', ''@'', ''define '', ''endef'', ''ifeq'', ''ifneq'', ''endif'', ''else'']"

definition makefile_target :: "string \<Rightarrow> string list" where
  "makefile_target line =
     (let trimmed = trim line in
      if list_ex (starts_with trimmed) make_skip_prefixes \<or> trimmed = [] then []
      else if contains trimmed ''?='' \<or> contains trimmed '':='' \<or> contains trimmed ''+=''
        \<or> (contains trimmed ''='' \<and> \<not> contains trimmed '':'') then []
      else if starts_with trimmed ''.'' \<or> starts_with trimmed ''$('' then []
      else
        (case find_sub trimmed '':'' of
           None \<Rightarrow> []
         | Some colon \<Rightarrow>
             (let target = trim (take colon trimmed) in
              if target \<noteq> [] \<and> \<not> contains target '' '' \<and> \<not> contains target ''$'' \<and> \<not> contains target ''/''
              then [target] else [])))"

definition extract_makefile_targets :: "string \<Rightarrow> string list" where
  "extract_makefile_targets content = concat (map makefile_target (str_lines content))"

definition make_stopwords :: "string list" where
  "make_stopwords =
     [''a'', ''an'', ''the'', ''it'', ''is'', ''to'', ''your'', ''sure'', ''changes'', ''sense'', ''this'',
      ''that'', ''any'', ''no'', ''not'', ''use'', ''certain'']"

function make_references :: "string \<Rightarrow> string list" where
  "make_references rest =
     (case find_sub rest ''make '' of
        None \<Rightarrow> []
      | Some pos \<Rightarrow>
          (let after = drop (pos + 5) rest;
               target = takeWhile (\<lambda>c. ascii_alnum c \<or> c = CHR ''-'' \<or> c = CHR ''_'') after
           in (if target \<noteq> [] \<and> target \<notin> set make_stopwords then [target] else [])
              @ make_references (drop (length target) after)))"
  by pat_completeness auto
termination
  by (relation "measure length") (auto dest!: find_sub_length)

declare make_references.simps [simp del]

definition command_word :: "string \<Rightarrow> string" where
  "command_word after =
     (if starts_with after ''-'' then
        (case find (\<lambda>w. \<not> starts_with w ''-'') (split_ws after) of Some w \<Rightarrow> w | None \<Rightarrow> [])
      else takeWhile (\<lambda>c. \<not> ascii_ws c) after)"

definition clean_command :: "string \<Rightarrow> string" where
  "clean_command w =
     rev (dropWhile (\<lambda>c. c = CHR 0x60 \<or> c = CHR 0x27 \<or> c = dq \<or> c = CHR '','' \<or> c = CHR ''.'') (rev w))"

lemma trim_start_length: "length (trim_start s) \<le> length s"
proof (induction s rule: trim_start.induct)
  case (1 s)
  show ?case
  proof (cases "strip_ws s")
    case None
    then show ?thesis by (simp add: trim_start.simps [of s])
  next
    case (Some r)
    with 1 [OF Some] strip_ws_length [OF Some] show ?thesis by (simp add: trim_start.simps [of s])
  qed
qed

function command_references :: "string \<Rightarrow> string list" where
  "command_references rest =
     (case find_sub rest ''raccoon-cli '' of
        None \<Rightarrow> []
      | Some pos \<Rightarrow>
          (let after = trim_start (drop (pos + 12) rest);
               word = command_word after
           in (if clean_command word \<noteq> [] then [clean_command word] else [])
              @ command_references (drop (length word) after)))"
  by pat_completeness auto
termination
proof (relation "measure length", goal_cases)
  case 1
  show ?case by simp
next
  case (2 rest pos after word)
  have "length after \<le> length rest - (pos + 12)" using trim_start_length [of "drop (pos + 12) rest"] 2(2) by simp
  with find_sub_length [OF 2(1)] show ?case by simp
qed

declare command_references.simps [simp del]

definition extract_dev_doc_references :: "string \<Rightarrow> string list \<times> string list" where
  "extract_dev_doc_references content =
     (concat (map make_references (str_lines content)), concat (map command_references (str_lines content)))"

section \<open>Evidence\<close>

record evidence =
  ev_configs :: "service_config hash_map"
  ev_compose :: "compose_service hash_map option"
  ev_source :: "source_topology option"
  ev_makefile_targets :: "string list"
  ev_dev_doc_targets :: "string list"
  ev_dev_doc_cli_commands :: "string list"
  ev_cli_subcommands :: "string list"
  ev_domain_events :: "string list"
  ev_registry_events :: "string list"
  ev_config_bindings :: "config_binding list"

definition result_ok :: "'e + 'a \<Rightarrow> 'a option" where
  "result_ok r = (case r of Inl _ \<Rightarrow> None | Inr x \<Rightarrow> Some x)"

definition gather_evidence :: "'j value_api \<Rightarrow> (string \<Rightarrow> 'j option) \<Rightarrow> fs_node \<Rightarrow> evidence" where
  "gather_evidence J from_str root =
     (let internal = path_is_dir root [''internal''];
          doc = (case file_text root [''DEVELOPMENT.md''] of
                   Some content \<Rightarrow> extract_dev_doc_references content | None \<Rightarrow> ([], []))
      in \<lparr>ev_configs = parse_all_configs J from_str (dir_entries root [''deploy'', ''configs'']),
          ev_compose = Option.bind (file_text root compose_path) parse_compose,
          ev_source = (if internal then result_ok (scan_source (\<lambda>_. []) (dir_entries root [''internal'']))
                       else None),
          ev_makefile_targets = (case file_text root [''Makefile''] of
                                   Some content \<Rightarrow> extract_makefile_targets content | None \<Rightarrow> []),
          ev_dev_doc_targets = fst doc, ev_dev_doc_cli_commands = snd doc,
          ev_cli_subcommands = scan_cli_subcommands root,
          ev_domain_events = (if internal then scan_drift_domain_events root else []),
          ev_registry_events = (if internal then scan_registry_events root else []),
          ev_config_bindings = (if internal then scan_config_bindings root else [])\<rparr>)"

end
