(* ===== verification/DriftChecks.thy ===== *)
theory DriftChecks
  imports DriftDetect
begin

text \<open>
  The six checks of drift detection on the gathered evidence (\<open>analyzers/drift_detect.rs\<close>) and the
  analyser. Differences and intersections of hash sets are lists in an arbitrary order.
\<close>

section \<open>Configurations and compose file\<close>

definition app_services :: "string list" where
  "app_services = [''configctl'', ''server'', ''consumer'', ''emulator'', ''validator'']"

definition explained :: "finding \<Rightarrow> string \<Rightarrow> string \<Rightarrow> finding" where
  "explained f why help = with_help (with_why f why) help"

definition config_without_compose :: "string \<Rightarrow> finding" where
  "config_without_compose svc =
     explained (finding_warning ''config-without-compose''
         (''config '' @ quote1 svc @ '' exists but no matching compose service''))
       (''config declares runtime settings for a service that doesn'' @ [CHR 0x27] @ ''t exist in compose ''
        @ em_dash @ '' the config is dead weight'')
       (''add '' @ quote1 svc @ '' service to deploy/compose/docker-compose.yaml or remove deploy/configs/''
        @ svc @ ''.jsonc'')"

definition compose_without_config :: "string \<Rightarrow> finding" where
  "compose_without_config svc =
     explained (finding_warning ''compose-without-config''
         (''compose service '' @ quote1 svc @ '' has no deploy/configs/'' @ svc @ ''.jsonc''))
       (''service runs with default/hardcoded settings '' @ em_dash
        @ '' explicit config makes behavior visible and auditable'')
       (''create deploy/configs/'' @ svc @ ''.jsonc with at minimum the transport settings'')"

definition transport_error :: "string \<Rightarrow> string \<Rightarrow> string \<Rightarrow> string \<Rightarrow> finding" where
  "transport_error name declares broker fails =
     explained (finding_error ''transport-drift''
         (quote1 name @ '' config declares '' @ declares @ '' but compose service doesn'' @ [CHR 0x27]
          @ ''t depend on '' @ broker))
       (''service will fail to '' @ fails @ '' if '' @ broker @ '' isn'' @ [CHR 0x27] @ ''t running '' @ em_dash
        @ '' the dependency must be declared'')
       (''add '' @ quote1 broker @ '' to depends_on of '' @ quote1 name @ '' in docker-compose.yaml'')"

definition transport_drift :: "compose_service hash_map \<Rightarrow> string \<times> service_config \<Rightarrow> finding list" where
  "transport_drift compose e =
     (let (name, cfg) = e in
      case hm_get compose name of
        None \<Rightarrow> []
      | Some svc \<Rightarrow>
          opt_finding (sc_kafka_brokers cfg \<noteq> [] \<and> ''kafka'' \<notin> set (sv_depends_on svc))
            (transport_error name ''kafka brokers'' ''kafka'' ''start'')
          @ opt_finding (sc_nats_url cfg \<noteq> None \<and> ''nats'' \<notin> set (sv_depends_on svc))
              (transport_error name ''nats url'' ''nats'' ''connect''))"

definition check_config_compose_drift :: "hash_orders \<Rightarrow> evidence \<Rightarrow> check_result" where
  "check_config_compose_drift h ev =
     (case ev_compose ev of
        None \<Rightarrow> check_skip ''config-compose-drift'' ''docker-compose.yaml not available''
      | Some compose \<Rightarrow>
          (if ev_configs ev = [] then check_skip ''config-compose-drift'' ''no configs found in deploy/configs/''
           else
             (let compose_services = map fst compose; config_services = map fst (ev_configs ev) in
              from_findings ''config-compose-drift''
                (map config_without_compose (filter (\<lambda>svc. svc \<in> set app_services)
                   (hs_iter (h ''config_services'') (filter (\<lambda>svc. svc \<notin> set compose_services) config_services)))
                 @ map compose_without_config (filter (\<lambda>svc. svc \<notin> set config_services)
                   (hs_iter (h ''compose_services'') (filter (\<lambda>svc. svc \<in> set app_services) compose_services)))
                 @ concat (map (transport_drift compose) (hm_iter (h ''configs'') (ev_configs ev)))))))"

section \<open>Sources\<close>

definition expected_streams :: "string list" where
  "expected_streams = [''DATA_PLANE_INGESTION'', ''CONFIGCTL_EVENTS'']"

definition stream_drift :: "string \<Rightarrow> finding" where
  "stream_drift stream =
     explained (finding_error ''stream-drift''
         (''expected stream '' @ quote1 stream @ '' not found in source '' @ em_dash
          @ '' may have been renamed or removed''))
       (''durable consumers and subject routing depend on this stream name '' @ em_dash
        @ '' renaming it without updating all references breaks the pipeline'')
       ''search source for the stream constant and verify it matches the registry definition''"

definition durable_target_drift :: "string \<Rightarrow> string \<Rightarrow> finding" where
  "durable_target_drift durable stream =
     explained (finding_error ''durable-target-drift''
         (''durable '' @ quote1 durable @ '' targets stream '' @ quote1 stream @ '' which doesn'' @ [CHR 0x27]
          @ ''t exist''))
       (''durable consumer will fail to bind at runtime '' @ em_dash @ '' messages will not be delivered'')
       (''update durable '' @ quote1 durable @ '' to reference an existing stream'')"

definition refresh_consumers :: "string list" where
  "refresh_consumers =
     [''validator-runtime-cache-v1'', ''consumer-runtime-refresh-v1'', ''emulator-runtime-refresh-v1'']"

definition refresh_stream_drift :: "string \<Rightarrow> string \<Rightarrow> finding" where
  "refresh_stream_drift durable stream =
     explained (finding_error ''runtime-refresh-stream-drift''
         (''durable '' @ quote1 durable @ '' targets stream '' @ quote1 stream @ '' instead of ''
          @ quote1 ''CONFIGCTL_EVENTS''))
       ''runtime lifecycle and event-driven refresh depend on CONFIGCTL_EVENTS; wrong stream silently breaks convergence''
       (''update durable '' @ quote1 durable @ '' to target CONFIGCTL_EVENTS'')"

definition subject_prefix_drift :: finding where
  "subject_prefix_drift =
     explained (finding_warning ''subject-prefix-drift''
         (''no subjects with prefix '' @ quote1 ''dataplane.ingestion.received''
          @ '' found in source '' @ em_dash @ '' subject naming may have drifted''))
       ''consumer and validator depend on predictable subject prefixes for routing''
       ''check dataplane registry for current subject prefix convention''"

definition subject_drift :: "string list \<Rightarrow> string \<Rightarrow> string \<Rightarrow> finding list" where
  "subject_drift subjects stream_name pat =
     opt_finding (\<not> list_ex (\<lambda>s. starts_with s (trim_end_str pat ''.>'') \<or> s = pat) subjects)
       (explained (finding_warning ''stream-subject-drift''
           (''stream '' @ quote1 stream_name @ '' declares subject pattern '' @ quote1 pat
            @ '' but no matching concrete subjects found''))
         ''stream may be capturing zero messages if no publisher uses this subject pattern''
         (''verify publishers emit to subjects matching '' @ quote1 pat))"

definition check_config_source_drift :: "hash_orders \<Rightarrow> evidence \<Rightarrow> check_result" where
  "check_config_source_drift h ev =
     (case ev_source ev of
        None \<Rightarrow> check_skip ''config-source-drift'' ''source not scanned''
      | Some src \<Rightarrow>
          from_findings ''config-source-drift''
            (concat (map (\<lambda>stream. opt_finding (\<not> hm_has (st_streams src) stream) (stream_drift stream))
               expected_streams)
             @ concat (map (\<lambda>(durable, stream). opt_finding (\<not> hm_has (st_streams src) stream)
                 (durable_target_drift durable stream)) (hm_iter (h ''durables'') (st_durables src)))
             @ concat (map (\<lambda>durable. case hm_get (st_durables src) durable of
                   Some stream \<Rightarrow> opt_finding (stream \<noteq> ''CONFIGCTL_EVENTS'') (refresh_stream_drift durable stream)
                 | None \<Rightarrow> []) refresh_consumers)
             @ opt_finding (\<not> list_ex (\<lambda>s. starts_with s ''dataplane.ingestion.received'') (st_subjects src)
                  \<and> st_streams src \<noteq> []) subject_prefix_drift
             @ concat (map (\<lambda>(name, pats). concat (map (subject_drift (st_subjects src) name) pats))
                 (hm_iter (h ''streams'') (st_streams src)))))"

section \<open>Bindings\<close>

definition topic_count_message :: "string list \<Rightarrow> string \<Rightarrow> string" where
  "topic_count_message topics rest =
     ''bindings reference '' @ show_nat (length (remdups topics)) @ '' topic(s) but '' @ rest"

definition binding_sources :: "config_binding list \<Rightarrow> string \<Rightarrow> string list" where
  "binding_sources bs name = map cb_source_file (filter (\<lambda>b. cb_name b = name) bs)"

definition duplicate_binding :: "config_binding list \<Rightarrow> string \<Rightarrow> finding list" where
  "duplicate_binding bs name =
     (let sources = binding_sources bs name in
      opt_finding (2 < length sources \<and> 2 < length (remdups sources))
        (explained (finding_warning ''binding-duplicate''
            (''binding '' @ quote1 name @ '' appears in '' @ show_nat (length (remdups sources))
             @ '' distinct sources''))
          (''duplicate binding definitions risk inconsistency if one is updated and the others aren'' @ [CHR 0x27]
           @ ''t'')
          ''consolidate to a single authoritative binding declaration''))"

definition check_binding_topology_drift :: "hash_orders \<Rightarrow> evidence \<Rightarrow> check_result" where
  "check_binding_topology_drift h ev =
     (case ev_source ev of
        None \<Rightarrow> check_skip ''binding-topology-drift'' ''source not scanned''
      | Some src \<Rightarrow>
          (let bs = ev_config_bindings ev;
               topics = map cb_topic (filter (\<lambda>b. cb_topic b \<noteq> []) bs)
           in from_findings ''binding-topology-drift''
                (opt_finding (topics \<noteq> [] \<and> \<not> hm_has (st_streams src) ''DATA_PLANE_INGESTION'')
                   (explained (finding_error ''binding-stream-drift''
                       (topic_count_message topics ''DATA_PLANE_INGESTION stream not found in source''))
                     (''ingested messages from these topics will have no stream to land in '' @ em_dash
                      @ '' data pipeline is broken'')
                     ''verify the dataplane registry defines DATA_PLANE_INGESTION stream'')
                 @ opt_finding (topics \<noteq> [] \<and> \<not> hm_has (st_durables src) ''validator-dataplane-v1'')
                   (explained (finding_error ''binding-consumer-drift''
                       (topic_count_message topics ''validator durable consumer not found''))
                     ''messages will accumulate in the stream with no consumer processing them''
                     ''verify the dataplane registry defines the validator durable consumer'')
                 @ concat (map (duplicate_binding bs) (hs_iter (h ''seen_names'') (map cb_name bs)))
                 @ opt_finding (bs \<noteq> []
                      \<and> \<not> list_ex (\<lambda>s. contains s ''bootstrap'' \<or> contains s ''runtime'') (st_subjects src))
                   (finding_info ''binding-bootstrap''
                      (''bindings exist but no bootstrap-related subjects found in source '' @ em_dash
                       @ '' bootstrap may use HTTP instead of NATS'')))))"

section \<open>Workflow\<close>

definition doc_target_drift :: "string \<Rightarrow> finding" where
  "doc_target_drift target =
     explained (finding_error ''doc-target-drift''
         (''DEVELOPMENT.md references `make '' @ target @ ''` but target not found in Makefile''))
       (''developers following the documented workflow will get '' @ quote1 ''No rule to make target'' @ '' errors'')
       (''add '' @ quote1 target @ '' target to Makefile or update DEVELOPMENT.md'')"

definition doc_command_drift :: "string \<Rightarrow> finding" where
  "doc_command_drift cmd =
     explained (finding_warning ''doc-command-drift''
         (''DEVELOPMENT.md references `raccoon-cli '' @ cmd @ ''` which is not a known subcommand''))
       ''developers will get CLI parse errors following the documentation''
       ''update DEVELOPMENT.md to use a valid raccoon-cli subcommand''"

definition undocumented_target :: "string \<Rightarrow> finding" where
  "undocumented_target target =
     explained (finding_warning ''undocumented-target''
         (''Makefile has workflow target '' @ quote1 target @ '' not referenced in DEVELOPMENT.md''))
       (''developers won'' @ [CHR 0x27] @ ''t discover this workflow step from the documentation'')
       (''add `make '' @ target @ ''` to the DEVELOPMENT.md workflow section'')"

definition tolerated_targets :: "string list" where
  "tolerated_targets = [''test'', ''build'', ''docker-build'']"

definition workflow_targets :: "string list" where
  "workflow_targets = [''check'', ''verify'', ''check-deep'', ''smoke'', ''trace-pack'', ''results-inspect'']"

definition check_workflow_drift :: "hash_orders \<Rightarrow> evidence \<Rightarrow> check_result" where
  "check_workflow_drift h ev =
     (if ev_makefile_targets ev = [] \<and> ev_dev_doc_targets ev = [] then
        check_skip ''workflow-drift'' ''no Makefile or DEVELOPMENT.md found''
      else from_findings ''workflow-drift''
        (concat (map (\<lambda>target. opt_finding
             (target \<notin> set (ev_makefile_targets ev) \<and> target \<notin> set tolerated_targets)
             (doc_target_drift target)) (hs_iter (h ''dev_doc_targets'') (ev_dev_doc_targets ev)))
         @ concat (map (\<lambda>cmd. opt_finding
             (cmd \<notin> set (ev_cli_subcommands ev) \<and> \<not> starts_with cmd ''-'' \<and> 3 \<le> length cmd)
             (doc_command_drift cmd)) (hs_iter (h ''dev_doc_cli_commands'') (ev_dev_doc_cli_commands ev)))
         @ concat (map (\<lambda>target. opt_finding
             (target \<in> set (ev_makefile_targets ev) \<and> target \<notin> set (ev_dev_doc_targets ev))
             (undocumented_target target)) workflow_targets)))"

section \<open>Events and profiles\<close>

definition unregistered_event :: "string \<Rightarrow> finding" where
  "unregistered_event event =
     explained (finding_warning ''domain-event-unregistered''
         (''domain event '' @ quote1 event @ '' has no matching registry spec''))
       (''event is defined but never wired to a transport '' @ em_dash
        @ '' it cannot be consumed by other services'')
       ''add a matching EventSpec to the adapter registry''"

definition orphan_event :: "string \<Rightarrow> finding" where
  "orphan_event event =
     explained (finding_warning ''registry-event-orphan''
         (''registry spec for '' @ quote1 event @ '' has no matching domain event definition''))
       (''transport is wired for an event that no domain code produces '' @ em_dash @ '' spec may be stale'')
       ''verify the domain event exists or remove the stale registry spec''"

definition check_contract_domain_drift :: "hash_orders \<Rightarrow> evidence \<Rightarrow> check_result" where
  "check_contract_domain_drift h ev =
     (let domain = ev_domain_events ev; registry = ev_registry_events ev in
      if domain = [] \<and> registry = [] then
        check_skip ''contract-domain-drift'' ''no domain events or registry events found''
      else from_findings ''contract-domain-drift''
        (map unregistered_event (hs_iter (h ''domain_set'') (filter (\<lambda>e. e \<notin> set registry) domain))
         @ map orphan_event (hs_iter (h ''registry_set'') (filter (\<lambda>e. e \<notin> set domain) registry))))"

definition missing_profile :: "string \<Rightarrow> finding" where
  "missing_profile profile =
     explained (finding_warning ''missing-profile''
         (''expected compose profile '' @ quote1 profile @ '' not found in any service''))
       (''Makefile target '' @ quote1 (''up-'' @ profile) @ '' uses --profile '' @ profile @ '' which won''
        @ [CHR 0x27] @ ''t match any service'')
       (''assign profile '' @ quote1 profile @ '' to relevant services in docker-compose.yaml'')"

definition unassigned_profile :: "string \<Rightarrow> finding" where
  "unassigned_profile name =
     finding_info ''profile-unassigned''
       (''compose service '' @ quote1 name @ '' has no profile assignment '' @ em_dash @ '' runs in all profiles'')"

definition check_compose_profile_drift :: "hash_orders \<Rightarrow> evidence \<Rightarrow> check_result" where
  "check_compose_profile_drift h ev =
     (case ev_compose ev of
        None \<Rightarrow> check_skip ''compose-profile-drift'' ''docker-compose.yaml not available''
      | Some compose \<Rightarrow>
          (let all_profiles = concat (map (\<lambda>(_, svc). sv_profiles svc) compose) in
           from_findings ''compose-profile-drift''
             (concat (map (\<lambda>(name, svc). opt_finding
                  (sv_profiles svc = [] \<and> name \<notin> set [''nats'', ''kafka'']) (unassigned_profile name))
                (hm_iter (h ''services'') compose))
              @ concat (map (\<lambda>profile. opt_finding
                  (profile \<notin> set all_profiles \<and> all_profiles \<noteq> []) (missing_profile profile))
                [''core'', ''runtime'', ''dataplane'', ''all'']))))"

section \<open>The analyser\<close>

definition drift_checks :: "hash_orders \<Rightarrow> evidence \<Rightarrow> check_result list" where
  "drift_checks h ev =
     [check_config_compose_drift h ev, check_config_source_drift h ev, check_binding_topology_drift h ev,
      check_workflow_drift h ev, check_contract_domain_drift h ev, check_compose_profile_drift h ev]"

definition drift_detect_analyze :: "'j value_api \<Rightarrow> (string \<Rightarrow> 'j option) \<Rightarrow> hash_orders \<Rightarrow> fs_node
                                    \<Rightarrow> cli_error + report" where
  "drift_detect_analyze J from_str h root =
     Inr (foldl report_add (report_new ''drift-detect'') (drift_checks h (gather_evidence J from_str root)))"

end
