(* ===== verification/DriftProps.thy ===== *)
theory DriftProps
  imports DriftChecks TopologyProps
begin

text \<open>
  Properties of drift detection: its verdict does not depend on hash order, what a passing report
  guarantees, the names of events and subcommands, and two scanners that miss what they look for.
\<close>

section \<open>The analyser\<close>

lemma drift_checks_wf: "\<forall>c\<in>set (drift_checks h ev). check_wf c"
  by (simp add: drift_checks_def check_config_compose_drift_def check_config_source_drift_def
      check_binding_topology_drift_def check_workflow_drift_def check_contract_domain_drift_def
      check_compose_profile_drift_def Let_def check_wf_from_findings check_wf_skip split: option.splits)

interpretation drift: total_analyser "drift_detect_analyze J from_str h"
  for J :: "'j value_api" and from_str h
proof
  have "report_wf (foldl report_add (report_new ''drift-detect'') (drift_checks h ev))" for ev
    by (intro report_wf_foldl report_wf_new drift_checks_wf)
  then show "drift_detect_analyze J from_str h root = Inr r \<Longrightarrow> report_wf r" for root r
    by (metis drift_detect_analyze_def sum.inject(2))
  show "\<exists>r. drift_detect_analyze J from_str h root = Inr r" for root
    by (simp add: drift_detect_analyze_def)
qed

definition evidence_wf :: "evidence \<Rightarrow> bool" where
  "evidence_wf ev =
     (hm_wf (ev_configs ev)
      \<and> pred_option hm_wf (ev_compose ev)
      \<and> pred_option (\<lambda>src. hm_wf (st_streams src) \<and> hm_wf (st_durables src)) (ev_source ev))"

lemma gather_evidence_wf: "evidence_wf (gather_evidence J from_str root)"
proof -
  have compose: "pred_option hm_wf (Option.bind (file_text root compose_path) parse_compose)"
  proof (cases "file_text root compose_path")
    case (Some content)
    obtain services where "parse_compose content = Some services \<and> hm_wf services"
      using parse_compose_total by blast
    with Some show ?thesis by simp
  qed simp
  have source: "pred_option (\<lambda>src. hm_wf (st_streams src) \<and> hm_wf (st_durables src)) (result_ok (scan_source f es))"
    for f es
    using scan_source_wf [of f es] by (cases "scan_source f es") (auto simp: result_ok_def)
  show ?thesis
    using compose source by (simp add: evidence_wf_def gather_evidence_def Let_def parse_all_configs_wf)
qed

lemma drift_checks_same:
  assumes h: "orders_ok h" "orders_ok h'" and wf: "evidence_wf ev"
  shows "list_all2 same_outcome (drift_checks h ev) (drift_checks h' ev)"
proof -
  note hs = hs_iter_set [OF h(1)] hs_iter_set [OF h(2)]
  have configs: "set (hm_iter (h n) (ev_configs ev)) = set (hm_iter (h' n) (ev_configs ev))" for n
    by (rule iter_set_eq [OF h]) (use wf in \<open>simp add: evidence_wf_def\<close>)
  have a: "same_outcome (check_config_compose_drift h ev) (check_config_compose_drift h' ev)"
    by (cases "ev_compose ev")
      (auto simp: check_config_compose_drift_def Let_def hs configs image_Un image_UN intro!: same_outcome_findings)
  have b: "same_outcome (check_config_source_drift h ev) (check_config_source_drift h' ev)"
  proof (cases "ev_source ev")
    case (Some src)
    have "hm_wf (st_streams src)" "hm_wf (st_durables src)" using wf Some by (simp_all add: evidence_wf_def)
    note it = iter_set_eq [OF h this(1)] iter_set_eq [OF h this(2)]
    show ?thesis
      unfolding check_config_source_drift_def Some option.case
      by (rule same_outcome_findings) (simp only: set_append set_concat set_map image_Un it)
  qed (simp add: check_config_source_drift_def)
  have c: "same_outcome (check_binding_topology_drift h ev) (check_binding_topology_drift h' ev)"
  proof (cases "ev_source ev")
    case (Some src)
    show ?thesis
      unfolding check_binding_topology_drift_def Some option.case Let_def
      by (rule same_outcome_findings) (simp only: set_append set_concat set_map image_Un hs)
  qed (simp add: check_binding_topology_drift_def)
  have d: "same_outcome (check_workflow_drift h ev) (check_workflow_drift h' ev)"
    by (auto simp: check_workflow_drift_def hs image_Un image_UN intro!: same_outcome_findings)
  have e: "same_outcome (check_contract_domain_drift h ev) (check_contract_domain_drift h' ev)"
    by (auto simp: check_contract_domain_drift_def Let_def hs image_Un image_UN intro!: same_outcome_findings)
  have f: "same_outcome (check_compose_profile_drift h ev) (check_compose_profile_drift h' ev)"
  proof (cases "ev_compose ev")
    case (Some compose)
    have "hm_wf compose" using wf Some by (simp add: evidence_wf_def)
    note it = iter_set_eq [OF h this]
    show ?thesis
      unfolding check_compose_profile_drift_def Some option.case Let_def
      by (rule same_outcome_findings) (simp only: set_append set_concat set_map image_Un it)
  qed (simp add: check_compose_profile_drift_def)
  show ?thesis using a b c d e f by (simp add: drift_checks_def)
qed

interpretation drift_order: order_robust "\<lambda>h root. drift_checks h (gather_evidence J from_str root)"
  for J :: "'j value_api" and from_str
  by unfold_locales (rule drift_checks_same [OF _ _ gather_evidence_wf])

text \<open>
  Property (the drift verdict does not depend on hash order). Whatever the order in which the hash
  maps and sets of the evidence are iterated, the drift step of the gate passes or does not,
  under every profile.
\<close>

theorem drift_order_independent:
  assumes "orders_ok h" "orders_ok h'"
  shows "clean p (drift_detect_analyze J from_str h root) = clean p (drift_detect_analyze J from_str h' root)"
  unfolding drift_detect_analyze_def by (rule drift_order.same_verdict [OF assms])

theorem drift_order_independent_witness:
  "clean Ci (drift_detect_analyze small_api (\<lambda>_. None) (\<lambda>_ ks. ks) (FDir []))
     = clean Ci (drift_detect_analyze small_api (\<lambda>_. None) (\<lambda>_ ks. rev ks) (FDir []))"
  by (rule drift_order_independent) (simp_all add: orders_ok_def)

section \<open>What a passing report guarantees\<close>

definition transports_declared :: "evidence \<Rightarrow> compose_service hash_map \<Rightarrow> bool" where
  "transports_declared ev compose =
     (\<forall>name cfg svc. hm_get (ev_configs ev) name = Some cfg \<longrightarrow> hm_get compose name = Some svc \<longrightarrow>
        (sc_kafka_brokers cfg \<noteq> [] \<longrightarrow> ''kafka'' \<in> set (sv_depends_on svc))
        \<and> (sc_nats_url cfg \<noteq> None \<longrightarrow> ''nats'' \<in> set (sv_depends_on svc)))"

definition streams_bound :: "evidence \<Rightarrow> source_topology \<Rightarrow> bool" where
  "streams_bound ev src =
     (hm_has (st_streams src) ''DATA_PLANE_INGESTION'' \<and> hm_has (st_streams src) ''CONFIGCTL_EVENTS''
      \<and> (\<forall>durable stream. hm_get (st_durables src) durable = Some stream \<longrightarrow>
           hm_has (st_streams src) stream
           \<and> (durable \<in> set refresh_consumers \<longrightarrow> stream = ''CONFIGCTL_EVENTS''))
      \<and> ((\<exists>b\<in>set (ev_config_bindings ev). cb_topic b \<noteq> []) \<longrightarrow>
           hm_has (st_durables src) ''validator-dataplane-v1''))"

definition targets_exist :: "evidence \<Rightarrow> bool" where
  "targets_exist ev =
     (\<forall>target\<in>set (ev_dev_doc_targets ev).
        target \<in> set (ev_makefile_targets ev) \<or> target \<in> set tolerated_targets)"

lemma transports_declared_if:
  assumes "orders_ok h" "evidence_wf ev" "ev_compose ev = Some compose" "ev_configs ev \<noteq> []"
    and "ck_status (check_config_compose_drift h ev) \<noteq> CheckFail"
  shows "transports_declared ev compose"
proof -
  have ord: "mset (h n ks) = mset ks" for n ks using assms(1) by (simp add: orders_ok_def)
  have "\<forall>e\<in>set (hm_iter (h ''configs'') (ev_configs ev)). no_error (transport_drift compose e)"
    using assms(5) by (simp add: check_config_compose_drift_def assms(3,4) Let_def check_ok_iff list_all_iff)
  then have ok: "no_error (transport_drift compose (name, cfg))" if "hm_get (ev_configs ev) name = Some cfg" for name cfg
    using that hm_iter_get [of "ev_configs ev" "h ''configs''", OF _ ord] assms(2) by (simp add: evidence_wf_def)
  show ?thesis
    unfolding transports_declared_def
  proof (intro allI impI)
    fix name cfg svc
    assume "hm_get (ev_configs ev) name = Some cfg" "hm_get compose name = Some svc"
    with ok [OF this(1)] show "(sc_kafka_brokers cfg \<noteq> [] \<longrightarrow> ''kafka'' \<in> set (sv_depends_on svc))
        \<and> (sc_nats_url cfg \<noteq> None \<longrightarrow> ''nats'' \<in> set (sv_depends_on svc))"
      by (auto simp: transport_drift_def transport_error_def explained_def)
  qed
qed

lemma streams_bound_if:
  assumes "orders_ok h" "evidence_wf ev" "ev_source ev = Some src"
    and "ck_status (check_config_source_drift h ev) \<noteq> CheckFail"
    and "ck_status (check_binding_topology_drift h ev) \<noteq> CheckFail"
  shows "streams_bound ev src"
proof -
  have ord: "mset (h n ks) = mset ks" for n ks using assms(1) by (simp add: orders_ok_def)
  have src: "no_error (concat (map (\<lambda>stream. opt_finding (\<not> hm_has (st_streams src) stream) (stream_drift stream))
      expected_streams))"
    "no_error (concat (map (\<lambda>(durable, stream). opt_finding (\<not> hm_has (st_streams src) stream)
      (durable_target_drift durable stream)) (hm_iter (h ''durables'') (st_durables src))))"
    "no_error (concat (map (\<lambda>durable. case hm_get (st_durables src) durable of
        Some stream \<Rightarrow> opt_finding (stream \<noteq> ''CONFIGCTL_EVENTS'') (refresh_stream_drift durable stream)
      | None \<Rightarrow> []) refresh_consumers))"
    using assms(4)
    by (simp_all only: check_config_source_drift_def assms(3) option.case check_ok_iff no_error_simps(3))
  have streams: "hm_has (st_streams src) ''DATA_PLANE_INGESTION''" "hm_has (st_streams src) ''CONFIGCTL_EVENTS''"
    using src(1) by (simp_all add: expected_streams_def stream_drift_def explained_def)
  have durables: "hm_has (st_streams src) stream" if "hm_get (st_durables src) durable = Some stream" for durable stream
    using src(2) that hm_iter_get [of "st_durables src" "h ''durables''", OF _ ord] assms(2,3)
    by (fastforce simp: evidence_wf_def durable_target_drift_def explained_def list_all_iff)
  have refresh: "stream = ''CONFIGCTL_EVENTS''"
    if "hm_get (st_durables src) durable = Some stream" "durable \<in> set refresh_consumers" for durable stream
    using src(3) that by (fastforce simp: refresh_stream_drift_def explained_def list_all_iff)
  have "filter (\<lambda>b. cb_topic b \<noteq> []) (ev_config_bindings ev) = [] \<or> hm_has (st_durables src) ''validator-dataplane-v1''"
    using assms(5)
    by (simp add: check_binding_topology_drift_def assms(3) Let_def check_ok_iff explained_def)
  then have "(\<exists>b\<in>set (ev_config_bindings ev). cb_topic b \<noteq> []) \<longrightarrow> hm_has (st_durables src) ''validator-dataplane-v1''"
    by (auto simp: filter_empty_conv)
  with streams durables refresh show ?thesis unfolding streams_bound_def by blast
qed

lemma targets_exist_if:
  assumes "orders_ok h" "ck_status (check_workflow_drift h ev) \<noteq> CheckFail"
  shows "targets_exist ev"
proof (cases "ev_dev_doc_targets ev = []")
  case False
  with assms(2) have "\<forall>target\<in>set (hs_iter (h ''dev_doc_targets'') (ev_dev_doc_targets ev)).
      target \<in> set (ev_makefile_targets ev) \<or> target \<in> set tolerated_targets"
    by (auto simp: check_workflow_drift_def check_ok_iff list_all_iff doc_target_drift_def explained_def)
  then show ?thesis by (simp add: targets_exist_def hs_iter_set [OF assms(1)])
qed (simp add: targets_exist_def)

lemma drift_guarantee:
  assumes "drift_detect_analyze J from_str h root = Inr r" "rp_passed r" "orders_ok h"
  shows "let ev = gather_evidence J from_str root in
           (ev_configs ev \<noteq> [] \<longrightarrow> pred_option (transports_declared ev) (ev_compose ev))
           \<and> pred_option (streams_bound ev) (ev_source ev) \<and> targets_exist ev"
proof -
  let ?ev = "gather_evidence J from_str root"
  have checks: "\<forall>c\<in>set (drift_checks h ?ev). ck_status c \<noteq> CheckFail"
    using assms(1,2) by (auto simp: drift_detect_analyze_def)
  have "pred_option (transports_declared ?ev) (ev_compose ?ev)" if "ev_configs ?ev \<noteq> []"
    using transports_declared_if [OF assms(3) gather_evidence_wf _ that] checks
    by (auto simp: drift_checks_def pred_option_def)
  moreover have "pred_option (streams_bound ?ev) (ev_source ?ev)"
    using streams_bound_if [OF assms(3) gather_evidence_wf] checks by (auto simp: drift_checks_def pred_option_def)
  moreover have "targets_exist ?ev"
    using targets_exist_if [OF assms(3)] checks by (simp add: drift_checks_def)
  ultimately show ?thesis by (simp add: Let_def)
qed

text \<open>What there is to compare: the compose file and the sources are there when they can be read.\<close>

lemma evidence_gathered:
  shows "file_text root compose_path = Some content
      \<Longrightarrow> \<exists>compose. parse_compose content = Some compose
            \<and> ev_compose (gather_evidence J from_str root) = Some compose"
    and "\<lbrakk>path_is_dir root [''internal'']; scan_source (\<lambda>_. []) (dir_entries root [''internal'']) = Inr src\<rbrakk>
      \<Longrightarrow> ev_source (gather_evidence J from_str root) = Some src"
  using parse_compose_total[of content] by (auto simp: gather_evidence_def result_ok_def Let_def)

lemma transports_declared_empty: "ev_configs ev = [] \<Longrightarrow> transports_declared ev compose"
  by (simp add: transports_declared_def)

text \<open>
  C21 (what a passing drift report guarantees). When the report passes: if the compose file can be
  read, every configured service in it declares the brokers its configuration names. If \<open>internal/\<close>
  exists and all its files can be read (otherwise the checks are skipped), the sources define both
  streams, every durable is on a defined one, the refresh durables on the event stream, and bound
  topics have the validator durable. Each \<open>make\<close> target of the development guide is in the makefile
  or is test, build or docker-build, which are tolerated.
\<close>

theorem drift_passed:
  assumes "drift_detect_analyze J from_str h root = Inr r" "rp_passed r" "orders_ok h"
  shows "let ev = gather_evidence J from_str root in
           (\<forall>content. file_text root compose_path = Some content \<longrightarrow>
              (\<exists>compose. parse_compose content = Some compose \<and> transports_declared ev compose))
           \<and> (\<forall>src. path_is_dir root [''internal'']
                \<and> scan_source (\<lambda>_. []) (dir_entries root [''internal'']) = Inr src \<longrightarrow> streams_bound ev src)
           \<and> (\<forall>target\<in>set (ev_dev_doc_targets ev).
                target \<in> set (ev_makefile_targets ev) \<or> target \<in> {''test'', ''build'', ''docker-build''})"
proof -
  let ?ev = "gather_evidence J from_str root"
  note holds = drift_guarantee [OF assms, unfolded Let_def]
  have "\<exists>compose. parse_compose content = Some compose \<and> transports_declared ?ev compose"
    if "file_text root compose_path = Some content" for content
    using evidence_gathered(1)[OF that, of J from_str] holds transports_declared_empty[of ?ev]
    by (cases "ev_configs ?ev = []") (auto simp: pred_option_def)
  moreover have "streams_bound ?ev src" if "path_is_dir root [''internal'']"
      "scan_source (\<lambda>_. []) (dir_entries root [''internal'']) = Inr src" for src
    using evidence_gathered(2)[OF that, of J from_str] holds by (simp add: pred_option_def)
  moreover have "target \<in> set (ev_makefile_targets ?ev) \<or> target \<in> {''test'', ''build'', ''docker-build''}"
    if "target \<in> set (ev_dev_doc_targets ?ev)" for target
    using holds that by (auto simp: targets_exist_def tolerated_targets_def)
  ultimately show ?thesis unfolding Let_def by blast
qed

text \<open>A small project: one service, its compose entry, the pipeline sources and a documented target.\<close>

definition drift_compose :: string where
  "drift_compose = concat (map (\<lambda>l. l @ nl)
     [''services:'', ''  consumer:'', ''    depends_on:'', ''      - kafka'', ''      - nats''])"

definition drift_go :: "string list \<Rightarrow> fs_node" where
  "drift_go ls = FFile (Some (concat (map (\<lambda>l. l @ nl) ls)))"

definition drift_root :: fs_node where
  "drift_root =
     FDir [(''DEVELOPMENT.md'', FFile (Some ''Run `make check-all` first'')),
           (''Makefile'', FFile (Some (''check-all: build'' @ nl))),
           (''deploy'', FDir
              [(''compose'', FDir [(''docker-compose.yaml'', FFile (Some drift_compose))]),
               (''configs'', FDir [(''consumer.jsonc'', FFile (Some ''c''))])]),
           (''internal'', FDir
              [(''a.go'', drift_go [''Name: '' @ [dq] @ ''DATA_PLANE_INGESTION'' @ [dq],
                  ''Durable: '' @ [dq] @ ''validator-dataplane-v1'' @ [dq]]),
               (''b.go'', drift_go [''Name: '' @ [dq] @ ''CONFIGCTL_EVENTS'' @ [dq],
                  ''Durable: '' @ [dq] @ ''consumer-runtime-refresh-v1'' @ [dq]])])]"

lemma drift_root_passes:
  "list_all (\<lambda>c. ck_status c \<noteq> CheckFail)
     (drift_checks (\<lambda>_ ks. ks) (gather_evidence small_api (\<lambda>_. Some demo_topology_json) drift_root))"
  by code_simp

theorem drift_passed_witness:
  "let ev = gather_evidence small_api (\<lambda>_. Some demo_topology_json) drift_root in
     (\<exists>compose. parse_compose drift_compose = Some compose \<and> transports_declared ev compose)
     \<and> (\<exists>src. scan_source (\<lambda>_. []) (dir_entries drift_root [''internal'']) = Inr src \<and> streams_bound ev src)
     \<and> ev_dev_doc_targets ev = [''check-all''] \<and> ''check-all'' \<in> set (ev_makefile_targets ev)"
proof -
  let ?ev = "gather_evidence small_api (\<lambda>_. Some demo_topology_json) drift_root"
  obtain r where r: "drift_detect_analyze small_api (\<lambda>_. Some demo_topology_json) (\<lambda>_ ks. ks) drift_root = Inr r"
    "rp_passed r"
    using drift_root_passes by (simp add: drift_detect_analyze_def list_all_iff)
  have "orders_ok (\<lambda>_ ks. ks)" by (simp add: orders_ok_def)
  note passed = drift_passed [OF r this, unfolded Let_def]
  have "file_text drift_root compose_path = Some drift_compose" "path_is_dir drift_root [''internal'']"
    "case scan_source (\<lambda>_. []) (dir_entries drift_root [''internal'']) of Inr src \<Rightarrow> True | Inl e \<Rightarrow> False"
    "ev_dev_doc_targets ?ev = [''check-all'']"
    by code_simp+
  with passed show ?thesis by (auto simp: Let_def split: sum.splits)
qed

section \<open>Names\<close>

text \<open>
  Property (event names). What the registry scan takes for an event name is one: a dotted pair of
  lower-case words, the quoted text itself or what follows \<open>configctl.event.\<close> or
  \<open>configctl.events.\<close> in it.
\<close>

lemma split_on_single: "split_on s p = [x] \<Longrightarrow> p \<noteq> [] \<Longrightarrow> s = x"
  using join_split_on [of p s] by simp

theorem registry_event_names:
  assumes "normalize_registry_event_name s = Some e"
  shows "is_event_name e \<and> (s = e \<or> s = ''configctl.event.'' @ e \<or> s = ''configctl.events.'' @ e)"
proof (cases "is_event_name s")
  case True
  with assms show ?thesis by (simp add: normalize_registry_event_name_def)
next
  case False
  with assms obtain p0 p1 p2 p3 where s: "split_on s ''.'' = [p0, p1, p2, p3]"
    and p: "p0 = ''configctl''" "p1 = ''event'' \<or> p1 = ''events''"
    and e: "e = p2 @ ''.'' @ p3" "is_event_name (p2 @ ''.'' @ p3)"
    by (auto simp: normalize_registry_event_name_def split: list.splits if_splits)
  have "s = join ''.'' [p0, p1, p2, p3]" using join_split_on [of "''.''" s] by (simp add: s)
  then show ?thesis using p e by auto
qed

theorem registry_event_names_witness:
  "is_event_name ''config.draft_created''
   \<and> normalize_registry_event_name ''configctl.events.config.draft_created'' = Some ''config.draft_created''"
proof -
  have "normalize_registry_event_name ''configctl.events.config.draft_created'' = Some ''config.draft_created''"
    by code_simp
  with registry_event_names [OF this] show ?thesis by blast
qed

text \<open>The variant name a subcommand is derived from.\<close>

fun kebab_to_camel :: "bool \<Rightarrow> string \<Rightarrow> string" where
  "kebab_to_camel start [] = []"
| "kebab_to_camel start (c # cs) =
     (if c = CHR ''-'' then kebab_to_camel True cs
      else (if start then char_of (of_char c - 32 :: nat) else c) # kebab_to_camel False cs)"

definition camel_name :: "string \<Rightarrow> bool" where
  "camel_name s = (s \<noteq> [] \<and> ascii_upper (hd s) \<and> list_all (\<lambda>c. ascii_upper c \<or> ascii_lower c \<or> ascii_digit c) s)"

lemma ascii_ranges:
  "ascii_upper c \<longleftrightarrow> 65 \<le> (of_char c :: nat) \<and> (of_char c :: nat) \<le> 90"
  "ascii_lower c \<longleftrightarrow> 97 \<le> (of_char c :: nat) \<and> (of_char c :: nat) \<le> 122"
  "ascii_digit c \<longleftrightarrow> 48 \<le> (of_char c :: nat) \<and> (of_char c :: nat) \<le> 57"
  by (simp_all add: ascii_upper_def ascii_lower_def ascii_digit_def less_eq_char_def)

lemma upper_back:
  assumes "ascii_upper c"
  shows "char_of (of_char (lower_char c) - 32 :: nat) = c" "lower_char c \<noteq> CHR ''-''"
proof -
  have "(of_char (lower_char c) :: nat) = of_char c + 32"
    using assms by (simp add: lower_char_def ascii_ranges)
  then show "char_of (of_char (lower_char c) - 32 :: nat) = c" "lower_char c \<noteq> CHR ''-''"
    using assms by (auto simp: ascii_ranges)
qed

lemma kebab_tail:
  assumes "list_all (\<lambda>c. ascii_upper c \<or> ascii_lower c \<or> ascii_digit c) s" "0 < i"
  shows "kebab_to_camel False (concat (map kebab_char (enumerate i s))) = s"
  using assms
proof (induction s arbitrary: i)
  case (Cons c s)
  have dash: "\<not> ascii_upper (CHR ''-'')" "\<not> ascii_lower (CHR ''-'')" "\<not> ascii_digit (CHR ''-'')"
    by (simp_all add: ascii_ranges)
  show ?case
  proof (cases "ascii_upper c")
    case True
    with Cons upper_back [OF True] show ?thesis by (simp add: kebab_char_def)
  next
    case False
    with Cons dash have "c \<noteq> CHR ''-''" by auto
    with Cons False show ?thesis by (simp add: kebab_char_def)
  qed
qed simp

text \<open>
  Property (subcommand names). The name of a subcommand determines its variant: for every variant
  name, turning the kebab-case name back gives it. Two variants never get the same name.
\<close>

theorem camel_to_kebab_roundtrip:
  assumes "camel_name s"
  shows "kebab_to_camel True (camel_to_kebab s) = s"
proof (cases s)
  case (Cons c cs)
  with assms have c: "ascii_upper c" by (simp add: camel_name_def)
  have "kebab_to_camel False (concat (map kebab_char (enumerate 1 cs))) = cs"
    using assms by (intro kebab_tail) (simp_all add: camel_name_def Cons)
  with upper_back [OF c] c show ?thesis by (simp add: camel_to_kebab_def Cons kebab_char_def)
qed (use assms in \<open>simp add: camel_name_def\<close>)

theorem camel_to_kebab_roundtrip_witness:
  "kebab_to_camel True (camel_to_kebab ''RuntimeSmoke'') = ''RuntimeSmoke''
   \<and> camel_to_kebab ''RuntimeSmoke'' = ''runtime-smoke''"
proof -
  have "camel_name ''RuntimeSmoke''" by code_simp
  from camel_to_kebab_roundtrip [OF this] show ?thesis by code_simp
qed

section \<open>What two scanners miss\<close>

text \<open>
  Property (names at the start of a line are not found). The scan for bindings removes the quotes
  at the ends of a line before it looks for the quoted key: a line that begins with
  \<open>"name"\<close>, as in any indented JSON, never gives a binding.
\<close>

lemma quoted_name_split:
  assumes "''name'' @ dq # rest = a @ ([dq] @ ''name'' @ [dq]) @ b"
  shows "contains (dq # rest) ([dq] @ ''name'' @ [dq])"
proof -
  have "\<exists>c. a = ''name'' @ c"
  proof (rule ccontr)
    assume no: "\<not> ?thesis"
    from assms have "dq \<in> set ''name''"
      using no by (auto simp: append_eq_append_conv2 Cons_eq_append_conv append_eq_Cons_conv dq_def)
    then show False by (simp add: dq_def)
  qed
  then obtain c where "a = ''name'' @ c" ..
  with assms have "dq # rest = c @ ([dq] @ ''name'' @ [dq]) @ b" by simp
  then show ?thesis unfolding contains_iff by blast
qed

theorem leading_name_ignored:
  assumes "trim line = [dq] @ ''name'' @ [dq] @ rest" "\<not> contains ([dq] @ rest) ([dq] @ ''name'' @ [dq])"
  shows "json_binding ls file_name (i, line) = []"
proof -
  let ?t = "''name'' @ dq # rest"
  have start: "trim_start_char (trim line) dq = ?t" by (simp add: assms(1) trim_start_char_def dq_def)
  obtain c where "rev ?t = c @ dropWhile (\<lambda>x. x = dq) (rev ?t)"
    using takeWhile_dropWhile_id [of "\<lambda>x. x = dq" "rev ?t"] by metis
  then have c: "?t = trim_char (trim line) dq @ rev c"
    unfolding trim_char_def start trim_end_char_def by (metis rev_append rev_rev_ident)
  have "\<not> contains (trim_char (trim line) dq) ([dq] @ ''name'' @ [dq])"
  proof
    assume "contains (trim_char (trim line) dq) ([dq] @ ''name'' @ [dq])"
    then obtain a b where "trim_char (trim line) dq = a @ ([dq] @ ''name'' @ [dq]) @ b"
      unfolding contains_iff by blast
    with c have "?t = a @ ([dq] @ ''name'' @ [dq]) @ (b @ rev c)" by simp
    from quoted_name_split [OF this] assms(2) show False by simp
  qed
  then show ?thesis by (simp add: json_binding_def Let_def)
qed

theorem leading_name_ignored_witness:
  "json_binding [] ''f.http'' (0, ''    '' @ [dq] @ ''name'' @ [dq] @ '': '' @ [dq] @ ''orders'' @ [dq] @ '','') = []"
proof (rule leading_name_ignored)
  show "trim (''    '' @ [dq] @ ''name'' @ [dq] @ '': '' @ [dq] @ ''orders'' @ [dq] @ '','')
      = [dq] @ ''name'' @ [dq] @ '': '' @ [dq] @ ''orders'' @ [dq] @ '',''"
    by code_simp
  show "\<not> contains ([dq] @ '': '' @ [dq] @ ''orders'' @ [dq] @ '','') ([dq] @ ''name'' @ [dq])"
    by code_simp
qed

text \<open>
  Property (recipe lines as targets). The lines are trimmed before the test for a leading tab, so
  that the recipe lines of a makefile are not skipped: a command with a colon becomes a target.
\<close>

theorem recipe_line_is_target:
  "extract_makefile_targets (''run:'' @ nl @ [CHR 0x09] @ ''curl:8080'' @ nl) = [''run'', ''curl'']"
  by code_simp

end
