(* ===== verification/Snapshot.thy ===== *)
theory Snapshot
  imports GoIndex "HOL-Library.Option_ord"
begin

text \<open>
  The golden snapshot (\<open>analyzers/snapshot.rs\<close>): the index of a project as sorted lists of
  entries, each tagged with its provenance, and its text rendering. The output of \<open>date\<close> and the
  version of the tool are parameters; the JSON rendering is \<open>serde_json\<close>.
\<close>

section \<open>The entries\<close>

datatype provenance = Ast | Lsp | Inferred | Runtime

record package_entry =
  pe_name :: string
  pe_dir :: string
  pe_files :: "string list"
  pe_file_count :: nat
  pe_provenance :: provenance

record import_entry =
  ie_path :: string
  ie_kind :: string
  ie_used_by :: "string list"
  ie_provenance :: provenance

record field_entry =
  fl_name :: string
  fl_type_expr :: string
  fl_embedded :: bool

record type_entry =
  te_name :: string
  te_package :: string
  te_kind :: string
  te_visibility :: string
  te_file :: string
  te_line :: nat
  te_fields :: "field_entry list"
  te_provenance :: provenance

record function_entry =
  fe_name :: string
  fe_package :: string
  fe_receiver :: "string option"
  fe_signature :: string
  fe_visibility :: string
  fe_file :: string
  fe_line :: nat
  fe_provenance :: provenance

record constant_entry =
  ke_name :: string
  ke_package :: string
  ke_type_hint :: "string option"
  ke_value :: "string option"
  ke_visibility :: string
  ke_provenance :: provenance

record interface_entry =
  ne_name :: string
  ne_package :: string
  ne_methods :: "string list"
  ne_embeds :: "string list"
  ne_file :: string
  ne_line :: nat
  ne_provenance :: provenance

record arch_layer_entry =
  le_package_dir :: string
  le_layer :: string
  le_provenance :: provenance

record contract_entry =
  ct_name :: string
  ct_family :: string
  ct_file :: string
  ct_line :: nat
  ct_provenance :: provenance

text \<open>The counters of the index and two more.\<close>

record snapshot_stats = index_stats +
  sn_arch_layers :: nat
  sn_contracts :: nat

record snapshot_metadata =
  sm_generated_at :: string
  sm_project_root :: string
  sm_raccoon_version :: string
  sm_provenance :: provenance

record snapshot =
  snap_version :: string
  snap_metadata :: snapshot_metadata
  snap_packages :: "package_entry list"
  snap_imports :: "import_entry list"
  snap_types :: "type_entry list"
  snap_functions :: "function_entry list"
  snap_constants :: "constant_entry list"
  snap_interfaces :: "interface_entry list"
  snap_arch_layers :: "arch_layer_entry list"
  snap_contracts :: "contract_entry list"
  snap_stats :: snapshot_stats

section \<open>Layers and contract families\<close>

definition snapshot_layers :: "string list" where
  "snapshot_layers = [''domain'', ''application'', ''adapters'', ''actors'', ''interfaces'']"

definition detect_layer :: "string \<Rightarrow> string option" where
  "detect_layer dir =
     (case find (\<lambda>layer. contains dir (''internal/'' @ layer)
                  \<or> contains dir (''internal'' @ [CHR 0x5C] @ layer)) snapshot_layers of
        Some layer \<Rightarrow> Some layer
      | None \<Rightarrow>
          (if starts_with dir ''cmd'' then Some ''cmd''
           else if starts_with dir ''tools'' then Some ''tools''
           else if contains dir ''shared'' then Some ''shared''
           else None))"

definition contract_suffixes :: "(string \<times> string) list" where
  "contract_suffixes =
     [(''Command'', ''command''), (''Query'', ''query''), (''Reply'', ''reply''), (''Event'', ''event''),
      (''Envelope'', ''envelope''), (''Record'', ''record''), (''Binding'', ''binding''),
      (''Gateway'', ''port''), (''Repository'', ''port''), (''Port'', ''port''), (''Service'', ''port'')]"

definition detect_contract_family :: "string \<Rightarrow> string option" where
  "detect_contract_family type_name =
     map_option snd (find (\<lambda>(suffix, _). ends_with type_name suffix \<and> type_name \<noteq> suffix) contract_suffixes)"

section \<open>Building the sections\<close>

definition build_packages :: "project_index \<Rightarrow> package_entry list" where
  "build_packages ix =
     sort_key (\<lambda>p. (pe_dir p, pe_name p))
       (map (\<lambda>pkg. \<lparr>pe_name = pk_name pkg, pe_dir = pk_dir pkg, pe_files = sort (pk_files pkg),
                    pe_file_count = length (pk_files pkg), pe_provenance = Ast\<rparr>) (px_packages ix))"

definition import_kind_str :: "import_kind \<Rightarrow> string" where
  "import_kind_str k =
     (case k of Stdlib \<Rightarrow> ''stdlib'' | Internal \<Rightarrow> ''internal'' | External \<Rightarrow> ''external'')"

definition note_import :: "go_file \<times> go_import \<Rightarrow> (string \<times> string list) option \<Rightarrow> string \<times> string list" where
  "note_import fi o1 =
     (let (kind, dirs) = (case o1 of Some e \<Rightarrow> e | None \<Rightarrow> (import_kind_str (im_kind (snd fi)), []));
          dir = file_dir (gf_path (fst fi))
      in (kind, if dir \<in> set dirs then dirs else dirs @ [dir]))"

definition file_imports :: "project_index \<Rightarrow> (go_file \<times> go_import) list" where
  "file_imports ix = concat (map (\<lambda>f. map (Pair f) (gf_imports f)) (px_files ix))"

definition import_map :: "project_index \<Rightarrow> (string \<times> string \<times> string list) list" where
  "import_map ix = fold (\<lambda>fi. bt_alter (im_path (snd fi)) (note_import fi)) (file_imports ix) []"

definition build_imports :: "project_index \<Rightarrow> import_entry list" where
  "build_imports ix =
     map (\<lambda>(p, kind, used_by). \<lparr>ie_path = p, ie_kind = kind, ie_used_by = sort used_by, ie_provenance = Ast\<rparr>)
       (import_map ix)"

definition vis_str :: "visibility \<Rightarrow> string" where
  "vis_str v = (case v of Exported \<Rightarrow> ''exported'' | Unexported \<Rightarrow> ''unexported'')"

definition source_files :: "project_index \<Rightarrow> go_file list" where
  "source_files ix = filter (\<lambda>f. \<not> gf_is_test f) (px_files ix)"

definition field_entry_of :: "struct_field \<Rightarrow> field_entry" where
  "field_entry_of f = \<lparr>fl_name = sf_name f, fl_type_expr = sf_type_expr f, fl_embedded = sf_embedded f\<rparr>"

definition type_entry_of :: "go_file \<Rightarrow> go_type \<Rightarrow> type_entry" where
  "type_entry_of file t =
     (let (kind, fs) = (case ty_kind t of
            StructKind flds \<Rightarrow> (''struct'', map field_entry_of flds)
          | InterfaceKind _ _ \<Rightarrow> (''interface'', [])
          | AliasKind _ \<Rightarrow> (''alias'', []))
      in \<lparr>te_name = ty_name t, te_package = gf_package file, te_kind = kind,
          te_visibility = vis_str (ty_visibility t), te_file = gf_path file,
          te_line = loc_line (ty_location t), te_fields = fs, te_provenance = Ast\<rparr>)"

definition build_types :: "project_index \<Rightarrow> type_entry list" where
  "build_types ix =
     sort_key (\<lambda>t. (te_package t, te_name t))
       (concat (map (\<lambda>file. map (type_entry_of file) (gf_types file)) (source_files ix)))"

definition show_param :: "param \<Rightarrow> string" where
  "show_param p =
     (if pa_name p = [] then pa_type_expr p else pa_name p @ '' '' @ pa_type_expr p)"

definition func_entry :: "go_func \<Rightarrow> string \<Rightarrow> string \<Rightarrow> function_entry" where
  "func_entry f package file_path =
     (let returns = map show_param (fn_returns f);
          ret_str = (case returns of
                       [] \<Rightarrow> [] | [r] \<Rightarrow> '' '' @ r | _ \<Rightarrow> '' ('' @ join '', '' returns @ '')'')
      in \<lparr>fe_name = fn_name f, fe_package = package,
          fe_receiver = map_option (\<lambda>r. if rc_pointer r then ''*'' @ rc_type_name r else rc_type_name r)
                          (fn_receiver f),
          fe_signature = ''('' @ join '', '' (map show_param (fn_params f)) @ '')'' @ ret_str,
          fe_visibility = vis_str (fn_visibility f), fe_file = file_path,
          fe_line = loc_line (fn_location f), fe_provenance = Ast\<rparr>)"

definition build_functions :: "project_index \<Rightarrow> function_entry list" where
  "build_functions ix =
     sort_key (\<lambda>f. (fe_package f, fe_receiver f, fe_name f))
       (concat (map (\<lambda>file. map (\<lambda>f. func_entry f (gf_package file) (gf_path file))
           (filter (\<lambda>f. fn_visibility f = Exported) (gf_functions file))) (source_files ix)))"

definition constant_entry_of :: "go_file \<Rightarrow> go_const \<Rightarrow> constant_entry" where
  "constant_entry_of file c =
     \<lparr>ke_name = co_name c, ke_package = gf_package file, ke_type_hint = co_type_hint c,
      ke_value = co_value c, ke_visibility = vis_str (co_visibility c), ke_provenance = Ast\<rparr>"

definition build_constants :: "project_index \<Rightarrow> constant_entry list" where
  "build_constants ix =
     sort_key (\<lambda>c. (ke_package c, ke_name c))
       (concat (map (\<lambda>file. map (constant_entry_of file)
           (filter (\<lambda>c. co_visibility c = Exported) (gf_constants file))) (source_files ix)))"

definition interface_entry_of :: "go_file \<Rightarrow> go_type \<Rightarrow> interface_entry option" where
  "interface_entry_of file t =
     (case ty_kind t of
        InterfaceKind methods embeds \<Rightarrow>
          Some \<lparr>ne_name = ty_name t, ne_package = gf_package file,
                ne_methods = sort (map mt_name methods), ne_embeds = sort (map em_type_name embeds),
                ne_file = gf_path file, ne_line = loc_line (ty_location t), ne_provenance = Ast\<rparr>
      | _ \<Rightarrow> None)"

definition build_interfaces :: "project_index \<Rightarrow> interface_entry list" where
  "build_interfaces ix =
     sort_key (\<lambda>i. (ne_package i, ne_name i))
       (concat (map (\<lambda>file. List.map_filter (interface_entry_of file) (gf_types file)) (source_files ix)))"

definition keep_layer :: "string \<Rightarrow> string option \<Rightarrow> string" where
  "keep_layer layer o1 = (case o1 of Some l \<Rightarrow> l | None \<Rightarrow> layer)"

definition layered_dirs :: "project_index \<Rightarrow> (string \<times> string) list" where
  "layered_dirs ix =
     List.map_filter (\<lambda>pkg. map_option (Pair (pk_dir pkg)) (detect_layer (pk_dir pkg))) (px_packages ix)"

definition build_arch_layers :: "project_index \<Rightarrow> arch_layer_entry list" where
  "build_arch_layers ix =
     map (\<lambda>(dir, layer). \<lparr>le_package_dir = dir, le_layer = layer, le_provenance = Inferred\<rparr>)
       (fold (\<lambda>dl. bt_alter (fst dl) (keep_layer (snd dl))) (layered_dirs ix) [])"

definition contract_entry_of :: "go_file \<Rightarrow> go_type \<Rightarrow> contract_entry option" where
  "contract_entry_of file t =
     (if ty_visibility t \<noteq> Exported then None
      else map_option (\<lambda>family.
        \<lparr>ct_name = ty_name t, ct_family = family, ct_file = gf_path file,
         ct_line = loc_line (ty_location t), ct_provenance = Inferred\<rparr>) (detect_contract_family (ty_name t)))"

definition build_contracts :: "project_index \<Rightarrow> contract_entry list" where
  "build_contracts ix =
     sort_key (\<lambda>c. (ct_family c, ct_name c))
       (concat (map (\<lambda>file. List.map_filter (contract_entry_of file) (gf_types file)) (source_files ix)))"

section \<open>The snapshot\<close>

definition snapshot_stats_of :: "index_stats \<Rightarrow> nat \<Rightarrow> nat \<Rightarrow> snapshot_stats" where
  "snapshot_stats_of s layers contracts =
     index_stats.extend s (snapshot_stats.fields layers contracts)"

definition build_snapshot_from_index :: "string \<Rightarrow> string \<Rightarrow> project_index \<Rightarrow> string \<Rightarrow> snapshot" where
  "build_snapshot_from_index now tool_version ix root_display =
     \<lparr>snap_version = ''1'',
      snap_metadata = \<lparr>sm_generated_at = now, sm_project_root = root_display,
                       sm_raccoon_version = tool_version, sm_provenance = Runtime\<rparr>,
      snap_packages = build_packages ix, snap_imports = build_imports ix, snap_types = build_types ix,
      snap_functions = build_functions ix, snap_constants = build_constants ix,
      snap_interfaces = build_interfaces ix, snap_arch_layers = build_arch_layers ix,
      snap_contracts = build_contracts ix,
      snap_stats = snapshot_stats_of (px_stats ix) (length (build_arch_layers ix)) (length (build_contracts ix))\<rparr>"

definition generate_snapshot :: "string \<Rightarrow> string \<Rightarrow> string \<Rightarrow> fs_node \<Rightarrow> snapshot" where
  "generate_snapshot now tool_version root_display root =
     build_snapshot_from_index now tool_version (build_index root) root_display"

section \<open>Rendering\<close>

definition prov_str :: "provenance \<Rightarrow> string" where
  "prov_str p =
     (case p of Ast \<Rightarrow> ''ast'' | Lsp \<Rightarrow> ''lsp'' | Inferred \<Rightarrow> ''inferred'' | Runtime \<Rightarrow> ''runtime'')"

definition prov_tag :: "provenance \<Rightarrow> string" where
  "prov_tag p = '' ['' @ prov_str p @ '']'' @ nl"

text \<open>A section with its heading and a blank line after it, left out when it is empty.\<close>

definition listing :: "string \<Rightarrow> ('a \<Rightarrow> string) \<Rightarrow> 'a list \<Rightarrow> string" where
  "listing title f xs =
     (if xs = [] then []
      else title @ '' ('' @ show_nat (length xs) @ ''):'' @ nl @ concat (map f xs) @ nl)"

definition at_line :: "string \<Rightarrow> nat \<Rightarrow> string" where
  "at_line file line = file @ '':'' @ show_nat line"

definition render_stats :: "snapshot_stats \<Rightarrow> string" where
  "render_stats s =
     ''Stats:'' @ nl
     @ ''  Files:      '' @ show_nat (is_total_files s) @ nl
     @ ''  Packages:   '' @ show_nat (is_total_packages s) @ nl
     @ ''  Types:      '' @ show_nat (is_total_types s) @ '' (structs: '' @ show_nat (is_structs s)
     @ '', interfaces: '' @ show_nat (is_interfaces s) @ '', aliases: '' @ show_nat (is_type_aliases s) @ '')'' @ nl
     @ ''  Functions:  '' @ show_nat (is_total_functions s)
     @ '' (exported: '' @ show_nat (is_exported_functions s) @ '')'' @ nl
     @ ''  Constants:  '' @ show_nat (is_total_constants s) @ nl
     @ ''  Imports:    '' @ show_nat (is_total_imports s) @ nl
     @ ''  Lines:      '' @ show_nat (is_total_lines s) @ nl
     @ ''  Test files: '' @ show_nat (is_test_files s) @ nl
     @ ''  Arch layers: '' @ show_nat (sn_arch_layers s) @ nl
     @ ''  Contracts:  '' @ show_nat (sn_contracts s) @ nl @ nl"

definition render_package :: "package_entry \<Rightarrow> string" where
  "render_package p =
     ''  '' @ pe_name p @ '' ('' @ pe_dir p @ '') '' @ em_dash @ '' '' @ show_nat (pe_file_count p) @ '' files''
     @ prov_tag (pe_provenance p)"

definition render_interface :: "bool \<Rightarrow> interface_entry \<Rightarrow> string" where
  "render_interface verbose i =
     ''  '' @ ne_name i @ '' ('' @ ne_package i @ '') '' @ em_dash @ '' '' @ show_nat (length (ne_methods i))
     @ '' methods'' @ prov_tag (ne_provenance i)
     @ (if verbose then concat (map (\<lambda>m. ''    - '' @ m @ nl) (ne_methods i))
          @ concat (map (\<lambda>e. ''    > embeds '' @ e @ nl) (ne_embeds i)) else [])"

definition render_contract :: "contract_entry \<Rightarrow> string" where
  "render_contract c =
     ''  '' @ ct_name c @ '' (family: '' @ ct_family c @ '') at '' @ at_line (ct_file c) (ct_line c)
     @ prov_tag (ct_provenance c)"

definition render_layer :: "arch_layer_entry \<Rightarrow> string" where
  "render_layer l = ''  '' @ le_package_dir l @ '' '' @ arrow @ '' '' @ le_layer l @ prov_tag (le_provenance l)"

definition render_type :: "type_entry \<Rightarrow> string" where
  "render_type t =
     ''  '' @ te_kind t @ '' '' @ te_name t @ '' ('' @ te_package t @ '') at '' @ at_line (te_file t) (te_line t)
     @ prov_tag (te_provenance t)
     @ concat (map (\<lambda>f. ''    .'' @ fl_name f @ '': '' @ fl_type_expr f
         @ (if fl_embedded f then '' [embedded]'' else []) @ nl) (te_fields t))"

definition show_receiver :: "string option \<Rightarrow> string" where
  "show_receiver r = (case r of Some s \<Rightarrow> ''('' @ s @ '') '' | None \<Rightarrow> [])"

definition render_function :: "function_entry \<Rightarrow> string" where
  "render_function f =
     ''  '' @ show_receiver (fe_receiver f) @ fe_name f @ fe_signature f @ prov_tag (fe_provenance f)"

definition or_unknown :: "string option \<Rightarrow> string" where
  "or_unknown o1 = (case o1 of Some s \<Rightarrow> s | None \<Rightarrow> ''?'')"

definition render_constant :: "constant_entry \<Rightarrow> string" where
  "render_constant c =
     ''  '' @ ke_name c @ '' '' @ or_unknown (ke_type_hint c) @ '' = '' @ or_unknown (ke_value c)
     @ prov_tag (ke_provenance c)"

definition render_import :: "import_entry \<Rightarrow> string" where
  "render_import i =
     ''  '' @ ie_path i @ '' ('' @ ie_kind i @ '') '' @ em_dash @ '' used by: '' @ join '', '' (ie_used_by i)
     @ prov_tag (ie_provenance i)"

definition render_snapshot :: "snapshot \<Rightarrow> bool \<Rightarrow> string" where
  "render_snapshot s verbose =
     ''Golden Snapshot'' @ nl
     @ ''  Version:   '' @ snap_version s @ nl
     @ ''  Generated: '' @ sm_generated_at (snap_metadata s) @ nl
     @ ''  Raccoon:   '' @ sm_raccoon_version (snap_metadata s) @ nl @ nl
     @ render_stats (snap_stats s)
     @ ''Packages ('' @ show_nat (length (snap_packages s)) @ ''):'' @ nl
     @ concat (map render_package (snap_packages s)) @ nl
     @ listing ''Interfaces'' (render_interface verbose) (snap_interfaces s)
     @ listing ''Contracts'' render_contract (snap_contracts s)
     @ listing ''Architecture layers'' render_layer (snap_arch_layers s)
     @ (if verbose then
          listing ''Types'' render_type (snap_types s)
          @ listing ''Exported functions'' render_function (snap_functions s)
          @ listing ''Exported constants'' render_constant (snap_constants s)
          @ listing ''Imports'' render_import (snap_imports s)
        else [])"

end
