(* ===== verification/SnapshotDiff.thy ===== *)
theory SnapshotDiff
  imports Snapshot
begin

text \<open>
  The semantic difference of two snapshots (\<open>analyzers/snapshot_diff.rs\<close>). The eight section
  differences have one shape: both lists become ordered maps by a key, a later entry replacing an
  earlier one of its key; entries of one side only are added or removed, those of both are
  compared. \<open>diff_section\<close> is that shape, with the key and the three constructions as arguments.
  Counters are integers: they are sizes of lists in memory, far below the range of \<open>i64\<close>.
\<close>

record 'd section_diff =
  sd_added :: "'d list"
  sd_removed :: "'d list"
  sd_modified :: "'d list"
  sd_total :: nat

definition by_key :: "('e \<Rightarrow> 'k::linorder) \<Rightarrow> 'e list \<Rightarrow> ('k \<times> 'e) list" where
  "by_key key xs = fold (\<lambda>x. bt_alter (key x) (\<lambda>_. x)) xs []"

definition only_left :: "('k \<times> 'e) list \<Rightarrow> ('k \<times> 'e) list \<Rightarrow> 'e list" where
  "only_left m m' = map snd (filter (\<lambda>e. map_of m' (fst e) = None) m)"

definition diff_section :: "('e \<Rightarrow> 'k::linorder) \<Rightarrow> ('e \<Rightarrow> 'd) \<Rightarrow> ('e \<Rightarrow> 'd) \<Rightarrow> ('e \<Rightarrow> 'e \<Rightarrow> 'd option)
                            \<Rightarrow> 'e list \<Rightarrow> 'e list \<Rightarrow> 'd section_diff" where
  "diff_section key mk_added mk_removed mk_modified before after =
     (let bm = by_key key before; am = by_key key after in
      \<lparr>sd_added = map mk_added (only_left am bm),
       sd_removed = map mk_removed (only_left bm am),
       sd_modified = List.map_filter (\<lambda>(k, b). Option.bind (map_of am k) (mk_modified b)) bm,
       sd_total = 0\<rparr>)"

definition finalize :: "'d section_diff \<Rightarrow> 'd section_diff" where
  "finalize d = d\<lparr>sd_total := length (sd_added d) + length (sd_removed d) + length (sd_modified d)\<rparr>"

text \<open>The difference of two sorted sets of strings.\<close>

definition set_difference :: "string list \<Rightarrow> string list \<Rightarrow> string list" where
  "set_difference xs ys = filter (\<lambda>x. x \<notin> set ys) (remdups_adj (sort xs))"

definition changed :: "'a \<Rightarrow> 'a \<Rightarrow> ('a \<times> 'a) option" where
  "changed b a = (if a \<noteq> b then Some (b, a) else None)"

section \<open>Packages and imports\<close>

record package_delta =
  pd_name :: string
  pd_dir :: string
  pd_change :: "string option"
  pd_files_added :: "string list"
  pd_files_removed :: "string list"

definition package_delta_of :: "package_entry \<Rightarrow> string \<Rightarrow> string list \<Rightarrow> string list \<Rightarrow> package_delta" where
  "package_delta_of p change files_added files_removed =
     \<lparr>pd_name = pe_name p, pd_dir = pe_dir p, pd_change = Some change,
      pd_files_added = files_added, pd_files_removed = files_removed\<rparr>"

definition package_modified :: "package_entry \<Rightarrow> package_entry \<Rightarrow> package_delta option" where
  "package_modified b a =
     (let added = set_difference (pe_files a) (pe_files b); removed = set_difference (pe_files b) (pe_files a) in
      if added \<noteq> [] \<or> removed \<noteq> [] \<or> pe_name a \<noteq> pe_name b
      then Some (package_delta_of a ''modified'' added removed) else None)"

definition diff_packages :: "package_entry list \<Rightarrow> package_entry list \<Rightarrow> package_delta section_diff" where
  "diff_packages =
     diff_section pe_dir (\<lambda>p. package_delta_of p ''added'' (pe_files p) [])
       (\<lambda>p. package_delta_of p ''removed'' [] (pe_files p)) package_modified"

record import_delta =
  id_path :: string
  id_kind :: string
  id_change :: "string option"
  id_consumers_added :: "string list"
  id_consumers_removed :: "string list"

definition import_delta_of :: "import_entry \<Rightarrow> string \<Rightarrow> string list \<Rightarrow> string list \<Rightarrow> import_delta" where
  "import_delta_of i change consumers_added consumers_removed =
     \<lparr>id_path = ie_path i, id_kind = ie_kind i, id_change = Some change,
      id_consumers_added = consumers_added, id_consumers_removed = consumers_removed\<rparr>"

definition import_modified :: "import_entry \<Rightarrow> import_entry \<Rightarrow> import_delta option" where
  "import_modified b a =
     (let added = set_difference (ie_used_by a) (ie_used_by b);
          removed = set_difference (ie_used_by b) (ie_used_by a)
      in if added \<noteq> [] \<or> removed \<noteq> [] \<or> ie_kind a \<noteq> ie_kind b
         then Some (import_delta_of a ''modified'' added removed) else None)"

definition diff_imports :: "import_entry list \<Rightarrow> import_entry list \<Rightarrow> import_delta section_diff" where
  "diff_imports =
     diff_section ie_path (\<lambda>i. import_delta_of i ''added'' (ie_used_by i) [])
       (\<lambda>i. import_delta_of i ''removed'' [] (ie_used_by i)) import_modified"

section \<open>Types\<close>

record field_type_change =
  ft_name :: string
  ft_before :: string
  ft_after :: string

record type_delta =
  td_name :: string
  td_package :: string
  td_kind :: string
  td_change :: "string option"
  td_kind_changed :: "(string \<times> string) option"
  td_visibility_changed :: "(string \<times> string) option"
  td_fields_added :: "string list"
  td_fields_removed :: "string list"
  td_fields_type_changed :: "field_type_change list"

definition type_delta_of :: "type_entry \<Rightarrow> string \<Rightarrow> string list \<Rightarrow> string list \<Rightarrow> type_delta" where
  "type_delta_of t change fields_added fields_removed =
     \<lparr>td_name = te_name t, td_package = te_package t, td_kind = te_kind t, td_change = Some change,
      td_kind_changed = None, td_visibility_changed = None, td_fields_added = fields_added,
      td_fields_removed = fields_removed, td_fields_type_changed = []\<rparr>"

definition field_keys_only :: "('k \<times> 'e) list \<Rightarrow> ('k \<times> 'e) list \<Rightarrow> 'k list" where
  "field_keys_only m m' = filter (\<lambda>k. map_of m' k = None) (map fst m)"

definition field_changes :: "field_entry list \<Rightarrow> field_entry list \<Rightarrow> field_type_change list" where
  "field_changes bf af =
     List.map_filter (\<lambda>(n, b). Option.bind (map_of (by_key fl_name af) n) (\<lambda>a.
         if fl_type_expr a \<noteq> fl_type_expr b
         then Some \<lparr>ft_name = n, ft_before = fl_type_expr b, ft_after = fl_type_expr a\<rparr> else None))
       (by_key fl_name bf)"

definition type_modified :: "type_entry \<Rightarrow> type_entry \<Rightarrow> type_delta option" where
  "type_modified b a =
     (let kind_changed = changed (te_kind b) (te_kind a);
          vis_changed = changed (te_visibility b) (te_visibility a);
          bf = by_key fl_name (te_fields b); af = by_key fl_name (te_fields a);
          fields_added = field_keys_only af bf; fields_removed = field_keys_only bf af;
          type_changed = field_changes (te_fields b) (te_fields a)
      in if kind_changed \<noteq> None \<or> vis_changed \<noteq> None \<or> fields_added \<noteq> [] \<or> fields_removed \<noteq> []
           \<or> type_changed \<noteq> []
         then Some ((type_delta_of a ''modified'' fields_added fields_removed)
                     \<lparr>td_kind_changed := kind_changed, td_visibility_changed := vis_changed,
                      td_fields_type_changed := type_changed\<rparr>)
         else None)"

definition diff_types :: "type_entry list \<Rightarrow> type_entry list \<Rightarrow> type_delta section_diff" where
  "diff_types =
     diff_section (\<lambda>t. (te_package t, te_name t))
       (\<lambda>t. type_delta_of t ''added'' (map fl_name (te_fields t)) [])
       (\<lambda>t. type_delta_of t ''removed'' [] (map fl_name (te_fields t))) type_modified"

section \<open>Functions, constants and interfaces\<close>

record function_delta =
  fud_name :: string
  fud_package :: string
  fud_receiver :: "string option"
  fud_change :: "string option"
  fud_signature_changed :: "(string \<times> string) option"
  fud_receiver_changed :: "(string option \<times> string option) option"

definition function_delta_of :: "function_entry \<Rightarrow> string \<Rightarrow> (string \<times> string) option \<Rightarrow> function_delta" where
  "function_delta_of f change sig_changed =
     \<lparr>fud_name = fe_name f, fud_package = fe_package f, fud_receiver = fe_receiver f, fud_change = Some change,
      fud_signature_changed = sig_changed, fud_receiver_changed = None\<rparr>"

definition fkey :: "function_entry \<Rightarrow> string \<times> string \<times> string" where
  "fkey f = (fe_package f, (case fe_receiver f of Some r \<Rightarrow> r | None \<Rightarrow> []), fe_name f)"

definition function_modified :: "function_entry \<Rightarrow> function_entry \<Rightarrow> function_delta option" where
  "function_modified b a =
     (let sig_changed = changed (fe_signature b) (fe_signature a) in
      if sig_changed \<noteq> None then Some (function_delta_of a ''modified'' sig_changed) else None)"

definition diff_functions :: "function_entry list \<Rightarrow> function_entry list \<Rightarrow> function_delta section_diff" where
  "diff_functions =
     diff_section fkey (\<lambda>f. function_delta_of f ''added'' None) (\<lambda>f. function_delta_of f ''removed'' None)
       function_modified"

record constant_delta =
  cd_name :: string
  cd_package :: string
  cd_change :: "string option"
  cd_value_changed :: "(string option \<times> string option) option"
  cd_type_changed :: "(string option \<times> string option) option"

definition constant_delta_of :: "constant_entry \<Rightarrow> string \<Rightarrow> constant_delta" where
  "constant_delta_of c change =
     \<lparr>cd_name = ke_name c, cd_package = ke_package c, cd_change = Some change,
      cd_value_changed = None, cd_type_changed = None\<rparr>"

definition constant_modified :: "constant_entry \<Rightarrow> constant_entry \<Rightarrow> constant_delta option" where
  "constant_modified b a =
     (let val_changed = changed (ke_value b) (ke_value a); type_changed = changed (ke_type_hint b) (ke_type_hint a)
      in if val_changed \<noteq> None \<or> type_changed \<noteq> None
         then Some ((constant_delta_of a ''modified'')
                     \<lparr>cd_value_changed := val_changed, cd_type_changed := type_changed\<rparr>)
         else None)"

definition diff_constants :: "constant_entry list \<Rightarrow> constant_entry list \<Rightarrow> constant_delta section_diff" where
  "diff_constants =
     diff_section (\<lambda>c. (ke_package c, ke_name c)) (\<lambda>c. constant_delta_of c ''added'')
       (\<lambda>c. constant_delta_of c ''removed'') constant_modified"

record interface_delta =
  nd_name :: string
  nd_package :: string
  nd_change :: "string option"
  nd_methods_added :: "string list"
  nd_methods_removed :: "string list"
  nd_embeds_added :: "string list"
  nd_embeds_removed :: "string list"

definition interface_delta_of :: "interface_entry \<Rightarrow> string \<Rightarrow> string list \<Rightarrow> string list \<Rightarrow> string list
                                  \<Rightarrow> string list \<Rightarrow> interface_delta" where
  "interface_delta_of i change methods_added methods_removed embeds_added embeds_removed =
     \<lparr>nd_name = ne_name i, nd_package = ne_package i, nd_change = Some change,
      nd_methods_added = methods_added, nd_methods_removed = methods_removed,
      nd_embeds_added = embeds_added, nd_embeds_removed = embeds_removed\<rparr>"

definition interface_modified :: "interface_entry \<Rightarrow> interface_entry \<Rightarrow> interface_delta option" where
  "interface_modified b a =
     (let methods_added = set_difference (ne_methods a) (ne_methods b);
          methods_removed = set_difference (ne_methods b) (ne_methods a);
          embeds_added = set_difference (ne_embeds a) (ne_embeds b);
          embeds_removed = set_difference (ne_embeds b) (ne_embeds a)
      in if methods_added \<noteq> [] \<or> methods_removed \<noteq> [] \<or> embeds_added \<noteq> [] \<or> embeds_removed \<noteq> []
         then Some (interface_delta_of a ''modified'' methods_added methods_removed embeds_added embeds_removed)
         else None)"

definition diff_interfaces :: "interface_entry list \<Rightarrow> interface_entry list \<Rightarrow> interface_delta section_diff" where
  "diff_interfaces =
     diff_section (\<lambda>i. (ne_package i, ne_name i))
       (\<lambda>i. interface_delta_of i ''added'' (ne_methods i) [] (ne_embeds i) [])
       (\<lambda>i. interface_delta_of i ''removed'' [] (ne_methods i) [] (ne_embeds i)) interface_modified"

section \<open>Layers and contracts\<close>

record arch_layer_delta =
  ld_package_dir :: string
  ld_change :: "string option"
  ld_layer_changed :: "(string \<times> string) option"

definition layer_delta_of :: "arch_layer_entry \<Rightarrow> string \<Rightarrow> (string \<times> string) option \<Rightarrow> arch_layer_delta" where
  "layer_delta_of l change layer_changed =
     \<lparr>ld_package_dir = le_package_dir l, ld_change = Some change, ld_layer_changed = layer_changed\<rparr>"

definition layer_modified :: "arch_layer_entry \<Rightarrow> arch_layer_entry \<Rightarrow> arch_layer_delta option" where
  "layer_modified b a =
     map_option (\<lambda>c. layer_delta_of a ''modified'' (Some c)) (changed (le_layer b) (le_layer a))"

definition diff_arch_layers :: "arch_layer_entry list \<Rightarrow> arch_layer_entry list \<Rightarrow> arch_layer_delta section_diff" where
  "diff_arch_layers =
     diff_section le_package_dir (\<lambda>l. layer_delta_of l ''added'' None) (\<lambda>l. layer_delta_of l ''removed'' None)
       layer_modified"

record contract_delta =
  xd_name :: string
  xd_family :: string
  xd_change :: "string option"
  xd_family_changed :: "(string \<times> string) option"

definition contract_delta_of :: "contract_entry \<Rightarrow> string \<Rightarrow> (string \<times> string) option \<Rightarrow> contract_delta" where
  "contract_delta_of c change family_changed =
     \<lparr>xd_name = ct_name c, xd_family = ct_family c, xd_change = Some change, xd_family_changed = family_changed\<rparr>"

definition contract_modified :: "contract_entry \<Rightarrow> contract_entry \<Rightarrow> contract_delta option" where
  "contract_modified b a =
     map_option (\<lambda>c. contract_delta_of a ''modified'' (Some c)) (changed (ct_family b) (ct_family a))"

definition diff_contracts :: "contract_entry list \<Rightarrow> contract_entry list \<Rightarrow> contract_delta section_diff" where
  "diff_contracts =
     diff_section ct_name (\<lambda>c. contract_delta_of c ''added'' None) (\<lambda>c. contract_delta_of c ''removed'' None)
       contract_modified"

section \<open>Counters\<close>

record stats_delta =
  dl_total_files :: int
  dl_total_packages :: int
  dl_total_types :: int
  dl_total_functions :: int
  dl_total_constants :: int
  dl_total_imports :: int
  dl_total_lines :: int
  dl_structs :: int
  dl_interfaces :: int
  dl_type_aliases :: int
  dl_exported_types :: int
  dl_exported_functions :: int
  dl_test_files :: int
  dl_arch_layers :: int
  dl_contracts :: int

definition diff_stats :: "snapshot_stats \<Rightarrow> snapshot_stats \<Rightarrow> stats_delta" where
  "diff_stats b a =
     (let d = (\<lambda>f. int (f a) - int (f b)) in
      \<lparr>dl_total_files = d is_total_files, dl_total_packages = d is_total_packages,
       dl_total_types = d is_total_types, dl_total_functions = d is_total_functions,
       dl_total_constants = d is_total_constants, dl_total_imports = d is_total_imports,
       dl_total_lines = d is_total_lines, dl_structs = d is_structs, dl_interfaces = d is_interfaces,
       dl_type_aliases = d is_type_aliases, dl_exported_types = d is_exported_types,
       dl_exported_functions = d is_exported_functions, dl_test_files = d is_test_files,
       dl_arch_layers = d sn_arch_layers, dl_contracts = d sn_contracts\<rparr>)"

section \<open>The difference\<close>

record diff_sections =
  ds_packages :: "package_delta section_diff"
  ds_imports :: "import_delta section_diff"
  ds_types :: "type_delta section_diff"
  ds_functions :: "function_delta section_diff"
  ds_constants :: "constant_delta section_diff"
  ds_interfaces :: "interface_delta section_diff"
  ds_arch_layers :: "arch_layer_delta section_diff"
  ds_contracts :: "contract_delta section_diff"

record inference =
  inf_category :: string
  inf_severity :: string
  inf_message :: string

record snapshot_diff =
  df_version :: string
  df_before :: "string \<times> string"
  df_after :: "string \<times> string"
  df_has_changes :: bool
  df_sections :: diff_sections
  df_inferences :: "inference list"
  df_stats :: stats_delta

datatype diff_error = DiffIo string | DiffJson string | VersionMismatch string string

fun show_diff_error :: "diff_error \<Rightarrow> string" where
  "show_diff_error (DiffIo e) = ''I/O error: '' @ e"
| "show_diff_error (DiffJson e) = ''JSON parse error: '' @ e"
| "show_diff_error (VersionMismatch before after) =
     ''snapshot version mismatch: before='' @ before @ '', after='' @ after"

definition make_inference :: "string \<Rightarrow> string \<Rightarrow> string \<Rightarrow> inference" where
  "make_inference category severity msg =
     \<lparr>inf_category = category, inf_severity = severity, inf_message = msg\<rparr>"

definition change_counts :: "'d section_diff \<Rightarrow> string" where
  "change_counts d =
     ''+'' @ show_nat (length (sd_added d)) @ '' -'' @ show_nat (length (sd_removed d))
     @ '' ~'' @ show_nat (length (sd_modified d))"

definition contract_inferences :: "contract_delta section_diff \<Rightarrow> inference list" where
  "contract_inferences d =
     (if 0 < sd_total d then
        [make_inference ''contract-surface'' (if sd_removed d \<noteq> [] then ''warning'' else ''info'')
           (''Contract surface changed: '' @ change_counts d
            @ ''. Review downstream consumers for compatibility.'')]
      else [])"

definition interface_inferences :: "interface_delta \<Rightarrow> inference list" where
  "interface_inferences i =
     (let name = nd_package i @ ''.'' @ nd_name i in
      (if nd_methods_removed i \<noteq> [] then
         [make_inference ''breaking-interface'' ''warning''
            (''Interface '' @ name @ '' lost methods: '' @ join '', '' (nd_methods_removed i)
             @ ''. All implementors must be updated.'')] else [])
      @ (if nd_methods_added i \<noteq> [] then
           [make_inference ''interface-expansion'' ''info''
              (''Interface '' @ name @ '' gained methods: '' @ join '', '' (nd_methods_added i)
               @ ''. Existing implementors need new methods.'')] else []))"

definition removed_interface :: "interface_delta \<Rightarrow> inference" where
  "removed_interface i =
     make_inference ''breaking-interface'' ''warning''
       (''Interface '' @ nd_package i @ ''.'' @ nd_name i
        @ '' was removed. All dependents must be refactored.'')"

definition layer_inferences :: "arch_layer_delta section_diff \<Rightarrow> inference list" where
  "layer_inferences d =
     (if 0 < sd_total d then
        [make_inference ''architecture-boundary''
           (if sd_removed d \<noteq> [] \<or> sd_modified d \<noteq> [] then ''warning'' else ''info'')
           (''Architecture layers changed: '' @ change_counts d
            @ ''. Run arch-guard to verify boundary compliance.'')]
      else [])"

definition type_inferences :: "type_delta \<Rightarrow> inference list" where
  "type_inferences t =
     (let name = td_package t @ ''.'' @ td_name t in
      (if td_fields_removed t \<noteq> [] then
         [make_inference ''breaking-type'' ''warning''
            (''Type '' @ name @ '' lost fields: '' @ join '', '' (td_fields_removed t)
             @ ''. Struct literal consumers may break.'')] else [])
      @ (if td_fields_type_changed t \<noteq> [] then
           [make_inference ''type-migration'' ''warning''
              (''Type '' @ name @ '' changed field types: ''
               @ join '', '' (map (\<lambda>c. ft_name c @ '': '' @ ft_before c @ '' '' @ arrow @ '' '' @ ft_after c)
                   (td_fields_type_changed t)) @ ''.'')] else []))"

definition function_inferences :: "function_delta \<Rightarrow> inference list" where
  "function_inferences f =
     (case fud_signature_changed f of
        None \<Rightarrow> []
      | Some (b, a) \<Rightarrow>
          [make_inference ''api-change'' ''warning''
             (''Exported function '' @ show_receiver (fud_receiver f) @ fud_name f @ '' changed signature: ''
              @ b @ '' '' @ arrow @ '' '' @ a @ ''.'')])"

definition show_signed :: "int \<Rightarrow> string" where
  "show_signed n = (if n < 0 then ''-'' @ show_nat (nat (- n)) else ''+'' @ show_nat (nat n))"

definition scale_inferences :: "stats_delta \<Rightarrow> inference list" where
  "scale_inferences s =
     (if 10 < \<bar>dl_total_types s\<bar> then
        [make_inference ''scale'' ''info''
           (''Significant type count change ('' @ show_signed (dl_total_types s)
            @ ''). Consider reviewing module boundaries.'')] else [])
     @ (if 500 < \<bar>dl_total_lines s\<bar> then
          [make_inference ''scale'' ''info''
             (''Large line count change ('' @ show_signed (dl_total_lines s)
              @ ''). Verify test coverage for new/modified code.'')] else [])"

definition derive_inferences :: "diff_sections \<Rightarrow> stats_delta \<Rightarrow> inference list" where
  "derive_inferences s stats =
     contract_inferences (ds_contracts s)
     @ concat (map interface_inferences (sd_modified (ds_interfaces s)))
     @ map removed_interface (sd_removed (ds_interfaces s))
     @ layer_inferences (ds_arch_layers s)
     @ concat (map type_inferences (sd_modified (ds_types s)))
     @ concat (map function_inferences (sd_modified (ds_functions s)))
     @ scale_inferences stats"

definition all_sections :: "snapshot \<Rightarrow> snapshot \<Rightarrow> diff_sections" where
  "all_sections b a =
     \<lparr>ds_packages = finalize (diff_packages (snap_packages b) (snap_packages a)),
      ds_imports = finalize (diff_imports (snap_imports b) (snap_imports a)),
      ds_types = finalize (diff_types (snap_types b) (snap_types a)),
      ds_functions = finalize (diff_functions (snap_functions b) (snap_functions a)),
      ds_constants = finalize (diff_constants (snap_constants b) (snap_constants a)),
      ds_interfaces = finalize (diff_interfaces (snap_interfaces b) (snap_interfaces a)),
      ds_arch_layers = finalize (diff_arch_layers (snap_arch_layers b) (snap_arch_layers a)),
      ds_contracts = finalize (diff_contracts (snap_contracts b) (snap_contracts a))\<rparr>"

definition any_change :: "diff_sections \<Rightarrow> bool" where
  "any_change s =
     (0 < sd_total (ds_packages s) \<or> 0 < sd_total (ds_imports s) \<or> 0 < sd_total (ds_types s)
      \<or> 0 < sd_total (ds_functions s) \<or> 0 < sd_total (ds_constants s) \<or> 0 < sd_total (ds_interfaces s)
      \<or> 0 < sd_total (ds_arch_layers s) \<or> 0 < sd_total (ds_contracts s))"

definition diff_meta :: "snapshot \<Rightarrow> string \<times> string" where
  "diff_meta s = (sm_generated_at (snap_metadata s), sm_raccoon_version (snap_metadata s))"

definition diff_snapshots :: "snapshot \<Rightarrow> snapshot \<Rightarrow> diff_error + snapshot_diff" where
  "diff_snapshots b a =
     (if snap_version b \<noteq> snap_version a then Inl (VersionMismatch (snap_version b) (snap_version a))
      else
        (let sections = all_sections b a; stats = diff_stats (snap_stats b) (snap_stats a) in
         Inr \<lparr>df_version = snap_version b, df_before = diff_meta b, df_after = diff_meta a,
              df_has_changes = any_change sections, df_sections = sections,
              df_inferences = derive_inferences sections stats, df_stats = stats\<rparr>))"

text \<open>Reading a snapshot file; parsing JSON is a parameter.\<close>

definition load_snapshot :: "(string \<Rightarrow> string + snapshot) \<Rightarrow> (path \<Rightarrow> string) \<Rightarrow> fs_node \<Rightarrow> path
                             \<Rightarrow> diff_error + snapshot" where
  "load_snapshot parse_json io_error root p =
     (case lookup_path root p of
        Some (FFile (Some contents)) \<Rightarrow>
          (case parse_json contents of Inl e \<Rightarrow> Inl (DiffJson e) | Inr snap \<Rightarrow> Inr snap)
      | _ \<Rightarrow> Inl (DiffIo (io_error p)))"

section \<open>Rendering a difference\<close>

definition pad_right :: "nat \<Rightarrow> string \<Rightarrow> string" where
  "pad_right n s = s @ replicate (n - length s) CHR '' ''"

definition render_stat_line :: "string \<Rightarrow> int \<Rightarrow> string" where
  "render_stat_line label delta =
     (if delta \<noteq> 0 then ''  '' @ pad_right 14 label @ '' '' @ show_signed delta @ nl else [])"

definition render_section_summary :: "string \<Rightarrow> 'd section_diff \<Rightarrow> string" where
  "render_section_summary name d = (if 0 < sd_total d then name @ '': '' @ change_counts d @ nl else [])"

definition has_nontrivial_changes :: "diff_sections \<Rightarrow> bool" where
  "has_nontrivial_changes s =
     (0 < sd_total (ds_types s) \<or> 0 < sd_total (ds_functions s) \<or> 0 < sd_total (ds_interfaces s)
      \<or> 0 < sd_total (ds_contracts s) \<or> 0 < sd_total (ds_arch_layers s))"

text \<open>The lines of a section: added, removed and modified items.\<close>

definition render_items :: "('d \<Rightarrow> string) \<Rightarrow> ('d \<Rightarrow> string) \<Rightarrow> ('d \<Rightarrow> string) \<Rightarrow> 'd section_diff \<Rightarrow> string" where
  "render_items add rem modi d =
     concat (map (\<lambda>x. ''  + '' @ add x @ nl) (sd_added d))
     @ concat (map (\<lambda>x. ''  - '' @ rem x @ nl) (sd_removed d))
     @ concat (map modi (sd_modified d))"

definition sub_lines :: "string \<Rightarrow> string list \<Rightarrow> string" where
  "sub_lines pre xs = concat (map (\<lambda>x. ''      '' @ pre @ x @ nl) xs)"

definition from_to :: "string \<times> string \<Rightarrow> string" where
  "from_to ba = fst ba @ '' '' @ arrow @ '' '' @ snd ba"

definition render_package_changes :: "package_delta section_diff \<Rightarrow> string" where
  "render_package_changes =
     (let item = (\<lambda>p. ''package '' @ pd_name p @ '' ('' @ pd_dir p @ '')'') in
      render_items item item (\<lambda>p. ''  ~ '' @ item p @ nl @ sub_lines ''+ '' (pd_files_added p)
        @ sub_lines ''- '' (pd_files_removed p)))"

definition optional_line :: "string \<Rightarrow> (string \<times> string) option \<Rightarrow> string" where
  "optional_line label c = (case c of Some ba \<Rightarrow> ''      '' @ label @ '': '' @ from_to ba @ nl | None \<Rightarrow> [])"

definition render_type_changes :: "type_delta section_diff \<Rightarrow> string" where
  "render_type_changes =
     (let item = (\<lambda>t. td_kind t @ '' '' @ td_package t @ ''.'' @ td_name t) in
      render_items item item (\<lambda>t. ''  ~ '' @ item t @ nl @ optional_line ''kind'' (td_kind_changed t)
        @ optional_line ''visibility'' (td_visibility_changed t)
        @ sub_lines ''+ field '' (td_fields_added t) @ sub_lines ''- field '' (td_fields_removed t)
        @ sub_lines ''~ field '' (map (\<lambda>c. ft_name c @ '': '' @ from_to (ft_before c, ft_after c))
            (td_fields_type_changed t))))"

definition render_function_changes :: "function_delta section_diff \<Rightarrow> string" where
  "render_function_changes =
     (let item = (\<lambda>f. ''func '' @ show_receiver (fud_receiver f) @ fud_name f) in
      render_items item item (\<lambda>f. ''  ~ '' @ item f @ nl @ optional_line ''sig'' (fud_signature_changed f)))"

definition render_constant_changes :: "constant_delta section_diff \<Rightarrow> string" where
  "render_constant_changes =
     (let item = (\<lambda>c. ''const '' @ cd_package c @ ''.'' @ cd_name c) in
      render_items item item (\<lambda>c. ''  ~ '' @ item c @ nl))"

definition render_interface_changes :: "interface_delta section_diff \<Rightarrow> string" where
  "render_interface_changes =
     (let item = (\<lambda>i. ''interface '' @ nd_package i @ ''.'' @ nd_name i) in
      render_items (\<lambda>i. item i @ '' ('' @ show_nat (length (nd_methods_added i)) @ '' methods)'') item
        (\<lambda>i. ''  ~ '' @ item i @ nl
           @ sub_lines ''+ method '' (nd_methods_added i) @ sub_lines ''- method '' (nd_methods_removed i)
           @ sub_lines ''+ embed '' (nd_embeds_added i) @ sub_lines ''- embed '' (nd_embeds_removed i)))"

definition render_layer_changes :: "arch_layer_delta section_diff \<Rightarrow> string" where
  "render_layer_changes =
     (let item = (\<lambda>l. ''layer '' @ ld_package_dir l) in
      render_items item item (\<lambda>l. case ld_layer_changed l of
          Some ba \<Rightarrow> ''  ~ '' @ item l @ '': '' @ from_to ba @ nl | None \<Rightarrow> []))"

definition render_contract_changes :: "contract_delta section_diff \<Rightarrow> string" where
  "render_contract_changes =
     (let item = (\<lambda>c. ''contract '' @ xd_name c @ '' ('' @ xd_family c @ '')'') in
      render_items item item (\<lambda>c. case xd_family_changed c of
          Some ba \<Rightarrow> ''  ~ contract '' @ xd_name c @ '': '' @ from_to ba @ nl | None \<Rightarrow> []))"

definition render_import_changes :: "import_delta section_diff \<Rightarrow> string" where
  "render_import_changes =
     (let item = (\<lambda>i. ''import '' @ id_path i @ '' ('' @ id_kind i @ '')'') in
      render_items item item (\<lambda>i. ''  ~ import '' @ id_path i @ nl
        @ sub_lines ''+ consumer '' (id_consumers_added i) @ sub_lines ''- consumer '' (id_consumers_removed i)))"

definition render_diff_stats :: "stats_delta \<Rightarrow> string" where
  "render_diff_stats s =
     ''Stats delta:'' @ nl
     @ render_stat_line ''Files'' (dl_total_files s) @ render_stat_line ''Packages'' (dl_total_packages s)
     @ render_stat_line ''Types'' (dl_total_types s) @ render_stat_line ''Functions'' (dl_total_functions s)
     @ render_stat_line ''Constants'' (dl_total_constants s) @ render_stat_line ''Imports'' (dl_total_imports s)
     @ render_stat_line ''Lines'' (dl_total_lines s) @ render_stat_line ''Test files'' (dl_test_files s)
     @ render_stat_line ''Arch layers'' (dl_arch_layers s) @ render_stat_line ''Contracts'' (dl_contracts s) @ nl"

definition render_inferences :: "inference list \<Rightarrow> string" where
  "render_inferences infs =
     (if infs = [] then []
      else nl @ ''Inferences:'' @ nl @ concat (map (\<lambda>i.
        ''  '' @ (if inf_severity i = ''warning'' then ''[!]'' else ''[i]'') @ '' ['' @ inf_category i @ ''] ''
        @ inf_message i @ nl) infs))"

definition render_summaries :: "diff_sections \<Rightarrow> string" where
  "render_summaries s =
     render_section_summary ''Packages'' (ds_packages s) @ render_section_summary ''Imports'' (ds_imports s)
     @ render_section_summary ''Types'' (ds_types s) @ render_section_summary ''Functions'' (ds_functions s)
     @ render_section_summary ''Constants'' (ds_constants s)
     @ render_section_summary ''Interfaces'' (ds_interfaces s)
     @ render_section_summary ''Arch layers'' (ds_arch_layers s)
     @ render_section_summary ''Contracts'' (ds_contracts s)"

definition render_changes :: "diff_sections \<Rightarrow> bool \<Rightarrow> string" where
  "render_changes s verbose =
     nl @ ''Changes:'' @ nl @ render_package_changes (ds_packages s) @ render_type_changes (ds_types s)
     @ render_function_changes (ds_functions s) @ render_constant_changes (ds_constants s)
     @ render_interface_changes (ds_interfaces s) @ render_layer_changes (ds_arch_layers s)
     @ render_contract_changes (ds_contracts s)
     @ (if verbose then render_import_changes (ds_imports s) else [])"

definition render_diff :: "snapshot_diff \<Rightarrow> bool \<Rightarrow> string" where
  "render_diff d verbose =
     ''Snapshot Diff'' @ nl
     @ ''  Before: '' @ fst (df_before d) @ '' (raccoon '' @ snd (df_before d) @ '')'' @ nl
     @ ''  After:  '' @ fst (df_after d) @ '' (raccoon '' @ snd (df_after d) @ '')'' @ nl @ nl
     @ (if \<not> df_has_changes d then ''No structural changes detected.'' @ nl
        else render_diff_stats (df_stats d) @ render_summaries (df_sections d)
          @ (if verbose \<or> has_nontrivial_changes (df_sections d) then render_changes (df_sections d) verbose else [])
          @ render_inferences (df_inferences d))"

end
