(* ===== verification/BaselineDrift.thy ===== *)
theory BaselineDrift
  imports SnapshotDiff
begin

text \<open>
  Semantic drift against a saved baseline (\<open>analyzers/baseline_drift.rs\<close>): the difference of the
  baseline and the snapshot of the live tree, read by nine collectors in the order the code calls
  them. Each collector is a function from its inputs to the findings it pushes.
\<close>

section \<open>The report\<close>

record baseline_info =
  bi_generated_at :: string
  bi_raccoon_version :: string
  bi_total_types :: nat
  bi_total_functions :: nat
  bi_total_packages :: nat
  bi_contracts_detected :: nat

datatype drift_verdict = DriftClean | DriftMild | Drifted

record drift_finding =
  dr_class :: string
  dr_severity :: string
  dr_evidence_basis :: string
  dr_message :: string
  dr_evidence :: "string list"
  dr_baseline_value :: "string option"
  dr_current_value :: "string option"
  dr_recommendation :: string

record drift_summary =
  dm_total_findings :: nat
  dm_critical :: nat
  dm_warning :: nat
  dm_info :: nat

record baseline_health =
  bh_usable :: bool
  bh_age_note :: "string option"
  bh_version_note :: "string option"
  bh_warnings :: "string list"

record baseline_drift_report =
  bd_baseline :: baseline_info
  bd_current :: baseline_info
  bd_verdict :: drift_verdict
  bd_findings :: "drift_finding list"
  bd_summary :: drift_summary
  bd_health :: baseline_health
  bd_scope_note :: string

datatype baseline_error =
    BaselineIo string
  | BaselineJson string
  | BaselineVersionMismatch string string
  | BaselineNotFound string

fun show_baseline_error :: "baseline_error \<Rightarrow> string" where
  "show_baseline_error (BaselineIo e) = ''I/O error: '' @ e"
| "show_baseline_error (BaselineJson e) = ''JSON parse error: '' @ e"
| "show_baseline_error (BaselineVersionMismatch old new) =
     ''snapshot version mismatch: baseline='' @ old @ '', current='' @ new"
| "show_baseline_error (BaselineNotFound p) = ''baseline snapshot not found: '' @ p"

fun from_diff_error :: "diff_error \<Rightarrow> baseline_error" where
  "from_diff_error (DiffIo e) = BaselineIo e"
| "from_diff_error (DiffJson e) = BaselineJson e"
| "from_diff_error (VersionMismatch old new) = BaselineVersionMismatch old new"

section \<open>Helpers\<close>

definition snapshot_info :: "snapshot \<Rightarrow> baseline_info" where
  "snapshot_info s =
     \<lparr>bi_generated_at = sm_generated_at (snap_metadata s),
      bi_raccoon_version = sm_raccoon_version (snap_metadata s),
      bi_total_types = is_total_types (snap_stats s), bi_total_functions = is_total_functions (snap_stats s),
      bi_total_packages = is_total_packages (snap_stats s), bi_contracts_detected = sn_contracts (snap_stats s)\<rparr>"

definition drift_rank :: "string \<Rightarrow> nat" where
  "drift_rank s =
     (if s = ''critical'' then 0 else if s = ''warning'' then 1 else if s = ''info'' then 2 else 3)"

definition assess_baseline_health :: "snapshot \<Rightarrow> baseline_health" where
  "assess_baseline_health b =
     \<lparr>bh_usable = True, bh_age_note = None,
      bh_version_note =
        (if snap_version b \<noteq> ''1''
         then Some (''Baseline uses snapshot version '' @ quote1 (snap_version b) @ ''; current tool expects ''
                @ quote1 ''1'' @ ''.'')
         else None),
      bh_warnings =
        (if snap_packages b = [] then
           [''Baseline has no packages '' @ em_dash @ '' may be from an empty project.''] else [])
        @ (if snap_types b = [] \<and> snap_functions b = [] then
             [''Baseline has no types or functions '' @ em_dash @ '' very sparse snapshot.''] else [])
        @ (if snap_contracts b = [] then
             [''Baseline has no detected contracts '' @ em_dash @ '' contract drift checks will be limited.'']
           else [])
        @ (if snap_arch_layers b = [] then
             [''Baseline has no architecture layers '' @ em_dash @ '' layer drift checks will be limited.'']
           else [])\<rparr>"

text \<open>A finding with its class, severity and evidence basis.\<close>

definition mk_drift :: "string \<Rightarrow> string \<Rightarrow> string \<Rightarrow> string \<Rightarrow> string list \<Rightarrow> string option \<Rightarrow> string option
                       \<Rightarrow> string \<Rightarrow> drift_finding" where
  "mk_drift cls severity basis msg evidence old new recommendation =
     \<lparr>dr_class = cls, dr_severity = severity, dr_evidence_basis = basis, dr_message = msg,
      dr_evidence = evidence, dr_baseline_value = old, dr_current_value = new,
      dr_recommendation = recommendation\<rparr>"

definition dotted :: "string \<Rightarrow> string \<Rightarrow> string" where
  "dotted package name = package @ ''.'' @ name"

definition with_family :: "string \<Rightarrow> string \<Rightarrow> string" where
  "with_family name family = name @ '' ('' @ family @ '')''"

definition arrow_of :: "string \<Rightarrow> string \<Rightarrow> string" where
  "arrow_of old new = old @ '' '' @ arrow @ '' '' @ new"

section \<open>Observed drift\<close>

definition removed_contract :: "contract_delta \<Rightarrow> drift_finding" where
  "removed_contract c =
     mk_drift ''contract-surface-drift'' ''critical'' ''observed''
       (''Contract '' @ quote1 (xd_name c) @ '' (family: '' @ xd_family c @ '') was removed from the codebase.'')
       [''Contract '' @ quote1 (xd_name c) @ '' present in baseline but absent in current.'']
       (Some (with_family (xd_name c) (xd_family c))) (Some ''absent'')
       ''Verify all downstream consumers have been updated. Run contract-audit and contract-usage-map.''"

definition moved_contract :: "contract_delta \<Rightarrow> drift_finding list" where
  "moved_contract c =
     (case xd_family_changed c of
        None \<Rightarrow> []
      | Some (old, new) \<Rightarrow>
          [mk_drift ''contract-surface-drift'' ''warning'' ''observed''
             (''Contract '' @ quote1 (xd_name c) @ '' changed family from '' @ quote1 old @ '' to '' @ quote1 new @ ''.'')
             [''Family reclassification: '' @ arrow_of old new @ ''.'']
             (Some (with_family (xd_name c) old)) (Some (with_family (xd_name c) new))
             (''Review contract usage flow '' @ em_dash
              @ '' construction, propagation, and consumption patterns may need updating.'')])"

definition collect_contract_surface_drift :: "snapshot_diff \<Rightarrow> drift_finding list" where
  "collect_contract_surface_drift d =
     (let sec = ds_contracts (df_sections d) in
      if sd_total sec = 0 then []
      else map removed_contract (sd_removed sec) @ concat (map moved_contract (sd_modified sec))
        @ (if sd_added sec \<noteq> [] then
             [mk_drift ''contract-surface-drift'' ''info'' ''observed''
                (show_nat (length (sd_added sec)) @ '' new contract(s) added since baseline.'')
                (map (\<lambda>c. with_family (xd_name c) (xd_family c)) (sd_added sec)) None None
                ''Ensure new contracts have validation methods and are covered by contract-usage-map.'']
           else []))"

definition dropped_interface :: "interface_delta \<Rightarrow> drift_finding" where
  "dropped_interface i =
     mk_drift ''interface-breaking'' ''critical'' ''observed''
       (''Interface '' @ quote1 (dotted (nd_package i) (nd_name i)) @ '' was removed entirely.'')
       [''Methods lost: '' @ (if nd_methods_removed i = [] then ''(all)'' else join '', '' (nd_methods_removed i)) @ ''.'']
       (Some (dotted (nd_package i) (nd_name i))) (Some ''absent'')
       ''All implementors and consumers of this interface must be refactored. Run symbol-trace on the interface name.''"

definition changed_interface :: "interface_delta \<Rightarrow> drift_finding list" where
  "changed_interface i =
     (let name = quote1 (dotted (nd_package i) (nd_name i));
          lost = nd_methods_removed i; gained = nd_methods_added i
      in (if lost \<noteq> [] then
            [mk_drift ''interface-breaking'' ''critical'' ''observed''
               (''Interface '' @ name @ '' lost method(s): '' @ join '', '' lost @ ''.'')
               (map (\<lambda>m. ''Method '' @ quote1 m @ '' removed.'') lost)
               (Some (''had methods: '' @ join '', '' lost)) (Some ''methods absent'')
               ''All implementors must drop these methods. Run arch-guard and symbol-trace.''] else [])
         @ (if gained \<noteq> [] then
              [mk_drift ''interface-expansion'' ''warning'' ''observed''
                 (''Interface '' @ name @ '' gained method(s): '' @ join '', '' gained @ ''.'')
                 (map (\<lambda>m. ''Method '' @ quote1 m @ '' added.'') gained)
                 None (Some (''new methods: '' @ join '', '' gained))
                 ''Existing implementors need the new method(s). Run symbol-trace on the interface.''] else []))"

definition collect_interface_drift :: "snapshot_diff \<Rightarrow> drift_finding list" where
  "collect_interface_drift d =
     (let sec = ds_interfaces (df_sections d) in
      map dropped_interface (sd_removed sec) @ concat (map changed_interface (sd_modified sec)))"

definition removed_layer :: "arch_layer_delta \<Rightarrow> drift_finding" where
  "removed_layer l =
     mk_drift ''layer-boundary-drift'' ''warning'' ''observed''
       (''Architecture layer at '' @ quote1 (ld_package_dir l) @ '' was removed.'')
       [''Package '' @ quote1 (ld_package_dir l) @ '' no longer detected as an architecture layer.'']
       (Some (ld_package_dir l)) (Some ''absent'')
       ''Verify this is intentional. Run arch-guard to check boundary compliance.''"

definition reclassified_layer :: "arch_layer_delta \<Rightarrow> drift_finding list" where
  "reclassified_layer l =
     (case ld_layer_changed l of
        None \<Rightarrow> []
      | Some (old, new) \<Rightarrow>
          [mk_drift ''layer-boundary-drift'' ''critical'' ''observed''
             (''Package '' @ quote1 (ld_package_dir l) @ '' changed layer from '' @ quote1 old @ '' to ''
              @ quote1 new @ ''.'')
             [''Layer reclassification: '' @ arrow_of old new @ ''.'']
             (Some (arrow_of (ld_package_dir l) old)) (Some (arrow_of (ld_package_dir l) new))
             ''This changes dependency rules for this package. Run arch-guard immediately.''])"

definition collect_layer_boundary_drift :: "snapshot_diff \<Rightarrow> drift_finding list" where
  "collect_layer_boundary_drift d =
     (let sec = ds_arch_layers (df_sections d) in
      if sd_total sec = 0 then []
      else map removed_layer (sd_removed sec) @ concat (map reclassified_layer (sd_modified sec))
        @ (if sd_added sec \<noteq> [] then
             [mk_drift ''layer-boundary-drift'' ''info'' ''observed''
                (show_nat (length (sd_added sec)) @ '' new architecture layer(s) detected.'')
                (map ld_package_dir (sd_added sec)) None None
                ''Verify new layers follow the expected dependency direction. Run arch-guard.''] else []))"

definition removed_type :: "type_delta \<Rightarrow> drift_finding" where
  "removed_type t =
     mk_drift ''type-breaking'' ''warning'' ''observed''
       (''Type '' @ quote1 (dotted (td_package t) (td_name t)) @ '' ('' @ td_kind t @ '') was removed.'')
       [''Type '' @ quote1 (td_name t) @ '' present in baseline but absent in current.'']
       (Some (td_kind t @ '' '' @ dotted (td_package t) (td_name t))) (Some ''absent'')
       ''Check for all references to this type. Run symbol-trace.''"

definition type_evidence :: "type_delta \<Rightarrow> string list" where
  "type_evidence t =
     map (\<lambda>f. ''Field '' @ quote1 f @ '' removed.'') (td_fields_removed t)
     @ map (\<lambda>c. ''Field '' @ quote1 (ft_name c) @ '' type changed: '' @ arrow_of (ft_before c) (ft_after c) @ ''.'')
         (td_fields_type_changed t)
     @ (case td_kind_changed t of
          Some (old, new) \<Rightarrow> [''Kind changed: '' @ arrow_of old new @ ''.''] | None \<Rightarrow> [])"

definition changed_type :: "type_delta \<Rightarrow> drift_finding list" where
  "changed_type t =
     (if type_evidence t = [] then []
      else
        [mk_drift ''type-breaking''
           (if td_fields_removed t \<noteq> [] \<or> td_kind_changed t \<noteq> None then ''critical'' else ''warning'') ''observed''
           (''Type '' @ quote1 (dotted (td_package t) (td_name t)) @ '' has breaking structural changes.'')
           (type_evidence t) (Some (dotted (td_package t) (td_name t))) None
           ''Struct literal consumers and serialization may break. Run impact-map on this type.''])"

definition collect_type_breaking_drift :: "snapshot_diff \<Rightarrow> drift_finding list" where
  "collect_type_breaking_drift d =
     (let sec = ds_types (df_sections d) in
      map removed_type (sd_removed sec) @ concat (map changed_type (sd_modified sec)))"

definition changed_signature :: "function_delta \<Rightarrow> drift_finding list" where
  "changed_signature f =
     (case fud_signature_changed f of
        None \<Rightarrow> []
      | Some (old, new) \<Rightarrow>
          (let name = show_receiver (fud_receiver f) @ fud_name f in
           [mk_drift ''api-signature-drift'' ''warning'' ''observed''
              (''Exported function '' @ name @ '' changed signature.'') [arrow_of old new]
              (Some (name @ old)) (Some (name @ new))
              ''All callers must be updated. Run symbol-trace on this function.'']))"

definition removed_function :: "function_delta \<Rightarrow> drift_finding" where
  "removed_function f =
     (let name = show_receiver (fud_receiver f) @ fud_name f in
      mk_drift ''api-signature-drift'' ''warning'' ''observed''
        (''Exported function '' @ name @ '' was removed.'')
        [''Function '' @ quote1 (fud_name f) @ '' present in baseline but absent in current.'']
        (Some name) (Some ''absent'') ''Verify all callers have been migrated. Run impact-map.'')"

definition collect_api_signature_drift :: "snapshot_diff \<Rightarrow> drift_finding list" where
  "collect_api_signature_drift d =
     (let sec = ds_functions (df_sections d) in
      concat (map changed_signature (sd_modified sec)) @ map removed_function (sd_removed sec))"

section \<open>Layers of directories and of import paths\<close>

definition layer_map :: "snapshot \<Rightarrow> (string \<times> string) list" where
  "layer_map s = map (\<lambda>(k, l). (k, le_layer l)) (by_key le_package_dir (snap_arch_layers s))"

definition find_layer_for_dir :: "string \<Rightarrow> (string \<times> string) list \<Rightarrow> string option" where
  "find_layer_for_dir dir layers =
     (case map_of layers dir of
        Some l \<Rightarrow> Some l
      | None \<Rightarrow> map_option snd (find (\<lambda>dl. starts_with dir (fst dl)) layers))"

definition find_layer_for_path :: "string \<Rightarrow> (string \<times> string) list \<Rightarrow> string option" where
  "find_layer_for_path import_path layers =
     map_option snd (find (\<lambda>dl. contains import_path (fst dl)) layers)"

section \<open>Inferred drift\<close>

definition crossing :: "(string \<times> string) list \<Rightarrow> import_delta \<Rightarrow> string \<Rightarrow> string option" where
  "crossing layers imp consumer =
     (case (find_layer_for_dir consumer layers, find_layer_for_path (id_path imp) layers) of
        (Some cl, Some il) \<Rightarrow>
          (if cl \<noteq> il then Some (arrow_of (with_family consumer cl) (with_family (id_path imp) il)) else None)
      | _ \<Rightarrow> None)"

definition internal_imports :: "snapshot \<Rightarrow> nat" where
  "internal_imports s = length (filter (\<lambda>i. ie_kind i = ''internal'') (snap_imports s))"

definition collect_coupling_increase :: "snapshot_diff \<Rightarrow> snapshot \<Rightarrow> snapshot \<Rightarrow> drift_finding list" where
  "collect_coupling_increase d baseline current =
     (let layers = layer_map current;
          new_internal = filter (\<lambda>i. id_kind i = ''internal'') (sd_added (ds_imports (df_sections d)));
          cross_layer = concat (map (\<lambda>imp. List.map_filter (crossing layers imp) (id_consumers_added imp)) new_internal);
          old_count = internal_imports baseline; new_count = internal_imports current;
          growth = int new_count - int old_count
      in if new_internal = [] then []
         else
           (if cross_layer \<noteq> [] then
              [mk_drift ''coupling-increase'' ''warning'' ''inferred''
                 (show_nat (length cross_layer) @ '' new cross-layer import(s) detected since baseline.'')
                 cross_layer None None
                 ''New cross-layer dependencies may violate architecture rules. Run arch-guard.''] else [])
           @ (if 5 < growth then
                [mk_drift ''coupling-increase'' ''info'' ''heuristic''
                   (''Internal import count grew by '' @ show_nat (nat growth) @ '' (from '' @ show_nat old_count
                    @ '' to '' @ show_nat new_count @ '').'')
                   [''Baseline: '' @ show_nat old_count @ '' internal imports, Current: '' @ show_nat new_count
                    @ '' internal imports.'']
                   (Some (show_nat old_count @ '' internal imports''))
                   (Some (show_nat new_count @ '' internal imports''))
                   ''Review whether new internal imports are necessary. Consider consolidating shared types.'']
              else []))"

definition infra_layers :: "string list" where
  "infra_layers = [''adapters'', ''actors'', ''interfaces'']"

definition isolation_violation :: "(string \<times> string) list \<Rightarrow> import_delta \<Rightarrow> string \<Rightarrow> string \<Rightarrow> string option" where
  "isolation_violation layers imp il consumer =
     (case find_layer_for_dir consumer layers of
        Some cl \<Rightarrow>
          (if cl = ''domain'' \<or> cl = ''application''
           then Some (with_family consumer cl @ '' imports '' @ with_family (id_path imp) il) else None)
      | None \<Rightarrow> None)"

definition import_violations :: "(string \<times> string) list \<Rightarrow> import_delta \<Rightarrow> string list" where
  "import_violations layers imp =
     (if id_kind imp \<noteq> ''internal'' then []
      else
        (case find_layer_for_path (id_path imp) layers of
           Some il \<Rightarrow>
             (if il \<in> set infra_layers
              then List.map_filter (isolation_violation layers imp il) (id_consumers_added imp) else [])
         | None \<Rightarrow> []))"

definition collect_isolation_loss :: "snapshot_diff \<Rightarrow> snapshot \<Rightarrow> drift_finding list" where
  "collect_isolation_loss d current =
     (let violations = concat (map (import_violations (layer_map current)) (sd_added (ds_imports (df_sections d))))
      in if violations \<noteq> [] then
           [mk_drift ''isolation-loss'' ''critical'' ''inferred''
              (show_nat (length violations)
               @ '' new inward dependency violation(s): domain/application importing infrastructure.'')
              violations None None
              ''Domain and application layers must not import adapters/actors/interfaces. Run arch-guard.'']
         else [])"

section \<open>Heuristic drift\<close>

definition validated_types :: "snapshot \<Rightarrow> string list" where
  "validated_types s =
     map (\<lambda>r. trim_start_char r CHR ''*'')
       (List.map_filter fe_receiver
          (filter (\<lambda>f. starts_with (fe_name f) ''Validate'' \<or> starts_with (fe_name f) ''Normalize''
                    \<or> starts_with (fe_name f) ''Check'') (snap_functions s)))"

definition collect_contract_proliferation :: "snapshot_diff \<Rightarrow> snapshot \<Rightarrow> snapshot \<Rightarrow> drift_finding list" where
  "collect_contract_proliferation d baseline current =
     (let sec_added = sd_added (ds_contracts (df_sections d));
          unvalidated = map (\<lambda>c. with_family (xd_name c) (xd_family c))
                          (filter (\<lambda>c. xd_name c \<notin> set (validated_types current)) sec_added)
      in if length sec_added < 3 \<or> unvalidated = [] then []
         else
           [mk_drift ''contract-proliferation'' ''warning'' ''heuristic''
              (show_nat (length sec_added) @ '' new contracts added since baseline, ''
               @ show_nat (length unvalidated) @ '' lack validation methods.'')
              unvalidated (Some (show_nat (sn_contracts (snap_stats baseline)) @ '' contracts''))
              (Some (show_nat (sn_contracts (snap_stats current)) @ '' contracts''))
              ''New contracts should have Validate/Normalize methods. Run contract-usage-map.''])"

definition scale_shift :: "int \<Rightarrow> int \<Rightarrow> string \<Rightarrow> string list \<Rightarrow> string \<Rightarrow> drift_finding list" where
  "scale_shift limit delta msg evidence recommendation =
     (if limit < \<bar>delta\<bar> then
        [mk_drift ''structural-scale-shift'' ''info'' ''heuristic'' msg evidence None None recommendation]
      else [])"

definition collect_structural_scale_shift :: "snapshot_diff \<Rightarrow> drift_finding list" where
  "collect_structural_scale_shift d =
     (let s = df_stats d in
      scale_shift 10 (dl_total_types s)
        (''Significant type count change ('' @ show_signed (dl_total_types s) @ '') since baseline.'')
        [''Types: '' @ show_signed (dl_total_types s), ''Structs: '' @ show_signed (dl_structs s),
         ''Interfaces: '' @ show_signed (dl_interfaces s)]
        ''Review module boundaries and ensure test coverage for new types.''
      @ scale_shift 500 (dl_total_lines s)
          (''Large line count change ('' @ show_signed (dl_total_lines s) @ '') since baseline.'')
          [''Lines: '' @ show_signed (dl_total_lines s), ''Files: '' @ show_signed (dl_total_files s),
           ''Test files: '' @ show_signed (dl_test_files s)]
          ''Verify test coverage proportional to code growth.''
      @ scale_shift 3 (dl_total_packages s)
          (''Package count changed by '' @ show_signed (dl_total_packages s) @ '' since baseline.'')
          [''Packages: '' @ show_signed (dl_total_packages s)]
          ''Review whether new packages follow the expected layer structure. Run arch-guard.'')"

section \<open>The analysis\<close>

definition collect_findings :: "snapshot_diff \<Rightarrow> snapshot \<Rightarrow> snapshot \<Rightarrow> drift_finding list" where
  "collect_findings d baseline current =
     collect_contract_surface_drift d @ collect_interface_drift d @ collect_layer_boundary_drift d
     @ collect_type_breaking_drift d @ collect_api_signature_drift d
     @ collect_coupling_increase d baseline current @ collect_isolation_loss d current
     @ collect_contract_proliferation d baseline current @ collect_structural_scale_shift d"

definition of_severity :: "string \<Rightarrow> drift_finding list \<Rightarrow> drift_finding list" where
  "of_severity s fs = filter (\<lambda>f. dr_severity f = s) fs"

definition drift_summary_of :: "drift_finding list \<Rightarrow> drift_summary" where
  "drift_summary_of fs =
     \<lparr>dm_total_findings = length fs, dm_critical = length (of_severity ''critical'' fs),
      dm_warning = length (of_severity ''warning'' fs), dm_info = length (of_severity ''info'' fs)\<rparr>"

definition verdict_of :: "drift_summary \<Rightarrow> drift_verdict" where
  "verdict_of s = (if 0 < dm_critical s then Drifted else if 0 < dm_warning s then DriftMild else DriftClean)"

definition scope_note :: string where
  "scope_note =
     ''Semantic drift analysis based on structural snapshot comparison. ''
     @ ''Findings tagged [observed] come directly from the diff; [inferred] are derived ''
     @ ''from combining multiple facts; [heuristic] are pattern-based estimates.''"

definition analyze_snapshots :: "snapshot \<Rightarrow> snapshot \<Rightarrow> baseline_error + baseline_drift_report" where
  "analyze_snapshots baseline current =
     (case diff_snapshots baseline current of
        Inl e \<Rightarrow> Inl (from_diff_error e)
      | Inr d \<Rightarrow>
          (let fs = sort_key (\<lambda>f. drift_rank (dr_severity f)) (collect_findings d baseline current);
               summary = drift_summary_of fs
           in Inr \<lparr>bd_baseline = snapshot_info baseline, bd_current = snapshot_info current,
                   bd_verdict = verdict_of summary, bd_findings = fs, bd_summary = summary,
                   bd_health = assess_baseline_health baseline, bd_scope_note = scope_note\<rparr>))"

definition load_baseline :: "(string \<Rightarrow> string + snapshot) \<Rightarrow> (path \<Rightarrow> string) \<Rightarrow> fs_node \<Rightarrow> path
                             \<Rightarrow> baseline_error + snapshot" where
  "load_baseline parse_json io_error root p =
     (case lookup_path root p of
        Some (FFile (Some contents)) \<Rightarrow>
          (case parse_json contents of Inl e \<Rightarrow> Inl (BaselineJson e) | Inr s \<Rightarrow> Inr s)
      | _ \<Rightarrow> Inl (BaselineIo (io_error p)))"

text \<open>
  The baseline file and the project are two nodes of the file system: the first is looked up in
  \<open>disk\<close>, the second is the tree \<open>root\<close>.
\<close>

definition baseline_analyze :: "(string \<Rightarrow> string + snapshot) \<Rightarrow> (path \<Rightarrow> string) \<Rightarrow> string \<Rightarrow> string
                               \<Rightarrow> fs_node \<Rightarrow> path \<Rightarrow> string \<Rightarrow> fs_node
                               \<Rightarrow> baseline_error + baseline_drift_report" where
  "baseline_analyze parse_json io_error now tool_version disk p root_display root =
     (if \<not> path_exists disk p then Inl (BaselineNotFound (path_string p))
      else
        (case load_baseline parse_json io_error disk p of
           Inl e \<Rightarrow> Inl e
         | Inr baseline \<Rightarrow> analyze_snapshots baseline (generate_snapshot now tool_version root_display root)))"

section \<open>Rendering\<close>

definition render_baseline_info :: "baseline_info \<Rightarrow> string" where
  "render_baseline_info i = bi_generated_at i @ '' (raccoon '' @ bi_raccoon_version i @ '')'' @ nl"

definition verdict_line :: "drift_verdict \<Rightarrow> string" where
  "verdict_line v =
     (case v of
        DriftClean \<Rightarrow> ''CLEAN '' @ em_dash @ '' no semantic drift detected''
      | DriftMild \<Rightarrow> ''MILD '' @ em_dash @ '' minor drift detected, review recommended''
      | Drifted \<Rightarrow> ''DRIFTED '' @ em_dash @ '' significant semantic drift detected'')"

definition render_drift_finding :: "string \<Rightarrow> bool \<Rightarrow> drift_finding \<Rightarrow> string" where
  "render_drift_finding icon verbose f =
     icon @ '' ['' @ dr_class f @ ''] ['' @ dr_evidence_basis f @ ''] '' @ dr_message f @ nl
     @ (if verbose then
          concat (map (\<lambda>e. ''      evidence: '' @ e @ nl) (dr_evidence f))
          @ (case dr_baseline_value f of Some v \<Rightarrow> ''      baseline: '' @ v @ nl | None \<Rightarrow> [])
          @ (case dr_current_value f of Some v \<Rightarrow> ''      current:  '' @ v @ nl | None \<Rightarrow> [])
        else [])
     @ ''      next: '' @ dr_recommendation f @ nl"

definition severity_icons :: "(string \<times> string) list" where
  "severity_icons = [(''critical'', ''[!!]''), (''warning'', ''[!]''), (''info'', ''[i]'')]"

definition render_health :: "baseline_health \<Rightarrow> string" where
  "render_health h =
     (if bh_warnings h \<noteq> [] then
        ''Baseline health:'' @ nl @ concat (map (\<lambda>w. ''  [!] '' @ w @ nl) (bh_warnings h)) @ nl else [])
     @ (case bh_version_note h of Some note \<Rightarrow> ''  [!] '' @ note @ nl @ nl | None \<Rightarrow> [])"

definition render_drift :: "baseline_drift_report \<Rightarrow> bool \<Rightarrow> string" where
  "render_drift r verbose =
     ''Baseline Semantic Drift'' @ nl
     @ ''  Baseline: '' @ render_baseline_info (bd_baseline r)
     @ ''  Current:  '' @ render_baseline_info (bd_current r) @ nl
     @ render_health (bd_health r)
     @ ''Verdict: '' @ verdict_line (bd_verdict r) @ nl
     @ ''Findings: '' @ show_nat (dm_total_findings (bd_summary r)) @ '' total ('' @ show_nat (dm_critical (bd_summary r))
     @ '' critical, '' @ show_nat (dm_warning (bd_summary r)) @ '' warning, '' @ show_nat (dm_info (bd_summary r))
     @ '' info)'' @ nl @ nl
     @ (if bd_findings r = [] then ''No drift findings.'' @ nl
        else
          concat (map (\<lambda>(sev, icon). concat (map (render_drift_finding icon verbose) (of_severity sev (bd_findings r))))
              severity_icons)
          @ nl @ ''Scope: '' @ bd_scope_note r @ nl)"

end
