(* ===== verification/SnapshotProps.thy ===== *)
theory SnapshotProps
  imports SnapshotDiff
begin

text \<open>
  Properties of snapshots and their differences: the import section, independence of the order of
  directory listings, and the section difference as a locale that says when it is empty.
\<close>

section \<open>Snapshots\<close>

lemma fold_note_import:
  assumes "fis \<noteq> [] \<or> o1 \<noteq> None" "\<And>e. o1 = Some e \<Longrightarrow> distinct (snd e)"
  shows "\<exists>kind dirs. fold (\<lambda>x o'. Some (note_import x o')) fis o1 = Some (kind, dirs) \<and> distinct dirs
           \<and> set dirs = (case o1 of Some e \<Rightarrow> set (snd e) | None \<Rightarrow> {}) \<union> (\<lambda>fi. file_dir (gf_path (fst fi))) ` set fis"
  using assms
proof (induction fis arbitrary: o1)
  case Nil
  then show ?case by (cases o1) auto
next
  case (Cons fi fis)
  have "distinct (snd (note_import fi o1))"
    "set (snd (note_import fi o1))
       = insert (file_dir (gf_path (fst fi))) (case o1 of Some e \<Rightarrow> set (snd e) | None \<Rightarrow> {})"
    using Cons.prems(2) by (auto simp: note_import_def Let_def split: option.splits prod.splits)
  with Cons.IH [of "Some (note_import fi o1)"] show ?case by auto
qed

text \<open>
  Property (imports of a snapshot). The import section has every import path of the indexed files
  once, in increasing order, each with the directories of exactly the files that import it, without
  repetition.
\<close>

theorem snapshot_imports_correct:
  "sorted_wrt (<) (map ie_path (build_imports ix))
   \<and> set (map ie_path (build_imports ix)) = im_path ` snd ` set (file_imports ix)
   \<and> (\<forall>e\<in>set (build_imports ix). distinct (ie_used_by e)
        \<and> set (ie_used_by e) = {file_dir (gf_path f) | f imp. (f, imp) \<in> set (file_imports ix) \<and> im_path imp = ie_path e})"
proof (intro conjI ballI)
  have paths: "map ie_path (build_imports ix) = map fst (import_map ix)"
    by (simp add: build_imports_def comp_def case_prod_beta)
  show "sorted_wrt (<) (map ie_path (build_imports ix))"
    unfolding paths import_map_def by (rule btree.entries_fold_sorted)
  show "set (map ie_path (build_imports ix)) = im_path ` snd ` set (file_imports ix)"
    unfolding paths import_map_def set_map btree.entry_keys_fold by (simp add: image_image)
next
  fix e assume "e \<in> set (build_imports ix)"
  then obtain p kind dirs where m: "(p, kind, dirs) \<in> set (import_map ix)"
    and e: "ie_path e = p" "ie_used_by e = sort dirs"
    by (auto simp: build_imports_def)
  let ?fis = "filter (\<lambda>fi. im_path (snd fi) = p) (file_imports ix)"
  from m have fold: "fold (\<lambda>x o'. Some (note_import x o')) ?fis None = Some (kind, dirs)"
    unfolding import_map_def btree.entries_fold .
  then have ne: "?fis \<noteq> []" by (cases ?fis) (simp_all add: fold.simps)
  have "distinct dirs \<and> set dirs = (\<lambda>fi. file_dir (gf_path (fst fi))) ` set ?fis"
    using fold_note_import [of ?fis None] ne fold by auto
  moreover have "(\<lambda>fi. file_dir (gf_path (fst fi))) ` set ?fis
      = {file_dir (gf_path f) | f imp. (f, imp) \<in> set (file_imports ix) \<and> im_path imp = p}" by force
  ultimately show "distinct (ie_used_by e)"
    and "set (ie_used_by e) = {file_dir (gf_path f) | f imp. (f, imp) \<in> set (file_imports ix) \<and> im_path imp = ie_path e}"
    unfolding e by simp_all
qed

lemma sort_key_mset_eq:
  assumes "mset xs = mset ys" and "distinct (map f xs)"
  shows "sort_key f xs = sort_key f ys"
proof (rule properties_for_sort_key)
  have inj: "inj_on f (set ys)"
    using assms by (metis distinct_map mset_eq_setD)
  have len: "length (filter (\<lambda>y. f y = f x) zs) = length (filter (\<lambda>y. y = x) zs)"
    if "x \<in> set ys" "set zs = set ys" for x zs
    using that inj by (auto intro!: arg_cong [where f = length] filter_cong simp: inj_on_def)
  show "mset (sort_key f ys) = mset xs" using assms(1) by simp
  show "filter (\<lambda>x. f k = f x) (sort_key f ys) = filter (\<lambda>x. f k = f x) xs" if "k \<in> set (sort_key f ys)" for k
  proof -
    have k: "k \<in> set ys" using that by simp
    have sets: "set xs = set ys" using assms(1) by (rule mset_eq_setD)
    have same: "f k = f x \<longleftrightarrow> x = k" if "x \<in> set ys" for x using that k inj by (auto simp: inj_on_def)
    have one: "filter (\<lambda>x. f k = f x) zs = replicate (count (mset zs) k) k" if "set zs = set ys" for zs
    proof -
      have "filter (\<lambda>x. f k = f x) zs = filter (\<lambda>x. x = k) zs"
        using same that by (intro filter_cong) auto
      also have "\<dots> = replicate (count (mset zs) k) k" by (induction zs) auto
      finally show ?thesis .
    qed
    show ?thesis using one [of "sort_key f ys"] one [of xs] sets assms(1) by simp
  qed
qed simp

lemma walk_go_files_perm:
  assumes "mset (walk_tree walker_skip is_go_name [] (dir_entries root []))
             = mset (walk_tree walker_skip is_go_name [] (dir_entries root' []))"
    and "distinct (map fst (walk_tree walker_skip is_go_name [] (dir_entries root [])))"
  shows "walk_go_files root = walk_go_files root'"
  unfolding walk_go_files_def using sort_key_mset_eq [OF assms] by simp

text \<open>
  Property (snapshots are deterministic). A snapshot does not depend on the order in which the file
  system lists the directories: two trees with the same Go files give the same snapshot.
\<close>

theorem snapshot_deterministic:
  assumes "mset (walk_tree walker_skip is_go_name [] (dir_entries root []))
             = mset (walk_tree walker_skip is_go_name [] (dir_entries root' []))"
    and "distinct (map fst (walk_tree walker_skip is_go_name [] (dir_entries root [])))"
  shows "generate_snapshot now v display root = generate_snapshot now v display root'"
  using walk_go_files_perm [OF assms] by (simp add: generate_snapshot_def build_index_def)

theorem snapshot_deterministic_witness:
  "generate_snapshot ''now'' ''0.1.0'' ''.''
     (FDir [(''b.go'', FFile (Some ''package b'')), (''a'', FDir [(''a.go'', FFile (Some ''package a''))])])
   = generate_snapshot ''now'' ''0.1.0'' ''.''
     (FDir [(''a'', FDir [(''a.go'', FFile (Some ''package a''))]), (''b.go'', FFile (Some ''package b''))])"
  by (rule snapshot_deterministic) code_simp+

section \<open>When a section difference is empty\<close>

text \<open>The entry that a list has for a key: the last one.\<close>

definition last_of :: "('e \<Rightarrow> 'k) \<Rightarrow> 'k \<Rightarrow> 'e list \<Rightarrow> 'e option" where
  "last_of key k xs = find (\<lambda>x. key x = k) (rev xs)"

lemma last_of_snoc: "last_of key k (xs @ [x]) = (if key x = k then Some x else last_of key k xs)"
  by (simp add: last_of_def)

lemma lookup_by_key: "map_of (by_key key xs) k = last_of key k xs"
proof -
  have "fold (\<lambda>x o'. Some x) (filter (\<lambda>x. key x = k) xs) None = last_of key k xs"
    by (induction xs rule: rev_induct) (simp_all add: last_of_snoc, simp add: last_of_def)
  then show ?thesis
    unfolding by_key_def btree.lookup_fold [OF btree.invar_empty] by simp
qed

lemma by_key_entry: "(k, x) \<in> set (by_key key xs) \<longleftrightarrow> last_of key k xs = Some x"
  unfolding lookup_by_key [symmetric] by_key_def
  by (rule bt_entries) (rule btree.invar_fold [OF btree.invar_empty])

definition sections_agree :: "('e \<Rightarrow> 'k) \<Rightarrow> ('e \<Rightarrow> 'e \<Rightarrow> bool) \<Rightarrow> 'e list \<Rightarrow> 'e list \<Rightarrow> bool" where
  "sections_agree key same xs ys = (\<forall>k. rel_option same (last_of key k xs) (last_of key k ys))"

lemma all_three_iff:
  "(\<forall>k. g k \<noteq> None \<longrightarrow> f k \<noteq> None) \<and> (\<forall>k. f k \<noteq> None \<longrightarrow> g k \<noteq> None)
     \<and> (\<forall>k b a. f k = Some b \<longrightarrow> g k = Some a \<longrightarrow> r b a) \<longleftrightarrow> (\<forall>k. rel_option r (f k) (g k))"
  (is "?L \<longleftrightarrow> ?R")
proof
  assume ?L
  then show ?R by (auto simp: option.rel_sel)
next
  assume R: ?R
  have "(g k \<noteq> None \<longrightarrow> f k \<noteq> None) \<and> (f k \<noteq> None \<longrightarrow> g k \<noteq> None)
      \<and> (\<forall>b a. f k = Some b \<longrightarrow> g k = Some a \<longrightarrow> r b a)" for k
    using R [rule_format, of k] by (cases "f k"; cases "g k") auto
  then show ?L by blast
qed

lemma only_left_Nil:
  "only_left (by_key key xs) (by_key key ys) = [] \<longleftrightarrow>
     (\<forall>k. last_of key k xs \<noteq> None \<longrightarrow> last_of key k ys \<noteq> None)"
  unfolding only_left_def map_is_Nil_conv filter_empty_conv Ball_def split_paired_All by_key_entry
  by (auto simp: lookup_by_key)

text \<open>
  The contract of a section: entries of one key are reported exactly when they are not the same in
  what the section compares.
\<close>

locale section_contract =
  fixes key :: "'e \<Rightarrow> 'k::linorder"
    and mk_modified :: "'e \<Rightarrow> 'e \<Rightarrow> 'd option"
    and same :: "'e \<Rightarrow> 'e \<Rightarrow> bool"
  assumes unmodified_iff: "mk_modified b a = None \<longleftrightarrow> same b a"
    and same_refl: "same b b"
begin

lemma modified_Nil:
  fixes mk_added mk_removed :: "'e \<Rightarrow> 'd"
  shows "sd_modified (diff_section key mk_added mk_removed mk_modified xs ys) = [] \<longleftrightarrow>
     (\<forall>k b a. last_of key k xs = Some b \<longrightarrow> last_of key k ys = Some a \<longrightarrow> same b a)"
  (is "_ \<longleftrightarrow> ?R")
proof -
  have "sd_modified (diff_section key mk_added mk_removed mk_modified xs ys) = []
      \<longleftrightarrow> (\<forall>(k, b)\<in>set (by_key key xs). Option.bind (map_of (by_key key ys) k) (mk_modified b) = None)"
    by (auto simp: diff_section_def Let_def map_filter_def filter_empty_conv)
  also have "\<dots> \<longleftrightarrow> ?R"
    unfolding Ball_def split_paired_All by_key_entry
    by (simp add: lookup_by_key bind_eq_None_conv unmodified_iff) (metis option.distinct(1) option.sel option.exhaust)
  finally show ?thesis .
qed

lemma no_change_iff:
  fixes mk_added mk_removed :: "'e \<Rightarrow> 'd"
  shows "sd_total (finalize (diff_section key mk_added mk_removed mk_modified xs ys)) = 0
     \<longleftrightarrow> sections_agree key same xs ys"
proof -
  have "sd_total (finalize (diff_section key mk_added mk_removed mk_modified xs ys)) = 0
      \<longleftrightarrow> (\<forall>k. last_of key k ys \<noteq> None \<longrightarrow> last_of key k xs \<noteq> None)
          \<and> (\<forall>k. last_of key k xs \<noteq> None \<longrightarrow> last_of key k ys \<noteq> None)
          \<and> (\<forall>k b a. last_of key k xs = Some b \<longrightarrow> last_of key k ys = Some a \<longrightarrow> same b a)"
    unfolding modified_Nil [of mk_added mk_removed, symmetric]
    by (simp add: finalize_def diff_section_def Let_def only_left_Nil)
  also have "\<dots> \<longleftrightarrow> sections_agree key same xs ys"
    unfolding sections_agree_def by (rule all_three_iff)
  finally show ?thesis .
qed

lemma change_iff:
  fixes mk_added mk_removed :: "'e \<Rightarrow> 'd"
  shows "0 < sd_total (finalize (diff_section key mk_added mk_removed mk_modified xs ys))
     \<longleftrightarrow> \<not> sections_agree key same xs ys"
  unfolding no_change_iff [of mk_added mk_removed, symmetric] by (rule neq0_conv [symmetric])

lemma no_change_self: "sd_total (finalize (diff_section key mk_added mk_removed mk_modified xs xs)) = 0"
  unfolding no_change_iff sections_agree_def by (auto simp: option.rel_sel same_refl)

end

section \<open>The eight sections\<close>

lemma set_difference_Nil: "set_difference xs ys = [] \<longleftrightarrow> set xs \<subseteq> set ys"
  by (auto simp: set_difference_def filter_empty_conv)

lemma changed_None: "changed b a = None \<longleftrightarrow> b = a"
  by (auto simp: changed_def)

definition same_package :: "package_entry \<Rightarrow> package_entry \<Rightarrow> bool" where
  "same_package b a \<longleftrightarrow> pe_name b = pe_name a \<and> set (pe_files b) = set (pe_files a)"

definition same_import :: "import_entry \<Rightarrow> import_entry \<Rightarrow> bool" where
  "same_import b a \<longleftrightarrow> ie_kind b = ie_kind a \<and> set (ie_used_by b) = set (ie_used_by a)"

definition same_field :: "field_entry \<Rightarrow> field_entry \<Rightarrow> bool" where
  "same_field b a \<longleftrightarrow> fl_type_expr b = fl_type_expr a"

definition same_type :: "type_entry \<Rightarrow> type_entry \<Rightarrow> bool" where
  "same_type b a \<longleftrightarrow> te_kind b = te_kind a \<and> te_visibility b = te_visibility a
     \<and> sections_agree fl_name same_field (te_fields b) (te_fields a)"

definition same_function :: "function_entry \<Rightarrow> function_entry \<Rightarrow> bool" where
  "same_function b a \<longleftrightarrow> fe_signature b = fe_signature a"

definition same_constant :: "constant_entry \<Rightarrow> constant_entry \<Rightarrow> bool" where
  "same_constant b a \<longleftrightarrow> ke_value b = ke_value a \<and> ke_type_hint b = ke_type_hint a"

definition same_interface :: "interface_entry \<Rightarrow> interface_entry \<Rightarrow> bool" where
  "same_interface b a \<longleftrightarrow> set (ne_methods b) = set (ne_methods a) \<and> set (ne_embeds b) = set (ne_embeds a)"

definition same_layer :: "arch_layer_entry \<Rightarrow> arch_layer_entry \<Rightarrow> bool" where
  "same_layer b a \<longleftrightarrow> le_layer b = le_layer a"

definition same_contract :: "contract_entry \<Rightarrow> contract_entry \<Rightarrow> bool" where
  "same_contract b a \<longleftrightarrow> ct_family b = ct_family a"

interpretation package_section: section_contract pe_dir package_modified same_package
  by unfold_locales (auto simp: package_modified_def same_package_def Let_def set_difference_Nil)

interpretation import_section: section_contract ie_path import_modified same_import
  by unfold_locales (auto simp: import_modified_def same_import_def Let_def set_difference_Nil)

text \<open>The fields of a type are compared like a section of their own.\<close>

definition field_modified :: "field_entry \<Rightarrow> field_entry \<Rightarrow> field_type_change option" where
  "field_modified b a =
     (if fl_type_expr a \<noteq> fl_type_expr b
      then Some \<lparr>ft_name = fl_name b, ft_before = fl_type_expr b, ft_after = fl_type_expr a\<rparr> else None)"

interpretation field_section: section_contract fl_name field_modified same_field
  by unfold_locales (auto simp: field_modified_def same_field_def)

lemma field_keys_only_Nil: "field_keys_only m m' = [] \<longleftrightarrow> only_left m m' = []"
  by (simp add: field_keys_only_def only_left_def filter_map comp_def)

lemma field_changes_Nil:
  "field_changes xs ys = [] \<longleftrightarrow>
     (\<forall>k b a. last_of fl_name k xs = Some b \<longrightarrow> last_of fl_name k ys = Some a \<longrightarrow> same_field b a)"
proof -
  have "field_changes xs ys = []
      \<longleftrightarrow> (\<forall>(k, b)\<in>set (by_key fl_name xs). Option.bind (map_of (by_key fl_name ys) k) (field_modified b) = None)"
    by (auto simp: field_changes_def map_filter_def filter_empty_conv field_modified_def bind_eq_None_conv
             split: if_splits)
  also have "\<dots> \<longleftrightarrow> sd_modified (diff_section fl_name d d field_modified xs ys) = []"
    by (auto simp: diff_section_def Let_def map_filter_def filter_empty_conv)
  finally show ?thesis unfolding field_section.modified_Nil .
qed

lemma type_modified_None: "type_modified b a = None \<longleftrightarrow> same_type b a"
proof -
  have "type_modified b a = None \<longleftrightarrow> te_kind b = te_kind a \<and> te_visibility b = te_visibility a
      \<and> only_left (by_key fl_name (te_fields a)) (by_key fl_name (te_fields b)) = []
      \<and> only_left (by_key fl_name (te_fields b)) (by_key fl_name (te_fields a)) = []
      \<and> field_changes (te_fields b) (te_fields a) = []"
    by (auto simp: type_modified_def Let_def changed_None field_keys_only_Nil simp del: not_None_eq)
  then show ?thesis
    unfolding same_type_def sections_agree_def all_three_iff [symmetric] only_left_Nil field_changes_Nil by simp
qed

interpretation type_section: section_contract "\<lambda>t. (te_package t, te_name t)" type_modified same_type
  by unfold_locales (auto simp: type_modified_None same_type_def sections_agree_def same_field_def option.rel_sel)

interpretation function_section: section_contract fkey function_modified same_function
  by unfold_locales (auto simp: function_modified_def same_function_def Let_def changed_None simp del: not_None_eq)

interpretation constant_section: section_contract "\<lambda>c. (ke_package c, ke_name c)" constant_modified same_constant
  by unfold_locales (auto simp: constant_modified_def same_constant_def Let_def changed_None simp del: not_None_eq)

interpretation interface_section: section_contract "\<lambda>i. (ne_package i, ne_name i)" interface_modified same_interface
  by unfold_locales (auto simp: interface_modified_def same_interface_def Let_def set_difference_Nil)

interpretation layer_section: section_contract le_package_dir layer_modified same_layer
  by unfold_locales (auto simp: layer_modified_def same_layer_def changed_None)

interpretation contract_section: section_contract ct_name contract_modified same_contract
  by unfold_locales (auto simp: contract_modified_def same_contract_def changed_None)

section \<open>The difference of two snapshots\<close>

text \<open>What the difference of two snapshots compares.\<close>

definition snapshots_agree :: "snapshot \<Rightarrow> snapshot \<Rightarrow> bool" where
  "snapshots_agree b a \<longleftrightarrow>
     sections_agree pe_dir same_package (snap_packages b) (snap_packages a)
     \<and> sections_agree ie_path same_import (snap_imports b) (snap_imports a)
     \<and> sections_agree (\<lambda>t. (te_package t, te_name t)) same_type (snap_types b) (snap_types a)
     \<and> sections_agree fkey same_function (snap_functions b) (snap_functions a)
     \<and> sections_agree (\<lambda>c. (ke_package c, ke_name c)) same_constant (snap_constants b) (snap_constants a)
     \<and> sections_agree (\<lambda>i. (ne_package i, ne_name i)) same_interface (snap_interfaces b) (snap_interfaces a)
     \<and> sections_agree le_package_dir same_layer (snap_arch_layers b) (snap_arch_layers a)
     \<and> sections_agree ct_name same_contract (snap_contracts b) (snap_contracts a)"

lemmas section_change_iff =
  package_section.change_iff import_section.change_iff type_section.change_iff
  function_section.change_iff constant_section.change_iff interface_section.change_iff
  layer_section.change_iff contract_section.change_iff

lemma no_change_agree: "\<not> any_change (all_sections b a) \<longleftrightarrow> snapshots_agree b a"
  by (simp add: any_change_def all_sections_def snapshots_agree_def section_change_iff
      diff_packages_def diff_imports_def diff_types_def diff_functions_def diff_constants_def
      diff_interfaces_def diff_arch_layers_def diff_contracts_def) blast

text \<open>
  Property (no changes exactly when the snapshots agree). Two snapshots of one version always have
  a difference, and it reports no change exactly when in each of the eight sections both have an
  entry for the same keys, and the entries of each key agree in what that section compares.
\<close>

theorem diff_no_changes_iff:
  assumes "snap_version b = snap_version a"
  shows "\<exists>d. diff_snapshots b a = Inr d \<and> (\<not> df_has_changes d \<longleftrightarrow> snapshots_agree b a)"
  using assms by (simp add: diff_snapshots_def Let_def no_change_agree)

definition demo_interface :: "string list \<Rightarrow> interface_entry" where
  "demo_interface ms =
     \<lparr>ne_name = ''Store'', ne_package = ''db'', ne_methods = ms, ne_embeds = [],
      ne_file = ''db/store.go'', ne_line = 3, ne_provenance = Ast\<rparr>"

definition demo_package :: "string \<Rightarrow> string list \<Rightarrow> package_entry" where
  "demo_package name fs =
     \<lparr>pe_name = name, pe_dir = ''db'', pe_files = fs, pe_file_count = length fs, pe_provenance = Ast\<rparr>"

definition demo_contract :: "string \<Rightarrow> contract_entry" where
  "demo_contract package =
     \<lparr>ct_name = ''SavedEvent'', ct_family = ''event'', ct_file = package @ ''/e.go'', ct_line = 1,
      ct_provenance = Ast\<rparr>"

definition demo_snapshot :: "package_entry list \<Rightarrow> interface_entry list \<Rightarrow> contract_entry list \<Rightarrow> snapshot" where
  "demo_snapshot ps ns cs =
     (build_snapshot_from_index ''now'' ''0.1.0'' (build_index (FDir [])) ''.'')
       \<lparr>snap_packages := ps, snap_interfaces := ns, snap_contracts := cs\<rparr>"

theorem diff_no_changes_iff_witness:
  "\<exists>d. diff_snapshots (demo_snapshot [] [demo_interface [''Get'']] []) (demo_snapshot [] [demo_interface []] []) = Inr d
     \<and> (\<not> df_has_changes d
          \<longleftrightarrow> snapshots_agree (demo_snapshot [] [demo_interface [''Get'']] []) (demo_snapshot [] [demo_interface []] []))"
  by (rule diff_no_changes_iff) (simp add: demo_snapshot_def build_snapshot_from_index_def Let_def)

lemma sections_agree_refl:
  assumes "\<And>e. same e e"
  shows "sections_agree key same xs xs"
  unfolding sections_agree_def option.rel_sel by (simp add: assms)

lemma snapshots_agree_refl: "snapshots_agree s s"
  by (simp add: snapshots_agree_def sections_agree_refl same_package_def same_import_def same_type_def
      same_field_def same_function_def same_constant_def same_interface_def same_layer_def same_contract_def)

lemma total_zero_parts:
  assumes "sd_total (finalize d) = 0"
  shows "sd_added (finalize d) = [] \<and> sd_removed (finalize d) = [] \<and> sd_modified (finalize d) = []"
  using assms by (simp add: finalize_def)

lemma diff_stats_self: "dl_total_types (diff_stats s s) = 0" "dl_total_lines (diff_stats s s) = 0"
  by (simp_all add: diff_stats_def)

text \<open>
  Property (a snapshot against itself). The difference of a snapshot to itself exists, has no change
  and no inference, and its rendering says so.
\<close>

theorem diff_self:
  "\<exists>d. diff_snapshots s s = Inr d \<and> \<not> df_has_changes d \<and> df_inferences d = []
     \<and> (\<exists>header. render_diff d verbose = header @ ''No structural changes detected.'' @ nl)"
proof -
  have none: "\<not> any_change (all_sections s s)" by (simp add: no_change_agree snapshots_agree_refl)
  have parts: "sd_removed (ds_interfaces (all_sections s s)) = []" "sd_modified (ds_interfaces (all_sections s s)) = []"
      "sd_modified (ds_types (all_sections s s)) = []" "sd_modified (ds_functions (all_sections s s)) = []"
    using none total_zero_parts [of "diff_interfaces (snap_interfaces s) (snap_interfaces s)"]
      total_zero_parts [of "diff_types (snap_types s) (snap_types s)"]
      total_zero_parts [of "diff_functions (snap_functions s) (snap_functions s)"]
    unfolding any_change_def all_sections_def by simp_all
  have "derive_inferences (all_sections s s) (diff_stats (snap_stats s) (snap_stats s)) = []"
    using none by (simp add: derive_inferences_def parts contract_inferences_def layer_inferences_def
        scale_inferences_def diff_stats_self any_change_def)
  with none show ?thesis
    by (simp add: diff_snapshots_def Let_def render_diff_def)
qed

lemma last_of_key: "last_of key k xs = Some x \<Longrightarrow> key x = k"
  by (auto simp: last_of_def find_Some_iff)

lemma section_modified_mem:
  assumes "last_of key k xs = Some b" "last_of key k ys = Some a" "mk_modified b a = Some d"
  shows "d \<in> set (sd_modified (finalize (diff_section key mk_added mk_removed mk_modified xs ys)))"
proof -
  have "(k, b) \<in> set (by_key key xs)" using assms(1) by (simp add: by_key_entry)
  moreover have "Option.bind (map_of (by_key key ys) k) (mk_modified b) = Some d"
    using assms(2,3) by (simp add: lookup_by_key)
  ultimately show ?thesis
    by (auto simp: finalize_def diff_section_def Let_def map_filter_def intro!: image_eqI [where x = "(k, b)"])
qed

lemma lost_method_delta:
  assumes "last_of (\<lambda>i. (ne_package i, ne_name i)) (p, n) (snap_interfaces b) = Some i"
    and "last_of (\<lambda>i. (ne_package i, ne_name i)) (p, n) (snap_interfaces a) = Some j"
    and "m \<in> set (ne_methods i)" and "m \<notin> set (ne_methods j)"
  shows "\<exists>dl\<in>set (sd_modified (ds_interfaces (all_sections b a))).
    m \<in> set (nd_methods_removed dl) \<and> nd_package dl = p \<and> nd_name dl = n"
proof -
  have m: "m \<in> set (set_difference (ne_methods i) (ne_methods j))"
    using assms(3,4) by (simp add: set_difference_def)
  then have "set_difference (ne_methods i) (ne_methods j) \<noteq> []" by auto
  then obtain dl where dl: "interface_modified i j = Some dl"
      "nd_methods_removed dl = set_difference (ne_methods i) (ne_methods j)"
      "nd_package dl = ne_package j" "nd_name dl = ne_name j"
    by (auto simp: interface_modified_def Let_def interface_delta_of_def)
  have "dl \<in> set (sd_modified (ds_interfaces (all_sections b a)))"
    unfolding all_sections_def diff_interfaces_def
    using section_modified_mem [where key = "\<lambda>i. (ne_package i, ne_name i)" and mk_modified = interface_modified,
        OF assms(1,2) dl(1)] by simp
  then show ?thesis
    using m dl last_of_key [OF assms(2)] by (intro bexI [where x = dl]) simp_all
qed

text \<open>
  Property (a lost method is always warned of). If an interface of the older snapshot has a method
  that the interface of the same package and name in the newer one lacks, the difference has a
  \<open>breaking-interface\<close> inference of severity warning naming it.
\<close>

theorem lost_method_is_breaking:
  assumes "snap_version b = snap_version a"
    and "last_of (\<lambda>i. (ne_package i, ne_name i)) (p, n) (snap_interfaces b) = Some i"
    and "last_of (\<lambda>i. (ne_package i, ne_name i)) (p, n) (snap_interfaces a) = Some j"
    and "m \<in> set (ne_methods i)" and "m \<notin> set (ne_methods j)"
  shows "\<exists>d lost. diff_snapshots b a = Inr d \<and> df_has_changes d \<and> m \<in> set lost
     \<and> make_inference ''breaking-interface'' ''warning''
         (''Interface '' @ p @ ''.'' @ n @ '' lost methods: '' @ join '', '' lost
          @ ''. All implementors must be updated.'') \<in> set (df_inferences d)"
proof -
  obtain dl where mem: "dl \<in> set (sd_modified (ds_interfaces (all_sections b a)))"
      and dl: "m \<in> set (nd_methods_removed dl)" "nd_package dl = p" "nd_name dl = n"
    using lost_method_delta [OF assms(2-5)] by blast
  let ?inf = "make_inference ''breaking-interface'' ''warning''
         (''Interface '' @ p @ ''.'' @ n @ '' lost methods: '' @ join '', '' (nd_methods_removed dl)
          @ ''. All implementors must be updated.'')"
  have "?inf \<in> set (interface_inferences dl)"
    using dl by (auto simp: interface_inferences_def Let_def)
  with mem have inf: "?inf \<in> set (derive_inferences (all_sections b a) (diff_stats (snap_stats b) (snap_stats a)))"
    unfolding derive_inferences_def set_append set_concat by auto
  have "0 < sd_total (ds_interfaces (all_sections b a))"
    using mem by (auto simp: all_sections_def finalize_def intro!: add_pos_pos length_pos_if_in_set)
  then have "any_change (all_sections b a)" by (simp add: any_change_def)
  with inf dl(1) assms(1) show ?thesis by (auto simp: diff_snapshots_def Let_def)
qed

theorem lost_method_is_breaking_witness:
  "\<exists>d lost. diff_snapshots (demo_snapshot [] [demo_interface [''Get'']] []) (demo_snapshot [] [demo_interface []] []) = Inr d
     \<and> df_has_changes d \<and> ''Get'' \<in> set lost
     \<and> make_inference ''breaking-interface'' ''warning''
         (''Interface '' @ ''db'' @ ''.'' @ ''Store'' @ '' lost methods: '' @ join '', '' lost
          @ ''. All implementors must be updated.'') \<in> set (df_inferences d)"
  by (rule lost_method_is_breaking [where i = "demo_interface [''Get'']" and j = "demo_interface []"])
     (simp_all add: demo_snapshot_def build_snapshot_from_index_def Let_def last_of_def demo_interface_def)

text \<open>
  Property (what the keys hide). Packages are compared by their directory alone, so when the Go
  package of a directory comes with its external test package, a change of the first is not seen:
  the later entry replaces it. Contracts are compared by their name alone, with the same effect.
\<close>

theorem sibling_package_hidden:
  "(case diff_snapshots (demo_snapshot [demo_package ''db'' [''a.go''], demo_package ''db_test'' [''a_test.go'']] [] [])
           (demo_snapshot [demo_package ''db'' [''a.go'', ''b.go''], demo_package ''db_test'' [''a_test.go'']] [] []) of
      Inr d \<Rightarrow> \<not> df_has_changes d | Inl _ \<Rightarrow> False)
   \<and> (case diff_snapshots (demo_snapshot [] [] [demo_contract ''billing'', demo_contract ''users''])
           (demo_snapshot [] [] [demo_contract ''users'']) of
      Inr d \<Rightarrow> \<not> df_has_changes d | Inl _ \<Rightarrow> False)"
  unfolding demo_snapshot_def demo_package_def demo_contract_def by code_simp

end
