(* ===== verification/BaselineProps.thy ===== *)
theory BaselineProps
  imports BaselineDrift SnapshotProps
begin

text \<open>
  Properties of the baseline drift report: its verdict, its counters and its order, what it says of
  an unchanged project, and which changes it does and does not notice.
\<close>

definition drift_severities :: "string set" where
  "drift_severities = {''critical'', ''warning'', ''info''}"

definition drift_bases :: "string set" where
  "drift_bases = {''observed'', ''inferred'', ''heuristic''}"

definition drift_wf :: "drift_finding \<Rightarrow> bool" where
  "drift_wf f \<longleftrightarrow> dr_severity f \<in> drift_severities \<and> dr_evidence_basis f \<in> drift_bases"

lemma drift_wf_mk [simp]:
  "drift_wf (mk_drift c sev basis m e o1 o2 r) \<longleftrightarrow> sev \<in> drift_severities \<and> basis \<in> drift_bases"
  by (simp add: drift_wf_def mk_drift_def)

lemma levels [simp]:
  "''critical'' \<in> drift_severities" "''warning'' \<in> drift_severities" "''info'' \<in> drift_severities"
  "''observed'' \<in> drift_bases" "''inferred'' \<in> drift_bases" "''heuristic'' \<in> drift_bases"
  by (simp_all add: drift_severities_def drift_bases_def)

lemma wf_contracts: "\<forall>f\<in>set (collect_contract_surface_drift d). drift_wf f"
  by (auto simp: collect_contract_surface_drift_def Let_def removed_contract_def moved_contract_def
      split: option.splits)

lemma wf_interfaces: "\<forall>f\<in>set (collect_interface_drift d). drift_wf f"
  by (auto simp: collect_interface_drift_def Let_def dropped_interface_def changed_interface_def
      split: if_splits)

lemma wf_layers: "\<forall>f\<in>set (collect_layer_boundary_drift d). drift_wf f"
  by (auto simp: collect_layer_boundary_drift_def Let_def removed_layer_def reclassified_layer_def
      split: option.splits)

lemma wf_types: "\<forall>f\<in>set (collect_type_breaking_drift d). drift_wf f"
  by (auto simp: collect_type_breaking_drift_def Let_def removed_type_def changed_type_def split: if_splits)

lemma wf_functions: "\<forall>f\<in>set (collect_api_signature_drift d). drift_wf f"
  by (auto simp: collect_api_signature_drift_def Let_def removed_function_def changed_signature_def
      split: option.splits)

lemma wf_inferred:
  "\<forall>f\<in>set (collect_coupling_increase d b a). drift_wf f" "\<forall>f\<in>set (collect_isolation_loss d a). drift_wf f"
  by (auto simp: collect_coupling_increase_def collect_isolation_loss_def Let_def split: if_splits)

lemma wf_heuristic:
  "\<forall>f\<in>set (collect_contract_proliferation d b a). drift_wf f"
  "\<forall>f\<in>set (collect_structural_scale_shift d). drift_wf f"
  by (auto simp: collect_contract_proliferation_def collect_structural_scale_shift_def scale_shift_def Let_def
      split: if_splits)

lemmas collectors_wf =
  wf_contracts wf_interfaces wf_layers wf_types wf_functions wf_inferred wf_heuristic

lemma collect_findings_wf: "f \<in> set (collect_findings d b a) \<Longrightarrow> drift_wf f"
  using collectors_wf [of d] unfolding collect_findings_def set_append by blast

lemma drift_partition:
  assumes "\<forall>f\<in>set fs. drift_wf f"
  shows "length (of_severity ''critical'' fs) + length (of_severity ''warning'' fs)
    + length (of_severity ''info'' fs) = length fs"
  using assms by (induction fs) (auto simp: of_severity_def drift_wf_def drift_severities_def)

lemma analyze_snapshots_Inr:
  "analyze_snapshots b a = Inr r \<longleftrightarrow> (\<exists>d. diff_snapshots b a = Inr d
     \<and> r = (let fs = sort_key (\<lambda>f. drift_rank (dr_severity f)) (collect_findings d b a); summary = drift_summary_of fs
            in \<lparr>bd_baseline = snapshot_info b, bd_current = snapshot_info a,
                bd_verdict = verdict_of summary, bd_findings = fs, bd_summary = summary,
                bd_health = assess_baseline_health b, bd_scope_note = scope_note\<rparr>))"
  by (auto simp: analyze_snapshots_def Let_def split: sum.splits)

text \<open>
  Property (the drift report is consistent). Every finding has one of the three severities and one
  of the three evidence bases; findings come in order of severity; the counters add up to the
  number of findings; and the verdict is the one the worst finding calls for.
\<close>

theorem drift_report_consistent:
  assumes "analyze_snapshots b a = Inr r"
  shows "(\<forall>f\<in>set (bd_findings r). drift_wf f)
    \<and> sorted (map (\<lambda>f. drift_rank (dr_severity f)) (bd_findings r))
    \<and> dm_critical (bd_summary r) + dm_warning (bd_summary r) + dm_info (bd_summary r)
        = length (bd_findings r)
    \<and> (bd_verdict r = Drifted \<longleftrightarrow> (\<exists>f\<in>set (bd_findings r). dr_severity f = ''critical''))
    \<and> (bd_verdict r = DriftClean \<longleftrightarrow> (\<forall>f\<in>set (bd_findings r). dr_severity f = ''info''))"
proof -
  obtain d where d: "bd_findings r = sort_key (\<lambda>f. drift_rank (dr_severity f)) (collect_findings d b a)"
    and s: "bd_summary r = drift_summary_of (bd_findings r)" and v: "bd_verdict r = verdict_of (bd_summary r)"
    using assms unfolding analyze_snapshots_Inr by (auto simp: Let_def)
  have wf: "\<forall>f\<in>set (bd_findings r). drift_wf f" unfolding d using collect_findings_wf by simp
  have none: "length (of_severity x (bd_findings r)) = 0 \<longleftrightarrow> (\<forall>f\<in>set (bd_findings r). dr_severity f \<noteq> x)" for x
    by (simp add: of_severity_def filter_empty_conv)
  have drifted: "bd_verdict r = Drifted \<longleftrightarrow> length (of_severity ''critical'' (bd_findings r)) \<noteq> 0"
    and clean: "bd_verdict r = DriftClean \<longleftrightarrow> length (of_severity ''critical'' (bd_findings r)) = 0
      \<and> length (of_severity ''warning'' (bd_findings r)) = 0"
    unfolding v s by (simp_all add: verdict_of_def drift_summary_of_def)
  have info: "dr_severity f = ''info'' \<longleftrightarrow> dr_severity f \<noteq> ''critical'' \<and> dr_severity f \<noteq> ''warning''"
    if "f \<in> set (bd_findings r)" for f
    using wf that by (auto simp: drift_wf_def drift_severities_def)
  show ?thesis
    unfolding drifted clean none
    using wf drift_partition [OF wf] info by (auto simp: s drift_summary_of_def d)
qed

lemma empty_section:
  assumes "sd_total (finalize d) = 0"
  shows "finalize d = \<lparr>sd_added = [], sd_removed = [], sd_modified = [], sd_total = 0\<rparr>"
  using assms by (cases d) (simp add: finalize_def)

lemma all_sections_self:
  "all_sections s s =
      \<lparr>ds_packages = \<lparr>sd_added = [], sd_removed = [], sd_modified = [], sd_total = 0\<rparr>,
       ds_imports = \<lparr>sd_added = [], sd_removed = [], sd_modified = [], sd_total = 0\<rparr>,
       ds_types = \<lparr>sd_added = [], sd_removed = [], sd_modified = [], sd_total = 0\<rparr>,
       ds_functions = \<lparr>sd_added = [], sd_removed = [], sd_modified = [], sd_total = 0\<rparr>,
       ds_constants = \<lparr>sd_added = [], sd_removed = [], sd_modified = [], sd_total = 0\<rparr>,
       ds_interfaces = \<lparr>sd_added = [], sd_removed = [], sd_modified = [], sd_total = 0\<rparr>,
       ds_arch_layers = \<lparr>sd_added = [], sd_removed = [], sd_modified = [], sd_total = 0\<rparr>,
       ds_contracts = \<lparr>sd_added = [], sd_removed = [], sd_modified = [], sd_total = 0\<rparr>\<rparr>"
proof -
  have "\<not> any_change (all_sections s s)" by (simp add: no_change_agree snapshots_agree_refl)
  then show ?thesis by (simp add: any_change_def all_sections_def empty_section)
qed

text \<open>
  Property (an unchanged project is clean). A snapshot analysed against itself gives a report
  without findings and with the verdict clean.
\<close>

theorem unchanged_project_clean:
  "\<exists>r. analyze_snapshots s s = Inr r \<and> bd_findings r = [] \<and> bd_verdict r = DriftClean"
proof -
  obtain d where d: "diff_snapshots s s = Inr d" "df_sections d = all_sections s s"
      "df_stats d = diff_stats (snap_stats s) (snap_stats s)"
    by (simp add: diff_snapshots_def Let_def)
  have pk: "dl_total_packages (diff_stats (snap_stats s) (snap_stats s)) = 0" by (simp add: diff_stats_def)
  have "collect_findings d s s = []"
    by (simp add: collect_findings_def collect_contract_surface_drift_def collect_interface_drift_def
        collect_layer_boundary_drift_def collect_type_breaking_drift_def collect_api_signature_drift_def
        collect_coupling_increase_def collect_isolation_loss_def collect_contract_proliferation_def
        collect_structural_scale_shift_def scale_shift_def diff_stats_self pk d all_sections_self)
  with d(1) show ?thesis
    by (simp add: analyze_snapshots_def Let_def drift_summary_of_def of_severity_def verdict_of_def)
qed

theorem drift_report_consistent_witness:
  "\<exists>r. analyze_snapshots (demo_snapshot [] [demo_interface [''Get'']] []) (demo_snapshot [] [] []) = Inr r
     \<and> (bd_verdict r = Drifted \<longleftrightarrow> (\<exists>f\<in>set (bd_findings r). dr_severity f = ''critical''))"
proof -
  obtain r where "analyze_snapshots (demo_snapshot [] [demo_interface [''Get'']] []) (demo_snapshot [] [] []) = Inr r"
    by (simp add: analyze_snapshots_def diff_snapshots_def Let_def demo_snapshot_def build_snapshot_from_index_def)
  with drift_report_consistent [OF this] show ?thesis by blast
qed

text \<open>
  C23 (a lost method drifts). For two snapshots of the same schema version, taking of several
  interfaces of one package and name the last: if that interface of the baseline has a method which
  that of the same package and name in the current snapshot lacks, the verdict is drifted and a
  critical \<open>interface-breaking\<close> finding has the lost method among its evidence.
\<close>

theorem lost_method_drifts:
  assumes "snap_version b = snap_version a"
    and "last_of (\<lambda>i. (ne_package i, ne_name i)) (p, n) (snap_interfaces b) = Some i"
    and "last_of (\<lambda>i. (ne_package i, ne_name i)) (p, n) (snap_interfaces a) = Some j"
    and "m \<in> set (ne_methods i)" and "m \<notin> set (ne_methods j)"
  shows "\<exists>r. analyze_snapshots b a = Inr r \<and> bd_verdict r = Drifted
     \<and> (\<exists>f\<in>set (bd_findings r). dr_class f = ''interface-breaking'' \<and> dr_severity f = ''critical''
          \<and> ''Method '' @ quote1 m @ '' removed.'' \<in> set (dr_evidence f))"
proof -
  obtain d where d: "diff_snapshots b a = Inr d" "df_sections d = all_sections b a"
    using assms(1) by (simp add: diff_snapshots_def Let_def)
  obtain dl where dl: "dl \<in> set (sd_modified (ds_interfaces (all_sections b a)))" "m \<in> set (nd_methods_removed dl)"
    using lost_method_delta [OF assms(2-5)] by blast
  let ?P = "\<lambda>f. dr_class f = ''interface-breaking'' \<and> dr_severity f = ''critical''
          \<and> ''Method '' @ quote1 m @ '' removed.'' \<in> set (dr_evidence f)"
  have "\<exists>f\<in>set (changed_interface dl). ?P f"
  proof (rule bexI [where x = "hd (changed_interface dl)"])
    have "nd_methods_removed dl \<noteq> []" using dl(2) by auto
    then show "?P (hd (changed_interface dl))" "hd (changed_interface dl) \<in> set (changed_interface dl)"
      using dl(2) by (auto simp: changed_interface_def Let_def mk_drift_def)
  qed
  then have "\<exists>f\<in>set (collect_findings d b a). ?P f"
    using dl(1) unfolding collect_findings_def collect_interface_drift_def Let_def d(2) by auto
  then obtain f where f: "f \<in> set (collect_findings d b a)" "?P f" by blast
  then have "of_severity ''critical'' (collect_findings d b a) \<noteq> []" by (auto simp: of_severity_def filter_empty_conv)
  then have "0 < length (of_severity ''critical'' (sort_key (\<lambda>f. drift_rank (dr_severity f)) (collect_findings d b a)))"
    by (auto simp: of_severity_def filter_empty_conv)
  with f show ?thesis
    by (auto simp: analyze_snapshots_def d(1) Let_def verdict_of_def drift_summary_of_def)
qed

theorem lost_method_drifts_witness:
  "\<exists>r. analyze_snapshots (demo_snapshot [] [demo_interface [''Get'']] []) (demo_snapshot [] [demo_interface []] []) = Inr r
     \<and> bd_verdict r = Drifted
     \<and> (\<exists>f\<in>set (bd_findings r). dr_class f = ''interface-breaking'' \<and> dr_severity f = ''critical''
          \<and> ''Method '' @ quote1 ''Get'' @ '' removed.'' \<in> set (dr_evidence f))"
  by (rule lost_method_drifts [where p = "''db''" and n = "''Store''" and i = "demo_interface [''Get'']"
        and j = "demo_interface []"])
     (simp_all add: demo_snapshot_def build_snapshot_from_index_def Let_def last_of_def demo_interface_def)

definition demo_layered :: "(string \<times> string list) list \<Rightarrow> snapshot" where
  "demo_layered imps =
     (demo_snapshot [] [] [])
       \<lparr>snap_imports := map (\<lambda>(p, dirs). \<lparr>ie_path = p, ie_kind = ''internal'', ie_used_by = dirs, ie_provenance = Ast\<rparr>) imps,
        snap_arch_layers := [\<lparr>le_package_dir = ''internal/adapters/db'', le_layer = ''adapters'', le_provenance = Inferred\<rparr>,
                             \<lparr>le_package_dir = ''internal/domain/order'', le_layer = ''domain'', le_provenance = Inferred\<rparr>]\<rparr>"

text \<open>
  Property (isolation loss is seen for new import paths only). When the domain starts to import an
  adapter package that something else imported already, the import is modified and not added, and
  the report has no finding at all; with the same import as the first of its path it is critical.
\<close>

theorem isolation_loss_needs_new_path:
  "(case analyze_snapshots (demo_layered [(''m/internal/adapters/db'', [''cmd/x''])])
           (demo_layered [(''m/internal/adapters/db'', [''cmd/x'', ''internal/domain/order''])]) of
      Inr r \<Rightarrow> bd_findings r = [] \<and> bd_verdict r = DriftClean | Inl _ \<Rightarrow> False)
   \<and> (case analyze_snapshots (demo_layered [])
           (demo_layered [(''m/internal/adapters/db'', [''cmd/x'', ''internal/domain/order''])]) of
      Inr r \<Rightarrow> bd_verdict r = Drifted | Inl _ \<Rightarrow> False)"
  unfolding demo_layered_def demo_snapshot_def by code_simp

end
