(* ===== verification/ImpactMap.thy ===== *)
theory ImpactMap
  imports LspBridge SourceText
begin

text \<open>
  The impact map (\<open>analyzers/impact_map.rs\<close>): a target is resolved in the index as a file, a
  package or a symbol; its exported symbols, dependents, contract surface, sensitive areas and
  risks follow from the index; with \<open>gopls\<close> at hand, references to the exported symbols are
  collected as well. A \<open>BTreeSet\<close> of strings is a sorted list without repetitions.
\<close>

section \<open>The report\<close>

datatype target_kind = TargetFile | TargetPackage | TargetSymbol | TargetUnresolved

record exported_symbol =
  xs_name :: string
  xs_kind :: string
  xs_location :: string

record dependent =
  dp_package_dir :: string
  dp_import_path :: string
  dp_basis :: string

record contract_item =
  ci_name :: string
  ci_kind :: string
  ci_location :: string
  ci_why :: string

record area_match =
  am_name :: string
  am_description :: string

record risk =
  rk_description :: string
  rk_basis :: string

record target_impact =
  ti_target :: string
  ti_kind :: target_kind
  ti_resolved_package :: "string option"
  ti_resolved_files :: "string list"
  ti_exported_symbols :: "exported_symbol list"
  ti_direct_dependents :: "dependent list"
  ti_contract_surface :: "contract_item list"
  ti_sensitive_areas :: "area_match list"
  ti_risks :: "risk list"
  ti_recommended_commands :: "string list"

record impact_lsp =
  il_status :: lsp_status
  il_queried_symbols :: "string list"
  il_references :: "lsp_ref list"

record impact_report =
  ir_targets :: "string list"
  ir_impacts :: "target_impact list"
  ir_recommended_commands :: "string list"
  ir_sensitive_areas :: "string list"
  ir_scope_note :: string
  ir_lsp :: "impact_lsp option"

definition empty_impact_report :: impact_report where
  "empty_impact_report =
     \<lparr>ir_targets = [], ir_impacts = [], ir_recommended_commands = [], ir_sensitive_areas = [],
      ir_scope_note = ''No targets provided.'', ir_lsp = None\<rparr>"

section \<open>Sensitive areas\<close>

record area_def =
  ad_name :: string
  ad_description :: string
  ad_patterns :: "string list"
  ad_commands :: "string list"

definition cli :: "string \<Rightarrow> string" where
  "cli sub = ''raccoon-cli '' @ sub"

definition dash :: "string \<Rightarrow> string \<Rightarrow> string" where
  "dash a b = a @ '' '' @ em_dash @ '' '' @ b"

definition impact_area :: "string \<Rightarrow> string \<Rightarrow> string list \<Rightarrow> string list \<Rightarrow> area_def" where
  "impact_area name description patterns subs =
     \<lparr>ad_name = name, ad_description = description, ad_patterns = patterns, ad_commands = map cli subs\<rparr>"

definition impact_areas :: "area_def list" where
  "impact_areas =
     [impact_area ''config-files'' (dash ''deploy/configs'' ''service configuration'') [''deploy/configs/'']
        [''doctor'', ''topology-doctor'', ''drift-detect''],
      impact_area ''compose'' (dash ''docker-compose'' ''service orchestration'') [''deploy/compose/'']
        [''doctor'', ''topology-doctor'', ''drift-detect''],
      impact_area ''nats-adapters'' ''NATS/JetStream adapter layer'' [''internal/adapters/nats/'']
        [''contract-audit'', ''runtime-bindings'', ''arch-guard''],
      impact_area ''kafka-adapters'' ''Kafka adapter layer'' [''internal/adapters/kafka/'']
        [''topology-doctor'', ''runtime-bindings'', ''arch-guard''],
      impact_area ''domain'' (dash ''domain layer'' ''business rules (must be pure)'') [''internal/domain/'']
        [''arch-guard'', ''contract-audit''],
      impact_area ''application'' (dash ''application layer'' ''use cases and ports'') [''internal/application/'']
        [''arch-guard'', ''contract-audit''],
      impact_area ''http-handlers'' (dash ''HTTP interface layer'' ''API endpoints'') [''internal/interfaces/http/'']
        [''arch-guard''],
      impact_area ''actors'' (dash ''actor supervision trees'' ''runtime wiring'') [''internal/actors/'']
        [''arch-guard'', ''runtime-bindings''],
      impact_area ''validator-logic'' (dash ''validator'' ''validation rules and results'')
        [''internal/actors/scopes/validator/'', ''internal/application/validatorresults/'']
        [''contract-audit'', ''runtime-bindings'', ''scenario-smoke happy-path''],
      impact_area ''consumer-pipeline'' (dash ''consumer'' ''kafka-to-jetstream bridging'')
        [''internal/actors/scopes/consumer/'', ''internal/application/dataplane/'']
        [''topology-doctor'', ''runtime-bindings'', ''scenario-smoke happy-path''],
      impact_area ''config-lifecycle'' (dash ''configctl'' ''config draft/validate/compile/activate'')
        [''internal/actors/scopes/configctl/'', ''internal/application/configctl/'']
        [''contract-audit'', ''scenario-smoke config-lifecycle'']]"

definition matching_areas :: "string \<Rightarrow> area_def list" where
  "matching_areas p = filter (\<lambda>a. list_ex (contains p) (ad_patterns a)) impact_areas"

definition match_areas :: "string \<Rightarrow> area_match list \<times> string list" where
  "match_areas p =
     (let as = matching_areas p in
      (map (\<lambda>a. \<lparr>am_name = ad_name a, am_description = ad_description a\<rparr>) as,
       sort_dedup (concat (map ad_commands as) @ (if as \<noteq> [] then [cli ''quality-gate''] else []))))"

section \<open>Exported symbols and dependents\<close>

definition type_kind_label :: "type_kind \<Rightarrow> string" where
  "type_kind_label k =
     (case k of StructKind _ \<Rightarrow> ''struct'' | InterfaceKind _ _ \<Rightarrow> ''interface'' | AliasKind _ \<Rightarrow> ''type_alias'')"

definition loc_text :: "location \<Rightarrow> string" where
  "loc_text l = loc_file l @ '':'' @ show_nat (loc_line l)"

definition exported_types :: "go_type list \<Rightarrow> exported_symbol list" where
  "exported_types ts =
     map (\<lambda>t. \<lparr>xs_name = ty_name t, xs_kind = type_kind_label (ty_kind t), xs_location = loc_text (ty_location t)\<rparr>)
       (filter (\<lambda>t. ty_visibility t = Exported) ts)"

definition exported_funcs :: "go_func list \<Rightarrow> exported_symbol list" where
  "exported_funcs fs =
     map (\<lambda>f. \<lparr>xs_name = fn_name f, xs_kind = (if fn_receiver f \<noteq> None then ''method'' else ''func''),
               xs_location = loc_text (fn_location f)\<rparr>)
       (filter (\<lambda>f. fn_visibility f = Exported) fs)"

definition exported_consts :: "go_const list \<Rightarrow> exported_symbol list" where
  "exported_consts cs =
     map (\<lambda>c. \<lparr>xs_name = co_name c, xs_kind = ''const'', xs_location = loc_text (co_location c)\<rparr>)
       (filter (\<lambda>c. co_visibility c = Exported) cs)"

definition file_symbols :: "go_file \<Rightarrow> exported_symbol list" where
  "file_symbols f = exported_types (gf_types f) @ exported_funcs (gf_functions f) @ exported_consts (gf_constants f)"

definition exported_from_file :: "project_index \<Rightarrow> string \<Rightarrow> exported_symbol list" where
  "exported_from_file ix p = concat (map file_symbols (filter (\<lambda>f. gf_path f = p) (px_files ix)))"

definition exported_from_package :: "project_index \<Rightarrow> string \<Rightarrow> exported_symbol list" where
  "exported_from_package ix dir =
     concat (map file_symbols (filter (\<lambda>f. \<not> gf_is_test f) (files_in_dir ix dir)))"

definition import_matches_dir :: "string \<Rightarrow> string \<Rightarrow> bool" where
  "import_matches_dir p dir = (ends_with p dir \<or> ends_with p (''/'' @ dir))"

definition dependent_of :: "string \<Rightarrow> go_package \<Rightarrow> dependent option" where
  "dependent_of dir pkg =
     (if pk_dir pkg = dir then None
      else map_option (\<lambda>imp. \<lparr>dp_package_dir = pk_dir pkg, dp_import_path = im_path imp,
                              dp_basis = ''observed: direct import in AST''\<rparr>)
             (find (\<lambda>imp. im_kind imp = Internal \<and> import_matches_dir (im_path imp) dir) (pk_imports pkg)))"

definition find_dependents :: "project_index \<Rightarrow> string \<Rightarrow> dependent list" where
  "find_dependents ix dir = List.map_filter (dependent_of dir) (px_packages ix)"

section \<open>The contract surface\<close>

definition is_message_type :: "string \<Rightarrow> string \<Rightarrow> bool" where
  "is_message_type name file_path =
     (list_ex (ends_with name)
        [''Command'', ''Query'', ''Reply'', ''Event'', ''Request'', ''Response'', ''Message'']
      \<or> list_ex (contains file_path) [''contracts/'', ''messages'', ''events''])"

definition contract_item_of :: "string \<Rightarrow> string \<Rightarrow> location \<Rightarrow> string \<Rightarrow> contract_item" where
  "contract_item_of name kind l why =
     \<lparr>ci_name = name, ci_kind = kind, ci_location = loc_text l, ci_why = why\<rparr>"

definition type_contracts :: "go_type \<Rightarrow> contract_item list" where
  "type_contracts t =
     (if ty_visibility t \<noteq> Exported then []
      else
        (let l = ty_location t in
         case ty_kind t of
           InterfaceKind methods _ \<Rightarrow>
             contract_item_of (ty_name t) ''interface'' l
               (if contains (loc_file l) ''ports'' then dash ''port interface'' ''changes affect all implementations''
                else dash ''exported interface'' ''changes affect all implementors'')
             # map (\<lambda>m. contract_item_of (ty_name t @ ''.'' @ mt_name m) ''interface_method'' (mt_location m)
                  ''changing interface method signature breaks all implementors'') methods
         | StructKind flds \<Rightarrow>
             (if is_message_type (ty_name t) (loc_file l) then
                (let names = map sf_name (filter (\<lambda>f. sf_visibility f = Exported) flds) in
                 [contract_item_of (ty_name t) ''message_type'' l
                    (dash ''message struct'' ''field changes affect serialization (fields: ''
                     @ (if names = [] then ''none'' else join '', '' names) @ '')'')])
              else [])
         | AliasKind _ \<Rightarrow>
             (if contains (loc_file l) ''contracts'' \<or> contains (loc_file l) ''events'' then
                [contract_item_of (ty_name t) ''contract_type'' l
                   (dash ''type alias in contract layer'' ''changes affect message encoding'')]
              else [])))"

definition contracts_of_types :: "go_type list \<Rightarrow> contract_item list" where
  "contracts_of_types ts = concat (map type_contracts ts)"

definition contracts_in_file :: "project_index \<Rightarrow> string \<Rightarrow> contract_item list" where
  "contracts_in_file ix p =
     concat (map (\<lambda>f. contracts_of_types (gf_types f)) (filter (\<lambda>f. gf_path f = p) (px_files ix)))"

definition contracts_in_package :: "project_index \<Rightarrow> string \<Rightarrow> contract_item list" where
  "contracts_in_package ix dir =
     concat (map (\<lambda>f. contracts_of_types (gf_types f)) (filter (\<lambda>f. \<not> gf_is_test f) (files_in_dir ix dir)))"

section \<open>Risks\<close>

definition compute_risks :: "exported_symbol list \<Rightarrow> contract_item list \<Rightarrow> dependent list \<Rightarrow> risk list" where
  "compute_risks symbols contracts dependents =
     (let kinds = (\<lambda>k. length (filter (\<lambda>c. ci_kind c = k) contracts));
          observed = (\<lambda>d. \<lparr>rk_description = d, rk_basis = ''observed''\<rparr>)
      in (if 0 < kinds ''interface'' then
            [observed (show_nat (kinds ''interface'')
               @ dash '' interface(s) in contract surface'' ''signature changes break implementors'')] else [])
       @ (if 0 < kinds ''message_type'' then
            [observed (show_nat (kinds ''message_type'')
               @ dash '' message type(s)'' ''field changes affect serialization/deserialization across services'')] else [])
       @ (if 3 < length dependents then
            [observed (''high fan-out: '' @ show_nat (length dependents)
               @ dash '' packages depend on this'' ''changes have wide blast radius'')]
          else if dependents \<noteq> [] then
            [observed (show_nat (length dependents)
               @ dash '' direct dependent package(s)'' ''verify they still compile and behave correctly'')]
          else [])
       @ (if 10 < length symbols then
            [\<lparr>rk_description = show_nat (length symbols)
                @ dash '' exported symbols'' ''large API surface increases coupling risk'',
              rk_basis = ''inferred''\<rparr>] else []))"

section \<open>Resolving a target\<close>

definition mk_impact :: "string \<Rightarrow> target_kind \<Rightarrow> string option \<Rightarrow> string list \<Rightarrow> exported_symbol list
                        \<Rightarrow> dependent list \<Rightarrow> contract_item list \<Rightarrow> string \<Rightarrow> target_impact" where
  "mk_impact target kind package fs symbols dependents contracts area_path =
     \<lparr>ti_target = target, ti_kind = kind, ti_resolved_package = package, ti_resolved_files = fs,
      ti_exported_symbols = symbols, ti_direct_dependents = dependents, ti_contract_surface = contracts,
      ti_sensitive_areas = fst (match_areas area_path), ti_risks = compute_risks symbols contracts dependents,
      ti_recommended_commands = snd (match_areas area_path)\<rparr>"

definition drop_dot_slash :: "string \<Rightarrow> string" where
  "drop_dot_slash target = trim_start_str target ''./''"

definition try_as_file :: "project_index \<Rightarrow> string \<Rightarrow> target_impact option" where
  "try_as_file ix target =
     (let normalized = drop_dot_slash target in
      map_option (\<lambda>f. mk_impact target TargetFile (map_option pk_dir (find_package ix (file_dir (gf_path f))))
          [gf_path f] (exported_from_file ix normalized) (find_dependents ix (file_dir (gf_path f)))
          (contracts_in_file ix normalized) normalized)
        (find (\<lambda>f. gf_path f = normalized) (px_files ix)))"

definition try_as_package :: "project_index \<Rightarrow> string \<Rightarrow> target_impact option" where
  "try_as_package ix target =
     (let normalized = trim_end_char (drop_dot_slash target) CHR ''/'' in
      map_option (\<lambda>pkg. mk_impact target TargetPackage (Some (pk_dir pkg)) (pk_files pkg)
          (exported_from_package ix normalized) (find_dependents ix normalized)
          (contracts_in_package ix normalized) normalized)
        (find_package ix normalized))"

definition keep_dependent :: "dependent \<Rightarrow> dependent option \<Rightarrow> dependent" where
  "keep_dependent d o1 = (case o1 of Some e \<Rightarrow> e | None \<Rightarrow> d)"

definition merge_dependents :: "dependent list \<Rightarrow> dependent list" where
  "merge_dependents ds = map snd (fold (\<lambda>d. bt_alter (dp_package_dir d) (keep_dependent d)) ds [])"

definition first_or_empty :: "string list \<Rightarrow> string" where
  "first_or_empty fs = (case fs of [] \<Rightarrow> [] | f # _ \<Rightarrow> f)"

definition try_as_symbol :: "project_index \<Rightarrow> string \<Rightarrow> target_impact option" where
  "try_as_symbol ix target =
     (let types = find_type ix target; funcs = find_func ix target;
          locs = map ty_location types @ map fn_location funcs;
          fs = sort_dedup (map loc_file locs); dirs = sort_dedup (map (\<lambda>l. file_dir (loc_file l)) locs)
      in if types = [] \<and> funcs = [] then None
         else
           Some (mk_impact target TargetSymbol (case dirs of [] \<Rightarrow> None | d # _ \<Rightarrow> Some d) fs
             (exported_types types @ exported_funcs funcs)
             (merge_dependents (concat (map (find_dependents ix) dirs)))
             (concat (map (contracts_in_file ix) fs)) (first_or_empty fs)))"

definition unresolved_impact :: "string \<Rightarrow> target_impact" where
  "unresolved_impact target =
     (let areas = fst (match_areas target) in
      (mk_impact target TargetUnresolved None [] [] [] [] target)
        \<lparr>ti_risks :=
           (if areas \<noteq> [] then
              [\<lparr>rk_description = ''target '' @ quote1 target @ '' not found in AST index but matches known project paths'',
                rk_basis = ''inferred''\<rparr>]
            else
              [\<lparr>rk_description = ''target '' @ quote1 target
                  @ '' not found in AST index and does not match any known area'', rk_basis = ''observed''\<rparr>])\<rparr>)"

definition analyze_target :: "project_index \<Rightarrow> string \<Rightarrow> target_impact" where
  "analyze_target ix target =
     (case try_as_file ix target of
        Some i \<Rightarrow> i
      | None \<Rightarrow>
          (case try_as_package ix target of
             Some i \<Rightarrow> i
           | None \<Rightarrow> (case try_as_symbol ix target of Some i \<Rightarrow> i | None \<Rightarrow> unresolved_impact target)))"

definition static_scope_note :: string where
  "static_scope_note =
     ''Impact is computed from static import graphs and exported symbol analysis. ''
     @ ''No call graph, type resolution, or runtime tracing is available.''"

definition impact_of_index :: "project_index \<Rightarrow> string list \<Rightarrow> impact_report" where
  "impact_of_index ix targets =
     (let impacts = map (analyze_target ix) targets in
      \<lparr>ir_targets = targets, ir_impacts = impacts,
       ir_recommended_commands = sort_dedup (concat (map ti_recommended_commands impacts)),
       ir_sensitive_areas = sort_dedup (concat (map (\<lambda>i. map am_name (ti_sensitive_areas i)) impacts)),
       ir_scope_note = static_scope_note, ir_lsp = None\<rparr>)"

definition impact_analyze :: "fs_node \<Rightarrow> string list \<Rightarrow> impact_report" where
  "impact_analyze root targets = impact_of_index (build_index root) targets"

section \<open>Enrichment by gopls\<close>

text \<open>
  The state of the loop over symbols. A query that does not return makes the analysis not return:
  \<open>None\<close>.
\<close>

record lsp_walk =
  lw_queried :: "string list"
  lw_refs :: "lsp_ref list"
  lw_status :: lsp_status
  lw_bridge :: bridge

definition same_place :: "lsp_ref \<Rightarrow> lsp_ref \<Rightarrow> bool" where
  "same_place a b = (lf_location a = lf_location b)"

definition push_ref :: "lsp_ref \<Rightarrow> lsp_ref list \<Rightarrow> lsp_ref list" where
  "push_ref r rs = (if list_ex (same_place r) rs then rs else rs @ [r])"

definition bridge_is_available :: "bridge \<Rightarrow> bool" where
  "bridge_is_available b = (br_client b \<noteq> None)"

definition initial_status :: "bridge \<Rightarrow> lsp_status" where
  "initial_status b =
     (if bridge_is_available b then NoResults
      else Unavailable (case br_unavailable_reason b of Some r \<Rightarrow> r | None \<Rightarrow> ''gopls not available''))"

definition query_symbol :: "(string \<Rightarrow> bridge \<Rightarrow> (enriched_symbol \<times> bridge) option) \<Rightarrow> string
                            \<Rightarrow> lsp_walk \<Rightarrow> lsp_walk option" where
  "query_symbol enrich name w =
     (if name \<in> set (lw_queried w) then Some w
      else map_option (\<lambda>(es, b).
          w\<lparr>lw_queried := lw_queried w @ [name],
            lw_refs := fold push_ref (es_lsp_references es) (lw_refs w),
            lw_status := (if es_lsp_status es = Enriched then Enriched else lw_status w),
            lw_bridge := b\<rparr>)
        (enrich name (lw_bridge w)))"

fun query_all :: "(string \<Rightarrow> bridge \<Rightarrow> (enriched_symbol \<times> bridge) option) \<Rightarrow> string list
                  \<Rightarrow> lsp_walk \<Rightarrow> lsp_walk option" where
  "query_all enrich [] w = Some w"
| "query_all enrich (n # ns) w = Option.bind (query_symbol enrich n w) (query_all enrich ns)"

definition lsp_limit :: nat where
  "lsp_limit = 10"

definition symbols_to_query :: "impact_report \<Rightarrow> string list" where
  "symbols_to_query r = concat (map (\<lambda>i. map xs_name (take lsp_limit (ti_exported_symbols i))) (ir_impacts r))"

definition lsp_scope_note :: "lsp_status \<Rightarrow> string" where
  "lsp_scope_note st =
     (case st of
        Enriched \<Rightarrow>
          ''Impact combines static import graphs and exported symbol analysis with gopls semantic references ''
          @ ''(cross-package call sites). Each source is tagged [ast] or [lsp].''
      | NoResults \<Rightarrow>
          ''Impact is computed from static import graphs and exported symbol analysis. ''
          @ ''gopls was available but returned no additional references.''
      | Unavailable reason \<Rightarrow>
          ''Impact is computed from static import graphs and exported symbol analysis. ''
          @ ''LSP enrichment unavailable: '' @ reason @ ''.'')"

definition impact_with_lsp :: "'j json_api \<Rightarrow> (string \<Rightarrow> string) \<Rightarrow> fs_node \<Rightarrow> string list \<Rightarrow> bridge
                               \<Rightarrow> (impact_report \<times> bridge) option" where
  "impact_with_lsp api join_root root targets b =
     (let report = impact_analyze root targets; ix = build_index root in
      map_option (\<lambda>w.
          (report\<lparr>ir_lsp := Some \<lparr>il_status = lw_status w, il_queried_symbols = sort (lw_queried w),
                                   il_references = lw_refs w\<rparr>,
                  ir_scope_note := lsp_scope_note (lw_status w)\<rparr>, lw_bridge w))
        (query_all (enrich_symbol_with_index api join_root ix) (symbols_to_query report)
           \<lparr>lw_queried = [], lw_refs = [], lw_status = initial_status b, lw_bridge = b\<rparr>))"

section \<open>Rendering\<close>

definition target_kind_label :: "target_kind \<Rightarrow> string" where
  "target_kind_label k =
     (case k of TargetFile \<Rightarrow> ''file'' | TargetPackage \<Rightarrow> ''package'' | TargetSymbol \<Rightarrow> ''symbol''
      | TargetUnresolved \<Rightarrow> ''unresolved'')"

definition lines_of :: "('a \<Rightarrow> string) \<Rightarrow> 'a list \<Rightarrow> string" where
  "lines_of f xs = concat (map (\<lambda>x. f x @ nl) xs)"

text \<open>A heading and its lines, left out when there are none.\<close>

definition block :: "string \<Rightarrow> ('a \<Rightarrow> string) \<Rightarrow> 'a list \<Rightarrow> string" where
  "block title f xs = (if xs = [] then [] else title @ nl @ lines_of f xs)"

definition counted :: "string \<Rightarrow> 'a list \<Rightarrow> string" where
  "counted label xs = label @ '' ('' @ show_nat (length xs) @ '')''"

text \<open>Lists that are cut after \<open>limit\<close> lines unless the output is verbose.\<close>

definition cut_lines :: "bool \<Rightarrow> nat \<Rightarrow> ('a \<Rightarrow> string) \<Rightarrow> 'a list \<Rightarrow> string" where
  "cut_lines verbose limit f xs =
     lines_of f (if verbose then xs else take limit xs)
     @ (if \<not> verbose \<and> limit < length xs
        then ''    ... and '' @ show_nat (length xs - limit) @ '' more (use --verbose to see all)'' @ nl else [])"

definition render_target :: "bool \<Rightarrow> target_impact \<Rightarrow> string" where
  "render_target verbose i =
     ''Target: '' @ ti_target i @ '' ['' @ target_kind_label (ti_kind i) @ '']'' @ nl
     @ (case ti_resolved_package i of Some p \<Rightarrow> ''  Package: '' @ p @ nl | None \<Rightarrow> [])
     @ (if ti_kind i = TargetUnresolved then ''  (not found in AST index)'' @ nl else [])
     @ (if verbose then block ''  Files:'' (\<lambda>f. ''    '' @ f) (ti_resolved_files i) else [])
     @ (if ti_exported_symbols i = [] then []
        else counted ''  Exported symbols'' (ti_exported_symbols i) @ '': [ast]'' @ nl
          @ cut_lines verbose 10
              (\<lambda>s. ''    '' @ xs_name s @ '' ['' @ xs_kind s @ ''] at '' @ xs_location s) (ti_exported_symbols i))
     @ block (counted ''  Contract surface'' (ti_contract_surface i) @ '': [ast]'')
         (\<lambda>c. ''    '' @ ci_name c @ '' ['' @ ci_kind c @ ''] at '' @ ci_location c @ nl @ ''      why: '' @ ci_why c)
         (ti_contract_surface i)
     @ block (counted ''  Direct dependents'' (ti_direct_dependents i) @ '': [ast]'')
         (\<lambda>d. ''    '' @ dp_package_dir d @ '' ('' @ dp_basis d @ '')'') (ti_direct_dependents i)
     @ block ''  Sensitive areas:'' (\<lambda>a. ''    '' @ dash (am_name a) (am_description a)) (ti_sensitive_areas i)
     @ block ''  Risks:'' (\<lambda>r. ''    ['' @ rk_basis r @ ''] '' @ rk_description r) (ti_risks i)
     @ nl"

definition render_lsp_status :: "lsp_status \<Rightarrow> string" where
  "render_lsp_status st =
     (case st of
        Enriched \<Rightarrow> ''LSP: enriched (gopls connected)''
      | NoResults \<Rightarrow> ''LSP: connected but no additional references''
      | Unavailable reason \<Rightarrow> ''LSP: unavailable ('' @ reason @ '')'') @ nl"

definition render_lsp_ref :: "lsp_ref \<Rightarrow> string" where
  "render_lsp_ref r =
     (let place = ''    '' @ loc_text (lf_location r) in
      case lf_context r of
        Some c \<Rightarrow> (if c = [] then place else dash place c)
      | None \<Rightarrow> place)"

definition render_lsp_refs :: "bool \<Rightarrow> impact_lsp \<Rightarrow> string" where
  "render_lsp_refs verbose l =
     (if il_references l = [] then []
      else counted ''Semantic references'' (il_references l) @ '': [lsp]'' @ nl
        @ ''  (cross-package call sites found by gopls for: '' @ join '', '' (il_queried_symbols l) @ '')'' @ nl
        @ cut_lines verbose 20 render_lsp_ref (il_references l) @ nl)"

definition render_impact :: "impact_report \<Rightarrow> bool \<Rightarrow> string" where
  "render_impact r verbose =
     ''=== Impact Map ==='' @ nl @ nl
     @ (case ir_lsp r of Some l \<Rightarrow> render_lsp_status (il_status l) @ nl | None \<Rightarrow> [])
     @ concat (map (render_target verbose) (ir_impacts r))
     @ (case ir_lsp r of Some l \<Rightarrow> render_lsp_refs verbose l | None \<Rightarrow> [])
     @ (if ir_recommended_commands r = [] then []
        else block ''Recommended checks:'' (\<lambda>c. ''  $ '' @ c) (ir_recommended_commands r) @ nl)
     @ ''Scope: '' @ ir_scope_note r @ nl"

end
