(* ===== verification/ImpactProps.thy ===== *)
theory ImpactProps
  imports ImpactMap
begin

text \<open>
  Properties of the impact map: how a target is resolved, what its dependents, contracts and
  commands are, and what enrichment by \<open>gopls\<close> may add.
\<close>

section \<open>Resolution\<close>

lemma kind_mk_impact [simp]:
  "ti_kind (mk_impact t k p f s d c a) = k" "ti_target (mk_impact t k p f s d c a) = t"
  "ti_exported_symbols (mk_impact t k p f s d c a) = s" "ti_direct_dependents (mk_impact t k p f s d c a) = d"
  "ti_recommended_commands (mk_impact t k p f s d c a) = snd (match_areas a)"
  "ti_sensitive_areas (mk_impact t k p f s d c a) = fst (match_areas a)"
  "ti_resolved_files (mk_impact t k p f s d c a) = f"
  by (simp_all add: mk_impact_def)

lemma find_None_iff_all: "find P xs = None \<longleftrightarrow> (\<forall>x\<in>set xs. \<not> P x)"
  by (auto simp: find_None_iff)

lemma as_file_None: "try_as_file ix t = None \<longleftrightarrow> (\<forall>f\<in>set (px_files ix). gf_path f \<noteq> drop_dot_slash t)"
  by (simp add: try_as_file_def Let_def find_None_iff_all)

lemma as_package_None:
  "try_as_package ix t = None
     \<longleftrightarrow> (\<forall>p\<in>set (px_packages ix). pk_dir p \<noteq> trim_end_char (drop_dot_slash t) CHR ''/'')"
  by (simp add: try_as_package_def Let_def find_package_def find_None_iff_all)

lemma as_symbol_None: "try_as_symbol ix t = None \<longleftrightarrow> find_type ix t = [] \<and> find_func ix t = []"
  by (simp add: try_as_symbol_def Let_def)

lemma as_kinds:
  "try_as_file ix t = Some i \<Longrightarrow> ti_kind i = TargetFile"
  "try_as_package ix t = Some i \<Longrightarrow> ti_kind i = TargetPackage"
  "try_as_symbol ix t = Some i \<Longrightarrow> ti_kind i = TargetSymbol"
  by (auto simp: try_as_file_def try_as_package_def try_as_symbol_def Let_def split: if_splits)

text \<open>
  Property (resolution of a target). A target is a file exactly when the index has a file of that
  path, else a package when it has one in that directory, else a symbol when a type or function has
  that name, and else unresolved; the impact names the target as it was given.
\<close>

theorem target_resolution:
  "ti_target (analyze_target ix t) = t
   \<and> (ti_kind (analyze_target ix t) = TargetFile \<longleftrightarrow> (\<exists>f\<in>set (px_files ix). gf_path f = drop_dot_slash t))
   \<and> (ti_kind (analyze_target ix t) = TargetPackage \<longleftrightarrow>
        \<not> (\<exists>f\<in>set (px_files ix). gf_path f = drop_dot_slash t)
        \<and> (\<exists>p\<in>set (px_packages ix). pk_dir p = trim_end_char (drop_dot_slash t) CHR ''/''))
   \<and> (ti_kind (analyze_target ix t) = TargetUnresolved \<longleftrightarrow>
        \<not> (\<exists>f\<in>set (px_files ix). gf_path f = drop_dot_slash t)
        \<and> \<not> (\<exists>p\<in>set (px_packages ix). pk_dir p = trim_end_char (drop_dot_slash t) CHR ''/'')
        \<and> find_type ix t = [] \<and> find_func ix t = [])"
proof (cases "try_as_file ix t")
  case (Some i)
  moreover have "ti_target i = t" using Some by (auto simp: try_as_file_def Let_def)
  ultimately show ?thesis using as_kinds(1) [OF Some] as_file_None [of ix t] by (auto simp: analyze_target_def)
next
  case None
  note nofile = None
  show ?thesis
  proof (cases "try_as_package ix t")
    case (Some i)
    moreover have "ti_target i = t" using Some by (auto simp: try_as_package_def Let_def)
    ultimately show ?thesis
      using nofile as_kinds(2) [OF Some] as_file_None [of ix t] as_package_None [of ix t]
      by (auto simp: analyze_target_def)
  next
    case None
    note nopackage = None
    show ?thesis
    proof (cases "try_as_symbol ix t")
      case (Some i)
      moreover have "ti_target i = t" using Some by (auto simp: try_as_symbol_def Let_def split: if_splits)
      ultimately show ?thesis
        using nofile nopackage as_kinds(3) [OF Some] as_file_None [of ix t] as_package_None [of ix t]
          as_symbol_None [of ix t] by (auto simp: analyze_target_def)
    next
      case None
      then show ?thesis
        using nofile nopackage as_file_None [of ix t] as_package_None [of ix t] as_symbol_None [of ix t]
        by (simp add: analyze_target_def unresolved_impact_def Let_def)
    qed
  qed
qed

section \<open>Dependents\<close>

lemma ends_with_iff: "ends_with s t \<longleftrightarrow> (\<exists>pre. s = pre @ t)"
proof
  assume "ends_with s t"
  then obtain r where "rev s = rev t @ r"
    by (auto simp: ends_with_def strip_suffix_def strip_prefix_Some split: option.splits)
  then have "s = rev r @ t" by (metis rev_append rev_rev_ident)
  then show "\<exists>pre. s = pre @ t" ..
next
  assume "\<exists>pre. s = pre @ t"
  then obtain pre where "s = pre @ t" ..
  then show "ends_with s t" by (simp add: ends_with_def strip_suffix_def)
qed

lemma map_map_filter: "map f (List.map_filter g xs) = List.map_filter (\<lambda>x. map_option f (g x)) xs"
  by (induction xs) (auto simp: List.map_filter_simps split: option.splits)

lemma map_filter_if: "List.map_filter (\<lambda>x. if P x then Some (h x) else None) xs = map h (filter P xs)"
  by (induction xs) (auto simp: List.map_filter_simps)

text \<open>
  C22 (dependents). The dependents of a directory are, in the order of the index, the packages
  of other directories with an internal import whose path ends in the name of that directory.
\<close>

theorem dependents_exact:
  "map dp_package_dir (find_dependents ix dir)
     = map pk_dir (filter (\<lambda>p. pk_dir p \<noteq> dir
         \<and> (\<exists>imp\<in>set (pk_imports p). im_kind imp = Internal \<and> (\<exists>pre. im_path imp = pre @ dir))) (px_packages ix))"
proof -
  have matches: "import_matches_dir p dir \<longleftrightarrow> (\<exists>pre. p = pre @ dir)" for p
    unfolding import_matches_dir_def ends_with_iff by (metis append_assoc)
  have "map_option dp_package_dir (dependent_of dir p)
      = (if pk_dir p \<noteq> dir \<and> (\<exists>imp\<in>set (pk_imports p). im_kind imp = Internal \<and> (\<exists>pre. im_path imp = pre @ dir))
         then Some (pk_dir p) else None)" for p
  proof (cases "find (\<lambda>imp. im_kind imp = Internal \<and> (\<exists>pre. im_path imp = pre @ dir)) (pk_imports p)")
    case None
    then show ?thesis unfolding dependent_of_def matches by (auto simp: find_None_iff_all)
  next
    case (Some imp)
    then have "imp \<in> set (pk_imports p) \<and> im_kind imp = Internal \<and> (\<exists>pre. im_path imp = pre @ dir)"
      by (auto simp: find_Some_iff)
    with Some show ?thesis unfolding dependent_of_def matches by auto
  qed
  then show ?thesis unfolding find_dependents_def map_map_filter by (simp add: map_filter_if)
qed

text \<open>
  Property (foreign dependents). The directory need not begin a path segment: a package that imports
  \<open>internal/myserver\<close> is reported as dependent on the directory \<open>server\<close>.
\<close>

theorem partial_segment_dependent:
  "import_matches_dir ''example.com/m/internal/myserver'' ''server''"
  by code_simp

section \<open>Areas\<close>

text \<open>
  Property (packages miss their own area). The directory of a sensitive area, given as a package, does
  not match the pattern of that area, which ends in a slash: no area is reported and no command
  recommended, although every file of the package does match.
\<close>

theorem package_misses_area:
  "match_areas ''internal/adapters/nats'' = ([], [])
   \<and> map am_name (fst (match_areas ''internal/adapters/nats/client.go'')) = [''nats-adapters'']"
  by code_simp

end
