(* ===== verification/RenameSafety.thy ===== *)
theory RenameSafety
  imports ImpactMap
begin

text \<open>
  Rename safety (\<open>analyzers/rename_safety.rs\<close>): the definitions of a symbol in the index, the places
  of declarations and signatures that mention it, the areas and contracts these touch, and the risk
  that follows. \<open>is_message_type\<close>, the labels of kinds and the layout of blocks are those of the
  impact map, which the source repeats.
\<close>

section \<open>Mentions\<close>

definition is_ident_char :: "char \<Rightarrow> bool" where
  "is_ident_char c = (ascii_alnum c \<or> c = CHR ''_'')"

text \<open>The loop over the positions of \<open>expr\<close>; both ends must not touch an identifier character.\<close>

definition mention_at :: "string \<Rightarrow> string \<Rightarrow> nat \<Rightarrow> bool" where
  "mention_at expr symbol i =
     (take (length symbol) (drop i expr) = symbol
      \<and> (i = 0 \<or> \<not> is_ident_char (expr ! (i - 1)))
      \<and> (i + length symbol = length expr \<or> \<not> is_ident_char (expr ! (i + length symbol))))"

definition type_expr_mentions :: "string \<Rightarrow> string \<Rightarrow> bool" where
  "type_expr_mentions expr symbol =
     (if expr = symbol then True
      else if symbol = [] \<or> length expr < length symbol then False
      else list_ex (mention_at expr symbol) [0..<Suc (length expr - length symbol)])"

section \<open>The report\<close>

datatype resolution = Resolved | Ambiguous | SymbolNotFound

record definition_site =
  df_name :: string
  df_kind :: string
  df_package :: string
  df_file :: string
  df_line :: nat
  df_visibility :: string
  df_details :: "string list"

record affected_reference =
  ar_kind :: string
  ar_context :: string
  ar_package :: string
  ar_file :: string
  ar_line :: nat
  ar_basis :: string

record rename_area =
  ra_area :: string
  ra_files :: "string list"
  ra_basis :: string

record contract_involvement =
  cv_name :: string
  cv_kind :: string
  cv_file :: string
  cv_line :: nat
  cv_why :: string
  cv_basis :: string

record name_conflict =
  nc_name :: string
  nc_kind :: string
  nc_package :: string
  nc_file :: string
  nc_line :: nat

datatype risk_level = RiskLow | RiskMedium | RiskHigh | RiskCritical

record risk_reason =
  rr_factor :: string
  rr_detail :: string
  rr_basis :: string

record risk_assessment =
  as_level :: risk_level
  as_reasons :: "risk_reason list"

record rename_lsp =
  rl_status :: lsp_status
  rl_references :: "lsp_ref list"

record rename_report =
  rn_symbol :: string
  rn_new_name :: "string option"
  rn_status :: resolution
  rn_definitions :: "definition_site list"
  rn_references :: "affected_reference list"
  rn_packages :: "string list"
  rn_areas :: "rename_area list"
  rn_contracts :: "contract_involvement list"
  rn_conflicts :: "name_conflict list"
  rn_risk :: risk_assessment
  rn_gate_profile :: string
  rn_scenarios :: "string list"
  rn_checks :: "string list"
  rn_scope_note :: string
  rn_lsp :: "rename_lsp option"

section \<open>Definitions\<close>

definition visibility_label :: "visibility \<Rightarrow> string" where
  "visibility_label v = (case v of Exported \<Rightarrow> ''exported'' | Unexported \<Rightarrow> ''unexported'')"

definition field_detail :: "struct_field \<Rightarrow> string" where
  "field_detail f =
     (let tag_info = (case sf_tag f of Some t \<Rightarrow> '' '' @ t | None \<Rightarrow> []) in
      if sf_embedded f then ''embed: '' @ sf_type_expr f @ tag_info
      else ''field: '' @ sf_name f @ '' '' @ sf_type_expr f @ tag_info)"

definition type_details :: "type_kind \<Rightarrow> string list" where
  "type_details k =
     (case k of
        StructKind flds \<Rightarrow> map field_detail flds
      | InterfaceKind methods embeds \<Rightarrow>
          map (\<lambda>e. ''embed: '' @ em_type_name e) embeds
          @ map (\<lambda>m. ''method: '' @ mt_name m @ mt_signature m) methods
      | AliasKind underlying \<Rightarrow> [''underlying: '' @ underlying])"

definition spaced :: "param \<Rightarrow> string" where
  "spaced p = pa_name p @ '' '' @ pa_type_expr p"

definition func_details :: "go_func \<Rightarrow> string list" where
  "func_details f =
     (case fn_receiver f of
        Some r \<Rightarrow> [''receiver: ('' @ rc_name r @ '' '' @ (if rc_pointer r then ''*'' else []) @ rc_type_name r @ '')'']
      | None \<Rightarrow> [])
     @ (if fn_params f \<noteq> [] then [''params: ('' @ join '', '' (map spaced (fn_params f)) @ '')''] else [])
     @ (if fn_returns f \<noteq> [] then
          [''returns: ('' @ join '', '' (map (\<lambda>r. if pa_name r = [] then pa_type_expr r else spaced r) (fn_returns f))
           @ '')''] else [])"

definition func_kind :: "go_func \<Rightarrow> string" where
  "func_kind f = (if fn_receiver f \<noteq> None then ''method'' else ''func'')"

definition const_details :: "go_const \<Rightarrow> string list" where
  "const_details c =
     (case co_type_hint c of Some t \<Rightarrow> [''type: '' @ t] | None \<Rightarrow> [])
     @ (case co_value c of Some v \<Rightarrow> [''value: '' @ v] | None \<Rightarrow> [])"

definition var_details :: "go_var \<Rightarrow> string list" where
  "var_details v = (case va_type_hint v of Some t \<Rightarrow> [''type: '' @ t] | None \<Rightarrow> [])"

definition mk_definition :: "string \<Rightarrow> string \<Rightarrow> string \<Rightarrow> location \<Rightarrow> visibility \<Rightarrow> string list \<Rightarrow> definition_site" where
  "mk_definition name kind package l v details =
     \<lparr>df_name = name, df_kind = kind, df_package = package, df_file = loc_file l, df_line = loc_line l,
      df_visibility = visibility_label v, df_details = details\<rparr>"

definition file_definitions :: "string \<Rightarrow> go_file \<Rightarrow> definition_site list" where
  "file_definitions symbol file =
     (let pkg = gf_package file in
      map (\<lambda>t. mk_definition (ty_name t) (type_kind_label (ty_kind t)) pkg (ty_location t) (ty_visibility t)
             (type_details (ty_kind t)))
        (filter (\<lambda>t. ty_name t = symbol) (gf_types file))
      @ map (\<lambda>f. mk_definition (fn_name f) (func_kind f) pkg (fn_location f) (fn_visibility f) (func_details f))
          (filter (\<lambda>f. fn_name f = symbol) (gf_functions file))
      @ map (\<lambda>c. mk_definition (co_name c) ''const'' pkg (co_location c) (co_visibility c) (const_details c))
          (filter (\<lambda>c. co_name c = symbol) (gf_constants file))
      @ map (\<lambda>v. mk_definition (va_name v) ''var'' pkg (va_location v) (va_visibility v) (var_details v))
          (filter (\<lambda>v. va_name v = symbol) (gf_variables file)))"

definition find_definitions :: "project_index \<Rightarrow> string \<Rightarrow> definition_site list" where
  "find_definitions ix symbol = concat (map (file_definitions symbol) (px_files ix))"

section \<open>References\<close>

definition mk_reference :: "string \<Rightarrow> string \<Rightarrow> string \<Rightarrow> location \<Rightarrow> affected_reference" where
  "mk_reference pkg kind ctx l =
     \<lparr>ar_kind = kind, ar_context = ctx, ar_package = pkg, ar_file = loc_file l, ar_line = loc_line l,
      ar_basis = ''observed''\<rparr>"

definition field_reference :: "string \<Rightarrow> string \<Rightarrow> string \<Rightarrow> struct_field \<Rightarrow> affected_reference option" where
  "field_reference symbol pkg type_name f =
     (if sf_embedded f \<and> sf_type_expr f = symbol
      then Some (mk_reference pkg ''embedded_field'' type_name (sf_location f))
      else if type_expr_mentions (sf_type_expr f) symbol
      then Some (mk_reference pkg ''field_type'' (type_name @ ''.'' @ sf_name f) (sf_location f))
      else None)"

definition type_references :: "string \<Rightarrow> string \<Rightarrow> go_type \<Rightarrow> affected_reference list" where
  "type_references symbol pkg t =
     (case ty_kind t of
        StructKind flds \<Rightarrow> List.map_filter (field_reference symbol pkg (ty_name t)) flds
      | InterfaceKind _ embeds \<Rightarrow>
          map (\<lambda>e. mk_reference pkg ''interface_embed'' (ty_name t) (em_location e))
            (filter (\<lambda>e. em_type_name e = symbol) embeds)
      | AliasKind underlying \<Rightarrow>
          (if type_expr_mentions underlying symbol
           then [mk_reference pkg ''alias_underlying'' (ty_name t) (ty_location t)] else []))"

definition param_references :: "string \<Rightarrow> string \<Rightarrow> string \<Rightarrow> go_func \<Rightarrow> param list \<Rightarrow> affected_reference list" where
  "param_references symbol pkg kind f ps =
     map (\<lambda>_. mk_reference pkg kind (fn_name f) (fn_location f))
       (filter (\<lambda>p. type_expr_mentions (pa_type_expr p) symbol) ps)"

definition func_references :: "string \<Rightarrow> string \<Rightarrow> go_func \<Rightarrow> affected_reference list" where
  "func_references symbol pkg f =
     (case fn_receiver f of
        Some r \<Rightarrow> (if rc_type_name r = symbol then [mk_reference pkg ''receiver'' (fn_name f) (fn_location f)] else [])
      | None \<Rightarrow> [])
     @ param_references symbol pkg ''param_type'' f (fn_params f)
     @ param_references symbol pkg ''return_type'' f (fn_returns f)"

definition const_reference :: "string \<Rightarrow> string \<Rightarrow> go_const \<Rightarrow> affected_reference option" where
  "const_reference symbol pkg c =
     (if co_type_hint c = Some symbol then Some (mk_reference pkg ''const_type'' (co_name c) (co_location c))
      else None)"

definition var_reference :: "string \<Rightarrow> string \<Rightarrow> go_var \<Rightarrow> affected_reference option" where
  "var_reference symbol pkg v =
     (case va_type_hint v of
        Some t \<Rightarrow> (if type_expr_mentions t symbol then Some (mk_reference pkg ''var_type'' (va_name v) (va_location v))
                   else None)
      | None \<Rightarrow> None)"

definition file_references :: "string \<Rightarrow> go_file \<Rightarrow> affected_reference list" where
  "file_references symbol file =
     (let pkg = gf_package file in
      concat (map (type_references symbol pkg) (gf_types file))
      @ concat (map (func_references symbol pkg) (gf_functions file))
      @ List.map_filter (const_reference symbol pkg) (gf_constants file)
      @ List.map_filter (var_reference symbol pkg) (gf_variables file))"

definition find_references :: "project_index \<Rightarrow> string \<Rightarrow> affected_reference list" where
  "find_references ix symbol =
     filter (\<lambda>r. ar_context r \<noteq> symbol) (concat (map (file_references symbol) (px_files ix)))"

section \<open>Areas, contracts and conflicts\<close>

definition area_tests :: "(string \<times> (string \<Rightarrow> bool)) list" where
  "area_tests =
     [(''domain'', \<lambda>f. contains f ''domain/''),
      (''ports'', \<lambda>f. contains f ''ports''),
      (''contracts/events'', \<lambda>f. contains f ''contracts'' \<or> contains f ''events''),
      (''adapters'', \<lambda>f. contains f ''adapters/''),
      (''actors'', \<lambda>f. contains f ''actors/''),
      (''http_interfaces'', \<lambda>f. contains f ''interfaces/http''),
      (''application'', \<lambda>f. contains f ''application/'' \<and> \<not> contains f ''contracts'' \<and> \<not> contains f ''ports'')]"

text \<open>A \<open>BTreeMap\<close> from area to set of files: the areas in order, those without files left out.\<close>

definition detect_sensitive_areas :: "definition_site list \<Rightarrow> affected_reference list \<Rightarrow> rename_area list" where
  "detect_sensitive_areas defs refs =
     (let fs = map df_file defs @ map ar_file refs in
      List.map_filter (\<lambda>(name, test).
          (case sort_dedup (filter test fs) of
             [] \<Rightarrow> None
           | files \<Rightarrow> Some \<lparr>ra_area = name, ra_files = files, ra_basis = ''observed''\<rparr>))
        (sort_key fst area_tests))"

definition mk_involvement :: "string \<Rightarrow> string \<Rightarrow> string \<Rightarrow> nat \<Rightarrow> string \<Rightarrow> contract_involvement" where
  "mk_involvement name kind file_path line why =
     \<lparr>cv_name = name, cv_kind = kind, cv_file = file_path, cv_line = line, cv_why = why, cv_basis = ''observed''\<rparr>"

definition definition_contracts :: "definition_site \<Rightarrow> contract_involvement list" where
  "definition_contracts d =
     (let is_port = contains (df_file d) ''ports'';
          is_contract_path = contains (df_file d) ''contracts'' \<or> contains (df_file d) ''events'';
          mk = (\<lambda>kind why. mk_involvement (df_name d) kind (df_file d) (df_line d) why)
      in if df_kind d = ''interface'' then
           [mk (if is_port then ''port'' else ''interface'')
              (if is_port then
                 dash ''port interface'' ''renaming affects all implementations across adapters and actors''
               else dash ''exported interface'' ''renaming affects all implementors'')]
         else if df_kind d = ''struct'' then
           (if is_message_type (df_name d) (df_file d) then
              [mk ''message_type'' (dash ''message struct'' ''renaming may break serialization across services'')]
            else [])
         else if df_kind d = ''type_alias'' \<or> df_kind d = ''const'' then
           (if is_contract_path then
              [mk ''contract_type'' (dash ''defined in contract/event layer'' ''renaming affects message encoding'')]
            else [])
         else [])"

definition method_contracts :: "string \<Rightarrow> go_type \<Rightarrow> contract_involvement list" where
  "method_contracts symbol t =
     (case ty_kind t of
        InterfaceKind methods _ \<Rightarrow>
          (if ty_visibility t = Exported
              \<and> (contains (loc_file (ty_location t)) ''ports'' \<or> contains (loc_file (ty_location t)) ''contracts'')
           then map (\<lambda>m. mk_involvement (ty_name t @ ''.'' @ mt_name m) ''interface_method''
                       (loc_file (mt_location m)) (loc_line (mt_location m))
                       ''symbol appears in contract interface method signature'')
                  (filter (\<lambda>m. type_expr_mentions (mt_signature m) symbol) methods)
           else [])
      | _ \<Rightarrow> [])"

definition find_contract_surface :: "project_index \<Rightarrow> string \<Rightarrow> definition_site list \<Rightarrow> contract_involvement list" where
  "find_contract_surface ix symbol defs =
     concat (map definition_contracts defs)
     @ concat (map (method_contracts symbol) (concat (map gf_types (px_files ix))))"

definition mk_conflict :: "string \<Rightarrow> string \<Rightarrow> string \<Rightarrow> location \<Rightarrow> name_conflict" where
  "mk_conflict name kind package l =
     \<lparr>nc_name = name, nc_kind = kind, nc_package = package, nc_file = loc_file l, nc_line = loc_line l\<rparr>"

definition file_conflicts :: "string \<Rightarrow> go_file \<Rightarrow> name_conflict list" where
  "file_conflicts new_name file =
     (let pkg = gf_package file in
      map (\<lambda>t. mk_conflict (ty_name t) (type_kind_label (ty_kind t)) pkg (ty_location t))
        (filter (\<lambda>t. ty_name t = new_name) (gf_types file))
      @ map (\<lambda>f. mk_conflict (fn_name f) (func_kind f) pkg (fn_location f))
          (filter (\<lambda>f. fn_name f = new_name) (gf_functions file))
      @ map (\<lambda>c. mk_conflict (co_name c) ''const'' pkg (co_location c))
          (filter (\<lambda>c. co_name c = new_name) (gf_constants file))
      @ map (\<lambda>v. mk_conflict (va_name v) ''var'' pkg (va_location v))
          (filter (\<lambda>v. va_name v = new_name) (gf_variables file)))"

definition find_conflicts :: "project_index \<Rightarrow> string \<Rightarrow> name_conflict list" where
  "find_conflicts ix new_name = concat (map (file_conflicts new_name) (px_files ix))"

section \<open>Risk\<close>

definition risk_rank :: "risk_level \<Rightarrow> nat" where
  "risk_rank l = (case l of RiskLow \<Rightarrow> 0 | RiskMedium \<Rightarrow> 1 | RiskHigh \<Rightarrow> 2 | RiskCritical \<Rightarrow> 3)"

definition max_risk :: "risk_level \<Rightarrow> risk_level \<Rightarrow> risk_level" where
  "max_risk a b = (if risk_rank a \<le> risk_rank b then b else a)"

text \<open>A factor: whether it applies, the level it calls for, and its reason.\<close>

definition factor :: "bool \<Rightarrow> risk_level \<Rightarrow> string \<Rightarrow> string \<Rightarrow> string \<Rightarrow> (risk_level \<times> risk_reason) list" where
  "factor applies level name detail basis =
     (if applies then [(level, \<lparr>rr_factor = name, rr_detail = detail, rr_basis = basis\<rparr>)] else [])"

definition has_kind :: "string \<Rightarrow> contract_involvement list \<Rightarrow> bool" where
  "has_kind k cs = list_ex (\<lambda>c. cv_kind c = k) cs"

definition has_area :: "string \<Rightarrow> rename_area list \<Rightarrow> bool" where
  "has_area a areas = list_ex (\<lambda>r. ra_area r = a) areas"

definition definition_packages :: "definition_site list \<Rightarrow> nat" where
  "definition_packages defs = length (remdups (map df_package defs))"

definition risk_factors :: "definition_site list \<Rightarrow> nat \<Rightarrow> rename_area list \<Rightarrow> contract_involvement list
                           \<Rightarrow> (risk_level \<times> risk_reason) list" where
  "risk_factors defs refs areas contracts =
     (let port = has_kind ''port'' contracts; message = has_kind ''message_type'' contracts in
      factor (list_ex (\<lambda>d. df_visibility d = ''exported'') defs) RiskMedium ''exported_symbol''
        (dash ''symbol is exported'' ''external packages may depend on it'') ''observed''
      @ factor (20 < refs) RiskHigh ''high_reference_count''
          (show_nat refs @ dash '' references found'' ''broad blast radius'') ''observed''
      @ factor (5 < refs \<and> refs \<le> 20) RiskMedium ''moderate_reference_count''
          (show_nat refs @ '' references found'') ''observed''
      @ factor (1 < length defs) RiskHigh ''ambiguous_definitions''
          (show_nat (length defs)
           @ dash '' definitions across packages'' ''rename may be partial or unintended'') ''observed''
      @ factor port RiskCritical ''port_interface''
          (dash ''symbol is or touches a port interface'' ''all adapter implementations must be updated'') ''observed''
      @ factor message RiskCritical ''message_type''
          (dash ''symbol is a message type'' ''renaming may break serialization compatibility'') ''observed''
      @ factor (contracts \<noteq> [] \<and> \<not> port \<and> \<not> message) RiskHigh ''contract_involvement''
          (show_nat (length contracts)
           @ dash '' contract connections'' ''changes propagate to dependent services'') ''observed''
      @ factor (has_area ''domain'' areas \<and> has_area ''adapters'' areas) RiskHigh ''cross_layer_impact''
          (dash ''rename spans domain and adapter layers'' ''high coupling risk'') ''inferred''
      @ factor (has_area ''ports'' areas) RiskHigh ''port_layer_touched''
          (dash ''rename touches port definitions'' ''interface contract boundary'') ''observed''
      @ factor (2 < definition_packages defs) RiskMedium ''multi_package_spread''
          (''symbol defined/referenced across '' @ show_nat (definition_packages defs) @ '' packages'') ''observed'')"

definition assess_risk :: "definition_site list \<Rightarrow> nat \<Rightarrow> rename_area list \<Rightarrow> contract_involvement list
                          \<Rightarrow> risk_assessment" where
  "assess_risk defs refs areas contracts =
     (let fs = risk_factors defs refs areas contracts in
      \<lparr>as_level = fold (\<lambda>f l. max_risk l (fst f)) fs RiskLow,
       as_reasons =
         (if fs = [] then
            [\<lparr>rr_factor = ''contained_change'',
              rr_detail = ''rename appears contained with limited blast radius'', rr_basis = ''inferred''\<rparr>]
          else map snd fs)\<rparr>)"

definition rename_gate_profile :: "risk_assessment \<Rightarrow> string" where
  "rename_gate_profile r =
     (case as_level r of RiskLow \<Rightarrow> ''fast'' | RiskMedium \<Rightarrow> ''ci'' | RiskHigh \<Rightarrow> ''deep'' | RiskCritical \<Rightarrow> ''deep'')"

definition suggest_smoke_scenarios :: "rename_area list \<Rightarrow> contract_involvement list \<Rightarrow> string list" where
  "suggest_smoke_scenarios areas contracts =
     (let has = (\<lambda>a. has_area a areas) in
      sort_dedup
        ((if contracts \<noteq> [] \<or> has ''contracts/events'' then [''config-lifecycle''] else [])
         @ (if has ''domain'' \<or> has ''application'' then [''config-lifecycle''] else [])
         @ (if has ''adapters'' \<or> has ''actors'' then [''happy-path''] else [])
         @ (if has ''http_interfaces'' then [''readiness-probe''] else [])
         @ (if has_kind ''message_type'' contracts then [''invalid-payload''] else [])
         @ (if has_kind ''port'' contracts then [''happy-path''] else [])))"

definition recommended_checks :: "rename_area list \<Rightarrow> contract_involvement list \<Rightarrow> string list" where
  "recommended_checks areas contracts =
     (let has = (\<lambda>a. has_area a areas) in
      sort_dedup
        ((if has ''domain'' \<or> has ''application'' then [cli ''arch-guard''] else [])
         @ (if has ''ports'' \<or> has ''contracts/events'' \<or> contracts \<noteq> [] then [cli ''contract-audit''] else [])
         @ (if has ''adapters'' \<or> has ''actors'' then [cli ''runtime-bindings''] else [])
         @ (if has ''http_interfaces'' then [cli ''arch-guard''] else [])
         @ [cli ''drift-detect'']))"

section \<open>The check\<close>

definition static_rename_note :: string where
  "static_rename_note =
     ''Analysis is based on structural AST indexing (declarations, signatures, struct fields, type expressions). ''
     @ ''Function bodies are not analyzed '' @ em_dash
     @ '' call sites, assignments, and runtime usage are not visible. Use --lsp for deeper coverage.''"

definition resolution_of :: "definition_site list \<Rightarrow> resolution" where
  "resolution_of defs = (case defs of [] \<Rightarrow> SymbolNotFound | [_] \<Rightarrow> Resolved | _ \<Rightarrow> Ambiguous)"

definition check_in_index :: "project_index \<Rightarrow> string \<Rightarrow> string option \<Rightarrow> rename_report" where
  "check_in_index ix symbol new_name =
     (let defs = find_definitions ix symbol; refs = find_references ix symbol;
          areas = detect_sensitive_areas defs refs; contracts = find_contract_surface ix symbol defs;
          risk = assess_risk defs (length refs) areas contracts
      in \<lparr>rn_symbol = symbol, rn_new_name = new_name, rn_status = resolution_of defs, rn_definitions = defs,
          rn_references = refs, rn_packages = sort_dedup (map df_package defs @ map ar_package refs),
          rn_areas = areas, rn_contracts = contracts,
          rn_conflicts = (case new_name of Some nn \<Rightarrow> find_conflicts ix nn | None \<Rightarrow> []),
          rn_risk = risk, rn_gate_profile = rename_gate_profile risk,
          rn_scenarios = suggest_smoke_scenarios areas contracts, rn_checks = recommended_checks areas contracts,
          rn_scope_note = static_rename_note, rn_lsp = None\<rparr>)"

definition rename_check :: "fs_node \<Rightarrow> string \<Rightarrow> string option \<Rightarrow> rename_report" where
  "rename_check root symbol new_name = check_in_index (build_index root) symbol new_name"

definition file_to_package :: "string \<Rightarrow> string" where
  "file_to_package p =
     (let rel = (case find_sub p ''internal/'' of Some i \<Rightarrow> drop i p | None \<Rightarrow> p) in
      case rfind_char rel CHR ''/'' of
        Some i \<Rightarrow> split_last (take i rel) ''/''
      | None \<Rightarrow> [])"

definition unseen_refs :: "affected_reference list \<Rightarrow> lsp_ref list \<Rightarrow> lsp_ref list" where
  "unseen_refs refs lrs =
     filter (\<lambda>lr. \<not> list_ex (\<lambda>r. ar_file r = loc_file (lf_location lr) \<and> ar_line r = loc_line (lf_location lr)) refs) lrs"

definition rename_lsp_note :: "lsp_status \<Rightarrow> nat \<Rightarrow> string" where
  "rename_lsp_note st n =
     (case st of
        Enriched \<Rightarrow>
          ''Analysis combines structural AST indexing with gopls semantic references. '' @ show_nat n
          @ '' additional call-site references found via LSP. Each fact is tagged with its source.''
      | NoResults \<Rightarrow>
          ''Analysis is based on structural AST indexing. gopls was available but returned no additional references.''
      | Unavailable reason \<Rightarrow>
          ''Analysis is based on structural AST indexing (declarations, signatures, struct fields). ''
          @ ''LSP enrichment unavailable: '' @ reason
          @ ''. Function body call sites and cross-package type resolution are not visible '' @ em_dash
          @ '' actual blast radius may be larger.'')"

definition add_lsp :: "rename_report \<Rightarrow> enriched_symbol \<Rightarrow> rename_report" where
  "add_lsp report es =
     (let only = unseen_refs (rn_references report) (es_lsp_references es);
          pkgs = filter (\<lambda>p. p \<noteq> []) (map (\<lambda>lr. file_to_package (loc_file (lf_location lr))) only);
          risk = assess_risk (rn_definitions report) (length (rn_references report) + length only)
                   (rn_areas report) (rn_contracts report)
      in report\<lparr>rn_packages := sort_dedup (rn_packages report @ pkgs),
                rn_lsp := Some \<lparr>rl_status = es_lsp_status es, rl_references = only\<rparr>,
                rn_risk := risk, rn_gate_profile := rename_gate_profile risk,
                rn_scenarios := suggest_smoke_scenarios (rn_areas report) (rn_contracts report),
                rn_scope_note := rename_lsp_note (es_lsp_status es) (length only)\<rparr>)"

definition rename_check_with_lsp :: "'j json_api \<Rightarrow> (string \<Rightarrow> string) \<Rightarrow> fs_node \<Rightarrow> string \<Rightarrow> string option
                                     \<Rightarrow> bridge \<Rightarrow> (rename_report \<times> bridge) option" where
  "rename_check_with_lsp api join_root root symbol new_name b =
     (let ix = build_index root in
      map_option (\<lambda>(es, b'). (add_lsp (check_in_index ix symbol new_name) es, b'))
        (enrich_symbol_with_index api join_root ix symbol b))"

section \<open>Rendering\<close>

definition risk_label :: "risk_level \<Rightarrow> string" where
  "risk_label l =
     (case l of RiskLow \<Rightarrow> ''LOW'' | RiskMedium \<Rightarrow> ''MEDIUM'' | RiskHigh \<Rightarrow> ''HIGH'' | RiskCritical \<Rightarrow> ''CRITICAL'')"

definition at_place :: "string \<Rightarrow> nat \<Rightarrow> string" where
  "at_place file_path line = file_path @ '':'' @ show_nat line"

definition render_rename_lsp :: "lsp_status \<Rightarrow> string" where
  "render_rename_lsp st =
     (case st of
        Enriched \<Rightarrow> ''LSP: enriched (gopls connected)''
      | NoResults \<Rightarrow> ''LSP: connected but no additional results''
      | Unavailable reason \<Rightarrow> ''LSP: unavailable ('' @ reason @ '')'') @ nl @ nl"

definition not_found_text :: "string \<Rightarrow> string \<Rightarrow> string" where
  "not_found_text symbol note =
     ''Status: NOT FOUND'' @ nl @ nl
     @ ''The symbol '' @ quote1 symbol @ '' was not found in the structural index.'' @ nl
     @ ''Possible reasons:'' @ nl
     @ ''  - The name is misspelled'' @ nl
     @ ''  - It is defined inside a function body (not indexed)'' @ nl
     @ ''  - It is a field name or local variable'' @ nl
     @ ''  - It exists in vendor/ or generated code (excluded)'' @ nl @ nl
     @ ''Scope: '' @ note @ nl"

definition render_status :: "rename_report \<Rightarrow> string" where
  "render_status r =
     (case rn_status r of
        Ambiguous \<Rightarrow>
          ''Status: AMBIGUOUS ('' @ show_nat (length (rn_definitions r)) @ '' definitions across packages)'' @ nl
          @ ''  Warning: same name in multiple packages '' @ em_dash @ '' rename may be partial or unintended.'' @ nl
      | _ \<Rightarrow> ''Status: resolved (single definition)'' @ nl) @ nl"

definition render_definition :: "bool \<Rightarrow> definition_site \<Rightarrow> string" where
  "render_definition details d =
     ''  '' @ df_name d @ '' ['' @ df_kind d @ ''] ('' @ df_visibility d @ '') at '' @ at_place (df_file d) (df_line d) @ nl
     @ ''    package: '' @ df_package d @ nl
     @ (if details then lines_of (\<lambda>x. ''    '' @ x) (df_details d) else [])"

text \<open>Lists cut after \<open>limit\<close> lines, indented by two.\<close>

definition cut_lines2 :: "bool \<Rightarrow> nat \<Rightarrow> ('a \<Rightarrow> string) \<Rightarrow> 'a list \<Rightarrow> string" where
  "cut_lines2 verbose limit f xs =
     lines_of f (if verbose then xs else take limit xs)
     @ (if \<not> verbose \<and> limit < length xs
        then ''  ... and '' @ show_nat (length xs - limit) @ '' more (use --verbose to see all)'' @ nl else [])"

definition render_references :: "bool \<Rightarrow> rename_report \<Rightarrow> string" where
  "render_references verbose r =
     (let extra = (case rn_lsp r of Some l \<Rightarrow> length (rl_references l) | None \<Rightarrow> 0) in
      if rn_references r = [] then
        ''Affected references: none found [observed]'' @ nl
        @ (if rn_lsp r = None then ''  (use --lsp to find call sites in function bodies)'' @ nl else [])
      else
        ''Affected references ('' @ show_nat (length (rn_references r) + extra) @ '' total, ''
        @ show_nat (length (rn_references r)) @ '' structural): [observed]'' @ nl
        @ cut_lines2 verbose 20
            (\<lambda>x. ''  '' @ ar_kind x @ '' in '' @ ar_context x @ '' at '' @ at_place (ar_file x) (ar_line x))
            (rn_references r)) @ nl"

definition render_extra_refs :: "bool \<Rightarrow> rename_lsp \<Rightarrow> string" where
  "render_extra_refs verbose l =
     (if rl_references l = [] then []
      else counted ''Additional semantic references'' (rl_references l) @ '': [lsp]'' @ nl
        @ cut_lines2 verbose 10 (\<lambda>x. ''  '' @ loc_text (lf_location x)) (rl_references l) @ nl)"

text \<open>A block with a blank line after it.\<close>

definition spaced_block :: "string \<Rightarrow> ('a \<Rightarrow> string) \<Rightarrow> 'a list \<Rightarrow> string" where
  "spaced_block title f xs = (if xs = [] then [] else block title f xs @ nl)"

definition render_rename_areas :: "bool \<Rightarrow> rename_area list \<Rightarrow> string" where
  "render_rename_areas verbose areas =
     (if areas = [] then []
      else counted ''Sensitive areas touched'' areas @ '': [observed]'' @ nl
        @ concat (map (\<lambda>a. ''  '' @ ra_area a @ '' ('' @ show_nat (length (ra_files a)) @ '' files)'' @ nl
             @ (if verbose then lines_of (\<lambda>f. ''    '' @ f) (ra_files a) else [])) areas) @ nl)"

definition render_recommendations :: "rename_report \<Rightarrow> string" where
  "render_recommendations r =
     ''--- Recommendations ---'' @ nl @ nl
     @ ''Quality gate profile: '' @ rn_gate_profile r @ nl
     @ block ''Suggested smoke scenarios:'' (\<lambda>s. ''  $ raccoon-cli scenario-smoke '' @ s) (rn_scenarios r)
     @ block ''Recommended checks:'' (\<lambda>c. ''  $ '' @ c) (rn_checks r) @ nl"

definition render_rename :: "rename_report \<Rightarrow> bool \<Rightarrow> string" where
  "render_rename r verbose =
     ''=== Rename Safety Check: ''
     @ (case rn_new_name r of Some nn \<Rightarrow> rn_symbol r @ '' -> '' @ nn | None \<Rightarrow> rn_symbol r) @ '' ==='' @ nl @ nl
     @ (case rn_lsp r of Some l \<Rightarrow> render_rename_lsp (rl_status l) | None \<Rightarrow> [])
     @ (if rn_status r = SymbolNotFound then not_found_text (rn_symbol r) (rn_scope_note r)
        else
          render_status r
          @ ''Risk level: '' @ risk_label (as_level (rn_risk r)) @ nl
          @ lines_of (\<lambda>x. ''  ['' @ rr_basis x @ ''] '' @ rr_factor x @ '': '' @ rr_detail x) (as_reasons (rn_risk r)) @ nl
          @ counted ''Definitions'' (rn_definitions r) @ '': [observed]'' @ nl
          @ concat (map (render_definition (verbose \<or> length (rn_definitions r) = 1)) (rn_definitions r)) @ nl
          @ render_references verbose r
          @ (case rn_lsp r of Some l \<Rightarrow> render_extra_refs verbose l | None \<Rightarrow> [])
          @ render_rename_areas verbose (rn_areas r)
          @ spaced_block (counted ''Contract surface'' (rn_contracts r) @ '': [observed]'')
              (\<lambda>c. ''  '' @ cv_name c @ '' ['' @ cv_kind c @ ''] at '' @ at_place (cv_file c) (cv_line c) @ nl
                 @ ''    why: '' @ cv_why c) (rn_contracts r)
          @ spaced_block (''Name conflicts with '' @ quote1 (case rn_new_name r of Some nn \<Rightarrow> nn | None \<Rightarrow> ''?'')
                @ '' ('' @ show_nat (length (rn_conflicts r)) @ ''):'')
              (\<lambda>c. ''  '' @ nc_name c @ '' ['' @ nc_kind c @ ''] in '' @ nc_package c @ '' at ''
                 @ at_place (nc_file c) (nc_line c)) (rn_conflicts r)
          @ spaced_block (counted ''Packages affected'' (rn_packages r) @ '':'') (\<lambda>p. ''  '' @ p) (rn_packages r)
          @ render_recommendations r
          @ ''Scope: '' @ rn_scope_note r @ nl)"

end
