(* ===== verification/SymbolTrace.thy ===== *)
theory SymbolTrace
  imports RenameSafety
begin

text \<open>
  The symbol trace (\<open>analyzers/symbol_trace.rs\<close>). It finds definitions and references with loops of
  its own, written out here as the loops are; the helpers it has a copy of (details of a definition,
  mentions, message types, the package of a path) are those of the rename check.
\<close>

section \<open>The report\<close>

datatype reference_kind =
    FieldType | EmbeddedField | ParamType | ReturnType | ReceiverType
  | InterfaceEmbed | AliasUnderlying | ConstType | VarType

fun reference_label :: "reference_kind \<Rightarrow> string" where
  "reference_label FieldType = ''field type''"
| "reference_label EmbeddedField = ''embedded field''"
| "reference_label ParamType = ''param type''"
| "reference_label ReturnType = ''return type''"
| "reference_label ReceiverType = ''receiver''"
| "reference_label InterfaceEmbed = ''interface embed''"
| "reference_label AliasUnderlying = ''alias underlying''"
| "reference_label ConstType = ''const type''"
| "reference_label VarType = ''var type''"

record trace_reference =
  tr_kind :: reference_kind
  tr_context :: string
  tr_package :: string
  tr_file :: string
  tr_line :: nat
  tr_basis :: string

record trace_lsp =
  tl_status :: lsp_status
  tl_definitions :: "lsp_def list"
  tl_references :: "lsp_ref list"
  tl_hover :: "hover_info option"

record trace_report =
  sx_symbol :: string
  sx_status :: resolution
  sx_definitions :: "definition_site list"
  sx_references :: "trace_reference list"
  sx_packages :: "string list"
  sx_contracts :: "contract_involvement list"
  sx_commands :: "string list"
  sx_scope_note :: string
  sx_lsp :: "trace_lsp option"

section \<open>Definitions and references\<close>

definition push_if :: "bool \<Rightarrow> 'a \<Rightarrow> 'a list" where
  "push_if b x = (if b then [x] else [])"

definition trace_file_definitions :: "string \<Rightarrow> go_file \<Rightarrow> definition_site list" where
  "trace_file_definitions symbol file =
     (let pkg = gf_package file in
      concat (map (\<lambda>t. push_if (ty_name t = symbol)
          (mk_definition (ty_name t) (type_kind_label (ty_kind t)) pkg (ty_location t) (ty_visibility t)
             (type_details (ty_kind t)))) (gf_types file))
      @ concat (map (\<lambda>f. push_if (fn_name f = symbol)
          (mk_definition (fn_name f) (func_kind f) pkg (fn_location f) (fn_visibility f) (func_details f)))
          (gf_functions file))
      @ concat (map (\<lambda>c. push_if (co_name c = symbol)
          (mk_definition (co_name c) ''const'' pkg (co_location c) (co_visibility c) (const_details c)))
          (gf_constants file))
      @ concat (map (\<lambda>v. push_if (va_name v = symbol)
          (mk_definition (va_name v) ''var'' pkg (va_location v) (va_visibility v) (var_details v)))
          (gf_variables file)))"

definition trace_definitions :: "project_index \<Rightarrow> string \<Rightarrow> definition_site list" where
  "trace_definitions ix symbol = concat (map (trace_file_definitions symbol) (px_files ix))"

definition mk_trace_ref :: "string \<Rightarrow> reference_kind \<Rightarrow> string \<Rightarrow> location \<Rightarrow> trace_reference" where
  "mk_trace_ref pkg kind ctx l =
     \<lparr>tr_kind = kind, tr_context = ctx, tr_package = pkg, tr_file = loc_file l, tr_line = loc_line l,
      tr_basis = ''observed''\<rparr>"

definition trace_field :: "string \<Rightarrow> string \<Rightarrow> go_type \<Rightarrow> struct_field \<Rightarrow> trace_reference list" where
  "trace_field symbol pkg t f =
     (if sf_embedded f \<and> sf_type_expr f = symbol
      then [mk_trace_ref pkg EmbeddedField (ty_name t) (sf_location f)]
      else push_if (type_expr_mentions (sf_type_expr f) symbol)
             (mk_trace_ref pkg FieldType (ty_name t @ ''.'' @ sf_name f) (sf_location f)))"

definition trace_type :: "string \<Rightarrow> string \<Rightarrow> go_type \<Rightarrow> trace_reference list" where
  "trace_type symbol pkg t =
     (case ty_kind t of StructKind flds \<Rightarrow> concat (map (trace_field symbol pkg t) flds) | _ \<Rightarrow> [])
     @ (case ty_kind t of
          InterfaceKind _ embeds \<Rightarrow>
            concat (map (\<lambda>e. push_if (em_type_name e = symbol)
              (mk_trace_ref pkg InterfaceEmbed (ty_name t) (em_location e))) embeds)
        | _ \<Rightarrow> [])
     @ (case ty_kind t of
          AliasKind underlying \<Rightarrow>
            push_if (type_expr_mentions underlying symbol)
              (mk_trace_ref pkg AliasUnderlying (ty_name t) (ty_location t))
        | _ \<Rightarrow> [])"

definition trace_params :: "string \<Rightarrow> string \<Rightarrow> reference_kind \<Rightarrow> go_func \<Rightarrow> param list \<Rightarrow> trace_reference list" where
  "trace_params symbol pkg kind f ps =
     concat (map (\<lambda>p. push_if (type_expr_mentions (pa_type_expr p) symbol)
       (mk_trace_ref pkg kind (fn_name f) (fn_location f))) ps)"

definition trace_func :: "string \<Rightarrow> string \<Rightarrow> go_func \<Rightarrow> trace_reference list" where
  "trace_func symbol pkg f =
     (case fn_receiver f of
        Some r \<Rightarrow> push_if (rc_type_name r = symbol) (mk_trace_ref pkg ReceiverType (fn_name f) (fn_location f))
      | None \<Rightarrow> [])
     @ trace_params symbol pkg ParamType f (fn_params f)
     @ trace_params symbol pkg ReturnType f (fn_returns f)"

definition trace_file_references :: "string \<Rightarrow> go_file \<Rightarrow> trace_reference list" where
  "trace_file_references symbol file =
     (let pkg = gf_package file in
      concat (map (trace_type symbol pkg) (gf_types file))
      @ concat (map (trace_func symbol pkg) (gf_functions file))
      @ concat (map (\<lambda>c. case co_type_hint c of
            Some th \<Rightarrow> push_if (th = symbol) (mk_trace_ref pkg ConstType (co_name c) (co_location c))
          | None \<Rightarrow> []) (gf_constants file))
      @ concat (map (\<lambda>v. case va_type_hint v of
            Some th \<Rightarrow> push_if (type_expr_mentions th symbol) (mk_trace_ref pkg VarType (va_name v) (va_location v))
          | None \<Rightarrow> []) (gf_variables file)))"

definition trace_references :: "project_index \<Rightarrow> string \<Rightarrow> trace_reference list" where
  "trace_references ix symbol =
     filter (\<lambda>r. tr_context r \<noteq> symbol) (concat (map (trace_file_references symbol) (px_files ix)))"

section \<open>Contracts and recommendations\<close>

definition trace_definition_contracts :: "definition_site \<Rightarrow> contract_involvement list" where
  "trace_definition_contracts d =
     (let is_port = contains (df_file d) ''ports'';
          is_contract_path = contains (df_file d) ''contracts'' \<or> contains (df_file d) ''events'';
          mk = (\<lambda>kind why. mk_involvement (df_name d) kind (df_file d) (df_line d) why)
      in if df_kind d = ''interface'' then
           [mk (if is_port then ''port'' else ''interface'')
              (if is_port then
                 dash ''port interface'' ''changes affect all implementations across adapters and actors''
               else dash ''exported interface'' ''changes affect all implementors'')]
         else if df_kind d = ''struct'' then
           push_if (is_message_type (df_name d) (df_file d))
             (mk ''message_type'' (dash ''message struct'' ''field changes affect serialization across services''))
         else if df_kind d \<in> {''type_alias'', ''const''} then
           push_if is_contract_path
             (mk ''contract_type'' (dash ''defined in contract/event layer'' ''changes affect message encoding''))
         else [])"

definition trace_contracts :: "project_index \<Rightarrow> string \<Rightarrow> definition_site list \<Rightarrow> contract_involvement list" where
  "trace_contracts ix symbol defs =
     concat (map trace_definition_contracts defs)
     @ concat (map (\<lambda>file. concat (map (method_contracts symbol) (gf_types file))) (px_files ix))"

definition file_commands :: "string \<Rightarrow> string list" where
  "file_commands f =
     (if contains f ''contracts'' \<or> contains f ''ports'' \<or> contains f ''events'' then [cli ''contract-audit''] else [])
     @ (if contains f ''adapters/nats'' \<or> contains f ''adapters/kafka''
        then [cli ''contract-audit'', cli ''runtime-bindings''] else [])
     @ (if contains f ''domain/'' then [cli ''arch-guard''] else [])
     @ (if contains f ''application/'' then [cli ''arch-guard''] else [])
     @ (if contains f ''actors/'' then [cli ''runtime-bindings''] else [])
     @ (if contains f ''interfaces/http'' then [cli ''arch-guard''] else [])
     @ (if contains f ''deploy/'' \<or> contains f ''configs/''
        then [cli ''topology-doctor'', cli ''drift-detect''] else [])"

definition trace_commands :: "definition_site list \<Rightarrow> trace_reference list \<Rightarrow> string list" where
  "trace_commands defs refs =
     sort_dedup
       (concat (map file_commands (sort_dedup (map df_file defs @ map tr_file refs)))
        @ (if defs \<noteq> [] \<or> refs \<noteq> [] then [cli ''impact-map <symbol>''] else []))"

section \<open>The trace\<close>

definition static_trace_note :: string where
  "static_trace_note =
     ''Trace is computed from structural AST indexing (declarations, signatures, struct fields, type expressions). ''
     @ ''Function bodies are not analyzed '' @ em_dash
     @ '' call sites, assignments, and runtime usage are not visible.''"

definition trace_in_index :: "project_index \<Rightarrow> string \<Rightarrow> trace_report" where
  "trace_in_index ix symbol =
     (let defs = trace_definitions ix symbol; refs = trace_references ix symbol in
      \<lparr>sx_symbol = symbol, sx_status = resolution_of defs, sx_definitions = defs, sx_references = refs,
       sx_packages = sort_dedup (map df_package defs @ map tr_package refs),
       sx_contracts = trace_contracts ix symbol defs, sx_commands = trace_commands defs refs,
       sx_scope_note = static_trace_note, sx_lsp = None\<rparr>)"

definition symbol_trace :: "fs_node \<Rightarrow> string \<Rightarrow> trace_report" where
  "symbol_trace root symbol = trace_in_index (build_index root) symbol"

definition new_lsp_defs :: "definition_site list \<Rightarrow> lsp_def list \<Rightarrow> lsp_def list" where
  "new_lsp_defs defs lds =
     filter (\<lambda>ld. \<not> list_ex (\<lambda>d. df_file d = loc_file (ld_location ld) \<and> df_line d = loc_line (ld_location ld)) defs) lds"

definition new_lsp_refs :: "trace_reference list \<Rightarrow> lsp_ref list \<Rightarrow> lsp_ref list" where
  "new_lsp_refs refs lrs =
     filter (\<lambda>lr. \<not> list_ex (\<lambda>r. tr_file r = loc_file (lf_location lr) \<and> tr_line r = loc_line (lf_location lr)) refs) lrs"

definition add_package :: "string \<Rightarrow> string list \<Rightarrow> string list" where
  "add_package file_path pkgs =
     (let pkg = file_to_package file_path in if pkg \<noteq> [] \<and> pkg \<notin> set pkgs then pkgs @ [pkg] else pkgs)"

definition trace_lsp_note :: "lsp_status \<Rightarrow> string" where
  "trace_lsp_note st =
     (case st of
        Enriched \<Rightarrow>
          ''Trace combines structural AST indexing (declarations, signatures, struct fields) with gopls ''
          @ ''semantic analysis (type-resolved definitions, cross-package references including call sites). ''
          @ ''Each fact is tagged with its source: [ast] or [lsp].''
      | NoResults \<Rightarrow>
          ''Trace is computed from structural AST indexing. gopls was available but returned no additional ''
          @ ''results for this symbol.''
      | Unavailable reason \<Rightarrow>
          ''Trace is computed from structural AST indexing (declarations, signatures, struct fields). ''
          @ ''LSP enrichment unavailable: '' @ reason
          @ ''. Function body call sites and cross-package type resolution are not visible.'')"

definition add_trace_lsp :: "trace_report \<Rightarrow> enriched_symbol \<Rightarrow> trace_report" where
  "add_trace_lsp report es =
     (let defs = new_lsp_defs (sx_definitions report) (es_lsp_definitions es);
          refs = new_lsp_refs (sx_references report) (es_lsp_references es);
          places = map (\<lambda>d. loc_file (ld_location d)) defs @ map (\<lambda>r. loc_file (lf_location r)) refs
      in report\<lparr>sx_packages := sort (fold add_package places (sx_packages report)),
                sx_lsp := Some \<lparr>tl_status = es_lsp_status es, tl_definitions = defs, tl_references = refs,
                                tl_hover = es_hover es\<rparr>,
                sx_scope_note := trace_lsp_note (es_lsp_status es)\<rparr>)"

definition trace_with_lsp :: "'j json_api \<Rightarrow> (string \<Rightarrow> string) \<Rightarrow> fs_node \<Rightarrow> string \<Rightarrow> bridge
                              \<Rightarrow> (trace_report \<times> bridge) option" where
  "trace_with_lsp api join_root root symbol b =
     (let ix = build_index root in
      map_option (\<lambda>(es, b'). (add_trace_lsp (trace_in_index ix symbol) es, b'))
        (enrich_symbol_with_index api join_root ix symbol b))"

section \<open>Rendering\<close>

definition trace_not_found :: "string \<Rightarrow> string \<Rightarrow> string" where
  "trace_not_found symbol note =
     ''Status: not found'' @ nl @ nl
     @ ''The symbol '' @ quote1 symbol @ '' was not found as a type, function, constant, or variable'' @ nl
     @ ''in the structural index. Possible reasons:'' @ nl
     @ ''  - The name is misspelled'' @ nl
     @ ''  - It is defined inside a function body (not indexed)'' @ nl
     @ ''  - It is a field name or local variable (not a top-level symbol)'' @ nl
     @ ''  - It exists in vendor/ or generated code (excluded from index)'' @ nl @ nl
     @ ''Scope: '' @ note @ nl"

definition trace_status :: "trace_report \<Rightarrow> string" where
  "trace_status r =
     (case sx_status r of
        Ambiguous \<Rightarrow>
          ''Status: ambiguous ('' @ show_nat (length (sx_definitions r)) @ '' definitions across packages)'' @ nl
          @ ''  Note: same name defined in multiple packages '' @ em_dash @ '' these may be unrelated types.'' @ nl
      | _ \<Rightarrow> ''Status: resolved (single definition)'' @ nl) @ nl"

definition render_lsp_definitions :: "string \<Rightarrow> lsp_def list \<Rightarrow> string" where
  "render_lsp_definitions symbol ds =
     spaced_block (counted ''Additional definitions'' ds @ '': [lsp]'')
       (\<lambda>d. ''  '' @ (case ld_qualified_name d of Some q \<Rightarrow> q | None \<Rightarrow> symbol) @ '' at '' @ loc_text (ld_location d)) ds"

definition render_trace_references :: "bool \<Rightarrow> trace_report \<Rightarrow> string" where
  "render_trace_references verbose r =
     (if sx_references r = [] then
        ''Structural references: none found [ast]'' @ nl
        @ (if sx_lsp r = None then
             ''  (the symbol may be used in function bodies '' @ em_dash @ '' use --lsp to find call sites)'' @ nl else [])
      else counted ''Structural references'' (sx_references r) @ '': [ast]'' @ nl
        @ cut_lines2 verbose 20
            (\<lambda>x. ''  '' @ reference_label (tr_kind x) @ '' in '' @ tr_context x @ '' at '' @ at_place (tr_file x) (tr_line x))
            (sx_references r)) @ nl"

definition render_semantic :: "lsp_ref \<Rightarrow> string" where
  "render_semantic r =
     (let place = ''  '' @ loc_text (lf_location r) in
      case lf_context r of
        Some c \<Rightarrow> (if c = [] then place else dash place c)
      | None \<Rightarrow> place)"

definition render_semantic_refs :: "bool \<Rightarrow> lsp_ref list \<Rightarrow> string" where
  "render_semantic_refs verbose rs =
     (if rs = [] then []
      else counted ''Semantic references'' rs @ '': [lsp]'' @ nl @ cut_lines2 verbose 20 render_semantic rs @ nl)"

definition render_hover :: "bool \<Rightarrow> hover_info option \<Rightarrow> string" where
  "render_hover verbose h =
     (case h of
        None \<Rightarrow> []
      | Some hover \<Rightarrow>
          (case hi_signature hover of Some sig \<Rightarrow> ''Type signature: '' @ sig @ '' [lsp]'' @ nl | None \<Rightarrow> [])
          @ (if verbose then
               (case hi_documentation hover of Some doc \<Rightarrow> ''Documentation: '' @ doc @ '' [lsp]'' @ nl | None \<Rightarrow> [])
             else [])
          @ nl)"

definition render_trace :: "trace_report \<Rightarrow> bool \<Rightarrow> string" where
  "render_trace r verbose =
     (let with_lsp = (\<lambda>f. case sx_lsp r of Some l \<Rightarrow> f l | None \<Rightarrow> []) in
      ''=== Symbol Trace: '' @ sx_symbol r @ '' ==='' @ nl @ nl
      @ with_lsp (\<lambda>l. render_rename_lsp (tl_status l))
      @ (if sx_status r = SymbolNotFound then trace_not_found (sx_symbol r) (sx_scope_note r)
         else
           trace_status r
           @ counted ''Definitions'' (sx_definitions r) @ '': [ast]'' @ nl
           @ concat (map (render_definition (verbose \<or> length (sx_definitions r) = 1)) (sx_definitions r)) @ nl
           @ with_lsp (\<lambda>l. render_lsp_definitions (sx_symbol r) (tl_definitions l))
           @ render_trace_references verbose r
           @ with_lsp (\<lambda>l. render_semantic_refs verbose (tl_references l))
           @ with_lsp (\<lambda>l. render_hover verbose (tl_hover l))
           @ spaced_block (counted ''Packages involved'' (sx_packages r) @ '':'') (\<lambda>p. ''  '' @ p) (sx_packages r)
           @ spaced_block (counted ''Contract connections'' (sx_contracts r) @ '': '')
               (\<lambda>c. ''  '' @ cv_name c @ '' ['' @ cv_kind c @ ''] at '' @ at_place (cv_file c) (cv_line c)
                  @ '' ['' @ cv_basis c @ '']'' @ nl @ ''    why: '' @ cv_why c) (sx_contracts r)
           @ spaced_block ''Recommended checks:'' (\<lambda>c. ''  $ '' @ c) (sx_commands r)
           @ ''Scope: '' @ sx_scope_note r @ nl))"

section \<open>Agreement with the rename check\<close>

definition relabel :: "reference_kind \<Rightarrow> string" where
  "relabel k =
     (case k of
        FieldType \<Rightarrow> ''field_type'' | EmbeddedField \<Rightarrow> ''embedded_field'' | ParamType \<Rightarrow> ''param_type''
      | ReturnType \<Rightarrow> ''return_type'' | ReceiverType \<Rightarrow> ''receiver'' | InterfaceEmbed \<Rightarrow> ''interface_embed''
      | AliasUnderlying \<Rightarrow> ''alias_underlying'' | ConstType \<Rightarrow> ''const_type'' | VarType \<Rightarrow> ''var_type'')"

definition as_affected :: "trace_reference \<Rightarrow> affected_reference" where
  "as_affected r =
     \<lparr>ar_kind = relabel (tr_kind r), ar_context = tr_context r, ar_package = tr_package r,
      ar_file = tr_file r, ar_line = tr_line r, ar_basis = tr_basis r\<rparr>"

lemma as_affected_mk: "as_affected (mk_trace_ref p k c l) = mk_reference p (relabel k) c l"
  by (simp add: as_affected_def mk_trace_ref_def mk_reference_def)

lemma concat_push_if: "concat (map (\<lambda>x. push_if (P x) (f x)) xs) = map f (filter P xs)"
  by (induction xs) (simp_all add: push_if_def)

lemma map_filter_concat: "List.map_filter f xs = concat (map (\<lambda>x. case f x of Some y \<Rightarrow> [y] | None \<Rightarrow> []) xs)"
  by (induction xs) (auto simp: List.map_filter_simps split: option.splits)

lemma trace_definitions_eq: "trace_definitions ix symbol = find_definitions ix symbol"
proof -
  have "trace_file_definitions symbol fl = file_definitions symbol fl" for fl
    by (simp add: trace_file_definitions_def file_definitions_def concat_push_if Let_def)
  then have "trace_file_definitions symbol = file_definitions symbol" by blast
  then show ?thesis by (simp add: trace_definitions_def find_definitions_def)
qed

lemma trace_type_eq: "map as_affected (trace_type symbol pkg t) = type_references symbol pkg t"
proof (cases "ty_kind t")
  case (StructKind flds)
  have "map as_affected (trace_field symbol pkg t f)
      = (case field_reference symbol pkg (ty_name t) f of Some y \<Rightarrow> [y] | None \<Rightarrow> [])" for f
    by (simp add: trace_field_def field_reference_def push_if_def as_affected_mk relabel_def)
  then show ?thesis
    unfolding trace_type_def type_references_def StructKind type_kind.case map_filter_concat
    by (simp add: map_concat comp_def)
next
  case (InterfaceKind ms es)
  then show ?thesis
    by (simp add: trace_type_def type_references_def concat_push_if comp_def as_affected_mk relabel_def)
next
  case (AliasKind u)
  then show ?thesis by (simp add: trace_type_def type_references_def push_if_def as_affected_mk relabel_def)
qed

lemma trace_params_eq:
  "map as_affected (trace_params symbol pkg k f ps) = param_references symbol pkg (relabel k) f ps"
  by (simp add: trace_params_def param_references_def concat_push_if comp_def as_affected_mk)

lemma trace_func_eq: "map as_affected (trace_func symbol pkg f) = func_references symbol pkg f"
  by (cases "fn_receiver f")
     (simp_all add: trace_func_def func_references_def trace_params_eq as_affected_mk relabel_def push_if_def)

lemma trace_file_eq: "map as_affected (trace_file_references symbol file) = file_references symbol file"
proof -
  have c: "map as_affected (case co_type_hint c of
            Some th \<Rightarrow> push_if (th = symbol) (mk_trace_ref pkg ConstType (co_name c) (co_location c)) | None \<Rightarrow> [])
      = (case const_reference symbol pkg c of Some y \<Rightarrow> [y] | None \<Rightarrow> [])" for c pkg
    by (auto simp: const_reference_def push_if_def as_affected_mk relabel_def split: option.splits)
  have v: "map as_affected (case va_type_hint v of
            Some th \<Rightarrow> push_if (type_expr_mentions th symbol) (mk_trace_ref pkg VarType (va_name v) (va_location v))
          | None \<Rightarrow> [])
      = (case var_reference symbol pkg v of Some y \<Rightarrow> [y] | None \<Rightarrow> [])" for v pkg
    by (auto simp: var_reference_def push_if_def as_affected_mk relabel_def split: option.splits)
  show ?thesis
    by (simp add: trace_file_references_def file_references_def Let_def map_concat comp_def trace_type_eq
        trace_func_eq c v map_filter_concat)
qed

text \<open>
  C24 (two analysers, one answer). The trace and the rename check, which find definitions and
  references with separate code, have the same definitions, the same references up to the labels of
  their kinds, the same status and the same packages.
\<close>

theorem trace_agrees_with_rename:
  "sx_definitions (trace_in_index ix symbol) = rn_definitions (check_in_index ix symbol nn)
   \<and> map as_affected (sx_references (trace_in_index ix symbol)) = rn_references (check_in_index ix symbol nn)
   \<and> sx_status (trace_in_index ix symbol) = rn_status (check_in_index ix symbol nn)
   \<and> sx_packages (trace_in_index ix symbol) = rn_packages (check_in_index ix symbol nn)"
proof -
  have refs: "map as_affected (trace_references ix symbol) = find_references ix symbol"
  proof -
    have swap: "map as_affected (filter (\<lambda>r. tr_context r \<noteq> symbol) rs)
        = filter (\<lambda>r. ar_context r \<noteq> symbol) (map as_affected rs)" for rs
      by (simp add: filter_map comp_def as_affected_def)
    have "map as_affected (concat (map (trace_file_references symbol) fs))
        = concat (map (file_references symbol) fs)" for fs
      by (simp add: map_concat comp_def trace_file_eq)
    then show ?thesis
      unfolding trace_references_def find_references_def swap by simp
  qed
  have pkgs: "map ar_package (map as_affected rs) = map tr_package rs" for rs
    by (simp add: as_affected_def)
  show ?thesis
    unfolding trace_in_index_def check_in_index_def Let_def refs [symmetric] trace_definitions_eq
    by (simp add: as_affected_def comp_def)
qed

end
