(* ===== verification/RenameProps.thy ===== *)
theory RenameProps
  imports RenameSafety
begin

text \<open>
  Properties of the rename check: what counts as a mention of a symbol, which references are found
  and which are lost, and how the risk follows from the facts.
\<close>

section \<open>Mentions\<close>

text \<open>A word occurs in an expression when it is a part of it with no identifier character at its ends.\<close>

definition word_in :: "string \<Rightarrow> string \<Rightarrow> bool" where
  "word_in symbol expr \<longleftrightarrow> (\<exists>pre post. expr = pre @ symbol @ post
     \<and> (pre = [] \<or> \<not> is_ident_char (last pre)) \<and> (post = [] \<or> \<not> is_ident_char (hd post)))"

lemma mention_at_iff:
  assumes "i + length symbol \<le> length expr"
  shows "mention_at expr symbol i \<longleftrightarrow> (\<exists>post. expr = take i expr @ symbol @ post
     \<and> (take i expr = [] \<or> \<not> is_ident_char (last (take i expr))) \<and> (post = [] \<or> \<not> is_ident_char (hd post)))"
proof -
  let ?post = "drop (i + length symbol) expr"
  have split: "expr = take i expr @ take (length symbol) (drop i expr) @ ?post"
    by (metis append_take_drop_id drop_drop add.commute)
  have uniq: "expr = take i expr @ symbol @ post \<longleftrightarrow> take (length symbol) (drop i expr) = symbol \<and> post = ?post" for post
  proof
    assume e: "expr = take i expr @ symbol @ post"
    then have "drop i expr = symbol @ post" by (metis append_eq_conv_conj length_take min.absorb2 add_leD1 assms)
    then show "take (length symbol) (drop i expr) = symbol \<and> post = ?post"
      by (metis append_eq_conv_conj drop_drop add.commute)
  qed (use split in metis)
  have last: "take i expr = [] \<or> \<not> is_ident_char (last (take i expr)) \<longleftrightarrow> i = 0 \<or> \<not> is_ident_char (expr ! (i - 1))"
  proof (cases "i = 0")
    case False
    then have "i - 1 < length expr" "0 < length expr" using assms by auto
    moreover have "last (take i expr) = expr ! (i - 1)"
      using False assms by (subst last_conv_nth) auto
    ultimately show ?thesis using False by auto
  qed simp
  have hd: "?post = [] \<or> \<not> is_ident_char (hd ?post)
      \<longleftrightarrow> i + length symbol = length expr \<or> \<not> is_ident_char (expr ! (i + length symbol))"
    using assms by (cases "i + length symbol = length expr") (auto simp: hd_drop_conv_nth)
  show ?thesis unfolding mention_at_def uniq last by (auto simp: hd [symmetric])
qed

lemma mentions_whole_words_lemma:
  assumes "symbol \<noteq> []"
  shows "type_expr_mentions expr symbol \<longleftrightarrow> word_in symbol expr"
proof (cases "expr = symbol")
  case True
  then show ?thesis by (auto simp: type_expr_mentions_def word_in_def intro: exI [where x = "[]"])
next
  case False
  show ?thesis
  proof
    assume "type_expr_mentions expr symbol"
    with False assms have "length symbol \<le> length expr"
        "list_ex (mention_at expr symbol) [0..<Suc (length expr - length symbol)]"
      by (simp_all add: type_expr_mentions_def split: if_splits)
    then obtain i where "i < Suc (length expr - length symbol)" "mention_at expr symbol i"
      unfolding list_ex_iff set_upt by (elim bexE) simp
    with \<open>length symbol \<le> length expr\<close> have i: "i + length symbol \<le> length expr" "mention_at expr symbol i"
      by simp_all
    then obtain post where "expr = take i expr @ symbol @ post"
        "take i expr = [] \<or> \<not> is_ident_char (last (take i expr))" "post = [] \<or> \<not> is_ident_char (hd post)"
      unfolding mention_at_iff [OF i(1)] by blast
    then show "word_in symbol expr" unfolding word_in_def by blast
  next
    assume "word_in symbol expr"
    then obtain pre post where p: "expr = pre @ symbol @ post"
        "pre = [] \<or> \<not> is_ident_char (last pre)" "post = [] \<or> \<not> is_ident_char (hd post)"
      by (auto simp: word_in_def)
    then have "mention_at expr symbol (length pre)"
      by (subst mention_at_iff) auto
    moreover have "length pre \<in> set [0..<Suc (length expr - length symbol)]" "length symbol \<le> length expr"
      using p(1) by auto
    ultimately show "type_expr_mentions expr symbol"
      unfolding type_expr_mentions_def list_ex_iff using assms by auto
  qed
qed

text \<open>
  Property (mentions). The scan over byte positions finds a symbol in a type expression exactly when it
  occurs there as a whole word.
\<close>

theorem mentions_whole_words:
  assumes "symbol \<noteq> []"
  shows "type_expr_mentions expr symbol \<longleftrightarrow> word_in symbol expr"
  using assms by (rule mentions_whole_words_lemma)

theorem mentions_whole_words_witness:
  "(type_expr_mentions ''map[string]*pkg.Config'' ''Config'' \<longleftrightarrow> word_in ''Config'' ''map[string]*pkg.Config'')
   \<and> type_expr_mentions ''map[string]*pkg.Config'' ''Config'' \<and> \<not> type_expr_mentions ''ConfigSet'' ''Config''"
proof -
  have "type_expr_mentions ''map[string]*pkg.Config'' ''Config''" "\<not> type_expr_mentions ''ConfigSet'' ''Config''"
    by code_simp+
  then show ?thesis using mentions_whole_words [of "''Config''" "''map[string]*pkg.Config''"] by simp
qed

section \<open>Risk\<close>

lemma max_risk_props:
  "max_risk a b = RiskCritical \<longleftrightarrow> a = RiskCritical \<or> b = RiskCritical"
  "risk_rank (max_risk a b) = max (risk_rank a) (risk_rank b)"
  by (cases a; cases b; simp add: max_risk_def risk_rank_def)+

lemma fold_max_risk:
  "n \<le> risk_rank (fold (\<lambda>f l. max_risk l (fst f)) fs l0)
     \<longleftrightarrow> n \<le> risk_rank l0 \<or> (\<exists>f\<in>set fs. n \<le> risk_rank (fst f))"
  by (induction fs arbitrary: l0) (auto simp: max_risk_props le_max_iff_disj)

lemma factor_set: "f \<in> set (factor b l n d k) \<longleftrightarrow> b \<and> f = (l, \<lparr>rr_factor = n, rr_detail = d, rr_basis = k\<rparr>)"
  by (auto simp: factor_def)

lemma level_ge:
  "n \<le> risk_rank (as_level (assess_risk defs refs areas contracts))
     \<longleftrightarrow> n = 0 \<or> (\<exists>f\<in>set (risk_factors defs refs areas contracts). n \<le> risk_rank (fst f))"
  unfolding assess_risk_def Let_def risk_assessment.simps fold_max_risk by (simp add: risk_rank_def)

lemma rank_cases: "risk_rank l = 0 \<longleftrightarrow> l = RiskLow" "3 \<le> risk_rank l \<longleftrightarrow> l = RiskCritical"
  by (cases l; simp add: risk_rank_def)+

lemma ranks [simp]:
  "risk_rank RiskLow = 0" "risk_rank RiskMedium = 1" "risk_rank RiskHigh = 2" "risk_rank RiskCritical = 3"
  by (simp_all add: risk_rank_def)

text \<open>
  C19 (the risk of a rename). The level is critical exactly when a port or message type is
  involved; it is at least high exactly when, besides, there are more than twenty references, more
  than one definition, any contract, or the areas include ports or both domain and adapters; and it
  is low exactly when the only reason is that the change is contained.
\<close>

theorem rename_risk_exact:
  "(as_level (assess_risk defs refs areas contracts) = RiskCritical
      \<longleftrightarrow> has_kind ''port'' contracts \<or> has_kind ''message_type'' contracts)
   \<and> (as_level (assess_risk defs refs areas contracts) \<in> {RiskHigh, RiskCritical}
      \<longleftrightarrow> 20 < refs \<or> 1 < length defs \<or> 0 < length contracts \<or> has_area ''ports'' areas
          \<or> (has_area ''domain'' areas \<and> has_area ''adapters'' areas))
   \<and> (as_level (assess_risk defs refs areas contracts) = RiskLow
      \<longleftrightarrow> map rr_factor (as_reasons (assess_risk defs refs areas contracts)) = [''contained_change''])"
proof (intro conjI)
  have kinds: "has_kind k contracts \<Longrightarrow> contracts \<noteq> []" for k by (auto simp: has_kind_def)
  show "as_level (assess_risk defs refs areas contracts) = RiskCritical
      \<longleftrightarrow> has_kind ''port'' contracts \<or> has_kind ''message_type'' contracts"
    unfolding rank_cases(2) [symmetric] level_ge
    by (auto simp: risk_factors_def Let_def bex_Un factor_set)
  have "as_level a \<in> {RiskHigh, RiskCritical} \<longleftrightarrow> 2 \<le> risk_rank (as_level a)" for a :: risk_assessment
    by (cases "as_level a") simp_all
  note high = this
  show "as_level (assess_risk defs refs areas contracts) \<in> {RiskHigh, RiskCritical}
      \<longleftrightarrow> 20 < refs \<or> 1 < length defs \<or> 0 < length contracts \<or> has_area ''ports'' areas
          \<or> (has_area ''domain'' areas \<and> has_area ''adapters'' areas)"
    unfolding high level_ge using kinds by (auto simp: risk_factors_def Let_def bex_Un factor_set)
  have pos: "f \<in> set (risk_factors defs refs areas contracts)
      \<Longrightarrow> 1 \<le> risk_rank (fst f) \<and> rr_factor (snd f) \<noteq> ''contained_change''" for f
    by (auto simp: risk_factors_def Let_def factor_set)
  have "as_level (assess_risk defs refs areas contracts) = RiskLow \<longleftrightarrow> risk_factors defs refs areas contracts = []"
    unfolding rank_cases(1) [symmetric] using level_ge [of 1 defs refs areas contracts] pos
    by (metis One_nat_def Suc_le_eq bot_nat_0.not_eq_extremum ex_in_conv list.set_intros(1) neq_Nil_conv one_neq_zero
        set_empty)
  also have "\<dots> \<longleftrightarrow> map rr_factor (as_reasons (assess_risk defs refs areas contracts)) = [''contained_change'']"
    using pos by (cases "risk_factors defs refs areas contracts") (auto simp: assess_risk_def Let_def)
  finally show "as_level (assess_risk defs refs areas contracts) = RiskLow
      \<longleftrightarrow> map rr_factor (as_reasons (assess_risk defs refs areas contracts)) = [''contained_change'']" .
qed


section \<open>References\<close>

definition accessor_index :: "string \<Rightarrow> project_index" where
  "accessor_index name =
     (let fs = [\<lparr>gf_path = ''a/s.go'', gf_package = ''a'', gf_imports = [], gf_types = [],
                 gf_functions = [\<lparr>fn_name = name, fn_receiver = None, fn_params = [],
                                  fn_returns = [\<lparr>pa_name = [], pa_type_expr = ''*Config''\<rparr>],
                                  fn_visibility = Exported, fn_location = mk_loc ''a/s.go'' 7\<rparr>],
                 gf_constants = [], gf_variables = [], gf_is_test = False, gf_line_count = 9\<rparr>]
      in \<lparr>px_files = fs, px_packages = [], px_stats = compute_stats fs []\<rparr>)"

text \<open>
  Property (self-named declarations). The filter against the symbol's own definitions compares names
  only: a function called as the type it returns, a common accessor, is no reference to that type,
  while the same function under another name is.
\<close>

theorem accessor_reference_lost:
  "find_references (accessor_index ''Config'') ''Config'' = []
   \<and> map ar_kind (find_references (accessor_index ''Load'') ''Config'') = [''return_type'']"
  by code_simp

lemma file_reference_kept:
  assumes "file \<in> set (px_files ix)" "r \<in> set (file_references symbol file)" "ar_context r \<noteq> symbol"
  shows "r \<in> set (find_references ix symbol)"
  using assms by (auto simp: find_references_def)

lemma field_reference_found:
  assumes "file \<in> set (px_files ix)" "t \<in> set (gf_types file)" "ty_kind t = StructKind flds" "f \<in> set flds"
    and "type_expr_mentions (sf_type_expr f) symbol" "symbol \<noteq> ty_name t" "symbol \<noteq> ty_name t @ ''.'' @ sf_name f"
  shows "\<exists>r\<in>set (find_references ix symbol). ar_file r = loc_file (sf_location f) \<and> ar_line r = loc_line (sf_location f)"
proof -
  let ?emb = "sf_embedded f \<and> sf_type_expr f = symbol"
  let ?r = "mk_reference (gf_package file) (if ?emb then ''embedded_field'' else ''field_type'')
      (if ?emb then ty_name t else ty_name t @ ''.'' @ sf_name f) (sf_location f)"
  have "field_reference symbol (gf_package file) (ty_name t) f = Some ?r"
    using assms(5) by (simp add: field_reference_def)
  then have "?r \<in> set (type_references symbol (gf_package file) t)"
    using assms(3,4) by (auto simp: type_references_def map_filter_mem)
  then have "?r \<in> set (file_references symbol file)" using assms(2) by (auto simp: file_references_def Let_def)
  moreover have "ar_context ?r \<noteq> symbol" using assms(6,7) by (simp add: mk_reference_def)
  ultimately have "?r \<in> set (find_references ix symbol)" by (rule file_reference_kept [OF assms(1)])
  then show ?thesis by (rule bexI [rotated]) (simp add: mk_reference_def)
qed

lemma signature_reference_found:
  assumes "file \<in> set (px_files ix)" "g \<in> set (gf_functions file)" "p \<in> set (fn_params g) \<union> set (fn_returns g)"
    and "type_expr_mentions (pa_type_expr p) symbol" "fn_name g \<noteq> symbol"
  shows "\<exists>r\<in>set (find_references ix symbol). ar_file r = loc_file (fn_location g) \<and> ar_line r = loc_line (fn_location g)"
proof -
  let ?r = "\<lambda>kind. mk_reference (gf_package file) kind (fn_name g) (fn_location g)"
  obtain kind where "?r kind \<in> set (func_references symbol (gf_package file) g)"
    using assms(3,4) by (auto simp: func_references_def param_references_def)
  then have "?r kind \<in> set (file_references symbol file)"
    using assms(2) by (auto simp: file_references_def Let_def)
  moreover have "ar_context (?r kind) \<noteq> symbol" using assms(5) by (simp add: mk_reference_def)
  ultimately have "?r kind \<in> set (find_references ix symbol)" by (rule file_reference_kept [OF assms(1)])
  then show ?thesis by (rule bexI [rotated]) (simp add: mk_reference_def)
qed

text \<open>
  C18 (references are complete). For every field of a struct and every parameter and result of a
  function in the index whose type has the symbol as a whole word, there is a reference at its file
  and line, unless the declaration has the name of the symbol.
\<close>

theorem references_complete:
  assumes "symbol \<noteq> []" and "file \<in> set (px_files ix)"
  shows "(\<forall>t\<in>set (gf_types file). \<forall>flds. ty_kind t = StructKind flds \<longrightarrow> (\<forall>f\<in>set flds.
             word_in symbol (sf_type_expr f) \<and> symbol \<noteq> ty_name t \<and> symbol \<noteq> ty_name t @ ''.'' @ sf_name f \<longrightarrow>
             (\<exists>r\<in>set (find_references ix symbol).
                ar_file r = loc_file (sf_location f) \<and> ar_line r = loc_line (sf_location f))))
    \<and> (\<forall>g\<in>set (gf_functions file). \<forall>p\<in>set (fn_params g) \<union> set (fn_returns g).
             word_in symbol (pa_type_expr p) \<and> fn_name g \<noteq> symbol \<longrightarrow>
             (\<exists>r\<in>set (find_references ix symbol).
                ar_file r = loc_file (fn_location g) \<and> ar_line r = loc_line (fn_location g)))"
  using field_reference_found [OF assms(2)] signature_reference_found [OF assms(2)] mentions_whole_words_lemma [OF assms(1)]
  by blast

theorem references_complete_witness:
  "\<exists>r\<in>set (find_references (accessor_index ''Load'') ''Config''). ar_file r = ''a/s.go'' \<and> ar_line r = 7"
proof -
  let ?g = "\<lparr>fn_name = ''Load'', fn_receiver = None, fn_params = [],
      fn_returns = [\<lparr>pa_name = [], pa_type_expr = ''*Config''\<rparr>],
      fn_visibility = Exported, fn_location = mk_loc ''a/s.go'' 7\<rparr>"
  let ?f = "\<lparr>gf_path = ''a/s.go'', gf_package = ''a'', gf_imports = [], gf_types = [], gf_functions = [?g],
      gf_constants = [], gf_variables = [], gf_is_test = False, gf_line_count = 9\<rparr>"
  have "type_expr_mentions ''*Config'' ''Config''" by code_simp
  then have "word_in ''Config'' ''*Config''" by (simp add: mentions_whole_words_lemma)
  then show ?thesis
    using references_complete [of "''Config''" ?f "accessor_index ''Load''"]
    by (simp add: accessor_index_def mk_loc_def Let_def)
qed

end
