(* ===== verification/CoverageMap.thy ===== *)
theory CoverageMap
  imports Gate Filesystem OrderedMap
begin

text \<open>
  The coverage map (\<open>analyzers/coverage_map.rs\<close>): the quality dimensions the tool validates, the
  sensitive areas of the project and the dimensions each requires, the Go tests found on disk, and
  the guidance for a set of changed files. The two tables are constants of the program.
\<close>

section \<open>Dimensions and areas\<close>

record dimension =
  di_name :: string
  di_description :: string
  di_command :: string
  di_requires_infra :: bool

definition dim :: "string \<Rightarrow> string \<Rightarrow> string \<Rightarrow> bool \<Rightarrow> dimension" where
  "dim name description command infra =
     \<lparr>di_name = name, di_description = description, di_command = command, di_requires_infra = infra\<rparr>"

definition dimensions :: "dimension list" where
  "dimensions =
     [dim ''project-structure'' ''go.work, directories, compose, config files'' ''raccoon-cli doctor'' False,
      dim ''topology'' ''config/compose/source wiring consistency'' ''raccoon-cli topology-doctor'' False,
      dim ''contracts'' ''messaging contracts, envelope, codec invariants'' ''raccoon-cli contract-audit'' False,
      dim ''runtime-bindings'' ''config -> kafka -> jetstream -> validator routing chain''
        ''raccoon-cli runtime-bindings'' False,
      dim ''architecture'' ''clean architecture layer boundaries and purity rules'' ''raccoon-cli arch-guard'' False,
      dim ''drift'' ''cross-layer declaration/config/source/docs alignment'' ''raccoon-cli drift-detect'' False,
      dim ''runtime-smoke'' ''live E2E pipeline proof (6 stages)'' ''raccoon-cli runtime-smoke'' True,
      dim ''scenario:happy-path'' ''full E2E: config lifecycle + data plane + validation results''
        ''raccoon-cli scenario-smoke happy-path'' True,
      dim ''scenario:config-lifecycle'' ''control plane lifecycle: draft -> validate -> compile -> activate''
        ''raccoon-cli scenario-smoke config-lifecycle'' True,
      dim ''scenario:invalid-payload'' ''validator catches invalid data from emulator''
        ''raccoon-cli scenario-smoke invalid-payload'' True,
      dim ''scenario:missing-binding'' ''non-existent scope returns empty results without error''
        ''raccoon-cli scenario-smoke missing-binding'' True,
      dim ''scenario:readiness-probe'' ''cluster bootstrap and readiness verification''
        ''raccoon-cli scenario-smoke readiness-probe'' True]"

record sensitive_area =
  sa_name :: string
  sa_description :: string
  sa_patterns :: "string list"
  sa_required_dimensions :: "string list"

definition dashed_text :: "string \<Rightarrow> string \<Rightarrow> string" where
  "dashed_text a b = a @ '' '' @ em_dash @ '' '' @ b"

definition area :: "string \<Rightarrow> string \<Rightarrow> string list \<Rightarrow> string list \<Rightarrow> sensitive_area" where
  "area name description patterns required =
     \<lparr>sa_name = name, sa_description = description, sa_patterns = patterns, sa_required_dimensions = required\<rparr>"

definition sensitive_areas :: "sensitive_area list" where
  "sensitive_areas =
     [area ''config-files'' (dashed_text ''deploy/configs/*.jsonc'' ''service configuration'')
        [''deploy/configs/''] [''project-structure'', ''topology'', ''drift''],
      area ''compose'' (dashed_text ''docker-compose.yaml'' ''service orchestration'')
        [''deploy/compose/''] [''project-structure'', ''topology'', ''drift''],
      area ''nats-adapters'' (dashed_text ''NATS/JetStream adapter layer'' ''transport wiring'')
        [''internal/adapters/nats/''] [''contracts'', ''runtime-bindings'', ''architecture''],
      area ''kafka-adapters'' (dashed_text ''Kafka adapter layer'' ''data plane transport'')
        [''internal/adapters/kafka/''] [''topology'', ''runtime-bindings'', ''architecture''],
      area ''domain'' (dashed_text ''domain layer'' ''business rules, must be pure'')
        [''internal/domain/''] [''architecture'', ''contracts''],
      area ''application'' (dashed_text ''application layer'' ''use cases and ports'')
        [''internal/application/''] [''architecture'', ''contracts''],
      area ''http-handlers'' (dashed_text ''HTTP interface layer'' ''API endpoints'')
        [''internal/interfaces/http/''] [''architecture''],
      area ''actors'' (dashed_text ''actor supervision trees'' ''runtime wiring'')
        [''internal/actors/''] [''architecture'', ''runtime-bindings''],
      area ''validator-logic'' (dashed_text ''validator scope'' ''validation rules and results'')
        [''internal/actors/scopes/validator/'', ''internal/application/validatorresults/'']
        [''contracts'', ''runtime-bindings'', ''scenario:happy-path'', ''scenario:invalid-payload''],
      area ''consumer-pipeline'' (dashed_text ''consumer scope'' ''kafka-to-jetstream bridging'')
        [''internal/actors/scopes/consumer/'', ''internal/application/dataplane/'']
        [''topology'', ''runtime-bindings'', ''scenario:happy-path''],
      area ''config-lifecycle'' (dashed_text ''configctl scope'' ''config draft/validate/compile/activate'')
        [''internal/actors/scopes/configctl/'', ''internal/application/configctl/'']
        [''contracts'', ''scenario:config-lifecycle'']]"

text \<open>
  A pattern ends with a slash: joined to the root it exists exactly when it names a directory.
\<close>

definition pattern_path :: "string \<Rightarrow> path" where
  "pattern_path p = filter (\<lambda>c. c \<noteq> []) (split_on p ''/'')"

definition area_present :: "fs_node \<Rightarrow> sensitive_area \<Rightarrow> bool" where
  "area_present root a = list_ex (\<lambda>p. path_is_dir root (pattern_path p)) (sa_patterns a)"

definition area_matches :: "sensitive_area \<Rightarrow> string \<Rightarrow> bool" where
  "area_matches a file = list_ex (contains file) (sa_patterns a)"

definition find_dimension :: "string \<Rightarrow> dimension option" where
  "find_dimension name = find (\<lambda>d. di_name d = name) dimensions"

section \<open>The checks\<close>

definition backquoted :: "string \<Rightarrow> string" where
  "backquoted s = [CHR 0x60] @ s @ [CHR 0x60]"

definition check_dimension_inventory :: check_result where
  "check_dimension_inventory =
     from_findings ''dimension-inventory''
       (finding_info ''dimension-inventory''
          (show_nat (length dimensions) @ '' quality dimensions: ''
           @ show_nat (length (filter (\<lambda>d. \<not> di_requires_infra d) dimensions)) @ '' static (no infra), ''
           @ show_nat (length (filter di_requires_infra dimensions)) @ '' runtime (requires cluster)'')
        # map (\<lambda>d. finding_info ''dimension-inventory''
            (''  '' @ di_name d @ '': '' @ dashed_text (di_description d) (backquoted (di_command d))
             @ (if di_requires_infra d then '' [requires infra]'' else []))) dimensions)"

definition missing_dimensions :: "sensitive_area \<Rightarrow> string list" where
  "missing_dimensions a = filter (\<lambda>n. n \<notin> di_name ` set dimensions) (sa_required_dimensions a)"

definition area_findings :: "fs_node \<Rightarrow> sensitive_area \<Rightarrow> finding list" where
  "area_findings root a =
     (let name = ''coverage:'' @ sa_name a; required = sa_required_dimensions a; missing = missing_dimensions a in
      if \<not> area_present root a then
        [finding_info name
           (dashed_text (sa_description a) (''area not found in project (patterns: '' @ join '', '' (sa_patterns a) @ '')''))]
      else
        (if missing = [] then
           finding_info name
             (dashed_text (sa_description a)
                (''covered by '' @ show_nat (length required) @ '' dimensions: '' @ join '', '' required))
         else
           with_help (with_why
               (finding_error name
                  (dashed_text (sa_description a) (''missing coverage dimensions: '' @ join '', '' missing)))
               ''sensitive areas without full quality coverage allow unsafe changes'')
             ''implement the missing dimension or add a scenario covering this area'')
        # List.map_filter (\<lambda>n. map_option (\<lambda>d. finding_info name (''  validate with: '' @ backquoted (di_command d)))
            (find_dimension n)) required)"

definition check_area :: "fs_node \<Rightarrow> sensitive_area \<Rightarrow> check_result" where
  "check_area root a = from_findings (''coverage:'' @ sa_name a) (area_findings root a)"

text \<open>The number of Go test files of each directory below \<open>internal/\<close> that has any.\<close>

definition own_tests :: "path \<Rightarrow> (string \<times> fs_node) list \<Rightarrow> (path \<times> nat) list" where
  "own_tests p es =
     (let n = length (filter (\<lambda>(name, node). case node of FDir _ \<Rightarrow> False | FFile _ \<Rightarrow> ends_with name ''_test.go'') es)
      in if 0 < n then [(p, n)] else [])"

fun scan_subdirs :: "path \<Rightarrow> (string \<times> fs_node) list \<Rightarrow> (path \<times> nat) list" where
  "scan_subdirs p [] = []"
| "scan_subdirs p ((name, FDir es) # rest) =
     scan_subdirs (p @ [name]) es @ own_tests (p @ [name]) es @ scan_subdirs p rest"
| "scan_subdirs p ((name, FFile c) # rest) = scan_subdirs p rest"

definition scan_go_tests :: "fs_node \<Rightarrow> (string \<times> nat) list" where
  "scan_go_tests root =
     (case lookup_path root [''internal''] of
        Some (FDir es) \<Rightarrow>
          fold (\<lambda>(p, n). bt_alter (path_string p) (\<lambda>_. n))
            (scan_subdirs [''internal''] es @ own_tests [''internal''] es) []
      | _ \<Rightarrow> [])"

definition check_go_tests :: "fs_node \<Rightarrow> check_result" where
  "check_go_tests root =
     (let areas = scan_go_tests root in
      from_findings ''go-test-coverage''
        (if areas = [] then
           [with_help (with_why (finding_warning ''go-test-coverage'' ''no Go test files found'')
                ''Go unit tests are the first line of defense for business logic'')
              ''add _test.go files alongside your Go source'']
         else
           finding_info ''go-test-coverage'' (show_nat (length areas) @ '' Go packages with tests detected'')
           # map (\<lambda>(pkg, n). finding_info ''go-test-coverage''
               (''  '' @ dashed_text pkg (show_nat n @ '' test file(s)''))) areas))"

definition check_coverage_summary :: "fs_node \<Rightarrow> check_result" where
  "check_coverage_summary root =
     (let present = filter (area_present root) sensitive_areas;
          ok = list_all (\<lambda>a. missing_dimensions a = []) present
      in from_findings ''coverage-summary''
           (finding_info ''coverage-summary''
              (show_nat (length present) @ ''/'' @ show_nat (length sensitive_areas)
               @ '' sensitive areas present in project, '' @ show_nat (length dimensions)
               @ '' quality dimensions available'')
            # (if ok then [finding_info ''coverage-summary''
                  ''all present sensitive areas have full dimension coverage''] else [])))"

definition coverage_checks :: "fs_node \<Rightarrow> check_result list" where
  "coverage_checks root =
     check_dimension_inventory # map (check_area root) sensitive_areas
     @ [check_go_tests root, check_coverage_summary root]"

definition coverage_analyze :: "fs_node \<Rightarrow> cli_error + report" where
  "coverage_analyze root = Inr (foldl report_add (report_new ''coverage-map'') (coverage_checks root))"

section \<open>Guidance for changed files\<close>

definition area_dimensions :: "sensitive_area \<Rightarrow> dimension list" where
  "area_dimensions a = List.map_filter find_dimension (sa_required_dimensions a)"

definition relevant_checks_for_path :: "string \<Rightarrow> (string \<times> string list) list" where
  "relevant_checks_for_path p =
     map (\<lambda>a. (sa_name a, map di_command (area_dimensions a))) (filter (\<lambda>a. area_matches a p) sensitive_areas)"

record guidance =
  gu_affected_areas :: "string list"
  gu_before_commands :: "string list"
  gu_after_commands :: "string list"
  gu_needs_infra :: bool

definition push_new :: "'a \<Rightarrow> 'a list \<Rightarrow> 'a list" where
  "push_new x xs = (if x \<in> set xs then xs else xs @ [x])"

definition guide_dimension :: "dimension \<Rightarrow> guidance \<Rightarrow> guidance" where
  "guide_dimension d g =
     g\<lparr>gu_before_commands := push_new (di_command d) (gu_before_commands g),
       gu_after_commands := push_new (di_command d) (gu_after_commands g),
       gu_needs_infra := (di_requires_infra d \<or> gu_needs_infra g)\<rparr>"

definition guide_area :: "string \<Rightarrow> sensitive_area \<Rightarrow> guidance \<Rightarrow> guidance" where
  "guide_area file a g =
     (if area_matches a file
      then fold guide_dimension (area_dimensions a)
             (g\<lparr>gu_affected_areas := push_new (sa_name a) (gu_affected_areas g)\<rparr>)
      else g)"

definition tdd_guidance :: "string list \<Rightarrow> guidance" where
  "tdd_guidance files =
     (let g = fold (\<lambda>file. fold (guide_area file) sensitive_areas) files
                \<lparr>gu_affected_areas = [], gu_before_commands = [], gu_after_commands = [], gu_needs_infra = False\<rparr>
      in if list_ex (\<lambda>c. contains c ''quality-gate'') (gu_after_commands g) then g
         else g\<lparr>gu_after_commands := gu_after_commands g @ [''make verify'']\<rparr>)"

section \<open>Properties\<close>

text \<open>Every required dimension is one of the table.\<close>

lemma no_missing_dimension: "a \<in> set sensitive_areas \<Longrightarrow> missing_dimensions a = []"
proof -
  have "list_all (\<lambda>a. missing_dimensions a = []) sensitive_areas" by code_simp
  then show "a \<in> set sensitive_areas \<Longrightarrow> missing_dimensions a = []" by (simp add: list_all_iff)
qed

lemma coverage_checks_wf: "c \<in> set (coverage_checks root) \<Longrightarrow> check_wf c"
  by (auto simp: coverage_checks_def check_dimension_inventory_def check_area_def check_go_tests_def
      check_coverage_summary_def Let_def check_wf_from_findings)

interpretation coverage: total_analyser coverage_analyze
proof
  show "coverage_analyze e = Inr r \<Longrightarrow> report_wf r" for e r
    using coverage_checks_wf by (auto simp: coverage_analyze_def intro!: report_wf_foldl report_wf_new)
  show "\<exists>r. coverage_analyze e = Inr r" for e by (simp add: coverage_analyze_def)
qed

text \<open>
  Property (the coverage map cannot fail). The check of the areas compares two tables of the program
  and not the project: for every project the report exists and passes.
\<close>

theorem coverage_always_passes: "\<exists>r. coverage_analyze root = Inr r \<and> rp_passed r"
proof -
  have "ck_status c \<noteq> CheckFail" if c: "c \<in> set (coverage_checks root)" for c
  proof -
    have "no_error (area_findings root a)" if "a \<in> set sensitive_areas" for a
      using no_missing_dimension [OF that]
      by (auto simp: area_findings_def Let_def no_error_def list_all_iff finding_info_def map_filter_def)
    then have "ck_status (check_area root a) \<noteq> CheckFail" if "a \<in> set sensitive_areas" for a
      using that by (simp add: check_area_def check_ok_iff)
    moreover have "ck_status check_dimension_inventory \<noteq> CheckFail" "ck_status (check_go_tests root) \<noteq> CheckFail"
        "ck_status (check_coverage_summary root) \<noteq> CheckFail"
      by (auto simp: check_dimension_inventory_def check_go_tests_def check_coverage_summary_def Let_def
          check_ok_iff no_error_def list_all_iff finding_info_def finding_warning_def with_help_def with_why_def)
    ultimately show ?thesis using c by (auto simp: coverage_checks_def)
  qed
  then show ?thesis by (simp add: coverage_analyze_def rp_passed_foldl report_new_def)
qed

definition matched_dimensions :: "string list \<Rightarrow> dimension set" where
  "matched_dimensions files =
     {d. \<exists>file\<in>set files. \<exists>a\<in>set sensitive_areas. area_matches a file \<and> d \<in> set (area_dimensions a)}"

lemma push_new_props [simp]:
  "set (push_new x xs) = insert x (set xs)" "distinct (push_new x xs) \<longleftrightarrow> distinct xs"
  by (auto simp: push_new_def)

text \<open>What the guidance holds when the dimensions \<open>D\<close> and the areas \<open>A\<close> were seen.\<close>

definition guidance_inv :: "dimension set \<Rightarrow> string set \<Rightarrow> guidance \<Rightarrow> bool" where
  "guidance_inv D A g \<longleftrightarrow>
     set (gu_affected_areas g) = A \<and> distinct (gu_affected_areas g)
     \<and> gu_after_commands g = gu_before_commands g
     \<and> set (gu_before_commands g) = di_command ` D \<and> distinct (gu_before_commands g)
     \<and> (gu_needs_infra g \<longleftrightarrow> (\<exists>d\<in>D. di_requires_infra d))"

definition seen_dimensions :: "string \<Rightarrow> sensitive_area list \<Rightarrow> dimension set" where
  "seen_dimensions fl ars = (\<Union>a\<in>{a \<in> set ars. area_matches a fl}. set (area_dimensions a))"

definition seen_areas :: "string \<Rightarrow> sensitive_area list \<Rightarrow> string set" where
  "seen_areas fl ars = sa_name ` {a \<in> set ars. area_matches a fl}"

lemma guide_dimension_inv:
  assumes "guidance_inv D A g"
  shows "guidance_inv (insert d D) A (guide_dimension d g)"
  using assms by (auto simp: guidance_inv_def guide_dimension_def)

lemma guide_dimensions_inv:
  assumes "guidance_inv D A g"
  shows "guidance_inv (D \<union> set ds) A (fold guide_dimension ds g)"
  using assms
proof (induction ds arbitrary: D g)
  case (Cons d ds)
  from Cons.IH [OF guide_dimension_inv [OF Cons.prems, of d]] show ?case by simp
qed simp

lemma seen_single:
  "seen_dimensions fl [a] = (if area_matches a fl then set (area_dimensions a) else {})"
  "seen_areas fl [a] = (if area_matches a fl then {sa_name a} else {})"
  by (auto simp: seen_dimensions_def seen_areas_def)

lemma guide_area_inv:
  assumes "guidance_inv D A g"
  shows "guidance_inv (D \<union> seen_dimensions fl [a]) (A \<union> seen_areas fl [a]) (guide_area fl a g)"
proof (cases "area_matches a fl")
  case True
  have "guidance_inv D (insert (sa_name a) A) (g\<lparr>gu_affected_areas := push_new (sa_name a) (gu_affected_areas g)\<rparr>)"
    using assms by (auto simp: guidance_inv_def)
  from guide_dimensions_inv [OF this] True show ?thesis
    by (simp add: guide_area_def seen_single)
next
  case False
  with assms show ?thesis by (simp add: guide_area_def seen_single)
qed

lemma seen_Cons:
  "seen_dimensions fl (a # ars) = seen_dimensions fl [a] \<union> seen_dimensions fl ars"
  "seen_areas fl (a # ars) = seen_areas fl [a] \<union> seen_areas fl ars"
  by (auto simp: seen_dimensions_def seen_areas_def)

lemma guide_areas_inv:
  assumes "guidance_inv D A g"
  shows "guidance_inv (D \<union> seen_dimensions fl ars) (A \<union> seen_areas fl ars) (fold (guide_area fl) ars g)"
  using assms
proof (induction ars arbitrary: D A g)
  case Nil
  then show ?case by (simp add: seen_dimensions_def seen_areas_def)
next
  case (Cons a ars)
  show ?case
    using Cons.IH [OF guide_area_inv [where fl = fl and a = a, OF Cons.prems]]
    by (simp add: seen_Cons [where a = a and ars = ars] Un_assoc)
qed

lemma guide_files_inv:
  assumes "guidance_inv D A g"
  shows "guidance_inv (D \<union> (\<Union>f\<in>set files. seen_dimensions f ars)) (A \<union> (\<Union>f\<in>set files. seen_areas f ars))
           (fold (\<lambda>fl. fold (guide_area fl) ars) files g)"
  using assms
proof (induction files arbitrary: D A g)
  case (Cons f files)
  show ?case using Cons.IH [OF guide_areas_inv [where fl = f and ars = ars, OF Cons.prems]] by (simp add: Un_assoc)
qed simp

lemma find_some_mem: "find P xs = Some x \<Longrightarrow> x \<in> set xs"
  by (auto simp: find_Some_iff)

lemma no_gate_command: "\<not> contains (di_command d) ''quality-gate''" if "d \<in> set (area_dimensions a)"
proof -
  have "list_all (\<lambda>d. \<not> contains (di_command d) ''quality-gate'') dimensions" by code_simp
  moreover have "d \<in> set dimensions"
    using that find_some_mem [of _ dimensions]
    by (auto simp: area_dimensions_def map_filter_mem find_dimension_def)
  ultimately show ?thesis by (simp add: list_all_iff)
qed

text \<open>
  Property (guidance for changed files). The guidance names exactly the areas with a pattern inside
  a changed file; its commands before the change are exactly those of the dimensions these areas
  require, without repetition; after the change come the same and \<open>make verify\<close>; and it needs
  infrastructure exactly when one of these dimensions does.
\<close>

theorem guidance_exact:
  "set (gu_affected_areas (tdd_guidance files))
     = sa_name ` {a \<in> set sensitive_areas. \<exists>file\<in>set files. area_matches a file}
   \<and> distinct (gu_before_commands (tdd_guidance files))
   \<and> set (gu_before_commands (tdd_guidance files)) = di_command ` matched_dimensions files
   \<and> gu_after_commands (tdd_guidance files) = gu_before_commands (tdd_guidance files) @ [''make verify'']
   \<and> (gu_needs_infra (tdd_guidance files) \<longleftrightarrow> (\<exists>d\<in>matched_dimensions files. di_requires_infra d))"
proof -
  let ?g = "fold (\<lambda>file. fold (guide_area file) sensitive_areas) files
     \<lparr>gu_affected_areas = [], gu_before_commands = [], gu_after_commands = [], gu_needs_infra = False\<rparr>"
  have inv: "guidance_inv (matched_dimensions files)
      (sa_name ` {a \<in> set sensitive_areas. \<exists>file\<in>set files. area_matches a file}) ?g"
  proof -
    have "(\<Union>f\<in>set files. seen_dimensions f sensitive_areas) = matched_dimensions files"
      by (auto simp: seen_dimensions_def matched_dimensions_def)
    moreover have "(\<Union>f\<in>set files. seen_areas f sensitive_areas)
        = sa_name ` {a \<in> set sensitive_areas. \<exists>file\<in>set files. area_matches a file}"
      by (auto simp: seen_areas_def)
    moreover have "guidance_inv {} {}
        \<lparr>gu_affected_areas = [], gu_before_commands = [], gu_after_commands = [], gu_needs_infra = False\<rparr>"
      by (simp add: guidance_inv_def)
    ultimately show ?thesis
      using guide_files_inv [where files = files and ars = sensitive_areas and D = "{}" and A = "{}"] by force
  qed
  have "\<not> list_ex (\<lambda>c. contains c ''quality-gate'') (gu_after_commands ?g)"
    using inv no_gate_command by (auto simp: guidance_inv_def list_ex_iff matched_dimensions_def)
  with inv show ?thesis by (simp add: tdd_guidance_def Let_def guidance_inv_def)
qed

end
