(* ===== verification/ContractUsage.thy ===== *)
theory ContractUsage
  imports ImpactMap "HOL-Library.Product_Lexorder" "HOL-Library.List_Lexorder" "HOL-Library.Char_ord"
begin

text \<open>
  The contract usage map (\<open>analyzers/contract_usage_map.rs\<close>): contract types are found in the index
  by a table of families, their uses in declarations are collected into four lists of sites, and
  breadth, families, sensitive areas and statistics are computed from these. The JSON rendering is
  \<open>serde_json\<close>.
\<close>

section \<open>Families\<close>

record contract_family =
  cf_name :: string
  cf_types :: "string list"
  cf_packages :: "string list"

definition family :: "string \<Rightarrow> string list \<Rightarrow> string \<Rightarrow> contract_family" where
  "family name types package = \<lparr>cf_name = name, cf_types = types, cf_packages = [package]\<rparr>"

definition configctl_families :: "contract_family list" where
  "configctl_families =
     [family ''Configctl Commands''
        [''CreateDraftCommand'', ''ValidateDraftCommand'', ''ValidateConfigCommand'', ''CompileConfigCommand'',
         ''ActivateConfigCommand'', ''DeactivateConfigCommand'', ''ArchiveConfigCommand'', ''RejectConfigCommand'']
        ''application/configctl/contracts'',
      family ''Configctl Queries''
        [''GetConfigQuery'', ''ListConfigsQuery'', ''ListActiveIngestionBindingsQuery'', ''GetActiveConfigQuery'']
        ''application/configctl/contracts'',
      family ''Configctl Replies''
        [''CreateDraftReply'', ''GetConfigReply'', ''ListConfigsReply'', ''ValidateDraftReply'', ''CompileConfigReply'',
         ''ActivateConfigReply'']
        ''application/configctl/contracts'',
      family ''Configctl Records''
        [''ConfigVersionSummary'', ''ConfigVersionDetail'', ''BindingRecord'', ''FieldRecord'', ''RuleRecord'',
         ''ActivationScopeRecord'', ''ActivationRecord'', ''RuntimeProjectionRecord'', ''ActiveIngestionBindingRecord'',
         ''ConfigMetadataRecord'', ''CompilationArtifactSummaryRecord'', ''CompilationArtifactRecord'']
        ''application/configctl/contracts'']"

definition contract_families :: "contract_family list" where
  "contract_families =
     [family ''Envelope'' [''Envelope''] ''shared/envelope'',
      family ''Event Metadata'' [''Metadata'', ''Event''] ''shared/events'',
      family ''Correlation ID'' [] ''shared/requestctx'',
      family ''Problem'' [''Problem'', ''ProblemCode'', ''ValidationIssue''] ''shared/problem'']
     @ configctl_families @
     [family ''Domain Events''
        [''DraftCreatedEvent'', ''ConfigValidatedEvent'', ''ConfigCompiledEvent'', ''ConfigActivatedEvent'',
         ''ConfigDeactivatedEvent'', ''IngestionRuntimeChangedEvent'', ''ConfigArchivedEvent'', ''ConfigRejectedEvent'']
        ''domain/configctl'',
      family ''Domain Runtime''
        [''CompilationArtifact'', ''ActivationScope'', ''Activation'', ''RuntimeProjection'',
         ''IngestionRuntimeProjection'', ''Binding'', ''Field'', ''Rule'']
        ''domain/configctl'',
      family ''Data Plane'' [''Message'', ''OriginRecord'', ''MetadataRecord'', ''RoutedMessage''] ''application/dataplane'',
      family ''Validator Results''
        [''ValidationResultRecord'', ''ValidationBindingRecord'', ''ValidationConfigRecord'', ''ViolationRecord'',
         ''ListValidationResultsQuery'', ''ListValidationResultsReply'']
        ''application/validatorresults'',
      family ''Runtime Contracts'' [''RuntimeRecord'', ''ScopeRecord'', ''ConfigRecord'', ''ArtifactRecord'']
        ''application/runtimecontracts'',
      family ''Validator Runtime'' [''GetActiveRuntimeQuery'', ''GetActiveRuntimeReply'', ''ActiveRuntimeRecord'']
        ''application/validatorruntime'',
      family ''NATS Registry'' [''ControlSpec'', ''EventSpec'', ''StreamSpec'', ''ConsumerSpec'', ''ConfigctlRegistry'']
        ''adapters/nats'',
      family ''Kafka Message'' [] ''adapters/kafka'',
      family ''Actor Messages'' [] ''actors/scopes'']"

definition contract_suffixes :: "string list" where
  "contract_suffixes =
     [''Command'', ''Query'', ''Reply'', ''Record'', ''Event'', ''Message'', ''Spec'', ''Registry'', ''Binding'',
      ''Route'', ''Scope'', ''Projection'', ''Artifact'', ''Config'', ''Runtime'', ''Envelope'', ''Problem'',
      ''Metadata'', ''Violation'', ''Status'', ''Diagnostic'', ''Issue'']"

definition exact_contract_names :: "string list" where
  "exact_contract_names =
     [''Envelope'', ''Problem'', ''Metadata'', ''Event'', ''Activation'', ''Binding'', ''Field'', ''Rule'', ''Message'',
      ''Kind'']"

definition is_contract_like_name :: "string \<Rightarrow> bool" where
  "is_contract_like_name name =
     (if name \<in> set exact_contract_names then True
      else list_ex (ends_with name) contract_suffixes \<or> contains name ''Spec'' \<or> contains name ''Registry'')"

definition family_claims :: "string \<Rightarrow> string \<Rightarrow> contract_family \<Rightarrow> bool" where
  "family_claims type_name dir f =
     (type_name \<in> set (cf_types f)
      \<or> list_ex (\<lambda>pkg. contains dir pkg \<and> is_contract_like_name type_name) (cf_packages f))"

definition classify_type :: "string \<Rightarrow> string \<Rightarrow> string option" where
  "classify_type type_name dir = map_option cf_name (find (family_claims type_name dir) contract_families)"

section \<open>The report\<close>

datatype usage_provenance = Observed | Inferred | FromLsp

fun provenance_text :: "usage_provenance \<Rightarrow> string" where
  "provenance_text Observed = ''observed''"
| "provenance_text Inferred = ''inferred''"
| "provenance_text FromLsp = ''lsp''"

datatype usage_breadth = WellDistributed | Moderate | Limited | Orphan

fun breadth_text :: "usage_breadth \<Rightarrow> string" where
  "breadth_text WellDistributed = ''well-distributed''"
| "breadth_text Moderate = ''moderate''"
| "breadth_text Limited = ''limited''"
| "breadth_text Orphan = ''orphan''"

record usage_point =
  up_file :: string
  up_line :: nat
  up_package :: string
  up_kind :: string
  up_provenance :: usage_provenance

record contract_usage =
  cu_name :: string
  cu_family :: string
  cu_definition :: "usage_point option"
  cu_construction :: "usage_point list"
  cu_propagation :: "usage_point list"
  cu_consumption :: "usage_point list"
  cu_validation :: "usage_point list"
  cu_breadth :: usage_breadth

record family_summary =
  fy_name :: string
  fy_contracts :: nat
  fy_sites :: nat
  fy_packages :: "string list"

record usage_area =
  ua_description :: string
  ua_contracts :: "string list"
  ua_provenance :: usage_provenance

record usage_statistics =
  us_contracts :: nat
  us_sites :: nat
  us_well :: nat
  us_moderate :: nat
  us_limited :: nat
  us_orphan :: nat
  us_families :: nat

record usage_lsp =
  ul_status :: lsp_status
  ul_references :: nat

record usage_report =
  ur_contracts :: "contract_usage list"
  ur_families :: "family_summary list"
  ur_areas :: "usage_area list"
  ur_statistics :: usage_statistics
  ur_scope_note :: string
  ur_lsp :: "usage_lsp option"

section \<open>Paths\<close>

definition file_directory :: "string \<Rightarrow> string" where
  "file_directory path = (case rfind_char path CHR ''/'' of Some pos \<Rightarrow> take pos path | None \<Rightarrow> ''.'')"

definition directory_package :: "string \<Rightarrow> string" where
  "directory_package path =
     (let dir = file_directory path in
      case rfind_char dir CHR ''/'' of Some pos \<Rightarrow> drop (pos + 1) dir | None \<Rightarrow> dir)"

definition internal_layers :: "string list" where
  "internal_layers = [''domain'', ''application'', ''adapters'', ''actors'', ''interfaces'', ''shared'', ''cmd'']"

definition package_layer :: "string \<Rightarrow> string" where
  "package_layer path =
     (case find (\<lambda>layer. contains path (''internal/'' @ layer)) internal_layers of
        Some layer \<Rightarrow> layer
      | None \<Rightarrow> ''other'')"

section \<open>Discovery\<close>

record contract_type =
  cy_name :: string
  cy_family :: string
  cy_file :: string
  cy_line :: nat
  cy_package :: string

definition candidate :: "go_file \<Rightarrow> go_type \<Rightarrow> contract_type option" where
  "candidate file t =
     (if ty_visibility t \<noteq> Exported then None
      else map_option (\<lambda>fam. \<lparr>cy_name = ty_name t, cy_family = fam, cy_file = gf_path file,
                              cy_line = loc_line (ty_location t), cy_package = gf_package file\<rparr>)
             (classify_type (ty_name t) (file_directory (gf_path file))))"

text \<open>\<open>seen\<close> is the set of the names already pushed: the first declaration of a name is kept.\<close>

definition push_contract :: "contract_type \<Rightarrow> contract_type list \<Rightarrow> contract_type list" where
  "push_contract c results = (if cy_name c \<in> set (map cy_name results) then results else results @ [c])"

definition production_files :: "project_index \<Rightarrow> go_file list" where
  "production_files ix = filter (\<lambda>f. \<not> gf_is_test f) (px_files ix)"

definition discover_contracts :: "project_index \<Rightarrow> contract_type list" where
  "discover_contracts ix =
     fold push_contract
       (concat (map (\<lambda>file. List.map_filter (candidate file) (gf_types file)) (production_files ix))) []"

section \<open>Usage sites\<close>

text \<open>The list a site is pushed to.\<close>

datatype site_list = Construction | Propagation | Consumption | Validation

definition func_returns_type :: "go_func \<Rightarrow> string \<Rightarrow> bool" where
  "func_returns_type f type_name = list_ex (\<lambda>r. contains (pa_type_expr r) type_name) (fn_returns f)"

definition func_takes_type :: "go_func \<Rightarrow> string \<Rightarrow> bool" where
  "func_takes_type f type_name = list_ex (\<lambda>p. contains (pa_type_expr p) type_name) (fn_params f)"

definition is_method_on :: "go_func \<Rightarrow> string \<Rightarrow> bool" where
  "is_method_on f type_name =
     (case fn_receiver f of Some r \<Rightarrow> contains (rc_type_name r) type_name | None \<Rightarrow> False)"

definition is_constructor_name :: "string \<Rightarrow> string \<Rightarrow> bool" where
  "is_constructor_name func_name type_name =
     (starts_with func_name ''New'' \<or> starts_with func_name ''Create'' \<or> starts_with func_name ''Make''
      \<or> func_name = type_name \<or> starts_with func_name (''new'' @ type_name)
      \<or> starts_with func_name (''New'' @ type_name))"

definition is_handler_name :: "string \<Rightarrow> bool" where
  "is_handler_name n =
     (contains n ''Handle'' \<or> contains n ''Process'' \<or> contains n ''Execute'' \<or> contains n ''handle''
      \<or> starts_with n ''decode'' \<or> starts_with n ''Decode'')"

definition point :: "go_file \<Rightarrow> location \<Rightarrow> string \<Rightarrow> usage_provenance \<Rightarrow> usage_point" where
  "point file l kind prov =
     \<lparr>up_file = gf_path file, up_line = loc_line l, up_package = gf_package file, up_kind = kind, up_provenance = prov\<rparr>"

definition func_use :: "string \<Rightarrow> go_file \<Rightarrow> go_func \<Rightarrow> (site_list \<times> usage_point) list" where
  "func_use type_name file f =
     (let returns_type = func_returns_type f type_name;
          takes_type = func_takes_type f type_name;
          on_type = is_method_on f type_name;
          site = (\<lambda>kind prov. point file (fn_location f) kind prov)
      in if returns_type \<and> is_constructor_name (fn_name f) type_name then
           [(Construction, site (''constructor: '' @ fn_name f) Observed)]
         else if returns_type \<and> on_type then
           (if starts_with (fn_name f) ''With''
            then [(Construction, site (''builder: '' @ type_name @ ''.'' @ fn_name f) Observed)]
            else [(Propagation, site (''method: '' @ type_name @ ''.'' @ fn_name f) Observed)])
         else if returns_type \<and> \<not> takes_type then
           [(Construction, site (''factory: '' @ fn_name f) Inferred)]
         else if takes_type \<and> returns_type then
           [(Propagation, site (''transform: '' @ fn_name f) Observed)]
         else if takes_type then
           (if is_handler_name (fn_name f)
            then [(Consumption, site (''handler: '' @ fn_name f) Observed)]
            else [(Consumption, site (''consumer: '' @ fn_name f) Observed)])
         else [])"

definition func_validation :: "string \<Rightarrow> go_file \<Rightarrow> go_func \<Rightarrow> (site_list \<times> usage_point) list" where
  "func_validation type_name file f =
     (if is_method_on f type_name \<and> fn_name f \<in> {''Validate'', ''Normalize''}
      then [(Validation, point file (fn_location f) (''validation: '' @ type_name @ ''.'' @ fn_name f) Observed)]
      else [])"

definition field_sites :: "string \<Rightarrow> string \<Rightarrow> go_file \<Rightarrow> go_type \<Rightarrow> (site_list \<times> usage_point) list" where
  "field_sites type_name def_file file t =
     (case ty_kind t of
        StructKind flds \<Rightarrow>
          map (\<lambda>f. (if file_directory (gf_path file) = file_directory def_file then Propagation else Consumption,
                   point file (sf_location f)
                     (if sf_embedded f then ''embedded in '' @ ty_name t
                      else ''field '' @ ty_name t @ ''.'' @ sf_name f) Observed))
            (filter (\<lambda>f. contains (sf_type_expr f) type_name) flds)
      | _ \<Rightarrow> [])"

definition interface_sites :: "string \<Rightarrow> go_file \<Rightarrow> go_type \<Rightarrow> (site_list \<times> usage_point) list" where
  "interface_sites type_name file t =
     (case ty_kind t of
        InterfaceKind methods embeds \<Rightarrow>
          map (\<lambda>m. (Propagation, point file (mt_location m)
                     (''interface method: '' @ ty_name t @ ''.'' @ mt_name m) Observed))
            (filter (\<lambda>m. contains (mt_signature m) type_name) methods)
          @ map (\<lambda>e. (Propagation, point file (em_location e) (''interface embed in '' @ ty_name t) Observed))
            (filter (\<lambda>e. em_type_name e = type_name) embeds)
      | _ \<Rightarrow> [])"

definition type_sites :: "string \<Rightarrow> string \<Rightarrow> go_file \<Rightarrow> go_type \<Rightarrow> (site_list \<times> usage_point) list" where
  "type_sites type_name def_file file t =
     (if ty_name t = type_name then []
      else field_sites type_name def_file file t @ interface_sites type_name file t)"

definition const_sites :: "string \<Rightarrow> go_file \<Rightarrow> go_const \<Rightarrow> (site_list \<times> usage_point) list" where
  "const_sites type_name file c =
     (if co_type_hint c = Some type_name \<or> contains (co_name c) type_name
      then [(Propagation, point file (co_location c) (''constant: '' @ co_name c) Observed)]
      else [])"

definition usage_in_file :: "string \<Rightarrow> string \<Rightarrow> go_file \<Rightarrow> (site_list \<times> usage_point) list" where
  "usage_in_file type_name def_file file =
     concat (map (\<lambda>f. func_use type_name file f @ func_validation type_name file f) (gf_functions file))
     @ concat (map (type_sites type_name def_file file) (gf_types file))
     @ concat (map (const_sites type_name file) (gf_constants file))"

definition pushed_to :: "site_list \<Rightarrow> (site_list \<times> usage_point) list \<Rightarrow> usage_point list" where
  "pushed_to l ps = map snd (filter (\<lambda>p. fst p = l) ps)"

definition all_sites :: "contract_usage \<Rightarrow> usage_point list" where
  "all_sites c = cu_construction c @ cu_propagation c @ cu_consumption c @ cu_validation c"

definition site_count :: "contract_usage \<Rightarrow> nat" where
  "site_count c =
     length (cu_construction c) + length (cu_propagation c) + length (cu_consumption c) + length (cu_validation c)"

definition layers_of :: "contract_usage \<Rightarrow> string list" where
  "layers_of c =
     sort_dedup
       ((case cu_definition c of Some d \<Rightarrow> [package_layer (up_file d)] | None \<Rightarrow> [])
        @ map (\<lambda>s. package_layer (up_file s)) (all_sites c))"

definition compute_breadth :: "contract_usage \<Rightarrow> usage_breadth" where
  "compute_breadth c =
     (let packages = length (layers_of c); total = site_count c in
      if total = 0 then Orphan
      else if 3 \<le> packages then WellDistributed
      else if 2 \<le> packages \<or> 3 \<le> total then Moderate
      else Limited)"

definition trace_contract_usage :: "project_index \<Rightarrow> contract_type \<Rightarrow> contract_usage" where
  "trace_contract_usage ix c =
     (let ps = concat (map (usage_in_file (cy_name c) (cy_file c)) (production_files ix));
          entry = \<lparr>cu_name = cy_name c, cu_family = cy_family c,
                   cu_definition = Some \<lparr>up_file = cy_file c, up_line = cy_line c, up_package = cy_package c,
                                         up_kind = ''definition'', up_provenance = Observed\<rparr>,
                   cu_construction = pushed_to Construction ps, cu_propagation = pushed_to Propagation ps,
                   cu_consumption = pushed_to Consumption ps, cu_validation = pushed_to Validation ps,
                   cu_breadth = Orphan\<rparr>
      in entry\<lparr>cu_breadth := compute_breadth entry\<rparr>)"

section \<open>Summaries\<close>

definition packages_of :: "contract_usage \<Rightarrow> string list" where
  "packages_of c =
     (case cu_definition c of Some d \<Rightarrow> [up_package d] | None \<Rightarrow> []) @ map up_package (all_sites c)"

definition summarize_family :: "contract_usage list \<Rightarrow> string \<Rightarrow> family_summary" where
  "summarize_family cs name =
     (let entries = filter (\<lambda>c. cu_family c = name) cs in
      \<lparr>fy_name = name, fy_contracts = length entries, fy_sites = sum_list (map site_count entries),
       fy_packages = sort_dedup (concat (map packages_of entries))\<rparr>)"

text \<open>The keys of the \<open>BTreeMap\<close> are the families of the contracts, sorted.\<close>

definition build_family_summaries :: "contract_usage list \<Rightarrow> family_summary list" where
  "build_family_summaries cs = map (summarize_family cs) (sort_dedup (map cu_family cs))"

definition unvalidated :: "contract_usage \<Rightarrow> bool" where
  "unvalidated c =
     (cu_validation c = [] \<and> cu_construction c \<noteq> []
      \<and> (ends_with (cu_name c) ''Command'' \<or> ends_with (cu_name c) ''Query'' \<or> contains (cu_name c) ''Message''))"

definition carries_correlation :: "contract_usage \<Rightarrow> bool" where
  "carries_correlation c =
     (contains (cu_name c) ''Correlation'' \<or> cu_family c = ''Correlation ID'' \<or> cu_family c = ''Event Metadata''
      \<or> cu_name c = ''Envelope'')"

definition crosses_boundary :: "contract_usage \<Rightarrow> bool" where
  "crosses_boundary c =
     (let layers = map (\<lambda>s. package_layer (up_file s)) (cu_construction c @ cu_propagation c @ cu_consumption c) in
      ''domain'' \<in> set layers \<and> (''adapters'' \<in> set layers \<or> ''actors'' \<in> set layers))"

definition usage_area_of :: "string \<Rightarrow> usage_provenance \<Rightarrow> (contract_usage \<Rightarrow> bool) \<Rightarrow> contract_usage list
                             \<Rightarrow> usage_area list" where
  "usage_area_of description prov P cs =
     (let names = map cu_name (filter P cs) in
      if names = [] then []
      else [\<lparr>ua_description = description, ua_contracts = names, ua_provenance = prov\<rparr>])"

definition identify_sensitive_areas :: "contract_usage list \<Rightarrow> usage_area list" where
  "identify_sensitive_areas cs =
     usage_area_of ''Commands/queries/messages without observed validation'' Inferred unvalidated cs
     @ usage_area_of ''Contract types defined but with no observed usage sites'' Observed
         (\<lambda>c. cu_breadth c = Orphan) cs
     @ usage_area_of (dash ''Correlation/tracing contracts'' ''changes here affect observability chain'') Inferred
         carries_correlation cs
     @ usage_area_of (dash ''Contracts crossing domain/infrastructure boundary'' ''changes propagate widely'') Observed
         crosses_boundary cs"

definition count_breadth :: "usage_breadth \<Rightarrow> contract_usage list \<Rightarrow> nat" where
  "count_breadth b cs = length (filter (\<lambda>c. cu_breadth c = b) cs)"

definition compute_statistics :: "contract_usage list \<Rightarrow> family_summary list \<Rightarrow> usage_statistics" where
  "compute_statistics cs fams =
     \<lparr>us_contracts = length cs, us_sites = sum_list (map site_count cs),
      us_well = count_breadth WellDistributed cs, us_moderate = count_breadth Moderate cs,
      us_limited = count_breadth Limited cs, us_orphan = count_breadth Orphan cs, us_families = length fams\<rparr>"

section \<open>The analysis\<close>

definition usage_of_index :: "project_index \<Rightarrow> usage_report" where
  "usage_of_index ix =
     (let contracts = sort_key (\<lambda>c. (cu_family c, cu_name c)) (map (trace_contract_usage ix) (discover_contracts ix));
          families = build_family_summaries contracts
      in \<lparr>ur_contracts = contracts, ur_families = families, ur_areas = identify_sensitive_areas contracts,
          ur_statistics = compute_statistics contracts families,
          ur_scope_note =
            ''Map is computed from structural AST indexing (declarations, struct fields, function signatures, ''
            @ ''const/var references). Function body call sites require --lsp enrichment.'',
          ur_lsp = None\<rparr>)"

definition usage_map :: "fs_node \<Rightarrow> usage_report" where
  "usage_map root = usage_of_index (build_index root)"

section \<open>Enrichment by gopls\<close>

definition already_tracked :: "contract_usage \<Rightarrow> location \<Rightarrow> bool" where
  "already_tracked c l =
     list_ex (\<lambda>s. up_file s = loc_file l \<and> up_line s = loc_line l)
       (cu_propagation c @ cu_consumption c @ cu_construction c)"

definition track_reference :: "lsp_ref \<Rightarrow> contract_usage \<times> nat \<Rightarrow> contract_usage \<times> nat" where
  "track_reference r cn =
     (let (c, n) = cn; l = lf_location r in
      if already_tracked c l then (c, n)
      else (c\<lparr>cu_propagation := cu_propagation c @
               [\<lparr>up_file = loc_file l, up_line = loc_line l, up_package = directory_package (loc_file l),
                 up_kind = ''reference'', up_provenance = FromLsp\<rparr>]\<rparr>, n + 1))"

definition enrich_contract :: "lsp_ref list \<Rightarrow> contract_usage \<times> nat \<Rightarrow> contract_usage \<times> nat" where
  "enrich_contract refs cn =
     (let (c, n) = fold track_reference refs cn in (c\<lparr>cu_breadth := compute_breadth c\<rparr>, n))"

fun enrich_contracts :: "(string \<Rightarrow> bridge \<Rightarrow> (enriched_symbol \<times> bridge) option) \<Rightarrow> contract_usage list
                         \<Rightarrow> nat \<Rightarrow> bridge \<Rightarrow> (contract_usage list \<times> nat \<times> bridge) option" where
  "enrich_contracts enrich [] n b = Some ([], n, b)"
| "enrich_contracts enrich (c # cs) n b =
     (case enrich (cu_name c) b of
        None \<Rightarrow> None
      | Some (es, b') \<Rightarrow>
          (let (c', n') = enrich_contract (es_lsp_references es) (c, n) in
           map_option (\<lambda>(cs', rest). (c' # cs', rest)) (enrich_contracts enrich cs n' b')))"

definition usage_status :: "bridge \<Rightarrow> nat \<Rightarrow> lsp_status" where
  "usage_status b additional =
     (if bridge_is_available b then (if 0 < additional then Enriched else NoResults)
      else Unavailable (case br_unavailable_reason b of Some r \<Rightarrow> r | None \<Rightarrow> ''unknown''))"

definition usage_lsp_note :: "lsp_status \<Rightarrow> string" where
  "usage_lsp_note st =
     (case st of
        Enriched \<Rightarrow>
          ''Map combines structural AST indexing with gopls semantic analysis. ''
          @ ''Each usage site is tagged with its source: [observed], [inferred], or [lsp].''
      | NoResults \<Rightarrow>
          ''Map is computed from structural AST indexing. gopls was available but returned no additional results.''
      | Unavailable reason \<Rightarrow>
          ''Map is computed from structural AST indexing only. LSP enrichment unavailable: '' @ reason
          @ ''. Function body references are not visible.'')"

text \<open>Families and areas stay those computed before the enrichment.\<close>

definition usage_with_lsp :: "'j json_api \<Rightarrow> (string \<Rightarrow> string) \<Rightarrow> fs_node \<Rightarrow> bridge
                              \<Rightarrow> (usage_report \<times> bridge) option" where
  "usage_with_lsp api join_root root b =
     (let ix = build_index root; report = usage_of_index ix in
      map_option (\<lambda>(cs, additional, b').
          (let st = usage_status b' additional in
           (report\<lparr>ur_contracts := cs, ur_lsp := Some \<lparr>ul_status = st, ul_references = additional\<rparr>,
                   ur_scope_note := usage_lsp_note st, ur_statistics := compute_statistics cs (ur_families report)\<rparr>, b')))
        (enrich_contracts (enrich_symbol_with_index api join_root ix) (ur_contracts report) 0 b))"

section \<open>Rendering\<close>

definition render_usage_statistics :: "usage_statistics \<Rightarrow> string" where
  "render_usage_statistics s =
     ''Contracts: '' @ show_nat (us_contracts s) @ '' across '' @ show_nat (us_families s) @ '' families | ''
     @ show_nat (us_sites s) @ '' total usage sites'' @ nl
     @ ''Breadth: '' @ show_nat (us_well s) @ '' well-distributed, '' @ show_nat (us_moderate s) @ '' moderate, ''
     @ show_nat (us_limited s) @ '' limited, '' @ show_nat (us_orphan s) @ '' orphan'' @ nl @ nl"

definition render_usage_lsp :: "usage_lsp \<Rightarrow> string" where
  "render_usage_lsp l =
     (case ul_status l of
        Enriched \<Rightarrow> ''LSP: enriched (+'' @ show_nat (ul_references l) @ '' references from gopls)''
      | NoResults \<Rightarrow> ''LSP: connected but no additional results''
      | Unavailable reason \<Rightarrow> ''LSP: unavailable ('' @ reason @ '')'') @ nl @ nl"

definition render_family :: "bool \<Rightarrow> family_summary \<Rightarrow> string" where
  "render_family verbose f =
     ''  '' @ fy_name f @ '': '' @ show_nat (fy_contracts f) @ '' contracts, '' @ show_nat (fy_sites f)
     @ '' usage sites, '' @ show_nat (length (fy_packages f)) @ '' packages'' @ nl
     @ (if verbose then lines_of (\<lambda>p. ''    - '' @ p) (fy_packages f) else [])"

definition render_usage_area :: "bool \<Rightarrow> usage_area \<Rightarrow> string" where
  "render_usage_area verbose a =
     (let bullet = (\<lambda>c. ''    - '' @ c); cs = ua_contracts a in
      ''  ['' @ provenance_text (ua_provenance a) @ ''] '' @ ua_description a @ nl
      @ (if verbose \<or> length cs \<le> 5 then lines_of bullet cs
         else lines_of bullet (take 3 cs)
           @ ''    ... and '' @ show_nat (length cs - 3) @ '' more (use -v to show all)'' @ nl))"

definition render_sites :: "string \<Rightarrow> usage_point list \<Rightarrow> string" where
  "render_sites label sites =
     block (''    '' @ counted label sites @ '':'')
       (\<lambda>s. ''      ['' @ provenance_text (up_provenance s) @ ''] ''
            @ dash (up_file s @ '':'' @ show_nat (up_line s)) (up_kind s)) sites"

definition render_contract :: "contract_usage \<Rightarrow> string" where
  "render_contract c =
     nl @ ''  '' @ cu_name c @ '' ['' @ cu_family c @ ''] ('' @ breadth_text (cu_breadth c) @ '')'' @ nl
     @ (case cu_definition c of
          Some d \<Rightarrow> ''    Definition: '' @ up_file d @ '':'' @ show_nat (up_line d) @ nl
        | None \<Rightarrow> [])
     @ render_sites ''Construction'' (cu_construction c)
     @ render_sites ''Propagation'' (cu_propagation c)
     @ render_sites ''Consumption'' (cu_consumption c)
     @ render_sites ''Validation'' (cu_validation c)"

definition render_breadth :: "contract_usage list \<Rightarrow> usage_breadth \<Rightarrow> string" where
  "render_breadth cs b =
     (let group = filter (\<lambda>c. cu_breadth c = b) cs in
      if group = [] then []
      else nl @ ''  '' @ breadth_text b @ '' ('' @ show_nat (length group) @ ''):'' @ nl
        @ lines_of (\<lambda>c. ''    '' @ dash (cu_name c @ '' ['' @ cu_family c @ '']'')
              (show_nat (site_count c) @ '' usage sites'')) group)"

definition render_usage :: "usage_report \<Rightarrow> bool \<Rightarrow> string" where
  "render_usage r verbose =
     ''=== Contract Usage Map ==='' @ nl @ nl @ ''Scope: '' @ ur_scope_note r @ nl @ nl
     @ render_usage_statistics (ur_statistics r)
     @ (case ur_lsp r of Some l \<Rightarrow> render_usage_lsp l | None \<Rightarrow> [])
     @ ''--- Families ---'' @ nl @ concat (map (render_family verbose) (ur_families r)) @ nl
     @ (if ur_areas r = [] then []
        else ''--- Sensitive Areas ---'' @ nl @ concat (map (render_usage_area verbose) (ur_areas r)) @ nl)
     @ (if verbose then ''--- Contract Details ---'' @ nl @ concat (map render_contract (ur_contracts r))
        else ''--- Contracts by Breadth ---'' @ nl
          @ concat (map (render_breadth (ur_contracts r)) [WellDistributed, Moderate, Limited, Orphan]))
     @ nl"

end
