(* ===== verification/FirstOfKey.thy ===== *)
theory FirstOfKey
  imports Main
begin

text \<open>
  Several analysers push into a vector and keep a set of the keys pushed so far, so that the first
  element of each key is kept. The interface states that for one push; the lemmas hold for a pass over
  a list.
\<close>

lemma split_Cons:
  "(\<exists>pre post. x # xs = pre @ y # post \<and> P pre) \<longleftrightarrow>
     y = x \<and> P [] \<or> (\<exists>pre post. xs = pre @ y # post \<and> P (x # pre))"
  unfolding Cons_eq_append_conv by (auto; blast)

locale first_of_key =
  fixes key :: "'a \<Rightarrow> 'k"
    and push :: "'a \<Rightarrow> 'a list \<Rightarrow> 'a list"
  assumes push: "push x xs = (if key x \<in> key ` set xs then xs else xs @ [x])"
begin

lemma keys: "key ` set (fold push xs acc) = key ` set xs \<union> key ` set acc"
  by (induction xs arbitrary: acc) (auto simp: push)

lemma distinct: "distinct (map key acc) \<Longrightarrow> distinct (map key (fold push xs acc))"
  by (induction xs arbitrary: acc) (simp_all add: push)

lemma members: "set (fold push xs acc) \<subseteq> set xs \<union> set acc"
proof (induction xs arbitrary: acc)
  case (Cons x xs)
  have "set (push x acc) \<subseteq> insert x (set acc)" by (auto simp: push)
  with Cons.IH [of "push x acc"] show ?case by auto
qed simp

lemma kept_iff:
  "y \<in> set (fold push xs acc) \<longleftrightarrow>
     y \<in> set acc \<or> (\<exists>pre post. xs = pre @ y # post \<and> key y \<notin> key ` set pre \<and> key y \<notin> key ` set acc)"
proof (induction xs arbitrary: acc)
  case (Cons x xs)
  show ?case unfolding split_Cons using Cons.IH [of "push x acc"] by (auto simp: push)
qed simp

text \<open>From an empty vector: exactly the elements that no earlier element has the key of.\<close>

lemma kept:
  "set (fold push xs []) = {y. \<exists>pre post. xs = pre @ y # post \<and> key y \<notin> key ` set pre}"
  unfolding set_eq_iff kept_iff by simp

end

end
