(* ===== verification/ContractUsageProps.thy ===== *)
theory ContractUsageProps
  imports ContractUsage FirstOfKey
begin

text \<open>
  What the contract usage map guarantees: which types it lists, how the statistics and the families
  add up, what breadth means, what the enrichment adds, and how the table of families classifies.
\<close>

section \<open>Discovery\<close>

interpretation listed: first_of_key cy_name push_contract
  by unfold_locales (simp add: push_contract_def)

definition contract_names :: "project_index \<Rightarrow> string set" where
  "contract_names ix =
     {ty_name t | f t. f \<in> set (px_files ix) \<and> \<not> gf_is_test f \<and> t \<in> set (gf_types f) \<and> ty_visibility t = Exported
        \<and> classify_type (ty_name t) (file_directory (gf_path f)) \<noteq> None}"

lemma discover_names: "set (map cy_name (discover_contracts ix)) = contract_names ix"
  unfolding discover_contracts_def set_map listed.keys
  by (force simp: contract_names_def production_files_def map_filter_mem candidate_def split: if_splits)

lemma discover_distinct: "distinct (map cy_name (discover_contracts ix))"
  unfolding discover_contracts_def by (rule listed.distinct) simp

lemma trace_contract_simps [simp]:
  "cu_name (trace_contract_usage ix c) = cy_name c"
  "cu_family (trace_contract_usage ix c) = cy_family c"
  by (simp_all add: trace_contract_usage_def Let_def)

text \<open>
  Property (contracts listed once). The map lists each name of an exported type in a production file
  that the table of families claims, no other name, and each name once.
\<close>

theorem contracts_listed_once:
  "set (map cu_name (ur_contracts (usage_of_index ix))) = contract_names ix
   \<and> distinct (map cu_name (ur_contracts (usage_of_index ix)))"
proof -
  have names: "map cu_name (map (trace_contract_usage ix) cs) = map cy_name cs" for cs by simp
  have "mset (map cu_name (ur_contracts (usage_of_index ix))) = mset (map cy_name (discover_contracts ix))"
    by (simp add: usage_of_index_def Let_def comp_def multiset.map_comp)
  then show ?thesis
    using discover_names [of ix] discover_distinct [of ix] by (metis mset_eq_imp_distinct_iff mset_eq_setD)
qed

section \<open>Sums\<close>

lemma sum_over_families:
  fixes g :: "contract_usage \<Rightarrow> nat"
  shows "(\<Sum>k\<leftarrow>sort_dedup (map cu_family cs). sum_list (map g (filter (\<lambda>c. cu_family c = k) cs))) = sum_list (map g cs)"
proof -
  have d: "distinct (sort_dedup (map cu_family cs))" and s: "set (sort_dedup (map cu_family cs)) = cu_family ` set cs"
    by simp_all
  have "(\<Sum>k\<in>K. sum_list (map g (filter (\<lambda>c. cu_family c = k) cs))) = sum_list (map g cs)"
    if "finite K" "cu_family ` set cs \<subseteq> K" for K using that(2)
  proof (induction cs)
    case (Cons c cs)
    have "(\<Sum>k\<in>K. sum_list (map g (filter (\<lambda>x. cu_family x = k) (c # cs))))
        = (\<Sum>k\<in>K. (if cu_family c = k then g c else 0) + sum_list (map g (filter (\<lambda>x. cu_family x = k) cs)))"
      by (rule sum.cong) auto
    also have "\<dots> = g c + sum_list (map g cs)"
      using Cons that(1) by (simp add: sum.distrib)
    finally show ?case by simp
  qed simp
  then show ?thesis using d s by (simp add: sum_list_distinct_conv_sum_set)
qed

lemma family_sites_total: "(\<Sum>f\<leftarrow>build_family_summaries cs. fy_sites f) = sum_list (map site_count cs)"
  using sum_over_families [of site_count cs]
  by (simp add: build_family_summaries_def summarize_family_def Let_def comp_def)

lemma family_contracts_total: "(\<Sum>f\<leftarrow>build_family_summaries cs. fy_contracts f) = length cs"
  using sum_over_families [of "\<lambda>_. 1" cs]
  by (simp add: build_family_summaries_def summarize_family_def Let_def comp_def sum_list_triv)

section \<open>Breadth\<close>

definition layer_set :: "contract_usage \<Rightarrow> string set" where
  "layer_set c =
     {package_layer (up_file s) | s. cu_definition c = Some s \<or> s \<in> set (all_sites c)}"

lemma set_layers_of: "set (layers_of c) = layer_set c"
  by (auto simp: layers_of_def layer_set_def split: option.splits)

lemma finite_layer_set: "finite (layer_set c)"
  by (metis set_layers_of List.finite_set)

lemma layers_of_set: "length (layers_of c) = card (layer_set c)"
  by (metis distinct_card layers_of_def set_layers_of sort_dedup_distinct)

lemma sites_none: "site_count c = 0 \<longleftrightarrow> all_sites c = []"
  by (auto simp: site_count_def all_sites_def)

text \<open>
  Property (breadth counts layers). A contract of the map is an orphan exactly when no site was found,
  well distributed exactly when its definition and sites lie in three layers or more, and limited
  exactly when it has one or two sites in the one layer of its definition.
\<close>

theorem breadth_exact:
  assumes "c \<in> set (ur_contracts (usage_of_index ix))"
  shows "(cu_breadth c = Orphan \<longleftrightarrow> all_sites c = [])
    \<and> (cu_breadth c = WellDistributed \<longleftrightarrow> all_sites c \<noteq> [] \<and> 3 \<le> card (layer_set c))
    \<and> (cu_breadth c = Limited \<longleftrightarrow> site_count c \<in> {1, 2} \<and> card (layer_set c) = 1)"
proof -
  obtain k where c: "c = trace_contract_usage ix k"
    using assms by (auto simp: usage_of_index_def Let_def)
  have b: "cu_breadth c = compute_breadth c"
    by (simp add: c trace_contract_usage_def Let_def compute_breadth_def layers_of_def all_sites_def site_count_def)
  obtain d where "cu_definition c = Some d" by (simp add: c trace_contract_usage_def Let_def)
  then have "package_layer (up_file d) \<in> layer_set c" by (auto simp: layer_set_def)
  with finite_layer_set have "card (layer_set c) \<noteq> 0" by auto
  then show ?thesis
    unfolding b compute_breadth_def Let_def layers_of_set sites_none [symmetric] by auto
qed

section \<open>Enrichment\<close>

lemma track_reference_parts:
  "track_reference r (c, n) = (c', n') \<Longrightarrow>
     \<exists>new. c' = c\<lparr>cu_propagation := cu_propagation c @ new\<rparr> \<and> n' = n + length new
       \<and> already_tracked c' (lf_location r)
       \<and> (\<forall>p\<in>set new. up_provenance p = FromLsp \<and> up_file p = loc_file (lf_location r) \<and> up_line p = loc_line (lf_location r)
            \<and> \<not> already_tracked c (lf_location r))"
  by (cases "already_tracked c (lf_location r)") (auto simp: track_reference_def Let_def already_tracked_def)

lemma tracked_mono:
  "already_tracked c l \<Longrightarrow> already_tracked (c\<lparr>cu_propagation := cu_propagation c @ new\<rparr>) l"
  by (auto simp: already_tracked_def)

lemma fold_track:
  "fold track_reference rs (c, n) = (c', n') \<Longrightarrow>
     \<exists>new. c' = c\<lparr>cu_propagation := cu_propagation c @ new\<rparr> \<and> n' = n + length new
       \<and> (\<forall>r\<in>set rs. already_tracked c' (lf_location r))
       \<and> (\<forall>p\<in>set new. up_provenance p = FromLsp
            \<and> (\<exists>r\<in>set rs. up_file p = loc_file (lf_location r) \<and> up_line p = loc_line (lf_location r)
                 \<and> \<not> already_tracked c (lf_location r)))"
proof (induction rs arbitrary: c n)
  case Nil
  then show ?case by (intro exI [of _ "[]"]) simp
next
  case (Cons r rs)
  obtain c1 n1 where s: "track_reference r (c, n) = (c1, n1)" by fastforce
  from track_reference_parts [OF s] obtain new1 where 1: "c1 = c\<lparr>cu_propagation := cu_propagation c @ new1\<rparr>"
    "n1 = n + length new1" "already_tracked c1 (lf_location r)"
    "\<forall>p\<in>set new1. up_provenance p = FromLsp \<and> up_file p = loc_file (lf_location r) \<and> up_line p = loc_line (lf_location r)
        \<and> \<not> already_tracked c (lf_location r)" by blast
  have "fold track_reference rs (c1, n1) = (c', n')" using Cons.prems s by simp
  from Cons.IH [OF this] obtain new2 where 2: "c' = c1\<lparr>cu_propagation := cu_propagation c1 @ new2\<rparr>"
    "n' = n1 + length new2" "\<forall>r\<in>set rs. already_tracked c' (lf_location r)"
    "\<forall>p\<in>set new2. up_provenance p = FromLsp
        \<and> (\<exists>r\<in>set rs. up_file p = loc_file (lf_location r) \<and> up_line p = loc_line (lf_location r)
             \<and> \<not> already_tracked c1 (lf_location r))" by blast
  have "already_tracked c' (lf_location r)" using tracked_mono [OF 1(3)] 2(1) by simp
  moreover have "\<not> already_tracked c l" if "\<not> already_tracked c1 l" for l
    using that tracked_mono [of c l new1] 1(1) by blast
  ultimately show ?case
    using 1 2 by (intro exI [of _ "new1 @ new2"]) (simp, blast)
qed

text \<open>
  Property (enrichment adds what was missing). Enriching a contract keeps its definition, name and
  sites; the sites it adds are references of gopls at places that were not tracked, the counter grows by
  their number, and afterwards every reference of gopls is at the place of a site.
\<close>

theorem enrichment_adds_missing:
  assumes "enrich_contract refs (c, n) = (c', n')"
  shows "\<exists>new. c' = c\<lparr>cu_propagation := cu_propagation c @ new, cu_breadth := cu_breadth c'\<rparr> \<and> n' = n + length new
    \<and> (\<forall>p\<in>set new. up_provenance p = FromLsp
         \<and> (\<exists>r\<in>set refs. up_file p = loc_file (lf_location r) \<and> up_line p = loc_line (lf_location r)
              \<and> \<not> already_tracked c (lf_location r)))
    \<and> (\<forall>r\<in>set refs. \<exists>p\<in>set (all_sites c'). up_file p = loc_file (lf_location r) \<and> up_line p = loc_line (lf_location r))"
proof -
  obtain c1 n1 where s: "fold track_reference refs (c, n) = (c1, n1)" by fastforce
  have c': "c' = c1\<lparr>cu_breadth := compute_breadth c1\<rparr>" "n' = n1"
    using assms by (simp_all add: enrich_contract_def s)
  from fold_track [OF s] obtain new where n: "c1 = c\<lparr>cu_propagation := cu_propagation c @ new\<rparr>" "n1 = n + length new"
    "\<forall>r\<in>set refs. already_tracked c1 (lf_location r)"
    "\<forall>p\<in>set new. up_provenance p = FromLsp
        \<and> (\<exists>r\<in>set refs. up_file p = loc_file (lf_location r) \<and> up_line p = loc_line (lf_location r)
             \<and> \<not> already_tracked c (lf_location r))" by blast
  have "all_sites c' = all_sites c1" by (simp add: c' all_sites_def)
  then have "\<exists>p\<in>set (all_sites c'). up_file p = loc_file l \<and> up_line p = loc_line l" if "already_tracked c1 l" for l
    using that by (auto simp: already_tracked_def all_sites_def list_ex_iff)
  moreover have "c' = c\<lparr>cu_propagation := cu_propagation c @ new, cu_breadth := cu_breadth c'\<rparr>"
    by (simp add: c' n(1))
  ultimately show ?thesis using n(2,3,4) c'(2) by blast
qed

section \<open>Totals\<close>

lemma breadth_partition:
  "length cs = count_breadth WellDistributed cs + count_breadth Moderate cs + count_breadth Limited cs
     + count_breadth Orphan cs"
proof (induction cs)
  case (Cons c cs)
  then show ?case by (cases "cu_breadth c") (simp_all add: count_breadth_def)
qed (simp add: count_breadth_def)

lemma family_rows:
  "map (\<lambda>f. (fy_name f, fy_contracts f, fy_sites f)) (build_family_summaries cs)
     = map (\<lambda>k. (k, length (filter (\<lambda>c. cu_family c = k) cs),
                  sum_list (map site_count (filter (\<lambda>c. cu_family c = k) cs))))
         (sorted_list_of_set (cu_family ` set cs))"
  by (simp add: build_family_summaries_def summarize_family_def Let_def comp_def sort_dedup_list_of_set)

text \<open>Enrichment keeps the contracts and adds to their sites what it counts.\<close>

lemma enrich_contract_total:
  assumes "enrich_contract refs (c, n) = (c', n')"
  shows "site_count c' + n = site_count c + n' \<and> cu_family c' = cu_family c"
proof -
  obtain c1 n1 where s: "fold track_reference refs (c, n) = (c1, n1)" by fastforce
  have c': "c' = c1\<lparr>cu_breadth := compute_breadth c1\<rparr>" "n' = n1"
    using assms by (simp_all add: enrich_contract_def s)
  from fold_track [OF s] obtain new where "c1 = c\<lparr>cu_propagation := cu_propagation c @ new\<rparr>" "n1 = n + length new"
    by blast
  with c' show ?thesis by (simp add: site_count_def)
qed

lemma enrich_contracts_total:
  "enrich_contracts enrich cs n b = Some (cs', n', b') \<Longrightarrow>
     sum_list (map site_count cs') + n = sum_list (map site_count cs) + n' \<and> map cu_family cs' = map cu_family cs"
proof (induction cs arbitrary: n b cs' n' b')
  case (Cons c cs)
  obtain es b1 where e: "enrich (cu_name c) b = Some (es, b1)"
    using Cons.prems by (auto split: option.splits)
  obtain c1 n1 where c: "enrich_contract (es_lsp_references es) (c, n) = (c1, n1)" by fastforce
  obtain cs1 where rest: "enrich_contracts enrich cs n1 b1 = Some (cs1, n', b')" and cs': "cs' = c1 # cs1"
    using Cons.prems by (auto simp: e c)
  from enrich_contract_total [OF c] Cons.IH [OF rest] show ?case by (simp add: cs')
qed simp

lemma usage_with_lsp_parts:
  assumes "usage_with_lsp api join_root root b = Some (r', b')"
  obtains cs n where "ur_contracts r' = cs" "ur_families r' = ur_families (usage_map root)"
    "ur_statistics r' = compute_statistics cs (ur_families (usage_map root))"
    "ur_lsp r' = Some \<lparr>ul_status = usage_status b' n, ul_references = n\<rparr>"
    "sum_list (map site_count cs) = sum_list (map site_count (ur_contracts (usage_map root))) + n"
    "map cu_family cs = map cu_family (ur_contracts (usage_map root))"
proof -
  obtain cs n where e: "enrich_contracts (enrich_symbol_with_index api join_root (build_index root))
      (ur_contracts (usage_map root)) 0 b = Some (cs, n, b')"
    and r': "r' = (usage_map root)\<lparr>ur_contracts := cs, ur_lsp := Some \<lparr>ul_status = usage_status b' n, ul_references = n\<rparr>,
        ur_scope_note := usage_lsp_note (usage_status b' n),
        ur_statistics := compute_statistics cs (ur_families (usage_map root))\<rparr>"
    using assms by (auto simp: usage_with_lsp_def usage_map_def Let_def)
  from enrich_contracts_total [OF e] that [of cs n] show thesis by (simp add: r')
qed

lemma enrich_contracts_unavailable:
  "\<exists>cs'. enrich_contracts (enrich_symbol_with_index api join_root ix) cs n (bridge_unavailable reason)
     = Some (cs', n, bridge_unavailable reason)"
proof (induction cs)
  case (Cons c cs)
  then show ?case by (auto simp: enrich_unavailable enrich_contract_def)
qed simp

text \<open>
  C25 (the totals add up). In the map without --lsp there is one summary for each family of a listed
  contract, in order, with the number of its contracts and the sum of their sites, and the totals are
  the sums over the summaries. With --lsp the summaries stay those of the plain map: the contracts
  still add up, and the total of the sites is the sum over the families plus the references that gopls
  added, which no family counts.
\<close>

theorem usage_totals_add_up:
  "let r = usage_map root; cs = ur_contracts r; fs = ur_families r; s = ur_statistics r in
     map (\<lambda>f. (fy_name f, fy_contracts f, fy_sites f)) fs
       = map (\<lambda>k. (k, length (filter (\<lambda>c. cu_family c = k) cs),
                    sum_list (map site_count (filter (\<lambda>c. cu_family c = k) cs))))
           (sorted_list_of_set (cu_family ` set cs))
     \<and> us_families s = length fs
     \<and> us_contracts s = us_well s + us_moderate s + us_limited s + us_orphan s
     \<and> us_contracts s = sum_list (map fy_contracts fs) \<and> us_sites s = sum_list (map fy_sites fs)
     \<and> (usage_with_lsp api join_root root b = Some (r', b') \<longrightarrow>
          ur_families r' = fs \<and> us_families (ur_statistics r') = length fs
          \<and> us_contracts (ur_statistics r') = sum_list (map fy_contracts fs)
          \<and> (\<exists>l. ur_lsp r' = Some l
               \<and> us_sites (ur_statistics r') = sum_list (map fy_sites fs) + ul_references l))"
proof -
  let ?r = "usage_map root"
  let ?cs = "ur_contracts ?r" and ?fs = "ur_families ?r" and ?s = "ur_statistics ?r"
  have fs: "?fs = build_family_summaries ?cs" and s: "?s = compute_statistics ?cs ?fs"
    by (simp_all add: usage_map_def usage_of_index_def Let_def)
  have plain: "us_families ?s = length ?fs" "us_contracts ?s = sum_list (map fy_contracts ?fs)"
    "us_sites ?s = sum_list (map fy_sites ?fs)"
    "us_contracts ?s = us_well ?s + us_moderate ?s + us_limited ?s + us_orphan ?s"
    using breadth_partition [of ?cs]
    unfolding s compute_statistics_def usage_statistics.simps unfolding fs family_sites_total family_contracts_total
    by simp_all
  have "ur_families r' = ?fs \<and> us_families (ur_statistics r') = length ?fs
      \<and> us_contracts (ur_statistics r') = sum_list (map fy_contracts ?fs)
      \<and> (\<exists>l. ur_lsp r' = Some l \<and> us_sites (ur_statistics r') = sum_list (map fy_sites ?fs) + ul_references l)"
    if run: "usage_with_lsp api join_root root b = Some (r', b')"
  proof -
    obtain cs n where p: "ur_families r' = ?fs" "ur_statistics r' = compute_statistics cs ?fs"
      "ur_lsp r' = Some \<lparr>ul_status = usage_status b' n, ul_references = n\<rparr>"
      "sum_list (map site_count cs) = sum_list (map site_count ?cs) + n" "map cu_family cs = map cu_family ?cs"
      using usage_with_lsp_parts [OF run] by metis
    have "length cs = length ?cs" using p(5) by (metis length_map)
    with p(1-4) plain(2,3) show ?thesis by (simp add: compute_statistics_def s)
  qed
  with plain family_rows [of ?cs] fs show ?thesis unfolding Let_def by simp
qed

definition event_project :: fs_node where
  "event_project =
     FDir [(''internal'', FDir [(''shared'', FDir [(''events'', FDir [(''event.go'',
       FFile (Some (''package events'' @ nl @ ''type Event struct {'' @ nl @ ''}'' @ nl
         @ ''func Publish(e Event) {'' @ nl @ ''}'' @ nl)))])])])]"

theorem usage_totals_add_up_witness:
  "\<exists>r'. usage_with_lsp toy_api (\<lambda>f. f) event_project (bridge_unavailable ''no gopls'')
       = Some (r', bridge_unavailable ''no gopls'')
     \<and> us_sites (ur_statistics r') = 1 \<and> ur_families r' = ur_families (usage_map event_project)"
proof -
  let ?b = "bridge_unavailable ''no gopls''"
  obtain cs where e: "enrich_contracts (enrich_symbol_with_index toy_api (\<lambda>f. f) (build_index event_project))
      (ur_contracts (usage_of_index (build_index event_project))) 0 ?b = Some (cs, 0, ?b)"
    using enrich_contracts_unavailable by blast
  obtain r' where run: "usage_with_lsp toy_api (\<lambda>f. f) event_project ?b = Some (r', ?b)"
    and "ur_lsp r' = Some \<lparr>ul_status = usage_status ?b 0, ul_references = 0\<rparr>"
    by (simp add: usage_with_lsp_def Let_def e)
  moreover have "us_sites (ur_statistics (usage_map event_project)) = 1" by code_simp
  ultimately show ?thesis
    using usage_totals_add_up [of event_project toy_api "\<lambda>f. f" ?b r' ?b] by (auto simp: Let_def)
qed

section \<open>Classification\<close>

text \<open>
  Property (queries are commands). In the package of the configuration contracts the first family of
  the table that names the package claims every name that looks like a contract, so the queries,
  replies and records listed under the families after it are reported as commands.
\<close>

theorem contracts_package_is_commands:
  assumes "is_contract_like_name n"
    and "n \<notin> {''Envelope'', ''Metadata'', ''Event'', ''Problem'', ''ProblemCode'', ''ValidationIssue''}"
  shows "classify_type n ''internal/application/configctl/contracts'' = Some ''Configctl Commands''"
proof -
  let ?d = "''internal/application/configctl/contracts''"
  have c: "\<not> contains ?d ''shared/envelope''"
    "\<not> contains ?d ''shared/events''"
    "\<not> contains ?d ''shared/requestctx''"
    "\<not> contains ?d ''shared/problem''"
    "contains ?d ''application/configctl/contracts''"
    by code_simp+
  show ?thesis
    using assms by (simp add: classify_type_def contract_families_def configctl_families_def family_def
        family_claims_def c)
qed

theorem contracts_package_is_commands_witness:
  "''GetConfigQuery'' \<in> set (cf_types (configctl_families ! 1))
   \<and> classify_type ''GetConfigQuery'' ''internal/application/configctl/contracts'' = Some ''Configctl Commands''"
proof
  show "''GetConfigQuery'' \<in> set (cf_types (configctl_families ! 1))"
    by (simp add: configctl_families_def family_def)
  have "is_contract_like_name ''GetConfigQuery''" by code_simp
  then show "classify_type ''GetConfigQuery'' ''internal/application/configctl/contracts'' = Some ''Configctl Commands''"
    by (rule contracts_package_is_commands) simp
qed

text \<open>
  Property (namesakes are counted). A function whose parameter has a type that merely contains the name
  of a contract has a site of that contract: an event \<open>DraftCreatedEvent\<close> is a use of \<open>Event\<close>.
\<close>

theorem namesakes_are_counted:
  assumes "p \<in> set (fn_params f)" and "pa_type_expr p = pre @ type_name @ post"
  shows "func_use type_name file f \<noteq> []"
proof -
  have "func_takes_type f type_name"
    unfolding func_takes_type_def list_ex_iff using assms contains_iff by fastforce
  then show ?thesis by (simp add: func_use_def Let_def)
qed

definition draft_handler :: go_func where
  "draft_handler =
     \<lparr>fn_name = ''Notify'', fn_receiver = None, fn_params = [\<lparr>pa_name = ''e'', pa_type_expr = ''DraftCreatedEvent''\<rparr>],
      fn_returns = [], fn_visibility = Exported, fn_location = \<lparr>loc_file = ''a.go'', loc_line = 3\<rparr>\<rparr>"

theorem namesakes_are_counted_witness:
  "func_use ''Event'' \<lparr>gf_path = ''a.go'', gf_package = ''a'', gf_imports = [], gf_types = [], gf_functions = [],
     gf_constants = [], gf_variables = [], gf_is_test = False, gf_line_count = 9\<rparr> draft_handler \<noteq> []"
  by (rule namesakes_are_counted [where pre = "''DraftCreated''" and post = "[]" and p = "hd (fn_params draft_handler)"])
     (simp_all add: draft_handler_def)

end
