(* ===== verification/Tdd.thy ===== *)
theory Tdd
  imports ImpactMap
begin

text \<open>
  The TDD guide (\<open>analyzers/tdd.rs\<close>): from the changed files to the areas they touch, the tests next
  to them, the gaps in coverage, the scenarios and the commands to run before and after the change. The
  JSON rendering is \<open>serde_json\<close>.
\<close>

section \<open>The report\<close>

record file_impact =
  fi_file :: string
  fi_package :: "string option"
  fi_exported_symbols :: "string list"
  fi_direct_dependents :: "string list"
  fi_contract_items :: "string list"
  fi_risks :: "string list"

record affected_area =
  aa_name :: string
  aa_description :: string
  aa_files :: "string list"

record nearby_test =
  nt_test_file :: string
  nt_package :: string
  nt_for_area :: string

record coverage_gap =
  cg_area :: string
  cg_description :: string
  cg_has_go_tests :: bool
  cg_has_scenario :: bool
  cg_suggestion :: string

record scenario_advice =
  sc_name :: string
  sc_description :: string
  sc_why :: string

record tdd_report =
  td_changed_files :: "string list"
  td_file_impacts :: "file_impact list"
  td_areas :: "affected_area list"
  td_tests :: "nearby_test list"
  td_gaps :: "coverage_gap list"
  td_profile :: string
  td_scenarios :: "scenario_advice list"
  td_before :: "string list"
  td_after :: "string list"
  td_needs_infra :: bool
  td_scope_note :: string

definition empty_tdd_report :: tdd_report where
  "empty_tdd_report =
     \<lparr>td_changed_files = [], td_file_impacts = [], td_areas = [], td_tests = [], td_gaps = [],
      td_profile = ''fast'', td_scenarios = [], td_before = [], td_after = [''make verify''],
      td_needs_infra = False, td_scope_note = ''No changed files detected.''\<rparr>"

section \<open>Areas\<close>

record tdd_area =
  ta_name :: string
  ta_description :: string
  ta_patterns :: "string list"
  ta_dimensions :: "string list"
  ta_scenarios :: "string list"

definition tdd_area_of :: "string \<Rightarrow> string \<Rightarrow> string list \<Rightarrow> string list \<Rightarrow> string list \<Rightarrow> tdd_area" where
  "tdd_area_of name description patterns dims scenarios =
     \<lparr>ta_name = name, ta_description = description, ta_patterns = patterns, ta_dimensions = dims,
      ta_scenarios = scenarios\<rparr>"

definition tdd_areas :: "tdd_area list" where
  "tdd_areas =
     [tdd_area_of ''config-files'' (dash ''deploy/configs'' ''service configuration'')
        [''deploy/configs/''] [''project-structure'', ''topology'', ''drift''] [],
      tdd_area_of ''compose'' (dash ''docker-compose'' ''service orchestration'')
        [''deploy/compose/''] [''project-structure'', ''topology'', ''drift''] [''readiness-probe''],
      tdd_area_of ''nats-adapters'' (dash ''NATS/JetStream adapter layer'' ''transport wiring'')
        [''internal/adapters/nats/''] [''contracts'', ''runtime-bindings'', ''architecture''] [''happy-path''],
      tdd_area_of ''kafka-adapters'' (dash ''Kafka adapter layer'' ''data plane transport'')
        [''internal/adapters/kafka/''] [''topology'', ''runtime-bindings'', ''architecture''] [''happy-path''],
      tdd_area_of ''domain'' (dash ''domain layer'' ''business rules (must be pure)'')
        [''internal/domain/''] [''architecture'', ''contracts''] [],
      tdd_area_of ''application'' (dash ''application layer'' ''use cases and ports'')
        [''internal/application/''] [''architecture'', ''contracts''] [],
      tdd_area_of ''http-handlers'' (dash ''HTTP interface layer'' ''API endpoints'')
        [''internal/interfaces/http/''] [''architecture''] [''readiness-probe''],
      tdd_area_of ''actors'' (dash ''actor supervision trees'' ''runtime wiring'')
        [''internal/actors/''] [''architecture'', ''runtime-bindings''] [''readiness-probe''],
      tdd_area_of ''validator-logic'' (dash ''validator'' ''validation rules and results'')
        [''internal/actors/scopes/validator/'', ''internal/application/validatorresults/'']
        [''contracts'', ''runtime-bindings''] [''happy-path'', ''invalid-payload''],
      tdd_area_of ''consumer-pipeline'' (dash ''consumer'' ''kafka-to-jetstream bridging'')
        [''internal/actors/scopes/consumer/'', ''internal/application/dataplane/'']
        [''topology'', ''runtime-bindings''] [''happy-path''],
      tdd_area_of ''config-lifecycle'' (dash ''configctl'' ''config draft/validate/compile/activate'')
        [''internal/actors/scopes/configctl/'', ''internal/application/configctl/'']
        [''contracts''] [''config-lifecycle'']]"

definition find_tdd_area :: "string \<Rightarrow> tdd_area option" where
  "find_tdd_area name = find (\<lambda>a. ta_name a = name) tdd_areas"

definition touches :: "string \<Rightarrow> tdd_area \<Rightarrow> bool" where
  "touches path a = list_ex (contains path) (ta_patterns a)"

definition dimension_command :: "string \<Rightarrow> string option" where
  "dimension_command name =
     (if name = ''project-structure'' then Some ''raccoon-cli doctor''
      else if name = ''topology'' then Some ''raccoon-cli topology-doctor''
      else if name = ''contracts'' then Some ''raccoon-cli contract-audit''
      else if name = ''runtime-bindings'' then Some ''raccoon-cli runtime-bindings''
      else if name = ''architecture'' then Some ''raccoon-cli arch-guard''
      else if name = ''drift'' then Some ''raccoon-cli drift-detect''
      else None)"

definition scenario_description :: "string \<Rightarrow> string" where
  "scenario_description name =
     (if name = ''happy-path'' then ''full E2E: config lifecycle + data plane + validation results''
      else if name = ''config-lifecycle'' then ''control plane lifecycle: draft -> validate -> compile -> activate''
      else if name = ''invalid-payload'' then ''validator catches invalid payloads from emulator''
      else if name = ''missing-binding'' then dash ''query non-existent scope'' ''verifies graceful degradation''
      else if name = ''readiness-probe'' then ''cluster bootstrap and readiness verification''
      else ''runtime validation scenario'')"

section \<open>Building the parts\<close>

definition file_impact_of :: "target_impact \<Rightarrow> file_impact" where
  "file_impact_of i =
     \<lparr>fi_file = ti_target i, fi_package = ti_resolved_package i,
      fi_exported_symbols = map (\<lambda>s. xs_name s @ '' ['' @ xs_kind s @ '']'') (ti_exported_symbols i),
      fi_direct_dependents = map dp_package_dir (ti_direct_dependents i),
      fi_contract_items = map (\<lambda>c. ci_name c @ '' ['' @ ci_kind c @ '']'') (ti_contract_surface i),
      fi_risks = map (\<lambda>r. ''['' @ rk_basis r @ ''] '' @ rk_description r) (ti_risks i)\<rparr>"

definition build_file_impacts :: "impact_report \<Rightarrow> file_impact list" where
  "build_file_impacts r = map file_impact_of (ir_impacts r)"

text \<open>One entry for every pair of a changed file and an area it touches, pushed under the area.\<close>

definition area_hits :: "string list \<Rightarrow> (string \<times> string) list" where
  "area_hits changed = concat (map (\<lambda>file. map (\<lambda>a. (ta_name a, file)) (filter (touches file) tdd_areas)) changed)"

definition note_hit :: "string \<times> string \<Rightarrow> string list option \<Rightarrow> string list" where
  "note_hit h files = (case files of Some fs \<Rightarrow> fs | None \<Rightarrow> []) @ [snd h]"

definition build_affected_areas :: "string list \<Rightarrow> affected_area list" where
  "build_affected_areas changed =
     map (\<lambda>(name, files).
         \<lparr>aa_name = name,
          aa_description = (case find_tdd_area name of Some d \<Rightarrow> ta_description d | None \<Rightarrow> []),
          aa_files = files\<rparr>)
       (fold (\<lambda>h. bt_alter (fst h) (note_hit h)) (area_hits changed) [])"

definition area_for_path :: "string \<Rightarrow> string" where
  "area_for_path path =
     (case find (touches path) tdd_areas of Some a \<Rightarrow> ta_name a | None \<Rightarrow> ''general'')"

definition note_test :: "go_file \<Rightarrow> nearby_test list \<Rightarrow> nearby_test list" where
  "note_test file tests =
     (if gf_is_test file \<and> gf_path file \<notin> set (map nt_test_file tests) then
        tests @ [\<lparr>nt_test_file = gf_path file, nt_package = gf_package file,
                  nt_for_area = area_for_path (gf_path file)\<rparr>]
      else tests)"

definition tests_near :: "project_index \<Rightarrow> string \<Rightarrow> nearby_test list \<Rightarrow> nearby_test list" where
  "tests_near ix changed_file tests =
     (let normalized = drop_dot_slash changed_file in
      case rfind_char normalized CHR ''/'' of
        Some pos \<Rightarrow> fold note_test (files_in_dir ix (take pos normalized)) tests
      | None \<Rightarrow> tests)"

definition find_nearby_tests :: "project_index \<Rightarrow> string list \<Rightarrow> nearby_test list" where
  "find_nearby_tests ix changed = fold (tests_near ix) changed []"

text \<open>The search of the disk for files whose name ends with \<open>_test.go\<close>; it skips no directory.\<close>

fun has_test_files :: "(string \<times> fs_node) list \<Rightarrow> bool" where
  "has_test_files [] = False"
| "has_test_files ((name, FDir es) # rest) = (if has_test_files es then True else has_test_files rest)"
| "has_test_files ((name, FFile c) # rest) = (if ends_with name ''_test.go'' then True else has_test_files rest)"

definition slash_path :: "string \<Rightarrow> path" where
  "slash_path p = filter (\<lambda>c. c \<noteq> []) (split_on p ''/'')"

definition tests_on_disk :: "fs_node \<Rightarrow> tdd_area \<Rightarrow> bool" where
  "tests_on_disk root a =
     list_ex (\<lambda>p. path_is_dir root (slash_path p) \<and> has_test_files (dir_entries root (slash_path p))) (ta_patterns a)"

definition first_pattern :: "tdd_area \<Rightarrow> string" where
  "first_pattern a = (case ta_patterns a of p # _ \<Rightarrow> p | [] \<Rightarrow> ''this area'')"

definition gap_of :: "nearby_test list \<Rightarrow> fs_node \<Rightarrow> affected_area \<Rightarrow> coverage_gap option" where
  "gap_of tests root area =
     (case find_tdd_area (aa_name area) of
        None \<Rightarrow> None
      | Some d \<Rightarrow>
          (let has_go_tests = list_ex (\<lambda>t. nt_for_area t = aa_name area) tests;
               has_scenario = ta_scenarios d \<noteq> [];
               has_tests = has_go_tests \<or> tests_on_disk root d
           in if \<not> has_tests \<and> \<not> has_scenario then
                Some \<lparr>cg_area = aa_name area,
                      cg_description =
                        dash (ta_description d) ''no Go tests and no runtime scenario covering this area'',
                      cg_has_go_tests = False, cg_has_scenario = False,
                      cg_suggestion = ''add _test.go files in '' @ first_pattern d
                        @ '' or create a scenario-smoke covering '' @ aa_name area\<rparr>
              else if \<not> has_tests then
                Some \<lparr>cg_area = aa_name area,
                      cg_description = dash (ta_description d)
                        (''no Go tests (runtime scenario exists: '' @ join '', '' (ta_scenarios d) @ '')''),
                      cg_has_go_tests = False, cg_has_scenario = True,
                      cg_suggestion = ''add _test.go files in '' @ first_pattern d
                        @ '' to catch regressions without cluster''\<rparr>
              else if \<not> has_scenario then
                Some \<lparr>cg_area = aa_name area,
                      cg_description = dash (ta_description d) ''Go tests exist but no runtime scenario'',
                      cg_has_go_tests = True, cg_has_scenario = False,
                      cg_suggestion = dash ''unit tests cover logic but not runtime integration''
                        ''consider adding a scenario-smoke if this area interacts with infra''\<rparr>
              else None))"

definition find_coverage_gaps :: "affected_area list \<Rightarrow> nearby_test list \<Rightarrow> fs_node \<Rightarrow> coverage_gap list" where
  "find_coverage_gaps areas tests root = List.map_filter (gap_of tests root) areas"

definition scenarios_of_area :: "affected_area \<Rightarrow> string list" where
  "scenarios_of_area a = (case find_tdd_area (aa_name a) of Some d \<Rightarrow> ta_scenarios d | None \<Rightarrow> [])"

definition recommend_scenarios :: "affected_area list \<Rightarrow> scenario_advice list \<times> bool" where
  "recommend_scenarios areas =
     (let names = concat (map scenarios_of_area areas) in
      (map (\<lambda>name. \<lparr>sc_name = name, sc_description = scenario_description name,
                     sc_why = ''covers affected area(s): ''
                       @ join '', '' (map aa_name (filter (\<lambda>a. name \<in> set (scenarios_of_area a)) areas))\<rparr>)
         (sort_dedup names),
       names \<noteq> []))"

definition recommend_gate_profile :: "affected_area list \<Rightarrow> bool \<Rightarrow> string" where
  "recommend_gate_profile areas needs_infra =
     (if needs_infra then ''deep'' else if areas = [] then ''fast'' else ''fast'')"

definition area_commands :: "affected_area \<Rightarrow> string list" where
  "area_commands a =
     (case find_tdd_area (aa_name a) of
        Some d \<Rightarrow> List.map_filter dimension_command (ta_dimensions d)
      | None \<Rightarrow> [])"

definition scenario_command :: "scenario_advice \<Rightarrow> string" where
  "scenario_command s = ''raccoon-cli scenario-smoke '' @ sc_name s"

definition build_before_commands :: "affected_area list \<Rightarrow> scenario_advice list \<Rightarrow> string list" where
  "build_before_commands areas scenarios =
     sort_dedup (concat (map area_commands areas) @ map scenario_command scenarios)"

definition build_after_commands :: "affected_area list \<Rightarrow> scenario_advice list \<Rightarrow> string list" where
  "build_after_commands areas scenarios =
     sort_dedup (concat (map area_commands areas) @ map scenario_command scenarios @ [''make verify''])"

section \<open>The guide\<close>

definition tdd_analyze :: "fs_node \<Rightarrow> string list \<Rightarrow> tdd_report" where
  "tdd_analyze root changed =
     (if changed = [] then empty_tdd_report
      else
        (let ix = build_index root;
             areas = build_affected_areas changed;
             tests = find_nearby_tests ix changed;
             (scenarios, needs_infra) = recommend_scenarios areas
         in \<lparr>td_changed_files = changed, td_file_impacts = build_file_impacts (impact_analyze root changed),
             td_areas = areas, td_tests = tests, td_gaps = find_coverage_gaps areas tests root,
             td_profile = recommend_gate_profile areas needs_infra, td_scenarios = scenarios,
             td_before = build_before_commands areas scenarios, td_after = build_after_commands areas scenarios,
             td_needs_infra = needs_infra,
             td_scope_note = ''Impact is computed from static AST analysis and file-pattern matching. ''
               @ ''No call graph or runtime tracing is available.''\<rparr>))"

section \<open>Rendering\<close>

definition spaced_lines :: "string \<Rightarrow> ('a \<Rightarrow> string) \<Rightarrow> 'a list \<Rightarrow> string" where
  "spaced_lines title f xs = (if xs = [] then [] else block title f xs @ nl)"

definition backtick :: "string \<Rightarrow> string" where
  "backtick s = [CHR 0x60] @ s @ [CHR 0x60]"

definition tdd_usage :: string where
  "tdd_usage =
     ''No changed files detected.'' @ nl @ nl
     @ ''Usage: raccoon-cli tdd <file1> [file2] ...'' @ nl
     @ ''   or: make changes first, then run '' @ backtick ''raccoon-cli tdd'' @ '' to auto-detect.'' @ nl @ nl
     @ ''Generic TDD cycle:'' @ nl
     @ ''  1. Run '' @ backtick ''make check'' @ '' to confirm known-good baseline'' @ nl
     @ ''  2. Write/update test or scenario for your intended change'' @ nl
     @ ''  3. Implement the change'' @ nl
     @ ''  4. Run '' @ backtick ''make verify'' @ '' to prove safety'' @ nl"

definition has_impact :: "file_impact \<Rightarrow> bool" where
  "has_impact fi = (fi_exported_symbols fi \<noteq> [] \<or> fi_contract_items fi \<noteq> [] \<or> fi_direct_dependents fi \<noteq> [])"

definition counted_list :: "string \<Rightarrow> string list \<Rightarrow> string" where
  "counted_list label xs = ''    '' @ counted label xs @ '': '' @ join '', '' xs"

definition render_file_impact :: "bool \<Rightarrow> file_impact \<Rightarrow> string" where
  "render_file_impact verbose fi =
     (let symbols = fi_exported_symbols fi in
      ''  '' @ fi_file fi @ (case fi_package fi of Some p \<Rightarrow> '' ('' @ p @ '')'' | None \<Rightarrow> []) @ '':'' @ nl
      @ (if symbols = [] then []
         else ''    '' @ counted ''exported symbols'' symbols @ '': ''
           @ join '', '' (take (if verbose then length symbols else 5) symbols)
           @ (if \<not> verbose \<and> 5 < length symbols then '' ... +'' @ show_nat (length symbols - 5) @ '' more'' else []) @ nl)
      @ (if fi_contract_items fi = [] then [] else counted_list ''contract surface'' (fi_contract_items fi) @ nl)
      @ (if fi_direct_dependents fi = [] then [] else counted_list ''dependents'' (fi_direct_dependents fi) @ nl)
      @ (if verbose then lines_of (\<lambda>r. ''    risk: '' @ r) (fi_risks fi) else []))"

definition render_file_impacts :: "bool \<Rightarrow> file_impact list \<Rightarrow> string" where
  "render_file_impacts verbose fis =
     (if filter has_impact fis = [] then []
      else ''Structural impact:'' @ nl @ concat (map (render_file_impact verbose) (filter has_impact fis)) @ nl)"

definition standard_cycle :: string where
  "standard_cycle =
     dash ''No sensitive areas affected'' ''standard TDD cycle applies:'' @ nl
     @ ''  1. Run '' @ backtick ''make check'' @ '' before coding'' @ nl
     @ ''  2. Write/update tests'' @ nl
     @ ''  3. Implement changes'' @ nl
     @ ''  4. Run '' @ backtick ''make verify'' @ '' after changes'' @ nl"

definition render_discipline :: string where
  "render_discipline =
     ''Discipline:'' @ nl
     @ ''  - Without a passing baseline, you can'' @ [CHR 0x27] @ ''t know your change is safe'' @ nl
     @ ''  - Without a test for the new behavior, success is a guess'' @ nl
     @ ''  - '' @ backtick ''make verify'' @ '' is the canonical proof command'' @ nl"

definition render_tdd :: "tdd_report \<Rightarrow> bool \<Rightarrow> string" where
  "render_tdd r verbose =
     ''=== TDD Flow Guide ==='' @ nl @ nl
     @ (if td_changed_files r = [] then tdd_usage
        else
          block (counted ''Changed files'' (td_changed_files r) @ '':'') (\<lambda>f. ''  '' @ f) (td_changed_files r) @ nl
          @ render_file_impacts verbose (td_file_impacts r)
          @ (if td_areas r = [] then standard_cycle
             else
               ''Affected sensitive areas:'' @ nl
               @ concat (map (\<lambda>a. ''  '' @ dash (aa_name a) (aa_description a) @ nl
                   @ (if verbose then lines_of (\<lambda>f. ''    touched: '' @ f) (aa_files a) else [])) (td_areas r)) @ nl
               @ spaced_lines (counted ''Existing tests nearby'' (td_tests r) @ '':'')
                   (\<lambda>t. ''  '' @ nt_test_file t @ '' (package: '' @ nt_package t @ '', area: '' @ nt_for_area t @ '')'')
                   (td_tests r)
               @ spaced_lines ''Coverage gaps:''
                   (\<lambda>g. ''  '' @ dash (cg_area g) (cg_description g) @ nl @ ''    suggestion: '' @ cg_suggestion g)
                   (td_gaps r)
               @ spaced_lines ''BEFORE your change (confirm baseline passes):'' (\<lambda>c. ''  $ '' @ c) (td_before r)
               @ spaced_lines ''AFTER your change (prove safety):'' (\<lambda>c. ''  $ '' @ c) (td_after r)
               @ spaced_lines ''Recommended scenarios:''
                   (\<lambda>s. ''  '' @ dash (sc_name s) (sc_description s) @ nl @ ''    why: '' @ sc_why s) (td_scenarios r)
               @ (if td_needs_infra r then
                    ''NOTE: Runtime scenarios require a running cluster.'' @ nl
                    @ ''  Start with: make up-dataplane'' @ nl
                    @ ''  Recommended gate: raccoon-cli quality-gate --profile '' @ td_profile r @ nl @ nl
                  else [])
               @ render_discipline))"

end
