(* ===== verification/Recommend.thy ===== *)
theory Recommend
  imports Tdd BaselineDrift
begin

text \<open>
  Recommendations (\<open>analyzers/recommend.rs\<close>): the impact map, the TDD guide and, when a baseline is
  given, its drift are combined into facts, inferences, risks, scenarios and a gate profile. The JSON
  rendering is \<open>serde_json\<close>.
\<close>

section \<open>The report\<close>

record tagged_item =
  tg_tag :: string
  tg_category :: string
  tg_message :: string
  tg_location :: "string option"

record advice =
  ad_action :: string
  ad_why :: string
  ad_priority :: string

record smoke_advice =
  sr_scenario :: string
  sr_description :: string
  sr_why :: string
  sr_priority :: string

record gate_advice =
  ga_profile :: string
  ga_why :: string

record priority_area =
  py_area :: string
  py_description :: string
  py_has_unit_tests :: bool
  py_has_scenario :: bool
  py_status :: string
  py_suggestion :: string

record risk_item =
  ri_category :: string
  ri_severity :: string
  ri_basis :: string
  ri_message :: string
  ri_location :: "string option"
  ri_action :: string

record recommend_report =
  re_changed_files :: "string list"
  re_has_baseline :: bool
  re_scope :: string
  re_facts :: "tagged_item list"
  re_inferences :: "tagged_item list"
  re_advice :: "advice list"
  re_smoke :: "smoke_advice list"
  re_gate :: gate_advice
  re_areas :: "priority_area list"
  re_risks :: "risk_item list"
  re_before :: "string list"
  re_after :: "string list"
  re_scope_note :: string

definition empty_recommend_report :: recommend_report where
  "empty_recommend_report =
     \<lparr>re_changed_files = [], re_has_baseline = False, re_scope = ''none'', re_facts = [], re_inferences = [],
      re_advice = [\<lparr>ad_action = ''Provide changed files or use git status for auto-detection'',
                    ad_why = ''No input files to analyze'', ad_priority = ''info''\<rparr>],
      re_smoke = [],
      re_gate = \<lparr>ga_profile = ''fast'', ga_why = dash ''No changes detected'' ''default profile''\<rparr>,
      re_areas = [], re_risks = [], re_before = [], re_after = [''make verify''],
      re_scope_note = ''No changed files provided. Pass file paths or let raccoon-cli ''
        @ ''auto-detect from git status.''\<rparr>"

section \<open>The drift of a baseline\<close>

record drift_context =
  dc_verdict :: string
  dc_critical :: "drift_finding list"
  dc_warning :: "drift_finding list"
  dc_info :: "drift_finding list"

definition drift_context_of :: "baseline_drift_report \<Rightarrow> drift_context" where
  "drift_context_of r =
     (let fs = bd_findings r in
      \<lparr>dc_verdict = (case bd_verdict r of DriftClean \<Rightarrow> ''clean'' | DriftMild \<Rightarrow> ''mild'' | Drifted \<Rightarrow> ''drifted''),
       dc_critical = filter (\<lambda>f. dr_severity f = ''critical'') fs,
       dc_warning = filter (\<lambda>f. dr_severity f = ''warning'') fs,
       dc_info = filter (\<lambda>f. dr_severity f \<noteq> ''critical'' \<and> dr_severity f \<noteq> ''warning'') fs\<rparr>)"

definition serious :: "drift_context \<Rightarrow> drift_finding list" where
  "serious d = dc_critical d @ dc_warning d"

definition has_critical :: "drift_context \<Rightarrow> bool" where
  "has_critical d = (dc_critical d \<noteq> [])"

definition has_contract_drift :: "drift_context \<Rightarrow> bool" where
  "has_contract_drift d = list_ex (\<lambda>f. contains (dr_class f) ''contract'') (serious d)"

definition has_breaking_changes :: "drift_context \<Rightarrow> bool" where
  "has_breaking_changes d = list_ex (\<lambda>f. contains (dr_class f) ''breaking'') (serious d)"

definition has_isolation_loss :: "drift_context \<Rightarrow> bool" where
  "has_isolation_loss d =
     list_ex (\<lambda>f. contains (dr_class f) ''isolation'' \<or> contains (dr_class f) ''coupling'') (serious d)"

section \<open>The scope of a change\<close>

definition scope_area :: "string \<Rightarrow> string" where
  "scope_area f =
     (if contains f ''internal/domain/'' then ''domain''
      else if contains f ''internal/application/'' then ''application''
      else if contains f ''internal/adapters/'' then ''adapters''
      else if contains f ''internal/actors/'' then ''actors''
      else if contains f ''internal/interfaces/'' then ''interfaces''
      else if contains f ''deploy/'' then ''deploy''
      else if contains f ''tools/'' then ''tools''
      else ''other'')"

definition classify_change_scope :: "string list \<Rightarrow> string" where
  "classify_change_scope edited =
     (if edited = [] then ''none''
      else if length edited = 1 then ''single-file''
      else
        (let areas = length (remdups (map scope_area edited)) in
         if 15 < length edited \<or> 4 \<le> areas then ''large''
         else if 2 \<le> areas then ''cross-layer''
         else ''localized''))"

section \<open>Facts, inferences and risks\<close>

definition fact :: "string \<Rightarrow> string \<Rightarrow> string option \<Rightarrow> tagged_item" where
  "fact category message loc =
     \<lparr>tg_tag = ''fact'', tg_category = category, tg_message = message, tg_location = loc\<rparr>"

definition inference :: "string \<Rightarrow> string \<Rightarrow> tagged_item" where
  "inference category message =
     \<lparr>tg_tag = ''inference'', tg_category = category, tg_message = message, tg_location = None\<rparr>"

definition impact_facts :: "target_impact \<Rightarrow> tagged_item list" where
  "impact_facts i =
     (case ti_resolved_package i of
        Some pkg \<Rightarrow> [fact ''scope'' (ti_target i @ '' '' @ arrow @ '' package '' @ pkg) None]
      | None \<Rightarrow> [])
     @ (if ti_exported_symbols i = [] then []
        else [fact ''symbols''
                (ti_target i @ '' exports '' @ show_nat (length (ti_exported_symbols i)) @ '' symbols'') None])
     @ (if ti_direct_dependents i = [] then []
        else [fact ''dependents''
                (ti_target i @ '' has '' @ show_nat (length (ti_direct_dependents i)) @ '' direct dependents: ''
                 @ join '', '' (map dp_package_dir (take 5 (ti_direct_dependents i)))) None])
     @ map (\<lambda>c. fact ''contract-surface'' (dash (ci_name c @ '' ['' @ ci_kind c @ '']'') (ci_why c))
               (Some (ci_location c))) (ti_contract_surface i)"

definition impact_risks :: "target_impact \<Rightarrow> risk_item list" where
  "impact_risks i =
     map (\<lambda>r. \<lparr>ri_category = ''impact'', ri_severity = (if rk_basis r = ''observed'' then ''warning'' else ''info''),
               ri_basis = rk_basis r, ri_message = rk_description r, ri_location = None,
               ri_action = ''Review impact in context of '' @ ti_target i @ '' change''\<rparr>) (ti_risks i)"

definition scope_inferences :: "string \<Rightarrow> tagged_item list" where
  "scope_inferences scope =
     (if scope = ''cross-layer'' then
        [inference ''scope'' (dash ''Changes span multiple architecture layers'' ''higher integration risk'')] else [])
     @ (if scope = ''large'' then
          [inference ''scope'' (dash ''Large change set'' ''full regression recommended'')] else [])"

definition drift_facts :: "drift_context option \<Rightarrow> tagged_item list" where
  "drift_facts drift =
     (case drift of
        Some d \<Rightarrow> [fact ''baseline'' (''Baseline drift verdict: '' @ dc_verdict d) None]
      | None \<Rightarrow> [])"

definition drift_risk :: "string \<Rightarrow> drift_finding \<Rightarrow> risk_item" where
  "drift_risk severity f =
     \<lparr>ri_category = dr_class f, ri_severity = severity, ri_basis = dr_evidence_basis f, ri_message = dr_message f,
      ri_location = None, ri_action = dr_recommendation f\<rparr>"

definition drift_risks :: "drift_context option \<Rightarrow> risk_item list" where
  "drift_risks drift =
     (case drift of
        Some d \<Rightarrow> map (drift_risk ''critical'') (dc_critical d) @ map (drift_risk ''warning'') (dc_warning d)
      | None \<Rightarrow> [])"

definition drift_inferences :: "drift_context option \<Rightarrow> tagged_item list" where
  "drift_inferences drift =
     (case drift of
        Some d \<Rightarrow>
          (if has_contract_drift d then
             [inference ''drift'' (dash ''Contract surface drift detected'' ''consumers may be affected'')] else [])
          @ (if has_isolation_loss d then
               [inference ''drift'' (dash ''Architecture isolation loss detected'' ''layer boundaries weakened'')]
             else [])
      | None \<Rightarrow> [])"

section \<open>Scenarios\<close>

text \<open>\<open>seen_scenarios\<close> holds the names of the scenarios pushed so far.\<close>

definition push_smoke :: "smoke_advice \<Rightarrow> smoke_advice list \<Rightarrow> smoke_advice list" where
  "push_smoke s ss = (if sr_scenario s \<in> set (map sr_scenario ss) then ss else ss @ [s])"

definition smoke :: "string \<Rightarrow> string \<Rightarrow> string \<Rightarrow> string \<Rightarrow> smoke_advice" where
  "smoke name description why priority =
     \<lparr>sr_scenario = name, sr_description = description, sr_why = why, sr_priority = priority\<rparr>"

definition happy_path_text :: string where
  "happy_path_text = ''full E2E: config lifecycle + data plane + validation results''"

definition readiness_text :: string where
  "readiness_text = ''cluster bootstrap and readiness verification''"

definition smoke_candidates :: "tdd_report \<Rightarrow> drift_context option \<Rightarrow> string \<Rightarrow> smoke_advice list" where
  "smoke_candidates tdd drift scope =
     map (\<lambda>s. smoke (sc_name s) (sc_description s) (sc_why s) ''high'') (td_scenarios tdd)
     @ (case drift of
          None \<Rightarrow> []
        | Some d \<Rightarrow>
            (if has_contract_drift d then
               [smoke ''happy-path'' happy_path_text
                  (dash ''contract surface drift detected'' ''verify E2E integration'') ''high''] else [])
            @ (if has_breaking_changes d then
                 [smoke ''invalid-payload'' ''validator catches invalid payloads from emulator''
                    (dash ''breaking changes detected'' ''verify error handling still works'') ''medium''] else [])
            @ (if has_critical d then
                 [smoke ''readiness-probe'' readiness_text
                    (dash ''critical drift detected'' ''verify cluster still healthy'') ''medium''] else []))
     @ (if scope = ''large'' then
          map (\<lambda>(name, text). smoke name text (dash ''large change set'' ''full regression recommended'') ''medium'')
            [(''happy-path'', happy_path_text), (''readiness-probe'', readiness_text)]
        else [])"

definition smoke_scenarios :: "tdd_report \<Rightarrow> drift_context option \<Rightarrow> string \<Rightarrow> smoke_advice list" where
  "smoke_scenarios tdd drift scope = fold push_smoke (smoke_candidates tdd drift scope) []"

section \<open>The gate profile\<close>

definition determine_gate_profile :: "tdd_report \<Rightarrow> drift_context option \<Rightarrow> string \<Rightarrow> smoke_advice list \<Rightarrow> gate_advice" where
  "determine_gate_profile tdd drift scope scenarios =
     (let gate = (\<lambda>profile why. \<lparr>ga_profile = profile, ga_why = why\<rparr>) in
      if td_needs_infra tdd then
        gate ''deep'' (dash ''Runtime scenarios required'' ''affected areas need live infrastructure'')
      else if (case drift of Some d \<Rightarrow> has_critical d | None \<Rightarrow> False) then
        gate ''deep'' (dash ''Critical baseline drift detected'' ''full validation needed'')
      else if scope = ''large'' then gate ''ci'' (dash ''Large change set'' ''strict CI profile recommended'')
      else if scope = ''cross-layer'' then
        gate ''ci'' (dash ''Cross-layer changes'' ''CI-strict checks catch boundary violations'')
      else if scenarios \<noteq> [] then
        gate ''deep'' (dash ''Smoke scenarios recommended'' ''deep profile includes runtime checks'')
      else gate ''fast'' (dash ''Localized changes with no runtime impact'' ''fast profile sufficient''))"

section \<open>Priority areas\<close>

definition priority_area_of :: "tdd_report \<Rightarrow> affected_area \<Rightarrow> priority_area" where
  "priority_area_of tdd area =
     (let gap = find (\<lambda>g. cg_area g = aa_name area) (td_gaps tdd);
          has_tests = list_ex (\<lambda>t. nt_for_area t = aa_name area) (td_tests tdd);
          (status, suggestion) =
            (case gap of
               Some g \<Rightarrow>
                 (if \<not> cg_has_go_tests g \<and> \<not> cg_has_scenario g then ''uncovered''
                  else if \<not> cg_has_go_tests g then ''scenario-only''
                  else ''unit-only'', cg_suggestion g)
             | None \<Rightarrow>
                 if has_tests then (''covered'', dash ''Tests exist'' ''verify they pass'')
                 else (''unknown'', ''Verify coverage manually''))
      in \<lparr>py_area = aa_name area, py_description = aa_description area,
          py_has_unit_tests = (has_tests \<or> (case gap of Some g \<Rightarrow> cg_has_go_tests g | None \<Rightarrow> False)),
          py_has_scenario = (case gap of Some g \<Rightarrow> cg_has_scenario g | None \<Rightarrow> False),
          py_status = status, py_suggestion = suggestion\<rparr>)"

definition build_priority_areas :: "tdd_report \<Rightarrow> priority_area list" where
  "build_priority_areas tdd = map (priority_area_of tdd) (td_areas tdd)"

section \<open>The recommendations\<close>

definition advise :: "string \<Rightarrow> string \<Rightarrow> string \<Rightarrow> advice" where
  "advise action why priority = \<lparr>ad_action = action, ad_why = why, ad_priority = priority\<rparr>"

definition recommendations :: "tdd_report \<Rightarrow> impact_report \<Rightarrow> drift_context option \<Rightarrow> string \<Rightarrow> advice list" where
  "recommendations tdd impact drift scope =
     map (\<lambda>g. advise (cg_suggestion g) (''Coverage gap in '' @ cg_area g @ '': '' @ cg_description g)
              (if \<not> cg_has_go_tests g \<and> \<not> cg_has_scenario g then ''high'' else ''medium'')) (td_gaps tdd)
     @ (case drift of
          Some d \<Rightarrow>
            (if dc_verdict d = ''drifted'' then
               [advise ''Update baseline snapshot after verifying all checks pass''
                  (dash ''Significant baseline drift'' ''current snapshot is stale'') ''high''] else [])
        | None \<Rightarrow> [])
     @ (if scope = ''cross-layer'' then
          [advise ''Run arch-guard to verify layer boundaries are intact''
             ''Cross-layer changes have higher risk of boundary violations'' ''high''] else [])
     @ (if list_ex (\<lambda>i. ti_contract_surface i \<noteq> []) (ir_impacts impact) then
          [advise ''Run contract-audit to verify messaging contract invariants''
             ''Changed files touch contract surface types'' ''high''] else [])"

definition recommend_build_report :: "string list \<Rightarrow> tdd_report \<Rightarrow> impact_report \<Rightarrow> drift_context option
                                      \<Rightarrow> recommend_report" where
  "recommend_build_report edited tdd impact drift =
     (let scope = classify_change_scope edited;
          scenarios = smoke_scenarios tdd drift scope
      in \<lparr>re_changed_files = edited, re_has_baseline = (drift \<noteq> None), re_scope = scope,
          re_facts = concat (map impact_facts (ir_impacts impact)) @ drift_facts drift,
          re_inferences =
            map (\<lambda>a. inference ''affected-area'' (dash (aa_name a) (aa_description a))) (td_areas tdd)
            @ scope_inferences scope
            @ map (\<lambda>g. inference ''coverage-gap'' (dash (cg_area g) (cg_description g))) (td_gaps tdd)
            @ drift_inferences drift,
          re_advice = recommendations tdd impact drift scope,
          re_smoke = scenarios,
          re_gate = determine_gate_profile tdd drift scope scenarios,
          re_areas = build_priority_areas tdd,
          re_risks = concat (map impact_risks (ir_impacts impact)) @ drift_risks drift,
          re_before = td_before tdd, re_after = td_after tdd,
          re_scope_note =
            join '' ''
              ([''Recommendations are computed from AST structural analysis and file-pattern matching.'']
               @ (if drift \<noteq> None
                  then [''Baseline drift signals were incorporated from snapshot comparison.''] else [])
               @ [''No call graph or runtime tracing is available.''])\<rparr>)"

definition recommend_analyze :: "fs_node \<Rightarrow> string list \<Rightarrow> recommend_report" where
  "recommend_analyze root edited =
     (if edited = [] then empty_recommend_report
      else recommend_build_report edited (tdd_analyze root edited) (impact_analyze root edited) None)"

text \<open>\<open>drift\<close> is the result of \<open>baseline_analyze\<close> on the baseline file and the project.\<close>

definition recommend_with_baseline :: "fs_node \<Rightarrow> string list \<Rightarrow> baseline_error + baseline_drift_report
                                       \<Rightarrow> recommend_report" where
  "recommend_with_baseline root edited drift =
     recommend_build_report edited
       (if edited = [] then empty_tdd_report else tdd_analyze root edited)
       (if edited = [] then empty_impact_report else impact_analyze root edited)
       (case drift of Inr r \<Rightarrow> Some (drift_context_of r) | Inl _ \<Rightarrow> None)"

section \<open>Rendering\<close>

definition recommend_usage :: string where
  "recommend_usage =
     ''No changed files detected.'' @ nl @ nl @ ''Usage:'' @ nl
     @ ''  raccoon-cli recommend <file1> [file2] ...'' @ nl
     @ ''  raccoon-cli recommend --baseline snapshot.json'' @ nl
     @ ''  raccoon-cli recommend   # auto-detect from git status'' @ nl"

definition status_icon :: "string \<Rightarrow> string" where
  "status_icon status =
     (if status = ''covered'' then ''ok'' else if status = ''uncovered'' then ''GAP''
      else if status = ''scenario-only'' then ''partial'' else if status = ''unit-only'' then ''partial''
      else ''?'')"

definition render_recommend :: "recommend_report \<Rightarrow> bool \<Rightarrow> string" where
  "render_recommend r verbose =
     ''=== Recommend: Smoke/TDD Priorities ==='' @ nl @ nl
     @ (if re_changed_files r = [] \<and> \<not> re_has_baseline r then recommend_usage
        else
          ''Input: '' @ show_nat (length (re_changed_files r)) @ '' file(s), scope: '' @ re_scope r
          @ (if re_has_baseline r then '' (with baseline)'' else []) @ nl
          @ (if verbose then lines_of (\<lambda>f. ''  '' @ f) (re_changed_files r) else []) @ nl
          @ spaced_lines ''Facts:''
              (\<lambda>i. ''  [fact] '' @ (case tg_location i of Some l \<Rightarrow> tg_message i @ '' ('' @ l @ '')'' | None \<Rightarrow> tg_message i))
              (re_facts r)
          @ spaced_lines ''Inferences:'' (\<lambda>i. ''  [inference] '' @ tg_message i) (re_inferences r)
          @ spaced_lines ''Risks:''
              (\<lambda>k. ''  ['' @ ri_severity k @ ''] ['' @ ri_basis k @ ''] '' @ dash (ri_category k) (ri_message k)
                 @ (if verbose then nl @ ''    action: '' @ ri_action k else [])) (re_risks r)
          @ spaced_lines ''Smoke scenarios to run:''
              (\<lambda>s. ''  ['' @ sr_priority s @ ''] raccoon-cli scenario-smoke '' @ sr_scenario s @ nl
                 @ ''       '' @ dash (sr_description s) (sr_why s)) (re_smoke r)
          @ ''Quality-gate: raccoon-cli quality-gate --profile '' @ ga_profile (re_gate r) @ nl
          @ ''  why: '' @ ga_why (re_gate r) @ nl @ nl
          @ spaced_lines ''Priority test areas:''
              (\<lambda>a. ''  ['' @ status_icon (py_status a) @ ''] '' @ dash (py_area a) (py_description a)
                 @ (if py_status a \<noteq> ''covered'' then nl @ ''       '' @ py_suggestion a else [])) (re_areas r)
          @ spaced_lines ''Recommendations:''
              (\<lambda>a. ''  ['' @ ad_priority a @ ''] '' @ dash (ad_action a) (ad_why a)) (re_advice r)
          @ spaced_lines ''BEFORE (confirm baseline):'' (\<lambda>c. ''  $ '' @ c) (re_before r)
          @ spaced_lines ''AFTER (prove safety):'' (\<lambda>c. ''  $ '' @ c) (re_after r)
          @ ''Scope: '' @ re_scope_note r @ nl)"

end
