(* ===== verification/TddProps.thy ===== *)
theory TddProps
  imports Tdd
begin

text \<open>
  What the TDD guide guarantees: the areas it lists, the gaps it reports, and how scenarios, gate
  profile and commands depend on them.
\<close>

section \<open>Affected areas\<close>

lemma tdd_area_names: "distinct (map ta_name tdd_areas)"
  by (simp add: tdd_areas_def tdd_area_of_def)

lemma find_tdd_area: "a \<in> set tdd_areas \<Longrightarrow> find_tdd_area (ta_name a) = Some a"
  using tdd_area_names by (auto simp: find_tdd_area_def find_Some_iff in_set_conv_nth distinct_conv_nth)

lemma find_tdd_area_Some: "find_tdd_area n = Some a \<longleftrightarrow> a \<in> set tdd_areas \<and> ta_name a = n"
  using find_tdd_area by (auto simp: find_tdd_area_def find_Some_iff)

lemma fold_note_hit:
  "fold (\<lambda>x o'. Some (note_hit x o')) hs o1 = Some fs \<longleftrightarrow>
     (hs \<noteq> [] \<or> o1 \<noteq> None) \<and> fs = (case o1 of Some gs \<Rightarrow> gs | None \<Rightarrow> []) @ map snd hs"
  by (induction hs arbitrary: o1) (auto simp: note_hit_def)

lemma hits_of_file:
  "map snd (filter (\<lambda>h. fst h = ta_name a) (map (\<lambda>b. (ta_name b, file)) (filter (touches file) bs)))
   = (if a \<in> set bs \<and> touches file a then [file] else [])"
  if "distinct (map ta_name bs)" "a \<in> set bs" for bs
  using that
proof (induction bs)
  case (Cons b bs)
  show ?case
  proof (cases "b = a")
    case True
    then have "ta_name a \<notin> ta_name ` set bs" using Cons.prems by simp
    then have "filter (\<lambda>h. fst h = ta_name a) (map (\<lambda>b. (ta_name b, file)) (filter (touches file) bs)) = []"
      unfolding filter_empty_conv by (auto simp del: not_None_eq) (metis imageI)
    with True show ?thesis by simp
  next
    case False
    with Cons have "a \<in> set bs" "ta_name b \<noteq> ta_name a" by force+
    with Cons False show ?thesis by (cases "touches file a") simp_all
  qed
qed simp

lemma hits_of_area:
  assumes "a \<in> set tdd_areas"
  shows "map snd (filter (\<lambda>h. fst h = ta_name a) (area_hits edited)) = filter (\<lambda>f. touches f a) edited"
  using hits_of_file [OF tdd_area_names assms] assms
  by (induction edited) (simp_all add: area_hits_def)

lemma area_hits_names: "h \<in> set (area_hits edited) \<Longrightarrow> \<exists>a\<in>set tdd_areas. fst h = ta_name a"
  by (auto simp: area_hits_def)

lemma area_entries:
  "(n, fs) \<in> set (fold (\<lambda>h. bt_alter (fst h) (note_hit h)) (area_hits edited) []) \<longleftrightarrow>
     (\<exists>a\<in>set tdd_areas. n = ta_name a \<and> fs = filter (\<lambda>f. touches f a) edited \<and> fs \<noteq> [])"
proof -
  let ?hs = "filter (\<lambda>h. fst h = n) (area_hits edited)"
  have e: "(n, fs) \<in> set (fold (\<lambda>h. bt_alter (fst h) (note_hit h)) (area_hits edited) [])
      \<longleftrightarrow> ?hs \<noteq> [] \<and> fs = map snd ?hs"
    using btree.entries_fold [of n fs fst note_hit "area_hits edited"]
      fold_note_hit [of ?hs None fs] by simp
  show ?thesis
  proof
    assume "(n, fs) \<in> set (fold (\<lambda>h. bt_alter (fst h) (note_hit h)) (area_hits edited) [])"
    then have hs: "?hs \<noteq> []" "fs = map snd ?hs" using e by auto
    then obtain h where "h \<in> set (area_hits edited)" "fst h = n" by (auto simp: filter_empty_conv)
    then obtain a where a: "a \<in> set tdd_areas" "n = ta_name a" using area_hits_names by blast
    with hs hits_of_area [OF a(1)] show "\<exists>a\<in>set tdd_areas. n = ta_name a \<and> fs = filter (\<lambda>f. touches f a) edited \<and> fs \<noteq> []"
      by (metis map_is_Nil_conv)
  next
    assume "\<exists>a\<in>set tdd_areas. n = ta_name a \<and> fs = filter (\<lambda>f. touches f a) edited \<and> fs \<noteq> []"
    then obtain a where a: "a \<in> set tdd_areas" "n = ta_name a" "fs = filter (\<lambda>f. touches f a) edited" "fs \<noteq> []" by blast
    with hits_of_area [OF a(1), of edited] e
    show "(n, fs) \<in> set (fold (\<lambda>h. bt_alter (fst h) (note_hit h)) (area_hits edited) [])"
      by (metis map_is_Nil_conv)
  qed
qed

lemma listed_areas:
  "set (build_affected_areas edited) =
     {\<lparr>aa_name = ta_name a, aa_description = ta_description a, aa_files = filter (\<lambda>f. touches f a) edited\<rparr> | a.
        a \<in> set tdd_areas \<and> (\<exists>f\<in>set edited. touches f a)}"
proof -
  let ?m = "fold (\<lambda>h. bt_alter (fst h) (note_hit h)) (area_hits edited) []"
  let ?f = "\<lambda>(name, files).
         \<lparr>aa_name = name,
          aa_description = (case find_tdd_area name of Some d \<Rightarrow> ta_description d | None \<Rightarrow> []),
          aa_files = files\<rparr>"
  have "x \<in> set (build_affected_areas edited) \<longleftrightarrow> (\<exists>n fs. (n, fs) \<in> set ?m \<and> x = ?f (n, fs))" for x
    by (auto simp: build_affected_areas_def)
  then have m: "x \<in> set (build_affected_areas edited) \<longleftrightarrow>
      (\<exists>a\<in>set tdd_areas. filter (\<lambda>f. touches f a) edited \<noteq> []
         \<and> x = ?f (ta_name a, filter (\<lambda>f. touches f a) edited))" for x
    unfolding area_entries by blast
  have "x \<in> set (build_affected_areas edited) \<longleftrightarrow>
      (\<exists>a\<in>set tdd_areas. (\<exists>f\<in>set edited. touches f a)
         \<and> x = \<lparr>aa_name = ta_name a, aa_description = ta_description a,
                aa_files = filter (\<lambda>f. touches f a) edited\<rparr>)" for x
    unfolding m by (intro bex_cong refl) (auto simp: find_tdd_area filter_empty_conv)
  then show ?thesis by blast
qed

lemma listed_areas_sorted: "sorted_wrt (<) (map aa_name (build_affected_areas edited))"
proof -
  have "map aa_name (build_affected_areas edited)
      = map fst (fold (\<lambda>h. bt_alter (fst h) (note_hit h)) (area_hits edited) [])"
    by (simp add: build_affected_areas_def comp_def case_prod_beta)
  then show ?thesis using btree.entries_fold_sorted [of fst note_hit "area_hits edited"] by simp
qed

text \<open>
  C26 (areas touched). The guide lists, in the order of their names, the areas of the table that
  some changed file touches, each with its description and with the changed files that touch it, in
  the order given.
\<close>

theorem affected_areas_exact:
  "set (build_affected_areas edited) =
     {\<lparr>aa_name = ta_name a, aa_description = ta_description a, aa_files = filter (\<lambda>f. touches f a) edited\<rparr> | a.
        a \<in> set tdd_areas \<and> (\<exists>f\<in>set edited. touches f a)}
   \<and> sorted_wrt (<) (map aa_name (build_affected_areas edited))"
  using listed_areas listed_areas_sorted by (rule conjI)

section \<open>The area of a path\<close>

lemma contains_mono: "contains p q \<Longrightarrow> contains s p \<Longrightarrow> contains s q"
  unfolding contains_iff by (metis append.assoc)

text \<open>
  Property (specific areas are shadowed). The area given to a test file is the first that matches, and
  the areas of actors and application come before the areas of the validator, the consumer and the
  configuration life cycle, whose patterns lie below theirs: no path is ever given one of these three.
\<close>

theorem specific_areas_shadowed:
  "area_for_path path \<notin> {''validator-logic'', ''consumer-pipeline'', ''config-lifecycle''}"
proof -
  have below: "contains ''internal/actors/scopes/validator/'' ''internal/actors/''"
    "contains ''internal/application/validatorresults/'' ''internal/application/''"
    "contains ''internal/actors/scopes/consumer/'' ''internal/actors/''"
    "contains ''internal/application/dataplane/'' ''internal/application/''"
    "contains ''internal/actors/scopes/configctl/'' ''internal/actors/''"
    "contains ''internal/application/configctl/'' ''internal/application/''"
    by code_simp+
  show ?thesis
  proof (cases "contains path ''internal/actors/'' \<or> contains path ''internal/application/''")
    case True
    then show ?thesis
      by (auto simp: area_for_path_def tdd_areas_def tdd_area_of_def touches_def)
  next
    case False
    with below contains_mono have "\<not> contains path ''internal/actors/scopes/validator/''"
      "\<not> contains path ''internal/application/validatorresults/''" "\<not> contains path ''internal/actors/scopes/consumer/''"
      "\<not> contains path ''internal/application/dataplane/''" "\<not> contains path ''internal/actors/scopes/configctl/''"
      "\<not> contains path ''internal/application/configctl/''"
      by blast+
    with False show ?thesis
      by (simp add: area_for_path_def tdd_areas_def tdd_area_of_def touches_def)
  qed
qed

section \<open>Gaps\<close>

definition tested :: "nearby_test list \<Rightarrow> fs_node \<Rightarrow> tdd_area \<Rightarrow> bool" where
  "tested tests root a \<longleftrightarrow> list_ex (\<lambda>t. nt_for_area t = ta_name a) tests \<or> tests_on_disk root a"

lemma gap_none:
  assumes "a \<in> set tdd_areas" "aa_name area = ta_name a"
  shows "gap_of tests root area = None \<longleftrightarrow> tested tests root a \<and> ta_scenarios a \<noteq> []"
  using find_tdd_area [OF assms(1)] assms(2) by (auto simp: gap_of_def Let_def tested_def)

text \<open>
  Property (gaps are what is missing). For an area of the table there is no gap exactly when it has
  tests and a scenario; otherwise the gap says which of the two exist.
\<close>

theorem gap_exact:
  assumes "a \<in> set tdd_areas" "aa_name area = ta_name a"
  shows "case gap_of tests root area of
       None \<Rightarrow> tested tests root a \<and> ta_scenarios a \<noteq> []
     | Some g \<Rightarrow> cg_area g = aa_name area \<and> \<not> (cg_has_go_tests g \<and> cg_has_scenario g)
         \<and> (cg_has_go_tests g \<longleftrightarrow> tested tests root a) \<and> (cg_has_scenario g \<longleftrightarrow> ta_scenarios a \<noteq> [])"
  using find_tdd_area [OF assms(1)] assms(2)
  by (simp add: gap_of_def Let_def tested_def)

theorem gap_exact_witness:
  "case gap_of [] (FDir []) \<lparr>aa_name = ''compose'', aa_description = [], aa_files = []\<rparr> of
       None \<Rightarrow> tested [] (FDir []) (tdd_areas ! 1) \<and> ta_scenarios (tdd_areas ! 1) \<noteq> []
     | Some g \<Rightarrow> cg_area g = aa_name \<lparr>aa_name = ''compose'', aa_description = [], aa_files = []\<rparr>
         \<and> \<not> (cg_has_go_tests g \<and> cg_has_scenario g)
         \<and> (cg_has_go_tests g \<longleftrightarrow> tested [] (FDir []) (tdd_areas ! 1))
         \<and> (cg_has_scenario g \<longleftrightarrow> ta_scenarios (tdd_areas ! 1) \<noteq> [])"
  by (rule gap_exact) (simp_all add: tdd_areas_def tdd_area_of_def)

section \<open>Scenarios, profile and commands\<close>

lemma tdd_scenario_names:
  "set (map sc_name (fst (recommend_scenarios areas))) = set (concat (map scenarios_of_area areas))"
  "snd (recommend_scenarios areas) \<longleftrightarrow> fst (recommend_scenarios areas) \<noteq> []"
  by (simp_all add: recommend_scenarios_def Let_def comp_def)

lemma commands_after:
  "set (build_after_commands areas scenarios) = insert ''make verify'' (set (build_before_commands areas scenarios))"
  by (auto simp: build_after_commands_def build_before_commands_def sort_dedup_def)

lemma infra_iff_scenarios: "td_needs_infra (tdd_analyze root edited) \<longleftrightarrow> td_scenarios (tdd_analyze root edited) \<noteq> []"
  using tdd_scenario_names(2) [of "build_affected_areas edited"]
  by (simp add: tdd_analyze_def empty_tdd_report_def Let_def case_prod_beta)

text \<open>
  C27 (what follows from the areas). The deep profile is recommended exactly when a scenario is,
  and every recommended scenario is run before and after the change; the commands after the change are
  those before it and \<open>make verify\<close>.
\<close>

theorem guide_follows_areas:
  "let r = tdd_analyze root edited in
     (td_profile r = ''deep'' \<longleftrightarrow> td_scenarios r \<noteq> []) \<and> (td_needs_infra r \<longleftrightarrow> td_scenarios r \<noteq> [])
     \<and> (\<forall>s\<in>set (td_scenarios r). scenario_command s \<in> set (td_before r) \<and> scenario_command s \<in> set (td_after r))
     \<and> set (td_after r) = insert ''make verify'' (set (td_before r))"
proof (cases "edited = []")
  case True
  then show ?thesis by (simp add: tdd_analyze_def empty_tdd_report_def)
next
  case False
  obtain ss n where s: "recommend_scenarios (build_affected_areas edited) = (ss, n)" by fastforce
  have "n \<longleftrightarrow> ss \<noteq> []" using tdd_scenario_names(2) [of "build_affected_areas edited"] by (simp add: s)
  moreover have "scenario_command x \<in> set (build_before_commands areas ss)" if "x \<in> set ss" for x areas
    using that by (auto simp: build_before_commands_def sort_dedup_def)
  ultimately show ?thesis
    using False by (simp add: tdd_analyze_def s Let_def commands_after recommend_gate_profile_def)
qed

theorem guide_follows_areas_witness:
  "let r = tdd_analyze (FDir []) [''deploy/compose/docker-compose.yaml''] in
     (td_profile r = ''deep'' \<longleftrightarrow> td_scenarios r \<noteq> []) \<and> (td_needs_infra r \<longleftrightarrow> td_scenarios r \<noteq> [])
     \<and> (\<forall>s\<in>set (td_scenarios r). scenario_command s \<in> set (td_before r) \<and> scenario_command s \<in> set (td_after r))
     \<and> set (td_after r) = insert ''make verify'' (set (td_before r))"
  by (rule guide_follows_areas)

end
