(* ===== verification/RecommendProps.thy ===== *)
theory RecommendProps
  imports Recommend TddProps FirstOfKey
begin

text \<open>
  What the recommendations guarantee: which scenarios are listed, which gate profile is advised, and
  what a priority area says of its coverage.
\<close>

section \<open>Scenarios\<close>

interpretation smokes: first_of_key sr_scenario push_smoke
  by unfold_locales (simp add: push_smoke_def)

definition drift_asks :: "(drift_context \<Rightarrow> bool) \<Rightarrow> drift_context option \<Rightarrow> bool" where
  "drift_asks P drift = (case drift of Some d \<Rightarrow> P d | None \<Rightarrow> False)"

definition scenario_names :: "tdd_report \<Rightarrow> drift_context option \<Rightarrow> string \<Rightarrow> string set" where
  "scenario_names tdd drift scope =
     sc_name ` set (td_scenarios tdd)
     \<union> (if drift_asks has_contract_drift drift \<or> scope = ''large'' then {''happy-path''} else {})
     \<union> (if drift_asks has_breaking_changes drift then {''invalid-payload''} else {})
     \<union> (if drift_asks has_critical drift \<or> scope = ''large'' then {''readiness-probe''} else {})"

lemma smoke_simps [simp]: "sr_scenario (smoke n d w p) = n" "sr_priority (smoke n d w p) = p"
  by (simp_all add: smoke_def)

lemma candidate_names: "sr_scenario ` set (smoke_candidates tdd drift scope) = scenario_names tdd drift scope"
proof -
  have names: "sr_scenario ` set (map (\<lambda>s. smoke (sc_name s) (sc_description s) (sc_why s) ''high'') ss) = sc_name ` set ss" for ss
    by (simp add: image_image)
  show ?thesis
  proof (cases drift)
    case None
    then show ?thesis
      unfolding smoke_candidates_def scenario_names_def drift_asks_def set_append image_Un names
      by (cases "scope = ''large''") (simp_all add: insert_commute)
  next
    case (Some d)
    show ?thesis
      unfolding smoke_candidates_def scenario_names_def drift_asks_def set_append image_Un names Some option.case
      by (cases "has_contract_drift d"; cases "has_breaking_changes d"; cases "has_critical d"; cases "scope = ''large''")
         (simp_all add: insert_commute)
  qed
qed

lemma scenarios_listed:
  "sr_scenario ` set (smoke_scenarios tdd drift scope) = scenario_names tdd drift scope"
  unfolding smoke_scenarios_def smokes.keys candidate_names by simp

text \<open>
  Property (scenarios once). The scenarios to run are those of the guide, the full path for contract
  drift or a large change, the payload check for breaking changes and the readiness probe for critical
  drift or a large change; each is listed once.
\<close>

theorem scenarios_once:
  "set (map sr_scenario (smoke_scenarios tdd drift scope)) = scenario_names tdd drift scope
   \<and> distinct (map sr_scenario (smoke_scenarios tdd drift scope))"
  using scenarios_listed smokes.distinct [of "[]"] by (simp add: smoke_scenarios_def)

section \<open>The gate profile\<close>

text \<open>
  Property (gate profile). The deep profile is advised exactly when the areas need the cluster, the
  baseline has critical drift, or a scenario is listed for a change that is neither large nor across
  layers; of the others, large changes and changes across layers are given the profile \<open>ci\<close>.
\<close>

theorem gate_profile_exact:
  "let p = ga_profile (determine_gate_profile tdd drift scope scenarios);
       wide = (scope = ''large'' \<or> scope = ''cross-layer'');
       live = (td_needs_infra tdd \<or> drift_asks has_critical drift)
   in (p = ''deep'' \<longleftrightarrow> live \<or> \<not> wide \<and> scenarios \<noteq> [])
      \<and> (p = ''ci'' \<longleftrightarrow> \<not> live \<and> wide) \<and> (p = ''fast'' \<longleftrightarrow> \<not> live \<and> \<not> wide \<and> scenarios = [])"
  by (auto simp: determine_gate_profile_def drift_asks_def Let_def)

theorem gate_profile_exact_witness:
  "let p = ga_profile (determine_gate_profile empty_tdd_report None ''localized'' []);
       wide = (''localized'' = ''large'' \<or> ''localized'' = ''cross-layer'');
       live = (td_needs_infra empty_tdd_report \<or> drift_asks has_critical None)
   in (p = ''deep'' \<longleftrightarrow> live \<or> \<not> wide \<and> ([] :: smoke_advice list) \<noteq> [])
      \<and> (p = ''ci'' \<longleftrightarrow> \<not> live \<and> wide) \<and> (p = ''fast'' \<longleftrightarrow> \<not> live \<and> \<not> wide \<and> ([] :: smoke_advice list) = [])"
  by (rule gate_profile_exact)

text \<open>
  Property (large changes). For a large change that touches no area with a scenario, the full path and
  the readiness probe are recommended, yet the gate profile advised is \<open>ci\<close>, which runs neither.
\<close>

theorem large_change_scenarios_not_run:
  assumes "classify_change_scope edited = ''large''"
    and "td_scenarios (tdd_analyze root edited) = []"
  shows "{''happy-path'', ''readiness-probe''} = set (map sr_scenario (re_smoke (recommend_analyze root edited)))
    \<and> ga_profile (re_gate (recommend_analyze root edited)) = ''ci''"
proof -
  have ne: "edited \<noteq> []" using assms(1) by (auto simp: classify_change_scope_def)
  have infra: "\<not> td_needs_infra (tdd_analyze root edited)"
    using assms(2) by (simp add: infra_iff_scenarios)
  show ?thesis
    using ne infra assms scenarios_listed [of "tdd_analyze root edited" None "''large''"]
    by (simp add: recommend_analyze_def recommend_build_report_def Let_def scenario_names_def drift_asks_def
        determine_gate_profile_def insert_commute)
qed

definition wide_change :: "string list" where
  "wide_change = [''internal/domain/a.go'', ''internal/application/b.go'', ''tools/c'', ''README.md'']"

theorem large_change_scenarios_not_run_witness:
  "{''happy-path'', ''readiness-probe''}
     = set (map sr_scenario (re_smoke (recommend_analyze (FDir []) wide_change)))
   \<and> ga_profile (re_gate (recommend_analyze (FDir []) wide_change)) = ''ci''"
proof (rule large_change_scenarios_not_run)
  show "classify_change_scope wide_change = ''large''" by code_simp
  have "fst (recommend_scenarios (build_affected_areas wide_change)) = []" by code_simp
  then show "td_scenarios (tdd_analyze (FDir []) wide_change) = []"
    by (simp add: tdd_analyze_def case_prod_beta Let_def wide_change_def)
qed

section \<open>Priority areas\<close>

lemma gap_area: "gap_of tests root area = Some g \<Longrightarrow> cg_area g = aa_name area"
  by (auto simp: gap_of_def Let_def split: option.splits if_splits)

lemma no_gap:
  assumes "area \<in> set areas" "find (\<lambda>g. cg_area g = aa_name area) (find_coverage_gaps areas tests root) = None"
  shows "gap_of tests root area = None"
proof (rule ccontr)
  assume "gap_of tests root area \<noteq> None"
  then obtain g where g: "gap_of tests root area = Some g" by blast
  then have "g \<in> set (find_coverage_gaps areas tests root)"
    using assms(1) by (auto simp: find_coverage_gaps_def map_filter_mem)
  with assms(2) gap_area [OF g] show False by (auto simp: find_None_iff)
qed

text \<open>
  Property (covered areas deny their scenario). A priority area without a gap has a scenario in the
  table, but the report says that it has none.
\<close>

theorem covered_area_denies_scenario:
  assumes "p \<in> set (re_areas (recommend_analyze root edited))" and "py_status p \<in> {''covered'', ''unknown''}"
  shows "\<not> py_has_scenario p \<and> (\<exists>a. find_tdd_area (py_area p) = Some a \<and> ta_scenarios a \<noteq> [])"
proof -
  let ?r = "tdd_analyze root edited" and ?areas = "build_affected_areas edited"
  have ne: "edited \<noteq> []" using assms(1) by (auto simp: recommend_analyze_def empty_recommend_report_def)
  then have r: "td_areas ?r = ?areas" "td_gaps ?r = find_coverage_gaps ?areas (td_tests ?r) root"
    by (simp_all add: tdd_analyze_def case_prod_beta Let_def)
  obtain area where area: "area \<in> set ?areas" "p = priority_area_of ?r area"
    using assms(1) ne r(1)
    by (auto simp: recommend_analyze_def recommend_build_report_def build_priority_areas_def Let_def)
  have name: "py_area p = aa_name area" by (simp add: area(2) priority_area_of_def Let_def case_prod_beta)
  have none: "find (\<lambda>g. cg_area g = aa_name area) (td_gaps ?r) = None"
    using assms(2) area(2)
    by (cases "find (\<lambda>g. cg_area g = aa_name area) (td_gaps ?r)")
       (auto simp: priority_area_of_def Let_def case_prod_beta split: if_splits)
  then have "gap_of (td_tests ?r) root area = None" using no_gap [OF area(1)] r(2) by simp
  moreover obtain a where a: "a \<in> set tdd_areas" "aa_name area = ta_name a"
    using area(1) listed_areas [of edited] by force
  ultimately have "ta_scenarios a \<noteq> []" using gap_none [OF a] by blast
  then show ?thesis
    using none find_tdd_area [OF a(1)] by (simp add: name a(2) area(2) priority_area_of_def Let_def case_prod_beta)
qed

end
