(* ===== verification/Briefing.thy ===== *)
theory Briefing
  imports SymbolTrace Tdd ArchGuard ContractChecks
begin

text \<open>
  The briefing (\<open>analyzers/briefing.rs\<close>): the impact map, the TDD guide, the findings of the
  architecture guard and the contract audit, and the traces of symbol targets, combined into lists of
  facts, inferences and recommendations. The JSON rendering is \<open>serde_json\<close>. A target is a symbol when
  its first letter is upper case; the model decides that for ASCII letters.
\<close>

section \<open>The report\<close>

record briefing_item =
  bf_category :: string
  bf_message :: string
  bf_location :: "string option"

record briefing_report =
  br_targets :: "string list"
  br_facts :: "briefing_item list"
  br_inferences :: "briefing_item list"
  br_recommendations :: "briefing_item list"
  br_checks :: "string list"
  br_areas :: "string list"
  br_scope_note :: string
  br_lsp_note :: "string option"

definition item :: "string \<Rightarrow> string \<Rightarrow> briefing_item" where
  "item category message = \<lparr>bf_category = category, bf_message = message, bf_location = None\<rparr>"

definition item_at :: "string \<Rightarrow> string \<Rightarrow> string \<Rightarrow> briefing_item" where
  "item_at category message loc = \<lparr>bf_category = category, bf_message = message, bf_location = Some loc\<rparr>"

definition empty_briefing :: briefing_report where
  "empty_briefing =
     \<lparr>br_targets = [], br_facts = [], br_inferences = [],
      br_recommendations = [item ''usage'' ''Provide targets: file paths, package dirs, or symbol names.''],
      br_checks = [], br_areas = [], br_scope_note = ''No targets provided.'', br_lsp_note = None\<rparr>"

section \<open>Items of the impact map\<close>

definition first_five :: "('a \<Rightarrow> string) \<Rightarrow> 'a list \<Rightarrow> string" where
  "first_five f xs =
     join '', '' (map f (take 5 xs))
     @ (if 5 < length xs then '' (+'' @ show_nat (length xs - 5) @ '' more)'' else [])"

definition briefing_facts :: "target_impact \<Rightarrow> briefing_item list" where
  "briefing_facts i =
     (case ti_resolved_package i of
        Some pkg \<Rightarrow> [item ''scope'' (ti_target i @ '' resolves to package '' @ pkg)]
      | None \<Rightarrow> [])
     @ (if ti_exported_symbols i = [] then []
        else [item ''symbols'' (ti_target i @ '' exports: '' @ first_five xs_name (ti_exported_symbols i))])
     @ (if ti_direct_dependents i = [] then []
        else [item ''dependents''
                (ti_target i @ '' has '' @ show_nat (length (ti_direct_dependents i)) @ '' direct dependents: ''
                 @ first_five dp_package_dir (ti_direct_dependents i))])
     @ map (\<lambda>c. item_at ''contracts'' (dash (ci_name c @ '' ['' @ ci_kind c @ '']'') (ci_why c)) (ci_location c))
         (ti_contract_surface i)"

definition briefing_inferences :: "target_impact \<Rightarrow> briefing_item list" where
  "briefing_inferences i =
     map (\<lambda>a. item ''sensitive-area'' (dash (am_name a) (am_description a))) (ti_sensitive_areas i)
     @ map (\<lambda>r. item ''risk'' (''['' @ rk_basis r @ ''] '' @ rk_description r)) (ti_risks i)"

section \<open>Findings of the other analysers\<close>

definition finding_item :: "string \<Rightarrow> finding \<Rightarrow> briefing_item" where
  "finding_item category f =
     \<lparr>bf_category = category, bf_message = fd_check f @ '': '' @ fd_message f, bf_location = fd_location f\<rparr>"

definition affected_packages :: "impact_report \<Rightarrow> string list" where
  "affected_packages r = List.map_filter ti_resolved_package (ir_impacts r)"

definition in_scope :: "string list \<Rightarrow> finding \<Rightarrow> bool" where
  "in_scope packages f =
     (let loc = (case fd_location f of Some l \<Rightarrow> l | None \<Rightarrow> []) in list_ex (contains loc) packages)"

definition collect_arch_findings :: "cli_error + report \<Rightarrow> impact_report \<Rightarrow> briefing_item list" where
  "collect_arch_findings guard impact =
     (let packages = affected_packages impact in
      if packages = [] then []
      else
        (case guard of
           Inr r \<Rightarrow>
             map (finding_item ''arch-violation'')
               (filter (\<lambda>f. fd_severity f = Error \<and> in_scope packages f) (concat (map ck_findings (rp_checks r))))
         | Inl _ \<Rightarrow> []))"

definition collect_contract_findings :: "cli_error + report \<Rightarrow> impact_report \<Rightarrow> briefing_item list" where
  "collect_contract_findings audit impact =
     (if \<not> list_ex (\<lambda>i. ti_contract_surface i \<noteq> []) (ir_impacts impact) then []
      else
        (case audit of
           Inr r \<Rightarrow>
             map (finding_item ''contract-issue'')
               (filter (\<lambda>f. fd_severity f = Error)
                 (concat (map ck_findings (filter (\<lambda>c. ck_status c = CheckFail) (rp_checks r)))))
         | Inl _ \<Rightarrow> []))"

section \<open>Symbols\<close>

definition looks_like_symbol :: "string \<Rightarrow> bool" where
  "looks_like_symbol target =
     (\<not> contains target ''/'' \<and> \<not> contains target ''.'' \<and> target \<noteq> [] \<and> ascii_upper (hd target))"

definition trace_items :: "string \<Rightarrow> trace_report \<Rightarrow> briefing_item list" where
  "trace_items target r =
     (if sx_status r = SymbolNotFound then []
      else
        map (\<lambda>d. item_at ''symbol-definition''
            (target @ '' defined as '' @ df_kind d @ '' ['' @ df_name d @ ''] ('' @ df_visibility d @ '')'')
            (at_place (df_file d) (df_line d))) (sx_definitions r)
        @ map (\<lambda>c. item_at ''symbol-contract'' (cv_kind c @ '': '' @ cv_why c) (at_place (cv_file c) (cv_line c)))
            (sx_contracts r))"

definition collect_symbol_summaries :: "fs_node \<Rightarrow> string list \<Rightarrow> briefing_item list" where
  "collect_symbol_summaries root targets =
     concat (map (\<lambda>t. trace_items t (symbol_trace root t)) (filter looks_like_symbol targets))"

definition trace_items_lsp :: "string \<Rightarrow> trace_report \<Rightarrow> briefing_item list" where
  "trace_items_lsp target r =
     trace_items target r
     @ (if sx_status r = SymbolNotFound then []
        else
          (case sx_lsp r of
             Some l \<Rightarrow>
               (if tl_references l = [] then []
                else [item ''symbol-refs''
                        (target @ '' has '' @ show_nat (length (tl_references l)) @ '' cross-package references [lsp]'')])
           | None \<Rightarrow> []))"

fun collect_symbol_summaries_with_lsp :: "(string \<Rightarrow> bridge \<Rightarrow> (trace_report \<times> bridge) option) \<Rightarrow> string list
                                          \<Rightarrow> bridge \<Rightarrow> (briefing_item list \<times> bridge) option" where
  "collect_symbol_summaries_with_lsp trace [] b = Some ([], b)"
| "collect_symbol_summaries_with_lsp trace (t # ts) b =
     (if \<not> looks_like_symbol t then collect_symbol_summaries_with_lsp trace ts b
      else
        (case trace t b of
           None \<Rightarrow> None
         | Some (r, b') \<Rightarrow>
             map_option (\<lambda>(is, b''). (trace_items_lsp t r @ is, b'')) (collect_symbol_summaries_with_lsp trace ts b')))"

section \<open>The briefing\<close>

definition item_key :: "briefing_item \<Rightarrow> string" where
  "item_key i = bf_category i @ '':'' @ bf_message i"

definition push_item :: "briefing_item \<Rightarrow> briefing_item list \<Rightarrow> briefing_item list" where
  "push_item i is = (if item_key i \<in> item_key ` set is then is else is @ [i])"

definition dedup_items :: "briefing_item list \<Rightarrow> briefing_item list" where
  "dedup_items is = fold push_item is []"

definition tdd_recommendations :: "tdd_report \<Rightarrow> briefing_item list" where
  "tdd_recommendations t =
     map (\<lambda>s. item ''scenario'' (dash (sc_name s) (sc_why s))) (td_scenarios t)
     @ map (\<lambda>g. item ''coverage-gap'' (cg_description g)) (td_gaps t)
     @ map (item ''before-change'') (td_before t)
     @ map (item ''after-change'') (td_after t)
     @ (if td_profile t \<noteq> ''fast''
        then [item ''quality-gate'' (''Use profile '' @ quote1 (td_profile t) @ '' (elevated due to scope)'')]
        else [])"

definition is_tool_command :: "string \<Rightarrow> bool" where
  "is_tool_command c = (starts_with c ''raccoon-cli'' \<or> starts_with c ''make'')"

definition briefing_checks :: "impact_report \<Rightarrow> tdd_report \<Rightarrow> string list" where
  "briefing_checks impact t =
     sort_dedup (ir_recommended_commands impact @ filter is_tool_command (td_before t)
       @ filter is_tool_command (td_after t))"

definition build_briefing :: "string list \<Rightarrow> impact_report \<Rightarrow> tdd_report \<Rightarrow> briefing_item list \<Rightarrow> briefing_item list
                              \<Rightarrow> briefing_item list \<Rightarrow> string option \<Rightarrow> briefing_report" where
  "build_briefing targets impact t arch contract symbols lsp_note =
     \<lparr>br_targets = targets,
      br_facts = dedup_items (concat (map briefing_facts (ir_impacts impact)) @ symbols @ arch @ contract),
      br_inferences = dedup_items (concat (map briefing_inferences (ir_impacts impact))),
      br_recommendations = dedup_items (tdd_recommendations t),
      br_checks = briefing_checks impact t, br_areas = ir_sensitive_areas impact,
      br_scope_note = ''Briefing from static analysis (AST + file patterns). ''
        @ (if lsp_note \<noteq> None then ''LSP enrichment active'' else ''No LSP enrichment'')
        @ ''. No call graph, type resolution, or runtime tracing unless --lsp is used.'',
      br_lsp_note = lsp_note\<rparr>"

text \<open>\<open>h\<close> and \<open>io_error\<close> are the parameters of the two analysers: the iteration order of a hash set and the text of errors.\<close>

definition briefing_analyze :: "(string list \<Rightarrow> string list) \<Rightarrow> (path \<Rightarrow> string) \<Rightarrow> fs_node \<Rightarrow> string list \<Rightarrow> briefing_report" where
  "briefing_analyze h io_error root targets =
     (if targets = [] then empty_briefing
      else
        (let impact = impact_analyze root targets in
         build_briefing targets impact (tdd_analyze root targets)
           (collect_arch_findings (arch_guard_analyze h root) impact)
           (collect_contract_findings (contracts_analyze io_error root) impact)
           (collect_symbol_summaries root targets) None))"

definition briefing_with_lsp :: "'j json_api \<Rightarrow> (string \<Rightarrow> string) \<Rightarrow> (string list \<Rightarrow> string list) \<Rightarrow> (path \<Rightarrow> string) \<Rightarrow> fs_node
                                 \<Rightarrow> string list \<Rightarrow> bridge \<Rightarrow> (briefing_report \<times> bridge) option" where
  "briefing_with_lsp api join_root h io_error root targets b =
     (if targets = [] then Some (empty_briefing, b)
      else
        (case impact_with_lsp api join_root root targets b of
           None \<Rightarrow> None
         | Some (impact, b') \<Rightarrow>
             map_option (\<lambda>(symbols, b'').
                 (build_briefing targets impact (tdd_analyze root targets)
                    (collect_arch_findings (arch_guard_analyze h root) impact)
                    (collect_contract_findings (contracts_analyze io_error root) impact)
                    symbols
                    (if ir_lsp impact \<noteq> None
                     then Some (dash ''LSP enrichment active'' ''references include function body call sites'') else None),
                  b''))
               (collect_symbol_summaries_with_lsp (trace_with_lsp api join_root root) targets b')))"

section \<open>Rendering\<close>

definition render_items :: "string \<Rightarrow> nat option \<Rightarrow> (briefing_item \<Rightarrow> string) \<Rightarrow> briefing_item list \<Rightarrow> string" where
  "render_items title limit f is =
     (if is = [] then []
      else title @ nl @ lines_of f (case limit of Some n \<Rightarrow> take n is | None \<Rightarrow> is)
        @ (case limit of
             Some n \<Rightarrow>
               (if n < length is then ''  ... +'' @ show_nat (length is - n) @ '' more (use --verbose)'' @ nl else [])
           | None \<Rightarrow> []) @ nl)"

definition with_place :: "string \<Rightarrow> briefing_item \<Rightarrow> string" where
  "with_place tag i =
     ''  ['' @ tag @ '']['' @ bf_category i @ ''] '' @ bf_message i
     @ (case bf_location i of Some l \<Rightarrow> '' ('' @ l @ '')'' | None \<Rightarrow> [])"

definition render_briefing :: "briefing_report \<Rightarrow> bool \<Rightarrow> string" where
  "render_briefing r verbose =
     ''=== Briefing ==='' @ nl @ nl
     @ (if br_targets r = [] then
          ''No targets provided.'' @ nl @ nl @ ''Usage: raccoon-cli briefing <target> [target2] ...'' @ nl
          @ ''  Targets: file paths, package dirs, or symbol names (PascalCase).'' @ nl @ nl
        else
          ''Targets: '' @ join '', '' (br_targets r) @ nl @ nl
          @ render_items ''Facts:'' (if verbose then None else Some 15) (with_place ''fact'') (br_facts r)
          @ render_items ''Inferences:'' (if verbose then None else Some 10)
              (\<lambda>i. ''  [inferred]['' @ bf_category i @ ''] '' @ bf_message i) (br_inferences r)
          @ render_items ''Recommendations:'' None (with_place ''recommendation'') (br_recommendations r)
          @ (if br_areas r = [] then [] else ''Sensitive areas: '' @ join '', '' (br_areas r) @ nl @ nl)
          @ spaced_lines ''Checks to run:'' (\<lambda>c. ''  '' @ c) (br_checks r)
          @ (case br_lsp_note r of Some note \<Rightarrow> ''LSP: '' @ note @ nl @ nl | None \<Rightarrow> [])
          @ ''Scope: '' @ br_scope_note r @ nl)"

end
