(* ===== verification/BriefingProps.thy ===== *)
theory BriefingProps
  imports Briefing FirstOfKey
begin

text \<open>
  What the briefing guarantees: which items its lists keep, which findings of the architecture guard
  it repeats, and that without gopls the briefing with enrichment is the plain one.
\<close>

section \<open>Items kept\<close>

interpretation items: first_of_key item_key push_item
  by unfold_locales (simp add: push_item_def)

lemma dedup_distinct: "distinct (map item_key (dedup_items is))"
  unfolding dedup_items_def by (rule items.distinct) simp

text \<open>
  Property (one place for each message). Each list of a briefing keeps, of the items with one category
  and message, exactly the first: whatever the places of the others, they are dropped.
\<close>

theorem briefing_keeps_first:
  "set (dedup_items is) = {i. \<exists>pre post. is = pre @ i # post \<and> item_key i \<notin> item_key ` set pre}
   \<and> distinct (map item_key (dedup_items is))"
  using items.kept [of "is"] dedup_distinct by (simp add: dedup_items_def)

text \<open>
  Property (violations in scope). The briefing lists the message of an error of the architecture guard
  exactly when an error with that check and message lies at a place that contains the path of a package
  of the targets.
\<close>

theorem arch_violations_in_scope:
  "(\<exists>i\<in>set (dedup_items (collect_arch_findings (Inr r) impact)). bf_message i = m) \<longleftrightarrow>
     (\<exists>c\<in>set (rp_checks r). \<exists>f\<in>set (ck_findings c). fd_severity f = Error \<and> m = fd_check f @ '': '' @ fd_message f
        \<and> (\<exists>t\<in>set (ir_impacts impact). \<exists>pkg. ti_resolved_package t = Some pkg
             \<and> contains (case fd_location f of Some l \<Rightarrow> l | None \<Rightarrow> []) pkg))"
proof -
  let ?is = "collect_arch_findings (Inr r) impact"
  have cat: "bf_category i = ''arch-violation''" if "i \<in> set ?is" for i
    using that by (auto simp: collect_arch_findings_def Let_def finding_item_def split: if_splits)
  have keys: "item_key ` set (dedup_items ?is) = item_key ` set ?is"
    unfolding dedup_items_def items.keys by simp
  have sub: "set (dedup_items ?is) \<subseteq> set ?is"
    unfolding dedup_items_def using items.members [of ?is "[]"] by simp
  have "(\<exists>i\<in>set (dedup_items ?is). bf_message i = m) \<longleftrightarrow> ''arch-violation'' @ '':'' @ m \<in> item_key ` set (dedup_items ?is)"
    using sub cat by (force simp: item_key_def image_iff)
  also have "\<dots> \<longleftrightarrow> (\<exists>i\<in>set ?is. bf_message i = m)"
    unfolding keys using cat by (force simp: item_key_def image_iff)
  also have "\<dots> \<longleftrightarrow> (\<exists>f\<in>set (concat (map ck_findings (rp_checks r))). fd_severity f = Error
      \<and> in_scope (affected_packages impact) f \<and> m = fd_check f @ '': '' @ fd_message f)"
    by (cases "affected_packages impact = []")
       (auto simp: collect_arch_findings_def Let_def finding_item_def in_scope_def)
  also have "\<dots> \<longleftrightarrow> (\<exists>c\<in>set (rp_checks r). \<exists>f\<in>set (ck_findings c). fd_severity f = Error
      \<and> m = fd_check f @ '': '' @ fd_message f \<and> in_scope (affected_packages impact) f)"
    by auto
  finally show ?thesis
    by (simp add: in_scope_def Let_def list_ex_iff affected_packages_def map_filter_mem Bex_def) blast
qed

section \<open>Without gopls\<close>

lemma query_all_unavailable:
  "lw_bridge w = bridge_unavailable reason \<Longrightarrow>
     \<exists>w'. query_all (enrich_symbol_with_index api join_root ix) ns w = Some w' \<and> lw_bridge w' = bridge_unavailable reason"
proof (induction ns arbitrary: w)
  case (Cons n ns)
  have "\<exists>w1. query_symbol (enrich_symbol_with_index api join_root ix) n w = Some w1
      \<and> lw_bridge w1 = bridge_unavailable reason"
    using Cons.prems by (simp add: query_symbol_def enrich_unavailable)
  then obtain w1 where "query_symbol (enrich_symbol_with_index api join_root ix) n w = Some w1"
    and "lw_bridge w1 = bridge_unavailable reason" by blast
  with Cons.IH [of w1] show ?case by simp
qed simp

lemma impact_unavailable:
  "\<exists>l note. impact_with_lsp api join_root root targets (bridge_unavailable reason)
     = Some ((impact_analyze root targets)\<lparr>ir_lsp := Some l, ir_scope_note := note\<rparr>, bridge_unavailable reason)"
proof -
  let ?w = "\<lparr>lw_queried = [], lw_refs = [], lw_status = initial_status (bridge_unavailable reason),
             lw_bridge = bridge_unavailable reason\<rparr>"
  obtain w where "query_all (enrich_symbol_with_index api join_root (build_index root))
      (symbols_to_query (impact_analyze root targets)) ?w = Some w" and "lw_bridge w = bridge_unavailable reason"
    using query_all_unavailable [of ?w reason api join_root "build_index root"] by fastforce
  then show ?thesis by (auto simp: impact_with_lsp_def Let_def)
qed

lemma trace_unavailable:
  "\<exists>r. trace_with_lsp api join_root root t (bridge_unavailable reason) = Some (r, bridge_unavailable reason)
     \<and> trace_items_lsp t r = trace_items t (symbol_trace root t)"
  by (simp add: trace_with_lsp_def enrich_unavailable Let_def trace_items_lsp_def trace_items_def add_trace_lsp_def
      new_lsp_refs_def symbol_trace_def)

lemma symbols_unavailable:
  "collect_symbol_summaries_with_lsp (trace_with_lsp api join_root root) targets (bridge_unavailable reason)
   = Some (collect_symbol_summaries root targets, bridge_unavailable reason)"
proof (induction targets)
  case (Cons t ts)
  show ?case
    using Cons trace_unavailable [of api join_root root t reason]
    by (auto simp: collect_symbol_summaries_def)
qed (simp add: collect_symbol_summaries_def)

text \<open>
  C28 (without gopls). For at least one target and gopls not available, the briefing with enrichment
  returns, and it is the briefing without enrichment except for its two notes, which are fixed texts:
  both say that the enrichment was active, and both differ from those of the plain briefing.
\<close>

theorem briefing_without_gopls:
  "briefing_with_lsp api join_root h io_error root (t # ts) (bridge_unavailable reason)
     = Some ((briefing_analyze h io_error root (t # ts))
               \<lparr>br_scope_note := ''Briefing from static analysis (AST + file patterns). LSP enrichment active. ''
                  @ ''No call graph, type resolution, or runtime tracing unless --lsp is used.'',
                br_lsp_note := Some (dash ''LSP enrichment active'' ''references include function body call sites'')\<rparr>,
             bridge_unavailable reason)
   \<and> br_scope_note (briefing_analyze h io_error root (t # ts))
       = ''Briefing from static analysis (AST + file patterns). No LSP enrichment. ''
         @ ''No call graph, type resolution, or runtime tracing unless --lsp is used.''
   \<and> br_lsp_note (briefing_analyze h io_error root (t # ts)) = None"
proof -
  obtain l remark where i: "impact_with_lsp api join_root root (t # ts) (bridge_unavailable reason)
      = Some ((impact_analyze root (t # ts))\<lparr>ir_lsp := Some l, ir_scope_note := remark\<rparr>, bridge_unavailable reason)"
    using impact_unavailable by blast
  have same: "collect_arch_findings g (r\<lparr>ir_lsp := x, ir_scope_note := y\<rparr>) = collect_arch_findings g r"
    "collect_contract_findings g (r\<lparr>ir_lsp := x, ir_scope_note := y\<rparr>) = collect_contract_findings g r" for g r x y
    by (simp_all add: collect_arch_findings_def collect_contract_findings_def affected_packages_def)
  show ?thesis
    unfolding briefing_with_lsp_def i briefing_analyze_def
    by (simp add: symbols_unavailable same Let_def build_briefing_def briefing_checks_def
        del: collect_symbol_summaries_with_lsp.simps)
qed

end
