(* ===== verification/TracePack.thy ===== *)
theory TracePack
  imports ResultsInspect Diagnostics ProcessUtils SourceText
begin

text \<open>
  Trace packs (\<open>trace_pack/mod.rs\<close>, \<open>trace_pack/collect.rs\<close>): collecting evidence from docker, HTTP
  endpoints and files, writing it to a directory with a summary, and the diagnosis of the refresh
  consumers in that summary. Processes, HTTP, files and JSON are parameters. \<open>u64\<close> arithmetic that can
  exceed its range is written with its wrap-around (release builds; debug builds panic there).
\<close>

section \<open>Paths\<close>

text \<open>
  \<open>Path::join\<close> with a relative second part: no separator after an empty path or one that ends with
  a separator.
\<close>

definition path_join :: "string \<Rightarrow> string \<Rightarrow> string" where
  "path_join a b = (if a = [] \<or> last a = CHR ''/'' then a @ b else a @ CHR ''/'' # b)"

section \<open>Dates\<close>

definition u64_limit :: nat where
  "u64_limit = 2 ^ 64"

definition epoch_days_to_date :: "nat \<Rightarrow> nat \<times> nat \<times> nat" where
  "epoch_days_to_date days0 =
     (let days = (days0 + 719468) mod u64_limit;
          era = days div 146097;
          doe = days - era * 146097;
          yoe = (doe - doe div 1460 + doe div 36524 - doe div 146096) div 365;
          y = yoe + era * 400;
          doy = doe - (365 * yoe + yoe div 4 - yoe div 100);
          mp = (5 * doy + 2) div 153;
          d = doy - (153 * mp + 2) div 5 + 1;
          m = (if mp < 10 then mp + 3 else mp - 9)
      in (if m \<le> 2 then y + 1 else y, m, d))"

text \<open>\<open>{n:0w}\<close>: padded with zeros on the left.\<close>

definition zero_pad :: "nat \<Rightarrow> nat \<Rightarrow> string" where
  "zero_pad w n = replicate (w - length (show_nat n)) CHR ''0'' @ show_nat n"

definition timestamp_of :: "nat \<Rightarrow> string" where
  "timestamp_of secs =
     (let days = secs div 86400;
          time_of_day = secs mod 86400;
          hours = time_of_day div 3600;
          minutes = (time_of_day mod 3600) div 60;
          seconds = time_of_day mod 60;
          (year, month, day) = epoch_days_to_date days
      in zero_pad 4 year @ zero_pad 2 month @ zero_pad 2 day @ ''-'' @ zero_pad 2 hours @ zero_pad 2 minutes
         @ zero_pad 2 seconds)"

definition days_from_civil :: "nat \<Rightarrow> nat \<Rightarrow> nat \<Rightarrow> nat option" where
  "days_from_civil year month day =
     (if \<not> (1 \<le> month \<and> month \<le> 12) \<or> \<not> (1 \<le> day \<and> day \<le> 31) then None
      else
        (let adjust = (if month \<le> 2 then 1 else 0) in
         if year < adjust then None
         else
           (let y = year - adjust;
                era = y div 400;
                yoe = y - era * 400;
                mp = (if 2 < month then month - 3 else month + 9);
                doy = (153 * mp + 2) div 5 + day - 1;
                doe = yoe * 365 + yoe div 4 - yoe div 100 + doy;
                days = (era * 146097 + doe) mod u64_limit
            in if days < 719468 then None else Some (days - 719468))))"

definition three_numbers :: "string \<Rightarrow> string \<Rightarrow> (nat \<times> nat \<times> nat) option" where
  "three_numbers s sep =
     (case split_on s sep of
        a # b # c # _ \<Rightarrow>
          (case (parse_usize a, parse_usize b, parse_usize c) of
             (Some x, Some y, Some z) \<Rightarrow> Some (x, y, z)
           | _ \<Rightarrow> None)
      | _ \<Rightarrow> None)"

definition parse_rfc3339_epoch_seconds :: "string \<Rightarrow> nat option" where
  "parse_rfc3339_epoch_seconds text =
     (case strip_suffix text ''Z'' of
        None \<Rightarrow> None
      | Some raw \<Rightarrow>
          (case find_sub raw ''T'' of
             None \<Rightarrow> None
           | Some i \<Rightarrow>
               (case (three_numbers (take i raw) ''-'', three_numbers (split_first (drop (i + 1) raw) ''.'') '':'') of
                  (Some (year, month, day), Some (hour, minute, second)) \<Rightarrow>
                    map_option (\<lambda>days. (days * 86400 + hour * 3600 + minute * 60 + second) mod u64_limit)
                      (days_from_civil year month day)
                | _ \<Rightarrow> None)))"

section \<open>Durations\<close>

definition unit_seconds :: "char \<Rightarrow> nat \<Rightarrow> nat option" where
  "unit_seconds c amount =
     (if c = CHR ''h'' then (if amount * 3600 < u64_limit then Some (amount * 3600) else None)
      else if c = CHR ''m'' then (if amount * 60 < u64_limit then Some (amount * 60) else None)
      else if c = CHR ''s'' then Some amount
      else None)"

fun duration_loop :: "nat \<Rightarrow> string \<Rightarrow> string \<Rightarrow> nat option" where
  "duration_loop acc num [] = (if num = [] then Some acc else None)"
| "duration_loop acc num (c # cs) =
     (if ascii_digit c then duration_loop acc (num @ [c]) cs
      else
        (case Option.bind (parse_usize num) (unit_seconds c) of
           None \<Rightarrow> None
         | Some x \<Rightarrow> if acc + x < u64_limit then duration_loop (acc + x) [] cs else None))"

definition parse_simple_duration_seconds :: "string \<Rightarrow> nat option" where
  "parse_simple_duration_seconds raw = duration_loop 0 [] raw"

definition cadence_window_seconds :: "string option \<Rightarrow> string option \<Rightarrow> nat option" where
  "cadence_window_seconds consumer_interval emulator_interval =
     (case (Option.bind consumer_interval parse_simple_duration_seconds,
            Option.bind emulator_interval parse_simple_duration_seconds) of
        (Some consumer, Some emulator) \<Rightarrow> Some (max (min (max consumer emulator * 2) (u64_limit - 1)) 30)
      | _ \<Rightarrow> None)"

section \<open>The refresh consumers\<close>

record refresh_durable =
  rd_name :: string
  rd_num_pending :: nat
  rd_num_ack_pending :: nat
  rd_num_redelivered :: nat
  rd_delivered_seq :: nat
  rd_ack_floor_seq :: nat
  rd_last_active :: "nat option"
  rd_observed :: "nat option"

datatype refresh_state = RefreshHealthy | RefreshDegraded

datatype refresh_mode =
    CaughtUp | TelemetryUnavailable | DurableMissing | CadenceMismatch | TransientLag | StalledRefresh
  | RedeliveryDetected

record refresh_health =
  rh_state :: refresh_state
  rh_mode :: refresh_mode
  rh_durables :: "refresh_durable list option"
  rh_reason :: "string option"
  rh_next_step :: "string option"

fun refresh_label :: "refresh_state \<Rightarrow> string" where
  "refresh_label RefreshHealthy = ''healthy''"
| "refresh_label RefreshDegraded = ''degraded''"

fun mode_label :: "refresh_mode \<Rightarrow> string" where
  "mode_label CaughtUp = ''caught-up''"
| "mode_label TelemetryUnavailable = ''telemetry-unavailable''"
| "mode_label DurableMissing = ''durable-missing''"
| "mode_label CadenceMismatch = ''cadence-mismatch''"
| "mode_label TransientLag = ''transient-lag''"
| "mode_label StalledRefresh = ''stalled-refresh''"
| "mode_label RedeliveryDetected = ''redelivery-detected''"

definition has_backlog :: "refresh_durable \<Rightarrow> bool" where
  "has_backlog d = (0 < rd_num_pending d \<or> 0 < rd_num_ack_pending d)"

definition lag_age_seconds :: "refresh_durable \<Rightarrow> nat option" where
  "lag_age_seconds d =
     (case (rd_observed d, rd_last_active d) of
        (Some observed, Some last_active) \<Rightarrow> if observed < last_active then None else Some (observed - last_active)
      | _ \<Rightarrow> None)"

definition recent_lag :: "nat \<Rightarrow> refresh_durable \<Rightarrow> bool" where
  "recent_lag win d =
     (\<not> has_backlog d \<or> (case lag_age_seconds d of Some age \<Rightarrow> age \<le> win | None \<Rightarrow> False))"

definition tick :: "string \<Rightarrow> string" where
  "tick s = [CHR 0x60] @ s @ [CHR 0x60]"

definition degraded :: "refresh_mode \<Rightarrow> refresh_durable list option \<Rightarrow> string \<Rightarrow> string \<Rightarrow> refresh_health" where
  "degraded mode ds reason step =
     \<lparr>rh_state = RefreshDegraded, rh_mode = mode, rh_durables = ds, rh_reason = Some reason, rh_next_step = Some step\<rparr>"

definition classify_durables :: "nat \<Rightarrow> bool \<Rightarrow> refresh_durable list \<Rightarrow> refresh_health" where
  "classify_durables win mismatched d =
     (let inspect = ''inspect '' @ tick ''consumer'' @ '' and '' @ tick ''emulator'' @ '' logs, then run ''
            @ tick ''raccoon-cli contract-audit'' @ '', '' @ tick ''raccoon-cli runtime-bindings'' in
      if mismatched then
        degraded CadenceMismatch (Some d) ''consumer and emulator use different reconcile intervals''
          (''align '' @ tick ''bootstrap.reconcile_interval'' @ '' in deploy configs, rerun ''
           @ tick ''raccoon-cli topology-doctor'' @ '', then rerun '' @ tick ''raccoon-cli trace-pack'')
      else if list_ex (\<lambda>x. 0 < rd_num_redelivered x) d then
        degraded RedeliveryDetected (Some d) ''refresh durable redelivery is non-zero''
          (inspect @ '', and '' @ tick ''raccoon-cli scenario-smoke happy-path'')
      else if list_ex has_backlog d then
        (if list_all (recent_lag win) d then
           degraded TransientLag (Some d)
             (''refresh lag is non-zero, but durable activity is recent within '' @ show_nat win @ ''s'')
             (''rerun '' @ tick ''raccoon-cli trace-pack'' @ '' after one reconcile window; if lag persists, run ''
              @ tick ''raccoon-cli scenario-smoke happy-path'')
         else
           degraded StalledRefresh (Some d) ''refresh lag is non-zero and durable activity appears stale''
             (inspect @ '', and rerun '' @ tick ''raccoon-cli scenario-smoke happy-path''))
      else
        \<lparr>rh_state = RefreshHealthy, rh_mode = CaughtUp, rh_durables = Some d,
         rh_reason = Some ''refresh durables are caught up and reconcile cadence is aligned'', rh_next_step = None\<rparr>)"

definition classify_refresh_status :: "string option \<Rightarrow> string option \<Rightarrow> refresh_durable list option \<Rightarrow> refresh_health" where
  "classify_refresh_status consumer_interval emulator_interval durables =
     (let win = (case cadence_window_seconds consumer_interval emulator_interval of Some w \<Rightarrow> w | None \<Rightarrow> 60) in
      case durables of
        None \<Rightarrow>
          degraded TelemetryUnavailable None ''JetStream state for refresh durables is unavailable''
            (''rerun '' @ tick ''raccoon-cli trace-pack'' @ '', then inspect '' @ tick ''nats/jsz.json'' @ '' and service logs'')
      | Some [] \<Rightarrow>
          degraded DurableMissing durables (''refresh durables were not found under '' @ tick ''CONFIGCTL_EVENTS'')
            (''run '' @ tick ''raccoon-cli contract-audit''
             @ '' and confirm refresh durables are registered in the configctl NATS registry'')
      | Some d \<Rightarrow> classify_durables win (consumer_interval \<noteq> emulator_interval) d)"

section \<open>Reading the state of JetStream\<close>

definition u64_or_zero :: "'j value_api \<Rightarrow> 'j option \<Rightarrow> string \<Rightarrow> nat" where
  "u64_or_zero J v key =
     (case Option.bind (Option.bind v (\<lambda>x. jv_get J x key)) (jv_u64 J) of Some n \<Rightarrow> n | None \<Rightarrow> 0)"

definition time_field :: "'j value_api \<Rightarrow> 'j option \<Rightarrow> string \<Rightarrow> nat option" where
  "time_field J v key =
     Option.bind (Option.bind (Option.bind v (\<lambda>x. jv_get J x key)) (jv_str J)) parse_rfc3339_epoch_seconds"

definition refresh_names :: "string list" where
  "refresh_names = [''consumer-runtime-refresh-v1'', ''emulator-runtime-refresh-v1'']"

definition consumer_durables :: "'j value_api \<Rightarrow> 'j \<Rightarrow> refresh_durable list option" where
  "consumer_durables J c =
     (case Option.bind (jv_get J c ''name'') (jv_str J) of
        None \<Rightarrow> None
      | Some name \<Rightarrow>
          if name \<notin> set refresh_names then Some []
          else
            (let delivered = jv_get J c ''delivered''; ack_floor = jv_get J c ''ack_floor'' in
             Some [\<lparr>rd_name = name, rd_num_pending = u64_or_zero J (Some c) ''num_pending'',
                    rd_num_ack_pending = u64_or_zero J (Some c) ''num_ack_pending'',
                    rd_num_redelivered = u64_or_zero J (Some c) ''num_redelivered'',
                    rd_delivered_seq = u64_or_zero J delivered ''consumer_seq'',
                    rd_ack_floor_seq = u64_or_zero J ack_floor ''consumer_seq'',
                    rd_last_active =
                      (case time_field J delivered ''last_active'' of
                         Some t \<Rightarrow> Some t
                       | None \<Rightarrow> time_field J ack_floor ''last_active''),
                    rd_observed = time_field J (Some c) ''ts''\<rparr>]))"

definition array_field :: "'j value_api \<Rightarrow> 'j \<Rightarrow> string \<Rightarrow> 'j list option" where
  "array_field J v key = Option.bind (jv_get J v key) (jv_array J)"

text \<open>Each \<open>?\<close> in the loops makes the whole function return \<open>None\<close>.\<close>

definition concat_those :: "('a \<Rightarrow> 'b list option) \<Rightarrow> 'a list \<Rightarrow> 'b list option" where
  "concat_those f xs = map_option concat (those (map f xs))"

definition stream_durables :: "'j value_api \<Rightarrow> 'j \<Rightarrow> refresh_durable list option" where
  "stream_durables J s =
     (case Option.bind (jv_get J s ''name'') (jv_str J) of
        None \<Rightarrow> None
      | Some name \<Rightarrow>
          if name \<noteq> ''CONFIGCTL_EVENTS'' then Some []
          else Option.bind (array_field J s ''consumer_detail'') (concat_those (consumer_durables J)))"

definition parse_refresh_durables :: "'j value_api \<Rightarrow> (string \<Rightarrow> 'j option) \<Rightarrow> string \<Rightarrow> refresh_durable list option" where
  "parse_refresh_durables J from_str raw =
     map_option (sort_key rd_name)
       (Option.bind (from_str raw) (\<lambda>v.
          Option.bind (array_field J v ''account_details'')
            (concat_those (\<lambda>account.
               Option.bind (array_field J account ''stream_detail'') (concat_those (stream_durables J))))))"

definition extract_reconcile_interval :: "'j value_api \<Rightarrow> (string \<Rightarrow> 'j option) \<Rightarrow> string \<Rightarrow> string option" where
  "extract_reconcile_interval J from_str raw =
     Option.bind (from_str (strip_jsonc_comments raw)) (\<lambda>v.
       Option.bind (jv_get J v ''bootstrap'') (\<lambda>b.
         Option.bind (jv_get J b ''reconcile_interval'') (jv_str J)))"

section \<open>Evidence\<close>

datatype evidence_status = EvidenceOk | EvidenceUnavailable string | EvidenceError string

record evidence =
  ev_name :: string
  ev_file :: string
  ev_content :: string
  ev_status :: evidence_status

definition mk_evidence :: "string \<Rightarrow> string \<Rightarrow> string \<Rightarrow> evidence_status \<Rightarrow> evidence" where
  "mk_evidence name file_path content status =
     \<lparr>ev_name = name, ev_file = file_path, ev_content = content, ev_status = status\<rparr>"

text \<open>
  What the collectors meet: the answers of HTTP requests (a body that can be read or not), the
  processes that docker commands start, the files of the project, and pretty-printing of a body that
  is JSON.
\<close>

datatype url_answer = AnswerOk "string + string" | AnswerStatus "string option" | AnswerFailed string

datatype read_answer = Contents string | FileMissing | ReadFailed string

record 'st pack_env =
  pv_http :: "string \<Rightarrow> url_answer"
  pv_canonicalize :: "string \<Rightarrow> string option"
  pv_docker :: "string \<Rightarrow> string list \<Rightarrow> string + 'st child \<times> nat"
  pv_success :: "'st \<Rightarrow> bool"
  pv_read :: "string \<Rightarrow> read_answer"
  pv_pretty :: "string \<Rightarrow> string option"

record collector =
  cl_compose_file :: string
  cl_base_url :: string
  cl_project_root :: string
  cl_log_lines :: nat
  cl_results_limit :: nat

definition collector_new :: "string \<Rightarrow> string \<Rightarrow> string \<Rightarrow> nat \<Rightarrow> nat \<Rightarrow> collector" where
  "collector_new compose_file base_url project_root log_lines results_limit =
     \<lparr>cl_compose_file = compose_file, cl_base_url = trim_end_char base_url CHR ''/'',
      cl_project_root = project_root, cl_log_lines = log_lines, cl_results_limit = results_limit\<rparr>"

text \<open>\<open>Path::parent\<close>: \<open>None\<close> for the empty path and the root.\<close>

definition path_parent :: "string \<Rightarrow> string option" where
  "path_parent p =
     (let q = trim_end_char p CHR ''/'' in
      if q = [] then None
      else
        (case rfind_char q CHR ''/'' of
           None \<Rightarrow> Some []
         | Some i \<Rightarrow> (let r = trim_end_char (take i q) CHR ''/'' in Some (if r = [] then ''/'' else r))))"

definition compose_arg :: "'st pack_env \<Rightarrow> collector \<Rightarrow> string" where
  "compose_arg e c =
     (case pv_canonicalize e (cl_compose_file c) of Some p \<Rightarrow> p | None \<Rightarrow> cl_compose_file c)"

definition config_files :: "string list" where
  "config_files = [''server.jsonc'', ''consumer.jsonc'', ''validator.jsonc'', ''emulator.jsonc'', ''configctl.jsonc'']"

definition services :: "string list" where
  "services = [''nats'', ''kafka'', ''configctl'', ''server'', ''consumer'', ''validator'', ''emulator'']"

definition nats_monitor_base_url :: string where
  "nats_monitor_base_url = ''http://127.0.0.1:8222''"

definition collect_url :: "'st pack_env \<Rightarrow> string \<Rightarrow> string \<Rightarrow> string \<Rightarrow> evidence" where
  "collect_url e name file_path url =
     (case pv_http e url of
        AnswerOk res \<Rightarrow>
          (let body = (case res of
                 Inr b \<Rightarrow> b
               | Inl err \<Rightarrow> ''{'' @ [CHR 0x22] @ ''error'' @ [CHR 0x22] @ '': '' @ [CHR 0x22]
                   @ ''failed to read body: '' @ err @ [CHR 0x22] @ ''}'')
           in mk_evidence name file_path (case pv_pretty e body of Some t \<Rightarrow> t | None \<Rightarrow> body) EvidenceOk)
      | AnswerStatus body \<Rightarrow> mk_evidence name file_path (case body of Some b \<Rightarrow> b | None \<Rightarrow> []) EvidenceOk
      | AnswerFailed err \<Rightarrow> mk_evidence name file_path [] (EvidenceUnavailable err))"

definition collect_endpoint :: "'st pack_env \<Rightarrow> collector \<Rightarrow> string \<Rightarrow> string \<Rightarrow> string \<Rightarrow> evidence" where
  "collect_endpoint e c name file_path url_path = collect_url e name file_path (cl_base_url c @ url_path)"

definition collect_external_endpoint :: "'st pack_env \<Rightarrow> string \<Rightarrow> string \<Rightarrow> string \<Rightarrow> string \<Rightarrow> evidence" where
  "collect_external_endpoint e name file_path base_url url_path =
     collect_url e name file_path (trim_end_char base_url CHR ''/'' @ url_path)"

definition global_scope :: "string \<Rightarrow> string" where
  "global_scope p = p @ ''?scope_kind=global&scope_key=default''"

definition collect_endpoints :: "'st pack_env \<Rightarrow> collector \<Rightarrow> evidence list" where
  "collect_endpoints e c =
     (let limited = (\<lambda>p. global_scope p @ ''&limit='' @ show_nat (cl_results_limit c)) in
      [collect_external_endpoint e ''NATS monitor health'' ''nats/healthz.json'' nats_monitor_base_url ''/healthz'',
       collect_external_endpoint e ''JetStream state'' ''nats/jsz.json'' nats_monitor_base_url
         ''/jsz?streams=true&consumers=true&config=true'',
       collect_endpoint e c ''Health check'' ''healthz.json'' ''/healthz'',
       collect_endpoint e c ''Readiness check'' ''readyz.json'' ''/readyz'',
       collect_endpoint e c ''Active config'' ''active-config.json'' ''/configctl/configs/active'',
       collect_endpoint e c ''Configctl runtime projections'' ''configctl-runtime-projections.json''
         (global_scope ''/runtime/configctl/projections''),
       collect_endpoint e c ''Ingestion bindings'' ''ingestion-bindings.json''
         (global_scope ''/runtime/ingestion/bindings''),
       collect_endpoint e c ''Validator runtime'' ''validator-runtime.json'' (global_scope ''/runtime/validator/active''),
       collect_endpoint e c ''Validation results'' ''validation-results.json'' (limited ''/runtime/validator/results''),
       collect_endpoint e c ''Validation incidents'' ''validation-incidents.json''
         (limited ''/runtime/validator/incidents'')])"

text \<open>A command that does not return makes the collection not return: \<open>None\<close>.\<close>

definition collect_compose_status :: "'st pack_env \<Rightarrow> collector \<Rightarrow> evidence option" where
  "collect_compose_status e c =
     (let mk = mk_evidence ''Compose status'' ''compose-status.txt'' in
      case path_parent (cl_compose_file c) of
        None \<Rightarrow> Some (mk [] (EvidenceError ''cannot determine compose directory''))
      | Some dir \<Rightarrow>
          map_option (\<lambda>res.
              case res of
                Inr out \<Rightarrow>
                  if pv_success e (cc_status out) then mk (cc_stdout out) EvidenceOk
                  else mk [] (EvidenceUnavailable (''docker compose ps failed: '' @ trim (cc_stderr out)))
              | Inl err \<Rightarrow> mk [] (EvidenceUnavailable (''docker not available: '' @ err)))
            (run_command_with_timeout (pv_docker e dir [''compose'', ''-f'', compose_arg e c, ''ps'', ''--all''])
               5000 ''docker compose ps''))"

definition collect_config :: "'st pack_env \<Rightarrow> collector \<Rightarrow> string \<Rightarrow> evidence" where
  "collect_config e c filename =
     (let mk = mk_evidence (''Deploy config: '' @ filename) (''configs/'' @ filename) in
      case pv_read e (path_join (path_join (cl_project_root c) ''deploy/configs'') filename) of
        Contents content \<Rightarrow> mk content EvidenceOk
      | FileMissing \<Rightarrow> mk [] (EvidenceUnavailable ''file not found'')
      | ReadFailed err \<Rightarrow> mk [] (EvidenceError (''read error: '' @ err)))"

definition collect_log :: "'st pack_env \<Rightarrow> collector \<Rightarrow> string \<Rightarrow> string \<Rightarrow> evidence option" where
  "collect_log e c dir service =
     (let mk = mk_evidence (''Logs: '' @ service) (''logs/'' @ service @ ''.log'') in
      map_option (\<lambda>res.
          case res of
            Inr out \<Rightarrow>
              if pv_success e (cc_status out) then
                (if trim (cc_stdout out) = [] then mk [] (EvidenceUnavailable ''no log output'')
                 else mk (cc_stdout out) EvidenceOk)
              else mk [] (EvidenceUnavailable (''docker logs failed: '' @ trim (cc_stderr out)))
          | Inl err \<Rightarrow> mk [] (EvidenceUnavailable (''docker not available: '' @ err)))
        (run_command_with_timeout
           (pv_docker e dir [''compose'', ''-f'', compose_arg e c, ''logs'', ''--no-color'', ''--tail'',
                         show_nat (cl_log_lines c), service])
           5000 (''docker compose logs '' @ service)))"

definition collect_service_logs :: "'st pack_env \<Rightarrow> collector \<Rightarrow> evidence list option" where
  "collect_service_logs e c =
     (case path_parent (cl_compose_file c) of
        None \<Rightarrow> Some []
      | Some dir \<Rightarrow> those (map (collect_log e c dir) services))"

definition collect_all :: "'st pack_env \<Rightarrow> collector \<Rightarrow> evidence list option" where
  "collect_all e c =
     (case (collect_compose_status e c, collect_service_logs e c) of
        (Some compose, Some logs) \<Rightarrow>
          Some (compose # collect_endpoints e c @ map (collect_config e c) config_files @ logs)
      | _ \<Rightarrow> None)"

section \<open>The summary\<close>

record evidence_entry =
  ee_name :: string
  ee_file :: string
  ee_status :: string
  ee_detail :: "string option"

definition entry_of :: "evidence \<Rightarrow> evidence_entry" where
  "entry_of ev =
     \<lparr>ee_name = ev_name ev, ee_file = ev_file ev,
      ee_status = (case ev_status ev of
                     EvidenceOk \<Rightarrow> ''ok'' | EvidenceUnavailable _ \<Rightarrow> ''unavailable'' | EvidenceError _ \<Rightarrow> ''error''),
      ee_detail = (case ev_status ev of
                     EvidenceOk \<Rightarrow> None | EvidenceUnavailable msg \<Rightarrow> Some msg | EvidenceError msg \<Rightarrow> Some msg)\<rparr>"

definition is_ok :: "evidence \<Rightarrow> bool" where
  "is_ok ev = (ev_status ev = EvidenceOk)"

text \<open>The map by file name: of two entries for a file the later one is kept.\<close>

definition by_file :: "evidence list \<Rightarrow> string \<Rightarrow> evidence option" where
  "by_file evs f = find (\<lambda>e. ev_file e = f) (rev evs)"

definition text_or :: "string \<Rightarrow> string option \<Rightarrow> string" where
  "text_or d x = (case x of Some t \<Rightarrow> t | None \<Rightarrow> d)"

definition durable_line :: "refresh_durable \<Rightarrow> string" where
  "durable_line d =
     ''  - '' @ tick (rd_name d) @ '' pending='' @ tick (show_nat (rd_num_pending d))
     @ '' ack_pending='' @ tick (show_nat (rd_num_ack_pending d))
     @ '' redelivered='' @ tick (show_nat (rd_num_redelivered d))
     @ '' delivered='' @ tick (show_nat (rd_delivered_seq d))
     @ '' ack_floor='' @ tick (show_nat (rd_ack_floor_seq d)) @ nl"

definition refresh_text :: "string option \<Rightarrow> string option \<Rightarrow> refresh_health \<Rightarrow> string" where
  "refresh_text consumer_interval emulator_interval h =
     (let on_stream = ''- refresh durables on '' @ tick ''CONFIGCTL_EVENTS'' @ '':'' in
      ''- refresh status: '' @ tick (refresh_label (rh_state h)) @ nl
      @ ''- refresh mode: '' @ tick (mode_label (rh_mode h)) @ nl
      @ ''- '' @ tick ''bootstrap.reconcile_interval'' @ '': consumer='' @ tick (text_or ''missing'' consumer_interval)
      @ '', emulator='' @ tick (text_or ''missing'' emulator_interval) @ nl
      @ (case rh_durables h of
           None \<Rightarrow> on_stream @ '' unavailable'' @ nl
         | Some [] \<Rightarrow> on_stream @ '' not found'' @ nl
         | Some ds \<Rightarrow> on_stream @ nl @ concat (map durable_line ds))
      @ (case rh_reason h of Some r \<Rightarrow> ''- diagnosis: '' @ r @ nl | None \<Rightarrow> [])
      @ (case rh_next_step h of Some t \<Rightarrow> ''- next step: '' @ t @ nl | None \<Rightarrow> []))"

definition build_refresh_observability_summary ::
    "'j value_api \<Rightarrow> (string \<Rightarrow> 'j option) \<Rightarrow> evidence list \<Rightarrow> string option" where
  "build_refresh_observability_summary J from_str evs =
     (case (by_file evs ''configs/consumer.jsonc'', by_file evs ''configs/emulator.jsonc'') of
        (Some consumer, Some emulator) \<Rightarrow>
          (let consumer_interval = extract_reconcile_interval J from_str (ev_content consumer);
               emulator_interval = extract_reconcile_interval J from_str (ev_content emulator)
           in Some (refresh_text consumer_interval emulator_interval
                (classify_refresh_status consumer_interval emulator_interval
                   (Option.bind (by_file evs ''nats/jsz.json'')
                      (\<lambda>e. parse_refresh_durables J from_str (ev_content e))))))
      | _ \<Rightarrow> None)"

definition format_runtime_refs :: "string list \<Rightarrow> string" where
  "format_runtime_refs refs = (if refs = [] then ''none'' else join '', '' (map tick refs))"

definition loaded_text :: "string \<Rightarrow> bootstrap_diagnostics option \<Rightarrow> string" where
  "loaded_text who d =
     (case d of
        Some diag \<Rightarrow>
          ''- '' @ who @ '' loaded bootstrap:'' @ nl
          @ ''  - event: '' @ tick (bd_event diag) @ nl
          @ ''  - signature: '' @ tick (compact_bootstrap_signature (bd_signature diag)) @ nl
          @ ''  - runtime refs: '' @ format_runtime_refs (bd_runtime_refs diag) @ nl
      | None \<Rightarrow> ''- '' @ who @ '' loaded bootstrap: unavailable in logs'' @ nl)"

definition bootstraps_aligned :: "bootstrap_diagnostics \<Rightarrow> bootstrap_diagnostics \<Rightarrow> bool" where
  "bootstraps_aligned c e = (bd_signature c = bd_signature e \<and> bd_runtime_refs c = bd_runtime_refs e)"

definition alignment_text :: "bootstrap_diagnostics option \<Rightarrow> bootstrap_diagnostics option \<Rightarrow> string" where
  "alignment_text consumer emulator =
     (case (consumer, emulator) of
        (Some c, Some e) \<Rightarrow>
          ''- loaded bootstrap alignment: '' @ tick (if bootstraps_aligned c e then ''aligned'' else ''mismatch'') @ nl
          @ (if bootstraps_aligned c e then []
             else ''- diagnosis: consumer and emulator loaded different aggregate bootstrap generations'' @ nl
                  @ ''- next step: inspect '' @ tick ''logs/consumer.log'' @ '' and '' @ tick ''logs/emulator.log''
                  @ '', then rerun '' @ tick ''raccoon-cli scenario-smoke happy-path'' @ nl)
      | _ \<Rightarrow> [])"

definition build_loaded_bootstrap_summary :: "evidence list \<Rightarrow> string option" where
  "build_loaded_bootstrap_summary evs =
     (let consumer = Option.bind (by_file evs ''logs/consumer.log'')
            (\<lambda>e. parse_consumer_bootstrap_diagnostics (ev_content e));
          emulator = Option.bind (by_file evs ''logs/emulator.log'')
            (\<lambda>e. parse_emulator_bootstrap_diagnostics (ev_content e))
      in if consumer = None \<and> emulator = None then None
         else Some (loaded_text ''consumer'' consumer @ loaded_text ''emulator'' emulator
                    @ alignment_text consumer emulator))"

definition how_to_use :: string where
  "how_to_use =
     nl @ ''## How to use'' @ nl @ nl
     @ ''1. Check '' @ tick ''compose-status.txt'' @ '' for service health overview'' @ nl
     @ ''2. Review '' @ tick ''healthz.json'' @ '' and '' @ tick ''readyz.json'' @ '' for API readiness'' @ nl
     @ ''3. Inspect '' @ tick ''nats/healthz.json'' @ '' and '' @ tick ''nats/jsz.json''
     @ '' for JetStream and refresh-consumer state'' @ nl
     @ ''4. Inspect '' @ tick ''active-config.json'' @ '' for the lifecycle-facing active config record'' @ nl
     @ ''5. Inspect '' @ tick ''configctl-runtime-projections.json'' @ '' for the canonical configctl runtime projection'' @ nl
     @ ''6. Check '' @ tick ''ingestion-bindings.json'' @ '' and '' @ tick ''validator-runtime.json''
     @ '' for operational routing and loaded-state views'' @ nl
     @ ''7. Review '' @ tick ''validation-results.json'' @ '' for recent pass/fail outcomes'' @ nl
     @ ''8. Review '' @ tick ''validation-incidents.json'' @ '' for aggregated operational incidents'' @ nl
     @ ''9. Examine '' @ tick ''logs/'' @ '' for per-service console output'' @ nl
     @ ''10. Compare '' @ tick ''configs/'' @ '' with active runtime to spot drift'' @ nl"

definition titled :: "string \<Rightarrow> string option \<Rightarrow> string" where
  "titled heading x = (case x of Some t \<Rightarrow> nl @ heading @ nl @ nl @ t @ nl | None \<Rightarrow> [])"

definition pack_summary ::
    "'j value_api \<Rightarrow> (string \<Rightarrow> 'j option) \<Rightarrow> string \<Rightarrow> evidence list \<Rightarrow> evidence_entry list
     \<Rightarrow> evidence_entry list \<Rightarrow> string" where
  "pack_summary J from_str timestamp evs collected failed =
     ''# Trace Pack '' @ em_dash @ '' '' @ timestamp @ nl @ nl
     @ ''Diagnostic evidence snapshot for quality-service cluster.'' @ nl @ nl
     @ ''## What is this?'' @ nl @ nl
     @ ''This pack contains runtime state, configuration, logs, and API responses'' @ nl
     @ ''collected at a single point in time. Use it to diagnose failures without'' @ nl
     @ ''needing live access to the cluster.'' @ nl @ nl
     @ ''## Collected evidence'' @ nl @ nl
     @ ''| File | Description |'' @ nl @ ''|------|-------------|'' @ nl
     @ concat (map (\<lambda>x. ''| '' @ tick (ee_file x) @ '' | '' @ ee_name x @ '' |'' @ nl) collected)
     @ titled ''## Refresh observability'' (build_refresh_observability_summary J from_str evs)
     @ titled ''## Loaded bootstrap diagnostics'' (build_loaded_bootstrap_summary evs)
     @ (if failed = [] then []
        else nl @ ''## Unavailable evidence'' @ nl @ nl
             @ ''| Evidence | Reason |'' @ nl @ ''|----------|--------|'' @ nl
             @ concat (map (\<lambda>x. ''| '' @ ee_name x @ '' | '' @ text_or ''unknown'' (ee_detail x) @ '' |'' @ nl) failed)
             @ nl @ ''Unavailable items indicate services that were down or unreachable at collection time.'' @ nl)
     @ how_to_use"

section \<open>Writing the pack\<close>

text \<open>
  The file system answers each request with an error or not; \<open>tar\<close> starts or not, and ends with
  success or with an error output. What was asked for is kept in order.
\<close>

datatype disk_action =
    MakeDir string | WriteFile string string | RunTar "string list" | RemoveDir string

record disk =
  dk_answer :: "disk_action \<Rightarrow> string option"
  dk_tar :: "string list \<Rightarrow> string + bool \<times> string"

fun do_actions :: "disk \<Rightarrow> disk_action list \<Rightarrow> disk_action list \<times> (cli_error + unit)" where
  "do_actions k [] = ([], Inr ())"
| "do_actions k (a # rest) =
     (case dk_answer k a of
        Some err \<Rightarrow> ([a], Inl (Io err))
      | None \<Rightarrow> (let (done_actions, res) = do_actions k rest in (a # done_actions, res)))"

text \<open>The directory of a pack ends with its timestamp, so that \<open>join\<close> adds a separator.\<close>

definition write_evidence :: "string \<Rightarrow> evidence \<Rightarrow> disk_action list" where
  "write_evidence pack_dir ev =
     (let target = pack_dir @ ''/'' @ ev_file ev in
      (case path_parent target of Some p \<Rightarrow> [MakeDir p] | None \<Rightarrow> []) @ [WriteFile target (ev_content ev)])"

definition compress_pack :: "disk \<Rightarrow> string \<Rightarrow> string \<Rightarrow> disk_action list \<times> (cli_error + string)" where
  "compress_pack k output_dir pack_name =
     (let tar_path = path_join output_dir (pack_name @ ''.tar.gz'');
          args = [''-czf'', tar_path, ''-C'', output_dir, pack_name]
      in ([RunTar args],
          case dk_tar k args of
            Inl err \<Rightarrow> Inl (Command (''failed to run tar: '' @ err))
          | Inr (True, _) \<Rightarrow> Inr tar_path
          | Inr (False, stderr) \<Rightarrow> Inl (Command (''tar failed: '' @ stderr))))"

record pack_config =
  pc_project_root :: string
  pc_base_url :: string
  pc_output_dir :: string
  pc_log_lines :: nat
  pc_results_limit :: nat
  pc_compress :: bool

record pack_report =
  pr_pack_path :: string
  pr_collected :: "evidence_entry list"
  pr_failed :: "evidence_entry list"
  pr_summary :: string

definition finish_pack :: "disk \<Rightarrow> pack_config \<Rightarrow> string \<Rightarrow> string \<Rightarrow> disk_action list \<times> (cli_error + string)" where
  "finish_pack k cfg pack_dir pack_name =
     (if pc_compress cfg then
        (case compress_pack k (pc_output_dir cfg) pack_name of
           (as, Inl err) \<Rightarrow> (as, Inl err)
         | (as, Inr tar_path) \<Rightarrow>
             (let (bs, res) = do_actions k [RemoveDir pack_dir] in
              (as @ bs, case res of Inl err \<Rightarrow> Inl err | Inr _ \<Rightarrow> Inr tar_path)))
      else ([], Inr pack_dir))"

definition pad_to :: "nat \<Rightarrow> string \<Rightarrow> string" where
  "pad_to n s = s @ replicate (n - length s) CHR '' ''"

definition pack_writes :: "string \<Rightarrow> string \<Rightarrow> evidence list \<Rightarrow> disk_action list" where
  "pack_writes pack_dir summary evs =
     concat (map (write_evidence pack_dir) (filter is_ok evs)) @ [WriteFile (pack_dir @ ''/SUMMARY.md'') summary]"

definition write_pack ::
    "'j value_api \<Rightarrow> (string \<Rightarrow> 'j option) \<Rightarrow> disk \<Rightarrow> pack_config \<Rightarrow> string \<Rightarrow> evidence list
     \<Rightarrow> disk_action list \<times> (cli_error + pack_report)" where
  "write_pack J from_str k cfg timestamp evs =
     (let pack_name = ''trace-pack-'' @ timestamp;
          pack_dir = path_join (pc_output_dir cfg) pack_name;
          collected = map entry_of (filter is_ok evs);
          failed = map entry_of (filter (\<lambda>x. \<not> is_ok x) evs);
          summary = pack_summary J from_str timestamp evs collected failed
      in case do_actions k (pack_writes pack_dir summary evs) of
           (as, Inl err) \<Rightarrow> (as, Inl err)
         | (as, Inr _) \<Rightarrow>
             (case finish_pack k cfg pack_dir pack_name of
                (bs, Inl err) \<Rightarrow> (as @ bs, Inl err)
              | (bs, Inr final_path) \<Rightarrow>
                  (as @ bs,
                   Inr \<lparr>pr_pack_path = final_path, pr_collected = collected, pr_failed = failed,
                        pr_summary = summary\<rparr>)))"

text \<open>The whole command; \<open>None\<close> when collecting does not return.\<close>

definition collector_of :: "pack_config \<Rightarrow> collector" where
  "collector_of cfg =
     collector_new (path_join (pc_project_root cfg) ''deploy/compose/docker-compose.yaml'') (pc_base_url cfg)
       (pc_project_root cfg) (pc_log_lines cfg) (pc_results_limit cfg)"

definition trace_pack_run ::
    "'j value_api \<Rightarrow> (string \<Rightarrow> 'j option) \<Rightarrow> 'st pack_env \<Rightarrow> disk \<Rightarrow> nat \<Rightarrow> pack_config
     \<Rightarrow> (disk_action list \<times> (cli_error + pack_report)) option" where
  "trace_pack_run J from_str e k now cfg =
     (let timestamp = timestamp_of now in
      case do_actions k [MakeDir (path_join (pc_output_dir cfg) (''trace-pack-'' @ timestamp))] of
        (as, Inl err) \<Rightarrow> Some (as, Inl err)
      | (as, Inr _) \<Rightarrow>
          map_option (\<lambda>evs. case write_pack J from_str k cfg timestamp evs of (bs, res) \<Rightarrow> (as @ bs, res))
            (collect_all e (collector_of cfg)))"

definition pack_human :: "pack_report \<Rightarrow> string" where
  "pack_human r =
     ''trace-pack: '' @ pr_pack_path r @ nl @ nl
     @ (if pr_collected r = [] then []
        else ''Collected ('' @ show_nat (length (pr_collected r)) @ ''):'' @ nl
             @ concat (map (\<lambda>x. ''  + '' @ pad_to 30 (ee_name x) @ '' '' @ ee_file x @ nl) (pr_collected r)))
     @ (if pr_failed r = [] then []
        else nl @ ''Unavailable ('' @ show_nat (length (pr_failed r)) @ ''):'' @ nl
             @ concat (map (\<lambda>x. ''  - '' @ pad_to 30 (ee_name x) @ '' '' @ text_or [] (ee_detail x) @ nl) (pr_failed r)))
     @ nl @ show_nat (length (pr_collected r)) @ '' collected, '' @ show_nat (length (pr_failed r)) @ '' unavailable'' @ nl"

definition pack_json :: "(pack_report \<Rightarrow> string + string) \<Rightarrow> pack_report \<Rightarrow> cli_error + string" where
  "pack_json to_json r = (case to_json r of Inr t \<Rightarrow> Inr t | Inl err \<Rightarrow> Inl (Json err))"

end
