(* ===== verification/TracePackProps.thy ===== *)
theory TracePackProps
  imports TracePack
begin

text \<open>
  Properties of trace packs: the two conversions of dates are inverse, durations, the diagnosis of
  the refresh consumers, and what is written to a pack.
\<close>

section \<open>Dates\<close>

text \<open>Day \<open>365 yoe + yoe/4 - yoe/100\<close> of an era starts its year \<open>yoe\<close>.\<close>

definition year_of_era :: "nat \<Rightarrow> nat" where
  "year_of_era doe = (doe - doe div 1460 + doe div 36524 - doe div 146096) div 365"

definition year_start :: "nat \<Rightarrow> nat" where
  "year_start yoe = 365 * yoe + yoe div 4 - yoe div 100"

lemma century_arith:
  fixes c r q t w z u v :: nat
  assumes c: "c \<le> 3" and r: "r < 36524"
    and s: "24 * c + r = 1460 * q + t" "t < 1460"
    and w: "365 * w + z + q = r" "z < 365" and v: "w = 4 * u + v" "v < 4"
  shows "w \<le> 99" "365 * w + u \<le> r" "r \<le> 365 * w + u + 365"
proof -
  show "w \<le> 99" using assms by linarith
  have u: "u < q + 1" using assms by linarith
  show "365 * w + u \<le> r" using assms u by linarith
  have "q \<le> u + 1" using assms by linarith
  then consider "q = u + 1" | "q = u" using u by linarith
  then show "r \<le> 365 * w + u + 365" using assms by cases linarith+
qed

lemma century_bounds:
  fixes c r :: nat
  assumes c: "c \<le> 3" and r: "r < 36524"
  defines "q \<equiv> (24 * c + r) div 1460"
  defines "w \<equiv> (r - q) div 365"
  shows "q \<le> r" "w \<le> 99" "365 * w + w div 4 \<le> r" "r \<le> 365 * w + w div 4 + 365"
proof -
  define t where "t = (24 * c + r) mod 1460"
  define z where "z = (r - q) mod 365"
  have s: "24 * c + r = 1460 * q + t" "t < 1460" unfolding q_def t_def by simp_all
  show q: "q \<le> r" using s c by (cases "q = 0") linarith+
  have w: "365 * w + z + q = r" "z < 365" using q unfolding w_def z_def by simp_all
  have v: "w = 4 * (w div 4) + w mod 4" "w mod 4 < 4" by simp_all
  note arith = century_arith[OF c r s w v]
  show "w \<le> 99" "365 * w + w div 4 \<le> r" "r \<le> 365 * w + w div 4 + 365" by (rule arith)+
qed

lemma century_year:
  assumes c: "c \<le> 3" and r: "r < 36524"
  shows "year_of_era (36524 * c + r) = 100 * c + (r - (24 * c + r) div 1460) div 365"
proof -
  have "(36524 * c + r) div 1460 = 25 * c + (24 * c + r) div 1460"
    using div_mult_self3[of 1460 "24 * c + r" "25 * c"] by (simp add: algebra_simps)
  moreover have "(36524 * c + r) div 36524 = c" "(36524 * c + r) div 146096 = 0" using c r by simp_all
  moreover have "(24 * c + r) div 1460 \<le> r" by (rule century_bounds(1)[OF c r])
  ultimately have "year_of_era (36524 * c + r) = (365 * (100 * c) + (r - (24 * c + r) div 1460)) div 365"
    unfolding year_of_era_def by (simp add: algebra_simps)
  then show ?thesis by simp
qed

lemma year_bounds:
  assumes "doe < 146097"
  shows "year_of_era doe \<le> 399 \<and> year_start (year_of_era doe) \<le> doe \<and> doe \<le> year_start (year_of_era doe) + 365"
proof (cases "doe = 146096")
  case True
  then show ?thesis by (simp add: year_of_era_def year_start_def)
next
  case False
  define c where "c = doe div 36524"
  define r where "r = doe mod 36524"
  have d: "doe = 36524 * c + r" and r: "r < 36524" by (simp_all add: c_def r_def)
  have "doe < 4 * 36524" using False assms by simp
  then have c: "c \<le> 3" using less_mult_imp_div_less[of doe 4 36524] by (simp add: c_def)
  define w where "w = (r - (24 * c + r) div 1460) div 365"
  have w: "w \<le> 99" "365 * w + w div 4 \<le> r" "r \<le> 365 * w + w div 4 + 365"
    unfolding w_def by (rule century_bounds(2-4)[OF c r])+
  have start: "year_start (100 * c + w) = 36524 * c + 365 * w + w div 4"
  proof -
    have "100 * c + w = w + 25 * c * 4" by simp
    then have "(100 * c + w) div 4 = w div 4 + 25 * c" by (metis div_mult_self1 add.commute zero_neq_numeral)
    moreover have "(100 * c + w) div 100 = c" using w by simp
    ultimately show ?thesis unfolding year_start_def by simp
  qed
  have year: "year_of_era doe = 100 * c + w" unfolding d w_def by (rule century_year[OF c r])
  have "100 * c + w \<le> 399" using c w by linarith
  then show ?thesis unfolding year start using w(2,3) d by (intro conjI; linarith)
qed

text \<open>The month and day of a day of the year, counted from March.\<close>

lemma month_arith:
  fixes doy mp s e f :: nat
  assumes "doy \<le> 365" "5 * doy + 2 = 153 * mp + e" "e < 153" "153 * mp + 2 = 5 * s + f" "f < 5"
  shows "mp \<le> 11" "s \<le> doy" "doy < s + 31"
  using assms by linarith+

lemma month_of_doy:
  fixes doy :: nat
  assumes "doy \<le> 365"
  defines "mp \<equiv> (5 * doy + 2) div 153"
  shows "mp \<le> 11" "(153 * mp + 2) div 5 \<le> doy" "doy < (153 * mp + 2) div 5 + 31"
proof -
  have e: "5 * doy + 2 = 153 * mp + (5 * doy + 2) mod 153" "(5 * doy + 2) mod 153 < 153"
    unfolding mp_def by simp_all
  have f: "153 * mp + 2 = 5 * ((153 * mp + 2) div 5) + (153 * mp + 2) mod 5" "(153 * mp + 2) mod 5 < 5"
    by simp_all
  note arith = month_arith[OF assms(1) e f]
  show "mp \<le> 11" "(153 * mp + 2) div 5 \<le> doy" "doy < (153 * mp + 2) div 5 + 31" by (rule arith)+
qed

lemma civil_date_inverse:
  assumes small: "days + 719468 < u64_limit"
    and date: "epoch_days_to_date days = (year, month, day)"
  shows "days_from_civil year month day = Some days" "1 \<le> month \<and> month \<le> 12 \<and> 1 \<le> day \<and> day \<le> 31"
proof -
  define n where "n = days + 719468"
  define era where "era = n div 146097"
  define doe where "doe = n - era * 146097"
  define yoe where "yoe = year_of_era doe"
  define doy where "doy = doe - year_start yoe"
  define mp where "mp = (5 * doy + 2) div 153"
  have doe: "doe < 146097" "n = era * 146097 + doe" by (simp_all add: doe_def era_def minus_div_mult_eq_mod)
  have yoe: "yoe \<le> 399" "year_start yoe \<le> doe" "doy \<le> 365" using year_bounds[OF doe(1)] by (auto simp: yoe_def doy_def)
  have mp: "mp \<le> 11" "(153 * mp + 2) div 5 \<le> doy" "doy < (153 * mp + 2) div 5 + 31"
    using month_of_doy[OF yoe(3)] by (simp_all add: mp_def)
  define m where "m = (if mp < 10 then mp + 3 else mp - 9)"
  define d where "d = doy - (153 * mp + 2) div 5 + 1"
  have unwrapped: "(days + 719468) mod u64_limit = n" using small by (simp add: n_def)
  have split: "epoch_days_to_date days = (if m \<le> 2 then yoe + era * 400 + 1 else yoe + era * 400, m, d)"
    unfolding epoch_days_to_date_def unwrapped year_of_era_def year_start_def Let_def m_def d_def mp_def doy_def yoe_def
      doe_def era_def by (rule refl)
  have ymd: "year = (if m \<le> 2 then yoe + era * 400 + 1 else yoe + era * 400)" "month = m" "day = d"
    using date[unfolded split prod.inject] by - (elim conjE, erule sym)+
  show range: "1 \<le> month \<and> month \<le> 12 \<and> 1 \<le> day \<and> day \<le> 31" using mp by (auto simp: ymd m_def d_def)
  have y: "year - (if m \<le> 2 then 1 else 0) = yoe + era * 400" "\<not> year < (if m \<le> 2 then 1 else 0)"
    by (simp_all add: ymd)
  have mp_back: "(if 2 < m then m - 3 else m + 9) = mp" using mp by (auto simp: m_def)
  have "(153 * mp + 2) div 5 + d - 1 = doy" using mp by (simp add: d_def)
  moreover have "yoe * 365 + yoe div 4 - yoe div 100 + doy = doe"
    using yoe by (simp add: doy_def year_start_def mult.commute)
  moreover have "(yoe + era * 400) div 400 = era" using yoe by simp
  ultimately show "days_from_civil year month day = Some days"
    using range small doe(2) unfolding days_from_civil_def ymd(2,3) y(1) Let_def
    by (simp add: y mp_back n_def ymd(2,3))
qed


text \<open>
  C32 (dates). The two conversions used by a trace pack are inverse: \<open>days_from_civil\<close> of the
  date that \<open>epoch_days_to_date\<close> gives for a day returns the day, the date has a month of 1 to 12 and
  a day of 1 to 31, so two days never share a date; for every day count below the range of \<open>u64\<close>.
\<close>

theorem civil_date_roundtrip:
  assumes "days + 719468 < u64_limit"
  shows "case epoch_days_to_date days of (year, month, day) \<Rightarrow>
           days_from_civil year month day = Some days
           \<and> 1 \<le> month \<and> month \<le> 12 \<and> 1 \<le> day \<and> day \<le> 31"
  using civil_date_inverse[OF assms] by (auto split: prod.split)

lemma civil_date_roundtrip_witness:
  "epoch_days_to_date 20526 = (2026, 3, 14) \<and> days_from_civil 2026 3 14 = Some 20526"
proof -
  have "20526 + 719468 < u64_limit" by (simp add: u64_limit_def)
  moreover have "epoch_days_to_date 20526 = (2026, 3, 14)" by (simp add: epoch_days_to_date_def u64_limit_def cong: let_weak_cong)
  ultimately show ?thesis using civil_date_roundtrip[of 20526] by simp
qed

section \<open>Durations\<close>

lemma duration_loop_bound: "duration_loop acc num cs = Some t \<Longrightarrow> acc < u64_limit \<Longrightarrow> t < u64_limit"
  by (induction acc num cs rule: duration_loop.induct) (auto split: if_splits option.splits)

lemma duration_loop_digits:
  "list_all ascii_digit ds \<Longrightarrow> duration_loop acc num (ds @ cs) = duration_loop acc (num @ ds) cs"
  by (induction ds arbitrary: num) simp_all

section \<open>Diagnosis\<close>

text \<open>
  A message is neither pending nor unacknowledged nor redelivered.
\<close>

definition caught_up :: "refresh_durable \<Rightarrow> bool" where
  "caught_up x = (rd_num_pending x = 0 \<and> rd_num_ack_pending x = 0 \<and> rd_num_redelivered x = 0)"

text \<open>The last activity was seen at most \<open>win\<close> seconds before the state was taken.\<close>

definition active_within :: "nat \<Rightarrow> refresh_durable \<Rightarrow> bool" where
  "active_within win x =
     (case (rd_last_active x, rd_observed x) of (Some t, Some now) \<Rightarrow> t \<le> now \<and> now - t \<le> win | _ \<Rightarrow> False)"

lemma recent_lag_iff: "recent_lag win x \<longleftrightarrow> (has_backlog x \<longrightarrow> active_within win x)"
  by (auto simp: recent_lag_def active_within_def lag_age_seconds_def split: option.split)

lemma caught_up_iff: "caught_up x \<longleftrightarrow> \<not> has_backlog x \<and> rd_num_redelivered x = 0"
  by (auto simp: caught_up_def has_backlog_def)

text \<open>
  C31 (diagnosis of the refresh consumers). When both refresh durables are reported and both
  intervals are known, the status is healthy exactly when the intervals are equal and no durable has
  pending, unacknowledged or redelivered messages. Otherwise the first that applies of cadence mismatch,
  redelivery, transient lag (all backlog active within two intervals, at least 30 s, or 60 s when the
  interval cannot be parsed) and stalled refresh is the mode. A next step is given exactly when degraded; without telemetry or
  without any durable it is always degraded.
\<close>

theorem refresh_classified:
  assumes both: "{''consumer-runtime-refresh-v1'', ''emulator-runtime-refresh-v1''} \<subseteq> rd_name ` set d"
  shows "let h = classify_refresh_status (Some i) (Some j) (Some d);
             win = (case parse_simple_duration_seconds i of Some s \<Rightarrow> max (min (2 * s) (2 ^ 64 - 1)) 30 | None \<Rightarrow> 60);
             redelivered = (\<exists>x\<in>set d. 0 < rd_num_redelivered x);
             lagging = (\<exists>x\<in>set d. has_backlog x);
             recent = (\<forall>x\<in>set d. has_backlog x \<longrightarrow> active_within win x)
         in (rh_state h = RefreshHealthy \<longleftrightarrow> i = j \<and> (\<forall>x\<in>set d. caught_up x))
            \<and> rh_mode h = (if i \<noteq> j then CadenceMismatch else if redelivered then RedeliveryDetected
                 else if lagging then (if recent then TransientLag else StalledRefresh) else CaughtUp)
            \<and> (rh_state h = RefreshHealthy \<longleftrightarrow> rh_next_step h = None)
            \<and> rh_state (classify_refresh_status ci ei None) = RefreshDegraded
            \<and> rh_state (classify_refresh_status ci ei (Some [])) = RefreshDegraded"
proof -
  obtain y ys where d: "d = y # ys" using both by (cases d) auto
  have win: "(case cadence_window_seconds (Some i) (Some i) of Some w \<Rightarrow> w | None \<Rightarrow> 60)
      = (case parse_simple_duration_seconds i of Some s \<Rightarrow> max (min (2 * s) (2 ^ 64 - 1)) 30 | None \<Rightarrow> 60)"
    by (simp add: cadence_window_seconds_def u64_limit_def mult.commute split: option.split)
  define w where "w = (case parse_simple_duration_seconds i of Some s \<Rightarrow> max (min (2 * s) (2 ^ 64 - 1)) 30 | None \<Rightarrow> (60 :: nat))"
  have h: "classify_refresh_status (Some i) (Some j) (Some d)
      = classify_durables (case cadence_window_seconds (Some i) (Some j) of Some w \<Rightarrow> w | None \<Rightarrow> 60) (i \<noteq> j) d"
    by (simp add: classify_refresh_status_def d)
  have none: "rh_state (classify_refresh_status ci ei None) = RefreshDegraded"
    "rh_state (classify_refresh_status ci ei (Some [])) = RefreshDegraded"
    by (simp_all add: classify_refresh_status_def degraded_def Let_def)
  show ?thesis
  proof (cases "i = j")
    case True
    then have "classify_refresh_status (Some i) (Some j) (Some d) = classify_durables w False d"
      using h win by (simp add: w_def)
    then show ?thesis
      unfolding Let_def none w_def[symmetric]
      by (auto simp: True classify_durables_def degraded_def Let_def list_ex_iff list_all_iff recent_lag_iff
          caught_up_iff)
  next
    case False
    then show ?thesis unfolding Let_def h none by (simp add: classify_durables_def degraded_def Let_def)
  qed
qed

definition idle_durable :: "string \<Rightarrow> refresh_durable" where
  "idle_durable name =
     \<lparr>rd_name = name, rd_num_pending = 0, rd_num_ack_pending = 0, rd_num_redelivered = 0, rd_delivered_seq = 4,
      rd_ack_floor_seq = 4, rd_last_active = Some 120, rd_observed = Some 120\<rparr>"

lemma refresh_classified_witness:
  "rh_state (classify_refresh_status (Some ''30s'') (Some ''30s'')
      (Some [idle_durable ''consumer-runtime-refresh-v1'', idle_durable ''emulator-runtime-refresh-v1''])) = RefreshHealthy
   \<and> rh_mode (classify_refresh_status (Some ''30s'') (Some ''30s'')
      (Some [idle_durable ''consumer-runtime-refresh-v1'',
             idle_durable ''emulator-runtime-refresh-v1''\<lparr>rd_num_redelivered := 2\<rparr>])) = RedeliveryDetected"
  using refresh_classified[of "[idle_durable ''consumer-runtime-refresh-v1'', idle_durable ''emulator-runtime-refresh-v1'']"
      "''30s''" "''30s''"]
    refresh_classified[of "[idle_durable ''consumer-runtime-refresh-v1'',
      idle_durable ''emulator-runtime-refresh-v1''\<lparr>rd_num_redelivered := 2\<rparr>]" "''30s''" "''30s''"]
  by (simp add: Let_def idle_durable_def caught_up_def)

text \<open>
  Where the code departs from the frozen decision: an absent durable and absent intervals must be
  degraded, but one idle durable is enough to be healthy, and two unknown intervals are equal ones.
\<close>

theorem absent_durable_is_healthy:
  "rh_state (classify_refresh_status (Some i) (Some i) (Some [idle_durable ''consumer-runtime-refresh-v1''])) = RefreshHealthy"
  by (simp add: classify_refresh_status_def classify_durables_def idle_durable_def has_backlog_def Let_def)

theorem absent_intervals_are_aligned:
  "rh_state (classify_refresh_status None None
      (Some [idle_durable ''consumer-runtime-refresh-v1'', idle_durable ''emulator-runtime-refresh-v1''])) = RefreshHealthy"
  by (simp add: classify_refresh_status_def classify_durables_def idle_durable_def has_backlog_def Let_def)

section \<open>The pack\<close>

lemma rfind_char_last:
  "c \<notin> set f \<Longrightarrow> rfind_char (a @ c # f) c = Some (length a)"
  using find_sub_single_append[of c "rev f" "rev a"] by (simp add: rfind_char_def)

lemma path_parent_file:
  assumes "CHR ''/'' \<notin> set f" "f \<noteq> []"
  shows "path_parent (a @ CHR ''/'' # f)
         = (let r = trim_end_char a CHR ''/'' in Some (if r = [] then ''/'' else r))"
proof -
  have "last f \<in> set f" using assms(2) by simp
  then have "rev f \<noteq> []" "hd (rev f) \<noteq> CHR ''/''" using assms by (simp, metis hd_rev)
  then have "trim_end_char (a @ CHR ''/'' # f) CHR ''/'' = a @ CHR ''/'' # f"
    by (cases "rev f") (auto simp: trim_end_char_def rev_swap)
  then show ?thesis using rfind_char_last[OF assms(1)] by (simp add: path_parent_def Let_def)
qed

definition compose_file_of :: "string \<Rightarrow> string" where
  "compose_file_of root = path_join root ''deploy/compose/docker-compose.yaml''"

lemma compose_parent: "\<exists>dir. path_parent (compose_file_of root) = Some dir"
proof -
  have "compose_file_of root
      = (if root = [] \<or> last root = CHR ''/'' then root else root @ ''/'') @ ''deploy/compose'' @ CHR ''/'' # ''docker-compose.yaml''"
    by (simp add: compose_file_of_def path_join_def)
  then obtain pre where "compose_file_of root = (pre @ ''deploy/compose'') @ CHR ''/'' # ''docker-compose.yaml''"
    by (metis append_assoc)
  then show ?thesis using path_parent_file[of "''docker-compose.yaml''" "pre @ ''deploy/compose''"]
    by (simp add: Let_def)
qed

text \<open>The files a pack can hold, in the order they are collected.\<close>

definition pack_files :: "string list" where
  "pack_files =
     [''compose-status.txt'', ''nats/healthz.json'', ''nats/jsz.json'', ''healthz.json'', ''readyz.json'',
      ''active-config.json'', ''configctl-runtime-projections.json'', ''ingestion-bindings.json'',
      ''validator-runtime.json'', ''validation-results.json'', ''validation-incidents.json'']
     @ map (\<lambda>f. ''configs/'' @ f) config_files @ map (\<lambda>f. ''logs/'' @ f @ ''.log'') services"

lemma pack_files_distinct: "distinct (''SUMMARY.md'' # pack_files)" "length pack_files = 23"
  by (simp_all add: pack_files_def config_files_def services_def)

lemma ev_file_evidence: "ev_file (mk_evidence n f c s) = f"
  by (simp add: mk_evidence_def)

lemma collect_url_file: "ev_file (collect_url e n f u) = f"
  by (simp add: collect_url_def ev_file_evidence Let_def split: url_answer.split)

lemma endpoint_files:
  "map ev_file (collect_endpoints e c)
   = [''nats/healthz.json'', ''nats/jsz.json'', ''healthz.json'', ''readyz.json'',
      ''active-config.json'', ''configctl-runtime-projections.json'', ''ingestion-bindings.json'',
      ''validator-runtime.json'', ''validation-results.json'', ''validation-incidents.json'']"
  by (simp add: collect_endpoints_def collect_endpoint_def collect_external_endpoint_def collect_url_file)

lemma config_file: "ev_file (collect_config e c f) = ''configs/'' @ f"
  by (simp add: collect_config_def ev_file_evidence Let_def split: read_answer.split)

lemma map_option_file: "map_option F r = Some v \<Longrightarrow> (\<And>x. ev_file (F x) = n) \<Longrightarrow> ev_file v = n"
  by auto

lemma log_file: "collect_log e c dir s = Some v \<Longrightarrow> ev_file v = ''logs/'' @ s @ ''.log''"
  unfolding collect_log_def Let_def by (erule map_option_file) (simp add: ev_file_evidence split: sum.split)

lemma status_file: "collect_compose_status e c = Some v \<Longrightarrow> ev_file v = ''compose-status.txt''"
  unfolding collect_compose_status_def Let_def
  by (cases "path_parent (cl_compose_file c)")
    (auto simp: ev_file_evidence split: sum.split elim!: map_option_file)

lemma those_map: "those (map f xs) = Some ys \<Longrightarrow> (\<And>x y. f x = Some y \<Longrightarrow> g y = h x) \<Longrightarrow> map g ys = map h xs"
  by (induction xs arbitrary: ys) (auto split: option.splits)

lemma collect_all_files:
  assumes "collect_all e (collector_new (compose_file_of root) url root ll rl) = Some evs"
  shows "map ev_file evs = pack_files"
proof -
  define c where "c = collector_new (compose_file_of root) url root ll rl"
  obtain dir where "path_parent (cl_compose_file c) = Some dir"
    using compose_parent[of root] by (auto simp: c_def collector_new_def)
  then obtain s ls where s: "collect_compose_status e c = Some s" "those (map (collect_log e c dir) services) = Some ls"
    and evs: "evs = s # collect_endpoints e c @ map (collect_config e c) config_files @ ls"
    using assms by (auto simp: collect_all_def collect_service_logs_def c_def[symmetric] split: option.splits)
  have "map ev_file ls = map (\<lambda>f. ''logs/'' @ f @ ''.log'') services"
    by (rule those_map[OF s(2)]) (rule log_file)
  then show ?thesis using status_file[OF s(1)]
    by (simp add: evs endpoint_files config_file comp_def pack_files_def)
qed

lemma do_actions_ok: "do_actions k as = (bs, Inr u) \<Longrightarrow> bs = as \<and> (\<forall>a \<in> set as. dk_answer k a = None)"
  by (induction as arbitrary: bs) (auto split: option.splits prod.splits)

lemma do_actions_accepted: "(\<And>a. a \<in> set as \<Longrightarrow> dk_answer k a = None) \<Longrightarrow> do_actions k as = (as, Inr ())"
  by (induction as) auto

lemma do_actions_prefix: "do_actions k as = (bs, res) \<Longrightarrow> set bs \<subseteq> set as"
  by (induction as arbitrary: bs) (auto split: option.splits prod.splits)

definition pack_dir_of :: "pack_config \<Rightarrow> string \<Rightarrow> string" where
  "pack_dir_of cfg timestamp = path_join (pc_output_dir cfg) (''trace-pack-'' @ timestamp)"

lemma finish_pack_ok:
  assumes "finish_pack k cfg dir name = (as, Inr path)"
  shows "if pc_compress cfg
         then \<exists>args err. as = [RunTar args, RemoveDir dir] \<and> dk_tar k args = Inr (True, err)
                \<and> dk_answer k (RemoveDir dir) = None
         else as = [] \<and> path = dir"
  using assms by (auto simp: finish_pack_def compress_pack_def Let_def
      split: if_splits sum.splits prod.splits bool.splits option.splits)

lemma finish_pack_removes:
  assumes "finish_pack k cfg dir name = (as, res)" "RemoveDir p \<in> set as"
  shows "p = dir \<and> (\<exists>args err. as = [RunTar args, RemoveDir p] \<and> dk_tar k args = Inr (True, err))"
  using assms by (auto simp: finish_pack_def compress_pack_def Let_def
      split: if_splits sum.splits prod.splits bool.splits option.splits)

lemma pack_writes_mem:
  "\<lbrakk>x \<in> set evs; ev_status x = EvidenceOk\<rbrakk>
   \<Longrightarrow> WriteFile (dir @ ''/'' @ ev_file x) (ev_content x) \<in> set (pack_writes dir summary evs)"
  by (auto simp: pack_writes_def write_evidence_def is_ok_def Let_def)

lemma pack_writes_no_remove: "RemoveDir p \<notin> set (pack_writes dir summary evs)"
  by (auto simp: pack_writes_def write_evidence_def Let_def split: option.splits)

definition summary_of :: "'j value_api \<Rightarrow> (string \<Rightarrow> 'j option) \<Rightarrow> string \<Rightarrow> evidence list \<Rightarrow> string" where
  "summary_of J fs ts evs =
     pack_summary J fs ts evs (map entry_of (filter is_ok evs)) (map entry_of (filter (\<lambda>x. \<not> is_ok x) evs))"

lemma write_pack_ok:
  assumes "write_pack J fs k cfg ts evs = (acts, Inr r)"
  shows "pr_collected r = map entry_of (filter is_ok evs)" "pr_failed r = map entry_of (filter (\<lambda>x. \<not> is_ok x) evs)"
    "pr_summary r = summary_of J fs ts evs"
    "\<exists>cs. acts = pack_writes (pack_dir_of cfg ts) (pr_summary r) evs @ cs
          \<and> (\<forall>a \<in> set (pack_writes (pack_dir_of cfg ts) (pr_summary r) evs). dk_answer k a = None)"
  using assms
  by (auto simp: write_pack_def Let_def summary_of_def pack_dir_of_def dest!: do_actions_ok
      split: prod.splits sum.splits)

lemma write_pack_removes:
  assumes "write_pack J fs k cfg ts evs = (acts, res)" "RemoveDir p \<in> set acts"
  shows "p = pack_dir_of cfg ts
         \<and> (\<exists>pre args err. acts = pre @ [RunTar args, RemoveDir p] \<and> dk_tar k args = Inr (True, err)
              \<and> pre = pack_writes p (summary_of J fs ts evs) evs \<and> (\<forall>a \<in> set pre. dk_answer k a = None))"
proof -
  define dir where "dir = pack_dir_of cfg ts"
  define ws where "ws = pack_writes dir (summary_of J fs ts evs) evs"
  have no: "RemoveDir p \<notin> set as" if "do_actions k ws = (as, x)" for as x
    using do_actions_prefix[OF that] pack_writes_no_remove by (auto simp: ws_def)
  obtain as x where as: "do_actions k ws = (as, x)" by force
  obtain cs path where cs: "finish_pack k cfg dir (''trace-pack-'' @ ts) = (cs, path)" by force
  have acts: "acts = (case x of Inl _ \<Rightarrow> as | Inr _ \<Rightarrow> as @ cs)"
    using assms(1) as cs
    by (auto simp: write_pack_def Let_def summary_of_def pack_dir_of_def dir_def ws_def split: sum.splits)
  then obtain u where x: "x = Inr u" and mem: "RemoveDir p \<in> set cs"
    using assms(2) no[OF as] by (cases x) auto
  show ?thesis
    using finish_pack_removes[OF cs mem] do_actions_ok[OF as[unfolded x]]
    by (auto simp: acts x dir_def ws_def)
qed

lemma trace_pack_run_eq:
  "trace_pack_run J fs e k now cfg =
     (let ts = timestamp_of now; a = MakeDir (pack_dir_of cfg ts) in
      case dk_answer k a of
        Some err \<Rightarrow> Some ([a], Inl (Io err))
      | None \<Rightarrow> map_option (\<lambda>evs. let w = write_pack J fs k cfg ts evs in (a # fst w, snd w))
                  (collect_all e (collector_of cfg)))"
proof -
  have "(case write_pack J fs k cfg ts evs of (bs, res) \<Rightarrow> ([a] @ bs, res))
        = (let w = write_pack J fs k cfg ts evs in (a # fst w, snd w))" for a ts evs
    by (simp add: Let_def split: prod.split)
  then show ?thesis
    unfolding trace_pack_run_def Let_def pack_dir_of_def by (simp split: option.split)
qed

lemma trace_pack_run_cases:
  assumes "trace_pack_run J fs e k now cfg = Some (acts, res)"
  obtains (no_dir) err where "acts = [MakeDir (pack_dir_of cfg (timestamp_of now))]" "res = Inl err"
  | (written) evs bs where "collect_all e (collector_of cfg) = Some evs"
      "acts = MakeDir (pack_dir_of cfg (timestamp_of now)) # bs"
      "dk_answer k (MakeDir (pack_dir_of cfg (timestamp_of now))) = None"
      "write_pack J fs k cfg (timestamp_of now) evs = (bs, res)"
proof (cases "dk_answer k (MakeDir (pack_dir_of cfg (timestamp_of now)))")
  case (Some err)
  then show thesis using assms by (intro no_dir[of "Io err"]) (simp_all add: trace_pack_run_eq Let_def)
next
  case None
  then obtain evs where evs: "collect_all e (collector_of cfg) = Some evs"
    "acts = MakeDir (pack_dir_of cfg (timestamp_of now)) # fst (write_pack J fs k cfg (timestamp_of now) evs)"
    "res = snd (write_pack J fs k cfg (timestamp_of now) evs)"
    using assms by (auto simp: trace_pack_run_eq Let_def)
  show thesis by (rule written[OF evs(1,2) None]) (unfold evs(3), rule surjective_pairing)
qed

lemma pack_writes_files:
  "WriteFile p t \<in> set (pack_writes dir summary evs)
     \<longleftrightarrow> p = dir @ ''/SUMMARY.md'' \<and> t = summary
       \<or> (\<exists>x\<in>set evs. ev_status x = EvidenceOk \<and> p = dir @ ''/'' @ ev_file x \<and> t = ev_content x)"
  by (auto simp: pack_writes_def write_evidence_def is_ok_def Let_def split: option.splits)

lemma finish_pack_writes_none: "finish_pack k cfg dir name = (as, res) \<Longrightarrow> WriteFile p t \<notin> set as"
  by (auto simp: finish_pack_def compress_pack_def Let_def
      split: if_splits sum.splits prod.splits bool.splits option.splits)

lemma write_pack_files:
  assumes "write_pack J fs k cfg ts evs = (acts, Inr r)"
  shows "WriteFile p t \<in> set acts \<longleftrightarrow> WriteFile p t \<in> set (pack_writes (pack_dir_of cfg ts) (pr_summary r) evs)"
    and "WriteFile p t \<in> set acts \<Longrightarrow> dk_answer k (WriteFile p t) = None"
proof -
  define ws where "ws = pack_writes (pack_dir_of cfg ts) (summary_of J fs ts evs) evs"
  obtain as x where as: "do_actions k ws = (as, x)" by fastforce
  obtain cs path where cs: "finish_pack k cfg (pack_dir_of cfg ts) (''trace-pack-'' @ ts) = (cs, path)" by fastforce
  have "acts = (case x of Inl _ \<Rightarrow> as | Inr _ \<Rightarrow> as @ cs) \<and> \<not> isl x"
    using assms as cs
    by (auto simp: write_pack_def Let_def summary_of_def pack_dir_of_def ws_def split: prod.splits sum.splits)
  then have x: "x = Inr ()" and acts: "acts = as @ cs" by (cases x; simp)+
  have ws: "as = ws" "\<forall>a\<in>set ws. dk_answer k a = None" using do_actions_ok[OF as[unfolded x]] by auto
  have sm: "pr_summary r = summary_of J fs ts evs" by (rule write_pack_ok(3)[OF assms])
  show mem: "WriteFile p t \<in> set acts \<longleftrightarrow> WriteFile p t \<in> set (pack_writes (pack_dir_of cfg ts) (pr_summary r) evs)"
    using finish_pack_writes_none[OF cs] by (auto simp: acts sm ws(1) ws_def)
  show "dk_answer k (WriteFile p t) = None" if "WriteFile p t \<in> set acts"
    using ws(2) that mem by (simp add: sm ws_def)
qed

text \<open>
  C29 (pack contents). A run that reports a pack has written exactly these files to its directory, each
  accepted by the disk: every piece of evidence that could be collected, under its own file name and
  with its content, and SUMMARY.md with the summary of the report. There are 23 pieces with 23 distinct
  file names; the report lists each once, in order, as collected or as failed.
\<close>

theorem pack_complete:
  assumes run: "trace_pack_run J fs e k now cfg = Some (acts, Inr r)"
  shows "let dir = path_join (pc_output_dir cfg) (''trace-pack-'' @ timestamp_of now) in
     \<exists>evs. collect_all e (collector_of cfg) = Some evs \<and> map ev_file evs = pack_files
     \<and> distinct (''SUMMARY.md'' # map ev_file evs)
     \<and> {(p, t). WriteFile p t \<in> set acts}
         = insert (dir @ ''/SUMMARY.md'', pr_summary r)
             {(dir @ ''/'' @ ev_file x, ev_content x) | x. x \<in> set evs \<and> ev_status x = EvidenceOk}
     \<and> {WriteFile p t | p t. WriteFile p t \<in> set acts} \<subseteq> {a. dk_answer k a = None}
     \<and> map ee_file (pr_collected r) = map ev_file (filter (\<lambda>x. ev_status x = EvidenceOk) evs)
     \<and> map ee_file (pr_failed r) = map ev_file (filter (\<lambda>x. ev_status x \<noteq> EvidenceOk) evs)
     \<and> length (pr_collected r) + length (pr_failed r) = 23"
  using run
proof (cases rule: trace_pack_run_cases)
  case (written evs bs)
  let ?dir = "pack_dir_of cfg (timestamp_of now)"
  note ok = write_pack_ok[OF written(4)]
  have files: "map ev_file evs = pack_files"
    using written(1) by (auto simp: collector_of_def compose_file_of_def[symmetric] dest!: collect_all_files)
  have "length (filter is_ok evs) + length (filter (\<lambda>x. \<not> is_ok x) evs) = length evs"
    by (rule sum_length_filter_compl)
  moreover have "length evs = 23" using files pack_files_distinct(2) by (metis length_map)
  ultimately have count: "length (pr_collected r) + length (pr_failed r) = 23" by (simp add: ok(1,2))
  have names: "distinct (''SUMMARY.md'' # map ev_file evs)" unfolding files by (rule pack_files_distinct)
  have acts: "WriteFile p t \<in> set acts \<longleftrightarrow> WriteFile p t \<in> set bs" for p t using written(2) by simp
  have written_files: "{(p, t). WriteFile p t \<in> set acts} = insert (?dir @ ''/SUMMARY.md'', pr_summary r)
             {(?dir @ ''/'' @ ev_file x, ev_content x) | x. x \<in> set evs \<and> ev_status x = EvidenceOk}"
    unfolding acts write_pack_files(1)[OF written(4)] pack_writes_files by auto
  have accepted: "{WriteFile p t | p t. WriteFile p t \<in> set acts} \<subseteq> {a. dk_answer k a = None}"
    using write_pack_files(2)[OF written(4)] acts by auto
  have lists: "map ee_file (pr_collected r) = map ev_file (filter (\<lambda>x. ev_status x = EvidenceOk) evs)"
    "map ee_file (pr_failed r) = map ev_file (filter (\<lambda>x. ev_status x \<noteq> EvidenceOk) evs)"
    by (simp_all add: ok(1,2) entry_of_def is_ok_def[abs_def] comp_def)
  show ?thesis unfolding Let_def pack_dir_of_def[symmetric]
    using written(1) files names written_files accepted lists count by blast
qed simp

text \<open>
  C30 (archiving). The directory of a pack is removed only as the last action, after \<open>tar\<close>
  reported success, and when every write before, the summary among them, was accepted; it is the
  directory of this pack.
\<close>

theorem pack_removed_only_when_archived:
  assumes run: "trace_pack_run J fs e k now cfg = Some (acts, res)" and rm: "RemoveDir p \<in> set acts"
  shows "p = pack_dir_of cfg (timestamp_of now)
     \<and> (\<exists>pre args err text. acts = pre @ [RunTar args, RemoveDir p] \<and> dk_tar k args = Inr (True, err)
          \<and> (\<forall>a \<in> set pre. dk_answer k a = None) \<and> WriteFile (p @ ''/SUMMARY.md'') text \<in> set pre)"
  using run
proof (cases rule: trace_pack_run_cases)
  case no_dir
  then show ?thesis using rm by simp
next
  case (written evs bs)
  then have "RemoveDir p \<in> set bs" using rm by simp
  from write_pack_removes[OF written(4) this]
  obtain pre args err where "p = pack_dir_of cfg (timestamp_of now)"
    "bs = pre @ [RunTar args, RemoveDir p]" "dk_tar k args = Inr (True, err)"
    "pre = pack_writes p (summary_of J fs (timestamp_of now) evs) evs" "\<forall>a \<in> set pre. dk_answer k a = None"
    by blast
  then show ?thesis using written(2,3)
    by (intro conjI exI[of _ "MakeDir p # pre"] exI[of _ args] exI[of _ err]
        exI[of _ "summary_of J fs (timestamp_of now) evs"]) (auto simp: pack_writes_def)
qed

text \<open>A machine without docker and without services: only the configuration files are collected.\<close>

definition bare_env :: "nat pack_env" where
  "bare_env =
     \<lparr>pv_http = (\<lambda>_. AnswerFailed ''connection refused''), pv_canonicalize = (\<lambda>_. None),
      pv_docker = (\<lambda>_ _. Inl ''not found''), pv_success = (\<lambda>n. n = 0), pv_read = (\<lambda>_. Contents ''{}''),
      pv_pretty = (\<lambda>_. None)\<rparr>"

definition good_disk :: disk where
  "good_disk = \<lparr>dk_answer = (\<lambda>_. None), dk_tar = (\<lambda>_. Inr (True, []))\<rparr>"

definition bare_config :: pack_config where
  "bare_config =
     \<lparr>pc_project_root = ''p'', pc_base_url = ''http://localhost:8080'', pc_output_dir = ''out'',
      pc_log_lines = 50, pc_results_limit = 10, pc_compress = True\<rparr>"

lemma bare_collect: "\<exists>evs. collect_all bare_env (collector_of cfg) = Some evs"
proof -
  have docker: "run_command_with_timeout (pv_docker bare_env d args) n ctx
                = Some (Inl (''failed to start '' @ ctx @ '': '' @ ''not found''))" for d args n ctx
    by (simp add: run_command_with_timeout_def bare_env_def)
  have "\<exists>s. collect_compose_status bare_env c = Some s" for c
    by (simp add: collect_compose_status_def Let_def docker split: option.split)
  moreover have "\<exists>ls. those (map (collect_log bare_env c dir) xs) = Some ls" for c dir xs
    by (induction xs) (auto simp: collect_log_def docker)
  then have "\<exists>ls. collect_service_logs bare_env c = Some ls" for c
    by (simp add: collect_service_logs_def split: option.split)
  ultimately show ?thesis unfolding collect_all_def by (metis (no_types, lifting) case_prod_conv option.simps(5))
qed

lemma bare_run:
  "\<exists>acts r. trace_pack_run small_api (\<lambda>_. None) bare_env good_disk 0 bare_config = Some (acts, Inr r)
     \<and> RemoveDir (pack_dir_of bare_config (timestamp_of 0)) \<in> set acts"
proof -
  obtain evs where evs: "collect_all bare_env (collector_of bare_config) = Some evs" using bare_collect by blast
  have disk: "do_actions good_disk as = (as, Inr ())" for as
    by (rule do_actions_accepted) (simp add: good_disk_def)
  have fin: "\<exists>bs path. finish_pack good_disk bare_config dir name = (bs, Inr path) \<and> RemoveDir dir \<in> set bs" for dir name
    by (simp add: finish_pack_def compress_pack_def bare_config_def good_disk_def Let_def)
  obtain bs path where "finish_pack good_disk bare_config (pack_dir_of bare_config (timestamp_of 0))
      (''trace-pack-'' @ timestamp_of 0) = (bs, Inr path)" "RemoveDir (pack_dir_of bare_config (timestamp_of 0)) \<in> set bs"
    using fin by blast
  then have "\<exists>acts r. write_pack small_api (\<lambda>_. None) good_disk bare_config (timestamp_of 0) evs = (acts, Inr r)
      \<and> RemoveDir (pack_dir_of bare_config (timestamp_of 0)) \<in> set acts"
    unfolding write_pack_def Let_def disk pack_dir_of_def by simp
  moreover have "dk_answer good_disk a = None" for a by (simp add: good_disk_def)
  ultimately show ?thesis unfolding trace_pack_run_eq Let_def evs by auto
qed

lemma pack_complete_witness:
  "\<exists>acts r. trace_pack_run small_api (\<lambda>_. None) bare_env good_disk 0 bare_config = Some (acts, Inr r)
     \<and> WriteFile (''out/trace-pack-'' @ timestamp_of 0 @ ''/SUMMARY.md'') (pr_summary r) \<in> set acts
     \<and> length (pr_collected r) + length (pr_failed r) = 23"
proof -
  obtain acts r where run: "trace_pack_run small_api (\<lambda>_. None) bare_env good_disk 0 bare_config = Some (acts, Inr r)"
    using bare_run by blast
  have dir: "path_join (pc_output_dir bare_config) (''trace-pack-'' @ timestamp_of 0) = ''out/trace-pack-'' @ timestamp_of 0"
    by (simp add: path_join_def bare_config_def)
  have "(''out/trace-pack-'' @ timestamp_of 0 @ ''/SUMMARY.md'', pr_summary r) \<in> {(p, t). WriteFile p t \<in> set acts}
      \<and> length (pr_collected r) + length (pr_failed r) = 23"
    using pack_complete[OF run] unfolding Let_def dir by auto
  with run show ?thesis by auto
qed

lemma pack_removed_only_when_archived_witness:
  "\<exists>pre args res. trace_pack_run small_api (\<lambda>_. None) bare_env good_disk 0 bare_config
     = Some (pre @ [RunTar args, RemoveDir (pack_dir_of bare_config (timestamp_of 0))], res)"
proof -
  obtain acts r where run: "trace_pack_run small_api (\<lambda>_. None) bare_env good_disk 0 bare_config = Some (acts, Inr r)"
    and rm: "RemoveDir (pack_dir_of bare_config (timestamp_of 0)) \<in> set acts"
    using bare_run by blast
  show ?thesis using run pack_removed_only_when_archived[OF run rm] by auto
qed

end
