(* ===== verification/ResultsRender.thy ===== *)
theory ResultsRender
  imports Gate ResultsInspect
begin

text \<open>
  The human rendering of validation results (\<open>results_inspect/mod.rs\<close>), its pass rates with the
  \<open>f64\<close> arithmetic of the quality gate.
\<close>

text \<open>
  A quotient of at most 1 rounded to 53 significant bits, as \<open>(m, e)\<close> for \<open>m / 2^e\<close>; a product by
  100 rounded to 53 bits; and the rounding of \<open>{rate:.0}\<close> to an even integer.
\<close>

definition f64_ratio :: "nat \<Rightarrow> nat \<Rightarrow> nat \<times> nat" where
  "f64_ratio n d =
     (let s = 53 + bit_len d;
          k = bit_len (n * 2 ^ s div d) - 53
      in (round_half_even (n * 2 ^ s) (d * 2 ^ k), s - k))"

definition pass_rate :: "nat \<Rightarrow> nat \<Rightarrow> nat" where
  "pass_rate passed failed =
     (if passed + failed = 0 then 0
      else
        (let (m, e) = f64_ratio (f64_of_nat passed) (f64_of_nat (passed + failed))
         in round_half_even (f64_of_nat (m * 100)) (2 ^ e)))"

definition render_binding :: "string \<times> binding_summary \<Rightarrow> string" where
  "render_binding e =
     (case e of (name, b) \<Rightarrow>
        ''  '' @ name @ '' (topic: '' @ bs_topic b @ '')  passed: '' @ show_nat (bs_passed b) @ '' / failed: ''
        @ show_nat (bs_failed b) @ '' ('' @ show_nat (pass_rate (bs_passed b) (bs_failed b)) @ ''% pass rate)'' @ nl)"

definition render_filters :: "filters_applied \<Rightarrow> string" where
  "render_filters f =
     nl @ ''Filters: scope='' @ fa_scope_kind f @ ''/'' @ fa_scope_key f @ nl
     @ (case fa_binding_name f of Some b \<Rightarrow> '', binding='' @ b | None \<Rightarrow> [])
     @ (case fa_topic f of Some t \<Rightarrow> '', topic='' @ t | None \<Rightarrow> [])
     @ (if fa_failed_only f then '', failed-only'' else []) @ nl"

definition render_violation :: "violation_record \<Rightarrow> string" where
  "render_violation v =
     ''         - ['' @ vr_severity v @ ''] '' @ vr_rule v @ '': '' @ vr_field v @ '' ('' @ vr_operator v @ '') ''
     @ vr_message v @ nl"

definition render_result :: "result_record \<Rightarrow> string" where
  "render_result r =
     nl @ ''  ['' @ (if rs_status r = ''passed'' then ''PASS'' else ''FAIL'') @ ''] msg='' @ rs_message_id r
     @ '' binding='' @ rs_binding r @ '' topic='' @ rs_topic r @ nl
     @ ''         config='' @ rs_config_key r @ '' v'' @ show_nat (rs_config_version r) @ '' at '' @ rs_processed_at r @ nl
     @ (case rs_correlation_id r of Some c \<Rightarrow> ''         correlation_id='' @ c @ nl | None \<Rightarrow> [])
     @ concat (map render_violation (rs_violations r))"

definition shown_results :: "inspect_report \<Rightarrow> bool \<Rightarrow> result_record list" where
  "shown_results r verbose =
     (if verbose then ir_results r else filter (\<lambda>x. rs_status x = ''failed'') (ir_results r))"

definition render_results :: "inspect_report \<Rightarrow> bool \<Rightarrow> string" where
  "render_results r verbose =
     (if verbose \<or> 0 < sm_failed (ir_summary r) then
        nl @ (let rs = shown_results r verbose in
              if rs = [] then []
              else (if verbose then ''Results'' else ''Failed results'') @ '' ('' @ show_nat (length rs) @ '' shown):'' @ nl
                   @ concat (map render_result rs))
      else [])"

definition inspect_verdict :: "summary \<Rightarrow> string" where
  "inspect_verdict s =
     nl @ (if sm_failed s = 0 then ''> All validations passed.'' @ nl
           else ''> '' @ show_nat (sm_failed s) @ (if sm_failed s = 1 then '' result'' else '' results'')
                @ '' failed '' @ em_dash @ '' review violations above.'' @ nl)"

definition render_inspect :: "inspect_report \<Rightarrow> bool \<Rightarrow> string" where
  "render_inspect r verbose =
     (let s = ir_summary r in
      ''=== Validation Results Inspection ==='' @ nl @ nl
      @ ''Total: '' @ show_nat (sm_total s) @ ''  |  Passed: '' @ show_nat (sm_passed s) @ ''  |  Failed: ''
      @ show_nat (sm_failed s) @ nl
      @ (if sm_total s = 0 then
           nl @ ''No validation results found.'' @ nl
           @ ''This may mean the validator has not processed any messages yet,'' @ nl
           @ ''or the applied filters excluded all results.'' @ nl
           @ (case ir_filters_applied r of Some f \<Rightarrow> render_filters f | None \<Rightarrow> [])
         else
           (if sm_bindings s = [] then []
            else nl @ ''Bindings:'' @ nl @ concat (map render_binding (sm_bindings s)))
           @ (if sm_violation_rules s = [] then []
              else nl @ ''Violation rules:'' @ nl
                   @ concat (map (\<lambda>(rule, n). ''  '' @ rule @ '': '' @ show_nat n @ nl)
                       (sort_key (\<lambda>e. - int (snd e)) (sm_violation_rules s))))
           @ render_results r verbose
           @ inspect_verdict s))"

text \<open>The filters after the scope start a line of their own.\<close>

lemma filters_on_new_line:
  "render_filters \<lparr>fa_scope_kind = ''global'', fa_scope_key = ''default'', fa_binding_name = Some ''orders'',
     fa_topic = None, fa_failed_only = True, fa_limit = 5\<rparr>
   = nl @ ''Filters: scope=global/default'' @ nl @ '', binding=orders, failed-only'' @ nl"
  by (simp add: render_filters_def)

section \<open>The printed rate\<close>

lemma bit_len_gt: "n < 2 ^ bit_len n"
proof (induction n rule: bit_len.induct)
  case (1 n)
  show ?case
  proof (cases "n = 0")
    case True
    then show ?thesis by simp
  next
    case False
    then have "n div 2 < 2 ^ bit_len (n div 2)" by (rule 1)
    then show ?thesis using False by (simp add: bit_len.simps [of n])
  qed
qed

lemma round_half_even_le: "round_half_even a b \<le> a div b + 1"
  by (simp add: round_half_even_def Let_def)

lemma f64_of_nat_error:
  assumes "n < 2 ^ (53 + k)"
  shows "2 * \<bar>int (f64_of_nat n) - int n\<bar> \<le> 2 ^ k"
proof (cases "bit_len n - 53 = 0")
  case True
  then show ?thesis by (simp add: f64_of_nat_def)
next
  case False
  define j where "j = bit_len n - 53"
  have j: "j \<le> k" using bit_len_le [OF assms] by (simp add: j_def)
  have "f64_of_nat n = round_half_even n (2 ^ j) * 2 ^ j" using False by (simp add: f64_of_nat_def j_def Let_def)
  then have "2 * \<bar>int (f64_of_nat n) - int n\<bar> \<le> 2 ^ j"
    using round_half_even_error [of "2 ^ j" n] by simp
  also have "(2 :: int) ^ j \<le> 2 ^ k" using j by (simp add: power_increasing)
  finally show ?thesis .
qed

lemma f64_ratio_error:
  assumes d: "0 < d" and le: "n \<le> d" and r: "f64_ratio n d = (m, e)"
  shows "52 \<le> e" "m \<le> 2 ^ 53" "2 * \<bar>int m * int d - int n * 2 ^ e\<bar> \<le> int d"
proof -
  define s where "s = 53 + bit_len d"
  define q where "q = n * 2 ^ s div d"
  define k where "k = bit_len q - 53"
  have m: "m = round_half_even (n * 2 ^ s) (d * 2 ^ k)" and e: "e = s - k"
    using r by (simp_all add: f64_ratio_def Let_def s_def q_def k_def)
  have "q \<le> d * 2 ^ s div d" unfolding q_def by (rule div_le_mono) (simp add: le)
  then have "q \<le> 2 ^ s" using d by simp
  also have "(2 :: nat) ^ s < 2 ^ (s + 1)" by simp
  finally have "q < 2 ^ (s + 1)" .
  then have k: "k \<le> bit_len d + 1" using bit_len_le [of q "s + 1"] by (simp add: k_def s_def)
  then show "52 \<le> e" by (simp add: e s_def)
  have ks: "k \<le> s" using k by (simp add: s_def)
  have "q < 2 ^ (k + 53)"
    by (rule less_le_trans [OF bit_len_gt]) (rule power_increasing, simp_all add: k_def)
  then have "q div 2 ^ k < 2 ^ 53" by (simp add: power_add div_less_iff_less_mult mult.commute)
  moreover have "m \<le> q div 2 ^ k + 1"
    unfolding m q_def using round_half_even_le [of "n * 2 ^ s" "d * 2 ^ k"] by (simp add: div_mult2_eq)
  ultimately show "m \<le> 2 ^ 53" by simp
  have split: "(2 :: int) ^ s = 2 ^ e * 2 ^ k" using ks by (simp add: e flip: power_add)
  have "2 * \<bar>int m * (int d * 2 ^ k) - int n * (2 ^ e * 2 ^ k)\<bar> \<le> int d * 2 ^ k"
    using round_half_even_error [of "d * 2 ^ k" "n * 2 ^ s"] d by (simp add: m split)
  moreover have "int m * (int d * 2 ^ k) - int n * (2 ^ e * 2 ^ k) = (int m * int d - int n * 2 ^ e) * 2 ^ k"
    by (simp add: algebra_simps)
  ultimately have "(2 * \<bar>int m * int d - int n * 2 ^ e\<bar>) * 2 ^ k \<le> int d * 2 ^ k"
    by (simp add: abs_mult)
  then show "2 * \<bar>int m * int d - int n * 2 ^ e\<bar> \<le> int d" by simp
qed

text \<open>
  C39 (pass rates). The percentage printed for a binding, computed in double precision with its
  three roundings, is an integer nearest to the exact one, for all counts up to \<open>2 ^ 44\<close>.
\<close>

theorem pass_rate_nearest:
  assumes "0 < p + f" "p + f \<le> 2 ^ 44"
  shows "2 * \<bar>int (pass_rate p f) * int (p + f) - 100 * int p\<bar> \<le> int (p + f)"
proof -
  define t where "t = p + f"
  obtain m e where me: "f64_ratio p t = (m, e)" by force
  define a where "a = f64_of_nat (m * 100)"
  define r where "r = round_half_even a (2 ^ e)"
  have exact: "f64_of_nat p = p" "f64_of_nat t = t"
    using assms(2) by (auto simp: t_def intro!: f64_exact)
  have rate: "pass_rate p f = r"
    using assms(1) exact me by (auto simp: pass_rate_def t_def r_def a_def)
  have ratio: "52 \<le> e" "m \<le> 2 ^ 53" "2 * \<bar>int m * int t - int p * 2 ^ e\<bar> \<le> int t"
    using f64_ratio_error [OF _ _ me] assms(1) by (simp_all add: t_def)
  have "2 * \<bar>int a - int (m * 100)\<bar> \<le> 2 ^ 7"
    unfolding a_def by (rule f64_of_nat_error) (use ratio(2) in simp)
  then have a: "2 * \<bar>int a - 100 * int m\<bar> \<le> 128" by (simp add: mult.commute)
  have r: "2 * \<bar>int r * 2 ^ e - int a\<bar> \<le> 2 ^ e"
    using round_half_even_error [of "2 ^ e" a] by (simp add: r_def)
  define E :: int where "E = 2 ^ e"
  define x where "x = int r * int t - 100 * int p"
  have split: "x * E = (int r * E - int a) * int t + (int a - 100 * int m) * int t + 100 * (int m * int t - int p * E)"
    by (simp add: x_def algebra_simps)
  have tri: "\<bar>u + v + w\<bar> \<le> \<bar>u\<bar> + \<bar>v\<bar> + \<bar>w\<bar>" for u v w :: int by linarith
  have "\<bar>x\<bar> * E = \<bar>x * E\<bar>" by (simp add: E_def abs_mult)
  also have "\<dots> \<le> \<bar>(int r * E - int a) * int t\<bar> + \<bar>(int a - 100 * int m) * int t\<bar>
      + \<bar>100 * (int m * int t - int p * E)\<bar>" unfolding split by (rule tri)
  also have "\<dots> = \<bar>int r * E - int a\<bar> * int t + \<bar>int a - 100 * int m\<bar> * int t + 100 * \<bar>int m * int t - int p * E\<bar>"
    by (simp only: abs_mult abs_of_nat abs_numeral)
  finally have "\<bar>x\<bar> * E \<le> \<bar>int r * E - int a\<bar> * int t + \<bar>int a - 100 * int m\<bar> * int t
      + 100 * \<bar>int m * int t - int p * E\<bar>" .
  moreover have "2 * (\<bar>int r * E - int a\<bar> * int t) \<le> E * int t"
    using mult_right_mono [OF r [folded E_def], of "int t"] by (simp add: mult.assoc)
  moreover have "2 * (\<bar>int a - 100 * int m\<bar> * int t) \<le> 128 * int t"
    using mult_right_mono [OF a, of "int t"] by (simp add: mult.assoc)
  ultimately have main: "2 * (\<bar>x\<bar> * E) \<le> E * int t + 228 * int t"
    using ratio(3) [folded E_def] by linarith
  have big: "228 * int t < E"
  proof -
    have "228 * int t \<le> 228 * 2 ^ 44" using assms(2) by (simp add: t_def)
    also have "\<dots> < (2 :: int) ^ 52" by simp
    also have "\<dots> \<le> E" unfolding E_def by (rule power_increasing [OF ratio(1)]) simp
    finally show ?thesis .
  qed
  have "2 * \<bar>x\<bar> \<le> int t"
  proof (rule ccontr)
    assume "\<not> ?thesis"
    then have "(int t + 1) * E \<le> 2 * \<bar>x\<bar> * E" using big by (intro mult_right_mono) simp_all
    then show False using main big by (simp add: algebra_simps)
  qed
  then show ?thesis by (simp add: x_def rate t_def)
qed

lemma pass_rate_nearest_witness: "2 * \<bar>int (pass_rate 2 1) * 3 - 200\<bar> \<le> 3"
  using pass_rate_nearest [of 2 1] by simp

end
