(* ===== verification/CommandLine.thy ===== *)
theory CommandLine
  imports Gate ResultsRender Scenarios BaselineDrift RenameSafety SymbolTrace ContractUsage Recommend
    Briefing TracePack
begin

text \<open>
  The command line (\<open>main.rs\<close>) after \<open>clap\<close> has parsed the arguments: the dispatch of \<open>main\<close>, what
  each command prints, writes and exits with. The operations it calls are the fields of a record, so
  that the dispatch does not depend on what they do; human renderings are those of the model.
\<close>

section \<open>Arguments\<close>

datatype gate_profile = GateFast | GateCi | GateDeep

fun profile_of :: "gate_profile \<Rightarrow> profile" where
  "profile_of GateFast = Fast"
| "profile_of GateCi = Ci"
| "profile_of GateDeep = Deep"

record inspect_args =
  ia_base_url :: string
  ia_scope_kind :: string
  ia_scope_key :: string
  ia_binding :: "string option"
  ia_topic :: "string option"
  ia_limit :: nat
  ia_failed_only :: bool
  ia_latest :: "nat option"

text \<open>The fields of each variant in the order of the source.\<close>

datatype commands =
    CmdDoctor
  | CmdTopologyDoctor
  | CmdContractAudit
  | CmdRuntimeBindings
  | CmdDriftDetect
  | CmdArchGuard
  | CmdSymbolTrace string bool bool
  | CmdRuntimeSmoke string
  | CmdScenarioSmoke "string option" string bool
  | CmdResultsInspect inspect_args
  | CmdImpactMap bool bool "string list"
  | CmdCoverageMap
  | CmdTdd "string list"
  | CmdQualityGate gate_profile string bool
  | CmdLspEnrich string bool nat
  | CmdRenameSafety string "string option" bool bool
  | CmdContractUsageMap bool bool
  | CmdBriefing bool bool "string list"
  | CmdBaselineDrift string
  | CmdSnapshot "string option"
  | CmdSnapshotDiff string "string option" bool
  | CmdRecommend "string option" "string list"
  | CmdTracePack string string nat nat bool

record cli =
  cli_json :: bool
  cli_verbose :: bool
  cli_project_root :: string
  cli_command :: commands

definition format_of :: "cli \<Rightarrow> output_format" where
  "format_of c = (if cli_json c then JsonFormat else if cli_verbose c then HumanVerbose else Human)"

section \<open>Operations\<close>

text \<open>
  What \<open>main\<close> calls. \<open>None\<close> is an operation that does not return. A JSON printer gives an error or a
  text; \<open>tl_git\<close> is the output of \<open>git status\<close>, or \<open>None\<close> when it cannot be run; \<open>tl_write\<close> the
  error of writing a file.
\<close>

record tools =
  tl_doctor :: "string \<Rightarrow> cli_error + report"
  tl_topology :: "string \<Rightarrow> cli_error + report"
  tl_contracts :: "string \<Rightarrow> cli_error + report"
  tl_bindings :: "string \<Rightarrow> cli_error + report"
  tl_drift :: "string \<Rightarrow> cli_error + report"
  tl_arch :: "string \<Rightarrow> cli_error + report"
  tl_coverage :: "string \<Rightarrow> cli_error + report"
  tl_smoke :: "string \<Rightarrow> string \<Rightarrow> (cli_error + report) option"
  tl_scenario :: "scenario \<Rightarrow> string \<Rightarrow> string \<Rightarrow> report option"
  tl_inspect :: "inspect_config \<Rightarrow> cli_error + inspect_report"
  tl_gate :: "gate_config \<Rightarrow> cli_error + gate_report"
  tl_baseline :: "string \<Rightarrow> string \<Rightarrow> baseline_error + baseline_drift_report"
  tl_snapshot :: "string \<Rightarrow> snapshot"
  tl_load :: "string \<Rightarrow> diff_error + snapshot"
  tl_recommend :: "string \<Rightarrow> string list \<Rightarrow> recommend_report"
  tl_recommend_baseline :: "string \<Rightarrow> string list \<Rightarrow> string \<Rightarrow> recommend_report"
  tl_pack :: "pack_config \<Rightarrow> (cli_error + pack_report) option"
  tl_bridge :: "string \<Rightarrow> bridge option"
  tl_shutdown :: "bridge \<Rightarrow> unit option"
  tl_enrich :: "string \<Rightarrow> string \<Rightarrow> bridge \<Rightarrow> (enriched_symbol \<times> bridge) option"
  tl_usage :: "string \<Rightarrow> usage_report"
  tl_usage_lsp :: "string \<Rightarrow> bridge \<Rightarrow> (usage_report \<times> bridge) option"
  tl_rename :: "string \<Rightarrow> string \<Rightarrow> string option \<Rightarrow> rename_report"
  tl_rename_lsp :: "string \<Rightarrow> string \<Rightarrow> string option \<Rightarrow> bridge \<Rightarrow> (rename_report \<times> bridge) option"
  tl_trace :: "string \<Rightarrow> string \<Rightarrow> trace_report"
  tl_trace_lsp :: "string \<Rightarrow> string \<Rightarrow> bridge \<Rightarrow> (trace_report \<times> bridge) option"
  tl_briefing :: "string \<Rightarrow> string list \<Rightarrow> briefing_report"
  tl_briefing_lsp :: "string \<Rightarrow> string list \<Rightarrow> bridge \<Rightarrow> (briefing_report \<times> bridge) option"
  tl_impact :: "string \<Rightarrow> string list \<Rightarrow> impact_report"
  tl_impact_lsp :: "string \<Rightarrow> string list \<Rightarrow> bridge \<Rightarrow> (impact_report \<times> bridge) option"
  tl_tdd :: "string \<Rightarrow> string list \<Rightarrow> tdd_report"
  tl_git :: "string \<Rightarrow> string option"
  tl_write :: "string \<Rightarrow> string \<Rightarrow> string option"

record printers =
  js_report :: "report \<Rightarrow> cli_error + string"
  js_gate :: "gate_report \<Rightarrow> cli_error + string"
  js_inspect :: "inspect_report \<Rightarrow> string + string"
  js_baseline :: "baseline_drift_report \<Rightarrow> string + string"
  js_snapshot :: "snapshot \<Rightarrow> string + string"
  js_diff :: "snapshot_diff \<Rightarrow> string + string"
  js_recommend :: "recommend_report \<Rightarrow> string + string"
  js_pack :: "pack_report \<Rightarrow> string + string"
  js_enriched :: "enriched_symbol \<Rightarrow> string + string"
  js_usage :: "usage_report \<Rightarrow> string + string"
  js_rename :: "rename_report \<Rightarrow> string + string"
  js_trace :: "trace_report \<Rightarrow> string + string"
  js_briefing :: "briefing_report \<Rightarrow> string + string"
  js_impact :: "impact_report \<Rightarrow> string + string"
  js_tdd :: "tdd_report \<Rightarrow> string + string"
  js_scenarios :: "(string \<times> string \<times> string list) list \<Rightarrow> string + string"

section \<open>Outcomes\<close>

text \<open>Code 101 is a panic.\<close>

record outcome =
  oc_stdout :: string
  oc_stderr :: string
  oc_code :: nat
  oc_written :: "(string \<times> string) option"

definition printed :: "string \<Rightarrow> outcome" where
  "printed out = \<lparr>oc_stdout = out, oc_stderr = [], oc_code = 0, oc_written = None\<rparr>"

definition stopped :: "string \<Rightarrow> outcome" where
  "stopped msg = \<lparr>oc_stdout = [], oc_stderr = ''error: '' @ msg @ nl, oc_code = 2, oc_written = None\<rparr>"

definition panicked :: outcome where
  "panicked = \<lparr>oc_stdout = [], oc_stderr = ''internal error: entered unreachable code'', oc_code = 101, oc_written = None\<rparr>"

definition print_text :: "string \<Rightarrow> string + string \<Rightarrow> outcome" where
  "print_text what res =
     (case res of Inr t \<Rightarrow> printed t | Inl e \<Rightarrow> stopped (''failed to render '' @ what @ '': '' @ e))"

text \<open>The common ending: JSON when asked for, else the human rendering.\<close>

definition print_report :: "string \<Rightarrow> cli \<Rightarrow> string + string \<Rightarrow> string \<Rightarrow> outcome" where
  "print_report what c json human = (if cli_json c then print_text what json else printed human)"

definition shown :: "cli_error + string \<Rightarrow> string + string" where
  "shown res = map_sum show_cli_error (\<lambda>t. t) res"

text \<open>Exit with 1 after printing when the verdict is negative.\<close>

definition judged :: "bool \<Rightarrow> outcome \<Rightarrow> outcome" where
  "judged ok oc = (if oc_code oc = 0 \<and> \<not> ok then oc\<lparr>oc_code := 1\<rparr> else oc)"

text \<open>A printer whose error passes through \<open>CliError::Json\<close>.\<close>

definition as_cli :: "string + string \<Rightarrow> string + string" where
  "as_cli res = map_sum (\<lambda>e. show_cli_error (Json e)) (\<lambda>t. t) res"

section \<open>Commands\<close>

definition output_report :: "printers \<Rightarrow> cli \<Rightarrow> report \<Rightarrow> outcome" where
  "output_report P c r =
     judged (rp_passed r) (print_text ''output'' (shown (render (js_report P) r (format_of c))))"

definition result_report :: "printers \<Rightarrow> cli \<Rightarrow> cli_error + report \<Rightarrow> outcome" where
  "result_report P c res =
     (case res of Inr r \<Rightarrow> output_report P c r | Inl e \<Rightarrow> stopped (show_cli_error e))"

definition inspect_config_of :: "inspect_args \<Rightarrow> inspect_config" where
  "inspect_config_of a =
     \<lparr>ic_base_url = ia_base_url a, ic_scope_kind = ia_scope_kind a, ic_scope_key = ia_scope_key a,
      ic_binding_name = ia_binding a, ic_topic = ia_topic a, ic_limit = ia_limit a,
      ic_failed_only = ia_failed_only a, ic_latest = ia_latest a\<rparr>"

definition inspect_command :: "tools \<Rightarrow> printers \<Rightarrow> cli \<Rightarrow> inspect_args \<Rightarrow> outcome" where
  "inspect_command T P c a =
     (case tl_inspect T (inspect_config_of a) of
        Inr r \<Rightarrow> print_report ''output'' c (as_cli (js_inspect P r)) (render_inspect r (cli_verbose c))
      | Inl e \<Rightarrow> stopped (show_cli_error e))"

definition gate_command :: "tools \<Rightarrow> printers \<Rightarrow> cli \<Rightarrow> gate_profile \<Rightarrow> string \<Rightarrow> bool \<Rightarrow> outcome" where
  "gate_command T P c profile base_url fail_fast =
     (case tl_gate T \<lparr>gc_project_root = cli_project_root c, gc_profile = profile_of profile,
                      gc_base_url = base_url, gc_fail_fast = fail_fast\<rparr> of
        Inr g \<Rightarrow>
          judged (gr_passed g) (print_text ''output'' (shown (render_gate (js_gate P) g (format_of c))))
      | Inl e \<Rightarrow> stopped (show_cli_error e))"

definition baseline_command :: "tools \<Rightarrow> printers \<Rightarrow> cli \<Rightarrow> string \<Rightarrow> outcome" where
  "baseline_command T P c baseline =
     (case tl_baseline T baseline (cli_project_root c) of
        Inr r \<Rightarrow>
          judged (bd_verdict r \<noteq> Drifted)
            (print_report ''output'' c (js_baseline P r) (render_drift r (cli_verbose c)))
      | Inl e \<Rightarrow> stopped (show_baseline_error e))"

definition snapshot_command :: "tools \<Rightarrow> printers \<Rightarrow> cli \<Rightarrow> string option \<Rightarrow> outcome" where
  "snapshot_command T P c target =
     (let snap = tl_snapshot T (cli_project_root c) in
      if cli_json c \<or> target \<noteq> None then
        (case js_snapshot P snap of
           Inr json \<Rightarrow>
             (case target of
                Some path \<Rightarrow>
                  (case tl_write T path json of
                     None \<Rightarrow> \<lparr>oc_stdout = [], oc_stderr = ''Snapshot written to '' @ path @ nl, oc_code = 0,
                              oc_written = Some (path, json)\<rparr>
                   | Some e \<Rightarrow> stopped (''failed to write snapshot: '' @ e))
              | None \<Rightarrow> printed json)
         | Inl e \<Rightarrow> stopped (''failed to render snapshot: '' @ e))
      else printed (render_snapshot snap (cli_verbose c)))"

definition after_snapshot :: "tools \<Rightarrow> cli \<Rightarrow> string option \<Rightarrow> bool \<Rightarrow> string + snapshot" where
  "after_snapshot T c after live =
     (if live then Inr (tl_snapshot T (cli_project_root c))
      else
        (case after of
           Some path \<Rightarrow>
             map_sum (\<lambda>e. ''failed to load 'after' snapshot: '' @ show_diff_error e) (\<lambda>s. s) (tl_load T path)
         | None \<Rightarrow> Inl (CHR 0x27 # ''after' snapshot path required (or use --after-live)'')))"

definition diff_command :: "tools \<Rightarrow> printers \<Rightarrow> cli \<Rightarrow> string \<Rightarrow> string option \<Rightarrow> bool \<Rightarrow> outcome" where
  "diff_command T P c before after live =
     (case tl_load T before of
        Inl e \<Rightarrow> stopped (''failed to load 'before' snapshot: '' @ show_diff_error e)
      | Inr b \<Rightarrow>
          (case after_snapshot T c after live of
             Inl e \<Rightarrow> stopped e
           | Inr a \<Rightarrow>
               (case diff_snapshots b a of
                  Inr d \<Rightarrow> print_report ''diff'' c (js_diff P d) (render_diff d (cli_verbose c))
                | Inl e \<Rightarrow> stopped (show_diff_error e))))"

text \<open>The paths of \<open>git status --porcelain -u\<close>: what follows the two status letters and a blank.\<close>

definition status_path :: "string \<Rightarrow> string option" where
  "status_path line = (if 3 < length line then Some (trim (drop 3 line)) else None)"

definition detect_changed_files :: "string option \<Rightarrow> string list" where
  "detect_changed_files git =
     (case git of Some text \<Rightarrow> List.map_filter status_path (str_lines text) | None \<Rightarrow> [])"

definition given_or_changed :: "tools \<Rightarrow> cli \<Rightarrow> string list \<Rightarrow> string list" where
  "given_or_changed T c given = (if given = [] then detect_changed_files (tl_git T (cli_project_root c)) else given)"

definition recommend_command :: "tools \<Rightarrow> printers \<Rightarrow> cli \<Rightarrow> string option \<Rightarrow> string list \<Rightarrow> outcome" where
  "recommend_command T P c baseline files =
     (let edited = given_or_changed T c files;
          r = (case baseline of
                 Some path \<Rightarrow> tl_recommend_baseline T (cli_project_root c) edited path
               | None \<Rightarrow> tl_recommend T (cli_project_root c) edited)
      in print_report ''output'' c (js_recommend P r) (render_recommend r (cli_verbose c)))"

definition pack_command :: "tools \<Rightarrow> printers \<Rightarrow> cli \<Rightarrow> string \<Rightarrow> string \<Rightarrow> nat \<Rightarrow> nat \<Rightarrow> bool \<Rightarrow> outcome option" where
  "pack_command T P c base_url output_dir log_lines results_limit compress =
     map_option (\<lambda>res. case res of
         Inr r \<Rightarrow> print_report ''output'' c (shown (pack_json (js_pack P) r)) (pack_human r)
       | Inl e \<Rightarrow> stopped (show_cli_error e))
       (tl_pack T \<lparr>pc_project_root = cli_project_root c, pc_base_url = base_url, pc_output_dir = output_dir,
                   pc_log_lines = log_lines, pc_results_limit = results_limit, pc_compress = compress\<rparr>)"

definition tdd_command :: "tools \<Rightarrow> printers \<Rightarrow> cli \<Rightarrow> string list \<Rightarrow> outcome" where
  "tdd_command T P c files =
     (let r = tl_tdd T (cli_project_root c) (given_or_changed T c files)
      in print_report ''output'' c (js_tdd P r) (render_tdd r (cli_verbose c)))"

section \<open>Commands that may use gopls\<close>

text \<open>Start gopls, analyse with it and shut it down; without it the plain analysis.\<close>

definition with_gopls :: "tools \<Rightarrow> cli \<Rightarrow> bool \<Rightarrow> bool \<Rightarrow> (bridge \<Rightarrow> ('r \<times> bridge) option) \<Rightarrow> 'r \<Rightarrow> 'r option" where
  "with_gopls T c lsp no_lsp analyse plain =
     (if lsp \<and> \<not> no_lsp then
        Option.bind (tl_bridge T (cli_project_root c)) (\<lambda>b.
          Option.bind (analyse b) (\<lambda>(r, b').
            map_option (\<lambda>_. r) (tl_shutdown T b')))
      else Some plain)"

definition usage_command :: "tools \<Rightarrow> printers \<Rightarrow> cli \<Rightarrow> bool \<Rightarrow> bool \<Rightarrow> outcome option" where
  "usage_command T P c lsp no_lsp =
     map_option (\<lambda>r. print_report ''output'' c (as_cli (js_usage P r)) (render_usage r (cli_verbose c)))
       (with_gopls T c lsp no_lsp (tl_usage_lsp T (cli_project_root c)) (tl_usage T (cli_project_root c)))"

definition rename_command ::
    "tools \<Rightarrow> printers \<Rightarrow> cli \<Rightarrow> string \<Rightarrow> string option \<Rightarrow> bool \<Rightarrow> bool \<Rightarrow> outcome option" where
  "rename_command T P c symbol new_name lsp no_lsp =
     map_option (\<lambda>r. print_report ''output'' c (js_rename P r) (render_rename r (cli_verbose c)))
       (with_gopls T c lsp no_lsp (tl_rename_lsp T (cli_project_root c) symbol new_name)
          (tl_rename T (cli_project_root c) symbol new_name))"

definition trace_command :: "tools \<Rightarrow> printers \<Rightarrow> cli \<Rightarrow> string \<Rightarrow> bool \<Rightarrow> bool \<Rightarrow> outcome option" where
  "trace_command T P c symbol lsp no_lsp =
     map_option (\<lambda>r. print_report ''output'' c (js_trace P r) (render_trace r (cli_verbose c)))
       (with_gopls T c lsp no_lsp (tl_trace_lsp T (cli_project_root c) symbol)
          (tl_trace T (cli_project_root c) symbol))"

definition briefing_command :: "tools \<Rightarrow> printers \<Rightarrow> cli \<Rightarrow> bool \<Rightarrow> bool \<Rightarrow> string list \<Rightarrow> outcome option" where
  "briefing_command T P c lsp no_lsp targets =
     (let edited = given_or_changed T c targets in
      map_option (\<lambda>r. print_report ''output'' c (js_briefing P r) (render_briefing r (cli_verbose c)))
        (with_gopls T c lsp no_lsp (tl_briefing_lsp T (cli_project_root c) edited)
           (tl_briefing T (cli_project_root c) edited)))"

definition impact_command :: "tools \<Rightarrow> printers \<Rightarrow> cli \<Rightarrow> bool \<Rightarrow> bool \<Rightarrow> string list \<Rightarrow> outcome option" where
  "impact_command T P c lsp no_lsp targets =
     (let edited = given_or_changed T c targets in
      map_option (\<lambda>r. print_report ''output'' c (js_impact P r) (render_impact r (cli_verbose c)))
        (with_gopls T c lsp no_lsp (tl_impact_lsp T (cli_project_root c) edited)
           (tl_impact T (cli_project_root c) edited)))"

section \<open>Enrichment of a symbol\<close>

definition enriched_status_line :: "lsp_status \<Rightarrow> string" where
  "enriched_status_line st =
     (case st of
        Enriched \<Rightarrow> ''LSP: enriched (gopls connected)'' @ nl
      | NoResults \<Rightarrow> ''LSP: connected but no additional results'' @ nl
      | Unavailable reason \<Rightarrow> ''LSP: unavailable ('' @ reason @ '')'' @ nl)"

definition place_line :: "location \<Rightarrow> string" where
  "place_line l = loc_file l @ '':'' @ show_nat (loc_line l) @ nl"

definition enriched_references :: "lsp_ref list \<Rightarrow> bool \<Rightarrow> string" where
  "enriched_references refs verbose =
     (if refs = [] then []
      else
        nl @ ''LSP references ('' @ show_nat (length refs) @ ''):'' @ nl
        @ concat (map (\<lambda>r. ''  '' @ place_line (lf_location r))
                    (take (if verbose then length refs else 10) refs))
        @ (if \<not> verbose \<and> 10 < length refs
           then ''  ... and '' @ show_nat (length refs - 10) @ '' more (use -v to show all)'' @ nl else []))"

definition render_enriched_human :: "enriched_symbol \<Rightarrow> bool \<Rightarrow> string" where
  "render_enriched_human e verbose =
     ''Symbol: '' @ es_symbol e @ nl @ nl
     @ enriched_status_line (es_lsp_status e) @ nl
     @ (if es_ast_definitions e = [] then ''AST definitions: none found'' @ nl
        else
          ''AST definitions ('' @ show_nat (length (es_ast_definitions e)) @ ''):'' @ nl
          @ concat (map (\<lambda>d. ''  '' @ text_or (es_symbol e) (ld_qualified_name d) @ '' at '' @ place_line (ld_location d))
              (es_ast_definitions e)))
     @ (if es_lsp_definitions e = [] then []
        else
          nl @ ''LSP definitions ('' @ show_nat (length (es_lsp_definitions e)) @ ''):'' @ nl
          @ concat (map (\<lambda>d. ''  '' @ place_line (ld_location d)) (es_lsp_definitions e)))
     @ enriched_references (es_lsp_references e) verbose
     @ (case es_hover e of
          None \<Rightarrow> []
        | Some h \<Rightarrow>
            nl @ (case hi_signature h of Some t \<Rightarrow> ''Type: '' @ t @ nl | None \<Rightarrow> [])
            @ (if verbose then (case hi_documentation h of Some d \<Rightarrow> ''Doc: '' @ d @ nl | None \<Rightarrow> []) else []))"

text \<open>The timeout of the command is not used.\<close>

definition enrich_command :: "tools \<Rightarrow> printers \<Rightarrow> cli \<Rightarrow> string \<Rightarrow> bool \<Rightarrow> outcome option" where
  "enrich_command T P c symbol no_lsp =
     Option.bind
       (if no_lsp then Some (bridge_unavailable ''--no-lsp flag: LSP enrichment disabled by user'')
        else tl_bridge T (cli_project_root c)) (\<lambda>b.
       map_option (\<lambda>(e, _). print_report ''output'' c (js_enriched P e) (render_enriched_human e (cli_verbose c)))
         (tl_enrich T (cli_project_root c) symbol b))"

section \<open>Scenarios\<close>

fun scenario_description :: "scenario \<Rightarrow> string" where
  "scenario_description HappyPath =
     ''Full E2E: config lifecycle + data plane + validation results (passed + failed)''"
| "scenario_description ConfigLifecycle =
     ''Control plane only: draft -> validate -> compile -> activate -> verify active config/runtime''"
| "scenario_description InvalidPayload =
     ''Activate config and verify validator catches invalid payloads (failed results)''"
| "scenario_description MissingBinding =
     ''Query non-existent binding/scope and verify empty results (no errors)''"
| "scenario_description ReadinessProbe = ''Verify cluster bootstrap and readiness (healthz + readyz)''"

fun preconditions :: "scenario \<Rightarrow> string list" where
  "preconditions HappyPath =
     [''All 7 compose services running (make up-dataplane)'', ''Server responding on base-url'',
      ''Emulator publishing synthetic data'']"
| "preconditions ConfigLifecycle =
     [''Core services running: nats, configctl, server'', ''Server responding on base-url'']"
| "preconditions InvalidPayload =
     [''All 7 compose services running (make up-dataplane)'', ''Emulator producing invalid samples'']"
| "preconditions MissingBinding = [''Server responding on base-url'']"
| "preconditions ReadinessProbe = [''Compose services running'', ''Server reachable on base-url'']"

definition list_scenarios :: "(string \<times> string) list" where
  "list_scenarios = map (\<lambda>s. (scenario_name s, scenario_description s)) all_scenarios"

definition scenario_items :: "(string \<times> string \<times> string list) list" where
  "scenario_items =
     map (\<lambda>(name, desc). (name, desc, case parse_scenario name of Some s \<Rightarrow> preconditions s | None \<Rightarrow> []))
       list_scenarios"

definition scenario_listing :: string where
  "scenario_listing =
     ''Available scenarios:'' @ nl @ nl
     @ concat (map (\<lambda>(name, desc). ''  '' @ pad_to 20 name @ '' '' @ desc @ nl) list_scenarios)
     @ nl @ ''Usage: raccoon-cli scenario-smoke <SCENARIO>'' @ nl"

definition scenario_command ::
    "tools \<Rightarrow> printers \<Rightarrow> cli \<Rightarrow> string option \<Rightarrow> string \<Rightarrow> bool \<Rightarrow> outcome option" where
  "scenario_command T P c name_arg base_url show_list =
     (if show_list then Some (print_report ''output'' c (js_scenarios P scenario_items) scenario_listing)
      else
        (let name = text_or [] name_arg in
         case parse_scenario name of
           None \<Rightarrow> Some (stopped (''unknown scenario '' @ quote1 name @ ''. Available: '' @ join '', '' all_names))
         | Some s \<Rightarrow> map_option (output_report P c) (tl_scenario T s (cli_project_root c) base_url)))"

section \<open>Dispatch\<close>

text \<open>The last match of \<open>main\<close>: the other commands have returned, and meeting one here is a panic.\<close>

definition report_of_command :: "tools \<Rightarrow> cli \<Rightarrow> (cli_error + report) option option" where
  "report_of_command T c =
     (let root = cli_project_root c in
      case cli_command c of
        CmdDoctor \<Rightarrow> Some (Some (tl_doctor T root))
      | CmdTopologyDoctor \<Rightarrow> Some (Some (tl_topology T root))
      | CmdContractAudit \<Rightarrow> Some (Some (tl_contracts T root))
      | CmdRuntimeBindings \<Rightarrow> Some (Some (tl_bindings T root))
      | CmdDriftDetect \<Rightarrow> Some (Some (tl_drift T root))
      | CmdArchGuard \<Rightarrow> Some (Some (tl_arch T root))
      | CmdCoverageMap \<Rightarrow> Some (Some (tl_coverage T root))
      | CmdRuntimeSmoke base_url \<Rightarrow> Some (tl_smoke T root base_url)
      | _ \<Rightarrow> None)"

definition report_command :: "tools \<Rightarrow> printers \<Rightarrow> cli \<Rightarrow> outcome option" where
  "report_command T P c =
     (case report_of_command T c of
        None \<Rightarrow> Some panicked
      | Some res \<Rightarrow> map_option (result_report P c) res)"

definition main_run :: "tools \<Rightarrow> printers \<Rightarrow> cli \<Rightarrow> outcome option" where
  "main_run T P c =
     (case cli_command c of
        CmdResultsInspect a \<Rightarrow> Some (inspect_command T P c a)
      | CmdQualityGate profile base_url fail_fast \<Rightarrow> Some (gate_command T P c profile base_url fail_fast)
      | CmdBaselineDrift baseline \<Rightarrow> Some (baseline_command T P c baseline)
      | CmdSnapshot target \<Rightarrow> Some (snapshot_command T P c target)
      | CmdSnapshotDiff before after live \<Rightarrow> Some (diff_command T P c before after live)
      | CmdRecommend baseline files \<Rightarrow> Some (recommend_command T P c baseline files)
      | CmdTracePack base_url output_dir log_lines results_limit compress \<Rightarrow>
          pack_command T P c base_url output_dir log_lines results_limit compress
      | CmdLspEnrich symbol no_lsp _ \<Rightarrow> enrich_command T P c symbol no_lsp
      | CmdContractUsageMap lsp no_lsp \<Rightarrow> usage_command T P c lsp no_lsp
      | CmdRenameSafety symbol new_name lsp no_lsp \<Rightarrow> rename_command T P c symbol new_name lsp no_lsp
      | CmdSymbolTrace symbol lsp no_lsp \<Rightarrow> trace_command T P c symbol lsp no_lsp
      | CmdBriefing lsp no_lsp targets \<Rightarrow> briefing_command T P c lsp no_lsp targets
      | CmdImpactMap lsp no_lsp targets \<Rightarrow> impact_command T P c lsp no_lsp targets
      | CmdTdd files \<Rightarrow> Some (tdd_command T P c files)
      | CmdScenarioSmoke name base_url show_list \<Rightarrow> scenario_command T P c name base_url show_list
      | _ \<Rightarrow> report_command T P c)"

end
