(* ===== verification/CommandLineProps.thy ===== *)
theory CommandLineProps
  imports CommandLine Doctor
begin

text \<open>
  Properties of the command line: what the exit code of a command says, and the changed files read
  from \<open>git status\<close>.
\<close>

section \<open>Exit codes\<close>

text \<open>The commands that have a verdict; the listing of the scenarios has none.\<close>

definition judging :: "commands \<Rightarrow> bool" where
  "judging k =
     (case k of
        CmdQualityGate _ _ _ \<Rightarrow> True | CmdBaselineDrift _ \<Rightarrow> True | CmdScenarioSmoke _ _ show_list \<Rightarrow> \<not> show_list
      | CmdDoctor \<Rightarrow> True | CmdTopologyDoctor \<Rightarrow> True | CmdContractAudit \<Rightarrow> True | CmdRuntimeBindings \<Rightarrow> True
      | CmdDriftDetect \<Rightarrow> True | CmdArchGuard \<Rightarrow> True | CmdCoverageMap \<Rightarrow> True | CmdRuntimeSmoke _ \<Rightarrow> True
      | _ \<Rightarrow> False)"

text \<open>
  What such a command computed: the verdict and the rendering of its report, or the error of the
  rendering; \<open>None\<close> when there is no report, because the operation ended with an error, the name of
  the scenario is unknown or the operation did not return.
\<close>

definition rendered :: "printers \<Rightarrow> cli \<Rightarrow> report \<Rightarrow> bool \<times> (string + string)" where
  "rendered P c r = (rp_passed r, shown (render (js_report P) r (format_of c)))"

definition judgement :: "tools \<Rightarrow> printers \<Rightarrow> cli \<Rightarrow> (bool \<times> (string + string)) option" where
  "judgement T P c =
     (let root = cli_project_root c in
      case cli_command c of
        CmdQualityGate profile base_url fail_fast \<Rightarrow>
          (case tl_gate T \<lparr>gc_project_root = root, gc_profile = profile_of profile, gc_base_url = base_url,
                           gc_fail_fast = fail_fast\<rparr> of
             Inr g \<Rightarrow> Some (gr_passed g, shown (render_gate (js_gate P) g (format_of c)))
           | Inl _ \<Rightarrow> None)
      | CmdBaselineDrift baseline \<Rightarrow>
          (case tl_baseline T baseline root of
             Inr r \<Rightarrow> Some (bd_verdict r \<noteq> Drifted,
                         if cli_json c then js_baseline P r else Inr (render_drift r (cli_verbose c)))
           | Inl _ \<Rightarrow> None)
      | CmdScenarioSmoke name base_url _ \<Rightarrow>
          (case parse_scenario (text_or [] name) of
             Some s \<Rightarrow> map_option (rendered P c) (tl_scenario T s root base_url)
           | None \<Rightarrow> None)
      | _ \<Rightarrow>
          (case report_of_command T c of
             Some (Some (Inr r)) \<Rightarrow> Some (rendered P c r)
           | _ \<Rightarrow> None))"

text \<open>The one outcome that a judgement allows.\<close>

definition outcome_of :: "(bool \<times> (string + string)) option \<Rightarrow> outcome \<Rightarrow> bool" where
  "outcome_of v oc =
     (case v of
        Some (ok, Inr t) \<Rightarrow> oc = \<lparr>oc_stdout = t, oc_stderr = [], oc_code = (if ok then 0 else 1), oc_written = None\<rparr>
      | Some (_, Inl e) \<Rightarrow> oc = stopped (''failed to render output: '' @ e)
      | None \<Rightarrow> (\<exists>msg. oc = stopped msg))"

text \<open>The outcomes of a command without a verdict: an error, or 0.\<close>

definition informed :: "outcome \<Rightarrow> bool" where
  "informed oc =
     ((\<exists>msg. oc = stopped msg)
      \<or> oc_code oc = 0 \<and> oc_stderr oc = (case oc_written oc of None \<Rightarrow> [] | Some (p, _) \<Rightarrow> ''Snapshot written to '' @ p @ nl))"

lemma informed_stopped [simp]: "informed (stopped msg)"
  by (auto simp: informed_def)

lemma informed_printed [simp]: "informed (printed t)"
  by (simp add: informed_def printed_def)

lemma informed_print_text [simp]: "informed (print_text what res)"
  by (simp add: print_text_def split: sum.split)

lemma informed_print_report [simp]: "informed (print_report what c json human)"
  by (simp add: print_report_def)

lemma judged_text: "outcome_of (Some (ok, res)) (judged ok (print_text ''output'' res))"
  by (simp add: outcome_of_def judged_def print_text_def printed_def stopped_def split: sum.split)

lemma judged_stopped [simp]: "outcome_of None (stopped msg)"
  by (auto simp: outcome_of_def)

lemma judged_output: "outcome_of (Some (rendered P c r)) (output_report P c r)"
  unfolding output_report_def rendered_def by (rule judged_text)

lemma judged_report_choice:
  "outcome_of (Some (ok, if cli_json c then json else Inr human)) (judged ok (print_report ''output'' c json human))"
  using judged_text[of ok json] judged_text[of ok "Inr human"] by (simp add: print_report_def print_text_def)

lemma exact_gate:
  "cli_command c = CmdQualityGate p u f \<Longrightarrow> outcome_of (judgement T P c) (gate_command T P c p u f)"
  by (simp add: judgement_def gate_command_def Let_def judged_text split: sum.split)

lemma exact_baseline:
  "cli_command c = CmdBaselineDrift b \<Longrightarrow> outcome_of (judgement T P c) (baseline_command T P c b)"
  by (simp add: judgement_def baseline_command_def Let_def judged_report_choice split: sum.split)

lemma exact_scenario:
  "\<lbrakk>cli_command c = CmdScenarioSmoke n u False; scenario_command T P c n u False = Some oc\<rbrakk>
   \<Longrightarrow> outcome_of (judgement T P c) oc"
  by (auto simp: judgement_def scenario_command_def Let_def judged_output split: option.splits)

lemma exact_report:
  "\<lbrakk>report_of_command T c = Some res; report_command T P c = Some oc;
    judgement T P c = (case res of Some (Inr r) \<Rightarrow> Some (rendered P c r) | _ \<Rightarrow> None)\<rbrakk>
   \<Longrightarrow> outcome_of (judgement T P c) oc"
  by (auto simp: report_command_def result_report_def judged_output split: sum.split)

lemma informed_snapshot: "informed (snapshot_command T P c t)"
proof -
  have "informed \<lparr>oc_stdout = [], oc_stderr = ''Snapshot written to '' @ path @ nl, oc_code = 0,
      oc_written = Some (path, json)\<rparr>" for path json
    by (simp add: informed_def)
  then show ?thesis by (simp add: snapshot_command_def Let_def split: sum.split option.split)
qed

lemma informed_diff: "informed (diff_command T P c b a l)"
  by (simp add: diff_command_def split: sum.split)

lemma informed_inspect: "informed (inspect_command T P c a)"
  by (simp add: inspect_command_def split: sum.split)

lemma informed_map: "map_option f x = Some oc \<Longrightarrow> (\<And>r. informed (f r)) \<Longrightarrow> informed oc"
  by auto

lemma informed_enrich: "enrich_command T P c s n = Some oc \<Longrightarrow> informed oc"
  by (auto simp: enrich_command_def bind_eq_Some_conv split: prod.splits)

lemma informed_pack: "pack_command T P c u d l r z = Some oc \<Longrightarrow> informed oc"
  unfolding pack_command_def by (erule informed_map) (simp split: sum.split)

lemma informed_gopls:
  "usage_command T P c l n = Some oc \<Longrightarrow> informed oc"
  "rename_command T P c s nn l n = Some oc \<Longrightarrow> informed oc"
  "trace_command T P c s l n = Some oc \<Longrightarrow> informed oc"
  "briefing_command T P c l n ts = Some oc \<Longrightarrow> informed oc"
  "impact_command T P c l n ts = Some oc \<Longrightarrow> informed oc"
  by (auto simp: usage_command_def rename_command_def trace_command_def briefing_command_def
      impact_command_def Let_def)

lemma informed_plain:
  "informed (tdd_command T P c fs)" "informed (recommend_command T P c b fs)"
  by (simp_all add: tdd_command_def recommend_command_def Let_def)

lemma informed_listing: "scenario_command T P c n u True = Some oc \<Longrightarrow> informed oc"
  by (auto simp: scenario_command_def)

lemmas exact_commands = exact_gate exact_baseline exact_scenario

lemmas informed_commands =
  informed_snapshot informed_diff informed_inspect informed_enrich informed_pack informed_gopls informed_plain
  informed_listing

lemma report_reached:
  "\<lbrakk>report_of_command T c = Some res; main_run T P c = Some oc\<rbrakk>
   \<Longrightarrow> report_command T P c = Some oc \<and> judging (cli_command c)
     \<and> judgement T P c = (case res of Some (Inr r) \<Rightarrow> Some (rendered P c r) | _ \<Rightarrow> None)"
  by (cases "cli_command c")
    (simp_all add: main_run_def judgement_def judging_def report_of_command_def Let_def split: option.split)

lemma main_judging:
  assumes "main_run T P c = Some oc" "judging (cli_command c)"
  shows "outcome_of (judgement T P c) oc"
proof (cases "report_of_command T c")
  case (Some res)
  then show ?thesis using report_reached[OF Some assms(1)] exact_report by blast
next
  case None
  then show ?thesis using assms
    by (cases "cli_command c") (auto simp: judging_def report_of_command_def main_run_def intro: exact_commands)
qed

lemma main_informing:
  assumes "main_run T P c = Some oc" "\<not> judging (cli_command c)"
  shows "informed oc"
  using assms
  by (cases "cli_command c") (auto simp: judging_def main_run_def intro: informed_commands)

lemma stopped_simps [simp]:
  "oc_code (stopped msg) = 2" "oc_stdout (stopped msg) = []" "oc_written (stopped msg) = None"
  "oc_stderr (stopped msg) = ''error: '' @ msg @ nl"
  by (simp_all add: stopped_def)

lemma outcome_cases:
  assumes "outcome_of v oc"
  obtains (verdict) ok t where "v = Some (ok, Inr t)" "oc_stdout oc = t" "oc_stderr oc = []"
      "oc_code oc = (if ok then 0 else 1)"
    | (failed) msg where "\<nexists>ok t. v = Some (ok, Inr t)" "oc = stopped msg"
proof (cases v)
  case None
  with assms failed show thesis by (auto simp: outcome_of_def)
next
  case (Some p)
  then obtain ok res where v: "v = Some (ok, res)" by (cases p) simp
  show thesis
  proof (cases res)
    case (Inl e)
    with v assms have "oc = stopped (''failed to render output: '' @ e)" by (simp add: outcome_of_def)
    with v Inl failed show thesis by blast
  next
    case (Inr t)
    with v assms verdict show thesis by (simp add: outcome_of_def)
  qed
qed

lemma informed_cases:
  assumes "informed oc"
  obtains (shown) "oc_code oc = 0" "\<nexists>msg. oc_stderr oc = ''error: '' @ msg @ nl"
    | (failed) msg where "oc = stopped msg"
  using assms unfolding informed_def by (auto split: option.splits)

text \<open>
  What a shell may conclude from the exit of a process that keeps this contract: what the process
  judges, it judges exactly, and what it does not judge never fails with 1.
\<close>

locale exit_contract =
  fixes run :: "cli \<Rightarrow> outcome option" and judges :: "cli \<Rightarrow> bool"
    and verdict :: "cli \<Rightarrow> (bool \<times> (string + string)) option"
  assumes exact: "\<lbrakk>run c = Some oc; judges c\<rbrakk> \<Longrightarrow> outcome_of (verdict c) oc"
    and informs: "\<lbrakk>run c = Some oc; \<not> judges c\<rbrakk> \<Longrightarrow> informed oc"
begin

lemma exit_judged:
  assumes "run c = Some oc" "judges c"
  shows "oc_code oc = 0 \<longleftrightarrow> (\<exists>t. verdict c = Some (True, Inr t))"
    and "oc_code oc = 1 \<longleftrightarrow> (\<exists>t. verdict c = Some (False, Inr t))"
    and "verdict c = Some (ok, Inr t) \<Longrightarrow> oc_stdout oc = t"
    and "\<nexists>ok t. verdict c = Some (ok, Inr t) \<Longrightarrow> oc_code oc = 2"
  using exact[OF assms] by (cases rule: outcome_cases; auto)+

lemma exit_one: "\<lbrakk>run c = Some oc; oc_code oc = 1\<rbrakk> \<Longrightarrow> judges c"
  by (rule ccontr, drule (1) informs, erule informed_cases) auto

lemma exit_codes:
  assumes "run c = Some oc"
  shows "oc_code oc \<in> {0, 1, 2}"
proof (cases "judges c")
  case True
  from exact[OF assms True] show ?thesis by (cases rule: outcome_cases) auto
next
  case False
  from informs[OF assms False] show ?thesis by (cases rule: informed_cases) auto
qed

lemma exit_two:
  assumes "run c = Some oc"
  shows "oc_code oc = 2 \<longleftrightarrow> (\<exists>msg. oc_stderr oc = ''error: '' @ msg @ nl)"
    and "oc_code oc = 2 \<Longrightarrow> oc_stdout oc = [] \<and> oc_written oc = None"
proof -
  have "(\<exists>msg. oc = stopped msg) \<or> oc_code oc \<noteq> 2 \<and> (\<nexists>msg. oc_stderr oc = ''error: '' @ msg @ nl)"
  proof (cases "judges c")
    case True
    from exact[OF assms True] show ?thesis by (cases rule: outcome_cases) auto
  next
    case False
    from informs[OF assms False] show ?thesis by (cases rule: informed_cases) auto
  qed
  then show "oc_code oc = 2 \<longleftrightarrow> (\<exists>msg. oc_stderr oc = ''error: '' @ msg @ nl)"
    and "oc_code oc = 2 \<Longrightarrow> oc_stdout oc = [] \<and> oc_written oc = None" by auto
qed

end

interpretation main: exit_contract "main_run T P" "\<lambda>c. judging (cli_command c)" "judgement T P" for T P
  by unfold_locales (rule main_judging main_informing; assumption)+

text \<open>
  C3 (exit codes). The process never panics in the dispatch. A command with a verdict exits with 1
  exactly when its report was computed and rendered and the verdict is negative, with 0 exactly when
  it was computed and rendered and is positive, and both times prints just that rendering; an
  operation or a rendering that fails gives 2, never 0 or 1. A command without a verdict never
  exits with 1. Code 2 means an error message, nothing on the standard output and nothing written.
\<close>

theorem exit_code_exact:
  assumes "main_run T P c = Some oc"
  shows "oc_code oc \<in> {0, 1, 2}
     \<and> (oc_code oc = 1 \<longleftrightarrow> judging (cli_command c) \<and> (\<exists>t. judgement T P c = Some (False, Inr t)))
     \<and> (judging (cli_command c) \<longrightarrow> (oc_code oc = 0 \<longleftrightarrow> (\<exists>t. judgement T P c = Some (True, Inr t))))
     \<and> (judging (cli_command c) \<longrightarrow> (\<forall>ok t. judgement T P c = Some (ok, Inr t) \<longrightarrow> oc_stdout oc = t))
     \<and> (judging (cli_command c) \<longrightarrow> (\<nexists>ok t. judgement T P c = Some (ok, Inr t)) \<longrightarrow> oc_code oc = 2)
     \<and> (oc_code oc = 2 \<longleftrightarrow> (\<exists>msg. oc_stderr oc = ''error: '' @ msg @ nl))
     \<and> (oc_code oc = 2 \<longrightarrow> oc_stdout oc = [] \<and> oc_written oc = None)"
  using main.exit_codes[OF assms] main.exit_one[OF assms] main.exit_judged[OF assms] main.exit_two[OF assms]
  by blast

lemma exit_code_exact_witness:
  "\<forall>T P. \<exists>oc. main_run (T\<lparr>tl_doctor := (\<lambda>root. doctor_analyze (root, FDir []))\<rparr>) P
       \<lparr>cli_json = False, cli_verbose = False, cli_project_root = ''.'', cli_command = CmdDoctor\<rparr> = Some oc
     \<and> oc_code oc = 1
     \<and> (\<exists>t. judgement (T\<lparr>tl_doctor := (\<lambda>root. doctor_analyze (root, FDir []))\<rparr>) P
           \<lparr>cli_json = False, cli_verbose = False, cli_project_root = ''.'', cli_command = CmdDoctor\<rparr>
         = Some (False, Inr t))"
proof (intro allI)
  fix T :: tools and P :: printers
  define T1 where "T1 = T\<lparr>tl_doctor := (\<lambda>root. doctor_analyze (root, FDir []))\<rparr>"
  define c :: cli where "c = \<lparr>cli_json = False, cli_verbose = False, cli_project_root = ''.'', cli_command = CmdDoctor\<rparr>"
  have "\<not> path_exists (FDir []) [''go.work'']" by (simp add: path_exists_def)
  then obtain r where r: "doctor_analyze (''.'', FDir []) = Inr r" "\<not> rp_passed r"
    using doctor_verdict[of "(''.'', FDir [])"] unfolding snd_conv by metis
  have "tl_doctor T1 ''.'' = Inr r" using r(1) by (simp add: T1_def)
  then obtain oc where oc: "main_run T1 P c = Some oc" "oc_code oc = 1"
    using r(2) by (simp add: main_run_def report_command_def report_of_command_def c_def result_report_def
        output_report_def judged_def print_text_def shown_def render_def format_of_def printed_def)
  from exit_code_exact[OF oc(1)] oc(2) have "\<exists>t. judgement T1 P c = Some (False, Inr t)" by simp
  with oc show "\<exists>oc. main_run (T\<lparr>tl_doctor := (\<lambda>root. doctor_analyze (root, FDir []))\<rparr>) P
       \<lparr>cli_json = False, cli_verbose = False, cli_project_root = ''.'', cli_command = CmdDoctor\<rparr> = Some oc
     \<and> oc_code oc = 1
     \<and> (\<exists>t. judgement (T\<lparr>tl_doctor := (\<lambda>root. doctor_analyze (root, FDir []))\<rparr>) P
           \<lparr>cli_json = False, cli_verbose = False, cli_project_root = ''.'', cli_command = CmdDoctor\<rparr>
         = Some (False, Inr t))"
    unfolding T1_def c_def by blast
qed

section \<open>Changed files\<close>

definition status_line :: "char \<times> char \<times> string \<Rightarrow> string" where
  "status_line e = (case e of (x, y, p) \<Rightarrow> x # y # CHR '' '' # p)"

lemma changed_files_listed:
  assumes "\<forall>e \<in> set es. line_ok (status_line e) \<and> snd (snd e) \<noteq> [] \<and> plain_ends (snd (snd e))"
  shows "detect_changed_files (Some (concat (map (\<lambda>l. l @ nl) (map status_line es)))) = map (\<lambda>e. snd (snd e)) es"
proof -
  have "List.map_filter status_path (map status_line es) = map (\<lambda>e. snd (snd e)) es"
    using assms by (induction es) (auto simp: map_filter_simps status_line_def status_path_def trim_plain_ends split: prod.splits)
  moreover have "\<forall>l \<in> set (map status_line es). line_ok l" using assms by simp
  ultimately show ?thesis by (simp add: detect_changed_files_def str_lines_concat del: map_map)
qed

text \<open>A rename is taken for one file, whose name is the two paths and the arrow.\<close>

lemma rename_is_one_file:
  "detect_changed_files (Some (''R  a.go -> b.go'' @ nl)) = [''a.go -> b.go'']"
  by code_simp

end
