(* ===== verification/Spec2Isabelle.thy ===== *)
theory Spec2Isabelle
  imports GoParserProps GoRoundTrip ArchGuardProps Doctor LspBridge ScenarioProps TopologyProps
    RuntimeBindingsProps ContractProps DriftProps BaselineProps ImpactProps SymbolTrace RenameProps
    CoverageMap ContractUsageProps RecommendProps BriefingProps TracePackProps CommandLineProps
begin

text \<open>
  Verification of \<open>raccoon-cli\<close> (\<open>src/tools/raccoon-cli/src\<close>), the guard-rail tool of the
  quality cluster: a Rust program that indexes the Go sources of the project, checks its
  architecture and layout, talks to \<open>gopls\<close>, drives a running cluster through a smoke test,
  and combines the checks into a quality gate. File names below are relative to that
  directory; definitions keep the names of the functions they model.

  How the parts interact. An analyser reads the project and returns a \<open>report\<close>: checks, each
  with findings of a severity. The gate runs the analysers under a profile and turns their
  reports into a verdict. \<open>arch-guard\<close> works on the index that the walker and the Go parser
  build; the language-server bridge enriches that index; the smoke test and the results
  inspection read a running cluster over HTTP, \<open>docker\<close> and its logs.

  Theories, from the bottom up:
  \<^item> \<open>Prelude\<close>: strings as lists of characters with the Rust functions on them (\<open>trim\<close>,
    \<open>split\<close>, \<open>find\<close>, \<open>lines\<close>, \<open>strip_prefix\<close>, decimal numbers) and their lemmas.
  \<^item> \<open>Models\<close> (\<open>models/mod.rs\<close>, \<open>error/mod.rs\<close>, \<open>output/mod.rs\<close>): findings, checks,
    reports; the invariant \<open>report_wf\<close> that every constructor keeps.
  \<^item> \<open>Gate\<close> (\<open>gate/mod.rs\<close>): profiles, steps with fail-fast, promotion of warnings, summary,
    verdict and rendering, with the \<open>f64\<close> arithmetic of durations written out on integers.
    The locales \<open>analyser\<close> and \<open>total_analyser\<close> are the contract the gate relies on.
  \<^item> \<open>Filesystem\<close> (\<open>codeintel/walker.rs\<close>): a tree of files and the walk over it.
  \<^item> \<open>Doctor\<close> (\<open>analyzers/doctor.rs\<close>): the checks of the layout; it interprets
    \<open>total_analyser\<close>.
  \<^item> \<open>GoTypes\<close>, \<open>GoParser\<close> (\<open>codeintel/types.rs\<close>, \<open>codeintel/parser.rs\<close>): the facts of a Go file
    and the line-based parser, its cursor as an index into the list of lines and its brace
    depth as a 64 bit word. \<open>GoParserProps\<close>: the parser stays within the file and the depth
    counter is exact on balanced prefixes; \<open>GoRoundTrip\<close>: printing then parsing structs,
    functions and imports gives back the facts.
  \<^item> \<open>OrderedMap\<close>, \<open>GoIndex\<close> (\<open>codeintel/index.rs\<close>): the \<open>BTreeMap\<close> as a locale with its
    list implementation, the aggregation of files into packages, statistics and queries.
  \<^item> \<open>ArchGuard\<close>, \<open>ArchGuardProps\<close> (\<open>analyzers/arch_guard.rs\<close>): the eleven rules, each an
    interpretation of the locale \<open>check_rule\<close>; the layer rule characterised on the graph of
    imports between layers.
  \<^item> \<open>Diagnostics\<close>, \<open>ProcessUtils\<close> (\<open>runtime_diagnostics.rs\<close>, \<open>process_utils.rs\<close>): the log lines
    of the services, and running a command under a timeout.
  \<^item> \<open>LspWire\<close>, \<open>LspClient\<close>, \<open>LspBridge\<close> (\<open>lsp/\<close>): message framing over a pipe read through a
    buffered reader, whose refinement to a plain stream of bytes is a locale interpreted on
    it; requests, handshake and shutdown; enrichment of facts and its degradation.
  \<^item> \<open>ResultsInspect\<close>, \<open>ResultsRender\<close> (\<open>results_inspect/mod.rs\<close>): validation results, filters and
    summary; the rendering, whose percentages in double precision are the nearest integers.
  \<^item> \<open>Smoke\<close>, \<open>SmokeProps\<close> (\<open>smoke/mod.rs\<close>, \<open>stages.rs\<close>, \<open>api.rs\<close>, \<open>compose.rs\<close>): the stages,
    with the world they change passed from call to call, and the pipeline with its
    inductive trace.
  \<^item> \<open>Scenarios\<close>, \<open>ScenarioProps\<close> (\<open>smoke/scenarios.rs\<close>): the five named scenarios over these
    stages; what passing a life-cycle or invalid-payload scenario means, and that they return.
  \<^item> \<open>SourceText\<close>, \<open>HashOrder\<close>: the text scanning the analysers share, hash maps, and the locale
    \<open>order_robust\<close>: the order in which hash maps are iterated does not change a verdict.
  \<^item> \<open>ComposeFile\<close>, \<open>ComposeRoundTrip\<close> (\<open>analyzers/topology/compose.rs\<close>): the parser of the compose
    file as a step function on its local state, free of panics and inverse to a printer.
  \<^item> \<open>Topology\<close>, \<open>TopologyProps\<close> (\<open>analyzers/topology.rs\<close>, \<open>configs.rs\<close>, \<open>source.rs\<close>): the topology
    doctor, what its passing guarantees, independence of hash order.
  \<^item> \<open>RuntimeBindings\<close>, \<open>RuntimeBindingsProps\<close> (\<open>analyzers/runtime_bindings.rs\<close>, \<open>configs.rs\<close>,
    \<open>source.rs\<close>): bindings and the JetStream subjects derived from them, likewise.
  \<^item> \<open>ContractScan\<close>, \<open>ContractSources\<close>, \<open>ContractChecks\<close>, \<open>ContractProps\<close>
    (\<open>analyzers/contracts.rs\<close> and \<open>contracts/\<close>): the literals and structs of Go sources found by
    brace matching, the thirteen checks on them, the subject matcher against the rules of NATS.
  \<^item> \<open>DriftDetect\<close>, \<open>DriftChecks\<close>, \<open>DriftProps\<close> (\<open>analyzers/drift_detect.rs\<close>): the evidence gathered
    from the files of the project and the six checks that compare it.
  \<^item> \<open>Snapshot\<close>, \<open>SnapshotDiff\<close>, \<open>SnapshotProps\<close> (\<open>analyzers/snapshot.rs\<close>, \<open>snapshot_diff.rs\<close>):
    the sections of a snapshot of the index and their difference, each an interpretation of
    the locale \<open>section_contract\<close>, which says when a section has no change.
  \<^item> \<open>BaselineDrift\<close>, \<open>BaselineProps\<close> (\<open>analyzers/baseline_drift.rs\<close>): the drift report against a
    baseline, its invariant, and what it notices.
  \<^item> \<open>ImpactMap\<close>, \<open>ImpactProps\<close> (\<open>analyzers/impact_map.rs\<close>): a target resolved to a file, package or
    symbol, its dependents, contract surface, areas and risks; the loop over queries to gopls.
  \<^item> \<open>RenameSafety\<close>, \<open>RenameProps\<close> (\<open>analyzers/rename_safety.rs\<close>): references by declaration, the
    scan for whole words, the risk level; completeness of the references.
  \<^item> \<open>SymbolTrace\<close> (\<open>analyzers/symbol_trace.rs\<close>): the trace with its own loops, and its agreement
    with the rename check.
  \<^item> \<open>CoverageMap\<close> (\<open>analyzers/coverage_map.rs\<close>): dimensions, areas and guidance.
  \<^item> \<open>ContractUsage\<close>, \<open>ContractUsageProps\<close> (\<open>analyzers/contract_usage_map.rs\<close>): contract types and
    their sites; totals, breadth, enrichment.
  \<^item> \<open>FirstOfKey\<close>: the locale of vectors that keep the first element of each key, interpreted on the
    contracts of the usage map, the scenarios of the recommendations and the items of the briefing.
  \<^item> \<open>Tdd\<close>, \<open>TddProps\<close>, \<open>Recommend\<close>, \<open>RecommendProps\<close>, \<open>Briefing\<close>, \<open>BriefingProps\<close>
    (\<open>analyzers/tdd.rs\<close>, \<open>recommend.rs\<close>, \<open>briefing.rs\<close>): the guides that combine the other analyses,
    what their scenarios, gate profile and commands follow from, and the briefing without gopls.
  \<^item> \<open>TracePack\<close>, \<open>TracePackProps\<close> (\<open>trace_pack/mod.rs\<close>, \<open>trace_pack/collect.rs\<close>): the evidence
    collected from docker, HTTP and files, the pack written as a sequence of requests to the disk,
    and the diagnosis of the refresh consumers; dates and durations, and what a pack contains.
  \<^item> \<open>CommandLine\<close>, \<open>CommandLineProps\<close> (\<open>main.rs\<close>): the commands and their dispatch over a record of
    the operations they call, what they print, write and exit with; what an exit code says of
    the verdict, and the changed files read from git.
  \<^item> this theory: the gate with the modelled analysers in place, and what its passing
    guarantees of the project and of the cluster; the program, which is the command line with
    all modelled operations in place over a record of what is outside, and what an exit with 0
    guarantees.

  Conventions. A fallible function returns a sum, its error on the left. Loops that consume a
  list or a cursor are total functions; a loop that can run for ever (polling, waiting for a
  child, reading messages from a pipe) is a \<open>partial_function (option)\<close> and \<open>None\<close> is
  divergence, so that termination is a theorem under a stated condition on the clock or the
  pipe. No fuel is used. Machine integers are kept where the code can overflow them
  (the brace depths, request ids, LSP lines, seconds and days of dates); elsewhere lengths and counters
  are natural numbers or integers, as in the differences of a snapshot. Strings are lists of
  8 bit characters: multi-byte characters in the source are written as their UTF-8 bytes. A hash map is
  the list of its entries, its iteration order a parameter where the code iterates it.

  Parameters, for code outside the repository: JSON parsing and building (\<open>serde_json\<close>),
  HTTP (\<open>ureq\<close>), \<open>docker\<close>, the child process \<open>gopls\<close> (a write to it is taken, fails or blocks), the
  clock, and the iteration order of hash sets (a permutation). Hypotheses about them are premises of the
  theorems.

  Not modelled: the parsing of arguments (\<open>clap\<close>), JSON in both directions (\<open>serde_json\<close>), symbolic
  links and permissions in the file system, upper case beyond ASCII in Go identifiers, and the
  smoke step of the gate before it returns (its loops are in \<open>Smoke\<close>, with their termination in
  \<open>ScenarioProps\<close>). The Go services of the cluster are another language and are not modelled.
\<close>

section \<open>The gate on a project\<close>

text \<open>
  The gate's analysers with the modelled ones in place: the six static ones read the project found
  on the disk at the project root; the smoke step stays a parameter. The order of a hash set or
  map is given by its name.
\<close>

definition project_analysers :: "'j value_api \<Rightarrow> (string \<Rightarrow> 'j option) \<Rightarrow> (path \<Rightarrow> string)
                                 \<Rightarrow> hash_orders \<Rightarrow> (string \<Rightarrow> fs_node) \<Rightarrow> analysers \<Rightarrow> analysers" where
  "project_analysers J from_str io_error h disk an =
     an\<lparr>an_doctor := (\<lambda>root. doctor_analyze (root, disk root)),
        an_topology := (\<lambda>root. topology_analyze J from_str io_error h (disk root)),
        an_contracts := (\<lambda>root. contracts_analyze io_error (disk root)),
        an_runtime_bindings := (\<lambda>root. runtime_bindings_analyze J from_str io_error h (disk root)),
        an_arch_guard := (\<lambda>root. arch_guard_analyze (h ''arch-guard'') (disk root)),
        an_drift_detect := (\<lambda>root. drift_detect_analyze J from_str h (disk root))\<rparr>"

lemma project_analysers_wf:
  assumes "analysers_wf an cfg"
  shows "analysers_wf (project_analysers J from_str io_error h disk an) cfg"
  using assms
  by (simp add: analysers_wf_def static_plan_def smoke_result_def project_analysers_def doctor.analyse_result_wf
      topology.analyse_result_wf contracts.analyse_result_wf bindings.analyse_result_wf
      arch_guard.analyse_result_wf drift.analyse_result_wf)

text \<open>A clean result is a report that passed.\<close>

lemma clean_passed:
  assumes "clean p res" "result_wf res"
  obtains r where "res = Inr r" "rp_passed r"
proof (cases res)
  case (Inr r)
  with assms passed_sev_count [of r] that show ?thesis by (simp add: clean_def result_wf_def)
qed (use assms in \<open>simp add: clean_def\<close>)

lemma doctor_clean:
  "clean p (doctor_analyze pr) \<longleftrightarrow>
     path_exists (snd pr) [''go.work''] \<and> (p = Ci \<longrightarrow> layout_complete pr)"
proof -
  have "sev_count Error r = 0 \<longleftrightarrow> path_exists (snd pr) [''go.work'']"
    "sev_count Warning r = 0 \<longleftrightarrow> layout_complete pr" if "rp_checks r = doctor_checks pr" for r
    unfolding sev_count_zero that
    by (auto simp: doctor_checks_def doctor_severities layout_complete_def dir_reasons_def)
  then show ?thesis
    by (simp add: clean_def doctor_analyze_def)
qed

lemma arch_guard_clean:
  assumes "clean p (arch_guard_analyze h root)"
  shows "path_is_dir root [''internal'']"
    and "c \<in> set (arch_rules h root) \<Longrightarrow> ck_status c \<noteq> CheckFail"
proof -
  obtain r where r: "arch_guard_analyze h root = Inr r" using arch_guard.analyse_total by blast
  with assms have no_err: "\<forall>c\<in>set (rp_checks r). Error \<notin> severities c"
    by (simp add: clean_def sev_count_zero)
  show dir: "path_is_dir root [''internal'']"
  proof (rule ccontr)
    assume "\<not> ?thesis"
    with r no_err show False
      by (auto simp: arch_guard_analyze_def severities_def)
  qed
  assume c: "c \<in> set (arch_rules h root)"
  with dir r have "c \<in> set (rp_checks r)" by (auto simp: arch_guard_analyze_def)
  moreover have "check_wf c" using c by (auto simp: arch_rules_def Let_def rules_wf)
  ultimately show "ck_status c \<noteq> CheckFail" using no_err by (auto simp: check_wf_def)
qed

lemma gate_guards_project:
  assumes "analysers_wf an cfg" and "orders_ok h" and "root = disk (gc_project_root cfg)"
    and "gate_run (project_analysers J from_str io_error h disk an) clock t cfg = Inr g" and "gr_passed g"
  shows "path_exists root [''go.work''] \<and> path_is_dir root [''internal'']
         \<and> (\<forall>(a, b)\<in>layer_edges (build_index root). is_allowed_dependency a b)
         \<and> pipeline_configured (read_topology J from_str io_error root)
         \<and> pred_option streams_connected (tp_source (read_topology J from_str io_error root))
         \<and> (\<exists>ix. scan_contracts io_error root = Inr ix \<and> contracts_ok ix)
         \<and> (\<exists>src. scan_runtime_bindings J from_str io_error root = Inr src \<and> routing_ok src)
         \<and> targets_exist (gather_evidence J from_str root)
         \<and> (gc_profile cfg = Ci \<longrightarrow> layout_complete (gc_project_root cfg, root))"
proof -
  have plan: "\<forall>p\<in>set (static_plan (project_analysers J from_str io_error h disk an) cfg).
      clean (gc_profile cfg) (snd p)"
    using gate_clean [OF project_analysers_wf [OF assms(1)]] gate_run_passed [OF assms(4)] assms(5)
    by blast
  let ?p = "gc_profile cfg"
  from plan have doctor: "clean ?p (doctor_analyze (gc_project_root cfg, root))"
    and arch: "clean ?p (arch_guard_analyze (h ''arch-guard'') root)"
    and topo: "clean ?p (topology_analyze J from_str io_error h root)"
    and cont: "clean ?p (contracts_analyze io_error root)"
    and bind: "clean ?p (runtime_bindings_analyze J from_str io_error h root)"
    and drf: "clean ?p (drift_detect_analyze J from_str h root)"
    by (simp_all add: static_plan_def project_analysers_def assms(3))
  have "ck_status (check_layer_deps (build_index root)) \<noteq> CheckFail"
    by (rule arch_guard_clean(2) [OF arch]) (simp add: arch_rules_def Let_def)
  then have layers: "\<forall>(a, b)\<in>layer_edges (build_index root). is_allowed_dependency a b"
    unfolding layer_rule_status by blast
  obtain r1 where "topology_analyze J from_str io_error h root = Inr r1" "rp_passed r1"
    using clean_passed [OF topo topology.analyse_result_wf] .
  from topology_guarantee [OF this assms(2)] have t: "pipeline_configured (read_topology J from_str io_error root)"
    "pred_option streams_connected (tp_source (read_topology J from_str io_error root))" by simp_all
  obtain r2 where "contracts_analyze io_error root = Inr r2" "rp_passed r2"
    using clean_passed [OF cont contracts.analyse_result_wf] .
  from contracts_guarantee [OF this] have c: "\<exists>ix. scan_contracts io_error root = Inr ix \<and> contracts_ok ix" .
  obtain r3 where "runtime_bindings_analyze J from_str io_error h root = Inr r3" "rp_passed r3"
    using clean_passed [OF bind bindings.analyse_result_wf] .
  from bindings_guarantee [OF this]
  have b: "\<exists>src. scan_runtime_bindings J from_str io_error root = Inr src \<and> routing_ok src" by blast
  obtain r4 where "drift_detect_analyze J from_str h root = Inr r4" "rp_passed r4"
    using clean_passed [OF drf drift.analyse_result_wf] .
  from drift_guarantee [OF this assms(2)] have d: "targets_exist (gather_evidence J from_str root)"
    by (simp add: Let_def)
  from doctor layers arch_guard_clean(1) [OF arch] t c b d show ?thesis by (simp add: doctor_clean)
qed

text \<open>
  A project that all six analysers accept: the sources and contracts of \<open>bound_project\<close> with a
  registry, the three service configurations and two layers of Go files.
\<close>

definition full_registry :: fs_node where
  "full_registry = go_file
     [''Get: ControlSpec{'', ''Subject: '' @ quoted ''a.control.g'', ''RequestType: '' @ quoted ''a.query.g'',
      ''ReplyType: '' @ quoted ''a.reply.g'', ''}'',
      ''E: EventSpec{'', ''Subject: '' @ quoted ''a.events.d'', ''Type: '' @ quoted ''a.event.d'', ''}'']"

definition full_dataplane :: fs_node where
  "full_dataplane = go_file
     [''const subjectPrefix = '' @ quoted ''dataplane.ingestion.received'',
      ''Name: '' @ quoted ''DATA_PLANE_INGESTION'', ''Durable: '' @ quoted ''validator-dataplane-v1'']"

definition full_events :: fs_node where
  "full_events = go_file
     [''Name: '' @ quoted ''CONFIGCTL_EVENTS'', ''Durable: '' @ quoted ''consumer-runtime-refresh-v1'',
      ''Durable: '' @ quoted ''emulator-runtime-refresh-v1'',
      ''Durable: '' @ quoted ''validator-runtime-cache-v1'']"

definition full_project :: fs_node where
  "full_project =
     FDir [(''go.work'', FFile (Some [])),
       (''deploy'', FDir [(''configs'', FDir
          [(''consumer.jsonc'', FFile (Some ''c'')), (''emulator.jsonc'', FFile (Some ''e'')),
           (''validator.jsonc'', FFile (Some ''v''))])]),
       (''internal'', FDir
         [(''domain'', FDir [(''a.go'', go_file [''package domain''])]),
          (''adapters'', FDir [(''events.go'', full_events), (''x_registry.go'', full_registry)]),
          (''application'', FDir
            [(''b.go'', go_file [''package application'', ''import '' @ quoted ''github.com/acme/qs/internal/domain'']),
             (''runtimebootstrap'', FDir [(''client.go'', FFile (Some []))]),
             (''dataplane'', FDir [(''topology.go'', full_dataplane)]),
             (''configctl'', FDir
               [(''contracts'', FDir [(''replies.go'', go_file
                   [''Bindings []ActiveIngestionBindingRecord'', ''Runtimes []sharedruntime.RuntimeRecord''])]),
                (''list_active_ingestion_bindings.go'', go_file
                   [''Runtimes: compactIngestionRuntimesFromDomain(runtimes)'']),
                (''mappers.go'', go_file
                   [''func compactIngestionRuntimesFromDomain'',
                    ''sharedruntime.RecordFromIngestionProjection(runtime)''])])]),
          (''actors'', FDir [(''scopes'', FDir [(''validator'', FDir
             [(''runtime_cache.go'', FFile (Some [])), (''validation_worker.go'', FFile (Some []))])])]),
          (''interfaces'', FDir [(''http'', FDir [(''routes'', FDir
             [(''runtime.go'', go_file [''Path:    '' @ quoted ''/runtime/configctl/projections''])])])])])]"

definition full_json :: "string \<Rightarrow> small_json option" where
  "full_json _ = Some demo_topology_json"

definition checks_pass :: "check_result list \<Rightarrow> bool" where
  "checks_pass cs = list_all (\<lambda>c. ck_status c \<noteq> CheckFail) cs"

lemma full_project_arch: "clean Fast (arch_guard_analyze (\<lambda>ks. ks) full_project)"
  by code_simp

lemma full_project_topology:
  "checks_pass (topology_checks small_api full_json (\<lambda>_. []) (\<lambda>_ ks. ks) full_project)"
  by code_simp

lemma full_project_bindings:
  "checks_pass (bindings_checks small_api full_json (\<lambda>_. []) (\<lambda>_ ks. ks) full_project)"
  by code_simp

lemma full_project_contracts:
  "case scan_contracts (\<lambda>_. []) full_project of Inr ix \<Rightarrow> checks_pass (contract_checks ix) | Inl _ \<Rightarrow> False"
  by code_simp

lemma full_project_drift:
  "checks_pass (drift_checks (\<lambda>_ ks. ks) (gather_evidence small_api full_json full_project))"
  by code_simp

lemma full_project_edge: "(1, 0) \<in> layer_edges (build_index full_project)"
proof -
  have "\<exists>f\<in>set (internal_files (build_index full_project)).
      \<exists>imp\<in>set (gf_imports f). layer_edge f imp = Some (1, 0)"
    by code_simp
  then show ?thesis by (simp add: layer_edges_def)
qed

lemma clean_fast: "rp_passed r \<Longrightarrow> report_wf r \<Longrightarrow> clean Fast (Inr r)"
  using passed_sev_count [of r] by (simp add: clean_def)

lemma full_project_clean:
  "clean Fast (topology_analyze small_api full_json (\<lambda>_. []) (\<lambda>_ ks. ks) full_project)"
  "clean Fast (contracts_analyze (\<lambda>_. []) full_project)"
  "clean Fast (runtime_bindings_analyze small_api full_json (\<lambda>_. []) (\<lambda>_ ks. ks) full_project)"
  "clean Fast (drift_detect_analyze small_api full_json (\<lambda>_ ks. ks) full_project)"
proof -
  show "clean Fast (topology_analyze small_api full_json (\<lambda>_. []) (\<lambda>_ ks. ks) full_project)"
    unfolding topology_analyze_def using full_project_topology
    by (intro clean_fast topology.analyse_wf [OF topology_analyze_def]) (simp add: checks_pass_def list_all_iff)
  show "clean Fast (runtime_bindings_analyze small_api full_json (\<lambda>_. []) (\<lambda>_ ks. ks) full_project)"
    unfolding runtime_bindings_analyze_def using full_project_bindings
    by (intro clean_fast bindings.analyse_wf [OF runtime_bindings_analyze_def]) (simp add: checks_pass_def list_all_iff)
  show "clean Fast (drift_detect_analyze small_api full_json (\<lambda>_ ks. ks) full_project)"
    unfolding drift_detect_analyze_def using full_project_drift
    by (intro clean_fast drift.analyse_wf [OF drift_detect_analyze_def]) (simp add: checks_pass_def list_all_iff)
  obtain ix where ix: "scan_contracts (\<lambda>_. []) full_project = Inr ix" "checks_pass (contract_checks ix)"
    using full_project_contracts by (auto split: sum.splits)
  have "path_is_dir full_project [''internal'']" by code_simp
  then have eq: "contracts_analyze (\<lambda>_. []) full_project
      = Inr (foldl report_add (report_new ''contract-audit'') (contract_checks ix))"
    by (simp add: contracts_analyze_def ix(1))
  show "clean Fast (contracts_analyze (\<lambda>_. []) full_project)"
    unfolding eq using ix(2) by (intro clean_fast contracts.analyse_wf [OF eq]) (simp add: checks_pass_def list_all_iff)
qed

text \<open>
  Property (what a passing gate guarantees of the project). When the gate passes with the modelled
  analysers, under any profile, \<open>go.work\<close> and \<open>internal/\<close> exist; every import between layers of the
  indexed Go files is an allowed one; the services of the pipeline are configured and the streams
  and durable consumers of the sources connected; the contract registries are complete and named
  by the convention; the runtime bindings have their routing; and every documented make target
  exists. Under \<open>ci\<close> the whole expected layout is there as well.
\<close>

theorem passing_gate_guards_project:
  assumes "analysers_wf an cfg" and "orders_ok h" and "root = disk (gc_project_root cfg)"
    and "gate_run (project_analysers J from_str io_error h disk an) clock t cfg = Inr g" and "gr_passed g"
  shows "path_exists root [''go.work''] \<and> path_is_dir root [''internal'']
         \<and> (\<forall>(a, b)\<in>layer_edges (build_index root). is_allowed_dependency a b)
         \<and> pipeline_configured (read_topology J from_str io_error root)
         \<and> pred_option streams_connected (tp_source (read_topology J from_str io_error root))
         \<and> (\<exists>ix. scan_contracts io_error root = Inr ix \<and> contracts_ok ix)
         \<and> (\<exists>src. scan_runtime_bindings J from_str io_error root = Inr src \<and> routing_ok src)
         \<and> targets_exist (gather_evidence J from_str root)
         \<and> (gc_profile cfg = Ci \<longrightarrow> layout_complete (gc_project_root cfg, root))"
  using gate_guards_project[OF assms] .

theorem passing_gate_guards_project_witness:
  "(1, 0) \<in> layer_edges (build_index full_project) \<and> is_allowed_dependency 1 0
   \<and> pipeline_configured (read_topology small_api full_json (\<lambda>_. []) full_project)
   \<and> (\<exists>ix. scan_contracts (\<lambda>_. []) full_project = Inr ix \<and> contracts_ok ix)"
proof -
  let ?cfg = "demo_config Fast False"
  let ?an = "project_analysers small_api full_json (\<lambda>_. []) (\<lambda>_ ks. ks) (\<lambda>_. full_project) tidy_analysers"
  have wf: "analysers_wf tidy_analysers cfg" for cfg
    by (simp add: analysers_wf_def tidy_analysers_def static_plan_def smoke_result_def
        result_wf_def report_wf_new)
  obtain g where g: "gate_run ?an (\<lambda>_. 5) 9 ?cfg = Inr g" by (simp add: gate_run_def)
  have doctor: "clean Fast (doctor_analyze (gc_project_root ?cfg, full_project))"
    by (simp add: doctor_clean) (simp add: path_exists_def full_project_def)
  have "no_failure (gate_steps ?an (\<lambda>_. 5) ?cfg)"
    unfolding gate_clean [OF project_analysers_wf [OF wf]]
    using doctor by (simp add: static_plan_def project_analysers_def tidy_analysers_def demo_config_def
        full_project_arch full_project_clean)
  then have passed: "gr_passed g" using gate_run_passed [OF g] by simp
  have "orders_ok (\<lambda>_ ks. ks)" by (simp add: orders_ok_def)
  note all = passing_gate_guards_project [OF wf this refl g passed]
  from all have "\<forall>(a, b)\<in>layer_edges (build_index full_project). is_allowed_dependency a b" by simp
  with full_project_edge have "is_allowed_dependency 1 0" by auto
  with all full_project_edge show ?thesis by simp
qed

text \<open>
  C36 (what a passing \<open>deep\<close> gate guarantees of the cluster). When the smoke step of the gate
  is the modelled smoke run, a \<open>deep\<close> gate that passes has seen all six stages of it pass: none
  failed and none was skipped.
\<close>

theorem passing_deep_gate_ran_smoke:
  assumes "analysers_wf an cfg" and "gc_profile cfg = Deep"
    and "smoke_run env J B sk w = Some (rep, w')"
    and "an_smoke an (gc_project_root cfg) (gc_base_url cfg) = Inr rep"
    and "gate_run an clock t cfg = Inr g" and "gr_passed g"
  shows "map ck_name (rp_checks rep) = stage_names
         \<and> list_all (\<lambda>c. ck_status c = CheckPass) (rp_checks rep)"
proof -
  have "clean Deep (Inr rep)"
    using gate_clean [OF assms(1)] gate_run_passed [OF assms(5)] assms(2,4,6)
    by (simp add: smoke_result_def)
  then have "rp_passed rep"
    using passed_sev_count [OF smoke_run_report(4) [OF assms(3)]] by (simp add: clean_def)
  with smoke_run_report(3,6) [OF assms(3)] show ?thesis by (simp add: list_all_iff)
qed

theorem passing_deep_gate_ran_smoke_witness:
  "\<exists>rep. smoke_run healthy_host small_api small_build demo_smoke 0 = Some (rep, 9)
         \<and> list_all (\<lambda>c. ck_status c = CheckPass) (rp_checks rep)"
proof -
  obtain rep where rep: "smoke_run healthy_host small_api small_build demo_smoke 0 = Some (rep, 9)"
    "rp_passed rep"
    using healthy_run by blast
  have rep_wf: "report_wf rep" by (rule smoke_run_report(4) [OF rep(1)])
  let ?an = "tidy_analysers\<lparr>an_smoke := \<lambda>_ _. Inr rep\<rparr>"
  let ?cfg = "demo_config Deep True"
  have wf: "analysers_wf ?an ?cfg"
    by (simp add: analysers_wf_def tidy_analysers_def static_plan_def smoke_result_def
        result_wf_def report_wf_new rep_wf)
  obtain g where g: "gate_run ?an (\<lambda>_. 5) 9 ?cfg = Inr g" by (simp add: gate_run_def)
  have "sev_count Error rep = 0" using passed_sev_count [OF rep_wf] rep(2) by simp
  then have "no_failure (gate_steps ?an (\<lambda>_. 5) ?cfg)"
    unfolding gate_clean [OF wf]
    by (simp add: static_plan_def tidy_analysers_def clean_def sev_count_def smoke_result_def demo_config_def)
  then have passed: "gr_passed g" using gate_run_passed [OF g] by simp
  have deep: "gc_profile ?cfg = Deep" by (simp add: demo_config_def)
  have "an_smoke ?an (gc_project_root ?cfg) (gc_base_url ?cfg) = Inr rep" by simp
  from passing_deep_gate_ran_smoke [OF wf deep rep(1) this g passed] rep(1) show ?thesis by blast
qed

section \<open>The program\<close>

text \<open>
  Everything outside the program: the projects and files of the disk, the JSON parsers, HTTP,
  docker, gopls, git, the clock and the iteration order of hash sets. The smoke step of the gate is
  one that returned.
\<close>

record ('j, 'k, 'w, 'st) host =
  ho_tree :: "string \<Rightarrow> fs_node"
  ho_files :: fs_node
  ho_value :: "'j value_api"
  ho_parse :: "string \<Rightarrow> 'j option"
  ho_parse_snapshot :: "string \<Rightarrow> string + snapshot"
  ho_io_error :: "path \<Rightarrow> string"
  ho_orders :: hash_orders
  ho_clock :: "string \<Rightarrow> nat"
  ho_gate_ms :: nat
  ho_generated_at :: string
  ho_version :: string
  ho_epoch :: nat
  ho_http :: "string \<Rightarrow> http_error + (string + 'j)"
  ho_gate_smoke :: "string \<Rightarrow> string \<Rightarrow> cli_error + report"
  ho_cluster :: "('w, 'j) smoke_env"
  ho_build :: "'j json_build"
  ho_as_bool :: "'j \<Rightarrow> bool option"
  ho_world :: 'w
  ho_run_id :: string
  ho_rpc :: "'k json_api"
  ho_gopls :: "string \<Rightarrow> client_stop + gopls"
  ho_show_client :: "client_error \<Rightarrow> string"
  ho_absolute :: "string \<Rightarrow> string \<Rightarrow> string"
  ho_pack_env :: "'st pack_env"
  ho_disk :: disk
  ho_git :: "string \<Rightarrow> string option"
  ho_write :: "string \<Rightarrow> string \<Rightarrow> string option"

definition path_of :: "string \<Rightarrow> path" where
  "path_of s = filter (\<lambda>c. c \<noteq> []) (split_on s ''/'')"

definition smoke_config_of :: "('j, 'k, 'w, 'st) host \<Rightarrow> string \<Rightarrow> string \<Rightarrow> smoke_config" where
  "smoke_config_of h root base_url =
     smoke_config_new (ho_run_id h) (root @ ''/deploy/compose/docker-compose.yaml'') (Some base_url)"

definition host_gate :: "('j, 'k, 'w, 'st) host \<Rightarrow> gate_config \<Rightarrow> cli_error + gate_report" where
  "host_gate h cfg =
     gate_run (project_analysers (ho_value h) (ho_parse h) (ho_io_error h) (ho_orders h) (ho_tree h)
                 (tidy_analysers\<lparr>an_smoke := ho_gate_smoke h\<rparr>))
       (ho_clock h) (ho_gate_ms h) cfg"

definition host_baseline :: "('j, 'k, 'w, 'st) host \<Rightarrow> string \<Rightarrow> string \<Rightarrow> baseline_error + baseline_drift_report" where
  "host_baseline h baseline root =
     baseline_analyze (ho_parse_snapshot h) (ho_io_error h) (ho_generated_at h) (ho_version h) (ho_files h)
       (path_of baseline) root (ho_tree h root)"

definition program_tools :: "('j, 'k, 'w, 'st) host \<Rightarrow> tools" where
  "program_tools h =
     (let an = project_analysers (ho_value h) (ho_parse h) (ho_io_error h) (ho_orders h) (ho_tree h)
                 (tidy_analysers\<lparr>an_smoke := ho_gate_smoke h\<rparr>);
          tree = ho_tree h; rpc = ho_rpc h; abs = ho_absolute h
      in \<lparr>tl_doctor = an_doctor an, tl_topology = an_topology an, tl_contracts = an_contracts an,
          tl_bindings = an_runtime_bindings an, tl_drift = an_drift_detect an, tl_arch = an_arch_guard an,
          tl_coverage = (\<lambda>root. coverage_analyze (tree root)),
          tl_smoke = (\<lambda>root url. map_option (\<lambda>(r, _). Inr r)
            (smoke_run (ho_cluster h) (ho_value h) (ho_build h) (smoke_config_of h root url) (ho_world h))),
          tl_scenario = (\<lambda>s root url. map_option fst
            (run_scenario (ho_cluster h) (ho_value h) (ho_as_bool h) (ho_build h) s (smoke_config_of h root url)
               (ho_world h))),
          tl_inspect = inspect_run (ho_value h) (ho_http h),
          tl_gate = host_gate h,
          tl_baseline = host_baseline h,
          tl_snapshot = (\<lambda>root. generate_snapshot (ho_generated_at h) (ho_version h) root (tree root)),
          tl_load = (\<lambda>p. load_snapshot (ho_parse_snapshot h) (ho_io_error h) (ho_files h) (path_of p)),
          tl_recommend = (\<lambda>root edited. recommend_analyze (tree root) edited),
          tl_recommend_baseline = (\<lambda>root edited b. recommend_with_baseline (tree root) edited (host_baseline h b root)),
          tl_pack = (\<lambda>cfg. map_option snd
            (trace_pack_run (ho_value h) (ho_parse h) (ho_pack_env h) (ho_disk h) (ho_epoch h) cfg)),
          tl_bridge = (\<lambda>root. bridge_new (ho_show_client h) (ho_gopls h root)),
          tl_shutdown = bridge_shutdown rpc,
          tl_enrich = (\<lambda>root symbol. enrich_symbol_with_index rpc (abs root) (build_index (tree root)) symbol),
          tl_usage = (\<lambda>root. usage_map (tree root)),
          tl_usage_lsp = (\<lambda>root. usage_with_lsp rpc (abs root) (tree root)),
          tl_rename = (\<lambda>root. rename_check (tree root)),
          tl_rename_lsp = (\<lambda>root. rename_check_with_lsp rpc (abs root) (tree root)),
          tl_trace = (\<lambda>root. symbol_trace (tree root)),
          tl_trace_lsp = (\<lambda>root. trace_with_lsp rpc (abs root) (tree root)),
          tl_briefing = (\<lambda>root. briefing_analyze (ho_orders h ''arch-guard'') (ho_io_error h) (tree root)),
          tl_briefing_lsp = (\<lambda>root.
            briefing_with_lsp rpc (abs root) (ho_orders h ''arch-guard'') (ho_io_error h) (tree root)),
          tl_impact = (\<lambda>root. impact_analyze (tree root)),
          tl_impact_lsp = (\<lambda>root. impact_with_lsp rpc (abs root) (tree root)),
          tl_tdd = (\<lambda>root. tdd_analyze (tree root)),
          tl_git = ho_git h,
          tl_write = ho_write h\<rparr>)"

text \<open>
  C1 (the exit code of the gate). When the process started with \<open>quality-gate\<close> exits with 0, the
  project has the guarantees of a passing gate: the layout, allowed layer edges only, the pipeline
  configured and its streams connected, contracts, routing and workflow targets in order, and with
  the profile \<open>ci\<close> a complete layout; whatever gopls, docker, git and the network do.
\<close>

theorem gate_exit_guards_project:
  assumes "orders_ok (ho_orders h)" and "\<And>root url. result_wf (ho_gate_smoke h root url)"
    and run: "main_run (program_tools h) P c = Some oc" and zero: "oc_code oc = 0"
    and cmd: "cli_command c = CmdQualityGate profile url fail_fast" and root: "root = ho_tree h (cli_project_root c)"
  shows "path_exists root [''go.work''] \<and> path_is_dir root [''internal'']
         \<and> (\<forall>(a, b)\<in>layer_edges (build_index root). is_allowed_dependency a b)
         \<and> pipeline_configured (read_topology (ho_value h) (ho_parse h) (ho_io_error h) root)
         \<and> pred_option streams_connected (tp_source (read_topology (ho_value h) (ho_parse h) (ho_io_error h) root))
         \<and> (\<exists>ix. scan_contracts (ho_io_error h) root = Inr ix \<and> contracts_ok ix)
         \<and> (\<exists>src. scan_runtime_bindings (ho_value h) (ho_parse h) (ho_io_error h) root = Inr src \<and> routing_ok src)
         \<and> targets_exist (gather_evidence (ho_value h) (ho_parse h) root)
         \<and> (profile = GateCi \<longrightarrow> layout_complete (cli_project_root c, root))"
proof -
  let ?cfg = "\<lparr>gc_project_root = cli_project_root c, gc_profile = profile_of profile, gc_base_url = url,
               gc_fail_fast = fail_fast\<rparr>"
  have wf: "analysers_wf (tidy_analysers\<lparr>an_smoke := ho_gate_smoke h\<rparr>) ?cfg"
    by (simp add: analysers_wf_def tidy_analysers_def static_plan_def smoke_result_def result_wf_def
        report_wf_new assms(2)[unfolded result_wf_def])
  have "judging (cli_command c)" by (simp add: cmd judging_def)
  with main.exit_judged(1)[OF run] zero obtain t where "judgement (program_tools h) P c = Some (True, Inr t)" by blast
  then obtain g where g: "host_gate h ?cfg = Inr g" "gr_passed g"
    using cmd by (auto simp: judgement_def program_tools_def Let_def split: sum.splits)
  have ci: "gc_profile ?cfg = Ci" if "profile = GateCi" using that by simp
  show ?thesis
    using gate_guards_project[OF wf assms(1) _ g(1)[unfolded host_gate_def] g(2), of root] ci root by simp
qed

text \<open>Any machine with a project that passes, and the command line of the gate.\<close>

definition tidy_host ::
    "(small_json, 'k, 'w, 'st) host \<Rightarrow> (small_json, 'k, 'w, 'st) host" where
  "tidy_host h =
     h\<lparr>ho_tree := (\<lambda>_. full_project), ho_value := small_api, ho_parse := full_json, ho_io_error := (\<lambda>_. []),
       ho_orders := (\<lambda>_ ks. ks), ho_gate_smoke := (\<lambda>_ _. Inr (report_new ''runtime-smoke''))\<rparr>"

definition gate_cli :: cli where
  "gate_cli =
     \<lparr>cli_json = False, cli_verbose = False, cli_project_root = ''.'',
      cli_command = CmdQualityGate GateFast ''http://127.0.0.1:8080'' False\<rparr>"

lemma tidy_host_gate:
  "\<exists>g. host_gate (tidy_host h) \<lparr>gc_project_root = ''.'', gc_profile = Fast, gc_base_url = u, gc_fail_fast = False\<rparr> = Inr g
     \<and> gr_passed g"
proof -
  let ?cfg = "\<lparr>gc_project_root = ''.'', gc_profile = Fast, gc_base_url = u, gc_fail_fast = False\<rparr>"
  let ?base = "tidy_analysers\<lparr>an_smoke := ho_gate_smoke (tidy_host h)\<rparr>"
  have wf: "analysers_wf ?base cfg" for cfg
    by (simp add: analysers_wf_def tidy_analysers_def static_plan_def smoke_result_def result_wf_def
        report_wf_new tidy_host_def)
  obtain g where g: "host_gate (tidy_host h) ?cfg = Inr g" by (simp add: host_gate_def gate_run_def)
  have doctor: "clean Fast (doctor_analyze (''.'', full_project))"
    by (simp add: doctor_clean) (simp add: path_exists_def full_project_def)
  note g' = g[unfolded host_gate_def]
  have "no_failure (gate_steps (project_analysers small_api full_json (\<lambda>_. []) (\<lambda>_ ks. ks) (\<lambda>_. full_project) ?base)
      (ho_clock h) ?cfg)"
    unfolding gate_clean [OF project_analysers_wf [OF wf]]
    using doctor by (simp add: static_plan_def project_analysers_def tidy_analysers_def
        full_project_arch full_project_clean)
  then have "gr_passed g" using gate_run_passed [OF g'] by (simp add: tidy_host_def)
  then show ?thesis using g by blast
qed

theorem gate_exit_guards_project_witness:
  "\<forall>(h :: (small_json, small_json, nat, nat) host) P.
     \<exists>oc. main_run (program_tools (tidy_host h)) P gate_cli = Some oc \<and> oc_code oc = 0
        \<and> (1, 0) \<in> layer_edges (build_index full_project) \<and> is_allowed_dependency 1 0
        \<and> pipeline_configured (read_topology small_api full_json (\<lambda>_. []) full_project)"
proof (intro allI)
  fix h :: "(small_json, small_json, nat, nat) host" and P
  obtain g where "host_gate (tidy_host h) \<lparr>gc_project_root = ''.'', gc_profile = Fast,
      gc_base_url = ''http://127.0.0.1:8080'', gc_fail_fast = False\<rparr> = Inr g" "gr_passed g"
    using tidy_host_gate by blast
  then obtain oc where oc: "main_run (program_tools (tidy_host h)) P gate_cli = Some oc" "oc_code oc = 0"
    by (simp add: main_run_def gate_cli_def gate_command_def program_tools_def Let_def judged_def print_text_def
        shown_def render_gate_def format_of_def printed_def)
  have cmd: "cli_command gate_cli = CmdQualityGate GateFast ''http://127.0.0.1:8080'' False" by (simp add: gate_cli_def)
  have ok: "orders_ok (ho_orders (tidy_host h))" by (simp add: tidy_host_def orders_ok_def)
  have smoke: "result_wf (ho_gate_smoke (tidy_host h) root url)" for root url
    by (simp add: tidy_host_def result_wf_def report_wf_new)
  note all = gate_exit_guards_project [OF ok smoke oc cmd refl]
  have "\<forall>(a, b)\<in>layer_edges (build_index full_project). is_allowed_dependency a b"
    "pipeline_configured (read_topology small_api full_json (\<lambda>_. []) full_project)"
    using all by (simp_all add: tidy_host_def)
  with full_project_edge oc
  show "\<exists>oc. main_run (program_tools (tidy_host h)) P gate_cli = Some oc \<and> oc_code oc = 0
        \<and> (1, 0) \<in> layer_edges (build_index full_project) \<and> is_allowed_dependency 1 0
        \<and> pipeline_configured (read_topology small_api full_json (\<lambda>_. []) full_project)" by auto
qed

end
